(* ===== verification/Prelude.thy ===== *)
theory Prelude
  imports Main "HOL-Library.Word" "HOL-Library.AList" "HOL-Library.Sublist"
begin

text \<open>
  What every component of the development shares: the types that stand for Go's
  types (identifiers, instants, durations, errors), Go maps as association lists with
  distinct keys, and the collections of rewrite rules the component proofs use.

  Go strings and byte slices are both \<^typ>\<open>string\<close> (a list of 8-bit characters), so the
  conversions between them are the identity. Go's \<^verbatim>\<open>int\<close>, \<^verbatim>\<open>int64\<close> and \<^verbatim>\<open>time.Duration\<close>
  values are \<^typ>\<open>int\<close>: every one the code computes is bounded far below \<open>2 ^ 63\<close>. An instant
  is the number of nanoseconds since the Unix epoch; one call of an operation reads
  the clock once (parameter \<open>now\<close>), also where the source calls \<^verbatim>\<open>time.Now\<close> several
  times in a row. Random values (fresh UUIDs, generated tokens) are arguments.
\<close>

named_theorems redis_defs \<comment> \<open>the operations of the Redis-backed stores, unfolded\<close>
named_theorems repo_defs \<comment> \<open>the operations of the Postgres repositories, unfolded\<close>
named_theorems key_neq \<comment> \<open>Redis keys of different families differ\<close>

section \<open>Scalars\<close>

type_synonym uuid = "128 word"

abbreviation uuid_Nil :: uuid where
  "uuid_Nil \<equiv> 0"

type_synonym time = int

type_synonym duration = int

abbreviation time_Second :: duration where
  "time_Second \<equiv> 1000000000"

abbreviation time_Minute :: duration where
  "time_Minute \<equiv> 60000000000"

abbreviation time_Hour :: duration where
  "time_Hour \<equiv> 3600000000000"

text \<open>\<^verbatim>\<open>Time.Unix\<close>: whole seconds since the epoch.\<close>

definition Unix :: "time \<Rightarrow> int" where
  "Unix t = t div time_Second"

lemma Unix_add_seconds [simp]: "Unix (t + n * time_Second) = Unix t + n"
  by (simp add: Unix_def)

lemma Unix_mono: "s \<le> t \<Longrightarrow> Unix s \<le> Unix t"
  unfolding Unix_def by (rule zdiv_mono1) simp_all

text \<open>
  Package \<^verbatim>\<open>github.com/google/uuid\<close> is not part of the repository: its printer and
  parser are a parameter, a record of two functions.
\<close>

record uuid_pkg =
  uuid_String :: "uuid \<Rightarrow> string"
  uuid_Parse :: "string \<Rightarrow> uuid option"

text \<open>\<open>id, _ := uuid.Parse(s)\<close>: the zero UUID where parsing fails.\<close>

definition uuid_Parse0 :: "uuid_pkg \<Rightarrow> string \<Rightarrow> uuid" where
  "uuid_Parse0 U s = (case uuid_Parse U s of None \<Rightarrow> uuid_Nil | Some u \<Rightarrow> u)"

locale uuid_format =
  fixes U :: uuid_pkg
  assumes parse_string: "uuid_Parse U (uuid_String U u) = Some u"
begin

lemma string_inject [simp]: "uuid_String U u = uuid_String U v \<longleftrightarrow> u = v"
  by (metis option.inject parse_string)

lemma parse0_string [simp]: "uuid_Parse0 U (uuid_String U u) = u"
  by (simp add: uuid_Parse0_def parse_string)

end

text \<open>
  A printer with the documented shape of the result (one string per UUID): the
  characters are the 128 bits. It instantiates the parameter in the witnesses.
\<close>

definition bits_uuid :: uuid_pkg where
  "bits_uuid = \<lparr>uuid_String = (\<lambda>u. map (\<lambda>n. if bit u n then CHR ''1'' else CHR ''0'') [0..<128]),
     uuid_Parse = (\<lambda>s. if length s = 128 \<and> set s \<subseteq> {CHR ''0'', CHR ''1''}
        then Some (horner_sum of_bool 2 (map (\<lambda>c. c = CHR ''1'') s)) else None)\<rparr>"

lemma bits_uuid_roundtrip: "uuid_Parse bits_uuid (uuid_String bits_uuid u) = Some u"
proof -
  have "map (\<lambda>n. (if bit u n then CHR ''1'' else CHR ''0'') = CHR ''1'') [0..<128] = map (bit u) [0..<128]"
    by simp
  moreover have "horner_sum of_bool 2 (map (bit u) [0..<128]) = u"
    by (simp add: horner_sum_bit_eq_take_bit take_bit_word_eq_self)
  ultimately show ?thesis
    by (auto simp: bits_uuid_def comp_def)
qed

interpretation bits_uuid: uuid_format bits_uuid
  by unfold_locales (rule bits_uuid_roundtrip)

section \<open>Errors\<close>

text \<open>
  A Go error value: a fresh one with a text (\<^verbatim>\<open>fmt.Errorf\<close> without \<^verbatim>\<open>%w\<close>), a package-level
  sentinel (\<^verbatim>\<open>var ErrX = errors.New(..)\<close>, compared by identity and named here by its
  variable), one that wraps another (\<^verbatim>\<open>fmt.Errorf("..: %w", err)\<close>), or one that an
  external service or library returned.
\<close>

datatype error =
    Errorf string
  | Sentinel string
  | Wrapf string error
  | External string

fun errors_Is :: "error \<Rightarrow> error \<Rightarrow> bool" where
  "errors_Is (Wrapf m e) t = (Wrapf m e = t \<or> errors_Is e t)"
| "errors_Is e t = (e = t)"

type_synonym 'a result = "error + 'a"

fun is_ok :: "'a result \<Rightarrow> bool" where
  "is_ok (Inl e) = False"
| "is_ok (Inr x) = True"

lemma is_ok_iff: "is_ok r \<longleftrightarrow> (\<exists>x. r = Inr x)"
  by (cases r) auto

text \<open>
  A handler's response: the status code of an error with the value of its field
  \<^verbatim>\<open>error\<close>, or the body of a success (status 200, 201 or 302, one per handler).
\<close>

datatype 'a response = Refused nat string | OK 'a

section \<open>Go maps\<close>

text \<open>
  A Go map is an association list with distinct keys (\<open>gomap_wf\<close>): \<open>map_of\<close> looks a key
  up, \<^const>\<open>AList.update\<close> assigns and \<^const>\<open>AList.delete\<close> deletes. A \<^verbatim>\<open>range\<close> loop visits the
  entries in list order, one of the orders Go may choose.
\<close>

definition gomap_wf :: "('k \<times> 'v) list \<Rightarrow> bool" where
  "gomap_wf m \<longleftrightarrow> distinct (map fst m)"

lemma gomap_wf_Nil [simp]: "gomap_wf []"
  by (simp add: gomap_wf_def)

lemma gomap_wf_update [simp]: "gomap_wf m \<Longrightarrow> gomap_wf (AList.update k v m)"
  by (simp add: gomap_wf_def distinct_update)

lemma gomap_wf_delete [simp]: "gomap_wf m \<Longrightarrow> gomap_wf (AList.delete k m)"
  by (simp add: gomap_wf_def distinct_delete)

lemma gomap_wf_filter [simp]: "gomap_wf m \<Longrightarrow> gomap_wf (filter P m)"
  by (simp add: gomap_wf_def distinct_map_filter)

lemma gomap_lookup_update [simp]:
  "map_of (AList.update k v m) k' = (if k' = k then Some v else map_of m k')"
  by (simp add: update_conv')

lemma gomap_lookup_delete [simp]:
  "map_of (AList.delete k m) k' = (if k' = k then None else map_of m k')"
  by (simp add: delete_conv')

lemma gomap_lookup_filter:
  assumes "gomap_wf m"
  shows "map_of (filter P m) k = (case map_of m k of None \<Rightarrow> None | Some v \<Rightarrow> if P (k, v) then Some v else None)"
  using assms
proof (induction m)
  case Nil
  then show ?case by simp
next
  case (Cons kv m)
  obtain k' v' where kv: "kv = (k', v')" by (cases kv)
  have "map_of m k' = None" using Cons.prems kv by (simp add: gomap_wf_def map_of_eq_None_iff)
  moreover have "map_of (filter P m) k' = None"
    using Cons.prems kv by (auto simp: gomap_wf_def map_of_eq_None_iff)
  ultimately show ?case using Cons kv by (auto simp: gomap_wf_def split: option.splits)
qed

section \<open>Lists\<close>

text \<open>
  The first row a query returns; \<open>pgx.ErrNoRows\<close> where it returns none. Also the shape
  of a search loop that returns the first element with a property.
\<close>

lemma find_eq_Some_mem: "find P xs = Some x \<Longrightarrow> x \<in> set xs \<and> P x"
  by (auto simp: find_Some_iff)

lemma find_NoneD: "find P xs = None \<Longrightarrow> x \<in> set xs \<Longrightarrow> \<not> P x"
  by (auto simp: find_None_iff)

lemma find_map_if_eq:
  "(\<And>x. x \<in> set xs \<Longrightarrow> P (f x) = P x) \<Longrightarrow> find P (map f xs) = map_option f (find P xs)"
  by (induction xs) auto

end
