(* ===== verification/GoStd.thy ===== *)
theory GoStd
  imports Prelude
begin

text \<open>
  The functions of Go's standard library the repository computes with: packages
  \<^verbatim>\<open>strings\<close>, \<^verbatim>\<open>strconv\<close> and the decimal verbs of \<^verbatim>\<open>fmt\<close>. White space and letter case are
  those of ASCII: bytes above 127 are neither trimmed nor folded.
\<close>

section \<open>Package strings\<close>

definition is_space :: "char \<Rightarrow> bool" where
  "is_space c \<longleftrightarrow> c \<in> {CHR '' '', CHR 0x09, CHR 0x0A, CHR 0x0B, CHR 0x0C, CHR 0x0D}"

definition strings_TrimRightFunc :: "(char \<Rightarrow> bool) \<Rightarrow> string \<Rightarrow> string" where
  "strings_TrimRightFunc P s = rev (dropWhile P (rev s))"

definition strings_TrimSpace :: "string \<Rightarrow> string" where
  "strings_TrimSpace s = dropWhile is_space (strings_TrimRightFunc is_space s)"

definition to_lower :: "char \<Rightarrow> char" where
  "to_lower c = (if 65 \<le> (of_char c :: nat) \<and> (of_char c :: nat) \<le> 90 then char_of (of_char c + 32 :: nat) else c)"

definition to_upper :: "char \<Rightarrow> char" where
  "to_upper c = (if 97 \<le> (of_char c :: nat) \<and> (of_char c :: nat) \<le> 122 then char_of (of_char c - 32 :: nat) else c)"

definition strings_ToLower :: "string \<Rightarrow> string" where
  "strings_ToLower s = map to_lower s"

definition strings_ToUpper :: "string \<Rightarrow> string" where
  "strings_ToUpper s = map to_upper s"

definition strings_EqualFold :: "string \<Rightarrow> string \<Rightarrow> bool" where
  "strings_EqualFold s t \<longleftrightarrow> strings_ToLower s = strings_ToLower t"

fun strings_Contains :: "string \<Rightarrow> string \<Rightarrow> bool" where
  "strings_Contains [] sub = (sub = [])"
| "strings_Contains (c # s) sub = (prefix sub (c # s) \<or> strings_Contains s sub)"

abbreviation strings_HasPrefix :: "string \<Rightarrow> string \<Rightarrow> bool" where
  "strings_HasPrefix s p \<equiv> prefix p s"

definition strings_TrimPrefix :: "string \<Rightarrow> string \<Rightarrow> string" where
  "strings_TrimPrefix s p = (if prefix p s then drop (length p) s else s)"

text \<open>\<^verbatim>\<open>strings.Split\<close> and \<^verbatim>\<open>strings.SplitN(s, sep, 2)\<close> for a separator of one character.\<close>

fun strings_Split :: "string \<Rightarrow> char \<Rightarrow> string list" where
  "strings_Split [] c = [[]]"
| "strings_Split (x # s) c =
     (if x = c then [] # strings_Split s c
      else (case strings_Split s c of [] \<Rightarrow> [[x]] | y # ys \<Rightarrow> (x # y) # ys))"

definition strings_SplitN2 :: "string \<Rightarrow> char \<Rightarrow> string list" where
  "strings_SplitN2 s c =
     (if c \<in> set s then [takeWhile (\<lambda>x. x \<noteq> c) s, tl (dropWhile (\<lambda>x. x \<noteq> c) s)] else [s])"

fun strings_Join :: "string list \<Rightarrow> string \<Rightarrow> string" where
  "strings_Join [] sep = []"
| "strings_Join [x] sep = x"
| "strings_Join (x # y # ys) sep = x @ sep @ strings_Join (y # ys) sep"

definition strings_Fields :: "string \<Rightarrow> string list" where
  "strings_Fields s = filter (\<lambda>w. w \<noteq> [])
     (strings_Split (map (\<lambda>c. if is_space c then CHR '' '' else c) s) (CHR '' ''))"

section \<open>Package strconv and the verb %d\<close>

definition digit_char :: "nat \<Rightarrow> char" where
  "digit_char d = char_of (48 + d)"

definition is_digit :: "char \<Rightarrow> bool" where
  "is_digit c \<longleftrightarrow> 48 \<le> (of_char c :: nat) \<and> (of_char c :: nat) \<le> 57"

definition digit_val :: "char \<Rightarrow> nat" where
  "digit_val c = of_char c - 48"

fun print_nat :: "nat \<Rightarrow> string" where
  "print_nat n = (if n < 10 then [digit_char n] else print_nat (n div 10) @ [digit_char (n mod 10)])"

declare print_nat.simps [simp del]

definition strconv_Itoa :: "int \<Rightarrow> string" where
  "strconv_Itoa i = (if i < 0 then CHR ''-'' # print_nat (nat (- i)) else print_nat (nat i))"

fun read_nat :: "nat \<Rightarrow> string \<Rightarrow> nat" where
  "read_nat acc [] = acc"
| "read_nat acc (c # s) = read_nat (acc * 10 + digit_val c) s"

text \<open>\<^verbatim>\<open>strconv.Atoi\<close>: an optional sign and at least one digit, in the range of 64 bits.\<close>

definition strconv_Atoi :: "string \<Rightarrow> int option" where
  "strconv_Atoi s =
     (let neg = (s \<noteq> [] \<and> hd s = CHR ''-'');
          ds = (if s \<noteq> [] \<and> (hd s = CHR ''-'' \<or> hd s = CHR ''+'') then tl s else s);
          v = (if neg then - int (read_nat 0 ds) else int (read_nat 0 ds))
      in if ds = [] \<or> \<not> list_all is_digit ds then None
         else if v < - (2 ^ 63) \<or> v \<ge> 2 ^ 63 then None
         else Some v)"

section \<open>Package encoding/hex\<close>

definition hex_digit :: "nat \<Rightarrow> char" where
  "hex_digit d = ''0123456789abcdef'' ! d"

definition hex_EncodeToString :: "string \<Rightarrow> string" where
  "hex_EncodeToString s = concat (map (\<lambda>c. [hex_digit (of_char c div 16), hex_digit (of_char c mod 16)]) s)"

section \<open>Laws\<close>

lemma strings_Contains_iff: "strings_Contains s sub \<longleftrightarrow> sublist sub s"
  by (induction s) (auto simp: sublist_Cons_right)

lemma last_dropWhile_eq: "dropWhile P xs \<noteq> [] \<Longrightarrow> last (dropWhile P xs) = last xs"
  by (induction xs) (auto split: if_splits)

lemma dropWhile_TrimRight_idem:
  "strings_TrimRightFunc P (dropWhile P (strings_TrimRightFunc P s)) = dropWhile P (strings_TrimRightFunc P s)"
proof (cases "dropWhile P (strings_TrimRightFunc P s) = []")
  case True
  then show ?thesis unfolding True by (simp add: strings_TrimRightFunc_def)
next
  case False
  let ?t = "strings_TrimRightFunc P s"
  have "last (dropWhile P ?t) = last ?t" using False by (rule last_dropWhile_eq)
  moreover have "?t \<noteq> []" using False by auto
  then have "\<not> P (last ?t)"
    unfolding strings_TrimRightFunc_def
    by (metis hd_dropWhile last_rev rev.simps(1))
  ultimately have "\<not> P (hd (rev (dropWhile P ?t)))" using False by (simp add: hd_rev)
  then have "dropWhile P (rev (dropWhile P ?t)) = rev (dropWhile P ?t)"
    using False by (cases "rev (dropWhile P ?t)") auto
  then show ?thesis by (simp only: strings_TrimRightFunc_def [of P "dropWhile P ?t"]) simp
qed

lemma TrimSpace_idem [simp]: "strings_TrimSpace (strings_TrimSpace s) = strings_TrimSpace s"
  by (simp add: strings_TrimSpace_def dropWhile_TrimRight_idem dropWhile_idem)

lemma to_lower_idem [simp]: "to_lower (to_lower c) = to_lower c"
  by (auto simp: to_lower_def of_char_of)

lemma ToLower_idem [simp]: "strings_ToLower (strings_ToLower s) = strings_ToLower s"
  by (simp add: strings_ToLower_def comp_def)

lemma is_space_to_lower [simp]: "is_space (to_lower c) \<longleftrightarrow> is_space c"
proof -
  have "is_space c \<longleftrightarrow> (of_char c :: nat) \<in> {32, 9, 10, 11, 12, 13}"
    for c unfolding is_space_def by (simp add: of_char_eq_iff [symmetric, where 'a = nat])
  then show ?thesis by (auto simp: to_lower_def of_char_of)
qed

lemma TrimSpace_ToLower: "strings_TrimSpace (strings_ToLower s) = strings_ToLower (strings_TrimSpace s)"
  by (simp add: strings_TrimSpace_def strings_TrimRightFunc_def strings_ToLower_def
      rev_map dropWhile_map comp_def)

lemma strings_Split_nonempty [simp]: "strings_Split s c \<noteq> []"
  by (induction s) (auto split: list.splits)

lemma strings_Split_no_sep: "c \<notin> set s \<Longrightarrow> strings_Split s c = [s]"
  by (induction s) auto

lemma strings_Split_append_sep:
  "c \<notin> set s \<Longrightarrow> strings_Split (s @ c # t) c = s # strings_Split t c"
  by (induction s) auto

lemma is_digit_digit_char [simp]: "d < 10 \<Longrightarrow> is_digit (digit_char d)"
  by (simp add: is_digit_def digit_char_def of_char_of)

lemma digit_val_digit_char [simp]: "d < 10 \<Longrightarrow> digit_val (digit_char d) = d"
  by (simp add: digit_val_def digit_char_def of_char_of)

lemma print_nat_digits: "list_all is_digit (print_nat n)"
proof (induction n rule: print_nat.induct)
  case (1 n)
  then show ?case by (cases "n < 10") (simp_all add: print_nat.simps [of n])
qed

lemma print_nat_nonempty [simp]: "print_nat n \<noteq> []"
  by (subst print_nat.simps) simp

lemma read_nat_append: "read_nat a (s @ t) = read_nat (read_nat a s) t"
  by (induction s arbitrary: a) auto

lemma read_print_nat [simp]: "read_nat 0 (print_nat n) = n"
proof (induction n rule: print_nat.induct)
  case (1 n)
  show ?case
  proof (cases "n < 10")
    case True
    then show ?thesis by (simp add: print_nat.simps [of n])
  next
    case False
    then show ?thesis using 1 by (simp add: print_nat.simps [of n] read_nat_append)
  qed
qed

lemma is_digit_not_sign: "is_digit c \<Longrightarrow> c \<noteq> CHR ''-'' \<and> c \<noteq> CHR ''+'' \<and> c \<noteq> CHR ''$'' \<and> c \<noteq> CHR '',''"
  by (auto simp: is_digit_def)

lemma print_nat_hd_not_sign: "hd (print_nat n) \<noteq> CHR ''-'' \<and> hd (print_nat n) \<noteq> CHR ''+''"
  using print_nat_digits [of n] is_digit_not_sign [of "hd (print_nat n)"]
  by (cases "print_nat n") auto

text \<open>Printing an integer of 64 bits and reading it back gives the integer.\<close>

lemma Atoi_Itoa:
  assumes "- (2 ^ 63) \<le> i" and "i < 2 ^ 63"
  shows "strconv_Atoi (strconv_Itoa i) = Some i"
  using assms print_nat_digits [of "nat i"] print_nat_digits [of "nat (- i)"]
    print_nat_hd_not_sign [of "nat i"]
  by (auto simp: strconv_Atoi_def strconv_Itoa_def Let_def)

end
