(* ===== verification/Domain.thy ===== *)
theory Domain
  imports GoStd Complex_Main "HOL-Library.Char_ord"
begin

text \<open>
  Package internal/domain: the entities, their validation and the password policy
  (entity.go), the OAuth2 client (client.go), roles and permissions (authz.go), MFA
  configuration (mfa.go) and audit entries (admin.go). Typed strings of the source
  (\<^verbatim>\<open>UserStatus\<close>, \<^verbatim>\<open>ClientType\<close>, ...) stay strings: a value outside the declared constants is
  possible there and the code tests for it. JSON documents the code only passes through
  are strings. \<^verbatim>\<open>mail.ParseAddress\<close> is the parameter \<open>parseAddress\<close> (whether it accepts).
\<close>

section \<open>entity.go: users\<close>

record User =
  u_ID :: uuid
  u_OrgID :: uuid
  u_Username :: string
  u_Email :: string
  u_FullName :: string
  u_PreferredLocale :: string
  u_Status :: string
  u_EmailVerified :: bool
  u_MFAEnabled :: bool
  u_MFAMethod :: string
  u_MFAResetRequired :: bool
  u_RequirePasswordChange :: bool
  u_FailedLoginAttempts :: int
  u_LockedUntil :: "time option"
  u_LastLoginAt :: "time option"
  u_LastLoginIP :: string
  u_PasswordChangedAt :: "time option"
  u_CreatedAt :: time
  u_UpdatedAt :: time
  u_DeletedAt :: "time option"
  u_CreatedBy :: string
  u_UpdatedBy :: string

definition User0 :: User where
  "User0 = \<lparr>u_ID = uuid_Nil, u_OrgID = uuid_Nil, u_Username = [], u_Email = [], u_FullName = [],
     u_PreferredLocale = [], u_Status = [], u_EmailVerified = False, u_MFAEnabled = False, u_MFAMethod = [],
     u_MFAResetRequired = False, u_RequirePasswordChange = False, u_FailedLoginAttempts = 0,
     u_LockedUntil = None, u_LastLoginAt = None, u_LastLoginIP = [], u_PasswordChangedAt = None,
     u_CreatedAt = 0, u_UpdatedAt = 0, u_DeletedAt = None, u_CreatedBy = [], u_UpdatedBy = []\<rparr>"

definition user_statuses :: "string list" where
  "user_statuses = [''created'', ''pending_verification'', ''active'', ''inactive'', ''locked'', ''suspended'', ''deleted'']"

definition NormalizeEmail :: "string \<Rightarrow> string" where
  "NormalizeEmail email = strings_ToLower (strings_TrimSpace email)"

definition isValidEmail :: "(string \<Rightarrow> bool) \<Rightarrow> string \<Rightarrow> bool" where
  "isValidEmail parseAddress email = parseAddress email"

text \<open>\<^verbatim>\<open>fmt.Errorf("...: %s", errs)\<close> prints a slice in brackets, separated by spaces.\<close>

definition fmt_strings :: "string list \<Rightarrow> string" where
  "fmt_strings ss = ''['' @ strings_Join ss '' '' @ '']''"

text \<open>\<^verbatim>\<open>Validate\<close> also defaults the locale of the user it is called on.\<close>

definition User_Validate :: "(string \<Rightarrow> bool) \<Rightarrow> User \<Rightarrow> User \<times> unit result" where
  "User_Validate parseAddress u0 =
     (let u = (if u_PreferredLocale u0 = [] then u0\<lparr>u_PreferredLocale := ''id''\<rparr> else u0);
          errs = (if u_OrgID u = uuid_Nil then [''org_id is required''] else []) @
            (if length (u_Username u) < 3 \<or> length (u_Username u) > 100
             then [''username must be between 3 and 100 characters''] else []) @
            (if \<not> isValidEmail parseAddress (NormalizeEmail (u_Email u)) then [''invalid email format''] else []) @
            (if length (u_FullName u) < 1 \<or> length (u_FullName u) > 255
             then [''full_name must be between 1 and 255 characters''] else []) @
            (if u_PreferredLocale u \<noteq> ''id'' \<and> u_PreferredLocale u \<noteq> ''en''
             then [''preferred_locale must be one of: id, en''] else []) @
            (if u_Status u \<notin> set user_statuses then [''invalid user status: '' @ u_Status u] else [])
      in (u, if errs \<noteq> [] then Inl (Errorf (''user validation failed: '' @ fmt_strings errs)) else Inr ()))"

definition User_IsLocked :: "time \<Rightarrow> User \<Rightarrow> bool" where
  "User_IsLocked now u = (case u_LockedUntil u of None \<Rightarrow> False | Some t \<Rightarrow> now < t)"

definition User_CanLogin :: "time \<Rightarrow> User \<Rightarrow> bool" where
  "User_CanLogin now u \<longleftrightarrow> u_Status u = ''active'' \<and> \<not> User_IsLocked now u"

record UserCredential =
  uc_ID :: uuid
  uc_UserID :: uuid
  uc_CredentialType :: string
  uc_SecretHash :: string
  uc_CreatedAt :: time
  uc_ExpiresAt :: "time option"

record UserCredentialHistory =
  uh_ID :: uuid
  uh_UserID :: uuid
  uh_CredentialType :: string
  uh_SecretHash :: string
  uh_RetiredAt :: time

record VerificationToken =
  vt_ID :: uuid
  vt_UserID :: uuid
  vt_Token :: string
  vt_TokenType :: string
  vt_ExpiresAt :: time
  vt_UsedAt :: "time option"
  vt_CreatedAt :: time

abbreviation TokenTypeEmailVerification :: string where
  "TokenTypeEmailVerification \<equiv> ''email_verification''"

abbreviation TokenTypePasswordRecovery :: string where
  "TokenTypePasswordRecovery \<equiv> ''password_recovery''"

definition VerificationToken_IsValid :: "time \<Rightarrow> VerificationToken \<Rightarrow> bool" where
  "VerificationToken_IsValid now t = (if vt_UsedAt t \<noteq> None then False else now < vt_ExpiresAt t)"

section \<open>entity.go: the password policy\<close>

record PasswordPolicy =
  pp_MinLength :: int
  pp_RequireUppercase :: bool
  pp_RequireLowercase :: bool
  pp_RequireNumber :: bool
  pp_RequireSymbol :: bool
  pp_MaxAgeDays :: int
  pp_HistoryCount :: int
  pp_PasswordCannotContainUsername :: bool
  pp_PasswordCannotContainEmail :: bool

definition char_between :: "char \<Rightarrow> char \<Rightarrow> char \<Rightarrow> bool" where
  "char_between lo hi c \<longleftrightarrow> (of_char lo :: nat) \<le> of_char c \<and> (of_char c :: nat) \<le> of_char hi"

definition containsUppercase :: "string \<Rightarrow> bool" where
  "containsUppercase s = list_ex (char_between (CHR ''A'') (CHR ''Z'')) s"

definition containsLowercase :: "string \<Rightarrow> bool" where
  "containsLowercase s = list_ex (char_between (CHR ''a'') (CHR ''z'')) s"

definition containsNumber :: "string \<Rightarrow> bool" where
  "containsNumber s = list_ex (char_between (CHR ''0'') (CHR ''9'')) s"

definition containsSymbol :: "string \<Rightarrow> bool" where
  "containsSymbol s = list_ex (\<lambda>c. \<not> char_between (CHR ''A'') (CHR ''Z'') c \<and> \<not> char_between (CHR ''a'') (CHR ''z'') c \<and>
     \<not> char_between (CHR ''0'') (CHR ''9'') c \<and> c \<noteq> CHR '' '') s"

text \<open>The loop over the offsets \<open>i <= len(s) - len(substr)\<close>.\<close>

definition contains :: "string \<Rightarrow> string \<Rightarrow> bool" where
  "contains s substr = list_ex (\<lambda>i. take (length substr) (drop i s) = substr) [0..<length s + 1 - length substr]"

definition containsString :: "string \<Rightarrow> string \<Rightarrow> bool" where
  "containsString s substr \<longleftrightarrow> length substr > 0 \<and> contains s substr"

definition policy_errors :: "PasswordPolicy \<Rightarrow> string \<Rightarrow> string \<Rightarrow> string \<Rightarrow> string list" where
  "policy_errors p password username email =
     (if int (length password) < pp_MinLength p
      then [''password must be at least '' @ strconv_Itoa (pp_MinLength p) @ '' characters''] else []) @
     (if pp_RequireUppercase p \<and> \<not> containsUppercase password
      then [''password must contain at least one uppercase letter''] else []) @
     (if pp_RequireLowercase p \<and> \<not> containsLowercase password
      then [''password must contain at least one lowercase letter''] else []) @
     (if pp_RequireNumber p \<and> \<not> containsNumber password then [''password must contain at least one number''] else []) @
     (if pp_RequireSymbol p \<and> \<not> containsSymbol password then [''password must contain at least one symbol''] else []) @
     (if pp_PasswordCannotContainUsername p \<and> containsString password username
      then [''password cannot contain username''] else []) @
     (if pp_PasswordCannotContainEmail p \<and> containsString password email
      then [''password cannot contain email''] else [])"

definition PasswordPolicy_Validate :: "PasswordPolicy \<Rightarrow> string \<Rightarrow> string \<Rightarrow> string \<Rightarrow> unit result" where
  "PasswordPolicy_Validate p password username email =
     (let errs = policy_errors p password username email
      in if errs \<noteq> [] then Inl (Errorf (''password validation failed: '' @ fmt_strings errs)) else Inr ())"

definition DefaultPasswordPolicy :: PasswordPolicy where
  "DefaultPasswordPolicy = \<lparr>pp_MinLength = 8, pp_RequireUppercase = True, pp_RequireLowercase = True,
     pp_RequireNumber = True, pp_RequireSymbol = False, pp_MaxAgeDays = 90, pp_HistoryCount = 5,
     pp_PasswordCannotContainUsername = True, pp_PasswordCannotContainEmail = True\<rparr>"

section \<open>entity.go: branches\<close>

record BranchType =
  bt_ID :: uuid
  bt_OrgID :: uuid
  bt_Code :: string
  bt_Label :: string
  bt_ShortCode :: string
  bt_Level :: int
  bt_IsOperational :: bool
  bt_CanHaveChildren :: bool
  bt_SortOrder :: int
  bt_CreatedAt :: time
  bt_UpdatedAt :: time

definition BranchType_ValidateCode :: "BranchType \<Rightarrow> bool" where
  "BranchType_ValidateCode bt \<longleftrightarrow> length (bt_Code bt) \<ge> 2 \<and> length (bt_Code bt) \<le> 50"

record Branch =
  b_ID :: uuid
  b_OrgID :: uuid
  b_BranchCode :: string
  b_Name :: string
  b_Active :: bool
  b_UpdatedAt :: time

definition Branch_ValidateCode :: "Branch \<Rightarrow> bool" where
  "Branch_ValidateCode b \<longleftrightarrow> length (b_BranchCode b) \<ge> 2 \<and> length (b_BranchCode b) \<le> 20"

record UserBranchAssignment =
  uba_ID :: uuid
  uba_UserID :: uuid
  uba_BranchID :: uuid
  uba_BranchCode :: string
  uba_BranchName :: string
  uba_OrgID :: uuid
  uba_Role :: string
  uba_IsPrimary :: bool
  uba_AssignedBy :: uuid
  uba_AssignedAt :: time
  uba_RevokedAt :: "time option"
  uba_RevokedBy :: "uuid option"

definition UserBranchAssignment_IsActive :: "UserBranchAssignment \<Rightarrow> bool" where
  "UserBranchAssignment_IsActive a \<longleftrightarrow> uba_RevokedAt a = None"

section \<open>client.go\<close>

record Client =
  cl_ID :: uuid
  cl_ClientID :: string
  cl_OrgID :: uuid
  cl_Name :: string
  cl_Description :: string
  cl_AppURL :: string
  cl_IconName :: string
  cl_IconColor :: string
  cl_ClientType :: string
  cl_TokenEndpointAuthMethod :: string
  cl_AllowedScopes :: "string list"
  cl_AllowedRedirectURIs :: "string list"
  cl_AllowedOrigins :: "string list"
  cl_ClientSecretHash :: string
  cl_PublicKeyJWK :: string
  cl_TokenExpiration :: int
  cl_RefreshTokenExpiration :: int
  cl_AllowMultipleTokens :: bool
  cl_SkipConsentScreen :: bool
  cl_IsActive :: bool
  cl_CreatedAt :: time
  cl_UpdatedAt :: time

record AppEntry =
  app_ClientID :: string
  app_Name :: string
  app_Description :: string
  app_AppURL :: string
  app_IconName :: string
  app_IconColor :: string

definition IsConfidential :: "Client \<Rightarrow> bool" where
  "IsConfidential c \<longleftrightarrow> cl_TokenEndpointAuthMethod c \<noteq> ''none''"

definition AllowedGrants :: "Client \<Rightarrow> string list" where
  "AllowedGrants c =
     (if cl_ClientType c = ''machine'' then [''client_credentials'']
      else if cl_ClientType c \<in> {''web'', ''spa'', ''native''} then [''authorization_code'', ''refresh_token'']
      else [])"

definition HasGrant :: "Client \<Rightarrow> string \<Rightarrow> bool" where
  "HasGrant c grant = list_ex (\<lambda>g. g = grant) (AllowedGrants c)"

definition normalizeURI :: "string \<Rightarrow> string" where
  "normalizeURI uri = strings_TrimRightFunc (\<lambda>c. c = CHR ''/'') (strings_TrimSpace uri)"

definition ValidateRedirectURI :: "Client \<Rightarrow> string \<Rightarrow> bool" where
  "ValidateRedirectURI c uri = list_ex (\<lambda>allowed. normalizeURI allowed = normalizeURI uri) (cl_AllowedRedirectURIs c)"

definition ValidateScope :: "Client \<Rightarrow> string list \<Rightarrow> bool" where
  "ValidateScope c requested =
     (let allowed = fold (\<lambda>s m. AList.update s True m) (cl_AllowedScopes c) []
      in list_all (\<lambda>r. map_of allowed r = Some True) requested)"

section \<open>authz.go\<close>

record Role =
  ro_ID :: uuid
  ro_OrgID :: uuid
  ro_Code :: string
  ro_Name :: string
  ro_Description :: string
  ro_IsDefault :: bool
  ro_Permissions :: "string list"
  ro_CreatedAt :: time
  ro_UpdatedAt :: time

definition Role_Validate :: "Role \<Rightarrow> unit result" where
  "Role_Validate r =
     (if ro_OrgID r = uuid_Nil then Inl (Errorf ''org_id is required'')
      else if length (ro_Name r) < 2 \<or> length (ro_Name r) > 100
        then Inl (Errorf ''name must be between 2 and 100 characters'')
      else Inr ())"

record Permission =
  pe_ID :: uuid
  pe_Code :: string
  pe_Name :: string
  pe_Description :: string
  pe_ResourceType :: string
  pe_CreatedAt :: time

definition Permission_Validate :: "Permission \<Rightarrow> unit result" where
  "Permission_Validate p =
     (if length (pe_Code p) < 2 \<or> length (pe_Code p) > 100
      then Inl (Errorf ''code must be between 2 and 100 characters'') else Inr ())"

record UserRole =
  ur_ID :: uuid
  ur_UserID :: uuid
  ur_RoleID :: uuid
  ur_BranchID :: "uuid option"
  ur_OrgID :: uuid
  ur_GrantedBy :: uuid
  ur_GrantedAt :: time
  ur_RevokedAt :: "time option"
  ur_RevokedBy :: "uuid option"

definition UserRole_IsActive :: "UserRole \<Rightarrow> bool" where
  "UserRole_IsActive ur \<longleftrightarrow> ur_RevokedAt ur = None"

text \<open>
  A value of type \<^verbatim>\<open>interface{}\<close>, as JSON decoding and the code produce them; \<^verbatim>\<open>JSON\<close> is
  \<^verbatim>\<open>map[string]interface{}\<close>. The finite values of \<^verbatim>\<open>float64\<close> are rational numbers.
\<close>

datatype any = AnyNil | AnyString string | AnyInt int | AnyFloat rat | AnyBool bool | AnySlice "any list" | AnyMap "(string \<times> any) list"

type_synonym JSON = "(string \<times> any) list"

record ABACPolicy =
  ap_ID :: uuid
  ap_OrgID :: uuid
  ap_Name :: string
  ap_Description :: string
  ap_Priority :: int
  ap_Effect :: string
  ap_Conditions :: JSON
  ap_Fields :: "string list"
  ap_CreatedAt :: time
  ap_UpdatedAt :: time

definition ABACPolicy_Validate :: "ABACPolicy \<Rightarrow> unit result" where
  "ABACPolicy_Validate p =
     (if ap_OrgID p = uuid_Nil then Inl (Errorf ''org_id is required'')
      else if length (ap_Name p) < 2 \<or> length (ap_Name p) > 100
        then Inl (Errorf ''name must be between 2 and 100 characters'')
      else if ap_Effect p \<noteq> ''allow'' \<and> ap_Effect p \<noteq> ''deny'' then Inl (Errorf (''effect must be '' @ [CHR 39] @ ''allow'' @ [CHR 39] @ '' or '' @ [CHR 39] @ ''deny'' @ [CHR 39]))
      else Inr ())"

record FieldMask =
  fm_Field :: string
  fm_MaskValue :: string
  fm_Reason :: string

text \<open>\<open>actx_Attributes = None\<close> is the nil map.\<close>

record AuthContext =
  actx_UserID :: uuid
  actx_OrgID :: uuid
  actx_BranchID :: uuid
  actx_Roles :: "string list"
  actx_Permissions :: "string list"
  actx_BranchScope :: string
  actx_FieldMasks :: "FieldMask list"
  actx_Attributes :: "(string \<times> string) list option"

record AuthorizationResult =
  res_Allowed :: bool
  res_Reason :: string
  res_FieldMasks :: "FieldMask list"

section \<open>mfa.go\<close>

text \<open>A nil slice is \<open>None\<close>; its length is 0.\<close>

definition slice_len :: "'a list option \<Rightarrow> nat" where
  "slice_len s = (case s of None \<Rightarrow> 0 | Some xs \<Rightarrow> length xs)"

definition the_slice :: "'a list option \<Rightarrow> 'a list" where
  "the_slice s = (case s of None \<Rightarrow> [] | Some xs \<Rightarrow> xs)"

record MFAConfig =
  mc_ID :: uuid
  mc_UserID :: uuid
  mc_TOTPSecretEncrypted :: "string option"
  mc_TOTPSecretIV :: "string option"
  mc_IsTOTPEnabled :: bool
  mc_IsEmailOTPEnabled :: bool
  mc_IsBackupCodesEnabled :: bool
  mc_BackupCodesHash :: "string list option"
  mc_MFAEnabledAt :: "time option"
  mc_CreatedAt :: time
  mc_UpdatedAt :: time

definition HasTOTP :: "MFAConfig \<Rightarrow> bool" where
  "HasTOTP m \<longleftrightarrow> mc_IsTOTPEnabled m \<and> slice_len (mc_TOTPSecretEncrypted m) > 0"

definition HasBackupCodes :: "MFAConfig \<Rightarrow> bool" where
  "HasBackupCodes m \<longleftrightarrow> mc_IsBackupCodesEnabled m \<and> slice_len (mc_BackupCodesHash m) > 0"

definition IsFullyEnabled :: "MFAConfig \<Rightarrow> bool" where
  "IsFullyEnabled m \<longleftrightarrow> (mc_IsTOTPEnabled m \<and> slice_len (mc_TOTPSecretEncrypted m) > 0) \<or> mc_IsEmailOTPEnabled m \<or>
     (mc_IsBackupCodesEnabled m \<and> slice_len (mc_BackupCodesHash m) > 0)"

record EmailOTPCode =
  eo_ID :: uuid
  eo_UserID :: uuid
  eo_Code :: string
  eo_Purpose :: string
  eo_ExpiresAt :: time
  eo_UsedAt :: "time option"
  eo_Attempts :: int
  eo_CreatedAt :: time

definition EmailOTPCode_IsValid :: "time \<Rightarrow> EmailOTPCode \<Rightarrow> bool" where
  "EmailOTPCode_IsValid now e = (if eo_UsedAt e \<noteq> None then False else now < eo_ExpiresAt e)"

definition EmailOTPCode_IsExpired :: "time \<Rightarrow> EmailOTPCode \<Rightarrow> bool" where
  "EmailOTPCode_IsExpired now e \<longleftrightarrow> eo_ExpiresAt e < now"

section \<open>admin.go\<close>

record AuditLog =
  al_ID :: uuid
  al_OrgID :: uuid
  al_ActorID :: uuid
  al_ActorEmail :: string
  al_Action :: string
  al_ResourceType :: string
  al_ResourceID :: string
  al_OldValue :: "JSON option"
  al_NewValue :: "JSON option"
  al_IPAddress :: string
  al_UserAgent :: string
  al_CreatedAt :: time

record AuditLogFilter =
  af_OrgID :: "uuid option"
  af_ActorID :: "uuid option"
  af_Action :: string
  af_ResourceType :: string
  af_ResourceID :: string
  af_BranchID :: "uuid option"
  af_FromDate :: "time option"
  af_ToDate :: "time option"
  af_Limit :: int
  af_Offset :: int

section \<open>Laws\<close>

text \<open>The substring loop finds exactly the contiguous sublists.\<close>

lemma contains_sublist: "contains s sub \<longleftrightarrow> sublist sub s"
proof
  assume "contains s sub"
  then obtain i where "take (length sub) (drop i s) = sub" by (auto simp: contains_def list_ex_iff)
  then show "sublist sub s"
    by (metis append_take_drop_id sublist_appendI)
next
  assume "sublist sub s"
  then obtain p q where s: "s = p @ sub @ q" by (auto simp: sublist_def)
  then have "length p \<in> set [0..<length s + 1 - length sub]" by simp
  moreover have "take (length sub) (drop (length p) s) = sub" using s by simp
  ultimately show "contains s sub" by (auto simp: contains_def list_ex_iff)
qed

lemma ValidateScope_subset: "ValidateScope c requested \<longleftrightarrow> set requested \<subseteq> set (cl_AllowedScopes c)"
proof -
  have "map_of (fold (\<lambda>s m. AList.update s True m) ss m) r = Some True \<longleftrightarrow> r \<in> set ss \<or> map_of m r = Some True"
    for ss m and r :: string
    by (induction ss arbitrary: m) auto
  then show ?thesis by (auto simp: ValidateScope_def Let_def list_all_iff)
qed

text \<open>
  A password passes \<^verbatim>\<open>PasswordPolicy.Validate\<close> with the default policy exactly when it
  has at least eight bytes, an upper-case letter, a lower-case letter and a digit, and
  contains neither a non-empty username nor a non-empty email address as a substring.
\<close>

theorem default_policy_accepts_iff:
  "PasswordPolicy_Validate DefaultPasswordPolicy password username email = Inr () \<longleftrightarrow>
     8 \<le> length password \<and> (\<exists>c \<in> set password. CHR ''A'' \<le> c \<and> c \<le> CHR ''Z'') \<and>
     (\<exists>c \<in> set password. CHR ''a'' \<le> c \<and> c \<le> CHR ''z'') \<and> (\<exists>c \<in> set password. CHR ''0'' \<le> c \<and> c \<le> CHR ''9'') \<and>
     \<not> (username \<noteq> [] \<and> sublist username password) \<and> \<not> (email \<noteq> [] \<and> sublist email password)"
  by (auto simp: PasswordPolicy_Validate_def policy_errors_def DefaultPasswordPolicy_def Let_def containsUppercase_def
      containsLowercase_def containsNumber_def containsString_def contains_sublist list_ex_iff char_between_def less_eq_char_def)

end
