(* ===== verification/Postgres.thy ===== *)
theory Postgres
  imports Domain "HOL-Library.Multiset"
begin

text \<open>
  Package internal/store/postgres, first part: the database, and the repositories of
  users, credentials, verification tokens, MFA configurations and one-time codes
  (repository.go). A repository method is one SQL statement (or one transaction); it is
  translated into a function on a record of tables. The constraints (primary keys, UNIQUE,
  foreign keys, enumerations, column lengths) are those of the migrations. A timestamp
  column keeps microseconds.

  Two tables have two schemas in the repository. The statements on \<^verbatim>\<open>verification_tokens\<close>
  name the column \<^verbatim>\<open>token\<close> and those on \<^verbatim>\<open>email_otp_codes\<close> the column \<^verbatim>\<open>code\<close>, which only the
  migrations under migrations/.archive create; migrations/20260613000008 and
  20260613000009 have \<^verbatim>\<open>code_hash\<close> and \<^verbatim>\<open>token_hash\<close>. \<open>db_archived\<close> says which of the two the
  database was migrated with: without it, every statement that names one of the two
  columns is refused by the server.

  \<open>db_down\<close>: the driver reports an error for every statement. \<open>db_scan\<close>: the physical order
  the server reads rows in, which decides between rows an \<^verbatim>\<open>ORDER BY\<close> makes equal. A
  query without \<^verbatim>\<open>ORDER BY\<close> returns its rows in insertion order.
\<close>

section \<open>The database\<close>

record user_role_row =
  urr_ID :: uuid
  urr_UserID :: uuid
  urr_RoleID :: uuid
  urr_OrgID :: uuid
  urr_BranchID :: "uuid option"
  urr_GrantedBy :: string
  urr_GrantedAt :: time
  urr_RevokedAt :: "time option"
  urr_RevokedBy :: "string option"

text \<open>\<^verbatim>\<open>AuthCode\<close> of internal/service/oauth2/authcode.go, the row type of the authorization codes.\<close>

record AuthCode =
  ac_Code :: string
  ac_ClientID :: string
  ac_RedirectURI :: string
  ac_Scope :: string
  ac_UserID :: uuid
  ac_Username :: string
  ac_Email :: string
  ac_OrgID :: uuid
  ac_Roles :: "string list"
  ac_BranchID :: string
  ac_CodeChallenge :: string
  ac_CodeChallengeMethod :: string
  ac_ExpiresAt :: time
  ac_CodeUsed :: bool

record db =
  db_down :: bool
  db_archived :: bool
  db_scan :: "nat list"
  t_organizations :: "uuid list"
  t_users :: "User list"
  t_user_credentials :: "UserCredential list"
  t_user_credential_history :: "UserCredentialHistory list"
  t_verification_tokens :: "VerificationToken list"
  t_mfa_configs :: "MFAConfig list"
  t_email_otp_codes :: "EmailOTPCode list"
  t_roles :: "Role list"
  t_permissions :: "Permission list"
  t_role_permissions :: "(uuid \<times> uuid) list"
  t_user_roles :: "user_role_row list"
  t_user_branch_assignments :: "UserBranchAssignment list"
  t_branches :: "Branch list"
  t_branch_default_roles :: "(uuid \<times> uuid \<times> bool) list"
  t_oauth2_clients :: "Client list"
  t_oauth2_authorization_codes :: "AuthCode list"
  t_audit_logs :: "AuditLog list"

text \<open>A database with one organization and no other rows, created by the current migrations.\<close>

definition db_empty :: db where
  "db_empty = \<lparr>db_down = False, db_archived = False, db_scan = [], t_organizations = [1], t_users = [], t_user_credentials = [], t_user_credential_history = [],
     t_verification_tokens = [], t_mfa_configs = [], t_email_otp_codes = [], t_roles = [], t_permissions = [], t_role_permissions = [],
     t_user_roles = [], t_user_branch_assignments = [], t_branches = [], t_branch_default_roles = [], t_oauth2_clients = [], t_oauth2_authorization_codes = [], t_audit_logs = []\<rparr>"

definition pgx_ErrNoRows :: error where
  "pgx_ErrNoRows = Sentinel ''pgx.ErrNoRows''"

definition pg_conn_error :: error where
  "pg_conn_error = External ''connection''"

definition pg_unique :: error where
  "pg_unique = External ''unique_violation''"

definition pg_fk :: error where
  "pg_fk = External ''foreign_key_violation''"

definition pg_invalid :: error where
  "pg_invalid = External ''invalid_text_representation''"

definition pg_not_null :: error where
  "pg_not_null = External ''not_null_violation''"

definition pg_too_long :: error where
  "pg_too_long = External ''string_data_right_truncation''"

definition pg_undefined_column :: error where
  "pg_undefined_column = External ''undefined_column''"

definition pg_ts :: "time \<Rightarrow> time" where
  "pg_ts t = t div 1000 * 1000"

text \<open>\<^verbatim>\<open>Exec\<close>: the statement's effect on the tables, or the error it fails with.\<close>

definition pg_Exec :: "string \<Rightarrow> db \<Rightarrow> db result \<Rightarrow> db \<times> unit result" where
  "pg_Exec op db eff = (if db_down db then (db, Inl (Wrapf op pg_conn_error))
     else case eff of Inl e \<Rightarrow> (db, Inl (Wrapf op e)) | Inr db' \<Rightarrow> (db', Inr ()))"

text \<open>\<^verbatim>\<open>QueryRow(..).Scan(..)\<close>: the first row.\<close>

definition pg_QueryRow :: "string \<Rightarrow> db \<Rightarrow> 'a list \<Rightarrow> 'a result" where
  "pg_QueryRow op db rows = (if db_down db then Inl (Wrapf op pg_conn_error)
     else case rows of [] \<Rightarrow> Inl (Wrapf op pgx_ErrNoRows) | r # _ \<Rightarrow> Inr r)"

definition pg_Query :: "string \<Rightarrow> db \<Rightarrow> 'a list \<Rightarrow> 'a list result" where
  "pg_Query op db rows = (if db_down db then Inl (Wrapf op pg_conn_error) else Inr rows)"

text \<open>\<^verbatim>\<open>QueryRow(..).Scan(..)\<close> of a statement that names a column of the archived schema.\<close>

definition pg_QueryRow_archived :: "string \<Rightarrow> db \<Rightarrow> 'a list \<Rightarrow> 'a result" where
  "pg_QueryRow_archived op db rows = (if \<not> db_down db \<and> \<not> db_archived db then Inl (Wrapf op pg_undefined_column)
     else pg_QueryRow op db rows)"

text \<open>
  The clauses of the statements: \<^verbatim>\<open>UPDATE .. WHERE\<close>, \<^verbatim>\<open>ORDER BY\<close>, \<^verbatim>\<open>ORDER BY .. DESC\<close>, \<^verbatim>\<open>LIMIT\<close>. Rows
  with equal keys come in the order the server reads them, which no statement fixes:
  \<open>heap_order\<close> reads the rows in the order \<open>scan\<close> gives their positions.
\<close>

definition sql_update :: "('a \<Rightarrow> bool) \<Rightarrow> ('a \<Rightarrow> 'a) \<Rightarrow> 'a list \<Rightarrow> 'a list" where
  "sql_update P f rows = map (\<lambda>r. if P r then f r else r) rows"

definition heap_order :: "nat list \<Rightarrow> 'a list \<Rightarrow> 'a list" where
  "heap_order scan rows = map snd (sort_key (\<lambda>(i, _). if i < length scan then scan ! i else i) (enumerate 0 rows))"

definition order_by :: "nat list \<Rightarrow> ('a \<Rightarrow> 'b::linorder) \<Rightarrow> 'a list \<Rightarrow> 'a list" where
  "order_by scan key rows = sort_key key (heap_order scan rows)"

definition order_desc :: "nat list \<Rightarrow> ('a \<Rightarrow> int) \<Rightarrow> 'a list \<Rightarrow> 'a list" where
  "order_desc scan key rows = order_by scan (\<lambda>r. - key r) rows"

definition sql_limit :: "int \<Rightarrow> int \<Rightarrow> 'a list \<Rightarrow> 'a list" where
  "sql_limit n k rows = take (nat n) (drop (nat k) rows)"

section \<open>UserRepository\<close>

definition users_mfa_methods :: "string list" where
  "users_mfa_methods = [[], ''totp'', ''email_otp'']"

text \<open>The constraints on the columns of one row of \<^verbatim>\<open>users\<close>, and against the other rows.\<close>

definition users_check :: "db \<Rightarrow> User \<Rightarrow> error option" where
  "users_check db u =
     (if length (u_Username u) > 100 \<or> length (u_Email u) > 255 \<or> length (u_FullName u) > 255 then Some pg_too_long
      else if u_PreferredLocale u \<notin> {''id'', ''en''} \<or> u_Status u \<notin> set user_statuses \<or>
        u_MFAMethod u \<notin> set users_mfa_methods then Some pg_invalid
      else if \<exists>r \<in> set (t_users db). u_ID r \<noteq> u_ID u \<and> (u_Username r = u_Username u \<or> u_Email r = u_Email u)
        then Some pg_unique
      else None)"

definition Users_Create :: "db \<Rightarrow> User \<Rightarrow> db \<times> unit result" where
  "Users_Create db user = pg_Exec ''postgres.UserRepository.Create'' db
     (let row = user\<lparr>u_LockedUntil := None, u_LastLoginAt := None, u_LastLoginIP := [], u_PasswordChangedAt := None,
            u_CreatedAt := pg_ts (u_CreatedAt user), u_UpdatedAt := pg_ts (u_UpdatedAt user), u_DeletedAt := None,
            u_CreatedBy := ''system'', u_UpdatedBy := ''system''\<rparr>
      in case users_check db row of
           Some e \<Rightarrow> Inl e
         | None \<Rightarrow>
             if u_ID user \<in> u_ID ` set (t_users db) then Inl pg_unique
             else if u_OrgID user \<notin> set (t_organizations db) then Inl pg_fk
             else Inr (db\<lparr>t_users := t_users db @ [row]\<rparr>))"

definition live_users :: "db \<Rightarrow> User list" where
  "live_users db = filter (\<lambda>u. u_DeletedAt u = None) (t_users db)"

definition Users_GetByID :: "db \<Rightarrow> uuid \<Rightarrow> User result" where
  "Users_GetByID db i = pg_QueryRow ''postgres.UserRepository.GetByID'' db (filter (\<lambda>u. u_ID u = i) (live_users db))"

definition Users_GetByUsername :: "db \<Rightarrow> string \<Rightarrow> User result" where
  "Users_GetByUsername db username =
     pg_QueryRow ''postgres.UserRepository.GetByUsername'' db (filter (\<lambda>u. u_Username u = username) (live_users db))"

definition Users_GetByEmail :: "db \<Rightarrow> string \<Rightarrow> User result" where
  "Users_GetByEmail db email =
     pg_QueryRow ''postgres.UserRepository.GetByEmail'' db (filter (\<lambda>u. u_Email u = email) (live_users db))"

text \<open>\<open>inet\<close> is the server's cast \<open>::inet\<close> of a non-empty text (\<open>None\<close>: not an address).\<close>

definition users_set :: "(string \<Rightarrow> string option) \<Rightarrow> User \<Rightarrow> User \<Rightarrow> User" where
  "users_set inet user r = r
     \<lparr>u_Username := u_Username user, u_Email := u_Email user, u_FullName := u_FullName user,
      u_PreferredLocale := u_PreferredLocale user, u_Status := u_Status user,
      u_EmailVerified := u_EmailVerified user, u_MFAEnabled := u_MFAEnabled user, u_MFAMethod := u_MFAMethod user,
      u_MFAResetRequired := u_MFAResetRequired user, u_RequirePasswordChange := u_RequirePasswordChange user,
      u_FailedLoginAttempts := u_FailedLoginAttempts user, u_LockedUntil := map_option pg_ts (u_LockedUntil user),
      u_LastLoginAt := map_option pg_ts (u_LastLoginAt user),
      u_LastLoginIP := (if u_LastLoginIP user = [] then [] else case inet (u_LastLoginIP user) of None \<Rightarrow> [] | Some s \<Rightarrow> s),
      u_PasswordChangedAt := map_option pg_ts (u_PasswordChangedAt user),
      u_UpdatedAt := pg_ts (u_UpdatedAt user), u_UpdatedBy := u_UpdatedBy user\<rparr>"

definition Users_Update :: "(string \<Rightarrow> string option) \<Rightarrow> db \<Rightarrow> User \<Rightarrow> db \<times> unit result" where
  "Users_Update inet db user = pg_Exec ''postgres.UserRepository.Update'' db
     (if u_PreferredLocale user \<notin> {''id'', ''en''} \<or> u_Status user \<notin> set user_statuses \<or>
         u_MFAMethod user \<notin> set users_mfa_methods then Inl pg_invalid
      else if \<exists>r \<in> set (t_users db). u_ID r = u_ID user \<and> u_DeletedAt r = None
      then if u_LastLoginIP user \<noteq> [] \<and> inet (u_LastLoginIP user) = None then Inl pg_invalid
           else (case users_check db user of
               Some e \<Rightarrow> Inl e
             | None \<Rightarrow> Inr (db\<lparr>t_users := sql_update (\<lambda>r. u_ID r = u_ID user \<and> u_DeletedAt r = None) (users_set inet user) (t_users db)\<rparr>))
      else Inr db)"

definition Users_Delete :: "db \<Rightarrow> time \<Rightarrow> uuid \<Rightarrow> db \<times> unit result" where
  "Users_Delete db now i = pg_Exec ''postgres.UserRepository.Delete'' db
     (Inr (db\<lparr>t_users := sql_update (\<lambda>r. u_ID r = i) (\<lambda>r. r\<lparr>u_DeletedAt := Some (pg_ts now), u_Status := ''deleted''\<rparr>) (t_users db)\<rparr>))"

definition Users_ListByOrg :: "db \<Rightarrow> uuid \<Rightarrow> int \<Rightarrow> int \<Rightarrow> (User list \<times> int) result" where
  "Users_ListByOrg db orgID limit offset =
     (let rows = filter (\<lambda>u. u_OrgID u = orgID) (live_users db)
      in if db_down db then Inl (Wrapf ''postgres.UserRepository.ListByOrg: count'' pg_conn_error)
         else if limit < 0 \<or> offset < 0 then Inl (Wrapf ''postgres.UserRepository.ListByOrg: query'' pg_invalid)
         else Inr (sql_limit limit offset (order_desc (db_scan db) u_CreatedAt rows), int (length rows)))"

section \<open>CredentialRepository\<close>

definition Credentials_Create :: "db \<Rightarrow> UserCredential \<Rightarrow> db \<times> unit result" where
  "Credentials_Create db cred = pg_Exec ''postgres.CredentialRepository.Create'' db
     (if uc_CredentialType cred \<notin> {''password'', ''totp''} then Inl pg_invalid
      else if length (uc_SecretHash cred) > 255 then Inl pg_too_long
      else if \<exists>r \<in> set (t_user_credentials db). uc_ID r = uc_ID cred \<or>
           (uc_UserID r = uc_UserID cred \<and> uc_CredentialType r = uc_CredentialType cred) then Inl pg_unique
      else if uc_UserID cred \<notin> u_ID ` set (t_users db) then Inl pg_fk
      else Inr (db\<lparr>t_user_credentials := t_user_credentials db @
         [cred\<lparr>uc_CreatedAt := pg_ts (uc_CreatedAt cred), uc_ExpiresAt := map_option pg_ts (uc_ExpiresAt cred)\<rparr>]\<rparr>))"

definition Credentials_GetCurrentByUserID :: "db \<Rightarrow> uuid \<Rightarrow> UserCredential result" where
  "Credentials_GetCurrentByUserID db userID = pg_QueryRow ''postgres.CredentialRepository.GetCurrentByUserID'' db
     (filter (\<lambda>c. uc_UserID c = userID \<and> uc_CredentialType c = ''password'') (t_user_credentials db))"

definition Credentials_GetHistory :: "db \<Rightarrow> uuid \<Rightarrow> int \<Rightarrow> UserCredentialHistory list result" where
  "Credentials_GetHistory db userID limit =
     (if \<not> db_down db \<and> limit < 0 then Inl (Wrapf ''postgres.CredentialRepository.GetHistory'' pg_invalid)
      else pg_Query ''postgres.CredentialRepository.GetHistory'' db
        (sql_limit limit 0 (order_desc (db_scan db) uh_RetiredAt (filter (\<lambda>h. uh_UserID h = userID) (t_user_credential_history db)))))"

text \<open>
  The three statements of the transaction \<^verbatim>\<open>Replace\<close>: the current credential is copied into
  the history under its own id, which is the history's primary key; the history is cut to
  the newest entries; the credential gets the new hash.
\<close>

definition replace_archive :: "time \<Rightarrow> uuid \<Rightarrow> string \<Rightarrow> db \<Rightarrow> db result" where
  "replace_archive now userID ctype db =
     (let old = filter (\<lambda>c. uc_UserID c = userID \<and> uc_CredentialType c = ctype) (t_user_credentials db);
          new = map (\<lambda>c. \<lparr>uh_ID = uc_ID c, uh_UserID = uc_UserID c, uh_CredentialType = uc_CredentialType c,
                          uh_SecretHash = uc_SecretHash c, uh_RetiredAt = pg_ts now\<rparr>) old
      in if \<not> distinct (map uh_ID (t_user_credential_history db @ new)) then Inl pg_unique
         else Inr (db\<lparr>t_user_credential_history := t_user_credential_history db @ new\<rparr>))"

definition replace_prune :: "uuid \<Rightarrow> string \<Rightarrow> int \<Rightarrow> db \<Rightarrow> db result" where
  "replace_prune userID ctype keep db =
     (let mine = filter (\<lambda>h. uh_UserID h = userID \<and> uh_CredentialType h = ctype) (t_user_credential_history db);
          kept = map uh_ID (sql_limit keep 0 (order_desc (db_scan db) uh_RetiredAt mine))
      in if keep < 0 then Inl pg_invalid
         else Inr (db\<lparr>t_user_credential_history := filter (\<lambda>h. \<not> (uh_UserID h = userID \<and> uh_CredentialType h = ctype \<and>
                uh_ID h \<notin> set kept)) (t_user_credential_history db)\<rparr>))"

definition replace_update :: "time \<Rightarrow> uuid \<Rightarrow> string \<Rightarrow> string \<Rightarrow> db \<Rightarrow> db result" where
  "replace_update now userID ctype newHash db =
     (if length newHash > 255 \<and> (\<exists>c \<in> set (t_user_credentials db). uc_UserID c = userID \<and> uc_CredentialType c = ctype)
      then Inl pg_too_long
      else Inr (db\<lparr>t_user_credentials := sql_update (\<lambda>c. uc_UserID c = userID \<and> uc_CredentialType c = ctype)
         (\<lambda>c. c\<lparr>uc_SecretHash := newHash, uc_CreatedAt := pg_ts now, uc_ExpiresAt := None\<rparr>) (t_user_credentials db)\<rparr>))"

definition Credentials_Replace :: "db \<Rightarrow> time \<Rightarrow> uuid \<Rightarrow> string \<Rightarrow> string \<Rightarrow> int \<Rightarrow> db \<times> unit result" where
  "Credentials_Replace db now userID ctype newHash keep =
     (if db_down db then (db, Inl (Wrapf ''postgres.CredentialRepository.Replace: begin tx'' pg_conn_error))
      else if ctype \<notin> {''password'', ''totp''}
        then (db, Inl (Wrapf ''postgres.CredentialRepository.Replace: archive to history'' pg_invalid))
      else case replace_archive now userID ctype db of
          Inl e \<Rightarrow> (db, Inl (Wrapf ''postgres.CredentialRepository.Replace: archive to history'' e))
        | Inr db1 \<Rightarrow> (case replace_prune userID ctype keep db1 of
            Inl e \<Rightarrow> (db, Inl (Wrapf ''postgres.CredentialRepository.Replace: prune history'' e))
          | Inr db2 \<Rightarrow> (case replace_update now userID ctype newHash db2 of
              Inl e \<Rightarrow> (db, Inl (Wrapf ''postgres.CredentialRepository.Replace: update credential'' e))
            | Inr db3 \<Rightarrow> (db3, Inr ()))))"

section \<open>VerificationTokenRepository\<close>

definition VTokens_Create :: "db \<Rightarrow> VerificationToken \<Rightarrow> db \<times> unit result" where
  "VTokens_Create db token = pg_Exec ''postgres.VerificationTokenRepository.Create'' db
     (if \<not> db_archived db then Inl pg_undefined_column
      else if length (vt_TokenType token) > 50 then Inl pg_too_long
      else if \<exists>r \<in> set (t_verification_tokens db). vt_ID r = vt_ID token \<or> vt_Token r = vt_Token token then Inl pg_unique
      else if vt_UserID token \<notin> u_ID ` set (t_users db) then Inl pg_fk
      else Inr (db\<lparr>t_verification_tokens := t_verification_tokens db @
         [token\<lparr>vt_ExpiresAt := pg_ts (vt_ExpiresAt token), vt_UsedAt := None, vt_CreatedAt := pg_ts (vt_CreatedAt token)\<rparr>]\<rparr>))"

definition VTokens_GetByToken :: "db \<Rightarrow> string \<Rightarrow> VerificationToken result" where
  "VTokens_GetByToken db token = pg_QueryRow_archived ''postgres.VerificationTokenRepository.GetByToken'' db
     (filter (\<lambda>r. vt_Token r = token) (t_verification_tokens db))"

definition VTokens_MarkUsed :: "db \<Rightarrow> time \<Rightarrow> uuid \<Rightarrow> db \<times> unit result" where
  "VTokens_MarkUsed db now i = pg_Exec ''postgres.VerificationTokenRepository.MarkUsed'' db
     (Inr (db\<lparr>t_verification_tokens := sql_update (\<lambda>r. vt_ID r = i) (\<lambda>r. r\<lparr>vt_UsedAt := Some (pg_ts now)\<rparr>) (t_verification_tokens db)\<rparr>))"

definition VTokens_DeleteByUserID :: "db \<Rightarrow> uuid \<Rightarrow> db \<times> unit result" where
  "VTokens_DeleteByUserID db userID = pg_Exec ''postgres.VerificationTokenRepository.DeleteByUserID'' db
     (Inr (db\<lparr>t_verification_tokens := filter (\<lambda>r. vt_UserID r \<noteq> userID) (t_verification_tokens db)\<rparr>))"

section \<open>MFAConfigRepository\<close>

text \<open>
  The three columns are \<^verbatim>\<open>NOT NULL\<close> and a nil slice is written as \<^verbatim>\<open>NULL\<close>. The bytes of the secret
  and of the vector go to text columns, so they have to be valid UTF-8 without NUL.
\<close>

definition utf8_lead :: "nat \<Rightarrow> (nat \<times> nat \<times> nat) option" where
  "utf8_lead b = (if 194 \<le> b \<and> b \<le> 223 then Some (0, 128, 191)
     else if b = 224 then Some (1, 160, 191) else if b = 237 then Some (1, 128, 159)
     else if 225 \<le> b \<and> b \<le> 239 then Some (1, 128, 191)
     else if b = 240 then Some (2, 144, 191) else if 241 \<le> b \<and> b \<le> 243 then Some (2, 128, 191)
     else if b = 244 then Some (2, 128, 143) else None)"

fun utf8_ok :: "nat list \<Rightarrow> bool" where
  "utf8_ok [] = True"
| "utf8_ok (b # r) =
     (if b = 0 then False else if b < 128 then utf8_ok r
      else case utf8_lead b of
        None \<Rightarrow> False
      | Some (n, lo, hi) \<Rightarrow> (case r of
          [] \<Rightarrow> False
        | c # r' \<Rightarrow> lo \<le> c \<and> c \<le> hi \<and> n \<le> length r' \<and> list_all (\<lambda>d. 128 \<le> d \<and> d \<le> 191) (take n r') \<and> utf8_ok (drop n r')))"

definition pg_encoding :: error where
  "pg_encoding = External ''character_not_in_repertoire''"

definition mfa_check :: "MFAConfig \<Rightarrow> error option" where
  "mfa_check cfg =
     (case (mc_TOTPSecretEncrypted cfg, mc_TOTPSecretIV cfg, mc_BackupCodesHash cfg) of
        (Some enc, Some iv, Some _) \<Rightarrow>
          if length enc > 500 \<or> length iv > 100 then Some pg_too_long else None
      | _ \<Rightarrow> Some pg_not_null)"

definition mfa_text_ok :: "MFAConfig \<Rightarrow> bool" where
  "mfa_text_ok cfg \<longleftrightarrow> list_all (\<lambda>c. case c of None \<Rightarrow> True | Some s \<Rightarrow> utf8_ok (map of_char s)) [mc_TOTPSecretEncrypted cfg, mc_TOTPSecretIV cfg]"

definition MFA_Create :: "db \<Rightarrow> MFAConfig \<Rightarrow> db \<times> unit result" where
  "MFA_Create db cfg = pg_Exec ''postgres.MFAConfigRepository.Create'' db
     (if \<not> mfa_text_ok cfg then Inl pg_encoding
      else if mfa_check cfg \<noteq> None then Inl (the (mfa_check cfg))
      else if \<exists>r \<in> set (t_mfa_configs db). mc_ID r = mc_ID cfg \<or> mc_UserID r = mc_UserID cfg then Inl pg_unique
      else if mc_UserID cfg \<notin> u_ID ` set (t_users db) then Inl pg_fk
      else Inr (db\<lparr>t_mfa_configs := t_mfa_configs db @ [cfg\<lparr>mc_MFAEnabledAt := map_option pg_ts (mc_MFAEnabledAt cfg),
         mc_CreatedAt := pg_ts (mc_CreatedAt cfg), mc_UpdatedAt := pg_ts (mc_UpdatedAt cfg)\<rparr>]\<rparr>))"

definition MFA_GetByUserID :: "db \<Rightarrow> uuid \<Rightarrow> MFAConfig result" where
  "MFA_GetByUserID db userID = pg_QueryRow ''postgres.MFAConfigRepository.GetByUserID'' db
     (filter (\<lambda>r. mc_UserID r = userID) (t_mfa_configs db))"

definition MFA_Update :: "db \<Rightarrow> time \<Rightarrow> MFAConfig \<Rightarrow> db \<times> unit result" where
  "MFA_Update db now cfg = pg_Exec ''postgres.MFAConfigRepository.Update'' db
     (if \<not> mfa_text_ok cfg then Inl pg_encoding
      else if mc_UserID cfg \<in> mc_UserID ` set (t_mfa_configs db) \<and> mfa_check cfg \<noteq> None then Inl (the (mfa_check cfg))
      else Inr (db\<lparr>t_mfa_configs := sql_update (\<lambda>r. mc_UserID r = mc_UserID cfg)
         (\<lambda>r. r\<lparr>mc_TOTPSecretEncrypted := mc_TOTPSecretEncrypted cfg, mc_TOTPSecretIV := mc_TOTPSecretIV cfg,
                mc_IsTOTPEnabled := mc_IsTOTPEnabled cfg, mc_IsEmailOTPEnabled := mc_IsEmailOTPEnabled cfg,
                mc_IsBackupCodesEnabled := mc_IsBackupCodesEnabled cfg, mc_BackupCodesHash := mc_BackupCodesHash cfg,
                mc_MFAEnabledAt := map_option pg_ts (mc_MFAEnabledAt cfg), mc_UpdatedAt := pg_ts now\<rparr>) (t_mfa_configs db)\<rparr>))"

definition MFA_Delete :: "db \<Rightarrow> uuid \<Rightarrow> db \<times> unit result" where
  "MFA_Delete db userID = pg_Exec ''postgres.MFAConfigRepository.Delete'' db
     (Inr (db\<lparr>t_mfa_configs := filter (\<lambda>r. mc_UserID r \<noteq> userID) (t_mfa_configs db)\<rparr>))"

section \<open>EmailOTPCodeRepository\<close>

definition OTP_Create :: "db \<Rightarrow> EmailOTPCode \<Rightarrow> db \<times> unit result" where
  "OTP_Create db code = pg_Exec ''postgres.EmailOTPCodeRepository.Create'' db
     (if \<not> db_archived db then Inl pg_undefined_column
      else if length (eo_Code code) > 6 \<or> length (eo_Purpose code) > 50 then Inl pg_too_long
      else if eo_ID code \<in> eo_ID ` set (t_email_otp_codes db) then Inl pg_unique
      else if eo_UserID code \<notin> u_ID ` set (t_users db) then Inl pg_fk
      else Inr (db\<lparr>t_email_otp_codes := t_email_otp_codes db @ [code\<lparr>eo_ExpiresAt := pg_ts (eo_ExpiresAt code),
         eo_UsedAt := map_option pg_ts (eo_UsedAt code), eo_CreatedAt := pg_ts (eo_CreatedAt code)\<rparr>]\<rparr>))"

definition OTP_GetByUserIDAndPurpose :: "db \<Rightarrow> time \<Rightarrow> uuid \<Rightarrow> string \<Rightarrow> EmailOTPCode result" where
  "OTP_GetByUserIDAndPurpose db now userID purpose = pg_QueryRow_archived ''postgres.EmailOTPCodeRepository.GetByUserIDAndPurpose'' db
     (order_desc (db_scan db) eo_CreatedAt (filter (\<lambda>r. eo_UserID r = userID \<and> eo_Purpose r = purpose \<and> eo_ExpiresAt r > pg_ts now) (t_email_otp_codes db)))"

definition OTP_GetActiveByUserID :: "db \<Rightarrow> time \<Rightarrow> uuid \<Rightarrow> EmailOTPCode result" where
  "OTP_GetActiveByUserID db now userID = pg_QueryRow_archived ''postgres.EmailOTPCodeRepository.GetActiveByUserID'' db
     (order_desc (db_scan db) eo_CreatedAt (filter (\<lambda>r. eo_UserID r = userID \<and> eo_ExpiresAt r > pg_ts now \<and> eo_UsedAt r = None) (t_email_otp_codes db)))"

definition OTP_MarkUsed :: "db \<Rightarrow> time \<Rightarrow> uuid \<Rightarrow> db \<times> unit result" where
  "OTP_MarkUsed db now i = pg_Exec ''postgres.EmailOTPCodeRepository.MarkUsed'' db
     (Inr (db\<lparr>t_email_otp_codes := sql_update (\<lambda>r. eo_ID r = i) (\<lambda>r. r\<lparr>eo_UsedAt := Some (pg_ts now)\<rparr>) (t_email_otp_codes db)\<rparr>))"

definition OTP_IncrementAttempts :: "db \<Rightarrow> uuid \<Rightarrow> db \<times> unit result" where
  "OTP_IncrementAttempts db i = pg_Exec ''postgres.EmailOTPCodeRepository.IncrementAttempts'' db
     (Inr (db\<lparr>t_email_otp_codes := sql_update (\<lambda>r. eo_ID r = i) (\<lambda>r. r\<lparr>eo_Attempts := eo_Attempts r + 1\<rparr>) (t_email_otp_codes db)\<rparr>))"

definition OTP_DeleteByUserID :: "db \<Rightarrow> uuid \<Rightarrow> db \<times> unit result" where
  "OTP_DeleteByUserID db userID = pg_Exec ''postgres.EmailOTPCodeRepository.DeleteByUserID'' db
     (Inr (db\<lparr>t_email_otp_codes := filter (\<lambda>r. eo_UserID r \<noteq> userID) (t_email_otp_codes db)\<rparr>))"

section \<open>Laws\<close>

text \<open>
  The keys the constraints keep unique. Every statement above preserves this, whatever its
  outcome.
\<close>

definition db_wf :: "db \<Rightarrow> bool" where
  "db_wf db \<longleftrightarrow> distinct (map u_ID (t_users db)) \<and> distinct (map u_Username (t_users db)) \<and>
     distinct (map u_Email (t_users db)) \<and>
     distinct (map uc_ID (t_user_credentials db)) \<and>
     distinct (map (\<lambda>c. (uc_UserID c, uc_CredentialType c)) (t_user_credentials db)) \<and>
     distinct (map uh_ID (t_user_credential_history db)) \<and>
     distinct (map vt_ID (t_verification_tokens db)) \<and> distinct (map vt_Token (t_verification_tokens db))"

lemma db_empty_wf: "db_wf db_empty"
  by (simp add: db_wf_def db_empty_def)

lemma pg_Exec_cases:
  "pg_Exec op db eff = (db', r) \<longleftrightarrow>
     (db_down db \<and> db' = db \<and> r = Inl (Wrapf op pg_conn_error)) \<or>
     (\<not> db_down db \<and> (\<exists>e. eff = Inl e \<and> db' = db \<and> r = Inl (Wrapf op e))) \<or>
     (\<not> db_down db \<and> eff = Inr db' \<and> r = Inr ())"
  by (cases eff) (auto simp: pg_Exec_def)

lemma pg_Exec_Inr [simp]: "pg_Exec op db eff = (db', Inr x) \<longleftrightarrow> \<not> db_down db \<and> eff = Inr db'"
  by (cases eff) (auto simp: pg_Exec_def)

lemma pg_QueryRow_Inr [simp]: "pg_QueryRow op db rows = Inr r \<longleftrightarrow> \<not> db_down db \<and> (\<exists>rs. rows = r # rs)"
  by (cases rows) (auto simp: pg_QueryRow_def)

lemma pg_QueryRow_archived_Inr [simp]:
  "pg_QueryRow_archived op db rows = Inr r \<longleftrightarrow> \<not> db_down db \<and> db_archived db \<and> (\<exists>rs. rows = r # rs)"
  by (auto simp: pg_QueryRow_archived_def)

text \<open>An ordered result is a permutation of the rows, in the order of the key.\<close>

lemma mset_heap_order [simp]: "mset (heap_order scan rows) = mset rows"
proof -
  have "mset (heap_order scan rows) = image_mset snd (mset (enumerate 0 rows))" unfolding heap_order_def by (simp only: mset_map mset_sort)
  also have "\<dots> = mset (map snd (enumerate 0 rows))" by (simp only: mset_map)
  finally show ?thesis by simp
qed

lemma mset_order_by [simp]: "mset (order_by scan key rows) = mset rows"
  by (simp add: order_by_def)

lemma mset_order_desc [simp]: "mset (order_desc scan key rows) = mset rows"
  by (simp add: order_desc_def)

lemma set_order [simp]: "set (order_by scan key rows) = set rows" "set (order_desc scan dkey rows) = set rows"
  by (metis mset_order_by set_mset_mset, metis mset_order_desc set_mset_mset)

lemma length_order [simp]:
  "length (order_by scan key rows) = length rows" "length (order_desc scan dkey rows) = length rows"
  by (metis mset_order_by size_mset, metis mset_order_desc size_mset)

lemma sorted_order_desc: "sorted (map (\<lambda>r. - key r) (order_desc scan key rows))"
  by (simp add: order_desc_def order_by_def)

lemma order_desc_distinct:
  assumes "distinct (map key rows)"
  shows "order_desc scan key rows = sort_key (\<lambda>r. - key r) rows"
proof (rule map_inj_on [where f = "\<lambda>r. - key r"])
  have "mset (map (\<lambda>r. - key r) (order_desc scan key rows)) = mset (map (\<lambda>r. - key r) (sort_key (\<lambda>r. - key r) rows))"
    by (simp add: mset_map)
  then have "map (\<lambda>r. - key r) (order_desc scan key rows) = sort (map (\<lambda>r. - key r) (sort_key (\<lambda>r. - key r) rows))"
    using sorted_order_desc [of key scan rows] by (rule properties_for_sort [symmetric])
  also have "\<dots> = map (\<lambda>r. - key r) (sort_key (\<lambda>r. - key r) rows)" by (rule sorted_sort_id) simp
  finally show "map (\<lambda>r. - key r) (order_desc scan key rows) = map (\<lambda>r. - key r) (sort_key (\<lambda>r. - key r) rows)" .
  show "inj_on (\<lambda>r. - key r) (set (order_desc scan key rows) \<union> set (sort_key (\<lambda>r. - key r) rows))"
    using assms by (auto simp: distinct_map inj_on_def)
qed

lemma distinct_map_eq: "distinct (map f xs) \<Longrightarrow> x \<in> set xs \<Longrightarrow> y \<in> set xs \<Longrightarrow> f x = f y \<Longrightarrow> x = y"
  by (auto simp: distinct_map inj_on_def)

lemma filter_key_unique:
  assumes "distinct (map f xs)"
  shows "(\<exists>rs. filter (\<lambda>x. P x \<and> f x = k) xs = r # rs) \<longleftrightarrow> r \<in> set xs \<and> P r \<and> f r = k"
proof
  assume "\<exists>rs. filter (\<lambda>x. P x \<and> f x = k) xs = r # rs"
  then have "r \<in> set (filter (\<lambda>x. P x \<and> f x = k) xs)" by (metis list.set_intros(1))
  then show "r \<in> set xs \<and> P r \<and> f r = k" by auto
next
  assume r: "r \<in> set xs \<and> P r \<and> f r = k"
  then have "r \<in> set (filter (\<lambda>x. P x \<and> f x = k) xs)" by simp
  then obtain y ys where y: "filter (\<lambda>x. P x \<and> f x = k) xs = y # ys" by (cases "filter (\<lambda>x. P x \<and> f x = k) xs") auto
  then have "y \<in> set xs \<and> f y = k" by (metis (mono_tags, lifting) filter_eq_ConsD in_set_conv_decomp)
  then have "y = r" using assms r by (auto intro: distinct_map_eq)
  with y show "\<exists>rs. filter (\<lambda>x. P x \<and> f x = k) xs = r # rs" by blast
qed

lemma sql_update_map [simp]: "(\<And>r. f (g r) = f r) \<Longrightarrow> map f (sql_update P g rows) = map f rows"
  by (simp add: sql_update_def)

lemma set_sql_update: "set (sql_update P g rows) = (\<lambda>r. if P r then g r else r) ` set rows"
  by (simp add: sql_update_def)

lemma filter_sql_update_other:
  "(\<And>r. P r \<Longrightarrow> \<not> Q r \<and> \<not> Q (g r)) \<Longrightarrow> filter Q (sql_update P g rows) = filter Q rows"
  by (induction rows) (auto simp: sql_update_def)

lemma users_set_fields [simp]:
  "u_ID (users_set inet u r) = u_ID r" "u_DeletedAt (users_set inet u r) = u_DeletedAt r"
  "u_OrgID (users_set inet u r) = u_OrgID r" "u_Username (users_set inet u r) = u_Username u"
  "u_Email (users_set inet u r) = u_Email u" "u_Status (users_set inet u r) = u_Status u"
  "u_EmailVerified (users_set inet u r) = u_EmailVerified u"
  "u_RequirePasswordChange (users_set inet u r) = u_RequirePasswordChange u"
  "u_MFAEnabled (users_set inet u r) = u_MFAEnabled u" "u_MFAMethod (users_set inet u r) = u_MFAMethod u"
  by (simp_all add: users_set_def)

lemma GetByID_iff:
  "db_wf db \<Longrightarrow> Users_GetByID db i = Inr u \<longleftrightarrow> \<not> db_down db \<and> u \<in> set (t_users db) \<and> u_ID u = i \<and> u_DeletedAt u = None"
  using filter_key_unique [of u_ID "t_users db" "\<lambda>u. u_DeletedAt u = None"]
  by (auto simp: Users_GetByID_def live_users_def db_wf_def conj_commute)

lemma GetByToken_iff:
  "db_wf db \<Longrightarrow> VTokens_GetByToken db tok = Inr vt \<longleftrightarrow> \<not> db_down db \<and> db_archived db \<and> vt \<in> set (t_verification_tokens db) \<and> vt_Token vt = tok"
  using filter_key_unique [of vt_Token "t_verification_tokens db" "\<lambda>_. True"]
  by (auto simp: VTokens_GetByToken_def db_wf_def)

lemma GetCurrentByUserID_iff:
  "db_wf db \<Longrightarrow> Credentials_GetCurrentByUserID db i = Inr c \<longleftrightarrow>
     \<not> db_down db \<and> c \<in> set (t_user_credentials db) \<and> uc_UserID c = i \<and> uc_CredentialType c = ''password''"
  using filter_key_unique [of "\<lambda>c. (uc_UserID c, uc_CredentialType c)" "t_user_credentials db" "\<lambda>_. True" "(i, ''password'')"]
  by (auto simp: Credentials_GetCurrentByUserID_def db_wf_def)

lemma GetByUsername_none:
  "\<not> is_ok (Users_GetByUsername db name) \<Longrightarrow> \<not> db_down db \<Longrightarrow> u \<in> set (t_users db) \<Longrightarrow> u_DeletedAt u = None \<Longrightarrow> u_Username u \<noteq> name"
  by (auto simp: Users_GetByUsername_def pg_QueryRow_def live_users_def filter_empty_conv split: list.splits)

text \<open>Insertion of a user: the row stored, and the tables it leaves.\<close>

lemma Users_Create_ok:
  assumes "Users_Create db user = (db', Inr x)"
  obtains row where "db' = db\<lparr>t_users := t_users db @ [row]\<rparr>" "\<not> db_down db"
    "u_ID row = u_ID user" "u_DeletedAt row = None" "u_Username row = u_Username user" "u_Email row = u_Email user"
    "u_Status row = u_Status user" "u_LockedUntil row = None" "u_OrgID row = u_OrgID user" "u_LastLoginIP row = []"
    "u_PreferredLocale row = u_PreferredLocale user" "u_MFAMethod row = u_MFAMethod user" "u_FullName row = u_FullName user"
    "u_EmailVerified row = u_EmailVerified user" "users_check db row = None" "u_ID user \<notin> u_ID ` set (t_users db)"
  using assms that
  by (simp add: Users_Create_def Let_def split: option.splits if_splits) force

lemma users_check_unique:
  "users_check db u = None \<Longrightarrow> r \<in> set (t_users db) \<Longrightarrow> u_ID r \<noteq> u_ID u \<Longrightarrow> u_Username r \<noteq> u_Username u \<and> u_Email r \<noteq> u_Email u"
  by (auto simp: users_check_def split: if_splits)

lemma Users_Create_wf:
  assumes "db_wf db"
  shows "db_wf (fst (Users_Create db user))"
proof (cases "snd (Users_Create db user)")
  case (Inl e)
  then have "fst (Users_Create db user) = db" by (auto simp: Users_Create_def pg_Exec_def split: sum.splits if_splits)
  then show ?thesis using assms by simp
next
  case (Inr x)
  then have "Users_Create db user = (fst (Users_Create db user), Inr x)" by (simp add: prod_eq_iff)
  then obtain row where row: "fst (Users_Create db user) = db\<lparr>t_users := t_users db @ [row]\<rparr>"
      "u_ID row = u_ID user" "users_check db row = None" "u_ID user \<notin> u_ID ` set (t_users db)"
    by (rule Users_Create_ok) blast
  then have "u_Username r \<noteq> u_Username row \<and> u_Email r \<noteq> u_Email row" if "r \<in> set (t_users db)" for r
    using users_check_unique [OF row(3) that] that row(2,4) by (metis image_eqI)
  then show ?thesis using assms row by (force simp: db_wf_def)
qed

lemma distinct_map_sql_update:
  assumes "distinct (map f rows)" and "distinct (map k rows)"
    and "\<And>r. P r \<Longrightarrow> k r = i" and "\<And>r. r \<in> set rows \<Longrightarrow> k r \<noteq> i \<Longrightarrow> f r \<noteq> v" and "\<And>r. f (g r) = v"
  shows "distinct (map f (sql_update P g rows))"
  using assms(1,2,4)
proof (induction rows)
  case (Cons r rows)
  show ?case
  proof (cases "P r")
    case True
    then have "k r = i" by (rule assms(3))
    have "\<not> P x \<and> f x \<noteq> v" if x: "x \<in> set rows" for x
    proof -
      have "k x \<noteq> i" using Cons.prems(2) x \<open>k r = i\<close> by (metis distinct.simps(2) image_eqI list.set_map list.simps(9))
      then show ?thesis using Cons.prems(3) x assms(3) by (metis list.set_intros(2))
    qed
    then have "sql_update P g rows = rows" "v \<notin> f ` set rows" by (auto simp: sql_update_def intro!: map_idI)
    moreover have "sql_update P g (r # rows) = g r # sql_update P g rows" using True by (simp add: sql_update_def)
    ultimately show ?thesis using Cons.prems(1) assms(5) by simp
  next
    case False
    have "f r \<noteq> v" if x: "x \<in> set rows" "P x" for x
    proof -
      have "k x = i" by (rule assms(3) [OF x(2)])
      then have "k r \<noteq> i" using Cons.prems(2) x(1) by (metis distinct.simps(2) image_eqI list.set_map list.simps(9))
      then show ?thesis using Cons.prems(3) by simp
    qed
    then have "f r \<notin> f ` set (sql_update P g rows)" using Cons.prems(1) assms(5) by (auto simp: set_sql_update)
    moreover have "distinct (map f (sql_update P g rows))" using Cons by simp
    moreover have "sql_update P g (r # rows) = r # sql_update P g rows" using False by (simp add: sql_update_def)
    ultimately show ?thesis by simp
  qed
qed (simp add: sql_update_def)

lemma Users_Update_wf:
  assumes "db_wf db"
  shows "db_wf (fst (Users_Update inet db user))"
proof -
  let ?P = "\<lambda>r. u_ID r = u_ID user \<and> u_DeletedAt r = None"
  have "distinct (map u_Username (sql_update ?P (users_set inet user) (t_users db)))"
    "distinct (map u_Email (sql_update ?P (users_set inet user) (t_users db)))" if "users_check db user = None"
    using assms users_check_unique [OF that]
    by (auto intro!: distinct_map_sql_update [where k = u_ID and i = "u_ID user"] simp: db_wf_def)
  then show ?thesis
    using assms by (auto simp: Users_Update_def pg_Exec_def db_wf_def split: option.splits)
qed

lemma Users_Update_ok:
  assumes "Users_Update inet db user = (db', Inr x)" and "u \<in> set (t_users db)" "u_ID u = u_ID user" "u_DeletedAt u = None"
  shows "\<not> db_down db \<and> db' = db\<lparr>t_users := sql_update (\<lambda>r. u_ID r = u_ID user \<and> u_DeletedAt r = None) (users_set inet user) (t_users db)\<rparr>"
  using assms by (auto simp: Users_Update_def split: if_splits option.splits)

lemma Credentials_Create_wf: "db_wf db \<Longrightarrow> db_wf (fst (Credentials_Create db c))"
  by (auto simp: Credentials_Create_def pg_Exec_def db_wf_def)

lemma VTokens_Create_wf: "db_wf db \<Longrightarrow> db_wf (fst (VTokens_Create db t))"
  by (auto simp: VTokens_Create_def pg_Exec_def db_wf_def)

lemma VTokens_MarkUsed_wf: "db_wf db \<Longrightarrow> db_wf (fst (VTokens_MarkUsed db now i))"
  by (auto simp: VTokens_MarkUsed_def pg_Exec_def db_wf_def)

text \<open>What a successful \<^verbatim>\<open>Replace\<close> did.\<close>

lemma Credentials_Replace_ok:
  assumes "Credentials_Replace db now u t h k = (db', Inr x)"
  obtains db1 db2 where "\<not> db_down db" "replace_archive now u t db = Inr db1" "replace_prune u t k db1 = Inr db2"
    "replace_update now u t h db2 = Inr db'"
  using assms that by (auto simp: Credentials_Replace_def split: sum.splits if_splits)

lemma replace_steps_wf:
  "db_wf db \<Longrightarrow> replace_archive now u t db = Inr db' \<Longrightarrow> db_wf db'"
  "db_wf db \<Longrightarrow> replace_prune u t k db = Inr db' \<Longrightarrow> db_wf db'"
  "db_wf db \<Longrightarrow> replace_update now u t h db = Inr db' \<Longrightarrow> db_wf db'"
proof -
  show "db_wf db \<Longrightarrow> replace_archive now u t db = Inr db' \<Longrightarrow> db_wf db'"
    by (simp add: replace_archive_def Let_def db_wf_def split: if_splits) force
  show "db_wf db \<Longrightarrow> replace_prune u t k db = Inr db' \<Longrightarrow> db_wf db'"
    by (auto simp: replace_prune_def Let_def db_wf_def distinct_map_filter split: if_splits)
  show "db_wf db \<Longrightarrow> replace_update now u t h db = Inr db' \<Longrightarrow> db_wf db'"
    by (auto simp: replace_update_def Let_def db_wf_def split: if_splits)
qed

lemma replace_steps_frame:
  "replace_archive now u t db = Inr db1 \<Longrightarrow> t_users db1 = t_users db \<and> t_verification_tokens db1 = t_verification_tokens db \<and>
     db_down db1 = db_down db \<and> db_archived db1 = db_archived db \<and> t_user_credentials db1 = t_user_credentials db"
  "replace_prune u t k db1 = Inr db2 \<Longrightarrow> t_users db2 = t_users db1 \<and> t_verification_tokens db2 = t_verification_tokens db1 \<and>
     db_down db2 = db_down db1 \<and> db_archived db2 = db_archived db1 \<and> t_user_credentials db2 = t_user_credentials db1"
  "replace_update now u t h db2 = Inr db3 \<Longrightarrow> t_users db3 = t_users db2 \<and> t_verification_tokens db3 = t_verification_tokens db2 \<and>
     db_down db3 = db_down db2 \<and> db_archived db3 = db_archived db2 \<and> t_user_credential_history db3 = t_user_credential_history db2 \<and>
     t_user_credentials db3 = sql_update (\<lambda>c. uc_UserID c = u \<and> uc_CredentialType c = t)
         (\<lambda>c. c\<lparr>uc_SecretHash := h, uc_CreatedAt := pg_ts now, uc_ExpiresAt := None\<rparr>) (t_user_credentials db2)"
  by (auto simp: replace_archive_def replace_prune_def replace_update_def Let_def split: if_splits)

lemma Credentials_Replace_err: "Credentials_Replace db now u t h k = (db', Inl e) \<Longrightarrow> db' = db"
  by (simp add: Credentials_Replace_def split: sum.splits if_splits)

lemma Credentials_Replace_wf:
  assumes "db_wf db"
  shows "db_wf (fst (Credentials_Replace db now u t h k))"
proof (cases "snd (Credentials_Replace db now u t h k)")
  case (Inl e)
  then show ?thesis using assms Credentials_Replace_err by (metis prod.collapse)
next
  case (Inr x)
  then have "Credentials_Replace db now u t h k = (fst (Credentials_Replace db now u t h k), Inr x)" by (simp add: prod_eq_iff)
  then obtain db1 db2 where "replace_archive now u t db = Inr db1" "replace_prune u t k db1 = Inr db2"
      "replace_update now u t h db2 = Inr (fst (Credentials_Replace db now u t h k))"
    by (rule Credentials_Replace_ok)
  then show ?thesis using replace_steps_wf(1) [of db now u t db1] replace_steps_wf(2) [of db1 u t k db2]
      replace_steps_wf(3) [of db2 now u t h] assms by blast
qed

end
