(* ===== verification/Base64.thy ===== *)
theory Base64
  imports GoStd
begin

text \<open>
  Package \<^verbatim>\<open>encoding/base64\<close> as the repository uses it: the standard and the URL alphabet,
  with and without padding, and the byte-string form of a natural number
  (\<^verbatim>\<open>big.Int.Bytes\<close>). Decoding undoes encoding for every byte string; the encodings
  are therefore injective, so two digests encode equally only if they are equal.
\<close>

section \<open>Alphabets\<close>

definition b64_alphabet :: "bool \<Rightarrow> string" where
  "b64_alphabet url = ''ABCDEFGHIJKLMNOPQRSTUVWXYZabcdefghijklmnopqrstuvwxyz0123456789'' @
     (if url then ''-_'' else ''+/'')"

definition b64_char :: "bool \<Rightarrow> nat \<Rightarrow> char" where
  "b64_char url n = b64_alphabet url ! n"

definition b64_val :: "bool \<Rightarrow> char \<Rightarrow> nat option" where
  "b64_val url c = map_of (zip (b64_alphabet url) [0..<64]) c"

section \<open>Groups of three bytes and four digits\<close>

fun sextets :: "nat list \<Rightarrow> nat list" where
  "sextets (a # b # c # r) =
     (a div 4) # (a mod 4 * 16 + b div 16) # (b mod 16 * 4 + c div 64) # (c mod 64) # sextets r"
| "sextets [a, b] = [a div 4, a mod 4 * 16 + b div 16, b mod 16 * 4]"
| "sextets [a] = [a div 4, a mod 4 * 16]"
| "sextets [] = []"

fun octets :: "nat list \<Rightarrow> nat list option" where
  "octets (p # q # r # s # t) =
     map_option (\<lambda>bs. (p * 4 + q div 16) # (q mod 16 * 16 + r div 4) # (r mod 4 * 64 + s) # bs) (octets t)"
| "octets [p, q, r] = Some [p * 4 + q div 16, q mod 16 * 16 + r div 4]"
| "octets [p, q] = Some [p * 4 + q div 16]"
| "octets [p] = None"
| "octets [] = Some []"

section \<open>Encoding and decoding\<close>

definition RawEncodeToString :: "bool \<Rightarrow> string \<Rightarrow> string" where
  "RawEncodeToString url s = map (b64_char url) (sextets (map of_char s))"

definition EncodeToString :: "bool \<Rightarrow> string \<Rightarrow> string" where
  "EncodeToString url s =
     (let e = RawEncodeToString url s in e @ replicate ((4 - length e mod 4) mod 4) (CHR ''=''))"

text \<open>The decoder skips line breaks and ignores the unused bits of the last digit.\<close>

definition RawDecodeString :: "bool \<Rightarrow> string \<Rightarrow> string option" where
  "RawDecodeString url s =
     (case those (map (b64_val url) (filter (\<lambda>c. c \<notin> {CHR 0x0A, CHR 0x0D}) s)) of
        None \<Rightarrow> None | Some ds \<Rightarrow> map_option (map char_of) (octets ds))"

definition strip_padding :: "string \<Rightarrow> string" where
  "strip_padding t =
     (if suffix ''=='' t then take (length t - 2) t else if suffix ''='' t then butlast t else t)"

definition DecodeString :: "bool \<Rightarrow> string \<Rightarrow> string option" where
  "DecodeString url s =
     (let t = filter (\<lambda>c. c \<notin> {CHR 0x0A, CHR 0x0D}) s
      in if length t mod 4 \<noteq> 0 then None else RawDecodeString url (strip_padding t))"

text \<open>\<^verbatim>\<open>big.Int.Bytes\<close>: big-endian, without leading zeros.\<close>

fun big_Bytes_nat :: "nat \<Rightarrow> nat list" where
  "big_Bytes_nat n = (if n = 0 then [] else big_Bytes_nat (n div 256) @ [n mod 256])"

declare big_Bytes_nat.simps [simp del]

definition big_Bytes :: "nat \<Rightarrow> string" where
  "big_Bytes n = map char_of (big_Bytes_nat n)"

definition big_SetBytes :: "string \<Rightarrow> nat" where
  "big_SetBytes s = foldl (\<lambda>a c. a * 256 + of_char c) 0 s"

section \<open>Round trips\<close>

lemma b64_alphabet_props: "length (b64_alphabet url) = 64" "distinct (b64_alphabet url)"
  by (cases url; simp add: b64_alphabet_def)+

lemma b64_val_char [simp]: "n < 64 \<Longrightarrow> b64_val url (b64_char url n) = Some n"
  unfolding b64_val_def b64_char_def
  using map_of_zip_nth [of "b64_alphabet url" "[0..<64]" n] by (simp add: b64_alphabet_props)

lemma b64_char_plain: "n < 64 \<Longrightarrow> b64_char url n \<in> set (b64_alphabet url)"
  by (simp add: b64_char_def b64_alphabet_props)

lemma b64_alphabet_plain:
  "c \<in> set (b64_alphabet url) \<Longrightarrow>
     c \<noteq> CHR 0x0A \<and> c \<noteq> CHR 0x0D \<and> c \<noteq> CHR ''$'' \<and> c \<noteq> CHR ''='' \<and> c \<noteq> CHR ''|''"
  by (cases url) (auto simp: b64_alphabet_def)

lemma sextets_bound: "\<forall>b \<in> set bs. b < 256 \<Longrightarrow> \<forall>d \<in> set (sextets bs). d < 64"
  by (induction bs rule: sextets.induct) auto

lemma group_div_mod: "q < m \<Longrightarrow> (x * m + q) div m = x \<and> (x * m + q) mod m = (q :: nat)"
  by simp

lemma octet_first:
  assumes "b < 256"
  shows "a div 4 * 4 + (a mod 4 * 16 + b div 16) div 16 = (a :: nat)"
proof -
  have "b div 16 < 16" using assms by simp
  then show ?thesis using group_div_mod [of "b div 16" 16 "a mod 4"] by (simp only:) simp
qed

lemma octet_second:
  assumes "b < 256" and "c < 256"
  shows "(x * 16 + b div 16) mod 16 * 16 + (b mod 16 * 4 + c div 64) div 4 = (b :: nat)"
proof -
  have "b div 16 < 16" "c div 64 < 4" using assms by simp_all
  then show ?thesis
    using group_div_mod [of "b div 16" 16 x] group_div_mod [of "c div 64" 4 "b mod 16"]
    by (simp only:) simp
qed

lemma octet_third:
  assumes "c < 256"
  shows "(x * 4 + c div 64) mod 4 * 64 + c mod 64 = (c :: nat)"
proof -
  have "c div 64 < 4" using assms by simp
  then show ?thesis using group_div_mod [of "c div 64" 4 x] by (simp only:) simp
qed

lemma octets_sextets: "\<forall>b \<in> set bs. b < 256 \<Longrightarrow> octets (sextets bs) = Some bs"
proof (induction bs rule: sextets.induct)
  case (1 a b c r)
  then show ?case
    using octet_first [of b a] octet_second [of b c "a mod 4"] octet_third [of c "b mod 16"]
    by (simp del: div_mult_mod_eq)
next
  case (2 a b)
  then show ?case
    using octet_first [of b a] octet_second [of b 0 "a mod 4"] by (simp del: div_mult_mod_eq)
next
  case (3 a)
  then show ?case using octet_first [of 0 a] by simp
qed simp

lemma those_map_Some: "\<forall>x \<in> set xs. f x = Some (g x) \<Longrightarrow> those (map f xs) = Some (map g xs)"
  by (induction xs) auto

lemma RawEncode_alphabet: "c \<in> set (RawEncodeToString url s) \<Longrightarrow> c \<in> set (b64_alphabet url)"
  using sextets_bound [of "map of_char s"] by (auto simp: RawEncodeToString_def b64_char_plain)

lemma RawEncode_plain:
  "c \<in> set (RawEncodeToString url s) \<Longrightarrow>
     c \<noteq> CHR 0x0A \<and> c \<noteq> CHR 0x0D \<and> c \<noteq> CHR ''$'' \<and> c \<noteq> CHR ''='' \<and> c \<noteq> CHR ''|''"
  by (rule b64_alphabet_plain [OF RawEncode_alphabet])

lemma RawEncode_no_newline:
  "filter (\<lambda>c. c \<notin> {CHR 0x0A, CHR 0x0D}) (RawEncodeToString url s) = RawEncodeToString url s"
  using RawEncode_plain by (fastforce simp: filter_id_conv)

text \<open>Decoding an encoded byte string without padding gives the byte string.\<close>

lemma RawDecode_RawEncode [simp]: "RawDecodeString url (RawEncodeToString url s) = Some s"
proof -
  let ?ds = "sextets (map of_char s) :: nat list"
  have b: "\<forall>d \<in> set ?ds. d < 64" by (rule sextets_bound) auto
  have "filter (\<lambda>c. c \<notin> {CHR 0x0A, CHR 0x0D}) (RawEncodeToString url s) = RawEncodeToString url s"
    by (rule RawEncode_no_newline)
  moreover have "those (map (b64_val url) (RawEncodeToString url s)) = Some ?ds"
    using b those_map_Some [of ?ds "\<lambda>d. b64_val url (b64_char url d)" "\<lambda>d. d"]
    by (simp add: RawEncodeToString_def comp_def)
  moreover have "octets ?ds = Some (map of_char s)" by (rule octets_sextets) auto
  ultimately show ?thesis by (simp add: RawDecodeString_def comp_def)
qed

lemma RawEncode_inject [simp]: "RawEncodeToString url s = RawEncodeToString url t \<longleftrightarrow> s = t"
  by (metis RawDecode_RawEncode option.inject)

lemma length_sextets: "length (sextets bs) mod 4 \<noteq> 1"
  by (induction bs rule: sextets.induct) auto

lemma strip_padding_append:
  assumes "CHR ''='' \<notin> set s" and "n \<le> 2"
  shows "strip_padding (s @ replicate n (CHR ''='')) = s"
proof -
  have "n = 0 \<or> n = 1 \<or> n = 2" using assms by auto
  moreover have "\<not> suffix ''=='' s" "\<not> suffix ''='' s"
    using assms by (auto simp: suffix_def)
  moreover have "\<not> suffix ''=='' (s @ ''='')"
    using assms by (cases s rule: rev_cases) (auto simp: suffix_def Cons_eq_append_conv append_eq_Cons_conv)
  moreover have "suffix ''=='' (s @ ''=='')" by (rule suffixI) (rule refl)
  ultimately show ?thesis by (auto simp: strip_padding_def numeral_2_eq_2 butlast_append)
qed

text \<open>Likewise with padding.\<close>

lemma pad_length:
  assumes "n mod 4 \<noteq> (1 :: nat)"
  shows "(4 - n mod 4) mod 4 \<le> 2" and "(n + (4 - n mod 4) mod 4) mod 4 = 0"
proof -
  have "n mod 4 < 4" by simp
  then have r: "n mod 4 = 0 \<or> n mod 4 = 2 \<or> n mod 4 = 3" using assms by linarith
  then show "(4 - n mod 4) mod 4 \<le> 2" by auto
  show "(n + (4 - n mod 4) mod 4) mod 4 = 0"
    using r by (subst mod_add_left_eq [symmetric]) auto
qed

lemma Decode_Encode [simp]: "DecodeString url (EncodeToString url s) = Some s"
proof -
  let ?e = "RawEncodeToString url s"
  let ?n = "(4 - length ?e mod 4) mod 4"
  have n: "?n \<le> 2" "(length ?e + ?n) mod 4 = 0"
    using pad_length [OF length_sextets [of "map of_char s"]]
    by (simp_all only: RawEncodeToString_def length_map)
  have "CHR ''='' \<notin> set ?e" using RawEncode_plain by blast
  then have "strip_padding (EncodeToString url s) = ?e"
    using strip_padding_append [OF _ n(1)] by (simp only: EncodeToString_def Let_def)
  moreover have "filter (\<lambda>c. c \<notin> {CHR 0x0A, CHR 0x0D}) (EncodeToString url s) = EncodeToString url s"
    using RawEncode_no_newline [of url s]
    by (simp only: EncodeToString_def Let_def filter_append) (simp add: filter_id_conv)
  moreover have "length (EncodeToString url s) mod 4 = 0"
    using n(2) by (simp only: EncodeToString_def Let_def length_append length_replicate)
  ultimately show ?thesis by (simp add: DecodeString_def)
qed

lemma Encode_inject [simp]: "EncodeToString url s = EncodeToString url t \<longleftrightarrow> s = t"
  by (metis Decode_Encode option.inject)

lemma big_Bytes_nat_bound: "\<forall>b \<in> set (big_Bytes_nat n). b < 256"
proof (induction n rule: big_Bytes_nat.induct)
  case (1 n)
  then show ?case by (cases "n = 0") (auto simp: big_Bytes_nat.simps [of n] big_Bytes_nat.simps [of 0])
qed

lemma SetBytes_Bytes [simp]: "big_SetBytes (big_Bytes n) = n"
proof (induction n rule: big_Bytes_nat.induct)
  case (1 n)
  show ?case
  proof (cases "n = 0")
    case True
    then show ?thesis by (simp add: big_Bytes_def big_SetBytes_def big_Bytes_nat.simps [of 0])
  next
    case False
    then show ?thesis
      using 1 by (simp add: big_Bytes_def big_SetBytes_def big_Bytes_nat.simps [of n])
  qed
qed

end
