(* ===== verification/Password.thy ===== *)
theory Password
  imports Domain Base64 "HOL-Library.Multiset"
begin

text \<open>
  Package internal/service/password: the Argon2id hasher with its encoded form (hasher.go)
  and the generator of temporary passwords (generator.go). The key derivation
  (\<^verbatim>\<open>golang.org/x/crypto/argon2\<close>) is a parameter; the only fact used of it is that it returns
  as many bytes as asked for. Its panic on zero rounds or threads is not modelled: it
  needs a stored hash that the hasher did not write. Random bytes and numbers are arguments.
\<close>

section \<open>hasher.go\<close>

record argon2_lib =
  ar_Version :: int
  ar_IDKey :: "string \<Rightarrow> string \<Rightarrow> 32 word \<Rightarrow> 32 word \<Rightarrow> 8 word \<Rightarrow> 32 word \<Rightarrow> string"

record Config =
  cfg_Memory :: "32 word"
  cfg_Iterations :: "32 word"
  cfg_Parallelism :: "8 word"
  cfg_KeyLength :: "32 word"
  cfg_SaltLength :: "32 word"

definition DefaultConfig :: Config where
  "DefaultConfig = \<lparr>cfg_Memory = 64 * 1024, cfg_Iterations = 3, cfg_Parallelism = 4,
     cfg_KeyLength = 32, cfg_SaltLength = 16\<rparr>"

definition NewHasher :: "Config \<Rightarrow> Config" where
  "NewHasher cfg = (if cfg_Memory cfg = 0 then DefaultConfig else cfg)"

text \<open>\<open>rng\<close>: what reading \<open>SaltLength\<close> random bytes returned.\<close>

definition generateSalt :: "string result \<Rightarrow> string result" where
  "generateSalt rng = (case rng of Inl e \<Rightarrow> Inl (Wrapf ''read random bytes'' e) | Inr salt \<Rightarrow> Inr salt)"

definition params_part :: "Config \<Rightarrow> string" where
  "params_part c = ''m='' @ print_nat (unat (cfg_Memory c)) @ '',t='' @ print_nat (unat (cfg_Iterations c)) @
     '',p='' @ print_nat (unat (cfg_Parallelism c))"

definition Hash :: "argon2_lib \<Rightarrow> Config \<Rightarrow> string result \<Rightarrow> string \<Rightarrow> string result" where
  "Hash A c rng password =
     (case generateSalt rng of
        Inl e \<Rightarrow> Inl (Wrapf ''generate salt'' e)
      | Inr salt \<Rightarrow>
          (let hash = ar_IDKey A password salt (cfg_Iterations c) (cfg_Memory c) (cfg_Parallelism c) (cfg_KeyLength c)
           in Inr (''$argon2id$v='' @ strconv_Itoa (ar_Version A) @ ''$'' @ params_part c @ ''$'' @
                   RawEncodeToString False salt @ ''$'' @ RawEncodeToString False hash)))"

text \<open>
  \<^verbatim>\<open>fmt.Sscanf\<close>: a literal of the format, and the verb \<^verbatim>\<open>%d\<close> into an unsigned integer below
  a bound or into an \<^verbatim>\<open>int\<close>; each returns the rest of the input. Input left over at the end
  of the format is ignored.
\<close>

definition scan_lit :: "string \<Rightarrow> string \<Rightarrow> string option" where
  "scan_lit lit s = (if prefix lit s then Some (drop (length lit) s) else None)"

definition scan_uint :: "int \<Rightarrow> string \<Rightarrow> (nat \<times> string) option" where
  "scan_uint bound s0 =
     (let s = dropWhile (\<lambda>c. is_space c \<and> c \<noteq> CHR 0x0A) s0;
          ds = takeWhile is_digit s; n = read_nat 0 ds
      in if ds = [] \<or> int n \<ge> bound then None else Some (n, dropWhile is_digit s))"

definition scan_int :: "string \<Rightarrow> (int \<times> string) option" where
  "scan_int s0 =
     (let s = dropWhile (\<lambda>c. is_space c \<and> c \<noteq> CHR 0x0A) s0;
          signed = (s \<noteq> [] \<and> (hd s = CHR ''-'' \<or> hd s = CHR ''+''));
          body = (if signed then tl s else s); ds = takeWhile is_digit body
      in case strconv_Atoi ((if signed then [hd s] else []) @ ds) of
           None \<Rightarrow> None | Some n \<Rightarrow> Some (n, dropWhile is_digit body))"

definition scan_params :: "string \<Rightarrow> (32 word \<times> 32 word \<times> 8 word) option" where
  "scan_params s =
     (case scan_lit ''m='' s of None \<Rightarrow> None | Some s1 \<Rightarrow>
      case scan_uint (2 ^ 32) s1 of None \<Rightarrow> None | Some (m, s2) \<Rightarrow>
      case scan_lit '',t='' s2 of None \<Rightarrow> None | Some s3 \<Rightarrow>
      case scan_uint (2 ^ 32) s3 of None \<Rightarrow> None | Some (t, s4) \<Rightarrow>
      case scan_lit '',p='' s4 of None \<Rightarrow> None | Some s5 \<Rightarrow>
      case scan_uint (2 ^ 8) s5 of None \<Rightarrow> None | Some (p, s6) \<Rightarrow>
      Some (of_nat m, of_nat t, of_nat p))"

definition Verify :: "argon2_lib \<Rightarrow> string \<Rightarrow> string \<Rightarrow> bool" where
  "Verify A password hash =
     (let parts = strings_Split hash (CHR ''$'')
      in if length parts \<noteq> 6 then False
         else case scan_lit ''v='' (parts ! 2) of None \<Rightarrow> False | Some v \<Rightarrow>
           (case scan_int v of None \<Rightarrow> False | Some _ \<Rightarrow>
            (case scan_params (parts ! 3) of None \<Rightarrow> False | Some (memory, iterations, parallelism) \<Rightarrow>
             (case RawDecodeString False (parts ! 4) of None \<Rightarrow> False | Some salt \<Rightarrow>
              (case RawDecodeString False (parts ! 5) of None \<Rightarrow> False | Some hashBytes \<Rightarrow>
               hashBytes = ar_IDKey A password salt iterations memory parallelism (of_nat (length hashBytes)))))))"

section \<open>generator.go\<close>

definition genLower :: string where "genLower = ''abcdefghijkmnopqrstuvwxyz''"

definition genUpper :: string where "genUpper = ''ABCDEFGHJKLMNPQRSTUVWXYZ''"

definition genDigit :: string where "genDigit = ''23456789''"

definition genSymbol :: string where "genSymbol = ''!@#$%^&*-_''"

text \<open>
  \<open>rnd k m\<close> is the result of the \<open>k\<close>-th call of \<^verbatim>\<open>rand.Int\<close> with bound \<open>m\<close> (\<open>None\<close>: the
  random source failed).
\<close>

definition rand_ok :: "(nat \<Rightarrow> nat \<Rightarrow> nat option) \<Rightarrow> bool" where
  "rand_ok rnd \<longleftrightarrow> (\<forall>k m n. rnd k m = Some n \<longrightarrow> n < m)"

definition pick :: "nat option \<Rightarrow> string \<Rightarrow> char" where
  "pick n s = (case n of None \<Rightarrow> s ! 0 | Some i \<Rightarrow> s ! i)"

fun shuffle_loop :: "(nat \<Rightarrow> nat \<Rightarrow> nat option) \<Rightarrow> nat \<Rightarrow> string \<Rightarrow> string" where
  "shuffle_loop rnd 0 b = b"
| "shuffle_loop rnd (Suc i) b = shuffle_loop rnd i
     (case rnd (16 + Suc i) (Suc i + 1) of None \<Rightarrow> b | Some k \<Rightarrow> b[Suc i := b ! k, k := b ! Suc i])"

definition shuffle :: "(nat \<Rightarrow> nat \<Rightarrow> nat option) \<Rightarrow> string \<Rightarrow> string" where
  "shuffle rnd b = shuffle_loop rnd (length b - 1) b"

definition gen_out :: "(nat \<Rightarrow> nat \<Rightarrow> nat option) \<Rightarrow> string" where
  "gen_out rnd =
     (let all = genLower @ genUpper @ genDigit @ genSymbol
      in [pick (rnd 0 (length genLower)) genLower, pick (rnd 1 (length genUpper)) genUpper,
          pick (rnd 2 (length genDigit)) genDigit, pick (rnd 3 (length genSymbol)) genSymbol] @
         map (\<lambda>i. pick (rnd i (length all)) all) [4..<16])"

definition Generate :: "(nat \<Rightarrow> nat \<Rightarrow> nat option) \<Rightarrow> string" where
  "Generate rnd = shuffle rnd (gen_out rnd)"

section \<open>Laws of the scanner\<close>

lemma scan_lit_append [simp]: "scan_lit lit (lit @ s) = Some s"
  by (simp add: scan_lit_def)

lemma takeWhile_digits: "list_all is_digit ds \<Longrightarrow> s = [] \<or> \<not> is_digit (hd s) \<Longrightarrow> takeWhile is_digit (ds @ s) = ds"
  by (induction ds) (auto, cases s, auto)

lemma dropWhile_digits: "list_all is_digit ds \<Longrightarrow> s = [] \<or> \<not> is_digit (hd s) \<Longrightarrow> dropWhile is_digit (ds @ s) = s"
  by (induction ds) (auto, cases s, auto)

lemma while_print_nat [simp]: "takeWhile is_digit (print_nat n) = print_nat n" "dropWhile is_digit (print_nat n) = []"
  using print_nat_digits [of n] by (simp_all add: list_all_iff)

lemma is_digit_not_space: "is_digit c \<Longrightarrow> \<not> is_space c"
  by (auto simp: is_digit_def is_space_def)

lemma print_nat_Cons: "\<exists>d ds. print_nat n = d # ds \<and> is_digit d"
  using print_nat_digits [of n] by (cases "print_nat n") auto

lemma print_nat_no_skip: "dropWhile (\<lambda>c. is_space c \<and> c \<noteq> CHR 0x0A) (print_nat n @ s) = print_nat n @ s"
  using print_nat_Cons [of n] is_digit_not_space by auto

lemma scan_uint_print:
  "int n < bound \<Longrightarrow> s = [] \<or> \<not> is_digit (hd s) \<Longrightarrow> scan_uint bound (print_nat n @ s) = Some (n, s)"
  by (simp add: scan_uint_def Let_def print_nat_no_skip takeWhile_digits dropWhile_digits print_nat_digits)

lemma scan_int_Itoa:
  assumes "- (2 ^ 63) \<le> i" and "i < 2 ^ 63"
  shows "scan_int (strconv_Itoa i) = Some (i, [])"
proof (cases "i < 0")
  case True
  then have s: "strconv_Itoa i = CHR ''-'' # print_nat (nat (- i))" by (simp add: strconv_Itoa_def)
  have "\<not> is_space (CHR ''-'')" by (simp add: is_space_def)
  then show ?thesis using Atoi_Itoa [OF assms] by (simp add: scan_int_def Let_def s)
next
  case False
  then have s: "strconv_Itoa i = print_nat (nat i)" by (simp add: strconv_Itoa_def)
  show ?thesis
    using Atoi_Itoa [OF assms] print_nat_hd_not_sign [of "nat i"] print_nat_no_skip [of "nat i" "[]"]
    by (simp add: scan_int_def Let_def s)
qed

lemma scan_params_part: "scan_params (params_part c) = Some (cfg_Memory c, cfg_Iterations c, cfg_Parallelism c)"
proof -
  have "int (unat (cfg_Memory c)) < 2 ^ 32" "int (unat (cfg_Iterations c)) < 2 ^ 32" "int (unat (cfg_Parallelism c)) < 2 ^ 8"
    using unsigned_less [of "cfg_Memory c"] unsigned_less [of "cfg_Iterations c"] unsigned_less [of "cfg_Parallelism c"] by simp_all
  moreover have "\<not> is_digit (CHR '','')" by (simp add: is_digit_def)
  ultimately show ?thesis
    using scan_uint_print [of "unat (cfg_Parallelism c)" "2 ^ 8" "[]"]
    by (simp add: scan_params_def params_part_def scan_uint_print scan_lit_def)
qed

lemma Itoa_no_dollar: "CHR ''$'' \<notin> set (strconv_Itoa i)"
  using print_nat_digits [of "nat i"] print_nat_digits [of "nat (- i)"] is_digit_not_sign
  by (auto simp: strconv_Itoa_def list_all_iff)

lemma print_nat_no_dollar: "CHR ''$'' \<notin> set (print_nat n)"
  using print_nat_digits [of n] is_digit_not_sign by (auto simp: list_all_iff)

section \<open>Hash and Verify\<close>

locale argon2 =
  fixes A :: argon2_lib
  assumes key_length: "length (ar_IDKey A p s t m th n) = unat n"
    and version: "0 \<le> ar_Version A" "ar_Version A < 2 ^ 31"
begin

lemma split_hash:
  "strings_Split (''$argon2id$v='' @ strconv_Itoa v @ ''$'' @ params_part c @ ''$'' @
     RawEncodeToString False x @ ''$'' @ RawEncodeToString False y) (CHR ''$'') =
   [[], ''argon2id'', ''v='' @ strconv_Itoa v, params_part c, RawEncodeToString False x, RawEncodeToString False y]"
proof -
  let ?d = "CHR ''$''"
  have nd: "?d \<notin> set (''v='' @ strconv_Itoa v)" "?d \<notin> set (params_part c)" "?d \<notin> set (RawEncodeToString False x)"
      "?d \<notin> set (RawEncodeToString False y)"
    using Itoa_no_dollar print_nat_no_dollar RawEncode_plain by (fastforce simp: params_part_def)+
  have "strings_Split (''$argon2id$v='' @ strconv_Itoa v @ ''$'' @ params_part c @ ''$'' @
      RawEncodeToString False x @ ''$'' @ RawEncodeToString False y) ?d =
      [] # ''argon2id'' # strings_Split ((''v='' @ strconv_Itoa v) @ ?d # params_part c @ ?d #
        RawEncodeToString False x @ ?d # RawEncodeToString False y) ?d"
    using strings_Split_append_sep [of ?d "''argon2id''"] by simp
  then show ?thesis
    by (simp only: strings_Split_append_sep [OF nd(1)] strings_Split_append_sep [OF nd(2)]
        strings_Split_append_sep [OF nd(3)] strings_Split_no_sep [OF nd(4)])
qed

lemma Verify_Hash:
  assumes "Hash A c (Inr salt) p = Inr h"
  shows "Verify A q h \<longleftrightarrow> ar_IDKey A q salt (cfg_Iterations c) (cfg_Memory c) (cfg_Parallelism c) (cfg_KeyLength c) =
    ar_IDKey A p salt (cfg_Iterations c) (cfg_Memory c) (cfg_Parallelism c) (cfg_KeyLength c)"
proof -
  let ?k = "ar_IDKey A p salt (cfg_Iterations c) (cfg_Memory c) (cfg_Parallelism c) (cfg_KeyLength c)"
  have "strings_Split h (CHR ''$'') = [[], ''argon2id'', ''v='' @ strconv_Itoa (ar_Version A), params_part c,
      RawEncodeToString False salt, RawEncodeToString False ?k]"
    using assms by (simp only: Hash_def generateSalt_def Let_def sum.case Inr_inject split_hash [symmetric]) simp
  then show ?thesis
    using version scan_int_Itoa [of "ar_Version A"] key_length [of p salt]
    by (auto simp: Verify_def scan_params_part scan_lit_def)
qed

end

text \<open>A key derivation that instantiates the parameter: the password padded or cut to the length.\<close>

definition pad_argon2 :: argon2_lib where
  "pad_argon2 = \<lparr>ar_Version = 19,
     ar_IDKey = (\<lambda>p s t m th n. take (unat n) (p @ replicate (unat n) (CHR ''x'')))\<rparr>"

interpretation pad_argon2: argon2 pad_argon2
  by unfold_locales (simp_all add: pad_argon2_def)

text \<open>
  Hashing a password and verifying it against the result succeeds, for every
  configuration and salt; another password verifies exactly if the key derivation maps
  both to the same key under that salt and configuration. Printing and scanning of the
  parameters lose nothing.
\<close>

theorem hash_verify_roundtrip:
  assumes "argon2 A" and "Hash A c (Inr salt) p = Inr h"
  shows "Verify A p h \<and> (Verify A q h \<longleftrightarrow>
    ar_IDKey A q salt (cfg_Iterations c) (cfg_Memory c) (cfg_Parallelism c) (cfg_KeyLength c) =
    ar_IDKey A p salt (cfg_Iterations c) (cfg_Memory c) (cfg_Parallelism c) (cfg_KeyLength c))"
  using argon2.Verify_Hash [OF assms] by simp

lemma hash_verify_roundtrip_witness:
  "\<exists>h. Hash pad_argon2 DefaultConfig (Inr ''salt'') ''Secret123'' = Inr h \<and> Verify pad_argon2 ''Secret123'' h \<and>
     \<not> Verify pad_argon2 ''secret123'' h"
proof -
  obtain h where h: "Hash pad_argon2 DefaultConfig (Inr ''salt'') ''Secret123'' = Inr h"
    by (simp add: Hash_def generateSalt_def Let_def)
  from hash_verify_roundtrip [OF pad_argon2.argon2_axioms h] h show ?thesis
    by (simp add: pad_argon2_def DefaultConfig_def)
qed

section \<open>Generated passwords\<close>

lemma shuffle_loop_mset: "rand_ok rnd \<Longrightarrow> i < length b \<Longrightarrow> mset (shuffle_loop rnd i b) = mset b"
proof (induction rnd i b rule: shuffle_loop.induct)
  case (2 rnd i b)
  let ?b = "case rnd (16 + Suc i) (Suc i + 1) of None \<Rightarrow> b | Some k \<Rightarrow> b[Suc i := b ! k, k := b ! Suc i]"
  have "mset ?b = mset b"
  proof (cases "rnd (16 + Suc i) (Suc i + 1)")
    case (Some k)
    then have "k < length b" using 2(2,3) by (fastforce simp: rand_ok_def)
    then show ?thesis using Some 2(3) by (simp add: mset_swap)
  qed simp
  moreover have "length ?b = length b" by (simp split: option.splits)
  ultimately show ?case using 2 by simp
qed simp

lemma pool_classes:
  "c \<in> set genLower \<Longrightarrow> char_between (CHR ''a'') (CHR ''z'') c"
  "c \<in> set genUpper \<Longrightarrow> char_between (CHR ''A'') (CHR ''Z'') c"
  "c \<in> set genDigit \<Longrightarrow> char_between (CHR ''0'') (CHR ''9'') c"
proof -
  have "list_all (char_between (CHR ''a'') (CHR ''z'')) genLower" by (simp add: genLower_def char_between_def)
  moreover have "list_all (char_between (CHR ''A'') (CHR ''Z'')) genUpper" by (simp add: genUpper_def char_between_def)
  moreover have "list_all (char_between (CHR ''0'') (CHR ''9'')) genDigit" by (simp add: genDigit_def char_between_def)
  ultimately show "c \<in> set genLower \<Longrightarrow> char_between (CHR ''a'') (CHR ''z'') c"
    "c \<in> set genUpper \<Longrightarrow> char_between (CHR ''A'') (CHR ''Z'') c"
    "c \<in> set genDigit \<Longrightarrow> char_between (CHR ''0'') (CHR ''9'') c"
    by (simp_all add: list_all_iff)
qed

lemma pick_in: "rand_ok rnd \<Longrightarrow> s \<noteq> [] \<Longrightarrow> pick (rnd k (length s)) s \<in> set s"
  by (cases "rnd k (length s)") (auto simp: pick_def rand_ok_def)

lemma Generate_chars:
  assumes "rand_ok rnd"
  shows "mset (Generate rnd) = mset (gen_out rnd)" and "length (gen_out rnd) = 16"
    and "gen_out rnd ! 0 \<in> set genLower" "gen_out rnd ! 1 \<in> set genUpper" "gen_out rnd ! 2 \<in> set genDigit"
proof -
  show l: "length (gen_out rnd) = 16" by (simp add: gen_out_def Let_def)
  show "mset (Generate rnd) = mset (gen_out rnd)"
    unfolding Generate_def shuffle_def using assms l by (intro shuffle_loop_mset) auto
  have "genLower \<noteq> []" "genUpper \<noteq> []" "genDigit \<noteq> []" by (simp_all add: genLower_def genUpper_def genDigit_def)
  then show "gen_out rnd ! 0 \<in> set genLower" "gen_out rnd ! 1 \<in> set genUpper" "gen_out rnd ! 2 \<in> set genDigit"
    using pick_in [OF assms] by (simp_all add: gen_out_def Let_def)
qed

text \<open>
  Whatever the random source returns, errors included, \<^verbatim>\<open>Generate\<close> returns sixteen
  characters with an upper-case letter, a lower-case letter and a digit among them, so
  the default policy accepts the password unless it happens to contain the username or
  the email address.
\<close>

theorem generated_password_satisfies_policy:
  assumes "rand_ok rnd" and "\<not> containsString (Generate rnd) username" "\<not> containsString (Generate rnd) email"
  shows "length (Generate rnd) = 16 \<and> PasswordPolicy_Validate DefaultPasswordPolicy (Generate rnd) username email = Inr ()"
proof -
  note g = Generate_chars [OF assms(1)]
  have s: "set (Generate rnd) = set (gen_out rnd)" "length (Generate rnd) = 16"
    using arg_cong [OF g(1), of set_mset] arg_cong [OF g(1), of size] g(2) by simp_all
  have "gen_out rnd ! i \<in> set (Generate rnd)" if "i < 16" for i using that g(2) s(1) by simp
  from this [of 0] this [of 1] this [of 2]
  have mem: "gen_out rnd ! 0 \<in> set (Generate rnd)" "gen_out rnd ! 1 \<in> set (Generate rnd)" "gen_out rnd ! 2 \<in> set (Generate rnd)"
    by simp_all
  have "containsLowercase (Generate rnd)" "containsUppercase (Generate rnd)" "containsNumber (Generate rnd)"
    unfolding containsLowercase_def containsUppercase_def containsNumber_def list_ex_iff
    using mem pool_classes(1) [OF g(3)] pool_classes(2) [OF g(4)] pool_classes(3) [OF g(5)] by blast+
  then show ?thesis
    using s(2) assms(2,3) by (simp add: PasswordPolicy_Validate_def policy_errors_def DefaultPasswordPolicy_def)
qed

lemma generated_password_satisfies_policy_witness:
  "PasswordPolicy_Validate DefaultPasswordPolicy (Generate (\<lambda>k m. None)) ''operator'' ''op@bank.id'' = Inr ()"
proof -
  have "Generate (\<lambda>k m. None) = ''aA2!aaaaaaaaaaaa''"
    by (simp add: Generate_def shuffle_def gen_out_def Let_def pick_def genLower_def genUpper_def genDigit_def genSymbol_def
        upt_rec numeral_eq_Suc)
  then show ?thesis
    using generated_password_satisfies_policy [of "\<lambda>k m. None" "''operator''" "''op@bank.id''"]
    by (simp add: containsString_def contains_def upt_rec rand_ok_def)
qed

end
