(* ===== verification/Identity.thy ===== *)
theory Identity
  imports Postgres Password
begin

text \<open>
  internal/service/identity.go: registration, email verification, password recovery, reset
  and change, over the repositories and the hasher. A service call runs its statements one
  after the other without a transaction, so an error leaves the earlier ones in place.
\<close>

section \<open>The service\<close>

text \<open>
  What the service calls outside the repository: the key derivation, the hasher's
  configuration, \<^verbatim>\<open>mail.ParseAddress\<close>, the server's cast to \<^verbatim>\<open>inet\<close> and the UUID printer.
\<close>

record id_env =
  ie_argon2 :: argon2_lib
  ie_config :: Config
  ie_parseAddress :: "string \<Rightarrow> bool"
  ie_inet :: "string \<Rightarrow> string option"
  ie_uuid :: uuid_pkg

text \<open>The values one call draws at random.\<close>

record id_rand =
  ir_user :: uuid
  ir_cred :: uuid
  ir_token :: uuid
  ir_vt :: uuid
  ir_salt :: "string result"

record RegisterInput =
  ri_OrgID :: uuid
  ri_Username :: string
  ri_Email :: string
  ri_Password :: string
  ri_FullName :: string

record RegisterOutput =
  rout_User :: User
  rout_VerifyToken :: string

definition new_password_credential :: "time \<Rightarrow> uuid \<Rightarrow> uuid \<Rightarrow> string \<Rightarrow> UserCredential" where
  "new_password_credential now i userID hash = \<lparr>uc_ID = i, uc_UserID = userID, uc_CredentialType = ''password'',
     uc_SecretHash = hash, uc_CreatedAt = now, uc_ExpiresAt = None\<rparr>"

definition new_verification_token :: "time \<Rightarrow> uuid \<Rightarrow> uuid \<Rightarrow> string \<Rightarrow> string \<Rightarrow> duration \<Rightarrow> VerificationToken" where
  "new_verification_token now i userID token ttype life = \<lparr>vt_ID = i, vt_UserID = userID, vt_Token = token,
     vt_TokenType = ttype, vt_ExpiresAt = now + life, vt_UsedAt = None, vt_CreatedAt = now\<rparr>"

definition Register :: "id_env \<Rightarrow> db \<Rightarrow> time \<Rightarrow> id_rand \<Rightarrow> RegisterInput \<Rightarrow> db \<times> RegisterOutput result" where
  "Register E db now rnd input =
     (let email = NormalizeEmail (ri_Email input)
      in if is_ok (Users_GetByUsername db (ri_Username input))
         then (db, Inl (Errorf ''IdentityService.Register: username already exists''))
         else if is_ok (Users_GetByEmail db email)
         then (db, Inl (Errorf ''IdentityService.Register: email already exists''))
         else case PasswordPolicy_Validate DefaultPasswordPolicy (ri_Password input) (ri_Username input) email of
           Inl e \<Rightarrow> (db, Inl (Wrapf ''IdentityService.Register'' e))
         | Inr _ \<Rightarrow>
           (case Hash (ie_argon2 E) (ie_config E) (ir_salt rnd) (ri_Password input) of
             Inl e \<Rightarrow> (db, Inl (Wrapf ''IdentityService.Register: hash password'' e))
           | Inr passwordHash \<Rightarrow>
             (let user0 = User0\<lparr>u_ID := ir_user rnd, u_OrgID := ri_OrgID input, u_Username := ri_Username input,
                    u_Email := email, u_FullName := ri_FullName input, u_Status := ''pending_verification'',
                    u_CreatedAt := now, u_UpdatedAt := now\<rparr>
              in case User_Validate (ie_parseAddress E) user0 of
                (_, Inl e) \<Rightarrow> (db, Inl (Wrapf ''IdentityService.Register: validation'' e))
              | (user, Inr _) \<Rightarrow>
                (case Users_Create db user of
                  (db1, Inl e) \<Rightarrow> (db1, Inl (Wrapf ''IdentityService.Register: create user'' e))
                | (db1, Inr _) \<Rightarrow>
                  (case Credentials_Create db1 (new_password_credential now (ir_cred rnd) (u_ID user) passwordHash) of
                    (db2, Inl e) \<Rightarrow> (db2, Inl (Wrapf ''IdentityService.Register: create credential'' e))
                  | (db2, Inr _) \<Rightarrow>
                    (let verifyToken = uuid_String (ie_uuid E) (ir_token rnd)
                     in case VTokens_Create db2 (new_verification_token now (ir_vt rnd) (u_ID user) verifyToken
                               TokenTypeEmailVerification (24 * time_Hour)) of
                       (db3, Inl e) \<Rightarrow> (db3, Inl (Wrapf ''IdentityService.Register: create verify token'' e))
                     | (db3, Inr _) \<Rightarrow> (db3, Inr \<lparr>rout_User = user, rout_VerifyToken = verifyToken\<rparr>)))))))"

definition VerifyEmail :: "id_env \<Rightarrow> db \<Rightarrow> time \<Rightarrow> string \<Rightarrow> db \<times> unit result" where
  "VerifyEmail E db now token =
     (case VTokens_GetByToken db token of
        Inl e \<Rightarrow> (db, Inl (Wrapf ''IdentityService.VerifyEmail: get token'' e))
      | Inr vt \<Rightarrow>
        if \<not> VerificationToken_IsValid now vt
        then (db, Inl (Errorf ''IdentityService.VerifyEmail: token invalid or expired''))
        else (case Users_GetByID db (vt_UserID vt) of
          Inl e \<Rightarrow> (db, Inl (Wrapf ''IdentityService.VerifyEmail: get user'' e))
        | Inr user \<Rightarrow>
          (case Users_Update (ie_inet E) db (user\<lparr>u_Status := ''active'', u_EmailVerified := True, u_UpdatedAt := now\<rparr>) of
            (db1, Inl e) \<Rightarrow> (db1, Inl (Wrapf ''IdentityService.VerifyEmail: update user'' e))
          | (db1, Inr _) \<Rightarrow>
            (case VTokens_MarkUsed db1 now (vt_ID vt) of
              (db2, Inl e) \<Rightarrow> (db2, Inl (Wrapf ''IdentityService.VerifyEmail: mark token used'' e))
            | (db2, Inr _) \<Rightarrow> (db2, Inr ())))))"

definition RecoverPassword :: "id_env \<Rightarrow> db \<Rightarrow> time \<Rightarrow> id_rand \<Rightarrow> string \<Rightarrow> db \<times> unit result" where
  "RecoverPassword E db now rnd email =
     (case Users_GetByEmail db (NormalizeEmail email) of
        Inl _ \<Rightarrow> (db, Inr ())
      | Inr user \<Rightarrow>
        (case VTokens_Create db (new_verification_token now (ir_vt rnd) (u_ID user) (uuid_String (ie_uuid E) (ir_token rnd))
                TokenTypePasswordRecovery (1 * time_Hour)) of
          (db1, Inl e) \<Rightarrow> (db1, Inl (Wrapf ''IdentityService.RecoverPassword: create recovery token'' e))
        | (db1, Inr _) \<Rightarrow> (db1, Inr ())))"

text \<open>The checks on a new password that reset and change share: the policy and the history.\<close>

definition check_new_password :: "id_env \<Rightarrow> db \<Rightarrow> string \<Rightarrow> User \<Rightarrow> string \<Rightarrow> unit result" where
  "check_new_password E db op user newPassword =
     (case PasswordPolicy_Validate DefaultPasswordPolicy newPassword (u_Username user) (u_Email user) of
        Inl e \<Rightarrow> Inl (Wrapf op e)
      | Inr _ \<Rightarrow>
        (case Credentials_GetHistory db (u_ID user) (pp_HistoryCount DefaultPasswordPolicy) of
          Inl e \<Rightarrow> Inl (Wrapf (op @ '': get password history'') e)
        | Inr history \<Rightarrow>
          if list_ex (\<lambda>h. Verify (ie_argon2 E) newPassword (uh_SecretHash h)) history
          then Inl (Errorf (op @ '': password reuse not allowed'')) else Inr ()))"

definition ResetPassword :: "id_env \<Rightarrow> db \<Rightarrow> time \<Rightarrow> id_rand \<Rightarrow> string \<Rightarrow> string \<Rightarrow> db \<times> unit result" where
  "ResetPassword E db now rnd token newPassword =
     (case VTokens_GetByToken db token of
        Inl e \<Rightarrow> (db, Inl (Wrapf ''IdentityService.ResetPassword: get token'' e))
      | Inr vt \<Rightarrow>
        if \<not> VerificationToken_IsValid now vt
        then (db, Inl (Errorf ''IdentityService.ResetPassword: token invalid or expired''))
        else (case Users_GetByID db (vt_UserID vt) of
          Inl e \<Rightarrow> (db, Inl (Wrapf ''IdentityService.ResetPassword: get user'' e))
        | Inr user \<Rightarrow>
          (case check_new_password E db ''IdentityService.ResetPassword'' user newPassword of
            Inl e \<Rightarrow> (db, Inl e)
          | Inr _ \<Rightarrow>
            (case Hash (ie_argon2 E) (ie_config E) (ir_salt rnd) newPassword of
              Inl e \<Rightarrow> (db, Inl (Wrapf ''IdentityService.ResetPassword: hash password'' e))
            | Inr passwordHash \<Rightarrow>
              (case (if is_ok (Credentials_GetCurrentByUserID db (u_ID user))
                     then (case Credentials_Replace db now (u_ID user) ''password'' passwordHash (pp_HistoryCount DefaultPasswordPolicy) of
                             (d, Inl e) \<Rightarrow> (d, Inl (Wrapf ''IdentityService.ResetPassword: replace credential'' e)) | (d, Inr x) \<Rightarrow> (d, Inr x))
                     else (case Credentials_Create db (new_password_credential now (ir_cred rnd) (u_ID user) passwordHash) of
                             (d, Inl e) \<Rightarrow> (d, Inl (Wrapf ''IdentityService.ResetPassword: create credential'' e)) | (d, Inr x) \<Rightarrow> (d, Inr x))) of
                (db1, Inl e) \<Rightarrow> (db1, Inl e)
              | (db1, Inr _) \<Rightarrow>
                (case Users_Update (ie_inet E) db1 (user\<lparr>u_PasswordChangedAt := Some now, u_UpdatedAt := now, u_RequirePasswordChange := False\<rparr>) of
                  (db2, Inl e) \<Rightarrow> (db2, Inl (Wrapf ''IdentityService.ResetPassword: update user'' e))
                | (db2, Inr _) \<Rightarrow>
                  (case VTokens_MarkUsed db2 now (vt_ID vt) of
                    (db3, Inl e) \<Rightarrow> (db3, Inl (Wrapf ''IdentityService.ResetPassword: mark token used'' e))
                  | (db3, Inr _) \<Rightarrow> (db3, Inr ()))))))))"

definition ChangePassword :: "id_env \<Rightarrow> db \<Rightarrow> time \<Rightarrow> id_rand \<Rightarrow> uuid \<Rightarrow> string \<Rightarrow> string \<Rightarrow> db \<times> unit result" where
  "ChangePassword E db now rnd userID currentPassword newPassword =
     (case Users_GetByID db userID of
        Inl e \<Rightarrow> (db, Inl (Wrapf ''IdentityService.ChangePassword: get user'' e))
      | Inr user \<Rightarrow>
        (case Credentials_GetCurrentByUserID db userID of
          Inl e \<Rightarrow> (db, Inl (Wrapf ''IdentityService.ChangePassword: get current credential'' e))
        | Inr cred \<Rightarrow>
          if \<not> Verify (ie_argon2 E) currentPassword (uc_SecretHash cred)
          then (db, Inl (Errorf ''IdentityService.ChangePassword: current password invalid''))
          else (case check_new_password E db ''IdentityService.ChangePassword'' user newPassword of
            Inl e \<Rightarrow> (db, Inl e)
          | Inr _ \<Rightarrow>
            (case Hash (ie_argon2 E) (ie_config E) (ir_salt rnd) newPassword of
              Inl e \<Rightarrow> (db, Inl (Wrapf ''IdentityService.ChangePassword: hash password'' e))
            | Inr passwordHash \<Rightarrow>
              (case Credentials_Replace db now (u_ID user) ''password'' passwordHash (pp_HistoryCount DefaultPasswordPolicy) of
                (db1, Inl e) \<Rightarrow> (db1, Inl (Wrapf ''IdentityService.ChangePassword: replace credential'' e))
              | (db1, Inr _) \<Rightarrow>
                (case Users_Update (ie_inet E) db1 (user\<lparr>u_PasswordChangedAt := Some now, u_UpdatedAt := now\<rparr>) of
                  (db2, Inl e) \<Rightarrow> (db2, Inl (Wrapf ''IdentityService.ChangePassword: update user'' e))
                | (db2, Inr _) \<Rightarrow> (db2, Inr ())))))))"

section \<open>Helper facts\<close>

lemma User_Validate_user:
  "User_Validate pa u0 = (u, r) \<Longrightarrow> u_ID u = u_ID u0 \<and> u_Username u = u_Username u0 \<and> u_Email u = u_Email u0 \<and>
     u_Status u = u_Status u0 \<and> u_LockedUntil u = u_LockedUntil u0 \<and> u_EmailVerified u = u_EmailVerified u0"
proof -
  assume "User_Validate pa u0 = (u, r)"
  then have "u = (if u_PreferredLocale u0 = [] then u0\<lparr>u_PreferredLocale := ''id''\<rparr> else u0)"
    unfolding User_Validate_def Let_def by (rule Pair_inject) simp
  then show ?thesis by simp
qed

lemma Credentials_Create_ok:
  "Credentials_Create db c = (db', Inr x) \<Longrightarrow> \<not> db_down db \<and> db' = db\<lparr>t_user_credentials := t_user_credentials db @
     [c\<lparr>uc_CreatedAt := pg_ts (uc_CreatedAt c), uc_ExpiresAt := map_option pg_ts (uc_ExpiresAt c)\<rparr>]\<rparr>"
  by (auto simp: Credentials_Create_def split: if_splits)

lemma VTokens_Create_ok:
  "VTokens_Create db t = (db', Inr x) \<Longrightarrow> \<not> db_down db \<and> db_archived db \<and> db' = db\<lparr>t_verification_tokens := t_verification_tokens db @
     [t\<lparr>vt_ExpiresAt := pg_ts (vt_ExpiresAt t), vt_UsedAt := None, vt_CreatedAt := pg_ts (vt_CreatedAt t)\<rparr>]\<rparr>"
  by (auto simp: VTokens_Create_def split: if_splits)

text \<open>The steps of a successful registration.\<close>

lemma Register_steps:
  assumes "Register E db now rnd input = (db', Inr out)"
  obtains user h db1 db2 where "\<not> is_ok (Users_GetByUsername db (ri_Username input))"
    "\<not> is_ok (Users_GetByEmail db (NormalizeEmail (ri_Email input)))"
    "Hash (ie_argon2 E) (ie_config E) (ir_salt rnd) (ri_Password input) = Inr h"
    "PasswordPolicy_Validate DefaultPasswordPolicy (ri_Password input) (ri_Username input) (NormalizeEmail (ri_Email input)) = Inr ()"
    "u_ID user = ir_user rnd" "u_Username user = ri_Username input" "u_Email user = NormalizeEmail (ri_Email input)"
    "u_Status user = ''pending_verification''" "u_EmailVerified user = False"
    "Users_Create db user = (db1, Inr ())"
    "Credentials_Create db1 (new_password_credential now (ir_cred rnd) (ir_user rnd) h) = (db2, Inr ())"
    "VTokens_Create db2 (new_verification_token now (ir_vt rnd) (ir_user rnd) (uuid_String (ie_uuid E) (ir_token rnd))
       TokenTypeEmailVerification (24 * time_Hour)) = (db', Inr ())"
    "rout_VerifyToken out = uuid_String (ie_uuid E) (ir_token rnd)"
proof -
  define u0 where "u0 = User0\<lparr>u_ID := ir_user rnd, u_OrgID := ri_OrgID input, u_Username := ri_Username input,
     u_Email := NormalizeEmail (ri_Email input), u_FullName := ri_FullName input, u_Status := ''pending_verification'',
     u_CreatedAt := now, u_UpdatedAt := now\<rparr>"
  obtain user r where v: "User_Validate (ie_parseAddress E) u0 = (user, r)" by fastforce
  have u: "u_ID user = ir_user rnd" "u_Username user = ri_Username input" "u_Email user = NormalizeEmail (ri_Email input)"
    "u_Status user = ''pending_verification''" "u_EmailVerified user = False"
    using User_Validate_user [OF v] by (simp_all add: u0_def User0_def)
  note run = assms [unfolded Register_def Let_def, folded u0_def, unfolded v prod.case u(1)]
  show thesis
    using run that [OF _ _ _ _ u]
    by (auto split: if_splits sum.splits prod.splits)
qed

text \<open>
  The schema decides over the statements on tokens only: the other statements do the same
  under both, and without the archived columns no token is ever stored or found.
\<close>

lemma archived_lookups [simp]:
  "Users_GetByUsername (db\<lparr>db_archived := b\<rparr>) = Users_GetByUsername db" "Users_GetByEmail (db\<lparr>db_archived := b\<rparr>) = Users_GetByEmail db"
  "Users_GetByID (db\<lparr>db_archived := b\<rparr>) = Users_GetByID db"
  by (simp_all add: fun_eq_iff Users_GetByUsername_def Users_GetByEmail_def Users_GetByID_def live_users_def pg_QueryRow_def)

lemma archived_creates:
  "Users_Create (db\<lparr>db_archived := b\<rparr>) u = apfst (db_archived_update (\<lambda>_. b)) (Users_Create db u)"
  "Credentials_Create (db\<lparr>db_archived := b\<rparr>) c = apfst (db_archived_update (\<lambda>_. b)) (Credentials_Create db c)"
proof -
  have "t_users (db\<lparr>db_archived := b\<rparr>) = t_users db" by simp
  then have "users_check (db\<lparr>db_archived := b\<rparr>) = users_check db" by (simp only: fun_eq_iff users_check_def simp_thms)
  then show "Users_Create (db\<lparr>db_archived := b\<rparr>) u = apfst (db_archived_update (\<lambda>_. b)) (Users_Create db u)"
    by (simp add: Users_Create_def pg_Exec_def Let_def split: option.splits)
  show "Credentials_Create (db\<lparr>db_archived := b\<rparr>) c = apfst (db_archived_update (\<lambda>_. b)) (Credentials_Create db c)"
    by (auto simp: Credentials_Create_def pg_Exec_def)
qed

lemma VTokens_current:
  "\<not> db_archived db \<Longrightarrow> \<exists>e. VTokens_Create db t = (db, Inl e)"
  "\<not> db_archived db \<Longrightarrow> \<exists>e. VTokens_GetByToken db tok = Inl e"
  by (auto simp: VTokens_Create_def VTokens_GetByToken_def pg_QueryRow_archived_def pg_QueryRow_def pg_Exec_def)

lemma current_tokens_refused:
  "\<not> db_archived db \<Longrightarrow> \<exists>e. VerifyEmail E db now tok = (db, Inl e)"
  "\<not> db_archived db \<Longrightarrow> \<exists>e. ResetPassword E db now rnd tok pw = (db, Inl e)"
  using VTokens_current(2) [of db tok] by (auto simp: VerifyEmail_def ResetPassword_def)

text \<open>What a registration that the archived schema completes does under the current one.\<close>

lemma Register_current:
  assumes "Register E (db\<lparr>db_archived := True\<rparr>) now rnd input = (db', Inr out)"
  shows "\<exists>e. Register E (db\<lparr>db_archived := False\<rparr>) now rnd input =
     (db'\<lparr>db_archived := False, t_verification_tokens := t_verification_tokens db\<rparr>, Inl (Wrapf ''IdentityService.Register: create verify token'' e))"
proof -
  define u0 where "u0 = User0\<lparr>u_ID := ir_user rnd, u_OrgID := ri_OrgID input, u_Username := ri_Username input,
     u_Email := NormalizeEmail (ri_Email input), u_FullName := ri_FullName input, u_Status := ''pending_verification'',
     u_CreatedAt := now, u_UpdatedAt := now\<rparr>"
  obtain user r where v: "User_Validate (ie_parseAddress E) u0 = (user, r)" by fastforce
  obtain db1 r1 where c1: "Users_Create db user = (db1, r1)" by fastforce
  note run = assms [unfolded Register_def Let_def, folded u0_def, unfolded v prod.case archived_creates c1 apfst_conv]
  obtain h where h: "Hash (ie_argon2 E) (ie_config E) (ir_salt rnd) (ri_Password input) = Inr h"
    using run by (auto split: if_splits sum.splits)
  obtain db2 r2 where c2: "Credentials_Create db1 (new_password_credential now (ir_cred rnd) (u_ID user) h) = (db2, r2)" by fastforce
  let ?vt = "new_verification_token now (ir_vt rnd) (u_ID user) (uuid_String (ie_uuid E) (ir_token rnd)) TokenTypeEmailVerification (24 * time_Hour)"
  have ok: "r1 = Inr ()" "r2 = Inr ()" "VTokens_Create (db2\<lparr>db_archived := True\<rparr>) ?vt = (db', Inr ())"
    using run by (auto simp: h c2 split: if_splits sum.splits prod.splits)
  obtain row where "db1 = db\<lparr>t_users := t_users db @ [row]\<rparr>" using c1 [unfolded ok(1)] by (rule Users_Create_ok) blast
  then have t: "t_verification_tokens db2 = t_verification_tokens db" using Credentials_Create_ok [OF c2 [unfolded ok(2)]] by simp
  have "db'\<lparr>db_archived := False, t_verification_tokens := t_verification_tokens db\<rparr> = db2\<lparr>db_archived := False\<rparr>"
    using VTokens_Create_ok [OF ok(3)] by (simp flip: t)
  moreover obtain e where "VTokens_Create (db2\<lparr>db_archived := False\<rparr>) ?vt = (db2\<lparr>db_archived := False\<rparr>, Inl e)"
    using VTokens_current(1) [of "db2\<lparr>db_archived := False\<rparr>" ?vt] by auto
  ultimately show ?thesis unfolding Register_def Let_def u0_def [symmetric] v prod.case archived_creates c1 apfst_conv
    using run by (auto simp: h c2 ok split: if_splits sum.splits)
qed
text \<open>One update of a stored user, of a token and of a credential, as later lookups see it.\<close>

lemma Users_Update_lookup:
  assumes wf: "db_wf db" and get: "Users_GetByID db (u_ID user) = Inr u" and upd: "Users_Update inet db user = (db', Inr x)"
  shows "db_wf db'" "Users_GetByID db' (u_ID user) = Inr (users_set inet user u)"
    "j \<noteq> u_ID user \<Longrightarrow> Users_GetByID db' j = Users_GetByID db j"
    "t_user_credentials db' = t_user_credentials db" "t_verification_tokens db' = t_verification_tokens db"
    "t_user_credential_history db' = t_user_credential_history db" "\<not> db_down db'" "db_down db' = db_down db" "db_archived db' = db_archived db"
proof -
  have u: "u \<in> set (t_users db)" "u_ID u = u_ID user" "u_DeletedAt u = None" using get wf by (simp_all add: GetByID_iff)
  note d = Users_Update_ok [OF upd u]
  show wf': "db_wf db'" using Users_Update_wf [OF wf, of inet user] upd by simp
  show "Users_GetByID db' (u_ID user) = Inr (users_set inet user u)"
    unfolding GetByID_iff [OF wf'] using u d by (auto simp: set_sql_update intro!: image_eqI [where x = u])
  have "filter (\<lambda>r. u_ID r = j) (live_users db') = filter (\<lambda>r. u_ID r = j) (live_users db)" if "j \<noteq> u_ID user"
    using that d by (auto simp: live_users_def intro!: filter_sql_update_other)
  then show "j \<noteq> u_ID user \<Longrightarrow> Users_GetByID db' j = Users_GetByID db j"
    using d by (simp add: Users_GetByID_def pg_QueryRow_def)
qed (use Users_Update_ok [OF upd, of u] get wf in \<open>auto simp: GetByID_iff\<close>)

lemma VTokens_MarkUsed_lookup:
  assumes wf: "db_wf db" and get: "VTokens_GetByToken db tok = Inr vt" and upd: "VTokens_MarkUsed db now (vt_ID vt) = (db', Inr x)"
  shows "db_wf db'" "VTokens_GetByToken db' tok = Inr (vt\<lparr>vt_UsedAt := Some (pg_ts now)\<rparr>)"
    "Users_GetByID db' = Users_GetByID db" "Credentials_GetCurrentByUserID db' = Credentials_GetCurrentByUserID db"
proof -
  have d: "\<not> db_down db" "db' = db\<lparr>t_verification_tokens := sql_update (\<lambda>r. vt_ID r = vt_ID vt) (\<lambda>r. r\<lparr>vt_UsedAt := Some (pg_ts now)\<rparr>) (t_verification_tokens db)\<rparr>"
    using upd by (auto simp: VTokens_MarkUsed_def)
  show wf': "db_wf db'" using VTokens_MarkUsed_wf [OF wf, of now "vt_ID vt"] upd by simp
  show "VTokens_GetByToken db' tok = Inr (vt\<lparr>vt_UsedAt := Some (pg_ts now)\<rparr>)"
    unfolding GetByToken_iff [OF wf'] using get wf d by (auto simp: GetByToken_iff set_sql_update intro!: image_eqI [where x = vt])
  show "Users_GetByID db' = Users_GetByID db" "Credentials_GetCurrentByUserID db' = Credentials_GetCurrentByUserID db"
    using d by (auto simp: Users_GetByID_def live_users_def pg_QueryRow_def Credentials_GetCurrentByUserID_def fun_eq_iff)
qed

lemma Credentials_Replace_lookup:
  assumes wf: "db_wf db" and get: "Credentials_GetCurrentByUserID db i = Inr c"
    and upd: "Credentials_Replace db now i ''password'' h k = (db', Inr x)"
  shows "db_wf db'" "Credentials_GetCurrentByUserID db' i = Inr (c\<lparr>uc_SecretHash := h, uc_CreatedAt := pg_ts now, uc_ExpiresAt := None\<rparr>)"
    "t_users db' = t_users db" "t_verification_tokens db' = t_verification_tokens db" "\<not> db_down db'" "db_archived db' = db_archived db"
proof -
  show wf': "db_wf db'" using Credentials_Replace_wf [OF wf] upd by (metis fst_conv)
  obtain db1 db2 where "\<not> db_down db" "replace_archive now i ''password'' db = Inr db1" "replace_prune i ''password'' k db1 = Inr db2"
      "replace_update now i ''password'' h db2 = Inr db'" using upd by (rule Credentials_Replace_ok)
  then have d: "\<not> db_down db" "t_users db' = t_users db" "t_verification_tokens db' = t_verification_tokens db" "\<not> db_down db'"
      "db_archived db' = db_archived db"
      "t_user_credentials db' = sql_update (\<lambda>c. uc_UserID c = i \<and> uc_CredentialType c = ''password'')
         (\<lambda>c. c\<lparr>uc_SecretHash := h, uc_CreatedAt := pg_ts now, uc_ExpiresAt := None\<rparr>) (t_user_credentials db)"
    by (auto dest!: replace_steps_frame)
  then show "t_users db' = t_users db" "t_verification_tokens db' = t_verification_tokens db" "\<not> db_down db'"
    "db_archived db' = db_archived db" by simp_all
  show "Credentials_GetCurrentByUserID db' i = Inr (c\<lparr>uc_SecretHash := h, uc_CreatedAt := pg_ts now, uc_ExpiresAt := None\<rparr>)"
    unfolding GetCurrentByUserID_iff [OF wf'] using get wf d
    by (auto simp: GetCurrentByUserID_iff set_sql_update intro!: image_eqI [where x = c])
qed

lemma ok_fst: "is_ok (snd r) \<Longrightarrow> \<exists>x. r = (fst r, Inr x)"
  by (cases r; cases "snd r") auto

section \<open>Properties\<close>

lemma Register_account:
  assumes argon: "argon2 (ie_argon2 E)" and wf: "db_wf db"
    and run: "Register E db now rnd input = (db', Inr out)"
  shows "db_wf db' \<and>
    (\<exists>u c vt. Users_GetByID db' (ir_user rnd) = Inr u \<and> u_Username u = ri_Username input \<and>
       u_Email u = NormalizeEmail (ri_Email input) \<and> (\<forall>t. \<not> User_CanLogin t u) \<and>
       Credentials_GetCurrentByUserID db' (ir_user rnd) = Inr c \<and> Verify (ie_argon2 E) (ri_Password input) (uc_SecretHash c) \<and>
       VTokens_GetByToken db' (rout_VerifyToken out) = Inr vt \<and> vt_UserID vt = ir_user rnd \<and>
       (\<forall>t. VerificationToken_IsValid t vt \<longleftrightarrow> t < pg_ts (now + 24 * time_Hour))) \<and>
    (\<forall>j. j \<noteq> ir_user rnd \<longrightarrow> Users_GetByID db' j = Users_GetByID db j) \<and>
    PasswordPolicy_Validate DefaultPasswordPolicy (ri_Password input) (ri_Username input) (NormalizeEmail (ri_Email input)) = Inr ()"
proof -
  from Register_steps [OF run] obtain user h db1 db2 where
    hash: "Hash (ie_argon2 E) (ie_config E) (ir_salt rnd) (ri_Password input) = Inr h"
    and pol: "PasswordPolicy_Validate DefaultPasswordPolicy (ri_Password input) (ri_Username input) (NormalizeEmail (ri_Email input)) = Inr ()"
    and user: "u_ID user = ir_user rnd" "u_Username user = ri_Username input" "u_Email user = NormalizeEmail (ri_Email input)"
      "u_Status user = ''pending_verification''"
    and s1: "Users_Create db user = (db1, Inr ())"
    and s2: "Credentials_Create db1 (new_password_credential now (ir_cred rnd) (ir_user rnd) h) = (db2, Inr ())"
    and s3: "VTokens_Create db2 (new_verification_token now (ir_vt rnd) (ir_user rnd) (uuid_String (ie_uuid E) (ir_token rnd))
       TokenTypeEmailVerification (24 * time_Hour)) = (db', Inr ())"
    and tok: "rout_VerifyToken out = uuid_String (ie_uuid E) (ir_token rnd)" .
  have wf': "db_wf db'"
    using Users_Create_wf [OF wf, of user] Credentials_Create_wf [of db1] VTokens_Create_wf [of db2] s1 s2 s3 by (metis fst_conv)
  obtain row where row: "db1 = db\<lparr>t_users := t_users db @ [row]\<rparr>" "\<not> db_down db" "u_ID row = u_ID user"
      "u_DeletedAt row = None" "u_Username row = u_Username user" "u_Email row = u_Email user" "u_Status row = u_Status user"
    using s1 by (rule Users_Create_ok) blast
  note d2 = Credentials_Create_ok [OF s2] and d3 = VTokens_Create_ok [OF s3]
  have salt: "\<exists>x. ir_salt rnd = Inr x" using hash by (auto simp: Hash_def generateSalt_def split: sum.splits)
  then have ver: "Verify (ie_argon2 E) (ri_Password input) h" using argon2.Verify_Hash [OF argon] hash by auto
  have f1: "Users_GetByID db' (ir_user rnd) = Inr row" using wf' row d2 d3 user by (simp add: GetByID_iff)
  have f2: "Users_GetByID db' j = Users_GetByID db j" if "j \<noteq> ir_user rnd" for j
    using row d2 d3 user that by (simp add: Users_GetByID_def live_users_def pg_QueryRow_def)
  define c where "c = (new_password_credential now (ir_cred rnd) (ir_user rnd) h)\<lparr>uc_CreatedAt := pg_ts now, uc_ExpiresAt := None\<rparr>"
  have f3: "Credentials_GetCurrentByUserID db' (ir_user rnd) = Inr c" "uc_SecretHash c = h"
    unfolding GetCurrentByUserID_iff [OF wf'] using d2 d3 row by (simp_all add: c_def new_password_credential_def)
  define vt where "vt = (new_verification_token now (ir_vt rnd) (ir_user rnd) (uuid_String (ie_uuid E) (ir_token rnd))
       TokenTypeEmailVerification (24 * time_Hour))\<lparr>vt_ExpiresAt := pg_ts (now + 24 * time_Hour), vt_CreatedAt := pg_ts now\<rparr>"
  have f4: "VTokens_GetByToken db' (rout_VerifyToken out) = Inr vt" "vt_UserID vt = ir_user rnd"
      "\<forall>t. VerificationToken_IsValid t vt \<longleftrightarrow> t < pg_ts (now + 24 * time_Hour)"
    unfolding GetByToken_iff [OF wf'] using d3 tok row d2
    by (simp_all add: vt_def new_verification_token_def VerificationToken_IsValid_def)
  have f5: "\<forall>t. \<not> User_CanLogin t row" using row(7) user(4) by (simp add: User_CanLogin_def)
  show ?thesis
    by (intro conjI exI [where x = row] exI [where x = c] exI [where x = vt] allI impI)
      (use wf' f1 f2 f3 f4 f5 pol ver row(5,6) user(2,3) in simp_all)
qed

lemma taken_username_refused:
  assumes "Users_GetByID db i = Inr u" and "ri_Username input = u_Username u"
  shows "Register E db now rnd input = (db, Inl (Errorf ''IdentityService.Register: username already exists''))"
proof -
  have "\<not> db_down db" "u \<in> set (live_users db)"
    using assms(1) by (auto simp: Users_GetByID_def filter_eq_Cons_iff)
  then have "is_ok (Users_GetByUsername db (u_Username u))" by (auto simp: Users_GetByUsername_def pg_QueryRow_def filter_empty_conv split: list.splits)
  then show ?thesis using assms(2) by (simp add: Register_def Let_def)
qed

lemma Register_needs_archived: "Register E db now rnd input = (db', Inr out) \<Longrightarrow> db_archived db"
  by (elim Register_steps Users_Create_ok) (auto dest!: VTokens_Create_ok Credentials_Create_ok)


lemma VerifyEmail_steps:
  assumes "VerifyEmail E db now tok = (db', Inr x)"
  obtains vt user db1 where "VTokens_GetByToken db tok = Inr vt" "VerificationToken_IsValid now vt"
    "Users_GetByID db (vt_UserID vt) = Inr user"
    "Users_Update (ie_inet E) db (user\<lparr>u_Status := ''active'', u_EmailVerified := True, u_UpdatedAt := now\<rparr>) = (db1, Inr ())"
    "VTokens_MarkUsed db1 now (vt_ID vt) = (db', Inr ())"
  using assms that by (auto simp: VerifyEmail_def split: sum.splits prod.splits if_splits)

lemma used_token_rejected:
  assumes "VTokens_GetByToken db tok = Inr vt" and "vt_UsedAt vt \<noteq> None"
  shows "VerifyEmail E db now tok = (db, Inl (Errorf ''IdentityService.VerifyEmail: token invalid or expired''))"
    "ResetPassword E db now rnd tok pw = (db, Inl (Errorf ''IdentityService.ResetPassword: token invalid or expired''))"
  using assms by (simp_all add: VerifyEmail_def ResetPassword_def VerificationToken_IsValid_def)


text \<open>The steps of a successful reset and of a successful change of the password.\<close>

lemma ResetPassword_steps:
  assumes "ResetPassword E db now rnd tok pw = (db', Inr x)"
  obtains vt user h db1 db2 where "VTokens_GetByToken db tok = Inr vt" "VerificationToken_IsValid now vt"
    "Users_GetByID db (vt_UserID vt) = Inr user"
    "check_new_password E db ''IdentityService.ResetPassword'' user pw = Inr ()"
    "Hash (ie_argon2 E) (ie_config E) (ir_salt rnd) pw = Inr h"
    "if is_ok (Credentials_GetCurrentByUserID db (u_ID user))
     then Credentials_Replace db now (u_ID user) ''password'' h (pp_HistoryCount DefaultPasswordPolicy) = (db1, Inr ())
     else Credentials_Create db (new_password_credential now (ir_cred rnd) (u_ID user) h) = (db1, Inr ())"
    "Users_Update (ie_inet E) db1 (user\<lparr>u_PasswordChangedAt := Some now, u_UpdatedAt := now, u_RequirePasswordChange := False\<rparr>) = (db2, Inr ())"
    "VTokens_MarkUsed db2 now (vt_ID vt) = (db', Inr ())"
  using assms that by (auto simp: ResetPassword_def split: sum.splits prod.splits if_splits)

lemma ChangePassword_steps:
  assumes "ChangePassword E db now rnd i cur new = (db', Inr x)"
  obtains user cred h db1 where "Users_GetByID db i = Inr user" "Credentials_GetCurrentByUserID db i = Inr cred"
    "Verify (ie_argon2 E) cur (uc_SecretHash cred)" "check_new_password E db ''IdentityService.ChangePassword'' user new = Inr ()"
    "Hash (ie_argon2 E) (ie_config E) (ir_salt rnd) new = Inr h"
    "Credentials_Replace db now (u_ID user) ''password'' h (pp_HistoryCount DefaultPasswordPolicy) = (db1, Inr ())"
    "Users_Update (ie_inet E) db1 (user\<lparr>u_PasswordChangedAt := Some now, u_UpdatedAt := now\<rparr>) = (db', Inr ())"
  using assms that by (auto simp: ChangePassword_def split: sum.splits prod.splits if_splits)

lemma check_new_password_ok:
  "check_new_password E db op user pw = Inr () \<Longrightarrow>
     PasswordPolicy_Validate DefaultPasswordPolicy pw (u_Username user) (u_Email user) = Inr () \<and>
     (\<exists>hs. Credentials_GetHistory db (u_ID user) (pp_HistoryCount DefaultPasswordPolicy) = Inr hs \<and>
        (\<forall>h \<in> set hs. \<not> Verify (ie_argon2 E) pw (uh_SecretHash h)))"
  by (auto simp: check_new_password_def list_ex_iff split: sum.splits if_splits)

lemma Hash_Verify:
  assumes "argon2 (ie_argon2 E)" and "Hash (ie_argon2 E) (ie_config E) (ir_salt rnd) pw = Inr h"
  shows "Verify (ie_argon2 E) pw h"
proof -
  obtain s where "ir_salt rnd = Inr s" using assms(2) by (auto simp: Hash_def generateSalt_def split: sum.splits)
  then show ?thesis using argon2.Verify_Hash [OF assms(1)] assms(2) by auto
qed

lemma set_credential_lookup:
  assumes wf: "db_wf db"
    and step: "if is_ok (Credentials_GetCurrentByUserID db i)
       then Credentials_Replace db now i ''password'' h k = (db1, Inr ())
       else Credentials_Create db (new_password_credential now c0 i h) = (db1, Inr ())"
  shows "db_wf db1" "t_users db1 = t_users db" "t_verification_tokens db1 = t_verification_tokens db" "\<not> db_down db1"
    "\<exists>c. Credentials_GetCurrentByUserID db1 i = Inr c \<and> uc_SecretHash c = h" "db_archived db1 = db_archived db"
proof -
  have *: "db_wf db1 \<and> t_users db1 = t_users db \<and> t_verification_tokens db1 = t_verification_tokens db \<and> \<not> db_down db1 \<and>
    (\<exists>c. Credentials_GetCurrentByUserID db1 i = Inr c \<and> uc_SecretHash c = h) \<and> db_archived db1 = db_archived db"
  proof (cases "Credentials_GetCurrentByUserID db i")
    case (Inr c)
    then have "Credentials_Replace db now i ''password'' h k = (db1, Inr ())" using step by simp
    from Credentials_Replace_lookup [OF wf Inr this] show ?thesis by simp
  next
    case (Inl e)
    then have cr: "Credentials_Create db (new_password_credential now c0 i h) = (db1, Inr ())" using step by simp
    have wf1: "db_wf db1" using Credentials_Create_wf [OF wf, of "new_password_credential now c0 i h"] cr by simp
    have "Credentials_GetCurrentByUserID db1 i = Inr ((new_password_credential now c0 i h)\<lparr>uc_CreatedAt := pg_ts now, uc_ExpiresAt := None\<rparr>)"
      unfolding GetCurrentByUserID_iff [OF wf1] using Credentials_Create_ok [OF cr] by (simp add: new_password_credential_def)
    then show ?thesis using Credentials_Create_ok [OF cr] wf1 by (simp add: new_password_credential_def)
  qed
  then show "db_wf db1" "t_users db1 = t_users db" "t_verification_tokens db1 = t_verification_tokens db" "\<not> db_down db1"
    "\<exists>c. Credentials_GetCurrentByUserID db1 i = Inr c \<and> uc_SecretHash c = h" "db_archived db1 = db_archived db" by blast+
qed


text \<open>
  \<^verbatim>\<open>Replace\<close> on a credential whose id is already in the history violates the history's
  primary key; and the first \<^verbatim>\<open>Replace\<close> puts the id there.
\<close>

lemma Replace_archived_twice:
  assumes "c \<in> set (t_user_credentials db)" "uc_UserID c = i" "uc_CredentialType c = ''password''"
    and "uc_ID c \<in> uh_ID ` set (t_user_credential_history db)"
  shows "\<exists>e. Credentials_Replace db now i ''password'' h k = (db, Inl e)"
proof -
  let ?arch = "\<lambda>c. \<lparr>uh_ID = uc_ID c, uh_UserID = uc_UserID c, uh_CredentialType = uc_CredentialType c,
     uh_SecretHash = uc_SecretHash c, uh_RetiredAt = pg_ts now\<rparr>"
  let ?cs = "filter (\<lambda>c. uc_UserID c = i \<and> uc_CredentialType c = ''password'') (t_user_credentials db)"
  have "uc_ID c \<in> uh_ID ` set (map ?arch ?cs)" using assms(1-3) by (force simp: image_image)
  then have "\<not> distinct (map uh_ID (t_user_credential_history db @ map ?arch ?cs))"
    using assms(4) unfolding map_append distinct_append set_map by blast
  then have "replace_archive now i ''password'' db = Inl pg_unique" unfolding replace_archive_def Let_def by (rule if_P)
  then show ?thesis by (simp add: Credentials_Replace_def)
qed

lemma length_filter_key:
  assumes "distinct (map f xs)"
  shows "length (filter (\<lambda>x. f x = k) xs) \<le> 1"
proof -
  let ?ys = "filter (\<lambda>x. f x = k) xs"
  have "length (map f ?ys) = card (set (map f ?ys))" by (rule distinct_card [symmetric]) (rule distinct_map_filter [OF assms])
  also have "\<dots> \<le> card {k}" by (rule card_mono) auto
  finally show ?thesis by simp
qed

lemma Replace_first_archives:
  assumes wf: "db_wf db" and run: "Credentials_Replace db now i ''password'' h 5 = (db', Inr x)"
    and c: "c \<in> set (t_user_credentials db)" "uc_UserID c = i" "uc_CredentialType c = ''password''"
    and none: "\<forall>r \<in> set (t_user_credential_history db). uh_UserID r \<noteq> i"
  shows "uc_ID c \<in> uh_ID ` set (t_user_credential_history db')"
proof -
  obtain db1 db2 where s: "replace_archive now i ''password'' db = Inr db1" "replace_prune i ''password'' 5 db1 = Inr db2"
      "replace_update now i ''password'' h db2 = Inr db'" using run by (rule Credentials_Replace_ok)
  let ?cs = "filter (\<lambda>c. uc_UserID c = i \<and> uc_CredentialType c = ''password'') (t_user_credentials db)"
  let ?mine = "filter (\<lambda>h. uh_UserID h = i \<and> uh_CredentialType h = ''password'') (t_user_credential_history db1)"
  have cs: "length ?cs \<le> 1"
    using length_filter_key [of "\<lambda>c. (uc_UserID c, uc_CredentialType c)" "t_user_credentials db" "(i, ''password'')"] wf
    by (simp add: db_wf_def)
  have h1: "t_user_credential_history db1 = t_user_credential_history db @ map (\<lambda>c. \<lparr>uh_ID = uc_ID c, uh_UserID = uc_UserID c,
      uh_CredentialType = uc_CredentialType c, uh_SecretHash = uc_SecretHash c, uh_RetiredAt = pg_ts now\<rparr>) ?cs"
    using s(1) by (auto simp: replace_archive_def Let_def split: if_splits)
  have "filter (\<lambda>h. uh_UserID h = i \<and> uh_CredentialType h = ''password'') (t_user_credential_history db) = []"
    using none by (auto simp: filter_empty_conv)
  then have "length ?mine \<le> 5" using cs by (simp add: h1 filter_map comp_def)
  then have "set (sql_limit 5 0 (order_desc (db_scan db1) uh_RetiredAt ?mine)) = set ?mine"
    by (simp add: sql_limit_def)
  then have "set ?mine \<subseteq> set (t_user_credential_history db2)" using s(2) by (auto simp: replace_prune_def Let_def)
  then have "set ?mine \<subseteq> set (t_user_credential_history db')" using replace_steps_frame(3) [OF s(3)] by simp
  moreover have "uc_ID c \<in> uh_ID ` set ?mine" using c by (force simp: h1)
  ultimately show ?thesis by blast
qed

text \<open>
  C12: The first successful \<^verbatim>\<open>ChangePassword\<close> of an account (no archived passwords yet) knew
  the current password and makes the new one current. It is also the last: the archive
  takes the credential's own id as its primary key, so every later call for the account
  fails and changes nothing.
\<close>

theorem change_password_works_once:
  assumes argon: "argon2 (ie_argon2 E)" and wf: "db_wf db"
    and first: "\<forall>r \<in> set (t_user_credential_history db). uh_UserID r \<noteq> i"
    and run: "ChangePassword E db now rnd i cur new = (db', Inr ())"
  shows "(\<exists>c. Credentials_GetCurrentByUserID db i = Inr c \<and> Verify (ie_argon2 E) cur (uc_SecretHash c)) \<and>
    (\<exists>c. Credentials_GetCurrentByUserID db' i = Inr c \<and> Verify (ie_argon2 E) new (uc_SecretHash c)) \<and>
    (\<forall>t rnd' x y. \<exists>e. ChangePassword E db' t rnd' i x y = (db', Inl e))"
proof -
  obtain user cred h db1 where get: "Users_GetByID db i = Inr user" and cr: "Credentials_GetCurrentByUserID db i = Inr cred"
    and ver: "Verify (ie_argon2 E) cur (uc_SecretHash cred)"
    and hash: "Hash (ie_argon2 E) (ie_config E) (ir_salt rnd) new = Inr h"
    and rep: "Credentials_Replace db now (u_ID user) ''password'' h (pp_HistoryCount DefaultPasswordPolicy) = (db1, Inr ())"
    and upd: "Users_Update (ie_inet E) db1 (user\<lparr>u_PasswordChangedAt := Some now, u_UpdatedAt := now\<rparr>) = (db', Inr ())"
    using run by (rule ChangePassword_steps)
  have i: "u_ID user = i" using get wf by (simp add: GetByID_iff)
  have rep': "Credentials_Replace db now i ''password'' h 5 = (db1, Inr ())" using rep i by (simp add: DefaultPasswordPolicy_def)
  note R = Credentials_Replace_lookup [OF wf cr rep']
  let ?new = "user\<lparr>u_PasswordChangedAt := Some now, u_UpdatedAt := now\<rparr>"
  have "Users_GetByID db1 (u_ID ?new) = Inr user"
    using get i R(3,5) by (simp add: Users_GetByID_def live_users_def pg_QueryRow_def split: if_splits)
  note U = Users_Update_lookup [OF R(1) this upd]
  let ?c = "cred\<lparr>uc_SecretHash := h, uc_CreatedAt := pg_ts now, uc_ExpiresAt := None\<rparr>"
  have c': "Credentials_GetCurrentByUserID db' i = Inr ?c"
    using R(2) U(4,8) by (simp add: Credentials_GetCurrentByUserID_def pg_QueryRow_def)
  have cin: "cred \<in> set (t_user_credentials db)" "uc_UserID cred = i" "uc_CredentialType cred = ''password''"
    using cr wf by (simp_all add: GetCurrentByUserID_iff)
  have "uc_ID cred \<in> uh_ID ` set (t_user_credential_history db')"
    using Replace_first_archives [OF wf rep' cin first] U(6) by simp
  moreover have "?c \<in> set (t_user_credentials db')" using c' U(1) by (simp add: GetCurrentByUserID_iff)
  ultimately have rep2: "\<exists>e. Credentials_Replace db' t i ''password'' h' k = (db', Inl e)" for t h' k
    using Replace_archived_twice [of ?c db' i t h' k] cin by simp
  have "\<exists>e. ChangePassword E db' t rnd' i x y = (db', Inl e)" for t rnd' x y
  proof -
    define u' where "u' = users_set (ie_inet E) ?new user"
    have u': "Users_GetByID db' i = Inr u'" "u_ID u' = i" using U(2) i by (simp_all add: u'_def)
    show ?thesis
      using rep2 [of t _ "pp_HistoryCount DefaultPasswordPolicy"] u'
      by (auto simp: ChangePassword_def c' split: sum.splits prod.splits) (metis Inl_Inr_False prod.inject)+
  qed
  then show ?thesis using cr ver c' Hash_Verify [OF argon hash] by simp
qed

section \<open>A concrete run\<close>

text \<open>
  A database with one organization, and an environment whose key derivation, UUID printer,
  address parser and \<^verbatim>\<open>inet\<close> cast are concrete: the properties' hypotheses hold on the states
  reached by registering, verifying the address, recovering and changing the password.
\<close>

definition demo_env :: id_env where
  "demo_env = \<lparr>ie_argon2 = pad_argon2, ie_config = \<lparr>cfg_Memory = 1, cfg_Iterations = 1, cfg_Parallelism = 1, cfg_KeyLength = 4, cfg_SaltLength = 1\<rparr>,
     ie_parseAddress = (\<lambda>_. True), ie_inet = Some, ie_uuid = bits_uuid\<rparr>"

definition demo_rand :: "uuid \<Rightarrow> id_rand" where
  "demo_rand n = \<lparr>ir_user = 7, ir_cred = n, ir_token = n, ir_vt = n, ir_salt = Inr ''s''\<rparr>"

definition demo_input :: RegisterInput where
  "demo_input = \<lparr>ri_OrgID = 1, ri_Username = ''bob'', ri_Email = ''b@x'', ri_Password = ''Secret123'', ri_FullName = ''B''\<rparr>"

definition demo_registered :: db where
  "demo_registered = fst (Register demo_env (db_empty\<lparr>db_archived := True\<rparr>) 0 (demo_rand 8) demo_input)"

definition demo_recovered :: db where
  "demo_recovered = fst (RecoverPassword demo_env demo_registered 1 (demo_rand 9) ''b@x'')"

lemma demo_argon: "argon2 (ie_argon2 demo_env)"
  by (simp add: demo_env_def pad_argon2.argon2_axioms)

lemma demo_wf: "db_wf demo_registered" "db_wf demo_recovered"
  unfolding db_wf_def by code_simp+




theorem change_password_works_once_witness:
  "\<exists>db' e. ChangePassword demo_env demo_registered 5 (demo_rand 9) 7 ''Secret123'' ''Other4567'' = (db', Inr ()) \<and>
     ChangePassword demo_env db' 6 (demo_rand 10) 7 ''Other4567'' ''Third4567'' = (db', Inl e)"
proof -
  have h: "\<forall>r \<in> set (t_user_credential_history demo_registered). uh_UserID r \<noteq> 7" by code_simp
  have "is_ok (snd (ChangePassword demo_env demo_registered 5 (demo_rand 9) 7 ''Secret123'' ''Other4567''))" by code_simp
  then obtain db' where "ChangePassword demo_env demo_registered 5 (demo_rand 9) 7 ''Secret123'' ''Other4567'' = (db', Inr ())"
    using ok_fst by fastforce
  then show ?thesis using change_password_works_once [OF demo_argon demo_wf(1) h] by blast
qed

end
