(* ===== verification/PostgresAuthz.thy ===== *)
theory PostgresAuthz
  imports Postgres "HOL-Library.List_Lexorder"
begin

text \<open>
  Package internal/store/postgres, second part: roles, permissions, role assignments,
  branches, branch assignments (repository.go, branch.go) and the audit log
  (repository.go; internal/service/audit/service.go repeats the two statements). Text
  columns are ordered bytewise. A UUID written to a text column is its printed form, and
  is read back with \<^verbatim>\<open>uuid.Parse\<close>, errors ignored.
\<close>

section \<open>RoleRepository\<close>

definition Roles_Create :: "db \<Rightarrow> Role \<Rightarrow> db \<times> unit result" where
  "Roles_Create db role = pg_Exec ''postgres.RoleRepository.Create'' db
     (if length (ro_Code role) > 50 \<or> length (ro_Name role) > 100 \<or> length (ro_Description role) > 500 then Inl pg_too_long
      else if \<exists>r \<in> set (t_roles db). ro_ID r = ro_ID role \<or> (ro_OrgID r = ro_OrgID role \<and> ro_Code r = ro_Code role) then Inl pg_unique
      else if ro_OrgID role \<notin> set (t_organizations db) then Inl pg_fk
      else Inr (db\<lparr>t_roles := t_roles db @ [role\<lparr>ro_Permissions := [], ro_CreatedAt := pg_ts (ro_CreatedAt role),
         ro_UpdatedAt := pg_ts (ro_UpdatedAt role)\<rparr>]\<rparr>))"

definition Roles_GetByID :: "db \<Rightarrow> uuid \<Rightarrow> uuid \<Rightarrow> Role result" where
  "Roles_GetByID db i orgID = pg_QueryRow ''postgres.RoleRepository.GetByID'' db
     (filter (\<lambda>r. ro_ID r = i \<and> ro_OrgID r = orgID) (t_roles db))"

definition Roles_GetByCode :: "db \<Rightarrow> uuid \<Rightarrow> string \<Rightarrow> Role result" where
  "Roles_GetByCode db orgID code = pg_QueryRow ''postgres.RoleRepository.GetByCode'' db
     (filter (\<lambda>r. ro_OrgID r = orgID \<and> ro_Code r = code) (t_roles db))"

definition Roles_ListByOrg :: "db \<Rightarrow> uuid \<Rightarrow> Role list result" where
  "Roles_ListByOrg db orgID = pg_Query ''postgres.RoleRepository.ListByOrg'' db
     (order_by (db_scan db) ro_Name (filter (\<lambda>r. ro_OrgID r = orgID) (t_roles db)))"

definition Roles_Update :: "db \<Rightarrow> Role \<Rightarrow> db \<times> unit result" where
  "Roles_Update db role = pg_Exec ''postgres.RoleRepository.Update'' db
     (if (length (ro_Name role) > 100 \<or> length (ro_Description role) > 500) \<and>
         (\<exists>r \<in> set (t_roles db). ro_ID r = ro_ID role \<and> ro_OrgID r = ro_OrgID role) then Inl pg_too_long
      else Inr (db\<lparr>t_roles := sql_update (\<lambda>r. ro_ID r = ro_ID role \<and> ro_OrgID r = ro_OrgID role)
         (\<lambda>r. r\<lparr>ro_Name := ro_Name role, ro_Description := ro_Description role, ro_UpdatedAt := pg_ts (ro_UpdatedAt role)\<rparr>) (t_roles db)\<rparr>))"

definition Roles_Delete :: "db \<Rightarrow> uuid \<Rightarrow> uuid \<Rightarrow> db \<times> unit result" where
  "Roles_Delete db i orgID = pg_Exec ''postgres.RoleRepository.Delete'' db
     (if (\<exists>r \<in> set (t_roles db). ro_ID r = i \<and> ro_OrgID r = orgID) \<and>
         (i \<in> fst ` set (t_role_permissions db) \<or> i \<in> urr_RoleID ` set (t_user_roles db) \<or> i \<in> (fst \<circ> snd) ` set (t_branch_default_roles db)) then Inl pg_fk
      else Inr (db\<lparr>t_roles := filter (\<lambda>r. \<not> (ro_ID r = i \<and> ro_OrgID r = orgID)) (t_roles db)\<rparr>))"

section \<open>PermissionRepository\<close>

definition Perms_Create :: "db \<Rightarrow> Permission \<Rightarrow> db \<times> unit result" where
  "Perms_Create db perm = pg_Exec ''postgres.PermissionRepository.Create'' db
     (if length (pe_Code perm) > 100 \<or> length (pe_Name perm) > 100 \<or> length (pe_Description perm) > 500 \<or>
         length (pe_ResourceType perm) > 50 then Inl pg_too_long
      else if \<exists>p \<in> set (t_permissions db). pe_ID p = pe_ID perm \<or> pe_Code p = pe_Code perm then Inl pg_unique
      else Inr (db\<lparr>t_permissions := t_permissions db @ [perm\<lparr>pe_CreatedAt := pg_ts (pe_CreatedAt perm)\<rparr>]\<rparr>))"

definition Perms_GetByID :: "db \<Rightarrow> uuid \<Rightarrow> Permission result" where
  "Perms_GetByID db i = pg_QueryRow ''postgres.PermissionRepository.GetByID'' db (filter (\<lambda>p. pe_ID p = i) (t_permissions db))"

definition Perms_GetByCode :: "db \<Rightarrow> string \<Rightarrow> Permission result" where
  "Perms_GetByCode db code = pg_QueryRow ''postgres.PermissionRepository.GetByCode'' db (filter (\<lambda>p. pe_Code p = code) (t_permissions db))"

definition order_perms :: "nat list \<Rightarrow> Permission list \<Rightarrow> Permission list" where
  "order_perms scan ps = sort_key pe_ResourceType (order_by scan pe_Name ps)"

definition Perms_List :: "db \<Rightarrow> Permission list result" where
  "Perms_List db = pg_Query ''postgres.PermissionRepository.List'' db (order_perms (db_scan db) (t_permissions db))"

definition Perms_ListByResourceType :: "db \<Rightarrow> string \<Rightarrow> Permission list result" where
  "Perms_ListByResourceType db resourceType = pg_Query ''postgres.PermissionRepository.ListByResourceType'' db
     (order_by (db_scan db) pe_Name (filter (\<lambda>p. pe_ResourceType p = resourceType) (t_permissions db)))"

section \<open>RolePermissionRepository\<close>

definition RolePerms_Assign :: "db \<Rightarrow> uuid \<Rightarrow> uuid \<Rightarrow> db \<times> unit result" where
  "RolePerms_Assign db roleID permissionID = pg_Exec ''postgres.RolePermissionRepository.Assign'' db
     (if (roleID, permissionID) \<in> set (t_role_permissions db) then Inr db
      else if roleID \<notin> ro_ID ` set (t_roles db) \<or> permissionID \<notin> pe_ID ` set (t_permissions db) then Inl pg_fk
      else Inr (db\<lparr>t_role_permissions := t_role_permissions db @ [(roleID, permissionID)]\<rparr>))"

definition RolePerms_Revoke :: "db \<Rightarrow> uuid \<Rightarrow> uuid \<Rightarrow> db \<times> unit result" where
  "RolePerms_Revoke db roleID permissionID = pg_Exec ''postgres.RolePermissionRepository.Revoke'' db
     (Inr (db\<lparr>t_role_permissions := filter (\<lambda>rp. rp \<noteq> (roleID, permissionID)) (t_role_permissions db)\<rparr>))"

definition RolePerms_GetByRole :: "db \<Rightarrow> uuid \<Rightarrow> Permission list result" where
  "RolePerms_GetByRole db roleID = pg_Query ''postgres.RolePermissionRepository.GetByRole'' db
     (order_perms (db_scan db) (concat (map (\<lambda>p. map (\<lambda>_. p) (filter (\<lambda>rp. snd rp = pe_ID p \<and> fst rp = roleID) (t_role_permissions db))) (t_permissions db))))"

definition RolePerms_DeleteByRole :: "db \<Rightarrow> uuid \<Rightarrow> db \<times> unit result" where
  "RolePerms_DeleteByRole db roleID = pg_Exec ''postgres.RolePermissionRepository.DeleteByRole'' db
     (Inr (db\<lparr>t_role_permissions := filter (\<lambda>rp. fst rp \<noteq> roleID) (t_role_permissions db)\<rparr>))"

section \<open>UserRoleRepository\<close>

definition UserRoles_Create :: "uuid_pkg \<Rightarrow> db \<Rightarrow> UserRole \<Rightarrow> db \<times> unit result" where
  "UserRoles_Create U db ur = pg_Exec ''postgres.UserRoleRepository.Create'' db
     (if \<exists>r \<in> set (t_user_roles db). urr_ID r = ur_ID ur \<or>
          (urr_UserID r = ur_UserID ur \<and> urr_RoleID r = ur_RoleID ur \<and> urr_BranchID r = ur_BranchID ur) then Inl pg_unique
      else if ur_OrgID ur \<notin> set (t_organizations db) \<or> ur_UserID ur \<notin> u_ID ` set (t_users db) \<or>
          ur_RoleID ur \<notin> ro_ID ` set (t_roles db) \<or>
          (\<exists>b. ur_BranchID ur = Some b \<and> b \<notin> b_ID ` set (t_branches db)) then Inl pg_fk
      else Inr (db\<lparr>t_user_roles := t_user_roles db @ [\<lparr>urr_ID = ur_ID ur, urr_UserID = ur_UserID ur, urr_RoleID = ur_RoleID ur,
         urr_OrgID = ur_OrgID ur, urr_BranchID = ur_BranchID ur, urr_GrantedBy = uuid_String U (ur_GrantedBy ur),
         urr_GrantedAt = pg_ts (ur_GrantedAt ur), urr_RevokedAt = None, urr_RevokedBy = None\<rparr>]\<rparr>))"

definition scanUserRole :: "uuid_pkg \<Rightarrow> user_role_row \<Rightarrow> UserRole" where
  "scanUserRole U r = \<lparr>ur_ID = urr_ID r, ur_UserID = urr_UserID r, ur_RoleID = urr_RoleID r, ur_BranchID = urr_BranchID r,
     ur_OrgID = urr_OrgID r, ur_GrantedBy = uuid_Parse0 U (urr_GrantedBy r), ur_GrantedAt = urr_GrantedAt r,
     ur_RevokedAt = urr_RevokedAt r, ur_RevokedBy = map_option (uuid_Parse0 U) (urr_RevokedBy r)\<rparr>"

definition UserRoles_GetByID :: "uuid_pkg \<Rightarrow> db \<Rightarrow> uuid \<Rightarrow> UserRole result" where
  "UserRoles_GetByID U db i = pg_QueryRow ''postgres.UserRoleRepository.GetByID'' db
     (map (scanUserRole U) (filter (\<lambda>r. urr_ID r = i) (t_user_roles db)))"

definition UserRoles_GetByUser :: "uuid_pkg \<Rightarrow> db \<Rightarrow> uuid \<Rightarrow> UserRole list result" where
  "UserRoles_GetByUser U db userID = pg_Query ''postgres.UserRoleRepository.GetByUser'' db
     (map (scanUserRole U) (order_desc (db_scan db) urr_GrantedAt
        (filter (\<lambda>r. urr_UserID r = userID \<and> urr_RevokedAt r = None) (t_user_roles db))))"

definition UserRoles_GetByBranch :: "uuid_pkg \<Rightarrow> db \<Rightarrow> uuid \<Rightarrow> UserRole list result" where
  "UserRoles_GetByBranch U db branchID = pg_Query ''postgres.UserRoleRepository.GetByBranch'' db
     (map (scanUserRole U) (order_desc (db_scan db) urr_GrantedAt
        (filter (\<lambda>r. urr_BranchID r = Some branchID \<and> urr_RevokedAt r = None) (t_user_roles db))))"

definition UserRoles_Revoke :: "uuid_pkg \<Rightarrow> db \<Rightarrow> time \<Rightarrow> uuid \<Rightarrow> uuid \<Rightarrow> uuid \<Rightarrow> db \<times> unit result" where
  "UserRoles_Revoke U db now i orgID revokedBy = pg_Exec ''postgres.UserRoleRepository.Revoke'' db
     (Inr (db\<lparr>t_user_roles := sql_update (\<lambda>r. urr_ID r = i \<and> urr_OrgID r = orgID \<and> urr_RevokedAt r = None)
        (\<lambda>r. r\<lparr>urr_RevokedAt := Some (pg_ts now), urr_RevokedBy := Some (uuid_String U revokedBy)\<rparr>) (t_user_roles db)\<rparr>))"

definition UserRoles_RevokeByUserAndRole ::
  "uuid_pkg \<Rightarrow> db \<Rightarrow> time \<Rightarrow> uuid \<Rightarrow> uuid \<Rightarrow> uuid \<Rightarrow> uuid \<Rightarrow> db \<times> unit result" where
  "UserRoles_RevokeByUserAndRole U db now userID roleID orgID revokedBy =
     pg_Exec ''postgres.UserRoleRepository.RevokeByUserAndRole'' db
     (Inr (db\<lparr>t_user_roles := sql_update
        (\<lambda>r. urr_UserID r = userID \<and> urr_RoleID r = roleID \<and> urr_OrgID r = orgID \<and> urr_RevokedAt r = None)
        (\<lambda>r. r\<lparr>urr_RevokedAt := Some (pg_ts now), urr_RevokedBy := Some (uuid_String U revokedBy)\<rparr>) (t_user_roles db)\<rparr>))"

definition UserRoles_GetRoleCodesByUser :: "db \<Rightarrow> uuid \<Rightarrow> string list result" where
  "UserRoles_GetRoleCodesByUser db userID = pg_Query ''postgres.UserRoleRepository.GetRoleCodesByUser'' db
     (concat (map (\<lambda>r. map (\<lambda>_. ro_Code r) (filter (\<lambda>ur. urr_RoleID ur = ro_ID r \<and> urr_UserID ur = userID \<and> urr_RevokedAt ur = None)
        (t_user_roles db))) (t_roles db)))"

section \<open>BranchRepository\<close>

definition Branches_Create :: "db \<Rightarrow> Branch \<Rightarrow> db \<times> unit result" where
  "Branches_Create db b = pg_Exec ''postgres.BranchRepository.Create'' db
     (if length (b_BranchCode b) > 20 \<or> length (b_Name b) > 255 then Inl pg_too_long
      else if \<exists>r \<in> set (t_branches db). b_ID r = b_ID b \<or> (b_OrgID r = b_OrgID b \<and> b_BranchCode r = b_BranchCode b) then Inl pg_unique
      else if b_OrgID b \<notin> set (t_organizations db) then Inl pg_fk
      else Inr (db\<lparr>t_branches := t_branches db @ [b\<lparr>b_UpdatedAt := pg_ts (b_UpdatedAt b)\<rparr>]\<rparr>))"

definition Branches_Update :: "db \<Rightarrow> Branch \<Rightarrow> db \<times> unit result" where
  "Branches_Update db b = pg_Exec ''postgres.BranchRepository.Update'' db
     (if length (b_Name b) > 255 \<and> (\<exists>r \<in> set (t_branches db). b_ID r = b_ID b \<and> b_OrgID r = b_OrgID b) then Inl pg_too_long
      else Inr (db\<lparr>t_branches := sql_update (\<lambda>r. b_ID r = b_ID b \<and> b_OrgID r = b_OrgID b)
         (\<lambda>r. r\<lparr>b_Name := b_Name b, b_Active := b_Active b, b_UpdatedAt := pg_ts (b_UpdatedAt b)\<rparr>) (t_branches db)\<rparr>))"

definition Branches_Delete :: "uuid_pkg \<Rightarrow> db \<Rightarrow> uuid \<Rightarrow> uuid \<Rightarrow> db \<times> unit result" where
  "Branches_Delete U db i orgID = pg_Exec ''postgres.BranchRepository.Delete'' db
     (if (\<exists>r \<in> set (t_branches db). b_ID r = i \<and> b_OrgID r = orgID) \<and>
         (Some i \<in> urr_BranchID ` set (t_user_roles db) \<or> i \<in> uba_BranchID ` set (t_user_branch_assignments db) \<or>
          uuid_String U i \<in> ac_BranchID ` set (t_oauth2_authorization_codes db) \<or> i \<in> fst ` set (t_branch_default_roles db)) then Inl pg_fk
      else Inr (db\<lparr>t_branches := filter (\<lambda>r. \<not> (b_ID r = i \<and> b_OrgID r = orgID)) (t_branches db)\<rparr>))"

definition Branches_GetByID :: "db \<Rightarrow> uuid \<Rightarrow> uuid \<Rightarrow> Branch result" where
  "Branches_GetByID db i orgID = pg_QueryRow ''postgres.BranchRepository.GetByID'' db
     (filter (\<lambda>r. b_ID r = i \<and> b_OrgID r = orgID) (t_branches db))"

definition Branches_GetByCode :: "db \<Rightarrow> uuid \<Rightarrow> string \<Rightarrow> Branch result" where
  "Branches_GetByCode db orgID code = pg_QueryRow ''postgres.BranchRepository.GetByCode'' db
     (filter (\<lambda>r. b_OrgID r = orgID \<and> b_BranchCode r = code) (t_branches db))"

definition Branches_ListByOrg :: "db \<Rightarrow> uuid \<Rightarrow> Branch list result" where
  "Branches_ListByOrg db orgID = pg_Query ''postgres.BranchRepository.ListByOrg'' db
     (order_by (db_scan db) b_BranchCode (filter (\<lambda>r. b_OrgID r = orgID) (t_branches db)))"

section \<open>UserBranchAssignmentRepository\<close>

text \<open>
  A row of \<^verbatim>\<open>user_branch_assignments\<close> keeps the columns of the table; code, name and role of
  \<^typ>\<open>UserBranchAssignment\<close> are no columns. \<open>assigned_by\<close> and \<open>revoked_by\<close> are only ever written
  as printed UUIDs, so the rows keep the UUIDs.
\<close>

definition Assignments_Create :: "db \<Rightarrow> UserBranchAssignment \<Rightarrow> db \<times> unit result" where
  "Assignments_Create db uba = pg_Exec ''postgres.UserBranchAssignmentRepository.Create'' db
     (if \<exists>r \<in> set (t_user_branch_assignments db). uba_UserID r = uba_UserID uba \<and> uba_BranchID r = uba_BranchID uba then Inr db
      else if uba_ID uba \<in> uba_ID ` set (t_user_branch_assignments db) then Inl pg_unique
      else if uba_OrgID uba \<notin> set (t_organizations db) \<or> uba_UserID uba \<notin> u_ID ` set (t_users db) \<or>
          uba_BranchID uba \<notin> b_ID ` set (t_branches db) then Inl pg_fk
      else Inr (db\<lparr>t_user_branch_assignments := t_user_branch_assignments db @ [uba\<lparr>uba_BranchCode := [], uba_BranchName := [],
         uba_Role := [], uba_AssignedAt := pg_ts (uba_AssignedAt uba), uba_RevokedAt := None, uba_RevokedBy := None\<rparr>]\<rparr>))"

definition Assignments_Delete :: "db \<Rightarrow> uuid \<Rightarrow> db \<times> unit result" where
  "Assignments_Delete db i = pg_Exec ''postgres.UserBranchAssignmentRepository.Delete'' db
     (Inr (db\<lparr>t_user_branch_assignments := filter (\<lambda>r. uba_ID r \<noteq> i) (t_user_branch_assignments db)\<rparr>))"

text \<open>\<^verbatim>\<open>JOIN branches b ON b.id = uba.branch_id\<close>: the assignment with the branch's code and name.\<close>

definition join_branches :: "db \<Rightarrow> (UserBranchAssignment \<times> Branch) list" where
  "join_branches db = concat (map (\<lambda>a. map (\<lambda>b. (a\<lparr>uba_BranchCode := b_BranchCode b, uba_BranchName := b_Name b\<rparr>, b))
     (filter (\<lambda>b. b_ID b = uba_BranchID a) (t_branches db))) (t_user_branch_assignments db))"

definition order_primary :: "nat list \<Rightarrow> UserBranchAssignment list \<Rightarrow> UserBranchAssignment list" where
  "order_primary scan rows = sort_key (\<lambda>a. \<not> uba_IsPrimary a) (order_desc scan uba_AssignedAt rows)"

text \<open>The queries that select only id, user, branch and the primary flag leave the other fields zero.\<close>

definition short_row :: "UserBranchAssignment \<Rightarrow> UserBranchAssignment" where
  "short_row a = a\<lparr>uba_OrgID := uuid_Nil, uba_Role := [], uba_AssignedBy := uuid_Nil, uba_AssignedAt := 0,
     uba_RevokedAt := None, uba_RevokedBy := None\<rparr>"

definition Assignments_GetByUserID :: "db \<Rightarrow> uuid \<Rightarrow> UserBranchAssignment list result" where
  "Assignments_GetByUserID db userID = pg_Query ''postgres.UserBranchAssignmentRepository.GetByUserID'' db
     (map short_row (order_primary (db_scan db) (filter (\<lambda>a. uba_UserID a = userID) (t_user_branch_assignments db))))"

definition Assignments_GetPrimaryByUserID :: "db \<Rightarrow> uuid \<Rightarrow> UserBranchAssignment result" where
  "Assignments_GetPrimaryByUserID db userID = pg_QueryRow ''postgres.UserBranchAssignmentRepository.GetPrimaryByUserID'' db
     (map (\<lambda>(a, b). short_row a) (filter (\<lambda>(a, b). uba_UserID a = userID \<and> uba_IsPrimary a \<and> b_Active b) (join_branches db)))"

definition Assignments_GetAnyActiveByUserID :: "db \<Rightarrow> uuid \<Rightarrow> UserBranchAssignment result" where
  "Assignments_GetAnyActiveByUserID db userID = pg_QueryRow ''postgres.UserBranchAssignmentRepository.GetAnyActiveByUserID'' db
     (map short_row (order_primary (db_scan db) (map fst (filter (\<lambda>(a, b). uba_UserID a = userID \<and> b_Active b) (join_branches db)))))"

definition Assignments_GetByUserAndBranch :: "db \<Rightarrow> uuid \<Rightarrow> uuid \<Rightarrow> UserBranchAssignment result" where
  "Assignments_GetByUserAndBranch db userID branchID = pg_QueryRow ''postgres.UserBranchAssignmentRepository.GetByUserAndBranch'' db
     (map (\<lambda>(a, b). short_row a) (filter (\<lambda>(a, b). uba_UserID a = userID \<and> uba_BranchID a = branchID \<and> b_Active b) (join_branches db)))"

definition Assignments_GetByUser :: "db \<Rightarrow> uuid \<Rightarrow> UserBranchAssignment list result" where
  "Assignments_GetByUser db userID = pg_Query ''postgres.UserBranchAssignmentRepository.GetByUser'' db
     (order_primary (db_scan db) (filter (\<lambda>a. uba_UserID a = userID) (map fst (join_branches db))))"

definition Assignments_GetByBranch :: "db \<Rightarrow> uuid \<Rightarrow> UserBranchAssignment list result" where
  "Assignments_GetByBranch db branchID = pg_Query ''postgres.UserBranchAssignmentRepository.GetByBranch'' db
     (order_desc (db_scan db) uba_AssignedAt (filter (\<lambda>a. uba_BranchID a = branchID) (map fst (join_branches db))))"

definition Assignments_Revoke :: "db \<Rightarrow> time \<Rightarrow> uuid \<Rightarrow> uuid \<Rightarrow> db \<times> unit result" where
  "Assignments_Revoke db now i revokedBy = pg_Exec ''postgres.UserBranchAssignmentRepository.Revoke'' db
     (Inr (db\<lparr>t_user_branch_assignments := sql_update (\<lambda>r. uba_ID r = i \<and> uba_RevokedAt r = None)
        (\<lambda>r. r\<lparr>uba_RevokedAt := Some (pg_ts now), uba_RevokedBy := (if revokedBy \<noteq> uuid_Nil then Some revokedBy else None)\<rparr>)
        (t_user_branch_assignments db)\<rparr>))"

section \<open>AuditLogRepository\<close>

definition Audit_Create :: "string \<Rightarrow> db \<Rightarrow> AuditLog \<Rightarrow> db \<times> unit result" where
  "Audit_Create op db entry = pg_Exec op db
     (if length (al_ActorEmail entry) > 255 \<or> length (al_Action entry) > 100 \<or> length (al_ResourceType entry) > 50 \<or>
         length (al_ResourceID entry) > 255 \<or> length (al_IPAddress entry) > 50 \<or> length (al_UserAgent entry) > 500 then Inl pg_too_long
      else if al_OldValue entry = None \<or> al_NewValue entry = None then Inl pg_not_null
      else if al_ID entry \<in> al_ID ` set (t_audit_logs db) then Inl pg_unique
      else if al_OrgID entry \<notin> set (t_organizations db) then Inl pg_fk
      else Inr (db\<lparr>t_audit_logs := t_audit_logs db @ [entry\<lparr>al_CreatedAt := pg_ts (al_CreatedAt entry)\<rparr>]\<rparr>))"

definition audit_limit :: "int \<Rightarrow> int" where
  "audit_limit limit = (let l = (if limit \<le> 0 then 50 else limit) in if l > 100 then 100 else l)"

text \<open>The \<^verbatim>\<open>WHERE\<close> clause the loop over the filter's fields builds.\<close>

definition audit_where :: "AuditLogFilter \<Rightarrow> AuditLog \<Rightarrow> bool" where
  "audit_where f entry \<longleftrightarrow>
     (case af_OrgID f of None \<Rightarrow> True | Some o' \<Rightarrow> al_OrgID entry = o') \<and>
     (case af_ActorID f of None \<Rightarrow> True | Some a \<Rightarrow> al_ActorID entry = a) \<and>
     (af_Action f \<noteq> [] \<longrightarrow> al_Action entry = af_Action f) \<and>
     (af_ResourceType f \<noteq> [] \<longrightarrow> al_ResourceType entry = af_ResourceType f) \<and>
     (af_ResourceID f \<noteq> [] \<longrightarrow> al_ResourceID entry = af_ResourceID f) \<and>
     (case af_FromDate f of None \<Rightarrow> True | Some t \<Rightarrow> al_CreatedAt entry \<ge> pg_ts t) \<and>
     (case af_ToDate f of None \<Rightarrow> True | Some t \<Rightarrow> al_CreatedAt entry \<le> pg_ts t)"

definition Audit_List :: "string \<Rightarrow> db \<Rightarrow> AuditLogFilter \<Rightarrow> (AuditLog list \<times> int) result" where
  "Audit_List op db f =
     (let rows = filter (audit_where f) (t_audit_logs db)
      in if db_down db then Inl (Wrapf (op @ '': count'') pg_conn_error)
         else if af_Offset f < 0 then Inl (Wrapf (op @ '': query'') pg_invalid)
         else Inr (sql_limit (audit_limit (af_Limit f)) (af_Offset f) (order_desc (db_scan db) al_CreatedAt rows), int (length rows)))"

end
