(* ===== verification/TimeWindow.thy ===== *)
theory TimeWindow
  imports Domain
begin

text \<open>
  internal/service/opacache/cache.go, the cache of policy parameters, and
  internal/service/authz/timewindow.go, the check of operating hours that reads its
  parameter through the cache. The policy service behind the fetcher is a parameter with a
  state of its own, so that a call of it is visible; its answer is a JSON document. The
  background loop of the cache is the operation \<open>opa_cleanup\<close>, which may run at any time.
\<close>

section \<open>The cache\<close>

record 'v cache =
  ca_entries :: "(string \<times> 'v \<times> time) list"
  ca_ttl :: duration

definition NewCache :: "duration \<Rightarrow> 'v cache" where
  "NewCache ttl = \<lparr>ca_entries = [], ca_ttl = ttl\<rparr>"

definition opa_Get :: "time \<Rightarrow> 'v cache \<Rightarrow> string \<Rightarrow> 'v option" where
  "opa_Get now c key =
     (case map_of (ca_entries c) key of
        None \<Rightarrow> None
      | Some (v, expiresAt) \<Rightarrow> if now > expiresAt then None else Some v)"

definition opa_Set :: "time \<Rightarrow> 'v cache \<Rightarrow> string \<Rightarrow> 'v \<Rightarrow> 'v cache" where
  "opa_Set now c key v = c\<lparr>ca_entries := AList.update key (v, now + ca_ttl c) (ca_entries c)\<rparr>"

text \<open>\<open>fetch\<close> runs on the state of the service it calls.\<close>

definition GetOrFetch ::
  "time \<Rightarrow> 'v cache \<Rightarrow> string \<Rightarrow> ('p \<Rightarrow> 'p \<times> 'v result) \<Rightarrow> 'p \<Rightarrow> ('v cache \<times> 'p) \<times> 'v result" where
  "GetOrFetch now c key fetch p =
     (case opa_Get now c key of
        Some v \<Rightarrow> ((c, p), Inr v)
      | None \<Rightarrow> (case fetch p of
          (p', Inl e) \<Rightarrow> ((c, p'), Inl e)
        | (p', Inr v) \<Rightarrow> ((opa_Set now c key v, p'), Inr v)))"

definition opa_Invalidate :: "'v cache \<Rightarrow> string \<Rightarrow> 'v cache" where
  "opa_Invalidate c key = c\<lparr>ca_entries := AList.delete key (ca_entries c)\<rparr>"

definition InvalidateByPrefix :: "'v cache \<Rightarrow> string \<Rightarrow> 'v cache" where
  "InvalidateByPrefix c p = c\<lparr>ca_entries := filter (\<lambda>(k, _). \<not> strings_HasPrefix k p) (ca_entries c)\<rparr>"

definition opa_cleanup :: "time \<Rightarrow> 'v cache \<Rightarrow> 'v cache" where
  "opa_cleanup now c = c\<lparr>ca_entries := filter (\<lambda>(_, _, expiresAt). \<not> now > expiresAt) (ca_entries c)\<rparr>"

definition opa_Len :: "'v cache \<Rightarrow> nat" where
  "opa_Len c = length (ca_entries c)"

section \<open>Operating hours\<close>

record dayWindow =
  dw_Open :: string
  dw_Close :: string

record OperationalHours =
  oh_Timezone :: string
  oh_Weekday :: "dayWindow option"
  oh_Saturday :: "dayWindow option"
  oh_Sunday :: "dayWindow option"
  oh_IsOpen :: "bool option"
  oh_OpenTime :: string
  oh_CloseTime :: string

text \<open>
  \<^verbatim>\<open>json.Unmarshal\<close> into these structs: the document's members in order, each into the field
  whose name it equals up to case; \<^verbatim>\<open>null\<close> resets a pointer and leaves a string; a member of
  another type is an error; an unknown member is skipped.
\<close>

definition json_string :: "any \<Rightarrow> string \<Rightarrow> string option" where
  "json_string v old = (case v of AnyString s \<Rightarrow> Some s | AnyNil \<Rightarrow> Some old | _ \<Rightarrow> None)"

fun json_dayWindow :: "(string \<times> any) list \<Rightarrow> dayWindow \<Rightarrow> dayWindow option" where
  "json_dayWindow [] w = Some w"
| "json_dayWindow ((k, v) # ms) w =
     (if strings_EqualFold k ''open'' then (case json_string v (dw_Open w) of None \<Rightarrow> None | Some s \<Rightarrow> json_dayWindow ms (w\<lparr>dw_Open := s\<rparr>))
      else if strings_EqualFold k ''close'' then (case json_string v (dw_Close w) of None \<Rightarrow> None | Some s \<Rightarrow> json_dayWindow ms (w\<lparr>dw_Close := s\<rparr>))
      else json_dayWindow ms w)"

definition json_window_ptr :: "any \<Rightarrow> dayWindow option \<Rightarrow> dayWindow option option" where
  "json_window_ptr v old =
     (case v of
        AnyNil \<Rightarrow> Some None
      | AnyMap ms \<Rightarrow> map_option Some (json_dayWindow ms (case old of None \<Rightarrow> \<lparr>dw_Open = [], dw_Close = []\<rparr> | Some w \<Rightarrow> w))
      | _ \<Rightarrow> None)"

fun json_hours :: "(string \<times> any) list \<Rightarrow> OperationalHours \<Rightarrow> OperationalHours option" where
  "json_hours [] oh = Some oh"
| "json_hours ((k, v) # ms) oh =
     (if strings_EqualFold k ''timezone'' then (case json_string v (oh_Timezone oh) of None \<Rightarrow> None | Some s \<Rightarrow> json_hours ms (oh\<lparr>oh_Timezone := s\<rparr>))
      else if strings_EqualFold k ''weekday'' then (case json_window_ptr v (oh_Weekday oh) of None \<Rightarrow> None | Some w \<Rightarrow> json_hours ms (oh\<lparr>oh_Weekday := w\<rparr>))
      else if strings_EqualFold k ''saturday'' then (case json_window_ptr v (oh_Saturday oh) of None \<Rightarrow> None | Some w \<Rightarrow> json_hours ms (oh\<lparr>oh_Saturday := w\<rparr>))
      else if strings_EqualFold k ''sunday'' then (case json_window_ptr v (oh_Sunday oh) of None \<Rightarrow> None | Some w \<Rightarrow> json_hours ms (oh\<lparr>oh_Sunday := w\<rparr>))
      else if strings_EqualFold k ''is_open'' then
        (case v of AnyBool b \<Rightarrow> json_hours ms (oh\<lparr>oh_IsOpen := Some b\<rparr>) | AnyNil \<Rightarrow> json_hours ms (oh\<lparr>oh_IsOpen := None\<rparr>) | _ \<Rightarrow> None)
      else if strings_EqualFold k ''open_time'' then (case json_string v (oh_OpenTime oh) of None \<Rightarrow> None | Some s \<Rightarrow> json_hours ms (oh\<lparr>oh_OpenTime := s\<rparr>))
      else if strings_EqualFold k ''close_time'' then (case json_string v (oh_CloseTime oh) of None \<Rightarrow> None | Some s \<Rightarrow> json_hours ms (oh\<lparr>oh_CloseTime := s\<rparr>))
      else json_hours ms oh)"

definition OperationalHours0 :: OperationalHours where
  "OperationalHours0 = \<lparr>oh_Timezone = [], oh_Weekday = None, oh_Saturday = None, oh_Sunday = None, oh_IsOpen = None,
     oh_OpenTime = [], oh_CloseTime = []\<rparr>"

definition parseOperationalHours :: "any \<Rightarrow> OperationalHours result" where
  "parseOperationalHours raw =
     (case (case raw of AnyNil \<Rightarrow> Some OperationalHours0 | AnyMap ms \<Rightarrow> json_hours ms OperationalHours0 | _ \<Rightarrow> None) of
        None \<Rightarrow> Inl (Wrapf ''parse operational_hours'' (External ''json''))
      | Some oh \<Rightarrow> Inr oh)"

text \<open>An instant located in a time zone, as far as the code reads it. \<^verbatim>\<open>time.Sunday\<close> is 0, \<^verbatim>\<open>time.Saturday\<close> is 6.\<close>

record civil =
  ci_Weekday :: nat
  ci_Hour :: int
  ci_Minute :: int

definition Weekday_String :: "nat \<Rightarrow> string" where
  "Weekday_String d = [''Sunday'', ''Monday'', ''Tuesday'', ''Wednesday'', ''Thursday'', ''Friday'', ''Saturday''] ! (d mod 7)"

definition windowForDay :: "OperationalHours \<Rightarrow> nat \<Rightarrow> dayWindow option" where
  "windowForDay oh d =
     (case (if d = 6 then oh_Saturday oh else if d = 0 then oh_Sunday oh else oh_Weekday oh) of
        Some w \<Rightarrow> Some w
      | None \<Rightarrow>
          if oh_OpenTime oh \<noteq> [] \<or> oh_CloseTime oh \<noteq> []
          then if oh_IsOpen oh = Some False then None else Some \<lparr>dw_Open = oh_OpenTime oh, dw_Close = oh_CloseTime oh\<rparr>
          else None)"

definition parseHHMM :: "string \<Rightarrow> int option" where
  "parseHHMM s =
     (case strings_SplitN2 (strings_TrimSpace s) (CHR '':'') of
        [hs, ms] \<Rightarrow>
          (case strconv_Atoi hs of None \<Rightarrow> None | Some h \<Rightarrow>
             if h < 0 \<or> h > 23 then None
             else (case strconv_Atoi ms of None \<Rightarrow> None | Some m \<Rightarrow>
               if m < 0 \<or> m > 59 then None else Some (h * 60 + m)))
      | _ \<Rightarrow> None)"

text \<open>The verbs \<^verbatim>\<open>%q\<close> (bytes above 127 printed as they are) and \<^verbatim>\<open>%02d\<close> of an hour or a minute.\<close>

definition quote_char :: "char \<Rightarrow> string" where
  "quote_char c =
     (if c = CHR 0x22 \<or> c = CHR 0x5C then [CHR 0x5C, c]
      else if c = CHR 0x07 then [CHR 0x5C, CHR ''a''] else if c = CHR 0x08 then [CHR 0x5C, CHR ''b'']
      else if c = CHR 0x0C then [CHR 0x5C, CHR ''f''] else if c = CHR 0x0A then [CHR 0x5C, CHR ''n'']
      else if c = CHR 0x0D then [CHR 0x5C, CHR ''r''] else if c = CHR 0x09 then [CHR 0x5C, CHR ''t'']
      else if c = CHR 0x0B then [CHR 0x5C, CHR ''v'']
      else if (of_char c :: nat) < 32 \<or> (of_char c :: nat) = 127
        then [CHR 0x5C, CHR ''x'', hex_digit (of_char c div 16), hex_digit (of_char c mod 16)]
      else [c])"

definition fmt_q :: "string \<Rightarrow> string" where
  "fmt_q s = [CHR 0x22] @ concat (map quote_char s) @ [CHR 0x22]"

definition fmt_02d :: "int \<Rightarrow> string" where
  "fmt_02d i = (if 0 \<le> i \<and> i < 10 then ''0'' @ strconv_Itoa i else strconv_Itoa i)"

definition IsOpenAt :: "OperationalHours \<Rightarrow> civil \<Rightarrow> bool \<times> string" where
  "IsOpenAt oh t =
     (let day = Weekday_String (ci_Weekday t)
      in case windowForDay oh (ci_Weekday t) of
           None \<Rightarrow> (False, ''closed on '' @ day)
         | Some w \<Rightarrow>
           (case (parseHHMM (dw_Open w), parseHHMM (dw_Close w)) of
              (Some openMin, Some closeMin) \<Rightarrow>
                if openMin = closeMin
                then (False, ''closed on '' @ day @ '' (window '' @ fmt_q (dw_Open w) @ ''-'' @ fmt_q (dw_Close w) @ '')'')
                else (let nowMin = ci_Hour t * 60 + ci_Minute t;
                          inside = (if closeMin > openMin then nowMin \<ge> openMin \<and> nowMin < closeMin
                                    else nowMin \<ge> openMin \<or> nowMin < closeMin)
                      in if inside
                         then (True, ''within operating hours '' @ dw_Open w @ ''-'' @ dw_Close w @ '' on '' @ day)
                         else (False, ''outside operating hours '' @ dw_Open w @ ''-'' @ dw_Close w @ '' on '' @ day @
                                 '' (now '' @ fmt_02d (ci_Hour t) @ '':'' @ fmt_02d (ci_Minute t) @ '')''))
            | _ \<Rightarrow> (False, ''closed on '' @ day @ '' (window '' @ fmt_q (dw_Open w) @ ''-'' @ fmt_q (dw_Close w) @ '')'')))"

section \<open>The evaluator\<close>

text \<open>
  \<^verbatim>\<open>time.LoadLocation\<close> reads the time zone database of the machine: a parameter, which gives
  the civil time of an instant in a zone it knows. The policy service is the parameter
  \<open>ev_fetch\<close> (organization, role, branch).
\<close>

type_synonym tz_db = "string \<Rightarrow> (time \<Rightarrow> civil) option"

record 'p TimeWindowEvaluator =
  ev_fetch :: "string \<Rightarrow> string \<Rightarrow> string \<Rightarrow> 'p \<Rightarrow> 'p \<times> any result"
  ev_tz :: tz_db
  ev_uuid :: uuid_pkg
  ev_defaultTZ :: string
  ev_failOpen :: bool

definition resolveLocation :: "tz_db \<Rightarrow> string \<Rightarrow> string \<Rightarrow> (time \<Rightarrow> civil) option" where
  "resolveLocation tzdb tz0 fallback =
     (let tz = (if tz0 = [] then fallback else tz0);
          up = strings_ToUpper (strings_TrimSpace tz)
      in tzdb (if up = ''WIB'' then ''Asia/Jakarta'' else if up = ''WITA'' then ''Asia/Makassar''
               else if up = ''WIT'' then ''Asia/Jayapura'' else tz))"

definition cacheKey :: "string \<Rightarrow> string \<Rightarrow> string" where
  "cacheKey orgID branchID = ''opa:'' @ orgID @ '':operational_hours:'' @ (if branchID = [] then ''global'' else branchID)"

definition operationalHours ::
  "'p TimeWindowEvaluator \<Rightarrow> time \<Rightarrow> OperationalHours cache \<Rightarrow> 'p \<Rightarrow> AuthContext \<Rightarrow>
     (OperationalHours cache \<times> 'p) \<times> OperationalHours result" where
  "operationalHours e now c p authCtx =
     (let orgID = uuid_String (ev_uuid e) (actx_OrgID authCtx);
          branchID = uuid_String (ev_uuid e) (actx_BranchID authCtx);
          roleID = (case actx_Roles authCtx of [] \<Rightarrow> [] | r # _ \<Rightarrow> r)
      in GetOrFetch now c (cacheKey orgID branchID)
           (\<lambda>p. case ev_fetch e orgID roleID branchID p of
              (p', Inl err) \<Rightarrow> (p', Inl err)
            | (p', Inr raw) \<Rightarrow> (p', parseOperationalHours raw)) p)"

definition onError :: "'p TimeWindowEvaluator \<Rightarrow> AuthorizationResult" where
  "onError e =
     (if ev_failOpen e
      then \<lparr>res_Allowed = True, res_Reason = ''time-based access allowed (fail-open: operational_hours unavailable)'', res_FieldMasks = []\<rparr>
      else \<lparr>res_Allowed = False, res_Reason = ''time-based access denied (fail-closed: operational_hours unavailable)'', res_FieldMasks = []\<rparr>)"

definition TimeWindow_Evaluate ::
  "'p TimeWindowEvaluator \<Rightarrow> time \<Rightarrow> OperationalHours cache \<Rightarrow> 'p \<Rightarrow> AuthContext \<Rightarrow>
     (OperationalHours cache \<times> 'p) \<times> AuthorizationResult" where
  "TimeWindow_Evaluate e now c p authCtx =
     (case operationalHours e now c p authCtx of
        (s, Inl err) \<Rightarrow> (s, onError e)
      | (s, Inr oh) \<Rightarrow>
          (case resolveLocation (ev_tz e) (oh_Timezone oh) (ev_defaultTZ e) of
             None \<Rightarrow> (s, onError e)
           | Some loc \<Rightarrow>
               (case IsOpenAt oh (loc now) of (isOpen, reason) \<Rightarrow>
                  (s, if isOpen
                      then \<lparr>res_Allowed = True, res_Reason = ''time-based access allowed: '' @ reason, res_FieldMasks = []\<rparr>
                      else \<lparr>res_Allowed = False, res_Reason = ''time-based access denied: '' @ reason, res_FieldMasks = []\<rparr>))))"

section \<open>Laws of the cache\<close>

text \<open>
  What the cache promises: a finite map whose entries expire. The specification keeps the
  entries and their expiry; cleaning up changes nothing a lookup can see.
\<close>

type_synonym 'v cache_spec = "string \<Rightarrow> ('v \<times> time) option"

datatype 'v cache_op = CSet string 'v | CInvalidate string | CInvalidatePrefix string | CCleanup

fun cache_step :: "time \<Rightarrow> 'v cache_op \<Rightarrow> 'v cache \<Rightarrow> 'v cache" where
  "cache_step now (CSet k v) c = opa_Set now c k v"
| "cache_step now (CInvalidate k) c = opa_Invalidate c k"
| "cache_step now (CInvalidatePrefix p) c = InvalidateByPrefix c p"
| "cache_step now CCleanup c = opa_cleanup now c"

fun spec_step :: "duration \<Rightarrow> time \<Rightarrow> 'v cache_op \<Rightarrow> 'v cache_spec \<Rightarrow> 'v cache_spec" where
  "spec_step ttl now (CSet k v) m = m(k \<mapsto> (v, now + ttl))"
| "spec_step ttl now (CInvalidate k) m = m(k := None)"
| "spec_step ttl now (CInvalidatePrefix p) m = (\<lambda>k. if prefix p k then None else m k)"
| "spec_step ttl now CCleanup m = m"

fun run_cache :: "(time \<times> 'v cache_op) list \<Rightarrow> 'v cache \<Rightarrow> 'v cache" where
  "run_cache [] c = c"
| "run_cache ((t, e) # ops) c = run_cache ops (cache_step t e c)"

fun run_spec :: "duration \<Rightarrow> (time \<times> 'v cache_op) list \<Rightarrow> 'v cache_spec \<Rightarrow> 'v cache_spec" where
  "run_spec ttl [] m = m"
| "run_spec ttl ((t, e) # ops) m = run_spec ttl ops (spec_step ttl t e m)"

definition fresh :: "time \<Rightarrow> ('v \<times> time) option \<Rightarrow> 'v option" where
  "fresh now x = (case x of None \<Rightarrow> None | Some (v, ex) \<Rightarrow> if now > ex then None else Some v)"

text \<open>
  The simulation: keys are distinct and, for an entry of the specification that is not
  expired at the time of the last operation, both hold the same.
\<close>

definition cache_sim :: "time \<Rightarrow> 'v cache \<Rightarrow> 'v cache_spec \<Rightarrow> bool" where
  "cache_sim now c m \<longleftrightarrow> gomap_wf (ca_entries c) \<and>
     (\<forall>k. map_of (ca_entries c) k = m k \<or> (map_of (ca_entries c) k = None \<and> fresh now (m k) = None))"

lemma opa_Get_fresh: "opa_Get now c k = fresh now (map_of (ca_entries c) k)"
  by (simp add: opa_Get_def fresh_def)

lemma fresh_later: "fresh s x = None \<Longrightarrow> s \<le> t \<Longrightarrow> fresh t x = None"
  by (auto simp: fresh_def split: option.splits if_splits)

lemma cache_sim_later: "cache_sim s c m \<Longrightarrow> s \<le> t \<Longrightarrow> cache_sim t c m"
  unfolding cache_sim_def using fresh_later by blast

lemma map_of_filter_key:
  "map_of (filter (\<lambda>(k, _). P k) xs) k = (if P k then map_of xs k else None)"
  by (induction xs) auto

lemma map_of_filter_entry:
  "distinct (map fst xs) \<Longrightarrow> map_of (filter (\<lambda>(_, x). P x) xs) k = (case map_of xs k of None \<Rightarrow> None | Some x \<Rightarrow> if P x then Some x else None)"
  by (induction xs) (auto simp: map_of_eq_None_iff image_iff split: option.splits)

lemma cache_sim_step:
  assumes "cache_sim now c m"
  shows "cache_sim now (cache_step now e c) (spec_step (ca_ttl c) now e m) \<and> ca_ttl (cache_step now e c) = ca_ttl c"
proof (cases e)
  case (CSet k v)
  then show ?thesis using assms by (auto simp: cache_sim_def opa_Set_def)
next
  case (CInvalidate k)
  then show ?thesis using assms by (auto simp: cache_sim_def opa_Invalidate_def delete_conv' fresh_def)
next
  case (CInvalidatePrefix p)
  have "map_of (ca_entries (InvalidateByPrefix c p)) k = (if prefix p k then None else map_of (ca_entries c) k)" for k
    using map_of_filter_key [of "\<lambda>k. \<not> prefix p k" "ca_entries c" k] by (simp add: InvalidateByPrefix_def)
  moreover have "gomap_wf (ca_entries (InvalidateByPrefix c p))"
    using assms by (simp add: cache_sim_def InvalidateByPrefix_def gomap_wf_def distinct_map_filter)
  ultimately show ?thesis using assms CInvalidatePrefix by (simp add: cache_sim_def InvalidateByPrefix_def fresh_def)
next
  case CCleanup
  have d: "distinct (map fst (ca_entries c))" using assms by (simp add: cache_sim_def gomap_wf_def)
  have l: "map_of (ca_entries (opa_cleanup now c)) k = (case map_of (ca_entries c) k of None \<Rightarrow> None | Some (v, ex) \<Rightarrow> if now > ex then None else Some (v, ex))" for k
    using map_of_filter_entry [OF d, of "\<lambda>(_, ex). \<not> now > ex" k] by (simp add: opa_cleanup_def case_prod_unfold split: option.splits)
  have "map_of (ca_entries (opa_cleanup now c)) k = m k \<or> (map_of (ca_entries (opa_cleanup now c)) k = None \<and> fresh now (m k) = None)" for k
  proof -
    have "map_of (ca_entries c) k = m k \<or> (map_of (ca_entries c) k = None \<and> fresh now (m k) = None)" using assms by (simp add: cache_sim_def)
    then show ?thesis by (cases "map_of (ca_entries c) k"; cases "m k") (auto simp: l fresh_def split: if_splits)
  qed
  moreover have "gomap_wf (ca_entries (opa_cleanup now c))" using d by (simp add: opa_cleanup_def gomap_wf_def distinct_map_filter)
  ultimately show ?thesis using CCleanup by (simp add: cache_sim_def) (simp add: opa_cleanup_def)
qed

lemma cache_sim_run:
  "cache_sim now c m \<Longrightarrow> sorted (now # map fst ops) \<Longrightarrow> t \<ge> last (now # map fst ops) \<Longrightarrow>
     cache_sim t (run_cache ops c) (run_spec (ca_ttl c) ops m)"
proof (induction ops arbitrary: now c m)
  case Nil
  then show ?case using cache_sim_later by force
next
  case (Cons op ops)
  obtain s e where op: "op = (s, e)" by force
  have "now \<le> s" using Cons.prems(2) op by simp
  then have "cache_sim s c m" using Cons.prems(1) cache_sim_later by blast
  note step = cache_sim_step [OF this, of e]
  have "cache_sim t (run_cache ops (cache_step s e c)) (run_spec (ca_ttl (cache_step s e c)) ops (spec_step (ca_ttl c) s e m))"
    by (rule Cons.IH [of s]) (use step Cons.prems(2,3) op in auto)
  then show ?case using step op by simp
qed

text \<open>
  C15: The policy cache refines a map with expiring entries: after any sequence of stores,
  invalidations (by key or by prefix) and background clean-ups at non-decreasing times, a
  lookup at a later time returns what the map holds, if it has not expired. In particular
  clean-ups are invisible and an invalidated key misses.
\<close>

theorem opa_cache_refines_map:
  assumes "sorted (map fst ops)" and "\<forall>s \<in> fst ` set ops. s \<le> now"
  shows "opa_Get now (run_cache ops (NewCache ttl)) k = fresh now (run_spec ttl ops (\<lambda>_. None) k)"
proof (cases ops)
  case Nil
  then show ?thesis by (simp add: NewCache_def opa_Get_def fresh_def)
next
  case (Cons op ops')
  have init: "cache_sim (fst op) (NewCache ttl) (\<lambda>_. None)" by (simp add: cache_sim_def NewCache_def)
  have "last (map fst ops) \<in> fst ` set ops" using Cons by (metis last_in_set list.distinct(1) list.set_map list.simps(9))
  then have "last (fst op # map fst ops) \<le> now" using assms(2) Cons by auto
  then have "cache_sim now (run_cache ops (NewCache ttl)) (run_spec ttl ops (\<lambda>_. None))"
    using cache_sim_run [OF init, of ops now] assms(1) Cons by (simp add: NewCache_def)
  then have "map_of (ca_entries (run_cache ops (NewCache ttl))) k = run_spec ttl ops (\<lambda>_. None) k \<or>
      (map_of (ca_entries (run_cache ops (NewCache ttl))) k = None \<and> fresh now (run_spec ttl ops (\<lambda>_. None) k) = None)"
    unfolding cache_sim_def by blast
  moreover have "fresh now None = None" by (simp add: fresh_def)
  ultimately show ?thesis unfolding opa_Get_fresh by (elim disjE conjE) simp_all
qed

theorem opa_cache_refines_map_witness:
  "opa_Get 25 (run_cache [(1, CSet ''a:1'' True), (5, CCleanup), (20, CSet ''b'' False), (21, CInvalidatePrefix ''a'')] (NewCache 10)) ''b'' = Some False \<and>
   opa_Get 25 (run_cache [(1, CSet ''a:1'' True), (5, CCleanup), (20, CSet ''b'' False), (21, CInvalidatePrefix ''a'')] (NewCache 10)) ''a:1'' = None"
  using opa_cache_refines_map [of "[(1, CSet ''a:1'' True), (5, CCleanup), (20, CSet ''b'' False), (21, CInvalidatePrefix ''a'')]" 25 10]
  by (simp add: fresh_def)

section \<open>Laws of the operating hours\<close>

lemma parseHHMM_bounds: "parseHHMM s = Some m \<Longrightarrow> 0 \<le> m \<and> m < 1440"
  by (auto simp: parseHHMM_def split: list.splits option.splits if_splits)

lemma cyclic_interval:
  fixes a b n :: int
  assumes "0 \<le> a" "a < 1440" "0 \<le> b" "b < 1440" "0 \<le> n" "n < 1440"
  shows "(n - a) mod 1440 < (b - a) mod 1440 \<longleftrightarrow> (if b > a then a \<le> n \<and> n < b else a \<noteq> b \<and> (a \<le> n \<or> n < b))"
proof -
  have m: "(x - a) mod 1440 = (if x \<ge> a then x - a else x - a + 1440)" if "0 \<le> x" "x < 1440" for x
  proof (cases "x \<ge> a")
    case True
    then show ?thesis using that assms(1,2) by (simp add: mod_pos_pos_trivial)
  next
    case False
    have "(x - a) mod 1440 = (x - a + 1440) mod 1440" by simp
    also have "\<dots> = x - a + 1440" using that assms(1,2) False by (intro mod_pos_pos_trivial) linarith+
    finally show ?thesis using False by simp
  qed
  show ?thesis using assms by (simp only: m [of n] m [of b]) auto
qed

text \<open>
  C16: For a day with a readable window, \<^verbatim>\<open>IsOpenAt\<close> is membership in a half-open interval of
  the 1440-minute clock face, which may wrap past midnight: the minutes elapsed since
  opening are fewer than the length of the window, both modulo a day. An interval of
  length zero is closed all day.
\<close>

theorem is_open_cyclic:
  assumes "windowForDay oh (ci_Weekday t) = Some w"
    and "parseHHMM (dw_Open w) = Some openMin" and "parseHHMM (dw_Close w) = Some closeMin"
    and "0 \<le> ci_Hour t" "ci_Hour t < 24" "0 \<le> ci_Minute t" "ci_Minute t < 60"
  shows "fst (IsOpenAt oh t) \<longleftrightarrow>
    (ci_Hour t * 60 + ci_Minute t - openMin) mod 1440 < (closeMin - openMin) mod 1440"
proof -
  have "0 \<le> ci_Hour t * 60 + ci_Minute t" "ci_Hour t * 60 + ci_Minute t < 1440" using assms(4-7) by linarith+
  with cyclic_interval [of openMin closeMin "ci_Hour t * 60 + ci_Minute t"] parseHHMM_bounds [OF assms(2)] parseHHMM_bounds [OF assms(3)]
  show ?thesis by (simp add: IsOpenAt_def assms(1-3) Let_def)
qed

theorem is_open_cyclic_witness:
  "fst (IsOpenAt (OperationalHours0\<lparr>oh_OpenTime := ''22:00'', oh_CloseTime := ''02:00''\<rparr>) \<lparr>ci_Weekday = 2, ci_Hour = 1, ci_Minute = 59\<rparr>) \<longleftrightarrow>
     ((1 :: int) * 60 + 59 - 1320) mod 1440 < (120 - 1320) mod 1440"
proof -
  have "parseHHMM ''22:00'' = Some 1320" "parseHHMM ''02:00'' = Some 120" by code_simp+
  then show ?thesis
    using is_open_cyclic [of "OperationalHours0\<lparr>oh_OpenTime := ''22:00'', oh_CloseTime := ''02:00''\<rparr>" "\<lparr>ci_Weekday = 2, ci_Hour = 1, ci_Minute = 59\<rparr>" "\<lparr>dw_Open = ''22:00'', dw_Close = ''02:00''\<rparr>" 1320 120]
    by (simp add: windowForDay_def OperationalHours0_def)
qed

text \<open>
  Operating hours fetched for an organization and branch serve every later request of
  the same organization and branch, whatever its roles, for the cache's lifetime, and the
  policy service is not asked again; invalidating the organization's prefix makes the next
  request ask. A failed fetch stores nothing.
\<close>

theorem operating_hours_cached:
  assumes run: "operationalHours e now c p ctx = ((c', p'), r)" and miss: "opa_Get now c (cacheKey (uuid_String (ev_uuid e) (actx_OrgID ctx)) (uuid_String (ev_uuid e) (actx_BranchID ctx))) = None"
  shows "case r of
      Inl err \<Rightarrow> c' = c
    | Inr oh \<Rightarrow>
        (\<forall>ctx' t p''. actx_OrgID ctx' = actx_OrgID ctx \<and> actx_BranchID ctx' = actx_BranchID ctx \<and> now \<le> t \<and> t \<le> now + ca_ttl c \<longrightarrow>
           operationalHours e t c' p'' ctx' = ((c', p''), Inr oh)) \<and>
        (\<forall>t. opa_Get t (InvalidateByPrefix c' (''opa:'' @ uuid_String (ev_uuid e) (actx_OrgID ctx) @ '':operational_hours''))
           (cacheKey (uuid_String (ev_uuid e) (actx_OrgID ctx)) (uuid_String (ev_uuid e) (actx_BranchID ctx))) = None)"
proof (cases r)
  case (Inl err)
  then show ?thesis using run miss by (auto simp: operationalHours_def GetOrFetch_def Let_def split: prod.splits sum.splits)
next
  case (Inr oh)
  let ?key = "cacheKey (uuid_String (ev_uuid e) (actx_OrgID ctx)) (uuid_String (ev_uuid e) (actx_BranchID ctx))"
  let ?pre = "''opa:'' @ uuid_String (ev_uuid e) (actx_OrgID ctx) @ '':operational_hours''"
  have c': "c' = opa_Set now c ?key oh"
    using run miss Inr by (auto simp: operationalHours_def GetOrFetch_def Let_def split: prod.splits sum.splits)
  have hit: "opa_Get t c' ?key = Some oh" if "t \<le> now + ca_ttl c" for t
    using that by (simp add: c' opa_Get_def opa_Set_def)
  have pre: "prefix ?pre ?key" by (simp add: cacheKey_def)
  have "opa_Get t (InvalidateByPrefix c' ?pre) ?key = None" for t
    using map_of_filter_key [of "\<lambda>k. \<not> prefix ?pre k" "ca_entries c'" ?key] pre by (simp add: opa_Get_def InvalidateByPrefix_def)
  then show ?thesis using hit Inr by (simp add: operationalHours_def GetOrFetch_def Let_def)
qed

text \<open>A policy service that counts its calls, and a time zone database with one zone.\<close>

definition demo_window :: "nat TimeWindowEvaluator" where
  "demo_window = \<lparr>ev_fetch = (\<lambda>_ _ _ n. (n + 1, Inr (AnyMap [(''open_time'', AnyString ''08:00''), (''close_time'', AnyString ''15:00'')]))),
     ev_tz = (\<lambda>z. if z = ''Asia/Jakarta'' then Some (\<lambda>t. \<lparr>ci_Weekday = 1, ci_Hour = (t div time_Hour) mod 24, ci_Minute = (t div time_Minute) mod 60\<rparr>) else None),
     ev_uuid = bits_uuid, ev_defaultTZ = ''wib'', ev_failOpen = False\<rparr>"

definition demo_ctx :: "string list \<Rightarrow> AuthContext" where
  "demo_ctx roles = \<lparr>actx_UserID = 5, actx_OrgID = 1, actx_BranchID = 2, actx_Roles = roles, actx_Permissions = [''p''], actx_BranchScope = ''assigned'',
     actx_FieldMasks = [], actx_Attributes = None\<rparr>"

theorem operating_hours_cached_witness:
  "\<exists>c' oh. operationalHours demo_window 0 (NewCache 100) 0 (demo_ctx []) = ((c', 1), Inr oh) \<and>
     operationalHours demo_window 50 c' 1 (demo_ctx [''auditor'']) = ((c', 1), Inr oh)"
proof -
  let ?key = "cacheKey (uuid_String bits_uuid 1) (uuid_String bits_uuid 2)"
  have miss: "opa_Get 0 (NewCache 100 :: OperationalHours cache) ?key = None" by (simp add: NewCache_def opa_Get_def)
  have "json_hours [(''open_time'', AnyString ''08:00''), (''close_time'', AnyString ''15:00'')] OperationalHours0 =
      Some (OperationalHours0\<lparr>oh_OpenTime := ''08:00'', oh_CloseTime := ''15:00''\<rparr>)" by code_simp
  then have run: "operationalHours demo_window 0 (NewCache 100) 0 (demo_ctx []) =
      ((opa_Set 0 (NewCache 100) ?key (OperationalHours0\<lparr>oh_OpenTime := ''08:00'', oh_CloseTime := ''15:00''\<rparr>), 1),
       Inr (OperationalHours0\<lparr>oh_OpenTime := ''08:00'', oh_CloseTime := ''15:00''\<rparr>))"
    using miss by (simp add: operationalHours_def GetOrFetch_def demo_window_def demo_ctx_def parseOperationalHours_def Let_def del: json_hours.simps)
  then show ?thesis
    using operating_hours_cached [OF run] miss by (simp add: demo_window_def demo_ctx_def NewCache_def)
qed

text \<open>The decision: open, or \<^verbatim>\<open>failOpen\<close> when the hours or the zone are unavailable.\<close>

lemma TimeWindow_Evaluate_allowed:
  "res_Allowed (snd (TimeWindow_Evaluate e now c p ctx)) \<longleftrightarrow>
     (case snd (operationalHours e now c p ctx) of
        Inl _ \<Rightarrow> ev_failOpen e
      | Inr oh \<Rightarrow> (case resolveLocation (ev_tz e) (oh_Timezone oh) (ev_defaultTZ e) of
          None \<Rightarrow> ev_failOpen e | Some loc \<Rightarrow> fst (IsOpenAt oh (loc now))))"
  by (simp add: TimeWindow_Evaluate_def onError_def split: prod.splits sum.splits option.splits)

end
