(* ===== verification/Authz.thy ===== *)
theory Authz
  imports PostgresAuthz TimeWindow
begin

text \<open>
  internal/service/authz: the attribute-based evaluator (abac.go), the permission checker
  and the four-layer check (checker.go), the enforcer (casbin_adapter.go), the resolution
  of a user's effective permissions for the decision point (pdp.go), and the middleware
  that guards routes (internal/api/middleware/authz.go). The policy store of the evaluator
  is an interface with a no-op implementation only: a parameter. The getters of the
  decision point are the repositories of \<^theory_text>\<open>PostgresAuthz\<close>.
\<close>

section \<open>abac.go\<close>

text \<open>\<^verbatim>\<open>reflect.DeepEqual\<close> on dynamic values.\<close>

fun deepEqual :: "any \<Rightarrow> any \<Rightarrow> bool"
  and deepEquals :: "any list \<Rightarrow> any list \<Rightarrow> bool"
  and deepEqualEntries :: "(string \<times> any) list \<Rightarrow> (string \<times> any) list \<Rightarrow> bool" where
  "deepEqual (AnySlice xs) y = (case y of AnySlice ys \<Rightarrow> deepEquals xs ys | _ \<Rightarrow> False)"
| "deepEqual (AnyMap m) y = (case y of AnyMap n \<Rightarrow> length m = length n \<and> deepEqualEntries m n | _ \<Rightarrow> False)"
| "deepEqual x y = (x = y)"
| "deepEquals [] ys = (ys = [])"
| "deepEquals (x # xs) ys = (case ys of [] \<Rightarrow> False | y # ys' \<Rightarrow> deepEqual x y \<and> deepEquals xs ys')"
| "deepEqualEntries [] n = True"
| "deepEqualEntries ((k, v) # m) n = ((case map_of n k of None \<Rightarrow> False | Some w \<Rightarrow> deepEqual v w) \<and> deepEqualEntries m n)"

fun compareValues :: "any \<Rightarrow> any \<Rightarrow> bool"
  and compareAny :: "any list \<Rightarrow> any \<Rightarrow> bool" where
  "compareValues (AnyString s) actual = (s = ''*'' \<or> actual = AnyString s)"
| "compareValues (AnyInt i) actual = (actual = AnyInt i)"
| "compareValues (AnyFloat q) actual = (actual = AnyFloat q)"
| "compareValues (AnyBool b) actual = (actual = AnyBool b)"
| "compareValues (AnySlice vs) actual = compareAny vs actual"
| "compareValues expected actual = deepEqual expected actual"
| "compareAny [] actual = False"
| "compareAny (v # vs) actual = (compareValues v actual \<or> compareAny vs actual)"

definition matchesPermission :: "ABACPolicy \<Rightarrow> string \<Rightarrow> bool" where
  "matchesPermission policy permission =
     (case map_of (ap_Conditions policy) ''permission'' of
        None \<Rightarrow> True
      | Some (AnyString cond) \<Rightarrow> cond = permission \<or> cond = ''*''
      | Some (AnySlice cs) \<Rightarrow> list_ex (\<lambda>c. case c of AnyString s \<Rightarrow> s = permission \<or> s = ''*'' | _ \<Rightarrow> False) cs
      | Some _ \<Rightarrow> False)"

definition abac_actual :: "uuid_pkg \<Rightarrow> AuthContext \<Rightarrow> string \<Rightarrow> any" where
  "abac_actual U authCtx key =
     (if key = ''branch_scope'' then AnyString (actx_BranchScope authCtx)
      else if key = ''user_id'' then AnyString (uuid_String U (actx_UserID authCtx))
      else if key = ''org_id'' then AnyString (uuid_String U (actx_OrgID authCtx))
      else if key = ''branch_id'' then AnyString (uuid_String U (actx_BranchID authCtx))
      else (case actx_Attributes authCtx of
          None \<Rightarrow> AnyNil
        | Some attrs \<Rightarrow> AnyString (case map_of attrs key of None \<Rightarrow> [] | Some s \<Rightarrow> s)))"

definition matchesConditions :: "uuid_pkg \<Rightarrow> JSON \<Rightarrow> AuthContext \<Rightarrow> bool" where
  "matchesConditions U conditions authCtx =
     list_all (\<lambda>(key, expected). key = ''permission'' \<or> key = ''effect'' \<or> compareValues expected (abac_actual U authCtx key)) conditions"

definition policy_masks :: "ABACPolicy \<Rightarrow> FieldMask list" where
  "policy_masks p = map (\<lambda>field. \<lparr>fm_Field = field, fm_MaskValue = ''***'', fm_Reason = ap_Description p\<rparr>) (ap_Fields p)"

definition abac_Evaluate ::
  "uuid_pkg \<Rightarrow> (uuid \<Rightarrow> ABACPolicy list result) \<Rightarrow> AuthContext \<Rightarrow> string \<Rightarrow> AuthorizationResult result" where
  "abac_Evaluate U listByOrg authCtx permission =
     (case listByOrg (actx_OrgID authCtx) of
        Inl e \<Rightarrow> Inl (Wrapf ''list policies'' e)
      | Inr policies \<Rightarrow>
          (let applicable = filter (\<lambda>p. matchesPermission p permission \<and> matchesConditions U (ap_Conditions p) authCtx) policies;
               masks = concat (map policy_masks applicable)
           in if list_ex (\<lambda>p. ap_Effect p = ''deny'') applicable
              then Inr \<lparr>res_Allowed = False, res_Reason = ''denied by ABAC policy'', res_FieldMasks = masks\<rparr>
              else Inr \<lparr>res_Allowed = True, res_Reason = ''allowed by ABAC policy'', res_FieldMasks = masks\<rparr>))"

definition abac_ApplyFieldMasks :: "JSON \<Rightarrow> FieldMask list \<Rightarrow> JSON" where
  "abac_ApplyFieldMasks data masks =
     fold (\<lambda>m result. if map_of result (fm_Field m) \<noteq> None then AList.update (fm_Field m) (AnyString (fm_MaskValue m)) result else result) masks data"

section \<open>checker.go\<close>

record 'p PermissionChecker =
  pc_uuid :: uuid_pkg
  pc_policies :: "uuid \<Rightarrow> ABACPolicy list result"
  pc_timeWindow :: "'p TimeWindowEvaluator option"
  pc_timeGated :: "string list"

definition NewPermissionChecker :: "uuid_pkg \<Rightarrow> (uuid \<Rightarrow> ABACPolicy list result) \<Rightarrow> 'p PermissionChecker" where
  "NewPermissionChecker U policies = \<lparr>pc_uuid = U, pc_policies = policies, pc_timeWindow = None, pc_timeGated = []\<rparr>"

definition WithTimeGate :: "'p PermissionChecker \<Rightarrow> 'p TimeWindowEvaluator option \<Rightarrow> string list \<Rightarrow> 'p PermissionChecker" where
  "WithTimeGate c tw permissions = c\<lparr>pc_timeWindow := tw, pc_timeGated := permissions\<rparr>"

definition isTimeGated :: "'p PermissionChecker \<Rightarrow> string \<Rightarrow> bool" where
  "isTimeGated c permission \<longleftrightarrow> pc_timeWindow c \<noteq> None \<and> permission \<in> set (pc_timeGated c)"

definition hasPermission :: "AuthContext \<Rightarrow> string \<Rightarrow> bool" where
  "hasPermission authCtx permission = list_ex (\<lambda>p. p = permission \<or> p = ''*'') (actx_Permissions authCtx)"

text \<open>\<open>None\<close> is the nil context. \<^verbatim>\<open>getUserPermissionsFromStore\<close> always returns no permissions.\<close>

definition getUserPermissionsFromStore :: "string list result" where
  "getUserPermissionsFromStore = Inr []"

definition CheckPermission :: "AuthContext option \<Rightarrow> string \<Rightarrow> AuthorizationResult" where
  "CheckPermission authCtx permission =
     (case authCtx of
        None \<Rightarrow> \<lparr>res_Allowed = False, res_Reason = ''empty auth context'', res_FieldMasks = []\<rparr>
      | Some ctx0 \<Rightarrow>
          (let ctx = (if actx_Roles ctx0 = [] \<and> actx_Permissions ctx0 = []
                      then (case getUserPermissionsFromStore of Inl _ \<Rightarrow> ctx0 | Inr perms \<Rightarrow> ctx0\<lparr>actx_Permissions := perms\<rparr>)
                      else ctx0)
           in if hasPermission ctx permission
              then \<lparr>res_Allowed = True, res_Reason = ''permission granted'', res_FieldMasks = []\<rparr>
              else \<lparr>res_Allowed = False, res_Reason = ''permission '' @ [CHR 0x27] @ permission @ [CHR 0x27] @ '' denied'', res_FieldMasks = []\<rparr>))"

definition needsABACCheck :: "string \<Rightarrow> bool" where
  "needsABACCheck permission = list_ex (\<lambda>s. s = permission) [''transaction:read'', ''account:read'', ''customer:read'', ''report:generate'']"

text \<open>
  \<open>s\<close> is the state of the time window: the cache and the policy service behind it. The
  time gate returns the denial, if any.
\<close>

definition time_gate ::
  "'p PermissionChecker \<Rightarrow> time \<Rightarrow> OperationalHours cache \<times> 'p \<Rightarrow> AuthContext \<Rightarrow> string \<Rightarrow>
     (OperationalHours cache \<times> 'p) \<times> AuthorizationResult option" where
  "time_gate c now s ctx permission =
     (case pc_timeWindow c of
        None \<Rightarrow> (s, None)
      | Some tw \<Rightarrow>
          if isTimeGated c permission
          then (case TimeWindow_Evaluate tw now (fst s) (snd s) ctx of (s', r) \<Rightarrow> (s', if res_Allowed r then None else Some r))
          else (s, None))"

definition CheckDataAccess ::
  "'p PermissionChecker \<Rightarrow> time \<Rightarrow> OperationalHours cache \<times> 'p \<Rightarrow> AuthContext option \<Rightarrow> string \<Rightarrow>
     (OperationalHours cache \<times> 'p) \<times> AuthorizationResult result" where
  "CheckDataAccess c now s authCtx permission =
     (let result = CheckPermission authCtx permission
      in case authCtx of
           None \<Rightarrow> (s, Inr result)
         | Some ctx \<Rightarrow>
           if \<not> res_Allowed result then (s, Inr result)
           else (case time_gate c now s ctx permission of
               (s', Some denied) \<Rightarrow> (s', Inr denied)
             | (s', None) \<Rightarrow>
                 if needsABACCheck permission then (s', abac_Evaluate (pc_uuid c) (pc_policies c) ctx permission)
                 else (s', Inr result)))"

definition CheckBranchScope :: "AuthContext \<Rightarrow> uuid \<Rightarrow> AuthorizationResult" where
  "CheckBranchScope authCtx target =
     (if actx_BranchScope authCtx = ''all'' then \<lparr>res_Allowed = True, res_Reason = ''branch scope: all'', res_FieldMasks = []\<rparr>
      else if actx_BranchScope authCtx = ''assigned''
      then if actx_BranchID authCtx = target then \<lparr>res_Allowed = True, res_Reason = ''branch scope: assigned'', res_FieldMasks = []\<rparr>
           else \<lparr>res_Allowed = False, res_Reason = ''branch scope: not in assigned branch'', res_FieldMasks = []\<rparr>
      else if actx_BranchScope authCtx = ''own''
      then \<lparr>res_Allowed = (actx_BranchID authCtx = target), res_Reason = ''branch scope: own data only'', res_FieldMasks = []\<rparr>
      else \<lparr>res_Allowed = False, res_Reason = ''unknown branch scope'', res_FieldMasks = []\<rparr>)"

definition hasFieldPermission :: "AuthContext \<Rightarrow> string \<Rightarrow> string \<Rightarrow> bool" where
  "hasFieldPermission authCtx permission field =
     (if actx_FieldMasks authCtx = [] then True
      else if list_ex (\<lambda>m. fm_Field m = field) (actx_FieldMasks authCtx) then False
      else hasPermission authCtx permission)"

definition CheckFieldAccess :: "AuthContext \<Rightarrow> string \<Rightarrow> string list \<Rightarrow> (string \<times> bool) list" where
  "CheckFieldAccess authCtx permission names =
     fold (\<lambda>f allowed. AList.update f (hasFieldPermission authCtx permission f) allowed) names []"

definition checker_ApplyFieldMasks :: "AuthContext \<Rightarrow> JSON \<Rightarrow> string list \<Rightarrow> JSON" where
  "checker_ApplyFieldMasks authCtx data names =
     (if actx_FieldMasks authCtx = [] then data
      else fold (\<lambda>f result. fold (\<lambda>m result. if fm_Field m = f then AList.update f (AnyString (fm_MaskValue m)) result else result)
             (actx_FieldMasks authCtx) result) names data)"

record AuthParams =
  apm_PagePermission :: string
  apm_DataPermission :: string
  apm_TargetBranchID :: uuid
  apm_SkipPageCheck :: bool

definition Authorize ::
  "'p PermissionChecker \<Rightarrow> time \<Rightarrow> OperationalHours cache \<times> 'p \<Rightarrow> AuthContext \<Rightarrow> AuthParams \<Rightarrow>
     (OperationalHours cache \<times> 'p) \<times> AuthorizationResult result" where
  "Authorize c now s authCtx params =
     (let pageResult = CheckPermission (Some authCtx) (apm_PagePermission params)
      in if \<not> apm_SkipPageCheck params \<and> \<not> res_Allowed pageResult then (s, Inr pageResult)
         else (case CheckDataAccess c now s (Some authCtx) (apm_DataPermission params) of
             (s', Inl e) \<Rightarrow> (s', Inl e)
           | (s', Inr dataResult) \<Rightarrow>
               if \<not> res_Allowed dataResult then (s', Inr dataResult)
               else (let branchResult = CheckBranchScope authCtx (apm_TargetBranchID params)
                     in if \<not> res_Allowed branchResult then (s', Inr branchResult)
                        else (s', Inr \<lparr>res_Allowed = True, res_Reason = ''all layers passed'', res_FieldMasks = res_FieldMasks dataResult\<rparr>))))"

section \<open>casbin_adapter.go\<close>

definition Enforce :: "AuthContext \<Rightarrow> string \<Rightarrow> AuthorizationResult" where
  "Enforce authCtx permission =
     (if \<not> list_ex (\<lambda>p. p = permission \<or> p = ''*'') (actx_Permissions authCtx)
      then \<lparr>res_Allowed = False, res_Reason = ''permission denied'', res_FieldMasks = []\<rparr>
      else \<lparr>res_Allowed = True, res_Reason = ''permission granted'', res_FieldMasks = []\<rparr>)"

section \<open>pdp.go\<close>

text \<open>The inner loop; the codes already appended are the keys of the map \<open>seen\<close>.\<close>

definition add_codes :: "Permission list \<Rightarrow> string list \<Rightarrow> string list" where
  "add_codes rolePerms perms = fold (\<lambda>p acc. if pe_Code p = [] \<or> pe_Code p \<in> set acc then acc else acc @ [pe_Code p]) rolePerms perms"

fun resolve_roles :: "(uuid \<Rightarrow> Permission list result) \<Rightarrow> uuid \<Rightarrow> uuid \<Rightarrow> UserRole list \<Rightarrow> string list \<Rightarrow> string list result" where
  "resolve_roles getPermissions orgID branchID [] perms = Inr perms"
| "resolve_roles getPermissions orgID branchID (urole # rs) perms =
     (if ur_OrgID urole \<noteq> orgID \<or> \<not> UserRole_IsActive urole then resolve_roles getPermissions orgID branchID rs perms
      else if ur_BranchID urole \<noteq> None \<and> ur_BranchID urole \<noteq> Some branchID then resolve_roles getPermissions orgID branchID rs perms
      else (case getPermissions (ur_RoleID urole) of
          Inl e \<Rightarrow> Inl e
        | Inr rolePerms \<Rightarrow> resolve_roles getPermissions orgID branchID rs (add_codes rolePerms perms)))"

definition ResolveAuthContext ::
  "(uuid \<Rightarrow> UserRole list result) \<Rightarrow> (uuid \<Rightarrow> Permission list result) \<Rightarrow> uuid \<Rightarrow> uuid \<Rightarrow> uuid \<Rightarrow> AuthContext result" where
  "ResolveAuthContext getUserRoles getPermissions userID orgID branchID =
     (case getUserRoles userID of
        Inl e \<Rightarrow> Inl e
      | Inr userRoles \<Rightarrow>
          (case resolve_roles getPermissions orgID branchID userRoles [] of
             Inl e \<Rightarrow> Inl e
           | Inr perms \<Rightarrow> Inr \<lparr>actx_UserID = userID, actx_OrgID = orgID, actx_BranchID = branchID, actx_Roles = [],
               actx_Permissions = perms, actx_BranchScope = ''assigned'', actx_FieldMasks = [], actx_Attributes = None\<rparr>))"

definition noopABACStore_ListByOrg :: "uuid \<Rightarrow> ABACPolicy list result" where
  "noopABACStore_ListByOrg _ = Inr []"

definition NewTimeGatedChecker :: "uuid_pkg \<Rightarrow> 'p TimeWindowEvaluator option \<Rightarrow> string list \<Rightarrow> 'p PermissionChecker" where
  "NewTimeGatedChecker U tw gatedPerms =
     (let checker = NewPermissionChecker U noopABACStore_ListByOrg
      in if tw \<noteq> None then WithTimeGate checker tw gatedPerms else checker)"

section \<open>The decision point over the repositories\<close>

text \<open>
  internal/api/rest/admin\_routes.go, \<^verbatim>\<open>adminUserRoleSvc.GetUserRoles\<close> and
  \<^verbatim>\<open>adminRoleSvc.GetPermissions\<close>: the getters are the repositories. The two transports,
  REST (internal\_authz.go) and gRPC (authcheck/server.go), parse the request and share the
  resolution and the checker. \<open>pdp_request\<close> are the fields of the request.
\<close>

record pdp_request =
  pq_UserID :: string
  pq_OrgID :: string
  pq_BranchID :: string
  pq_Permission :: string
  pq_ResourceID :: string

definition adminUserRoleSvc_GetUserRoles :: "uuid_pkg \<Rightarrow> db \<Rightarrow> uuid \<Rightarrow> UserRole list result" where
  "adminUserRoleSvc_GetUserRoles U db userID = UserRoles_GetByUser U db userID"

definition adminRoleSvc_GetPermissions :: "db \<Rightarrow> uuid \<Rightarrow> Permission list result" where
  "adminRoleSvc_GetPermissions db roleID = RolePerms_GetByRole db roleID"

definition parseIdentity :: "uuid_pkg \<Rightarrow> pdp_request \<Rightarrow> (uuid \<times> uuid \<times> uuid) response" where
  "parseIdentity U req =
     (case uuid_Parse U (pq_UserID req) of None \<Rightarrow> Refused 400 ''invalid user_id'' | Some userID \<Rightarrow>
      case uuid_Parse U (pq_OrgID req) of None \<Rightarrow> Refused 400 ''invalid org_id'' | Some orgID \<Rightarrow>
      case uuid_Parse U (pq_BranchID req) of None \<Rightarrow> Refused 400 ''invalid branch_id'' | Some branchID \<Rightarrow>
      if pq_Permission req = [] then Refused 400 ''permission required'' else OK (userID, orgID, branchID))"

definition pdp_handleCheck :: "uuid_pkg \<Rightarrow> db \<Rightarrow> pdp_request \<Rightarrow> AuthorizationResult response" where
  "pdp_handleCheck U db req =
     (case parseIdentity U req of
        Refused code msg \<Rightarrow> Refused code msg
      | OK (userID, orgID, branchID) \<Rightarrow>
          (case ResolveAuthContext (adminUserRoleSvc_GetUserRoles U db) (adminRoleSvc_GetPermissions db) userID orgID branchID of
             Inl _ \<Rightarrow> Refused 500 ''internal_error''
           | Inr authCtx \<Rightarrow> OK (CheckPermission (Some authCtx) (pq_Permission req))))"

definition pdp_handleCheckDataAccess ::
  "uuid_pkg \<Rightarrow> 'p PermissionChecker \<Rightarrow> time \<Rightarrow> OperationalHours cache \<times> 'p \<Rightarrow> db \<Rightarrow> pdp_request \<Rightarrow>
     (OperationalHours cache \<times> 'p) \<times> AuthorizationResult response" where
  "pdp_handleCheckDataAccess U checker now s db req =
     (case parseIdentity U req of
        Refused code msg \<Rightarrow> (s, Refused code msg)
      | OK (userID, orgID, branchID) \<Rightarrow>
          (case uuid_Parse U (pq_ResourceID req) of
             None \<Rightarrow> (s, Refused 400 ''invalid resource_id'')
           | Some _ \<Rightarrow>
             (case ResolveAuthContext (adminUserRoleSvc_GetUserRoles U db) (adminRoleSvc_GetPermissions db) userID orgID branchID of
                Inl _ \<Rightarrow> (s, Refused 500 ''internal_error'')
              | Inr authCtx \<Rightarrow>
                  (case CheckDataAccess checker now s (Some authCtx) (pq_Permission req) of
                     (s', Inl _) \<Rightarrow> (s', Refused 500 ''internal_error'')
                   | (s', Inr result) \<Rightarrow> (s', OK result)))))"

text \<open>The gRPC transport: status codes \<^verbatim>\<open>InvalidArgument\<close> (3) and \<^verbatim>\<open>Internal\<close> (13).\<close>

definition grpc_CheckPermission :: "uuid_pkg \<Rightarrow> db \<Rightarrow> pdp_request \<Rightarrow> AuthorizationResult response" where
  "grpc_CheckPermission U db req =
     (case uuid_Parse U (pq_UserID req) of None \<Rightarrow> Refused 3 ''invalid user_id'' | Some userID \<Rightarrow>
      case uuid_Parse U (pq_OrgID req) of None \<Rightarrow> Refused 3 ''invalid org_id'' | Some orgID \<Rightarrow>
      case uuid_Parse U (pq_BranchID req) of None \<Rightarrow> Refused 3 ''invalid branch_id'' | Some branchID \<Rightarrow>
      if pq_Permission req = [] then Refused 3 ''permission required''
      else (case ResolveAuthContext (adminUserRoleSvc_GetUserRoles U db) (adminRoleSvc_GetPermissions db) userID orgID branchID of
          Inl _ \<Rightarrow> Refused 13 ''resolve auth context failed''
        | Inr authCtx \<Rightarrow>
            (let result = CheckPermission (Some authCtx) (pq_Permission req)
             in OK \<lparr>res_Allowed = res_Allowed result, res_Reason = res_Reason result,
                  res_FieldMasks = map (\<lambda>m. \<lparr>fm_Field = fm_Field m, fm_MaskValue = fm_MaskValue m, fm_Reason = fm_Reason m\<rparr>) (res_FieldMasks result)\<rparr>)))"

section \<open>Laws\<close>

lemma set_add_codes: "c \<in> set (add_codes ps acc) \<longleftrightarrow> c \<in> set acc \<or> (c \<noteq> [] \<and> (\<exists>p \<in> set ps. pe_Code p = c))"
  by (induction ps arbitrary: acc) (auto simp: add_codes_def)

lemma set_sort_key [simp]: "set (order_perms scan ps) = set ps"
  by (simp add: order_perms_def)

definition role_applies :: "uuid \<Rightarrow> uuid \<Rightarrow> UserRole \<Rightarrow> bool" where
  "role_applies orgID branchID ur \<longleftrightarrow> ur_OrgID ur = orgID \<and> UserRole_IsActive ur \<and> (ur_BranchID ur = None \<or> ur_BranchID ur = Some branchID)"

lemma resolve_roles_total:
  assumes "\<And>r. getPermissions r = Inr (perms_of r)"
  shows "\<exists>perms. resolve_roles getPermissions orgID branchID rs acc = Inr perms \<and>
    (\<forall>c. c \<in> set perms \<longleftrightarrow> c \<in> set acc \<or>
       (c \<noteq> [] \<and> (\<exists>ur \<in> set rs. role_applies orgID branchID ur \<and> (\<exists>p \<in> set (perms_of (ur_RoleID ur)). pe_Code p = c))))"
proof (induction rs arbitrary: acc)
  case (Cons r rs)
  show ?case
  proof (cases "role_applies orgID branchID r")
    case True
    then have step: "resolve_roles getPermissions orgID branchID (r # rs) acc = resolve_roles getPermissions orgID branchID rs (add_codes (perms_of (ur_RoleID r)) acc)"
      using assms by (auto simp: role_applies_def)
    obtain perms where p: "resolve_roles getPermissions orgID branchID rs (add_codes (perms_of (ur_RoleID r)) acc) = Inr perms"
      "c \<in> set perms \<longleftrightarrow> c \<in> set (add_codes (perms_of (ur_RoleID r)) acc) \<or>
         (c \<noteq> [] \<and> (\<exists>ur \<in> set rs. role_applies orgID branchID ur \<and> (\<exists>p \<in> set (perms_of (ur_RoleID ur)). pe_Code p = c)))" for c
      using Cons [of "add_codes (perms_of (ur_RoleID r)) acc"] by blast
    have "c \<in> set perms \<longleftrightarrow> c \<in> set acc \<or>
         (c \<noteq> [] \<and> (\<exists>ur \<in> set (r # rs). role_applies orgID branchID ur \<and> (\<exists>p \<in> set (perms_of (ur_RoleID ur)). pe_Code p = c)))" for c
      using True by (simp add: p(2) set_add_codes) blast
    then show ?thesis unfolding step using p(1) by blast
  next
    case False
    then have step: "resolve_roles getPermissions orgID branchID (r # rs) acc = resolve_roles getPermissions orgID branchID rs acc"
      by (auto simp: role_applies_def)
    show ?thesis unfolding step using Cons [of acc] False by simp
  qed
qed simp

lemma set_GetByRole: "\<not> db_down db \<Longrightarrow> \<exists>ps. RolePerms_GetByRole db r = Inr ps \<and> set ps = {p \<in> set (t_permissions db). (r, pe_ID p) \<in> set (t_role_permissions db)}"
  by (force simp: RolePerms_GetByRole_def pg_Query_def)

text \<open>
  The declarative rule of the decision point: an unrevoked assignment of the user in the
  organization, for all branches or for this one, of a role (one of \<open>R\<close>) that carries the
  permission or the wildcard.
\<close>

definition grants_by :: "(uuid \<Rightarrow> bool) \<Rightarrow> db \<Rightarrow> uuid \<Rightarrow> uuid \<Rightarrow> uuid \<Rightarrow> string \<Rightarrow> bool" where
  "grants_by R db userID orgID branchID permission \<longleftrightarrow>
     (\<exists>ur \<in> set (t_user_roles db). urr_UserID ur = userID \<and> urr_OrgID ur = orgID \<and> urr_RevokedAt ur = None \<and> R (urr_RoleID ur) \<and>
        (urr_BranchID ur = None \<or> urr_BranchID ur = Some branchID) \<and>
        (\<exists>p \<in> set (t_permissions db). (urr_RoleID ur, pe_ID p) \<in> set (t_role_permissions db) \<and> pe_Code p \<noteq> [] \<and>
           (pe_Code p = permission \<or> pe_Code p = ''*'')))"

lemma scanUserRole_fields [simp]:
  "ur_OrgID (scanUserRole U r) = urr_OrgID r" "UserRole_IsActive (scanUserRole U r) = (urr_RevokedAt r = None)"
  "ur_BranchID (scanUserRole U r) = urr_BranchID r" "ur_RoleID (scanUserRole U r) = urr_RoleID r"
  by (simp_all add: scanUserRole_def UserRole_IsActive_def)

lemma ResolveAuthContext_permissions:
  assumes "\<not> db_down db"
  shows "\<exists>ctx. ResolveAuthContext (adminUserRoleSvc_GetUserRoles U db) (adminRoleSvc_GetPermissions db) userID orgID branchID = Inr ctx \<and>
    (hasPermission ctx permission \<longleftrightarrow> grants_by (\<lambda>_. True) db userID orgID branchID permission)"
proof -
  define perms_of where "perms_of r = projr (RolePerms_GetByRole db r)" for r
  have gp: "RolePerms_GetByRole db r = Inr (perms_of r) \<and> set (perms_of r) = {p \<in> set (t_permissions db). (r, pe_ID p) \<in> set (t_role_permissions db)}" for r
  proof -
    obtain ps where "RolePerms_GetByRole db r = Inr ps" "set ps = {p \<in> set (t_permissions db). (r, pe_ID p) \<in> set (t_role_permissions db)}"
      using set_GetByRole [OF assms, of r] by blast
    then show ?thesis by (simp add: perms_of_def)
  qed
  have get: "adminRoleSvc_GetPermissions db r = Inr (perms_of r)" for r
    using gp [of r] by (simp add: adminRoleSvc_GetPermissions_def)
  have sp: "set (perms_of r) = {p \<in> set (t_permissions db). (r, pe_ID p) \<in> set (t_role_permissions db)}" for r
    using gp [of r] by simp
  define rs where "rs = map (scanUserRole U) (order_desc (db_scan db) urr_GrantedAt (filter (\<lambda>r. urr_UserID r = userID \<and> urr_RevokedAt r = None) (t_user_roles db)))"
  have rs: "adminUserRoleSvc_GetUserRoles U db userID = Inr rs"
      "set rs = scanUserRole U ` {r \<in> set (t_user_roles db). urr_UserID r = userID \<and> urr_RevokedAt r = None}"
    using assms by (simp_all add: rs_def adminUserRoleSvc_GetUserRoles_def UserRoles_GetByUser_def pg_Query_def)
  obtain perms where perms: "resolve_roles (adminRoleSvc_GetPermissions db) orgID branchID rs [] = Inr perms"
      "\<forall>c. c \<in> set perms \<longleftrightarrow> c \<noteq> [] \<and> (\<exists>ur \<in> set rs. role_applies orgID branchID ur \<and> (\<exists>p \<in> set (perms_of (ur_RoleID ur)). pe_Code p = c))"
    using resolve_roles_total [of "adminRoleSvc_GetPermissions db" perms_of orgID branchID rs "[]", OF get] by auto
  have held: "c \<in> set perms \<longleftrightarrow> (\<exists>ur \<in> set (t_user_roles db). urr_UserID ur = userID \<and> urr_OrgID ur = orgID \<and> urr_RevokedAt ur = None \<and>
        (urr_BranchID ur = None \<or> urr_BranchID ur = Some branchID) \<and>
        (\<exists>p \<in> set (t_permissions db). (urr_RoleID ur, pe_ID p) \<in> set (t_role_permissions db) \<and> pe_Code p \<noteq> [] \<and> pe_Code p = c))" for c
    using perms(2) by (auto simp: rs(2) sp role_applies_def)
  have "(permission \<in> set perms \<or> ''*'' \<in> set perms) \<longleftrightarrow> grants_by (\<lambda>_. True) db userID orgID branchID permission"
    unfolding held grants_by_def by blast
  then show ?thesis using rs(1) perms(1) by (auto simp: ResolveAuthContext_def hasPermission_def list_ex_iff)
qed

lemma CheckPermission_allowed: "res_Allowed (CheckPermission (Some ctx) permission) \<longleftrightarrow> hasPermission ctx permission"
  by (simp add: CheckPermission_def getUserPermissionsFromStore_def Let_def hasPermission_def)

text \<open>
  C13: With the database up, the decision point answers a request about a user, an
  organization and a branch with "allowed" exactly when the role tables grant it: an
  unrevoked assignment of the user in that organization, organization-wide or for that
  branch, of a role that has the permission or the wildcard. The operational hours play no
  part in this endpoint, also for a permission that is configured as time-gated.
\<close>

theorem pdp_decision_iff_granted:
  assumes "uuid_format U" and "\<not> db_down db" and "permission \<noteq> []"
  shows "\<exists>r. pdp_handleCheck U db \<lparr>pq_UserID = uuid_String U userID, pq_OrgID = uuid_String U orgID,
       pq_BranchID = uuid_String U branchID, pq_Permission = permission, pq_ResourceID = rid\<rparr> = OK r \<and>
     (res_Allowed r \<longleftrightarrow> grants_by (\<lambda>_. True) db userID orgID branchID permission)"
proof -
  obtain ctx where "ResolveAuthContext (adminUserRoleSvc_GetUserRoles U db) (adminRoleSvc_GetPermissions db) userID orgID branchID = Inr ctx"
      "hasPermission ctx permission \<longleftrightarrow> grants_by (\<lambda>_. True) db userID orgID branchID permission"
    using ResolveAuthContext_permissions [OF assms(2)] by blast
  then show ?thesis
    using assms(3) uuid_format.parse_string [OF assms(1)] by (simp add: pdp_handleCheck_def parseIdentity_def CheckPermission_allowed)
qed

text \<open>
  Revoking a role of a user takes effect at once: in the tables after
  \<^verbatim>\<open>RevokeByUserAndRole\<close> the user is granted in that organization exactly what other roles
  grant, and nothing changes for other users or other organizations.
\<close>

theorem revoke_role_takes_effect:
  assumes "UserRoles_RevokeByUserAndRole U db now userID roleID orgID by = (db', Inr ())"
  shows "grants_by (\<lambda>_. True) db' u o' branchID permission \<longleftrightarrow>
    (if u = userID \<and> o' = orgID then grants_by (\<lambda>r. r \<noteq> roleID) db u o' branchID permission
     else grants_by (\<lambda>_. True) db u o' branchID permission)"
proof -
  have db': "db' = db\<lparr>t_user_roles := sql_update (\<lambda>r. urr_UserID r = userID \<and> urr_RoleID r = roleID \<and> urr_OrgID r = orgID \<and> urr_RevokedAt r = None)
        (\<lambda>r. r\<lparr>urr_RevokedAt := Some (pg_ts now), urr_RevokedBy := Some (uuid_String U by)\<rparr>) (t_user_roles db)\<rparr>"
    using assms by (simp add: UserRoles_RevokeByUserAndRole_def)
  have live: "r \<in> set (t_user_roles db') \<and> urr_RevokedAt r = None \<longleftrightarrow> r \<in> set (t_user_roles db) \<and> urr_RevokedAt r = None \<and>
      \<not> (urr_UserID r = userID \<and> urr_RoleID r = roleID \<and> urr_OrgID r = orgID)" for r
    by (auto simp: db' set_sql_update image_iff split: if_splits)
  have tabs: "t_permissions db' = t_permissions db" "t_role_permissions db' = t_role_permissions db" by (simp_all add: db')
  show ?thesis unfolding grants_by_def tabs Bex_def using live by (cases "u = userID \<and> o' = orgID") (simp_all, blast+)
qed

text \<open>
  The two transports of the decision point agree: REST answers with a result exactly
  when gRPC does, and with the same one.
\<close>

theorem pdp_transports_agree: "pdp_handleCheck U db req = OK r \<longleftrightarrow> grpc_CheckPermission U db req = OK r"
proof -
  have masks: "map (\<lambda>m. \<lparr>fm_Field = fm_Field m, fm_MaskValue = fm_MaskValue m, fm_Reason = fm_Reason m\<rparr>) ms = ms" for ms :: "FieldMask list"
    by (simp add: map_idI)
  have eta: "\<lparr>res_Allowed = res_Allowed x, res_Reason = res_Reason x, res_FieldMasks = res_FieldMasks x\<rparr> = x" for x :: AuthorizationResult
    by simp
  show ?thesis
    by (simp add: pdp_handleCheck_def grpc_CheckPermission_def parseIdentity_def Let_def masks eta split: option.splits sum.splits)
qed

text \<open>
  The attribute policies combine by deny-overrides, whatever their order: the
  evaluator allows exactly when no policy of the organization that matches the permission
  and the context has the effect deny, and every field such a policy names is masked.
\<close>

theorem abac_deny_overrides:
  assumes "listByOrg (actx_OrgID ctx) = Inr policies" and "abac_Evaluate U listByOrg ctx permission = Inr r"
  shows "(res_Allowed r \<longleftrightarrow> \<not> (\<exists>p \<in> set policies. matchesPermission p permission \<and>
       matchesConditions U (ap_Conditions p) ctx \<and> ap_Effect p = ''deny'')) \<and>
    fm_Field ` set (res_FieldMasks r) =
      (\<Union>p \<in> {p \<in> set policies. matchesPermission p permission \<and> matchesConditions U (ap_Conditions p) ctx}. set (ap_Fields p))"
proof -
  let ?ap = "filter (\<lambda>p. matchesPermission p permission \<and> matchesConditions U (ap_Conditions p) ctx) policies"
  have masks: "fm_Field ` set (concat (map policy_masks ps)) = (\<Union>p \<in> set ps. set (ap_Fields p))" for ps
    by (induction ps) (simp_all add: policy_masks_def image_Un image_image)
  have *: "res_FieldMasks r = concat (map policy_masks ?ap) \<and> (res_Allowed r \<longleftrightarrow> \<not> list_ex (\<lambda>p. ap_Effect p = ''deny'') ?ap)"
    using assms(2) unfolding abac_Evaluate_def assms(1) sum.case Let_def
    by (cases "list_ex (\<lambda>p. ap_Effect p = ''deny'') ?ap") (simp_all only: if_True if_False sum.inject, auto)
  then show ?thesis by (simp only: masks list_ex_iff set_filter) blast
qed

lemma time_gate_passes:
  "snd (time_gate c now s ctx permission) = None \<longleftrightarrow>
     (\<forall>tw. pc_timeWindow c = Some tw \<and> permission \<in> set (pc_timeGated c) \<longrightarrow> res_Allowed (snd (TimeWindow_Evaluate tw now (fst s) (snd s) ctx)))"
  by (auto simp: time_gate_def isTimeGated_def split: option.splits prod.splits)

lemma time_gate_denies: "time_gate c now s ctx permission = (s', Some r) \<Longrightarrow> \<not> res_Allowed r"
  by (auto simp: time_gate_def split: option.splits prod.splits if_splits)

text \<open>Access to data: the permission, then the time gate, then the attribute policies.\<close>

lemma CheckDataAccess_allowed:
  assumes "CheckDataAccess c now s (Some ctx) permission = (s', Inr r)"
  shows "res_Allowed r \<longleftrightarrow> hasPermission ctx permission \<and> snd (time_gate c now s ctx permission) = None \<and>
    (needsABACCheck permission \<longrightarrow> (\<exists>r'. abac_Evaluate (pc_uuid c) (pc_policies c) ctx permission = Inr r' \<and> res_Allowed r'))"
  using assms CheckPermission_allowed [of ctx permission] time_gate_denies [of c now s ctx permission]
  by (auto simp: CheckDataAccess_def Let_def split: if_splits prod.splits option.splits)

text \<open>
  C14: The four-layer check allows a request exactly when every layer does: the page
  permission (unless skipped), the data permission inside its time window and not denied by
  an attribute policy, and the branch scope.
\<close>

theorem four_layers_all_required:
  assumes "Authorize c now s ctx params = (s', Inr r)"
  shows "res_Allowed r \<longleftrightarrow>
    (apm_SkipPageCheck params \<or> hasPermission ctx (apm_PagePermission params)) \<and>
    hasPermission ctx (apm_DataPermission params) \<and>
    (\<forall>tw. pc_timeWindow c = Some tw \<and> apm_DataPermission params \<in> set (pc_timeGated c) \<longrightarrow>
       res_Allowed (snd (TimeWindow_Evaluate tw now (fst s) (snd s) ctx))) \<and>
    (needsABACCheck (apm_DataPermission params) \<longrightarrow>
       (\<exists>r'. abac_Evaluate (pc_uuid c) (pc_policies c) ctx (apm_DataPermission params) = Inr r' \<and> res_Allowed r')) \<and>
    (actx_BranchScope ctx = ''all'' \<or> (actx_BranchScope ctx \<in> {''assigned'', ''own''} \<and> actx_BranchID ctx = apm_TargetBranchID params))"
proof -
  have page: "res_Allowed (CheckPermission (Some ctx) (apm_PagePermission params)) \<longleftrightarrow> hasPermission ctx (apm_PagePermission params)"
    by (rule CheckPermission_allowed)
  have branch: "res_Allowed (CheckBranchScope ctx (apm_TargetBranchID params)) \<longleftrightarrow>
      (actx_BranchScope ctx = ''all'' \<or> (actx_BranchScope ctx \<in> {''assigned'', ''own''} \<and> actx_BranchID ctx = apm_TargetBranchID params))"
    by (auto simp: CheckBranchScope_def)
  note data = CheckDataAccess_allowed [of c now s ctx "apm_DataPermission params", unfolded time_gate_passes]
  show ?thesis
  proof (cases "apm_SkipPageCheck params \<or> hasPermission ctx (apm_PagePermission params)")
    case False
    then show ?thesis using assms page by (auto simp: Authorize_def Let_def)
  next
    case True
    then obtain dr where dr: "CheckDataAccess c now s (Some ctx) (apm_DataPermission params) = (s', Inr dr)"
        "r = (if \<not> res_Allowed dr then dr else if \<not> res_Allowed (CheckBranchScope ctx (apm_TargetBranchID params))
           then CheckBranchScope ctx (apm_TargetBranchID params)
           else \<lparr>res_Allowed = True, res_Reason = ''all layers passed'', res_FieldMasks = res_FieldMasks dr\<rparr>)"
      using assms page by (auto simp: Authorize_def Let_def split: prod.splits sum.splits if_splits)
    have "res_Allowed r \<longleftrightarrow> res_Allowed dr \<and> res_Allowed (CheckBranchScope ctx (apm_TargetBranchID params))" unfolding dr(2) by simp
    then show ?thesis unfolding data [OF dr(1)] branch using True by blast
  qed
qed

section \<open>A concrete run\<close>

text \<open>A database in which user 5 has, in organization 1, the role 10 for branch 2, which carries the permission \<^verbatim>\<open>p\<close>.\<close>

definition demo_db :: db where
  "demo_db = db_empty\<lparr>t_permissions := [\<lparr>pe_ID = 20, pe_Code = ''p'', pe_Name = [], pe_Description = [], pe_ResourceType = [], pe_CreatedAt = 0\<rparr>],
     t_role_permissions := [(10, 20)],
     t_user_roles := [\<lparr>urr_ID = 30, urr_UserID = 5, urr_RoleID = 10, urr_OrgID = 1, urr_BranchID = Some 2, urr_GrantedBy = [],
        urr_GrantedAt = 0, urr_RevokedAt = None, urr_RevokedBy = None\<rparr>]\<rparr>"

theorem pdp_decision_iff_granted_witness:
  "\<exists>r. pdp_handleCheck bits_uuid demo_db \<lparr>pq_UserID = uuid_String bits_uuid 5, pq_OrgID = uuid_String bits_uuid 1,
       pq_BranchID = uuid_String bits_uuid 2, pq_Permission = ''p'', pq_ResourceID = []\<rparr> = OK r \<and> res_Allowed r"
proof -
  have "grants_by (\<lambda>_. True) demo_db 5 1 2 ''p''" by (simp add: grants_by_def demo_db_def)
  then show ?thesis
    using pdp_decision_iff_granted [OF bits_uuid.uuid_format_axioms, of demo_db "''p''" 5 1 2 "[]"] by (auto simp: demo_db_def db_empty_def)
qed

theorem revoke_role_takes_effect_witness:
  "\<exists>db'. UserRoles_RevokeByUserAndRole bits_uuid demo_db 7 5 10 1 9 = (db', Inr ()) \<and> \<not> grants_by (\<lambda>_. True) db' 5 1 2 ''p''"
proof -
  obtain db' where "UserRoles_RevokeByUserAndRole bits_uuid demo_db 7 5 10 1 9 = (db', Inr ())"
    by (simp add: UserRoles_RevokeByUserAndRole_def demo_db_def db_empty_def)
  then show ?thesis using revoke_role_takes_effect [of bits_uuid demo_db 7 5 10 1 9 db' 5 1 2 "''p''"] by (auto simp: grants_by_def demo_db_def)
qed

definition demo_deny :: ABACPolicy where
  "demo_deny = \<lparr>ap_ID = 1, ap_OrgID = 1, ap_Name = ''n'', ap_Description = ''d'', ap_Priority = 0, ap_Effect = ''deny'',
     ap_Conditions = [(''permission'', AnyString ''p''), (''branch_scope'', AnySlice [AnyString ''own'', AnyString ''assigned''])],
     ap_Fields = [''salary''], ap_CreatedAt = 0, ap_UpdatedAt = 0\<rparr>"

theorem abac_deny_overrides_witness:
  "\<exists>r. abac_Evaluate bits_uuid (\<lambda>_. Inr [demo_deny]) (demo_ctx []) ''p'' = Inr r \<and> \<not> res_Allowed r \<and> fm_Field ` set (res_FieldMasks r) = {''salary''}"
proof -
  have m: "matchesPermission demo_deny ''p''" "matchesConditions bits_uuid (ap_Conditions demo_deny) (demo_ctx [])"
    by (simp_all add: demo_deny_def matchesPermission_def matchesConditions_def demo_ctx_def abac_actual_def)
  have "\<exists>r. abac_Evaluate bits_uuid (\<lambda>_. Inr [demo_deny]) (demo_ctx []) ''p'' = Inr r" by (simp add: abac_Evaluate_def Let_def)
  then obtain r where r: "abac_Evaluate bits_uuid (\<lambda>_. Inr [demo_deny]) (demo_ctx []) ''p'' = Inr r" by blast
  show ?thesis using abac_deny_overrides [OF refl r] r m by (simp add: demo_deny_def)
qed

theorem four_layers_all_required_witness:
  "\<exists>s' r. Authorize (NewTimeGatedChecker bits_uuid (Some demo_window) [''p'']) (9 * time_Hour) (NewCache 100, 0) (demo_ctx [])
      \<lparr>apm_PagePermission = ''p'', apm_DataPermission = ''p'', apm_TargetBranchID = 3, apm_SkipPageCheck = False\<rparr> = (s', Inr r) \<and> \<not> res_Allowed r"
proof -
  let ?c = "NewTimeGatedChecker bits_uuid (Some demo_window) [''p'']"
  let ?ps = "\<lparr>apm_PagePermission = ''p'', apm_DataPermission = ''p'', apm_TargetBranchID = 3, apm_SkipPageCheck = False\<rparr>"
  have "\<exists>s' r. Authorize ?c (9 * time_Hour) (NewCache 100, 0) (demo_ctx []) ?ps = (s', Inr r)"
    by (auto simp: Authorize_def CheckDataAccess_def needsABACCheck_def Let_def split: prod.splits option.splits)
  then obtain s' r where run: "Authorize ?c (9 * time_Hour) (NewCache 100, 0) (demo_ctx []) ?ps = (s', Inr r)" by blast
  show ?thesis using four_layers_all_required [OF run] run by (auto simp: demo_ctx_def)
qed

end
