(* ===== verification/PostgresOAuth.thy ===== *)
theory PostgresOAuth
  imports Postgres "HOL-Library.List_Lexorder"
begin

text \<open>
  Package internal/store/postgres, third part (oauth2.go): the repositories of OAuth2
  clients and authorization codes. The column \<^verbatim>\<open>client_id\<close> of a client is its printed
  identifier; \<^verbatim>\<open>app_url\<close>, \<^verbatim>\<open>icon_name\<close>, \<^verbatim>\<open>icon_color\<close> and \<^verbatim>\<open>public_key_jwk\<close> are columns the insert
  leaves at their default, the empty text. The column \<^verbatim>\<open>branch_id\<close> of a code has type
  \<^verbatim>\<open>UUID\<close>: the text written to it has to parse, and is read back in printed form. A nil
  slice is an empty one.
\<close>

definition pg_out_of_range :: error where
  "pg_out_of_range = External ''numeric_value_out_of_range''"

definition pg_int4 :: "int \<Rightarrow> bool" where
  "pg_int4 n \<longleftrightarrow> - 2147483648 \<le> n \<and> n \<le> 2147483647"

section \<open>OAuth2ClientRepository\<close>

text \<open>The types of the columns both statements write.\<close>

definition clients_check :: "Client \<Rightarrow> error option" where
  "clients_check c =
     (if \<not> pg_int4 (cl_TokenExpiration c) \<or> \<not> pg_int4 (cl_RefreshTokenExpiration c) then Some pg_out_of_range
      else if cl_ClientType c \<notin> {''web'', ''spa'', ''native'', ''machine''} \<or>
        cl_TokenEndpointAuthMethod c \<notin> {''none'', ''client_secret_basic'', ''client_secret_post'', ''private_key_jwt''} then Some pg_invalid
      else if length (cl_Name c) > 256 \<or> length (cl_Description c) > 500 \<or> length (cl_ClientSecretHash c) > 256 then Some pg_too_long
      else None)"

definition Clients_CreateClient :: "uuid_pkg \<Rightarrow> db \<Rightarrow> Client \<Rightarrow> db \<times> unit result" where
  "Clients_CreateClient U db c = pg_Exec ''postgres.OAuth2ClientRepository.CreateClient'' db
     (case clients_check c of
        Some e \<Rightarrow> Inl e
      | None \<Rightarrow>
          if length (uuid_String U (cl_ID c)) > 128 then Inl pg_too_long
          else if \<exists>r \<in> set (t_oauth2_clients db). cl_ID r = cl_ID c \<or> cl_ClientID r = uuid_String U (cl_ID c) then Inl pg_unique
          else if cl_OrgID c \<notin> set (t_organizations db) then Inl pg_fk
          else Inr (db\<lparr>t_oauth2_clients := t_oauth2_clients db @ [c\<lparr>cl_ClientID := uuid_String U (cl_ID c), cl_AppURL := [],
             cl_IconName := [], cl_IconColor := [], cl_PublicKeyJWK := [], cl_CreatedAt := pg_ts (cl_CreatedAt c),
             cl_UpdatedAt := pg_ts (cl_UpdatedAt c)\<rparr>]\<rparr>))"

definition Clients_UpdateClient :: "uuid_pkg \<Rightarrow> db \<Rightarrow> Client \<Rightarrow> db \<times> unit result" where
  "Clients_UpdateClient U db c = pg_Exec ''postgres.OAuth2ClientRepository.UpdateClient'' db
     (case clients_check c of
        Some e \<Rightarrow>
          if e = pg_too_long \<and> (\<forall>r \<in> set (t_oauth2_clients db). cl_ClientID r \<noteq> uuid_String U (cl_ID c)) then Inr db else Inl e
      | None \<Rightarrow>
          Inr (db\<lparr>t_oauth2_clients := sql_update (\<lambda>r. cl_ClientID r = uuid_String U (cl_ID c))
            (\<lambda>r. r\<lparr>cl_Name := cl_Name c, cl_Description := cl_Description c, cl_ClientType := cl_ClientType c,
               cl_TokenEndpointAuthMethod := cl_TokenEndpointAuthMethod c, cl_AllowedScopes := cl_AllowedScopes c,
               cl_AllowedRedirectURIs := cl_AllowedRedirectURIs c, cl_AllowedOrigins := cl_AllowedOrigins c,
               cl_ClientSecretHash := cl_ClientSecretHash c, cl_TokenExpiration := cl_TokenExpiration c,
               cl_RefreshTokenExpiration := cl_RefreshTokenExpiration c, cl_AllowMultipleTokens := cl_AllowMultipleTokens c,
               cl_SkipConsentScreen := cl_SkipConsentScreen c, cl_IsActive := cl_IsActive c, cl_UpdatedAt := pg_ts (cl_UpdatedAt c)\<rparr>)
            (t_oauth2_clients db)\<rparr>))"

definition Clients_GetClient :: "db \<Rightarrow> string \<Rightarrow> Client result" where
  "Clients_GetClient db clientID = pg_QueryRow ''postgres.OAuth2ClientRepository.GetClient'' db
     (map (\<lambda>c. c\<lparr>cl_PublicKeyJWK := []\<rparr>) (filter (\<lambda>c. cl_ClientID c = clientID) (t_oauth2_clients db)))"

definition Clients_ListApps :: "db \<Rightarrow> AppEntry list result" where
  "Clients_ListApps db = pg_Query ''postgres.OAuth2ClientRepository.ListApps'' db
     (map (\<lambda>c. \<lparr>app_ClientID = cl_ClientID c, app_Name = cl_Name c, app_Description = cl_Description c,
          app_AppURL = cl_AppURL c, app_IconName = cl_IconName c, app_IconColor = cl_IconColor c\<rparr>)
       (order_by (db_scan db) cl_Name (filter (\<lambda>c. cl_IsActive c \<and> cl_ClientType c = ''web'' \<and> cl_AppURL c \<noteq> []) (t_oauth2_clients db))))"

definition Clients_DeleteClient :: "db \<Rightarrow> string \<Rightarrow> db \<times> unit result" where
  "Clients_DeleteClient db clientID = pg_Exec ''postgres.OAuth2ClientRepository.DeleteClient'' db
     (Inr (db\<lparr>t_oauth2_clients := filter (\<lambda>c. cl_ClientID c \<noteq> clientID) (t_oauth2_clients db)\<rparr>))"

section \<open>OAuth2AuthCodeRepository\<close>

text \<open>The row an insert stores.\<close>

definition code_row :: "uuid_pkg \<Rightarrow> AuthCode \<Rightarrow> AuthCode" where
  "code_row U code = code\<lparr>ac_BranchID := uuid_String U (uuid_Parse0 U (ac_BranchID code)), ac_ExpiresAt := pg_ts (ac_ExpiresAt code)\<rparr>"

definition Codes_Create :: "uuid_pkg \<Rightarrow> db \<Rightarrow> AuthCode \<Rightarrow> db \<times> unit result" where
  "Codes_Create U db code = pg_Exec ''postgres.OAuth2AuthCodeRepository.Create'' db
     (if uuid_Parse U (ac_BranchID code) = None \<or> ac_CodeChallengeMethod code \<notin> {''S256'', ''plain''} then Inl pg_invalid
      else if length (ac_Code code) > 64 \<or> length (ac_ClientID code) > 128 \<or> length (ac_RedirectURI code) > 512 \<or>
        length (ac_Scope code) > 500 \<or> length (ac_Username code) > 100 \<or> length (ac_Email code) > 255 \<or>
        length (ac_CodeChallenge code) > 128 then Inl pg_too_long
      else if ac_Code code \<in> ac_Code ` set (t_oauth2_authorization_codes db) then Inl pg_unique
      else if ac_UserID code \<notin> u_ID ` set (t_users db) \<or> ac_OrgID code \<notin> set (t_organizations db) \<or>
        uuid_Parse0 U (ac_BranchID code) \<notin> b_ID ` set (t_branches db) then Inl pg_fk
      else Inr (db\<lparr>t_oauth2_authorization_codes := t_oauth2_authorization_codes db @ [code_row U code]\<rparr>))"

definition Codes_GetByCode :: "db \<Rightarrow> string \<Rightarrow> AuthCode result" where
  "Codes_GetByCode db code = pg_QueryRow ''postgres.OAuth2AuthCodeRepository.GetByCode'' db
     (filter (\<lambda>c. ac_Code c = code) (t_oauth2_authorization_codes db))"

definition Codes_MarkUsed :: "db \<Rightarrow> string \<Rightarrow> db \<times> unit result" where
  "Codes_MarkUsed db code = pg_Exec ''postgres.OAuth2AuthCodeRepository.MarkUsed'' db
     (Inr (db\<lparr>t_oauth2_authorization_codes := sql_update (\<lambda>c. ac_Code c = code) (\<lambda>c. c\<lparr>ac_CodeUsed := True\<rparr>)
        (t_oauth2_authorization_codes db)\<rparr>))"

definition Codes_Delete :: "db \<Rightarrow> string \<Rightarrow> db \<times> unit result" where
  "Codes_Delete db code = pg_Exec ''postgres.OAuth2AuthCodeRepository.Delete'' db
     (Inr (db\<lparr>t_oauth2_authorization_codes := filter (\<lambda>c. ac_Code c \<noteq> code) (t_oauth2_authorization_codes db)\<rparr>))"

section \<open>Laws\<close>

lemma Codes_GetByCode_mem: "Codes_GetByCode db c = Inr a \<Longrightarrow> c \<in> ac_Code ` set (t_oauth2_authorization_codes db)"
  by (force simp: Codes_GetByCode_def pg_QueryRow_def filter_eq_Cons_iff split: if_splits list.splits)

lemma Codes_MarkUsed_get:
  assumes "Codes_GetByCode db c = Inr a"
  shows "snd (Codes_MarkUsed db c) = Inr () \<and> Codes_GetByCode (fst (Codes_MarkUsed db c)) c = Inr (a\<lparr>ac_CodeUsed := True\<rparr>)"
proof -
  have up: "\<not> db_down db" using assms by (auto simp: Codes_GetByCode_def pg_QueryRow_def)
  have "filter (\<lambda>r. ac_Code r = c) (sql_update (\<lambda>r. ac_Code r = c) (\<lambda>r. r\<lparr>ac_CodeUsed := True\<rparr>) rs) =
      map (\<lambda>r. r\<lparr>ac_CodeUsed := True\<rparr>) (filter (\<lambda>r. ac_Code r = c) rs)" for rs :: "AuthCode list"
    by (induction rs) (auto simp: sql_update_def)
  then show ?thesis
    using assms up by (auto simp: Codes_GetByCode_def Codes_MarkUsed_def pg_QueryRow_def pg_Exec_def split: list.splits)
qed

lemma Codes_MarkUsed_other:
  assumes "d \<noteq> c"
  shows "Codes_GetByCode (fst (Codes_MarkUsed db c)) d = Codes_GetByCode db d"
proof -
  have "filter (\<lambda>r. ac_Code r = d) (sql_update (\<lambda>r. ac_Code r = c) (\<lambda>r. r\<lparr>ac_CodeUsed := True\<rparr>) rs) = filter (\<lambda>r. ac_Code r = d) rs" for rs :: "AuthCode list"
    using assms by (induction rs) (auto simp: sql_update_def)
  then show ?thesis by (simp add: Codes_GetByCode_def Codes_MarkUsed_def pg_QueryRow_def pg_Exec_def)
qed

lemma Codes_CreateD:
  assumes "Codes_Create U db code = (db', Inr ())"
  shows "db' = db\<lparr>t_oauth2_authorization_codes := t_oauth2_authorization_codes db @ [code_row U code]\<rparr>"
    and "ac_Code code \<notin> ac_Code ` set (t_oauth2_authorization_codes db)" and "\<not> db_down db"
    and "uuid_Parse U (ac_BranchID code) \<noteq> None"
  using assms by (auto simp: Codes_Create_def pg_Exec_def split: if_splits)

lemma Codes_Create_get:
  assumes "Codes_Create U db code = (db', Inr ())"
  shows "Codes_GetByCode db' (ac_Code code) = Inr (code_row U code)"
    and "d \<noteq> ac_Code code \<Longrightarrow> Codes_GetByCode db' d = Codes_GetByCode db d"
proof -
  have "filter (\<lambda>r. ac_Code r = ac_Code code) (t_oauth2_authorization_codes db) = []"
    using Codes_CreateD(2) [OF assms] unfolding filter_empty_conv by (metis imageI)
  then show "Codes_GetByCode db' (ac_Code code) = Inr (code_row U code)"
    using Codes_CreateD(1,3) [OF assms] by (simp add: Codes_GetByCode_def pg_QueryRow_def code_row_def)
  show "d \<noteq> ac_Code code \<Longrightarrow> Codes_GetByCode db' d = Codes_GetByCode db d"
    using Codes_CreateD(1) [OF assms] by (simp add: Codes_GetByCode_def pg_QueryRow_def code_row_def)
qed

lemma Clients_CreateClient_get:
  assumes "Clients_CreateClient U db c = (db', Inr ())"
  shows "\<exists>row. Clients_GetClient db' (uuid_String U (cl_ID c)) = Inr row \<and>
    row = c\<lparr>cl_ClientID := uuid_String U (cl_ID c), cl_AppURL := [], cl_IconName := [], cl_IconColor := [],
      cl_PublicKeyJWK := [], cl_CreatedAt := pg_ts (cl_CreatedAt c), cl_UpdatedAt := pg_ts (cl_UpdatedAt c)\<rparr>"
  using assms
  by (auto simp: Clients_CreateClient_def Clients_GetClient_def pg_Exec_def pg_QueryRow_def filter_empty_conv
      split: if_splits option.splits)

end
