(* ===== verification/Redis.thy ===== *)
theory Redis
  imports GoStd
begin

text \<open>
  Redis is a service outside the repository, reached through \<^verbatim>\<open>go-redis\<close>. It is a
  parameter of the model: a record with one function per command the code issues, on an
  abstract server state \<open>'r\<close>. The locale \<open>redis_server\<close> states the documented
  behaviour of those commands that the code relies on; every theorem about a Redis-backed
  store has the locale's predicate as a named hypothesis. \<open>mem_redis\<close>, an in-memory
  server with per-key expiry, interprets the locale and instantiates the parameter in
  the witnesses.

  The structs the code stores as JSON documents (\<^verbatim>\<open>SessionData\<close>, \<^verbatim>\<open>RefreshTokenData\<close>) are
  declared here because a stored value is one of them or a plain string:
  \<^verbatim>\<open>json.Marshal\<close> followed by \<^verbatim>\<open>json.Unmarshal\<close> into the same struct gives the struct back,
  so a JSON document is represented by the struct it encodes.
\<close>

section \<open>Stored values\<close>

text \<open>\<^verbatim>\<open>SessionData\<close> of internal/service/session/store.go.\<close>

record session_data =
  sd_ID :: string
  sd_UserID :: string
  sd_OrgID :: string
  sd_ActiveBranchID :: string
  sd_AssignedBranchIDs :: "string list"
  sd_Roles :: "string list"
  sd_Permissions :: "string list"
  sd_IPAddress :: string
  sd_UserAgent :: string
  sd_DeviceInfo :: string
  sd_CreatedAt :: int
  sd_ExpiresAt :: int
  sd_LastUsedAt :: int
  sd_MFAVerified :: bool
  sd_Source :: string

text \<open>\<^verbatim>\<open>RefreshTokenData\<close> of internal/service/session/refresh.go.\<close>

record refresh_token_data =
  rt_TokenID :: string
  rt_FamilyID :: string
  rt_TokenHash :: string
  rt_UserID :: string
  rt_OrgID :: string
  rt_ClientID :: string
  rt_SessionID :: string
  rt_Scopes :: "string list"
  rt_IssuedAt :: int
  rt_ExpiresAt :: int
  rt_UsedAt :: "int option"
  rt_RevokedAt :: "int option"

datatype payload = JSession session_data | JRefresh refresh_token_data | Text string

text \<open>\<^verbatim>\<open>json.Unmarshal\<close> into a \<^verbatim>\<open>SessionData\<close> or a \<^verbatim>\<open>RefreshTokenData\<close>.\<close>

fun json_Unmarshal_session :: "payload \<Rightarrow> session_data result" where
  "json_Unmarshal_session (JSession s) = Inr s"
| "json_Unmarshal_session _ = Inl (External ''json'')"

fun json_Unmarshal_refresh :: "payload \<Rightarrow> refresh_token_data result" where
  "json_Unmarshal_refresh (JRefresh t) = Inr t"
| "json_Unmarshal_refresh _ = Inl (External ''json'')"

section \<open>The commands\<close>

text \<open>\<^verbatim>\<open>redis.Nil\<close>, the error of \<^verbatim>\<open>GET\<close> on a key that does not exist.\<close>

definition redis_Nil :: error where
  "redis_Nil = Sentinel ''redis.Nil''"

record 'r redis =
  r_Get :: "'r \<Rightarrow> time \<Rightarrow> string \<Rightarrow> payload result"
  r_Set :: "'r \<Rightarrow> time \<Rightarrow> string \<Rightarrow> payload \<Rightarrow> duration \<Rightarrow> 'r \<times> error option"
  r_Del :: "'r \<Rightarrow> time \<Rightarrow> string \<Rightarrow> 'r \<times> error option"
  r_Exists :: "'r \<Rightarrow> time \<Rightarrow> string \<Rightarrow> int result"
  r_Scan :: "'r \<Rightarrow> time \<Rightarrow> string \<Rightarrow> string list \<times> error option"
  r_SAdd :: "'r \<Rightarrow> time \<Rightarrow> string \<Rightarrow> string \<Rightarrow> 'r \<times> error option"
  r_SMembers :: "'r \<Rightarrow> time \<Rightarrow> string \<Rightarrow> string list result"
  r_Expire :: "'r \<Rightarrow> time \<Rightarrow> string \<Rightarrow> duration \<Rightarrow> 'r \<times> error option"
  r_Incr :: "'r \<Rightarrow> time \<Rightarrow> string \<Rightarrow> 'r \<times> int result"
  r_TTL :: "'r \<Rightarrow> time \<Rightarrow> string \<Rightarrow> duration result"

text \<open>
  \<^verbatim>\<open>Pipeline().Exec\<close>: the queued commands run one after the other, whatever the earlier
  ones returned; the call returns the first error.
\<close>

fun pipe_Exec :: "('r \<Rightarrow> 'r \<times> error option) list \<Rightarrow> 'r \<Rightarrow> 'r \<times> error option" where
  "pipe_Exec [] st = (st, None)"
| "pipe_Exec (c # cs) st =
     (case c st of (st1, e1) \<Rightarrow>
      case pipe_Exec cs st1 of (st2, e2) \<Rightarrow> (st2, if e1 = None then e2 else e1))"

text \<open>A pattern prefix without the glob characters of \<^verbatim>\<open>SCAN MATCH\<close>.\<close>

definition glob_free :: "string \<Rightarrow> bool" where
  "glob_free p \<longleftrightarrow> list_all (\<lambda>c. c \<notin> {CHR ''*'', CHR ''?'', CHR ''['', CHR '']'', CHR 0x5C, CHR ''^''}) p"

section \<open>What the code relies on\<close>

text \<open>
  \<open>up st\<close>: the server answers, now and through the following commands. \<open>kv st t k\<close> is
  the string value a client reads under \<open>k\<close> at time \<open>t\<close> if nothing else is written,
  \<open>smem st t k\<close> the members of the set under \<open>k\<close>. Commands on a server that is down may
  fail in any way: no law speaks of them.
\<close>

locale redis_server =
  fixes R :: "'r redis"
    and up :: "'r \<Rightarrow> bool"
    and kv :: "'r \<Rightarrow> time \<Rightarrow> string \<Rightarrow> payload option"
    and smem :: "'r \<Rightarrow> time \<Rightarrow> string \<Rightarrow> string set"
  assumes get: "up st \<Longrightarrow> smem st now k = {} \<Longrightarrow> r_Get R st now k = (case kv st now k of None \<Rightarrow> Inl redis_Nil | Some v \<Rightarrow> Inr v)"
    and exists_cmd: "up st \<Longrightarrow> smem st now k = {} \<Longrightarrow>
      r_Exists R st now k = Inr (if kv st now k = None then 0 else 1)"
    and set_ok: "up st \<Longrightarrow> snd (r_Set R st now k v d) = None \<and> up (fst (r_Set R st now k v d))"
    and set_kv: "up st \<Longrightarrow> now \<le> t \<Longrightarrow> 0 < d \<Longrightarrow>
      kv (fst (r_Set R st now k v d)) t k' =
        (if k' = k then (if t < now + d then Some v else None) else kv st t k')"
    and set_kv_persist: "up st \<Longrightarrow> now \<le> t \<Longrightarrow> d \<le> 0 \<Longrightarrow> d \<noteq> - 1 \<Longrightarrow>
      kv (fst (r_Set R st now k v d)) t k' = (if k' = k then Some v else kv st t k')"
    and set_smem: "up st \<Longrightarrow> now \<le> t \<Longrightarrow>
      smem (fst (r_Set R st now k v d)) t k' = (if k' = k then {} else smem st t k')"
    and del_ok: "up st \<Longrightarrow> snd (r_Del R st now k) = None \<and> up (fst (r_Del R st now k))"
    and del_kv: "up st \<Longrightarrow> now \<le> t \<Longrightarrow>
      kv (fst (r_Del R st now k)) t k' = (if k' = k then None else kv st t k')"
    and del_smem: "up st \<Longrightarrow> now \<le> t \<Longrightarrow>
      smem (fst (r_Del R st now k)) t k' = (if k' = k then {} else smem st t k')"
    and scan: "up st \<Longrightarrow> glob_free p \<Longrightarrow> snd (r_Scan R st now (p @ ''*'')) = None \<and>
      set (fst (r_Scan R st now (p @ ''*''))) = {k. prefix p k \<and> (kv st now k \<noteq> None \<or> smem st now k \<noteq> {})}"
    and sadd_ok: "up st \<Longrightarrow> kv st now k = None \<Longrightarrow>
      snd (r_SAdd R st now k x) = None \<and> up (fst (r_SAdd R st now k x))"
    and sadd_kv: "up st \<Longrightarrow> now \<le> t \<Longrightarrow> kv st now k = None \<Longrightarrow> kv (fst (r_SAdd R st now k x)) t k' = kv st t k'"
    and sadd_smem: "up st \<Longrightarrow> kv st now k = None \<Longrightarrow>
      smem (fst (r_SAdd R st now k x)) now k = insert x (smem st now k)"
    and sadd_smem_other: "up st \<Longrightarrow> now \<le> t \<Longrightarrow> kv st now k = None \<Longrightarrow> k' \<noteq> k \<Longrightarrow>
      smem (fst (r_SAdd R st now k x)) t k' = smem st t k'"
    and smembers: "up st \<Longrightarrow> kv st now k = None \<Longrightarrow>
      \<exists>xs. r_SMembers R st now k = Inr xs \<and> set xs = smem st now k"
    and expire_ok: "up st \<Longrightarrow> snd (r_Expire R st now k d) = None \<and> up (fst (r_Expire R st now k d))"
    and expire_kv: "up st \<Longrightarrow> now \<le> t \<Longrightarrow> 0 < d \<Longrightarrow>
      kv (fst (r_Expire R st now k d)) t k' =
        (if k' = k then (if t < now + d then kv st now k else None) else kv st t k')"
    and expire_smem: "up st \<Longrightarrow> now \<le> t \<Longrightarrow> 0 < d \<Longrightarrow>
      smem (fst (r_Expire R st now k d)) t k' =
        (if k' = k then (if t < now + d then smem st now k else {}) else smem st t k')"
    and incr_new: "up st \<Longrightarrow> kv st now k = None \<Longrightarrow> smem st now k = {} \<Longrightarrow>
      snd (r_Incr R st now k) = Inr 1 \<and> up (fst (r_Incr R st now k)) \<and>
      (\<forall>t \<ge> now. kv (fst (r_Incr R st now k)) t k = Some (Text (strconv_Itoa 1)))"
    and incr_old: "up st \<Longrightarrow> kv st now k = Some (Text s) \<Longrightarrow> strconv_Atoi s = Some n \<Longrightarrow> n < 2 ^ 63 - 1 \<Longrightarrow>
      snd (r_Incr R st now k) = Inr (n + 1) \<and> up (fst (r_Incr R st now k)) \<and>
      (\<forall>t \<ge> now. kv (fst (r_Incr R st now k)) t k =
         (if kv st t k = None then None else Some (Text (strconv_Itoa (n + 1)))))"
    and incr_other: "up st \<Longrightarrow> now \<le> t \<Longrightarrow> k' \<noteq> k \<Longrightarrow>
      kv (fst (r_Incr R st now k)) t k' = kv st t k' \<and> smem (fst (r_Incr R st now k)) t k' = smem st t k'"
    and one_type: "up st \<Longrightarrow> kv st now k = None \<or> smem st now k = {}"
begin

lemmas write_kv = set_kv set_kv_persist del_kv expire_kv sadd_kv

lemmas write_smem = set_smem del_smem expire_smem sadd_smem_other

lemma write_up [simp]:
  "up st \<Longrightarrow> up (fst (r_Set R st now k v d))"
  "up st \<Longrightarrow> up (fst (r_Del R st now k))"
  "up st \<Longrightarrow> up (fst (r_Expire R st now k d))"
  "up st \<Longrightarrow> kv st now k = None \<Longrightarrow> up (fst (r_SAdd R st now k x))"
  using set_ok del_ok expire_ok sadd_ok by auto

lemma write_noerr [simp]:
  "up st \<Longrightarrow> snd (r_Set R st now k v d) = None"
  "up st \<Longrightarrow> snd (r_Del R st now k) = None"
  "up st \<Longrightarrow> snd (r_Expire R st now k d) = None"
  "up st \<Longrightarrow> kv st now k = None \<Longrightarrow> snd (r_SAdd R st now k x) = None"
  using set_ok del_ok expire_ok sadd_ok by auto

end

section \<open>An in-memory server\<close>

datatype mval = MStr payload | MSet "string list"

type_synonym mem = "(string \<times> (mval \<times> time option)) list"

fun alive :: "time option \<Rightarrow> time \<Rightarrow> bool" where
  "alive None t = True"
| "alive (Some e) t = (t < e)"

definition mem_entry :: "mem \<Rightarrow> time \<Rightarrow> string \<Rightarrow> (mval \<times> time option) option" where
  "mem_entry st t k = (case map_of st k of None \<Rightarrow> None | Some (v, e) \<Rightarrow> if alive e t then Some (v, e) else None)"

definition mem_kv :: "mem \<Rightarrow> time \<Rightarrow> string \<Rightarrow> payload option" where
  "mem_kv st t k = (case mem_entry st t k of Some (MStr v, e) \<Rightarrow> Some v | _ \<Rightarrow> None)"

definition mem_smem :: "mem \<Rightarrow> time \<Rightarrow> string \<Rightarrow> string set" where
  "mem_smem st t k = (case mem_entry st t k of Some (MSet xs, e) \<Rightarrow> set xs | _ \<Rightarrow> {})"

definition mem_ttl :: "time \<Rightarrow> duration \<Rightarrow> time option \<Rightarrow> time option" where
  "mem_ttl now d old = (if 0 < d then Some (now + d) else if d = - 1 then old else None)"

definition wrongtype :: error where
  "wrongtype = External ''WRONGTYPE''"

definition mem_get :: "mem \<Rightarrow> time \<Rightarrow> string \<Rightarrow> payload result" where
  "mem_get st now k = (case mem_entry st now k of None \<Rightarrow> Inl redis_Nil
     | Some (MStr v, e) \<Rightarrow> Inr v | Some (MSet xs, e) \<Rightarrow> Inl (if xs = [] then redis_Nil else wrongtype))"

definition mem_set :: "mem \<Rightarrow> time \<Rightarrow> string \<Rightarrow> payload \<Rightarrow> duration \<Rightarrow> mem \<times> error option" where
  "mem_set st now k v d = (AList.update k (MStr v, mem_ttl now d
     (case mem_entry st now k of None \<Rightarrow> None | Some (_, e) \<Rightarrow> e)) st, None)"

definition mem_del :: "mem \<Rightarrow> time \<Rightarrow> string \<Rightarrow> mem \<times> error option" where
  "mem_del st now k = (AList.delete k st, None)"

definition mem_exists :: "mem \<Rightarrow> time \<Rightarrow> string \<Rightarrow> int result" where
  "mem_exists st now k = Inr (if mem_kv st now k = None \<and> mem_smem st now k = {} then 0 else 1)"

definition mem_scan :: "mem \<Rightarrow> time \<Rightarrow> string \<Rightarrow> string list \<times> error option" where
  "mem_scan st now pat = (filter (\<lambda>k. prefix (butlast pat) k \<and>
     (mem_kv st now k \<noteq> None \<or> mem_smem st now k \<noteq> {})) (map fst st), None)"

definition mem_sadd :: "mem \<Rightarrow> time \<Rightarrow> string \<Rightarrow> string \<Rightarrow> mem \<times> error option" where
  "mem_sadd st now k x = (case mem_entry st now k of
       None \<Rightarrow> (AList.update k (MSet [x], None) st, None)
     | Some (MSet xs, e) \<Rightarrow> (AList.update k (MSet (List.insert x xs), e) st, None)
     | Some (MStr v, e) \<Rightarrow> (st, Some wrongtype))"

definition mem_smembers :: "mem \<Rightarrow> time \<Rightarrow> string \<Rightarrow> string list result" where
  "mem_smembers st now k = (case mem_entry st now k of None \<Rightarrow> Inr []
     | Some (MSet xs, e) \<Rightarrow> Inr xs | Some (MStr v, e) \<Rightarrow> Inl wrongtype)"

definition mem_expire :: "mem \<Rightarrow> time \<Rightarrow> string \<Rightarrow> duration \<Rightarrow> mem \<times> error option" where
  "mem_expire st now k d = (case mem_entry st now k of None \<Rightarrow> (st, None)
     | Some (v, e) \<Rightarrow> (if 0 < d then AList.update k (v, Some (now + d)) st else AList.delete k st, None))"

definition mem_incr :: "mem \<Rightarrow> time \<Rightarrow> string \<Rightarrow> mem \<times> int result" where
  "mem_incr st now k = (case mem_entry st now k of
       Some (MStr (Text s), e) \<Rightarrow>
         (case strconv_Atoi s of None \<Rightarrow> (st, Inl (External ''ERR value is not an integer''))
          | Some n \<Rightarrow> (AList.update k (MStr (Text (strconv_Itoa (n + 1))), e) st, Inr (n + 1)))
     | Some (MStr _, e) \<Rightarrow> (st, Inl (External ''ERR value is not an integer''))
     | Some (MSet (x # xs), e) \<Rightarrow> (st, Inl wrongtype)
     | _ \<Rightarrow> (AList.update k (MStr (Text (strconv_Itoa 1)), None) st, Inr 1))"

definition mem_pttl :: "mem \<Rightarrow> time \<Rightarrow> string \<Rightarrow> duration result" where
  "mem_pttl st now k = (case mem_entry st now k of None \<Rightarrow> Inr (- 2)
     | Some (v, None) \<Rightarrow> Inr (- 1) | Some (v, Some e) \<Rightarrow> Inr (e - now))"

definition mem_redis :: "mem redis" where
  "mem_redis = \<lparr>r_Get = mem_get, r_Set = mem_set, r_Del = mem_del, r_Exists = mem_exists,
     r_Scan = mem_scan, r_SAdd = mem_sadd, r_SMembers = mem_smembers, r_Expire = mem_expire,
     r_Incr = mem_incr, r_TTL = mem_pttl\<rparr>"

abbreviation mem_up :: "mem \<Rightarrow> bool" where
  "mem_up \<equiv> \<lambda>_. True"

lemmas mem_read_defs = mem_entry_def mem_kv_def mem_smem_def

lemmas mem_cmd_defs = mem_get_def mem_set_def mem_del_def mem_exists_def mem_scan_def mem_sadd_def
  mem_smembers_def mem_expire_def mem_incr_def mem_pttl_def mem_ttl_def

lemmas mem_defs = mem_redis_def mem_kv_def mem_smem_def mem_cmd_defs

lemma alive_mono: "alive e t \<Longrightarrow> now \<le> t \<Longrightarrow> alive e now"
  by (cases e) auto

lemma mem_entry_update [simp]:
  "mem_entry (AList.update k x st) t k' =
     (if k' = k then (if alive (snd x) t then Some x else None) else mem_entry st t k')"
  by (cases x) (simp add: mem_entry_def)

lemma mem_entry_delete [simp]:
  "mem_entry (AList.delete k st) t k' = (if k' = k then None else mem_entry st t k')"
  by (simp add: mem_entry_def)

lemma mem_entry_earlier:
  assumes "mem_entry st now k = x" and "now \<le> t"
  shows "mem_entry st t k = (case x of None \<Rightarrow> None | Some y \<Rightarrow> if alive (snd y) t then Some y else None)"
  using assms alive_mono [of _ t now] by (auto simp: mem_entry_def split: option.splits if_splits)

lemma mem_kv_in_keys: "mem_kv st now k \<noteq> None \<or> mem_smem st now k \<noteq> {} \<Longrightarrow> k \<in> fst ` set st"
  by (cases "map_of st k") (auto simp: mem_read_defs dest: map_of_SomeD intro: rev_image_eqI)

lemmas mem_splits = option.splits prod.splits mval.splits if_splits

interpretation mem: redis_server mem_redis mem_up mem_kv mem_smem
proof (unfold_locales, goal_cases)
  case 1 then show ?case by (auto simp: mem_defs split: mem_splits)
next
  case 2 then show ?case by (simp add: mem_redis_def mem_exists_def)
next
  case 3 show ?case by (simp add: mem_redis_def mem_set_def)
next
  case 4 then show ?case by (simp add: mem_defs)
next
  case 5 then show ?case by (simp add: mem_defs)
next
  case 6 then show ?case by (simp add: mem_defs)
next
  case 7 show ?case by (simp add: mem_redis_def mem_del_def)
next
  case 8 then show ?case by (simp add: mem_defs)
next
  case 9 then show ?case by (simp add: mem_defs)
next
  case (10 st p now) then show ?case
    using mem_kv_in_keys [of st now] by (auto simp: mem_redis_def mem_scan_def)
next
  case 11 then show ?case by (auto simp: mem_defs split: mem_splits)
next
  case (12 st now t k x k') then show ?case
    by (cases "mem_entry st now k")
      (auto simp: mem_defs mem_entry_earlier [of st now k _ t] split: mem_splits)
next
  case 13 then show ?case by (auto simp: mem_defs mem_entry_def split: mem_splits)
next
  case 14 then show ?case by (auto simp: mem_defs split: mem_splits)
next
  case 15 then show ?case by (auto simp: mem_defs split: mem_splits)
next
  case 16 show ?case by (simp add: mem_redis_def mem_expire_def split: option.splits prod.splits)
next
  case (17 st now t d k k') then show ?case
    by (cases "mem_entry st now k") (auto simp: mem_defs mem_entry_earlier [of st now k _ t])
next
  case (18 st now t d k k') then show ?case
    by (cases "mem_entry st now k") (auto simp: mem_defs mem_entry_earlier [of st now k _ t])
next
  case (19 st now k) then show ?case
    by (cases "mem_entry st now k") (auto simp: mem_defs split: mem_splits list.splits)
next
  case (20 st now k s n)
  then obtain e where e: "mem_entry st now k = Some (MStr (Text s), e)"
    by (auto simp: mem_kv_def split: mem_splits)
  then show ?case using 20 mem_entry_earlier [OF e] by (auto simp: mem_redis_def mem_kv_def mem_incr_def)
next
  case 21 then show ?case
    by (auto simp: mem_redis_def mem_incr_def mem_kv_def mem_smem_def
        split: mem_splits payload.splits list.splits)
next
  case 22 then show ?case by (auto simp: mem_kv_def mem_smem_def split: mem_splits)
qed

end
