(* ===== verification/Jwt.thy ===== *)
theory Jwt
  imports Redis Base64
begin

text \<open>
  Package internal/service/jwt: the signing keys (keys.go) and the token service
  (service.go). The library \<^verbatim>\<open>golang-jwt\<close> is a parameter (\<open>jwt_lib\<close>): signing a claims
  set, and parsing a token with the key function the code passes. The locale
  \<open>jwt_library\<close> states what its documentation says of the two. \<open>field_jwt\<close>, whose tokens
  list the fields of the claims, instantiates it.
\<close>

section \<open>keys.go\<close>

text \<open>
  RSA keys. A private key carries its public key (modulus and exponent) and the private
  exponent; generating one is an argument of the operations (an error or a key).
\<close>

record rsa_PublicKey =
  pk_N :: nat
  pk_E :: nat

record rsa_PrivateKey =
  sk_PublicKey :: rsa_PublicKey
  sk_D :: nat

record KeyManager =
  km_privateKey :: rsa_PrivateKey
  km_kid :: string
  km_algorithm :: string
  km_createdAt :: time

text \<open>\<open>fmtMonth\<close> is \<^verbatim>\<open>Time.Format("2006-01")\<close> in the server's time zone.\<close>

definition NewKeyManager :: "(time \<Rightarrow> string) \<Rightarrow> time \<Rightarrow> int \<Rightarrow> rsa_PrivateKey result \<Rightarrow> KeyManager result" where
  "NewKeyManager fmtMonth now bits gen =
     (if bits < 2048 then Inl (Errorf ''key size must be at least 2048 bits'')
      else (case gen of
          Inl e \<Rightarrow> Inl (Wrapf ''generate RSA key'' e)
        | Inr k \<Rightarrow> Inr \<lparr>km_privateKey = k, km_kid = ''auth7-'' @ fmtMonth now,
            km_algorithm = ''RS256'', km_createdAt = now\<rparr>))"

definition km_PublicKey :: "KeyManager \<Rightarrow> rsa_PublicKey" where
  "km_PublicKey km = sk_PublicKey (km_privateKey km)"

record jwk =
  jwk_kty :: string
  jwk_alg :: string
  jwk_use :: string
  jwk_kid :: string
  jwk_n :: string
  jwk_e :: string

definition km_JWKS :: "KeyManager \<Rightarrow> jwk" where
  "km_JWKS km = \<lparr>jwk_kty = ''RSA'', jwk_alg = km_algorithm km, jwk_use = ''sig'', jwk_kid = km_kid km,
     jwk_n = RawEncodeToString True (big_Bytes (pk_N (km_PublicKey km))),
     jwk_e = RawEncodeToString True (big_Bytes (pk_E (km_PublicKey km)))\<rparr>"

record RotatedKeyManager =
  rkm_keys :: "(string \<times> KeyManager) list"
  rkm_activeKid :: string

definition NewRotatedKeyManager :: RotatedKeyManager where
  "NewRotatedKeyManager = \<lparr>rkm_keys = [], rkm_activeKid = []\<rparr>"

definition GenerateNewKey ::
  "(time \<Rightarrow> string) \<Rightarrow> time \<Rightarrow> rsa_PrivateKey result \<Rightarrow> RotatedKeyManager \<Rightarrow> RotatedKeyManager \<times> KeyManager result"
where
  "GenerateNewKey fmtMonth now gen rm =
     (case NewKeyManager fmtMonth now 2048 gen of
        Inl e \<Rightarrow> (rm, Inl e)
      | Inr km \<Rightarrow> (rm\<lparr>rkm_keys := AList.update (km_kid km) km (rkm_keys rm), rkm_activeKid := km_kid km\<rparr>, Inr km))"

definition GetKey :: "RotatedKeyManager \<Rightarrow> string \<Rightarrow> KeyManager option" where
  "GetKey rm kid = map_of (rkm_keys rm) kid"

definition ActiveKey :: "RotatedKeyManager \<Rightarrow> KeyManager option" where
  "ActiveKey rm = (if rkm_activeKid rm = [] then None else GetKey rm (rkm_activeKid rm))"

definition AllKeys :: "RotatedKeyManager \<Rightarrow> KeyManager list" where
  "AllKeys rm = map snd (rkm_keys rm)"

definition rkm_JWKS :: "RotatedKeyManager \<Rightarrow> jwk list" where
  "rkm_JWKS rm = map (\<lambda>(kid, km). km_JWKS km) (rkm_keys rm)"

section \<open>service.go: claims and tokens\<close>

text \<open>
  \<^verbatim>\<open>Claims\<close> with its embedded \<^verbatim>\<open>RegisteredClaims\<close>; absent dates and an absent actor are \<open>None\<close>.
\<close>

record Claims =
  c_Issuer :: string
  c_Subject :: string
  c_Audience :: "string list"
  c_ExpiresAt :: "time option"
  c_NotBefore :: "time option"
  c_IssuedAt :: "time option"
  c_ID :: string
  c_SessionID :: string
  c_OrgID :: string
  c_ClientID :: string
  c_Username :: string
  c_Email :: string
  c_Roles :: "string list"
  c_Permissions :: "string list"
  c_Scope :: string
  c_BranchID :: string
  c_BranchCode :: string
  c_Act :: "string option"

text \<open>The zero value \<^verbatim>\<open>Claims{}\<close>.\<close>

definition Claims0 :: Claims where
  "Claims0 = \<lparr>c_Issuer = [], c_Subject = [], c_Audience = [], c_ExpiresAt = None, c_NotBefore = None,
     c_IssuedAt = None, c_ID = [], c_SessionID = [], c_OrgID = [], c_ClientID = [], c_Username = [],
     c_Email = [], c_Roles = [], c_Permissions = [], c_Scope = [], c_BranchID = [], c_BranchCode = [],
     c_Act = None\<rparr>"

record AccessToken =
  at_TokenID :: string
  at_SessionID :: string
  at_UserID :: uuid
  at_OrgID :: uuid
  at_ClientID :: string
  at_ExpiresAt :: time
  at_IssuedAt :: time

record token_header =
  th_isRSA :: bool \<comment> \<open>\<^verbatim>\<open>token.Method.(*jwt.SigningMethodRSA)\<close> succeeds\<close>
  th_alg :: string
  th_kid :: "string option"

record jwt_lib =
  jl_NewNumericDate :: "time \<Rightarrow> time"
  jl_SignedString :: "string \<Rightarrow> Claims \<Rightarrow> rsa_PrivateKey \<Rightarrow> string result" \<comment> \<open>RS256, with the header's kid\<close>
  jl_ParseWithClaims :: "time \<Rightarrow> string \<Rightarrow> (token_header \<Rightarrow> rsa_PublicKey result) \<Rightarrow> (Claims \<times> bool) result"

abbreviation rs256_header :: "string \<Rightarrow> token_header" where
  "rs256_header kid \<equiv> \<lparr>th_isRSA = True, th_alg = ''RS256'', th_kid = Some kid\<rparr>"

section \<open>service.go: the service\<close>

record jwt_Service =
  js_keyManager :: RotatedKeyManager
  js_issuer :: string
  js_audience :: "string list"
  js_tokenTTL :: duration

definition jwt_NewService ::
  "(time \<Rightarrow> string) \<Rightarrow> time \<Rightarrow> rsa_PrivateKey result \<Rightarrow> string \<Rightarrow> string list \<Rightarrow> duration \<Rightarrow> jwt_Service"
where
  "jwt_NewService fmtMonth now gen issuer audience tokenTTL =
     \<lparr>js_keyManager = fst (GenerateNewKey fmtMonth now gen NewRotatedKeyManager),
      js_issuer = issuer, js_audience = audience,
      js_tokenTTL = (if tokenTTL \<le> 0 then 15 * time_Minute else tokenTTL)\<rparr>"

definition access_claims ::
  "uuid_pkg \<Rightarrow> jwt_lib \<Rightarrow> jwt_Service \<Rightarrow> time \<Rightarrow> string \<Rightarrow> string \<Rightarrow> uuid \<Rightarrow> uuid \<Rightarrow> Claims \<Rightarrow> Claims" where
  "access_claims U J s now tokenID sessionID userID orgID claims = Claims0
     \<lparr>c_Issuer := js_issuer s, c_Subject := uuid_String U userID, c_Audience := js_audience s,
      c_ID := tokenID, c_IssuedAt := Some (jl_NewNumericDate J now),
      c_ExpiresAt := Some (jl_NewNumericDate J (now + js_tokenTTL s)),
      c_SessionID := sessionID, c_OrgID := uuid_String U orgID, c_ClientID := c_ClientID claims,
      c_Username := c_Username claims, c_Email := c_Email claims, c_Roles := c_Roles claims,
      c_Scope := c_Scope claims, c_BranchID := c_BranchID claims, c_BranchCode := c_BranchCode claims,
      c_Act := c_Act claims\<rparr>"

definition IssueAccessToken ::
  "uuid_pkg \<Rightarrow> jwt_lib \<Rightarrow> jwt_Service \<Rightarrow> time \<Rightarrow> string \<Rightarrow> string \<Rightarrow> uuid \<Rightarrow> uuid \<Rightarrow> Claims
    \<Rightarrow> (string \<times> AccessToken) result" where
  "IssueAccessToken U J s now tokenID sessionID userID orgID claims =
     (case ActiveKey (js_keyManager s) of
        None \<Rightarrow> Inl (Errorf ''no active key'')
      | Some km \<Rightarrow>
          (case jl_SignedString J (km_kid km) (access_claims U J s now tokenID sessionID userID orgID claims)
                  (km_privateKey km) of
             Inl e \<Rightarrow> Inl (Wrapf ''sign token'' e)
           | Inr signedToken \<Rightarrow> Inr (signedToken,
               \<lparr>at_TokenID = tokenID, at_SessionID = sessionID, at_UserID = userID, at_OrgID = orgID,
                at_ClientID = c_ClientID claims, at_ExpiresAt = now + js_tokenTTL s, at_IssuedAt = now\<rparr>)))"

text \<open>The key function passed to the parser.\<close>

definition verify_keyfunc :: "jwt_Service \<Rightarrow> token_header \<Rightarrow> rsa_PublicKey result" where
  "verify_keyfunc s h =
     (if \<not> th_isRSA h then Inl (Errorf (''unexpected signing method: '' @ th_alg h))
      else (case th_kid h of
          None \<Rightarrow> Inl (Errorf ''missing kid in token header'')
        | Some kid \<Rightarrow>
            (case GetKey (js_keyManager s) kid of
               None \<Rightarrow> Inl (Errorf (''key not found: '' @ kid))
             | Some km \<Rightarrow> Inr (km_PublicKey km))))"

definition jwt_VerifyAccessToken :: "jwt_lib \<Rightarrow> jwt_Service \<Rightarrow> time \<Rightarrow> string \<Rightarrow> Claims result" where
  "jwt_VerifyAccessToken J s now tokenString =
     (case jl_ParseWithClaims J now tokenString (verify_keyfunc s) of
        Inl e \<Rightarrow> Inl (Wrapf ''parse token'' e)
      | Inr (claims, valid) \<Rightarrow> if \<not> valid then Inl (Errorf ''invalid token claims'') else Inr claims)"

definition GetJWKS :: "jwt_Service \<Rightarrow> jwk list" where
  "GetJWKS s = rkm_JWKS (js_keyManager s)"

definition GetActiveKid :: "jwt_Service \<Rightarrow> string" where
  "GetActiveKid s = (case ActiveKey (js_keyManager s) of None \<Rightarrow> [] | Some km \<Rightarrow> km_kid km)"

definition RotateKey ::
  "(time \<Rightarrow> string) \<Rightarrow> time \<Rightarrow> rsa_PrivateKey result \<Rightarrow> jwt_Service \<Rightarrow> jwt_Service \<times> unit result" where
  "RotateKey fmtMonth now gen s =
     (case GenerateNewKey fmtMonth now gen (js_keyManager s) of
        (rm, r) \<Rightarrow> (s\<lparr>js_keyManager := rm\<rparr>, case r of Inl e \<Rightarrow> Inl e | Inr _ \<Rightarrow> Inr ()))"

text \<open>\<open>bytes\<close>: the 32 random bytes read.\<close>

definition GenerateRefreshToken :: "string \<Rightarrow> string" where
  "GenerateRefreshToken bytes = RawEncodeToString True bytes"

definition HashToken :: "(string \<Rightarrow> string) \<Rightarrow> string \<Rightarrow> string" where
  "HashToken sha256 token = RawEncodeToString True (sha256 token)"

record RefreshToken =
  rft_TokenID :: string
  rft_FamilyID :: string
  rft_SessionID :: string
  rft_UserID :: uuid
  rft_OrgID :: uuid
  rft_ClientID :: string
  rft_Scopes :: "string list"
  rft_ExpiresAt :: time
  rft_IssuedAt :: time

definition IssueRefreshToken ::
  "time \<Rightarrow> string \<Rightarrow> string \<Rightarrow> string \<Rightarrow> string \<Rightarrow> uuid \<Rightarrow> uuid \<Rightarrow> string \<Rightarrow> string list \<Rightarrow> RefreshToken \<times> string"
where
  "IssueRefreshToken now tokenID familyID bytes sessionID userID orgID clientID scopes =
     (\<lparr>rft_TokenID = tokenID, rft_FamilyID = familyID, rft_SessionID = sessionID, rft_UserID = userID,
       rft_OrgID = orgID, rft_ClientID = clientID, rft_Scopes = scopes,
       rft_ExpiresAt = now + 8 * time_Hour, rft_IssuedAt = now\<rparr>, GenerateRefreshToken bytes)"

section \<open>The key manager: invariant\<close>

text \<open>
  Every key is stored under its own identifier, keys are unique per identifier, and the
  active identifier, when there is one, is that of a stored key.
\<close>

definition rkm_wf :: "RotatedKeyManager \<Rightarrow> bool" where
  "rkm_wf rm \<longleftrightarrow> gomap_wf (rkm_keys rm) \<and> list_all (\<lambda>(kid, km). km_kid km = kid) (rkm_keys rm) \<and>
     (rkm_activeKid rm \<noteq> [] \<longrightarrow> GetKey rm (rkm_activeKid rm) \<noteq> None)"

lemma rkm_wf_New: "rkm_wf NewRotatedKeyManager"
  by (simp add: rkm_wf_def NewRotatedKeyManager_def)

lemma list_all_update:
  "list_all P m \<Longrightarrow> P (k, v) \<Longrightarrow> list_all P (AList.update k v m)"
  by (induction m) auto

lemma rkm_wf_GenerateNewKey: "rkm_wf rm \<Longrightarrow> rkm_wf (fst (GenerateNewKey fmt now gen rm))"
  by (auto simp: rkm_wf_def GenerateNewKey_def GetKey_def list_all_update split: sum.splits)

lemma GetKey_kid: "rkm_wf rm \<Longrightarrow> GetKey rm kid = Some km \<Longrightarrow> km_kid km = kid"
  by (auto simp: rkm_wf_def GetKey_def list_all_iff dest!: map_of_SomeD)

lemma ActiveKey_stored:
  "rkm_wf rm \<Longrightarrow> ActiveKey rm = Some km \<Longrightarrow> GetKey rm (km_kid km) = Some km \<and> km_kid km = rkm_activeKid rm"
  using GetKey_kid [of rm "rkm_activeKid rm" km] by (auto simp: ActiveKey_def split: if_splits)

lemma GenerateNewKey_ok:
  "GenerateNewKey fmt now (Inr k) rm =
     (let km = \<lparr>km_privateKey = k, km_kid = ''auth7-'' @ fmt now, km_algorithm = ''RS256'', km_createdAt = now\<rparr>
      in (rm\<lparr>rkm_keys := AList.update (km_kid km) km (rkm_keys rm), rkm_activeKid := km_kid km\<rparr>, Inr km))"
  by (simp add: GenerateNewKey_def NewKeyManager_def Let_def)

lemma ActiveKey_GenerateNewKey:
  "ActiveKey (fst (GenerateNewKey fmt now (Inr k) rm)) =
     Some \<lparr>km_privateKey = k, km_kid = ''auth7-'' @ fmt now, km_algorithm = ''RS256'', km_createdAt = now\<rparr>"
  by (simp add: GenerateNewKey_ok Let_def ActiveKey_def GetKey_def)

section \<open>What the code relies on in golang-jwt\<close>

text \<open>
  \<open>key_ok\<close>: the library can sign with the key. A signed token parses back to its claims
  exactly when the key function returns the signer's public key for its header and the
  expiry lies in the future; no other key verifies it.
\<close>

locale jwt_library =
  fixes J :: jwt_lib and key_ok :: "rsa_PrivateKey \<Rightarrow> bool"
  assumes numeric_date: "jl_NewNumericDate J t = t div time_Second * time_Second"
    and sign_ok: "key_ok k \<Longrightarrow> is_ok (jl_SignedString J kid c k)"
    and parse_signed: "jl_SignedString J kid c k = Inr tok \<Longrightarrow> keyf (rs256_header kid) = Inr (sk_PublicKey k) \<Longrightarrow>
      c_ExpiresAt c = Some e \<Longrightarrow> now < e \<Longrightarrow> c_NotBefore c = None \<Longrightarrow>
      jl_ParseWithClaims J now tok keyf = Inr (c, True)"
    and parse_expired: "jl_SignedString J kid c k = Inr tok \<Longrightarrow> c_ExpiresAt c = Some e \<Longrightarrow> e \<le> now \<Longrightarrow>
      \<not> is_ok (jl_ParseWithClaims J now tok keyf)"
    and parse_no_key: "jl_SignedString J kid c k = Inr tok \<Longrightarrow> keyf (rs256_header kid) = Inl err \<Longrightarrow>
      \<not> is_ok (jl_ParseWithClaims J now tok keyf)"
    and parse_wrong_key: "jl_SignedString J kid c k = Inr tok \<Longrightarrow> keyf (rs256_header kid) = Inr pk \<Longrightarrow>
      pk \<noteq> sk_PublicKey k \<Longrightarrow> \<not> is_ok (jl_ParseWithClaims J now tok keyf)"
begin

lemma issue_ok:
  assumes "ActiveKey (js_keyManager s) = Some km" and "key_ok (km_privateKey km)"
  shows "\<exists>tok at. IssueAccessToken U J s now tid sid u org cl = Inr (tok, at)"
  using assms sign_ok [OF assms(2), of "km_kid km" "access_claims U J s now tid sid u org cl"]
  by (auto simp: IssueAccessToken_def is_ok_iff)

lemma issuedD:
  assumes "IssueAccessToken U J s now tid sid u org cl = Inr (tok, at)"
  obtains km where "ActiveKey (js_keyManager s) = Some km"
    and "jl_SignedString J (km_kid km) (access_claims U J s now tid sid u org cl) (km_privateKey km) = Inr tok"
    and "at = \<lparr>at_TokenID = tid, at_SessionID = sid, at_UserID = u, at_OrgID = org,
           at_ClientID = c_ClientID cl, at_ExpiresAt = now + js_tokenTTL s, at_IssuedAt = now\<rparr>"
  using assms by (auto simp: IssueAccessToken_def split: option.splits sum.splits)

text \<open>A service whose keys answer for the signer's key accepts the token until it expires.\<close>

lemma verify_issued_by:
  assumes issue: "IssueAccessToken U J s now tid sid u org cl = Inr (tok, at)"
    and key: "ActiveKey (js_keyManager s) = Some km"
    and same: "GetKey (js_keyManager s') (km_kid km) = Some km'" "km_PublicKey km' = km_PublicKey km"
    and early: "now' < (now + js_tokenTTL s) div time_Second * time_Second"
  shows "jwt_VerifyAccessToken J s' now' tok = Inr (access_claims U J s now tid sid u org cl)"
proof -
  let ?c = "access_claims U J s now tid sid u org cl"
  have sig: "jl_SignedString J (km_kid km) ?c (km_privateKey km) = Inr tok"
    using issue key by (auto elim: issuedD)
  have "verify_keyfunc s' (rs256_header (km_kid km)) = Inr (sk_PublicKey (km_privateKey km))"
    using same by (simp add: verify_keyfunc_def km_PublicKey_def)
  then have "jl_ParseWithClaims J now' tok (verify_keyfunc s') = Inr (?c, True)"
    by (rule parse_signed [OF sig, where e = "jl_NewNumericDate J (now + js_tokenTTL s)"])
       (simp_all add: access_claims_def Claims0_def numeric_date early)
  then show ?thesis by (simp add: jwt_VerifyAccessToken_def)
qed

lemma verify_issued_expired:
  assumes issue: "IssueAccessToken U J s now tid sid u org cl = Inr (tok, at)"
    and late: "(now + js_tokenTTL s) div time_Second * time_Second \<le> now'"
  shows "\<not> is_ok (jwt_VerifyAccessToken J s' now' tok)"
proof -
  from issue obtain km :: KeyManager where
    "jl_SignedString J (km_kid km) (access_claims U J s now tid sid u org cl) (km_privateKey km) = Inr tok"
    by (rule issuedD)
  then have "\<not> is_ok (jl_ParseWithClaims J now' tok (verify_keyfunc s'))"
    by (rule parse_expired [where e = "jl_NewNumericDate J (now + js_tokenTTL s)"])
       (use late in \<open>simp_all only: numeric_date\<close>, simp add: access_claims_def numeric_date)
  then show ?thesis by (auto simp: jwt_VerifyAccessToken_def is_ok_iff split: sum.splits)
qed

lemma verify_issued_other_key:
  assumes issue: "IssueAccessToken U J s now tid sid u org cl = Inr (tok, at)"
    and key: "ActiveKey (js_keyManager s) = Some km"
    and other: "\<And>km'. GetKey (js_keyManager s') (km_kid km) = Some km' \<Longrightarrow> km_PublicKey km' \<noteq> km_PublicKey km"
  shows "\<not> is_ok (jwt_VerifyAccessToken J s' now' tok)"
proof -
  let ?f = "verify_keyfunc s'"
  have sig: "jl_SignedString J (km_kid km) (access_claims U J s now tid sid u org cl) (km_privateKey km) = Inr tok"
    using issue key by (auto elim: issuedD)
  have "\<not> is_ok (jl_ParseWithClaims J now' tok ?f)"
  proof (cases "?f (rs256_header (km_kid km))")
    case (Inl e)
    then show ?thesis by (rule parse_no_key [OF sig])
  next
    case (Inr pk)
    then have "pk \<noteq> sk_PublicKey (km_privateKey km)"
      using other by (auto simp: verify_keyfunc_def km_PublicKey_def split: option.splits)
    with Inr show ?thesis by (rule parse_wrong_key [OF sig])
  qed
  then show ?thesis by (auto simp: jwt_VerifyAccessToken_def is_ok_iff split: sum.splits)
qed

end

section \<open>A library instance\<close>

text \<open>
  A token is the list of its fields, each character preceded by a mark and each field
  closed by another; the signature is the signer's public key. \<open>unpack\<close> undoes \<open>pack\<close>.
\<close>

definition pack :: "string list \<Rightarrow> string" where
  "pack ss = concat (map (\<lambda>s. concat (map (\<lambda>c. [CHR ''c'', c]) s) @ [CHR ''.'']) ss)"

fun unpack_aux :: "string \<Rightarrow> string \<Rightarrow> string list" where
  "unpack_aux acc (m # r) =
     (if m = CHR ''.'' then rev acc # unpack_aux [] r
      else (case r of [] \<Rightarrow> [] | c # r' \<Rightarrow> unpack_aux (c # acc) r'))"
| "unpack_aux acc [] = []"

lemma unpack_field:
  "unpack_aux acc (concat (map (\<lambda>c. [CHR ''c'', c]) s) @ CHR ''.'' # r) = (rev acc @ s) # unpack_aux [] r"
  by (induction s arbitrary: acc) auto

lemma unpack_pack [simp]: "unpack_aux [] (pack ss) = ss"
  by (induction ss) (auto simp: pack_def unpack_field)

definition pack_time :: "time option \<Rightarrow> string" where
  "pack_time t = (case t of None \<Rightarrow> [] | Some i \<Rightarrow> (if i < 0 then CHR ''-'' else CHR ''+'') # print_nat (nat \<bar>i\<bar>))"

definition unpack_time :: "string \<Rightarrow> time option" where
  "unpack_time s = (case s of [] \<Rightarrow> None
     | c # ds \<Rightarrow> Some (if c = CHR ''-'' then - int (read_nat 0 ds) else int (read_nat 0 ds)))"

lemma unpack_pack_time [simp]: "unpack_time (pack_time t) = t"
  by (auto simp: unpack_time_def pack_time_def split: option.splits)

definition pack_claims :: "Claims \<Rightarrow> string list" where
  "pack_claims c = [c_Issuer c, c_Subject c, pack (c_Audience c), pack_time (c_ExpiresAt c),
     pack_time (c_NotBefore c), pack_time (c_IssuedAt c), c_ID c, c_SessionID c, c_OrgID c, c_ClientID c,
     c_Username c, c_Email c, pack (c_Roles c), pack (c_Permissions c), c_Scope c, c_BranchID c,
     c_BranchCode c, pack (case c_Act c of None \<Rightarrow> [] | Some a \<Rightarrow> [a])]"

definition unpack_claims :: "string list \<Rightarrow> Claims" where
  "unpack_claims f = \<lparr>c_Issuer = f ! 0, c_Subject = f ! 1, c_Audience = unpack_aux [] (f ! 2),
     c_ExpiresAt = unpack_time (f ! 3), c_NotBefore = unpack_time (f ! 4), c_IssuedAt = unpack_time (f ! 5),
     c_ID = f ! 6, c_SessionID = f ! 7, c_OrgID = f ! 8, c_ClientID = f ! 9, c_Username = f ! 10,
     c_Email = f ! 11, c_Roles = unpack_aux [] (f ! 12), c_Permissions = unpack_aux [] (f ! 13),
     c_Scope = f ! 14, c_BranchID = f ! 15, c_BranchCode = f ! 16,
     c_Act = (case unpack_aux [] (f ! 17) of [] \<Rightarrow> None | a # _ \<Rightarrow> Some a)\<rparr>"

lemma unpack_pack_claims [simp]: "unpack_claims (pack_claims c) = c"
  by (cases "c_Act c") (simp_all add: unpack_claims_def pack_claims_def)

definition field_sign :: "string \<Rightarrow> Claims \<Rightarrow> rsa_PrivateKey \<Rightarrow> string result" where
  "field_sign kid c k =
     Inr (pack (kid # print_nat (pk_N (sk_PublicKey k)) # print_nat (pk_E (sk_PublicKey k)) # pack_claims c))"

definition field_parse :: "time \<Rightarrow> string \<Rightarrow> (token_header \<Rightarrow> rsa_PublicKey result) \<Rightarrow> (Claims \<times> bool) result" where
  "field_parse now tok keyf = (case unpack_aux [] tok of
       kid # n # e # f \<Rightarrow>
         (if length f \<noteq> 18 then Inl (External ''token is malformed'')
          else (case keyf (rs256_header kid) of
              Inl err \<Rightarrow> Inl err
            | Inr pk \<Rightarrow>
                (let c = unpack_claims f
                 in if pk \<noteq> \<lparr>pk_N = read_nat 0 n, pk_E = read_nat 0 e\<rparr> then Inl (External ''token signature is invalid'')
                    else if (case c_ExpiresAt c of None \<Rightarrow> False | Some x \<Rightarrow> x \<le> now) then Inl (External ''token is expired'')
                    else if (case c_NotBefore c of None \<Rightarrow> False | Some x \<Rightarrow> now < x)
                      then Inl (External ''token is not valid yet'')
                    else Inr (c, True))))
     | _ \<Rightarrow> Inl (External ''token is malformed''))"

definition field_jwt :: jwt_lib where
  "field_jwt = \<lparr>jl_NewNumericDate = (\<lambda>t. t div time_Second * time_Second),
     jl_SignedString = field_sign, jl_ParseWithClaims = field_parse\<rparr>"

lemma field_parse_sign:
  "field_parse now (pack (kid # print_nat (pk_N pk') # print_nat (pk_E pk') # pack_claims c)) keyf =
     (case keyf (rs256_header kid) of Inl err \<Rightarrow> Inl err
      | Inr pk \<Rightarrow>
          (if pk \<noteq> pk' then Inl (External ''token signature is invalid'')
           else if (case c_ExpiresAt c of None \<Rightarrow> False | Some x \<Rightarrow> x \<le> now) then Inl (External ''token is expired'')
           else if (case c_NotBefore c of None \<Rightarrow> False | Some x \<Rightarrow> now < x)
             then Inl (External ''token is not valid yet'')
           else Inr (c, True)))"
proof -
  have "length (pack_claims c) = 18" by (simp add: pack_claims_def)
  then show ?thesis by (cases "keyf (rs256_header kid)") (simp_all add: field_parse_def Let_def)
qed

interpretation field_jwt: jwt_library field_jwt "\<lambda>_. True"
  by unfold_locales
    (auto simp: field_jwt_def field_sign_def field_parse_sign is_ok_iff split: sum.splits option.splits if_splits)

section \<open>Properties\<close>

lemmas access_claims_fields = access_claims_def Claims0_def

text \<open>
  C5: A service created with a working key generator issues an access token for every
  request, and \<^verbatim>\<open>VerifyAccessToken\<close> of the same service accepts that token up to its
  expiry and returns claims with the issuer, subject, session, organisation, client,
  roles, scope, branch and actor it was issued with; the permissions of the request are
  not carried over. The lifetime is positive whatever was configured.
\<close>

theorem issue_verify_roundtrip:
  assumes lib: "jwt_library J key_ok" and key: "key_ok k"
    and s: "s = jwt_NewService fmtMonth t0 (Inr k) issuer audience ttl"
    and early: "now' < (now + js_tokenTTL s) div time_Second * time_Second"
  shows "\<exists>tok at c. IssueAccessToken U J s now tid sid u org cl = Inr (tok, at) \<and>
           jwt_VerifyAccessToken J s now' tok = Inr c \<and>
           c_Issuer c = issuer \<and> c_Audience c = audience \<and> c_Subject c = uuid_String U u \<and>
           c_ID c = tid \<and> c_SessionID c = sid \<and> c_OrgID c = uuid_String U org \<and>
           c_ClientID c = c_ClientID cl \<and> c_Roles c = c_Roles cl \<and> c_Scope c = c_Scope cl \<and>
           c_BranchID c = c_BranchID cl \<and> c_Act c = c_Act cl \<and> c_Permissions c = [] \<and>
           at_ExpiresAt at = now + js_tokenTTL s \<and> 0 < js_tokenTTL s"
proof -
  let ?km = "\<lparr>km_privateKey = k, km_kid = ''auth7-'' @ fmtMonth t0, km_algorithm = ''RS256'', km_createdAt = t0\<rparr>"
  have act: "ActiveKey (js_keyManager s) = Some ?km"
    by (simp add: s jwt_NewService_def ActiveKey_GenerateNewKey)
  have stored: "GetKey (js_keyManager s) (km_kid ?km) = Some ?km"
    by (simp add: s jwt_NewService_def GenerateNewKey_ok Let_def GetKey_def)
  obtain tok at where issue: "IssueAccessToken U J s now tid sid u org cl = Inr (tok, at)"
    using jwt_library.issue_ok [OF lib act] key by fastforce
  moreover have "jwt_VerifyAccessToken J s now' tok = Inr (access_claims U J s now tid sid u org cl)"
    using jwt_library.verify_issued_by [OF lib issue act stored refl early] .
  moreover have "at_ExpiresAt at = now + js_tokenTTL s"
    using issue by (auto elim: jwt_library.issuedD [OF lib])
  moreover have "0 < js_tokenTTL s" "js_issuer s = issuer" "js_audience s = audience"
    by (simp_all add: s jwt_NewService_def)
  ultimately show ?thesis by (simp add: access_claims_fields)
qed

definition demo_key :: "nat \<Rightarrow> rsa_PrivateKey" where
  "demo_key n = \<lparr>sk_PublicKey = \<lparr>pk_N = n, pk_E = 65537\<rparr>, sk_D = 7\<rparr>"

definition demo_jwt :: jwt_Service where
  "demo_jwt = jwt_NewService (\<lambda>t. ''2026-01'') 0 (Inr (demo_key 3233)) ''auth7'' [''bos7''] 0"

text \<open>The hypotheses hold for \<open>field_jwt\<close>: a token issued at 1 s, verified at 100 s.\<close>

lemma issue_verify_roundtrip_witness:
  "\<exists>tok at c. IssueAccessToken bits_uuid field_jwt demo_jwt time_Second ''t'' ''s1'' 5 6 Claims0 = Inr (tok, at) \<and>
     jwt_VerifyAccessToken field_jwt demo_jwt (100 * time_Second) tok = Inr c \<and> c_SessionID c = ''s1'' \<and>
     c_Subject c = uuid_String bits_uuid 5"
proof -
  have "100 * time_Second < (time_Second + js_tokenTTL demo_jwt) div time_Second * time_Second"
    by (simp add: demo_jwt_def jwt_NewService_def)
  from issue_verify_roundtrip [OF field_jwt.jwt_library_axioms TrueI demo_jwt_def this,
      of bits_uuid "''t''" "''s1''" 5 6 Claims0]
  show ?thesis by blast
qed

text \<open>
  After a successful \<^verbatim>\<open>RotateKey\<close>, new tokens are signed with the new key. A token
  issued before the rotation is rejected when both keys were made in the same month
  (the identifier is the month, so the new key replaces the old one), and is still
  accepted until it expires when they were made in different months.
\<close>

theorem rotate_key_effect:
  assumes lib: "jwt_library J key_ok" and wf: "rkm_wf (js_keyManager s)"
    and act: "ActiveKey (js_keyManager s) = Some km"
    and issue: "IssueAccessToken U J s now tid sid u org cl = Inr (tok, at)"
    and fresh: "sk_PublicKey k \<noteq> km_PublicKey km"
    and rot: "RotateKey fmtMonth t1 (Inr k) s = (s', r)"
    and early: "now' < (now + js_tokenTTL s) div time_Second * time_Second"
  shows "r = Inr () \<and> GetActiveKid s' = ''auth7-'' @ fmtMonth t1 \<and> rkm_wf (js_keyManager s') \<and>
    (is_ok (jwt_VerifyAccessToken J s' now' tok) \<longleftrightarrow> km_kid km \<noteq> ''auth7-'' @ fmtMonth t1)"
proof -
  let ?km = "\<lparr>km_privateKey = k, km_kid = ''auth7-'' @ fmtMonth t1, km_algorithm = ''RS256'', km_createdAt = t1\<rparr>"
  have s': "s' = s\<lparr>js_keyManager := fst (GenerateNewKey fmtMonth t1 (Inr k) (js_keyManager s))\<rparr>" "r = Inr ()"
    using rot by (auto simp: RotateKey_def GenerateNewKey_ok Let_def)
  have get: "GetKey (js_keyManager s') kid = (if kid = km_kid ?km then Some ?km else GetKey (js_keyManager s) kid)" for kid
    by (simp add: s' GenerateNewKey_ok Let_def GetKey_def)
  have "is_ok (jwt_VerifyAccessToken J s' now' tok) \<longleftrightarrow> km_kid km \<noteq> km_kid ?km"
  proof (cases "km_kid km = km_kid ?km")
    case True
    then have "\<not> is_ok (jwt_VerifyAccessToken J s' now' tok)"
      using get fresh by (intro jwt_library.verify_issued_other_key [OF lib issue act])
        (auto simp: km_PublicKey_def)
    with True show ?thesis by simp
  next
    case False
    have "GetKey (js_keyManager s') (km_kid km) = Some km"
      using ActiveKey_stored [OF wf act, THEN conjunct1] False get [of "km_kid km"] by (simp only: if_False)
    from jwt_library.verify_issued_by [OF lib issue act this refl early] False show ?thesis by simp
  qed
  then show ?thesis
    using s' rkm_wf_GenerateNewKey [OF wf] by (simp add: GetActiveKid_def ActiveKey_GenerateNewKey)
qed

lemma demo_jwt_key:
  "ActiveKey (js_keyManager demo_jwt) = Some \<lparr>km_privateKey = demo_key 3233, km_kid = ''auth7-2026-01'',
     km_algorithm = ''RS256'', km_createdAt = 0\<rparr>"
  by (simp add: demo_jwt_def jwt_NewService_def ActiveKey_GenerateNewKey)

lemma demo_jwt_wf: "rkm_wf (js_keyManager demo_jwt)"
  by (simp add: demo_jwt_def jwt_NewService_def rkm_wf_New rkm_wf_GenerateNewKey)

lemma rotate_key_effect_witness:
  "\<exists>tok at. IssueAccessToken bits_uuid field_jwt demo_jwt time_Second ''t'' ''s1'' 5 6 Claims0 = Inr (tok, at) \<and>
     is_ok (jwt_VerifyAccessToken field_jwt (fst (RotateKey (\<lambda>t. ''2026-02'') 1 (Inr (demo_key 3599)) demo_jwt)) 2 tok) \<and>
     \<not> is_ok (jwt_VerifyAccessToken field_jwt (fst (RotateKey (\<lambda>t. ''2026-01'') 1 (Inr (demo_key 3599)) demo_jwt)) 2 tok)"
proof -
  obtain tok at where i:
      "IssueAccessToken bits_uuid field_jwt demo_jwt time_Second ''t'' ''s1'' 5 6 Claims0 = Inr (tok, at)"
    using field_jwt.issue_ok [OF demo_jwt_key TrueI] by blast
  have e: "2 < (time_Second + js_tokenTTL demo_jwt) div time_Second * time_Second"
    by (simp add: demo_jwt_def jwt_NewService_def)
  have f: "sk_PublicKey (demo_key 3599) \<noteq> km_PublicKey \<lparr>km_privateKey = demo_key 3233,
      km_kid = ''auth7-2026-01'', km_algorithm = ''RS256'', km_createdAt = 0\<rparr>"
    by (simp add: demo_key_def km_PublicKey_def)
  note eff = rotate_key_effect [OF field_jwt.jwt_library_axioms demo_jwt_wf demo_jwt_key i f prod.collapse [symmetric] e]
  show ?thesis
    using i eff [of "\<lambda>t. ''2026-02''" 1] eff [of "\<lambda>t. ''2026-01''" 1] by simp
qed

text \<open>
  Every entry of the published key set names a stored key by its identifier and carries
  that key's modulus and exponent: decoding \<^verbatim>\<open>n\<close> and \<^verbatim>\<open>e\<close> gives the numbers back, and the
  entry of the active key is among them.
\<close>

theorem jwks_publishes_keys:
  assumes wf: "rkm_wf (js_keyManager s)"
  shows "map jwk_kid (GetJWKS s) = map fst (rkm_keys (js_keyManager s)) \<and>
    (\<forall>j \<in> set (GetJWKS s). \<exists>km. GetKey (js_keyManager s) (jwk_kid j) = Some km \<and>
       map_option big_SetBytes (RawDecodeString True (jwk_n j)) = Some (pk_N (km_PublicKey km)) \<and>
       map_option big_SetBytes (RawDecodeString True (jwk_e j)) = Some (pk_E (km_PublicKey km))) \<and>
    (\<forall>km. ActiveKey (js_keyManager s) = Some km \<longrightarrow> km_JWKS km \<in> set (GetJWKS s))"
proof -
  have kid: "km_kid km = kid" "GetKey (js_keyManager s) kid = Some km"
    if "(kid, km) \<in> set (rkm_keys (js_keyManager s))" for kid km
    using wf that by (auto simp: rkm_wf_def list_all_iff gomap_wf_def GetKey_def)
  have "map jwk_kid (GetJWKS s) = map fst (rkm_keys (js_keyManager s))"
    using kid by (auto simp: GetJWKS_def rkm_JWKS_def km_JWKS_def)
  moreover have "km_JWKS km \<in> set (GetJWKS s)" if "ActiveKey (js_keyManager s) = Some km" for km
    using that by (force simp: ActiveKey_def GetKey_def GetJWKS_def rkm_JWKS_def split: if_splits dest: map_of_SomeD)
  ultimately show ?thesis
    using kid by (auto simp: GetJWKS_def rkm_JWKS_def km_JWKS_def)
qed

lemma jwks_publishes_keys_witness:
  "rkm_wf (js_keyManager demo_jwt) \<and> map jwk_kid (GetJWKS demo_jwt) = [''auth7-2026-01'']"
  using jwks_publishes_keys [OF demo_jwt_wf] demo_jwt_wf
  by (simp add: demo_jwt_def jwt_NewService_def GenerateNewKey_ok Let_def NewRotatedKeyManager_def)

end
