(* ===== verification/Session.thy ===== *)
theory Session
  imports Jwt
begin

text \<open>
  Package internal/service/session: the Redis-backed stores of sessions (store.go), of
  refresh tokens and of revoked sessions (refresh.go), and the service that composes them
  with the token service (service.go). Every operation takes the Redis client \<open>R\<close>, the
  server state and the time, and returns the new state with its result.
\<close>

section \<open>store.go\<close>

definition sessionKey :: "string \<Rightarrow> string" where
  "sessionKey sessionID = ''session:'' @ sessionID"

text \<open>\<open>int64(d.Seconds())\<close> and \<open>time.Duration(n) * time.Second\<close>.\<close>

definition whole_Seconds :: "duration \<Rightarrow> int" where
  "whole_Seconds d = (if d < 0 then - (- d div time_Second) else d div time_Second)"

definition Seconds :: "int \<Rightarrow> duration" where
  "Seconds n = n * time_Second"

lemma Seconds_sign [simp]: "0 < Seconds n \<longleftrightarrow> 0 < n" "Seconds n \<le> 0 \<longleftrightarrow> n \<le> 0"
  by (auto simp: Seconds_def)

lemma Seconds_not_KeepTTL [simp]: "Seconds n \<noteq> - 1"
proof (cases "0 \<le> n")
  case False
  then have "n \<le> - 1" by simp
  then show ?thesis unfolding Seconds_def by linarith
qed (simp add: Seconds_def)

text \<open>\<open>newID\<close>: the UUID drawn when the caller gives none. The stored record is returned.\<close>

definition Store_Create ::
  "'r redis \<Rightarrow> duration \<Rightarrow> 'r \<Rightarrow> time \<Rightarrow> string \<Rightarrow> session_data \<Rightarrow> 'r \<times> session_data result" where
  "Store_Create R ttl st now newID data0 =
     (let data1 = (if sd_ID data0 = [] then data0\<lparr>sd_ID := newID\<rparr> else data0);
          data = data1\<lparr>sd_CreatedAt := Unix now, sd_LastUsedAt := Unix now,
                       sd_ExpiresAt := Unix now + whole_Seconds ttl\<rparr>
      in case r_Set R st now (sessionKey (sd_ID data)) (JSession data) ttl of
           (st', Some e) \<Rightarrow> (st', Inl (Wrapf ''session.Store.Create: redis set'' e))
         | (st', None) \<Rightarrow> (st', Inr data))"

definition Store_Get :: "'r redis \<Rightarrow> 'r \<Rightarrow> time \<Rightarrow> string \<Rightarrow> session_data option result" where
  "Store_Get R st now sessionID =
     (case r_Get R st now (sessionKey sessionID) of
        Inl e \<Rightarrow> if e = redis_Nil then Inr None else Inl (Wrapf ''session.Store.Get: redis get'' e)
      | Inr p \<Rightarrow> (case json_Unmarshal_session p of
            Inl e \<Rightarrow> Inl (Wrapf ''session.Store.Get: unmarshal'' e)
          | Inr s \<Rightarrow> Inr (Some s)))"

definition Store_Update ::
  "'r redis \<Rightarrow> duration \<Rightarrow> 'r \<Rightarrow> time \<Rightarrow> string \<Rightarrow> (session_data \<Rightarrow> session_data result) \<Rightarrow> 'r \<times> unit result" where
  "Store_Update R ttl0 st now sessionID update =
     (case r_Get R st now (sessionKey sessionID) of
        Inl e \<Rightarrow> (st, Inl (if e = redis_Nil then Errorf ''session.Store.Update: session not found''
                      else Wrapf ''session.Store.Update: redis get'' e))
      | Inr p \<Rightarrow> (case json_Unmarshal_session p of
            Inl e \<Rightarrow> (st, Inl (Wrapf ''session.Store.Update: unmarshal'' e))
          | Inr s0 \<Rightarrow> (case update s0 of
                Inl e \<Rightarrow> (st, Inl (Wrapf ''session.Store.Update: update fn'' e))
              | Inr s1 \<Rightarrow>
                  (let s = s1\<lparr>sd_LastUsedAt := Unix now\<rparr>;
                       ttl1 = Seconds (sd_ExpiresAt s - Unix now);
                       ttl = (if ttl1 \<le> 0 then ttl0 else ttl1)
                   in case r_Set R st now (sessionKey sessionID) (JSession s) ttl of
                        (st', Some e) \<Rightarrow> (st', Inl (Wrapf ''session.Store.Update: redis set'' e))
                      | (st', None) \<Rightarrow> (st', Inr ())))))"

definition Store_Delete :: "'r redis \<Rightarrow> 'r \<Rightarrow> time \<Rightarrow> string \<Rightarrow> 'r \<times> unit result" where
  "Store_Delete R st now sessionID =
     (case r_Del R st now (sessionKey sessionID) of
        (st', Some e) \<Rightarrow> (st', Inl (Wrapf ''session.Store.Delete: redis del'' e))
      | (st', None) \<Rightarrow> (st', Inr ()))"

text \<open>
  One step of the loops over \<^verbatim>\<open>SCAN session:*\<close>: the session under a key, or nothing where
  reading or decoding it fails (the loop continues with the next key).
\<close>

definition scanned_session :: "'r redis \<Rightarrow> 'r \<Rightarrow> time \<Rightarrow> string \<Rightarrow> session_data option" where
  "scanned_session R st now key =
     (case r_Get R st now key of Inl e \<Rightarrow> None
      | Inr p \<Rightarrow> (case json_Unmarshal_session p of Inl e \<Rightarrow> None | Inr s \<Rightarrow> Some s))"

fun scan_delete :: "'r redis \<Rightarrow> time \<Rightarrow> (session_data \<Rightarrow> bool) \<Rightarrow> string list \<Rightarrow> 'r \<Rightarrow> 'r" where
  "scan_delete R now P [] st = st"
| "scan_delete R now P (key # keys) st =
     scan_delete R now P keys
       (case scanned_session R st now key of None \<Rightarrow> st
        | Some s \<Rightarrow> if P s then fst (r_Del R st now key) else st)"

definition Store_DeleteByUser :: "'r redis \<Rightarrow> 'r \<Rightarrow> time \<Rightarrow> string \<Rightarrow> 'r \<times> unit result" where
  "Store_DeleteByUser R st now userID =
     (case r_Scan R st now ''session:*'' of (keys, err) \<Rightarrow>
        (scan_delete R now (\<lambda>s. sd_UserID s = userID) keys st,
         case err of Some e \<Rightarrow> Inl (Wrapf ''session.Store.DeleteByUser: scan'' e) | None \<Rightarrow> Inr ()))"

definition Store_DeleteByOrg :: "'r redis \<Rightarrow> 'r \<Rightarrow> time \<Rightarrow> string \<Rightarrow> 'r \<times> unit result" where
  "Store_DeleteByOrg R st now orgID =
     (case r_Scan R st now ''session:*'' of (keys, err) \<Rightarrow>
        (scan_delete R now (\<lambda>s. sd_OrgID s = orgID) keys st,
         case err of Some e \<Rightarrow> Inl (Wrapf ''session.Store.DeleteByOrg: scan'' e) | None \<Rightarrow> Inr ()))"

definition Store_CheckIPBinding :: "'r redis \<Rightarrow> 'r \<Rightarrow> time \<Rightarrow> string \<Rightarrow> string \<Rightarrow> bool result" where
  "Store_CheckIPBinding R st now sessionID currentIP =
     (case Store_Get R st now sessionID of Inl e \<Rightarrow> Inl e
      | Inr None \<Rightarrow> Inr False | Inr (Some s) \<Rightarrow> Inr (sd_IPAddress s = currentIP))"

definition Store_RevokeIPMismatch :: "'r redis \<Rightarrow> 'r \<Rightarrow> time \<Rightarrow> string \<Rightarrow> string \<Rightarrow> string \<Rightarrow> 'r \<times> unit result" where
  "Store_RevokeIPMismatch R st now sessionID oldIP newIP = Store_Delete R st now sessionID"

definition Store_UpdateLastUsed :: "'r redis \<Rightarrow> duration \<Rightarrow> 'r \<Rightarrow> time \<Rightarrow> string \<Rightarrow> 'r \<times> unit result" where
  "Store_UpdateLastUsed R ttl st now sessionID =
     Store_Update R ttl st now sessionID (\<lambda>s. Inr (s\<lparr>sd_LastUsedAt := Unix now\<rparr>))"

definition Store_ExtendTTL :: "'r redis \<Rightarrow> 'r \<Rightarrow> time \<Rightarrow> string \<Rightarrow> duration \<Rightarrow> 'r \<times> unit result" where
  "Store_ExtendTTL R st now sessionID extension =
     (case Store_Get R st now sessionID of
        Inl e \<Rightarrow> (st, Inl e)
      | Inr None \<Rightarrow> (st, Inl (Errorf ''session not found''))
      | Inr (Some s) \<Rightarrow>
          (case r_Set R st now (sessionKey sessionID) (JSession (s\<lparr>sd_ExpiresAt := Unix (now + extension)\<rparr>)) extension of
             (st', Some e) \<Rightarrow> (st', Inl e) | (st', None) \<Rightarrow> (st', Inr ())))"

definition Store_ListAll :: "'r redis \<Rightarrow> 'r \<Rightarrow> time \<Rightarrow> session_data list result" where
  "Store_ListAll R st now =
     (case r_Scan R st now ''session:*'' of (keys, err) \<Rightarrow>
        (case err of Some e \<Rightarrow> Inl (Wrapf ''session.Store.ListAll: scan'' e)
         | None \<Rightarrow> Inr (List.map_filter (scanned_session R st now) keys)))"

definition Store_GetIDsByUser :: "'r redis \<Rightarrow> 'r \<Rightarrow> time \<Rightarrow> string \<Rightarrow> string list result" where
  "Store_GetIDsByUser R st now userID =
     (case r_Scan R st now ''session:*'' of (keys, err) \<Rightarrow>
        (case err of Some e \<Rightarrow> Inl (Wrapf ''session.Store.GetIDsByUser: scan'' e)
         | None \<Rightarrow> Inr (map sd_ID (filter (\<lambda>s. sd_UserID s = userID)
                     (List.map_filter (scanned_session R st now) keys)))))"

section \<open>refresh.go\<close>

definition tokenKey :: "string \<Rightarrow> string" where
  "tokenKey tokenHash = ''refresh:'' @ tokenHash"

definition familyKey :: "string \<Rightarrow> string" where
  "familyKey familyID = ''refresh_family:'' @ familyID"

definition Refresh_Create :: "'r redis \<Rightarrow> 'r \<Rightarrow> time \<Rightarrow> refresh_token_data \<Rightarrow> 'r \<times> unit result" where
  "Refresh_Create R st now data =
     (let ttl0 = Seconds (rt_ExpiresAt data - Unix now);
          ttl = (if ttl0 \<le> 0 then 8 * time_Hour else ttl0)
      in case pipe_Exec
           [\<lambda>st. r_Set R st now (tokenKey (rt_TokenHash data)) (JRefresh data) ttl,
            \<lambda>st. r_SAdd R st now (familyKey (rt_FamilyID data)) (rt_TokenHash data),
            \<lambda>st. r_Expire R st now (familyKey (rt_FamilyID data)) ttl] st of
           (st', Some e) \<Rightarrow> (st', Inl (Wrapf ''RefreshTokenStore.Create: redis exec'' e))
         | (st', None) \<Rightarrow> (st', Inr ()))"

definition GetByHash :: "'r redis \<Rightarrow> 'r \<Rightarrow> time \<Rightarrow> string \<Rightarrow> refresh_token_data option result" where
  "GetByHash R st now tokenHash =
     (case r_Get R st now (tokenKey tokenHash) of
        Inl e \<Rightarrow> if e = redis_Nil then Inr None else Inl (Wrapf ''RefreshTokenStore.GetByHash: redis get'' e)
      | Inr p \<Rightarrow> (case json_Unmarshal_refresh p of
            Inl e \<Rightarrow> Inl (Wrapf ''RefreshTokenStore.GetByHash: unmarshal'' e)
          | Inr t \<Rightarrow> Inr (Some t)))"

definition Refresh_MarkUsed :: "'r redis \<Rightarrow> 'r \<Rightarrow> time \<Rightarrow> string \<Rightarrow> 'r \<times> unit result" where
  "Refresh_MarkUsed R st now tokenHash =
     (case GetByHash R st now tokenHash of
        Inl e \<Rightarrow> (st, Inl e)
      | Inr None \<Rightarrow> (st, Inl (Errorf ''token not found''))
      | Inr (Some token) \<Rightarrow>
          (case r_Set R st now (tokenKey tokenHash) (JRefresh (token\<lparr>rt_UsedAt := Some (Unix now)\<rparr>))
                  (Seconds (rt_ExpiresAt token - Unix now)) of
             (st', Some e) \<Rightarrow> (st', Inl e) | (st', None) \<Rightarrow> (st', Inr ())))"

definition Refresh_Revoke :: "'r redis \<Rightarrow> 'r \<Rightarrow> time \<Rightarrow> string \<Rightarrow> 'r \<times> unit result" where
  "Refresh_Revoke R st now tokenHash =
     (case GetByHash R st now tokenHash of
        Inl e \<Rightarrow> (st, Inl e)
      | Inr None \<Rightarrow> (st, Inr ())
      | Inr (Some token) \<Rightarrow>
          (let ttl = Seconds (rt_ExpiresAt token - Unix now)
           in if ttl \<le> 0 then (st, Inr ())
              else case r_Set R st now (tokenKey tokenHash) (JRefresh (token\<lparr>rt_RevokedAt := Some (Unix now)\<rparr>)) ttl of
                     (st', Some e) \<Rightarrow> (st', Inl e) | (st', None) \<Rightarrow> (st', Inr ())))"

text \<open>The body of \<^verbatim>\<open>RevokeFamily\<close>'s loop, and the loop.\<close>

definition revoke_one :: "'r redis \<Rightarrow> time \<Rightarrow> string \<Rightarrow> 'r \<Rightarrow> 'r" where
  "revoke_one R now hash st =
     (case GetByHash R st now hash of
        Inr (Some token) \<Rightarrow>
          (if rt_RevokedAt token = None \<and> Seconds (rt_ExpiresAt token - Unix now) > 0
           then fst (r_Set R st now (tokenKey hash) (JRefresh (token\<lparr>rt_RevokedAt := Some (Unix now)\<rparr>))
                  (Seconds (rt_ExpiresAt token - Unix now)))
           else st)
      | _ \<Rightarrow> st)"

definition RevokeFamily :: "'r redis \<Rightarrow> 'r \<Rightarrow> time \<Rightarrow> string \<Rightarrow> 'r \<times> unit result" where
  "RevokeFamily R st now familyID =
     (case r_SMembers R st now (familyKey familyID) of
        Inl e \<Rightarrow> (st, Inl (Wrapf ''RefreshTokenStore.RevokeFamily: smembers'' e))
      | Inr hashes \<Rightarrow> (fold (revoke_one R now) hashes st, Inr ()))"

definition IsReuse :: "'r redis \<Rightarrow> 'r \<Rightarrow> time \<Rightarrow> string \<Rightarrow> bool result" where
  "IsReuse R st now tokenHash =
     (case GetByHash R st now tokenHash of Inl e \<Rightarrow> Inl e
      | Inr None \<Rightarrow> Inr False | Inr (Some token) \<Rightarrow> Inr (rt_UsedAt token \<noteq> None))"

definition GetFamilyTokens :: "'r redis \<Rightarrow> 'r \<Rightarrow> time \<Rightarrow> string \<Rightarrow> refresh_token_data list result" where
  "GetFamilyTokens R st now familyID =
     (case r_SMembers R st now (familyKey familyID) of
        Inl e \<Rightarrow> Inl (Wrapf ''RefreshTokenStore.GetFamilyTokens: smembers'' e)
      | Inr hashes \<Rightarrow> Inr (List.map_filter
          (\<lambda>h. case GetByHash R st now h of Inr (Some t) \<Rightarrow> Some t | _ \<Rightarrow> None) hashes))"

definition blacklistKey :: "string \<Rightarrow> string" where
  "blacklistKey jti = ''blacklist:'' @ jti"

definition Blacklist_Add :: "'r redis \<Rightarrow> 'r \<Rightarrow> time \<Rightarrow> string \<Rightarrow> duration \<Rightarrow> 'r \<times> unit result" where
  "Blacklist_Add R st now jti ttl =
     (if ttl \<le> 0 then (st, Inr ())
      else case r_Set R st now (blacklistKey jti) (Text ''1'') ttl of
             (st', Some e) \<Rightarrow> (st', Inl e) | (st', None) \<Rightarrow> (st', Inr ()))"

definition Blacklist_Contains :: "'r redis \<Rightarrow> 'r \<Rightarrow> time \<Rightarrow> string \<Rightarrow> bool result" where
  "Blacklist_Contains R st now jti =
     (case r_Exists R st now (blacklistKey jti) of
        Inl e \<Rightarrow> Inl (Wrapf ''BlacklistStore.Contains: redis exists'' e) | Inr n \<Rightarrow> Inr (n > 0))"

definition revokedKey :: "string \<Rightarrow> string" where
  "revokedKey sessionID = ''blacklist_session:'' @ sessionID"

definition AddSession :: "'r redis \<Rightarrow> 'r \<Rightarrow> time \<Rightarrow> string \<Rightarrow> duration \<Rightarrow> 'r \<times> unit result" where
  "AddSession R st now sessionID ttl =
     (case r_Set R st now (revokedKey sessionID) (Text ''1'') ttl of
        (st', Some e) \<Rightarrow> (st', Inl e) | (st', None) \<Rightarrow> (st', Inr ()))"

definition IsSessionRevoked :: "'r redis \<Rightarrow> 'r \<Rightarrow> time \<Rightarrow> string \<Rightarrow> bool result" where
  "IsSessionRevoked R st now sessionID =
     (case r_Exists R st now (revokedKey sessionID) of
        Inl e \<Rightarrow> Inl (Wrapf ''BlacklistStore.IsSessionRevoked: redis exists'' e) | Inr n \<Rightarrow> Inr (n > 0))"

section \<open>service.go\<close>

record LoginResult =
  lr_AccessToken :: string
  lr_RefreshToken :: string
  lr_ExpiresIn :: int
  lr_SessionID :: string
  lr_UserID :: uuid
  lr_OrgID :: uuid

text \<open>
  What the service holds: the session store's lifetime and the token service. The
  libraries it calls are \<open>U\<close> (UUIDs), \<open>J\<close> (tokens) and \<open>sha\<close> (\<^verbatim>\<open>crypto/sha256\<close>).
\<close>

record session_Service =
  ses_ttl :: duration
  ses_jwt :: jwt_Service

record libs =
  lib_uuid :: uuid_pkg
  lib_jwt :: jwt_lib
  lib_sha256 :: "string \<Rightarrow> string"

text \<open>The values one login or refresh draws at random.\<close>

record session_rand =
  rnd_session :: uuid
  rnd_jti :: uuid
  rnd_family :: uuid
  rnd_token :: uuid
  rnd_bytes :: string

definition deviceFromUA :: "string \<Rightarrow> string" where
  "deviceFromUA ua =
     (if ua = [] then []
      else
        let low = strings_ToLower ua;
            browser =
              (if strings_Contains low ''edg/'' then ''Edge''
               else if strings_Contains low ''opr/'' \<or> strings_Contains low ''opera'' then ''Opera''
               else if strings_Contains low ''chrome/'' \<and> \<not> strings_Contains low ''chromium'' then ''Chrome''
               else if strings_Contains low ''firefox/'' then ''Firefox''
               else if strings_Contains low ''safari/'' \<and> \<not> strings_Contains low ''chrome'' then ''Safari''
               else ''Unknown browser'');
            os =
              (if strings_Contains low ''windows'' then ''Windows''
               else if strings_Contains low ''mac os'' \<or> strings_Contains low ''macintosh'' then ''macOS''
               else if strings_Contains low ''android'' then ''Android''
               else if strings_Contains low ''iphone'' \<or> strings_Contains low ''ipad'' then ''iOS''
               else if strings_Contains low ''linux'' then ''Linux''
               else ''Unknown OS'')
        in browser @ '' on '' @ os)"

text \<open>The zero value \<^verbatim>\<open>SessionData{}\<close>.\<close>

definition session_data0 :: session_data where
  "session_data0 = \<lparr>sd_ID = [], sd_UserID = [], sd_OrgID = [], sd_ActiveBranchID = [], sd_AssignedBranchIDs = [],
     sd_Roles = [], sd_Permissions = [], sd_IPAddress = [], sd_UserAgent = [], sd_DeviceInfo = [],
     sd_CreatedAt = 0, sd_ExpiresAt = 0, sd_LastUsedAt = 0, sd_MFAVerified = False, sd_Source = []\<rparr>"

text \<open>The refresh token record both \<^verbatim>\<open>CreateSession\<close> and \<^verbatim>\<open>RefreshTokens\<close> store.\<close>

definition new_refresh_token ::
  "libs \<Rightarrow> session_rand \<Rightarrow> time \<Rightarrow> uuid \<Rightarrow> uuid \<Rightarrow> string \<Rightarrow> string list \<Rightarrow> refresh_token_data" where
  "new_refresh_token L rnd now userID orgID clientID scopes =
     \<lparr>rt_TokenID = uuid_String (lib_uuid L) (rnd_token rnd), rt_FamilyID = uuid_String (lib_uuid L) (rnd_family rnd),
      rt_TokenHash = HashToken (lib_sha256 L) (GenerateRefreshToken (rnd_bytes rnd)),
      rt_UserID = uuid_String (lib_uuid L) userID, rt_OrgID = uuid_String (lib_uuid L) orgID,
      rt_ClientID = clientID, rt_SessionID = uuid_String (lib_uuid L) (rnd_session rnd), rt_Scopes = scopes,
      rt_IssuedAt = Unix now, rt_ExpiresAt = Unix (now + 8 * time_Hour), rt_UsedAt = None, rt_RevokedAt = None\<rparr>"

text \<open>The session record of \<^verbatim>\<open>CreateSession\<close>, before the store stamps it.\<close>

definition new_session :: "libs \<Rightarrow> session_rand \<Rightarrow> uuid \<Rightarrow> uuid \<Rightarrow> string \<Rightarrow> string \<Rightarrow> Claims \<Rightarrow> session_data" where
  "new_session L rnd userID orgID ipAddress userAgent claims = session_data0
     \<lparr>sd_ID := uuid_String (lib_uuid L) (rnd_session rnd), sd_UserID := uuid_String (lib_uuid L) userID,
      sd_OrgID := uuid_String (lib_uuid L) orgID, sd_ActiveBranchID := c_BranchID claims,
      sd_IPAddress := ipAddress, sd_UserAgent := userAgent, sd_DeviceInfo := deviceFromUA userAgent,
      sd_Roles := c_Roles claims, sd_MFAVerified := True\<rparr>"

definition CreateSession ::
  "libs \<Rightarrow> 'r redis \<Rightarrow> session_Service \<Rightarrow> 'r \<Rightarrow> time \<Rightarrow> session_rand \<Rightarrow> uuid \<Rightarrow> uuid \<Rightarrow> string \<Rightarrow> string \<Rightarrow> Claims
    \<Rightarrow> 'r \<times> LoginResult result" where
  "CreateSession L R s st now rnd userID orgID ipAddress userAgent claims =
     (let sessionID = uuid_String (lib_uuid L) (rnd_session rnd);
          sessionData = new_session L rnd userID orgID ipAddress userAgent claims
      in case Store_Create R (ses_ttl s) st now [] sessionData of
           (st1, Inl e) \<Rightarrow> (st1, Inl (Wrapf ''session.Service.CreateSession: create session'' e))
         | (st1, Inr _) \<Rightarrow>
             (case IssueAccessToken (lib_uuid L) (lib_jwt L) (ses_jwt s) now
                     (uuid_String (lib_uuid L) (rnd_jti rnd)) sessionID userID orgID claims of
                Inl e \<Rightarrow> (st1, Inl (Wrapf ''session.Service.CreateSession: issue access token'' e))
              | Inr (accessToken, _) \<Rightarrow>
                  (case Refresh_Create R st1 now
                          (new_refresh_token L rnd now userID orgID (c_ClientID claims) (c_Roles claims)) of
                     (st2, Inl e) \<Rightarrow> (st2, Inl (Wrapf ''session.Service.CreateSession: store refresh token'' e))
                   | (st2, Inr _) \<Rightarrow> (st2, Inr
                       \<lparr>lr_AccessToken = accessToken, lr_RefreshToken = GenerateRefreshToken (rnd_bytes rnd),
                        lr_ExpiresIn = 900, lr_SessionID = sessionID, lr_UserID = userID, lr_OrgID = orgID\<rparr>))))"

definition ValidateSession ::
  "'r redis \<Rightarrow> session_Service \<Rightarrow> 'r \<Rightarrow> time \<Rightarrow> string \<Rightarrow> string \<Rightarrow> 'r \<times> session_data option result" where
  "ValidateSession R s st now sessionID ipAddress =
     (case Store_Get R st now sessionID of
        Inl e \<Rightarrow> (st, Inl (Wrapf ''session.Service.ValidateSession: get session'' e))
      | Inr None \<Rightarrow> (st, Inr None)
      | Inr (Some session) \<Rightarrow>
          (if sd_IPAddress session \<noteq> ipAddress
           then (fst (Store_Delete R st now sessionID),
                 Inl (Errorf ''session.Service.ValidateSession: IP address mismatch''))
           else (fst (Store_UpdateLastUsed R (ses_ttl s) st now sessionID), Inr (Some session))))"

text \<open>
  The second half of \<^verbatim>\<open>RefreshTokens\<close>, from the check of the session on.
\<close>

definition rotate_tokens ::
  "libs \<Rightarrow> 'r redis \<Rightarrow> session_Service \<Rightarrow> 'r \<Rightarrow> time \<Rightarrow> session_rand \<Rightarrow> string \<Rightarrow> refresh_token_data \<Rightarrow> session_data \<Rightarrow> string
    \<Rightarrow> 'r \<times> LoginResult result" where
  "rotate_tokens L R s st now rnd tokenHash tokenData session ipAddress =
     (let userID = uuid_Parse0 (lib_uuid L) (rt_UserID tokenData);
          orgID = uuid_Parse0 (lib_uuid L) (rt_OrgID tokenData);
          st1 = fst (Refresh_MarkUsed R st now tokenHash);
          newSessionID = uuid_String (lib_uuid L) (rnd_session rnd);
          session' = session\<lparr>sd_ID := newSessionID, sd_IPAddress := ipAddress\<rparr>
      in case Store_Create R (ses_ttl s) st1 now [] session' of
           (st2, Inl e) \<Rightarrow> (st2, Inl (Wrapf ''session.Service.RefreshTokens: create new session'' e))
         | (st2, Inr _) \<Rightarrow>
             (case IssueAccessToken (lib_uuid L) (lib_jwt L) (ses_jwt s) now
                     (uuid_String (lib_uuid L) (rnd_jti rnd)) newSessionID userID orgID
                     (Claims0\<lparr>c_ClientID := rt_ClientID tokenData, c_Roles := rt_Scopes tokenData\<rparr>) of
                Inl e \<Rightarrow> (st2, Inl (Wrapf ''session.Service.RefreshTokens: issue access token'' e))
              | Inr (accessToken, _) \<Rightarrow>
                  (case Refresh_Create R st2 now
                          (new_refresh_token L rnd now userID orgID (rt_ClientID tokenData) (rt_Scopes tokenData)) of
                     (st3, Inl e) \<Rightarrow> (st3, Inl (Wrapf ''session.Service.RefreshTokens: store refresh token'' e))
                   | (st3, Inr _) \<Rightarrow> (st3, Inr
                       \<lparr>lr_AccessToken = accessToken, lr_RefreshToken = GenerateRefreshToken (rnd_bytes rnd),
                        lr_ExpiresIn = 900, lr_SessionID = newSessionID, lr_UserID = userID, lr_OrgID = orgID\<rparr>))))"

definition RefreshTokens ::
  "libs \<Rightarrow> 'r redis \<Rightarrow> session_Service \<Rightarrow> 'r \<Rightarrow> time \<Rightarrow> session_rand \<Rightarrow> string \<Rightarrow> string \<Rightarrow> 'r \<times> LoginResult result" where
  "RefreshTokens L R s st now rnd refreshToken ipAddress =
     (let tokenHash = HashToken (lib_sha256 L) refreshToken
      in case GetByHash R st now tokenHash of
           Inl e \<Rightarrow> (st, Inl (Wrapf ''session.Service.RefreshTokens: get token'' e))
         | Inr None \<Rightarrow> (st, Inl (Errorf ''session.Service.RefreshTokens: token not found''))
         | Inr (Some tokenData) \<Rightarrow>
             if rt_RevokedAt tokenData \<noteq> None
             then (fst (RevokeFamily R st now (rt_FamilyID tokenData)),
                   Inl (Errorf ''session.Service.RefreshTokens: token revoked''))
             else (case IsReuse R st now tokenHash of
                 Inl e \<Rightarrow> (st, Inl (Wrapf ''session.Service.RefreshTokens: check reuse'' e))
               | Inr True \<Rightarrow>
                   (fst (Store_Delete R (fst (RevokeFamily R st now (rt_FamilyID tokenData))) now (rt_SessionID tokenData)),
                    Inl (Errorf ''session.Service.RefreshTokens: token reuse detected''))
               | Inr False \<Rightarrow>
                   (case Store_Get R st now (rt_SessionID tokenData) of
                      Inr (Some session) \<Rightarrow>
                        (if sd_IPAddress session \<noteq> ipAddress
                         then (fst (Store_Delete R st now (rt_SessionID tokenData)),
                               Inl (Errorf ''session.Service.RefreshTokens: IP address mismatch''))
                         else rotate_tokens L R s st now rnd tokenHash tokenData session ipAddress)
                    | _ \<Rightarrow> (st, Inl (Errorf ''session.Service.RefreshTokens: session not found'')))))"

definition RevokeSession :: "'r redis \<Rightarrow> 'r \<Rightarrow> time \<Rightarrow> string \<Rightarrow> 'r \<times> unit result" where
  "RevokeSession R st now sessionID =
     (case Store_Delete R st now sessionID of
        (st1, Inl e) \<Rightarrow> (st1, Inl (Wrapf ''session.Service.RevokeSession: delete session'' e))
      | (st1, Inr _) \<Rightarrow> (fst (AddSession R st1 now sessionID (8 * time_Hour)), Inr ()))"

definition RevokeAllUserSessions :: "'r redis \<Rightarrow> 'r \<Rightarrow> time \<Rightarrow> string \<Rightarrow> 'r \<times> unit result" where
  "RevokeAllUserSessions R st now userID =
     (case Store_GetIDsByUser R st now userID of
        Inl e \<Rightarrow> (st, Inl (Wrapf ''session.Service.RevokeAllUserSessions: get session IDs'' e))
      | Inr ids \<Rightarrow> (fold (\<lambda>i st. fst (RevokeSession R st now i)) ids st, Inr ()))"

definition RevokeAllOrgSessions :: "'r redis \<Rightarrow> 'r \<Rightarrow> time \<Rightarrow> string \<Rightarrow> 'r \<times> unit result" where
  "RevokeAllOrgSessions R st now orgID =
     (case Store_DeleteByOrg R st now orgID of
        (st1, Inl e) \<Rightarrow> (st1, Inl (Wrapf ''session.Service.RevokeAllOrgSessions: delete org sessions'' e))
      | (st1, Inr _) \<Rightarrow> (st1, Inr ()))"

definition StoreSession ::
  "'r redis \<Rightarrow> session_Service \<Rightarrow> 'r \<Rightarrow> time \<Rightarrow> string \<Rightarrow> string \<Rightarrow> string \<Rightarrow> string \<Rightarrow> 'r \<times> unit result" where
  "StoreSession R s st now newID sessionID userID orgID =
     (case Store_Create R (ses_ttl s) st now newID
             (session_data0\<lparr>sd_ID := sessionID, sd_UserID := userID, sd_OrgID := orgID, sd_Source := ''oauth''\<rparr>) of
        (st1, Inl e) \<Rightarrow> (st1, Inl e) | (st1, Inr _) \<Rightarrow> (st1, Inr ()))"

definition VerifyAccessToken ::
  "libs \<Rightarrow> 'r redis \<Rightarrow> session_Service \<Rightarrow> 'r \<Rightarrow> time \<Rightarrow> string \<Rightarrow> Claims result" where
  "VerifyAccessToken L R s st now accessToken =
     (case jwt_VerifyAccessToken (lib_jwt L) (ses_jwt s) now accessToken of
        Inl e \<Rightarrow> Inl e
      | Inr claims \<Rightarrow> (case IsSessionRevoked R st now (c_SessionID claims) of
            Inl e \<Rightarrow> Inl e
          | Inr revoked \<Rightarrow> if revoked then Inl (Errorf ''session revoked'') else Inr claims))"

definition IssueDelegatedAccessToken ::
  "libs \<Rightarrow> 'r redis \<Rightarrow> session_Service \<Rightarrow> 'r \<Rightarrow> time \<Rightarrow> uuid \<Rightarrow> string \<Rightarrow> string result" where
  "IssueDelegatedAccessToken L R s st now jti subjectToken =
     (case VerifyAccessToken L R s st now subjectToken of
        Inl e \<Rightarrow> Inl (Wrapf ''invalid subject_token'' e)
      | Inr orig \<Rightarrow> (case uuid_Parse (lib_uuid L) (c_Subject orig) of
            None \<Rightarrow> Inl (Wrapf ''subject_token has non-UUID subject'' (External ''uuid''))
          | Some userID \<Rightarrow>
              (let orgID = (if c_OrgID orig = [] then uuid_Nil else uuid_Parse0 (lib_uuid L) (c_OrgID orig));
                   delegated = Claims0\<lparr>c_SessionID := c_SessionID orig, c_ClientID := c_ClientID orig,
                     c_Roles := c_Roles orig, c_Scope := c_Scope orig, c_BranchID := c_BranchID orig,
                     c_Act := Some (uuid_String (lib_uuid L) userID)\<rparr>
               in case IssueAccessToken (lib_uuid L) (lib_jwt L) (ses_jwt s) now (uuid_String (lib_uuid L) jti)
                         (c_SessionID orig) userID orgID delegated of
                    Inl e \<Rightarrow> Inl (Wrapf ''issue delegated token'' e)
                  | Inr (token, _) \<Rightarrow> Inr token)))"

end
