(* ===== verification/SessionLaws.thy ===== *)
theory SessionLaws
  imports Session
begin

text \<open>
  What the session package keeps in Redis and what its operations do to it. An abstract
  view of the server (the live sessions, refresh tokens, revocations and token families
  at a time) is the specification; every store operation refines an update of the view,
  for the time of the call and every later time. The lemmas hold for every server with
  the laws of \<open>redis_server\<close>.
\<close>

section \<open>The abstract view and the invariant\<close>

record session_view =
  v_sess :: "string \<Rightarrow> session_data option"
  v_tok :: "string \<Rightarrow> refresh_token_data option"
  v_rev :: "string \<Rightarrow> bool"
  v_fam :: "string \<Rightarrow> string set"

definition view_of ::
  "('r \<Rightarrow> time \<Rightarrow> string \<Rightarrow> payload option) \<Rightarrow> ('r \<Rightarrow> time \<Rightarrow> string \<Rightarrow> string set) \<Rightarrow> 'r \<Rightarrow> time \<Rightarrow> session_view" where
  "view_of kv smem st t =
     \<lparr>v_sess = (\<lambda>i. case kv st t (sessionKey i) of Some (JSession s) \<Rightarrow> Some s | _ \<Rightarrow> None),
      v_tok = (\<lambda>h. case kv st t (tokenKey h) of Some (JRefresh r) \<Rightarrow> Some r | _ \<Rightarrow> None),
      v_rev = (\<lambda>i. kv st t (revokedKey i) \<noteq> None),
      v_fam = (\<lambda>f. smem st t (familyKey f))\<rparr>"

text \<open>
  Session keys hold sessions that carry their own identifier, token keys hold tokens that
  carry their own hash, family keys hold sets and no other key of the package does.
\<close>

definition keys_ok ::
  "('r \<Rightarrow> time \<Rightarrow> string \<Rightarrow> payload option) \<Rightarrow> ('r \<Rightarrow> time \<Rightarrow> string \<Rightarrow> string set) \<Rightarrow> 'r \<Rightarrow> time \<Rightarrow> bool" where
  "keys_ok kv smem st t \<longleftrightarrow>
     (\<forall>i p. kv st t (sessionKey i) = Some p \<longrightarrow> (\<exists>s. p = JSession s \<and> sd_ID s = i)) \<and>
     (\<forall>h p. kv st t (tokenKey h) = Some p \<longrightarrow> (\<exists>r. p = JRefresh r \<and> rt_TokenHash r = h)) \<and>
     (\<forall>f. kv st t (familyKey f) = None) \<and>
     (\<forall>i. smem st t (sessionKey i) = {} \<and> smem st t (tokenKey i) = {} \<and> smem st t (revokedKey i) = {})"

definition session_inv ::
  "('r \<Rightarrow> bool) \<Rightarrow> ('r \<Rightarrow> time \<Rightarrow> string \<Rightarrow> payload option) \<Rightarrow> ('r \<Rightarrow> time \<Rightarrow> string \<Rightarrow> string set) \<Rightarrow> 'r \<Rightarrow> time \<Rightarrow> bool"
where
  "session_inv up kv smem st now \<longleftrightarrow> up st \<and> (\<forall>t \<ge> now. keys_ok kv smem st t)"

lemmas inv_defs = session_inv_def keys_ok_def

lemma session_keys_inject [simp]:
  "sessionKey i = sessionKey j \<longleftrightarrow> i = j" "tokenKey i = tokenKey j \<longleftrightarrow> i = j"
  "familyKey i = familyKey j \<longleftrightarrow> i = j" "revokedKey i = revokedKey j \<longleftrightarrow> i = j"
  by (simp_all add: sessionKey_def tokenKey_def familyKey_def revokedKey_def)

lemma session_keys_differ [simp, key_neq]:
  "sessionKey i \<noteq> tokenKey j" "sessionKey i \<noteq> familyKey j" "sessionKey i \<noteq> revokedKey j"
  "tokenKey i \<noteq> sessionKey j" "tokenKey i \<noteq> familyKey j" "tokenKey i \<noteq> revokedKey j"
  "familyKey i \<noteq> sessionKey j" "familyKey i \<noteq> tokenKey j" "familyKey i \<noteq> revokedKey j"
  "revokedKey i \<noteq> sessionKey j" "revokedKey i \<noteq> tokenKey j" "revokedKey i \<noteq> familyKey j"
  by (simp_all add: sessionKey_def tokenKey_def familyKey_def revokedKey_def)

lemma session_invD:
  assumes "session_inv up kv smem st now" and "now \<le> t"
  shows "kv st t (sessionKey i) = None \<or> (\<exists>s. kv st t (sessionKey i) = Some (JSession s) \<and> sd_ID s = i)"
    and "kv st t (tokenKey h) = None \<or> (\<exists>r. kv st t (tokenKey h) = Some (JRefresh r) \<and> rt_TokenHash r = h)"
  using assms by (cases "kv st t (sessionKey i)"; cases "kv st t (tokenKey h)"; simp add: inv_defs)+

lemma session_inv_later: "session_inv up kv smem st now \<Longrightarrow> now \<le> t \<Longrightarrow> session_inv up kv smem st t"
  by (simp add: session_inv_def)

lemma session_inv_smem:
  assumes "session_inv up kv smem st now" and "now \<le> t"
  shows "smem st t (sessionKey i) = {}" "smem st t (tokenKey i) = {}" "smem st t (revokedKey i) = {}"
    and "kv st t (familyKey i) = None"
  using assms by (simp_all add: inv_defs)

lemma view_kv:
  assumes "session_inv up kv smem st now" and "now \<le> t"
  shows "kv st t (sessionKey i) = map_option JSession (v_sess (view_of kv smem st t) i)"
    and "kv st t (tokenKey h) = map_option JRefresh (v_tok (view_of kv smem st t) h)"
  using session_invD(1) [OF assms, of i] session_invD(2) [OF assms, of h] by (auto simp: view_of_def)

lemma session_inv_ID:
  assumes "session_inv up kv smem st now" and "now \<le> t"
  shows "v_sess (view_of kv smem st t) i = Some s \<Longrightarrow> sd_ID s = i"
    and "v_tok (view_of kv smem st t) h = Some r \<Longrightarrow> rt_TokenHash r = h"
  using session_invD(1) [OF assms, of i] session_invD(2) [OF assms, of h] by (auto simp: view_of_def)

section \<open>Primitive writes\<close>

text \<open>The value a \<^verbatim>\<open>SET\<close> with lifetime \<open>d\<close> at time \<open>now\<close> leaves at time \<open>t\<close>.\<close>

definition lives :: "duration \<Rightarrow> time \<Rightarrow> time \<Rightarrow> bool" where
  "lives d now t \<longleftrightarrow> d \<le> 0 \<or> t < now + d"

definition held :: "bool \<Rightarrow> 'a \<Rightarrow> 'a option" where
  "held b x = (if b then Some x else None)"

lemma held_eq_Some [simp]: "held b x = Some y \<longleftrightarrow> b \<and> x = y"
  by (simp add: held_def)

lemma held_simps [simp]: "held True x = Some x" "held False x = None"
  by (simp_all add: held_def)

definition stored_session :: "duration \<Rightarrow> time \<Rightarrow> string \<Rightarrow> session_data \<Rightarrow> session_data" where
  "stored_session ttl now newID d = (if sd_ID d = [] then d\<lparr>sd_ID := newID\<rparr> else d)
     \<lparr>sd_CreatedAt := Unix now, sd_LastUsedAt := Unix now, sd_ExpiresAt := Unix now + whole_Seconds ttl\<rparr>"

text \<open>
  The token under a hash at time \<open>t\<close> after it was revoked at time \<open>now\<close>, from the token
  found then (\<open>cur\<close>) and the one that would have been there at \<open>t\<close> (\<open>old\<close>).
\<close>

definition revoke_tok ::
  "time \<Rightarrow> time \<Rightarrow> refresh_token_data option \<Rightarrow> refresh_token_data option \<Rightarrow> refresh_token_data option" where
  "revoke_tok now t cur old = (case cur of None \<Rightarrow> old
     | Some r \<Rightarrow> if rt_RevokedAt r = None \<and> rt_ExpiresAt r > Unix now
         then held (t < now + Seconds (rt_ExpiresAt r - Unix now)) (r\<lparr>rt_RevokedAt := Some (Unix now)\<rparr>) else old)"

lemma revoke_tok_now: "revoke_tok now now cur cur = Some r \<Longrightarrow> rt_RevokedAt r \<noteq> None \<or> rt_ExpiresAt r \<le> Unix now"
  by (auto simp: revoke_tok_def split: option.splits if_splits)

lemma revoke_tok_settled [simp]: "revoke_tok now t (revoke_tok now now cur cur) x = x"
  using revoke_tok_now [of now cur] by (auto simp: revoke_tok_def split: option.splits)

context redis_server
begin

abbreviation inv_at :: "'r \<Rightarrow> time \<Rightarrow> bool" where
  "inv_at \<equiv> session_inv up kv smem"

abbreviation view :: "'r \<Rightarrow> time \<Rightarrow> session_view" where
  "view \<equiv> view_of kv smem"

lemma set_kv_any:
  "up st \<Longrightarrow> now \<le> t \<Longrightarrow> d \<noteq> - 1 \<Longrightarrow>
     kv (fst (r_Set R st now k v d)) t k' = (if k' = k then held (lives d now t) v else kv st t k')"
  by (cases "0 < d") (auto simp: set_kv set_kv_persist lives_def held_def)

lemma inv_up: "inv_at st now \<Longrightarrow> up st"
  by (simp add: inv_defs)

lemma set_session:
  assumes "inv_at st now" and "sd_ID s = i" and "d \<noteq> - 1"
  shows "inv_at (fst (r_Set R st now (sessionKey i) (JSession s) d)) now"
    and "now \<le> t \<Longrightarrow> view (fst (r_Set R st now (sessionKey i) (JSession s) d)) t =
           (view st t)\<lparr>v_sess := (v_sess (view st t))(i := held (lives d now t) s)\<rparr>"
  using assms by (auto simp: inv_defs view_of_def fun_eq_iff set_kv_any set_smem held_def)

lemma set_token:
  assumes "inv_at st now" and "rt_TokenHash r = h" and "d \<noteq> - 1"
  shows "inv_at (fst (r_Set R st now (tokenKey h) (JRefresh r) d)) now"
    and "now \<le> t \<Longrightarrow> view (fst (r_Set R st now (tokenKey h) (JRefresh r) d)) t =
           (view st t)\<lparr>v_tok := (v_tok (view st t))(h := held (lives d now t) r)\<rparr>"
  using assms by (auto simp: inv_defs view_of_def fun_eq_iff set_kv_any set_smem held_def)

lemma set_revoked:
  assumes "inv_at st now" and "d \<noteq> - 1"
  shows "inv_at (fst (r_Set R st now (revokedKey i) (Text x) d)) now"
    and "now \<le> t \<Longrightarrow> view (fst (r_Set R st now (revokedKey i) (Text x) d)) t =
           (view st t)\<lparr>v_rev := (v_rev (view st t))(i := lives d now t)\<rparr>"
  using assms by (auto simp: inv_defs view_of_def fun_eq_iff set_kv_any set_smem held_def)

lemma del_session:
  assumes "inv_at st now"
  shows "inv_at (fst (r_Del R st now (sessionKey i))) now"
    and "now \<le> t \<Longrightarrow> view (fst (r_Del R st now (sessionKey i))) t =
           (view st t)\<lparr>v_sess := (v_sess (view st t))(i := None)\<rparr>"
  using assms by (auto simp: inv_defs view_of_def fun_eq_iff del_kv del_smem)

text \<open>\<^verbatim>\<open>SADD\<close> and \<^verbatim>\<open>EXPIRE\<close> on a family key, as the pipeline of \<^verbatim>\<open>Create\<close> issues them.\<close>

lemma add_family:
  assumes "inv_at st now" and "0 < d"
    and st1: "st1 = fst (r_SAdd R st now (familyKey f) h)" and st2: "st2 = fst (r_Expire R st1 now (familyKey f) d)"
  shows "inv_at st2 now"
    and "now \<le> t \<Longrightarrow> view st2 t = (view st t)\<lparr>v_fam := (v_fam (view st t))
           (f := if t < now + d then insert h (v_fam (view st now) f) else {})\<rparr>"
proof -
  have f: "kv st now (familyKey f) = None" "up st" using assms by (simp_all add: inv_defs)
  then have up1: "up st1" by (simp add: st1)
  have kv2: "now \<le> t \<Longrightarrow> kv st2 t k = (if k = familyKey f then (if t < now + d then kv st1 now k else None) else kv st1 t k)" for t k
    using up1 \<open>0 < d\<close> by (simp add: st2 expire_kv)
  have kv1: "now \<le> t \<Longrightarrow> kv st1 t k = kv st t k" for t k using f by (simp add: st1 sadd_kv)
  have kv: "now \<le> t \<Longrightarrow> kv st2 t k = kv st t k" for t k
    using kv1 kv2 assms(1) f by (auto simp: inv_defs)
  have sm: "now \<le> t \<Longrightarrow> smem st2 t k =
      (if k = familyKey f then (if t < now + d then insert h (smem st now k) else {}) else smem st t k)" for t k
    using up1 \<open>0 < d\<close> f by (auto simp: st1 st2 expire_smem sadd_smem sadd_smem_other)
  have up2: "up st2" using up1 by (simp add: st2)
  show "inv_at st2 now" using assms(1) up2 by (auto simp: inv_defs kv sm)
  show "now \<le> t \<Longrightarrow> view st2 t = (view st t)\<lparr>v_fam := (v_fam (view st t))
           (f := if t < now + d then insert h (v_fam (view st now) f) else {})\<rparr>"
    by (auto simp: view_of_def fun_eq_iff kv sm)
qed

section \<open>Store operations\<close>

lemma Store_Get_view: "inv_at st now \<Longrightarrow> Store_Get R st now i = Inr (v_sess (view st now) i)"
  using view_kv [of up kv smem st now now] session_inv_smem [of up kv smem st now now]
  by (cases "v_sess (view st now) i") (simp_all add: Store_Get_def get inv_up)

lemma GetByHash_view: "inv_at st now \<Longrightarrow> GetByHash R st now h = Inr (v_tok (view st now) h)"
  using view_kv [of up kv smem st now now] session_inv_smem [of up kv smem st now now]
  by (cases "v_tok (view st now) h") (simp_all add: GetByHash_def get inv_up)

lemma Store_Create_ok:
  assumes "inv_at st now" and "0 < ttl" and "Store_Create R ttl st now newID d = (st', r)"
  shows "r = Inr (stored_session ttl now newID d)" and "inv_at st' now"
    and "now \<le> t \<Longrightarrow> view st' t = (view st t)\<lparr>v_sess := (v_sess (view st t))
           (sd_ID (stored_session ttl now newID d) := held (t < now + ttl) (stored_session ttl now newID d))\<rparr>"
proof -
  let ?s = "stored_session ttl now newID d"
  have eq: "Store_Create R ttl st now newID d = (fst (r_Set R st now (sessionKey (sd_ID ?s)) (JSession ?s) ttl), Inr ?s)"
    using assms(1) by (simp add: Store_Create_def Let_def stored_session_def split_beta inv_up)
  with assms(3) show "r = Inr ?s" by simp
  show "inv_at st' now" using eq assms set_session(1) [of st now ?s _ ttl] by simp
  show "now \<le> t \<Longrightarrow> view st' t = (view st t)\<lparr>v_sess := (v_sess (view st t))(sd_ID ?s := held (t < now + ttl) ?s)\<rparr>"
    using eq assms set_session(2) [of st now ?s _ ttl t] by (simp add: lives_def)
qed

lemma Store_Delete_ok:
  assumes "inv_at st now"
  shows "snd (Store_Delete R st now i) = Inr ()" and "inv_at (fst (Store_Delete R st now i)) now"
    and "now \<le> t \<Longrightarrow> view (fst (Store_Delete R st now i)) t = (view st t)\<lparr>v_sess := (v_sess (view st t))(i := None)\<rparr>"
proof -
  have "Store_Delete R st now i = (fst (r_Del R st now (sessionKey i)), Inr ())"
    using assms by (simp add: Store_Delete_def split_beta inv_up)
  then show "snd (Store_Delete R st now i) = Inr ()" and "inv_at (fst (Store_Delete R st now i)) now"
    and "now \<le> t \<Longrightarrow> view (fst (Store_Delete R st now i)) t = (view st t)\<lparr>v_sess := (v_sess (view st t))(i := None)\<rparr>"
    using assms by (simp_all add: del_session)
qed

lemma AddSession_ok:
  assumes "inv_at st now" and "0 < d"
  shows "inv_at (fst (AddSession R st now i d)) now"
    and "now \<le> t \<Longrightarrow> view (fst (AddSession R st now i d)) t = (view st t)\<lparr>v_rev := (v_rev (view st t))(i := t < now + d)\<rparr>"
proof -
  have eq: "fst (AddSession R st now i d) = fst (r_Set R st now (revokedKey i) (Text ''1'') d)"
    using assms by (simp add: AddSession_def split_beta inv_up)
  show "inv_at (fst (AddSession R st now i d)) now"
    using assms set_revoked(1) [of st now d] by (simp add: eq)
  show "now \<le> t \<Longrightarrow> view (fst (AddSession R st now i d)) t = (view st t)\<lparr>v_rev := (v_rev (view st t))(i := t < now + d)\<rparr>"
    using assms set_revoked(2) [of st now d t] by (simp add: eq lives_def)
qed

lemma IsSessionRevoked_view: "inv_at st now \<Longrightarrow> IsSessionRevoked R st now i = Inr (v_rev (view st now) i)"
  using session_inv_smem(3) [of up kv smem st now now]
  by (simp add: IsSessionRevoked_def exists_cmd inv_up view_of_def)

lemma RevokeSession_ok:
  assumes "inv_at st now"
  shows "snd (RevokeSession R st now i) = Inr ()" and "inv_at (fst (RevokeSession R st now i)) now"
    and "now \<le> t \<Longrightarrow> view (fst (RevokeSession R st now i)) t = (view st t)
           \<lparr>v_sess := (v_sess (view st t))(i := None), v_rev := (v_rev (view st t))(i := t < now + 8 * time_Hour)\<rparr>"
proof -
  obtain st1 where st1: "Store_Delete R st now i = (st1, Inr ())"
    using Store_Delete_ok(1) [OF assms, of i] by (cases "Store_Delete R st now i") auto
  have inv1: "inv_at st1 now" using Store_Delete_ok(2) [OF assms, of i] st1 by simp
  have eq: "RevokeSession R st now i = (fst (AddSession R st1 now i (8 * time_Hour)), Inr ())"
    by (simp add: RevokeSession_def st1)
  show "snd (RevokeSession R st now i) = Inr ()" by (simp add: eq)
  show "inv_at (fst (RevokeSession R st now i)) now" by (simp add: eq AddSession_ok inv1)
  show "now \<le> t \<Longrightarrow> view (fst (RevokeSession R st now i)) t = (view st t)
           \<lparr>v_sess := (v_sess (view st t))(i := None), v_rev := (v_rev (view st t))(i := t < now + 8 * time_Hour)\<rparr>"
    using Store_Delete_ok(3) [OF assms, of t i] st1 by (simp add: eq AddSession_ok inv1)
qed

lemma UpdateLastUsed_ok:
  assumes "inv_at st now" and "0 < ttl" and "v_sess (view st now) i = Some s"
  shows "snd (Store_UpdateLastUsed R ttl st now i) = Inr ()" and "inv_at (fst (Store_UpdateLastUsed R ttl st now i)) now"
    and "now \<le> t \<Longrightarrow> view (fst (Store_UpdateLastUsed R ttl st now i)) t = (view st t)
           \<lparr>v_sess := (v_sess (view st t))(i := held (t < now + (if sd_ExpiresAt s \<le> Unix now then ttl
               else Seconds (sd_ExpiresAt s - Unix now))) (s\<lparr>sd_LastUsedAt := Unix now\<rparr>))\<rparr>"
proof -
  let ?s = "s\<lparr>sd_LastUsedAt := Unix now\<rparr>"
  let ?d = "if sd_ExpiresAt s \<le> Unix now then ttl else Seconds (sd_ExpiresAt s - Unix now)"
  have g: "r_Get R st now (sessionKey i) = Inr (JSession s)"
    using assms view_kv(1) [OF assms(1) order_refl, of i] session_inv_smem(1) [OF assms(1) order_refl, of i]
    by (simp add: get inv_up)
  have eq: "Store_UpdateLastUsed R ttl st now i = (fst (r_Set R st now (sessionKey i) (JSession ?s) ?d), Inr ())"
    using assms(1) by (simp add: Store_UpdateLastUsed_def Store_Update_def g Let_def split_beta inv_up)
  have d: "0 < ?d" using assms(2) by simp
  have id: "sd_ID ?s = i" using session_inv_ID(1) [OF assms(1) order_refl assms(3)] by simp
  show "snd (Store_UpdateLastUsed R ttl st now i) = Inr ()" by (simp add: eq)
  show "inv_at (fst (Store_UpdateLastUsed R ttl st now i)) now"
    unfolding eq fst_conv using d by (intro set_session(1) [OF assms(1) id]) linarith
  show "now \<le> t \<Longrightarrow> view (fst (Store_UpdateLastUsed R ttl st now i)) t =
      (view st t)\<lparr>v_sess := (v_sess (view st t))(i := held (t < now + ?d) ?s)\<rparr>"
    unfolding eq fst_conv using d set_session(2) [OF assms(1) id, of ?d t] by (simp add: lives_def)
qed

lemma MarkUsed_ok:
  assumes "inv_at st now" and "v_tok (view st now) h = Some r"
  shows "inv_at (fst (Refresh_MarkUsed R st now h)) now"
    and "now \<le> t \<Longrightarrow> view (fst (Refresh_MarkUsed R st now h)) t = (view st t)
           \<lparr>v_tok := (v_tok (view st t))(h := held (lives (Seconds (rt_ExpiresAt r - Unix now)) now t)
              (r\<lparr>rt_UsedAt := Some (Unix now)\<rparr>))\<rparr>"
proof -
  let ?r = "r\<lparr>rt_UsedAt := Some (Unix now)\<rparr>"
  let ?d = "Seconds (rt_ExpiresAt r - Unix now)"
  have eq: "fst (Refresh_MarkUsed R st now h) = fst (r_Set R st now (tokenKey h) (JRefresh ?r) ?d)"
    using assms by (simp add: Refresh_MarkUsed_def GetByHash_view split_beta inv_up)
  have h: "rt_TokenHash ?r = h" using session_inv_ID(2) [OF assms(1) order_refl assms(2)] by simp
  have d: "?d \<noteq> - 1" by simp
  show "inv_at (fst (Refresh_MarkUsed R st now h)) now" by (simp only: eq set_token(1) [OF assms(1) h d])
  show "now \<le> t \<Longrightarrow> view (fst (Refresh_MarkUsed R st now h)) t = (view st t)
           \<lparr>v_tok := (v_tok (view st t))(h := held (lives ?d now t) ?r)\<rparr>"
    by (simp only: eq set_token(2) [OF assms(1) h d])
qed

lemma Refresh_Create_ok:
  assumes "inv_at st now" and "Refresh_Create R st now d = (st', r)" and "Unix now < rt_ExpiresAt d"
  shows "r = Inr ()" and "inv_at st' now"
    and "now \<le> t \<Longrightarrow> view st' t = (view st t)
          \<lparr>v_tok := (v_tok (view st t))(rt_TokenHash d := held (t < now + Seconds (rt_ExpiresAt d - Unix now)) d),
           v_fam := (v_fam (view st t))(rt_FamilyID d := if t < now + Seconds (rt_ExpiresAt d - Unix now)
              then insert (rt_TokenHash d) (v_fam (view st now) (rt_FamilyID d)) else {})\<rparr>"
proof -
  define ttl where "ttl = Seconds (rt_ExpiresAt d - Unix now)"
  have ttl: "0 < ttl" "ttl \<noteq> - 1" using assms(3) by (simp_all add: ttl_def)
  define st1 where "st1 = fst (r_Set R st now (tokenKey (rt_TokenHash d)) (JRefresh d) ttl)"
  define st2 where "st2 = fst (r_SAdd R st1 now (familyKey (rt_FamilyID d)) (rt_TokenHash d))"
  define st3 where "st3 = fst (r_Expire R st2 now (familyKey (rt_FamilyID d)) ttl)"
  have inv1: "inv_at st1 now" unfolding st1_def by (rule set_token(1) [OF assms(1) refl ttl(2)])
  have fk: "kv st1 now (familyKey (rt_FamilyID d)) = None" by (rule session_inv_smem(4) [OF inv1 order_refl])
  have up1: "up st1" by (rule inv_up [OF inv1])
  have up2: "up st2" unfolding st2_def using write_up(4) [OF up1 fk] .
  have "Refresh_Create R st now d = (st3, Inr ())"
    using inv_up [OF assms(1)] write_noerr(4) [OF up1 fk] write_noerr(3) [OF up2] ttl(1)
    by (simp add: Refresh_Create_def Let_def ttl_def st1_def st2_def st3_def split_beta)
  with assms(2) show "r = Inr ()" and st': "inv_at st' now"
    using add_family(1) [OF inv1 ttl(1) st2_def st3_def] by simp_all
  show "now \<le> t \<Longrightarrow> view st' t = (view st t)
          \<lparr>v_tok := (v_tok (view st t))(rt_TokenHash d := held (t < now + Seconds (rt_ExpiresAt d - Unix now)) d),
           v_fam := (v_fam (view st t))(rt_FamilyID d := if t < now + Seconds (rt_ExpiresAt d - Unix now)
              then insert (rt_TokenHash d) (v_fam (view st now) (rt_FamilyID d)) else {})\<rparr>"
    using \<open>Refresh_Create R st now d = (st3, Inr ())\<close> assms(2) add_family(2) [OF inv1 ttl(1) st2_def st3_def, of t]
      set_token(2) [OF assms(1) refl [of "rt_TokenHash d"] ttl(2)] ttl
    by (simp add: st1_def [symmetric] lives_def ttl_def [symmetric])
qed

section \<open>Families and scans\<close>

lemma revoke_one_ok:
  assumes "inv_at st now"
  shows "inv_at (revoke_one R now h st) now"
    and "now \<le> t \<Longrightarrow> view (revoke_one R now h st) t = (view st t)
           \<lparr>v_tok := (v_tok (view st t))(h := revoke_tok now t (v_tok (view st now) h) (v_tok (view st t) h))\<rparr>"
proof -
  have "inv_at (revoke_one R now h st) now \<and> (now \<le> t \<longrightarrow> view (revoke_one R now h st) t = (view st t)
           \<lparr>v_tok := (v_tok (view st t))(h := revoke_tok now t (v_tok (view st now) h) (v_tok (view st t) h))\<rparr>)"
  proof (cases "\<exists>r. v_tok (view st now) h = Some r \<and> rt_RevokedAt r = None \<and> rt_ExpiresAt r > Unix now")
    case False
    then have "revoke_one R now h st = st"
      using assms by (auto simp: revoke_one_def GetByHash_view split: option.splits)
    moreover have "revoke_tok now t (v_tok (view st now) h) (v_tok (view st t) h) = v_tok (view st t) h"
      using False by (auto simp: revoke_tok_def split: option.splits)
    ultimately show ?thesis using assms by simp
  next
    case True
    then obtain r where r: "v_tok (view st now) h = Some r" "rt_RevokedAt r = None" "rt_ExpiresAt r > Unix now"
      by blast
    let ?r = "r\<lparr>rt_RevokedAt := Some (Unix now)\<rparr>" and ?d = "Seconds (rt_ExpiresAt r - Unix now)"
    have eq: "revoke_one R now h st = fst (r_Set R st now (tokenKey h) (JRefresh ?r) ?d)"
      using assms r by (simp add: revoke_one_def GetByHash_view)
    have h: "rt_TokenHash ?r = h" using session_inv_ID(2) [OF assms order_refl r(1)] by simp
    have "revoke_tok now t (v_tok (view st now) h) (v_tok (view st t) h) = held (t < now + ?d) ?r"
      using r by (simp add: revoke_tok_def)
    then show ?thesis
      using set_token [OF assms h Seconds_not_KeepTTL] r(3) by (simp add: eq lives_def)
  qed
  then show "inv_at (revoke_one R now h st) now"
    and "now \<le> t \<Longrightarrow> view (revoke_one R now h st) t = (view st t)
           \<lparr>v_tok := (v_tok (view st t))(h := revoke_tok now t (v_tok (view st now) h) (v_tok (view st t) h))\<rparr>"
    by simp_all
qed

lemma fold_revoke_one:
  assumes "inv_at st now"
  shows "inv_at (fold (revoke_one R now) hs st) now"
    and "now \<le> t \<Longrightarrow> view (fold (revoke_one R now) hs st) t = (view st t)
           \<lparr>v_tok := (\<lambda>h. if h \<in> set hs then revoke_tok now t (v_tok (view st now) h) (v_tok (view st t) h)
                       else v_tok (view st t) h)\<rparr>"
proof -
  have "inv_at (fold (revoke_one R now) hs st) now \<and> (now \<le> t \<longrightarrow> view (fold (revoke_one R now) hs st) t = (view st t)
           \<lparr>v_tok := (\<lambda>h. if h \<in> set hs then revoke_tok now t (v_tok (view st now) h) (v_tok (view st t) h)
                       else v_tok (view st t) h)\<rparr>)"
    using assms
  proof (induction hs arbitrary: st)
    case (Cons x hs)
    note one = revoke_one_ok [OF Cons.prems, where h = x]
    show ?case using Cons.IH [OF one(1)] one(2) by (auto simp: fun_eq_iff intro!: session_view.equality)
  qed simp
  then show "inv_at (fold (revoke_one R now) hs st) now"
    and "now \<le> t \<Longrightarrow> view (fold (revoke_one R now) hs st) t = (view st t)
           \<lparr>v_tok := (\<lambda>h. if h \<in> set hs then revoke_tok now t (v_tok (view st now) h) (v_tok (view st t) h)
                       else v_tok (view st t) h)\<rparr>"
    by simp_all
qed

lemma RevokeFamily_ok:
  assumes "inv_at st now"
  shows "snd (RevokeFamily R st now f) = Inr ()" and "inv_at (fst (RevokeFamily R st now f)) now"
    and "now \<le> t \<Longrightarrow> view (fst (RevokeFamily R st now f)) t = (view st t)
           \<lparr>v_tok := (\<lambda>h. if h \<in> v_fam (view st now) f
              then revoke_tok now t (v_tok (view st now) h) (v_tok (view st t) h) else v_tok (view st t) h)\<rparr>"
proof -
  obtain hs where hs: "r_SMembers R st now (familyKey f) = Inr hs" "set hs = v_fam (view st now) f"
    using smembers [OF inv_up [OF assms] session_inv_smem(4) [OF assms order_refl]] by (auto simp: view_of_def)
  then have eq: "RevokeFamily R st now f = (fold (revoke_one R now) hs st, Inr ())" by (simp add: RevokeFamily_def)
  show "snd (RevokeFamily R st now f) = Inr ()" "inv_at (fst (RevokeFamily R st now f)) now"
    using fold_revoke_one(1) [OF assms] by (simp_all add: eq)
  show "now \<le> t \<Longrightarrow> view (fst (RevokeFamily R st now f)) t = (view st t)
           \<lparr>v_tok := (\<lambda>h. if h \<in> v_fam (view st now) f
              then revoke_tok now t (v_tok (view st now) h) (v_tok (view st t) h) else v_tok (view st t) h)\<rparr>"
    using fold_revoke_one(2) [OF assms, of t hs] by (simp add: eq hs(2))
qed

lemma scan_sessions:
  assumes "inv_at st now"
  obtains ids where "r_Scan R st now ''session:*'' = (map sessionKey ids, None)"
    and "set ids = {i. v_sess (view st now) i \<noteq> None}"
proof -
  have "glob_free ''session:''" by (simp add: glob_free_def)
  from scan [OF inv_up [OF assms] this, of now]
  have sc: "snd (r_Scan R st now ''session:*'') = None"
      "set (fst (r_Scan R st now ''session:*'')) = {k. prefix ''session:'' k \<and> (kv st now k \<noteq> None \<or> smem st now k \<noteq> {})}"
    by simp_all
  let ?keys = "fst (r_Scan R st now ''session:*'')"
  have k: "k = sessionKey (drop 8 k)" if "k \<in> set ?keys" for k
    using that unfolding sc(2) by (auto simp: sessionKey_def prefix_def)
  then have keys: "?keys = map sessionKey (map (drop 8) ?keys)" by (simp add: map_idI [symmetric] comp_def)
  have "i \<in> set (map (drop 8) ?keys) \<longleftrightarrow> sessionKey i \<in> set ?keys" for i
    using k by (force simp: sessionKey_def)
  also have "\<dots> i \<longleftrightarrow> v_sess (view st now) i \<noteq> None" for i
    using view_kv(1) [OF assms order_refl, of i] session_inv_smem(1) [OF assms order_refl, of i]
    unfolding sc(2) by (auto simp: sessionKey_def prefix_def)
  finally have "set (map (drop 8) ?keys) = {i. v_sess (view st now) i \<noteq> None}" by blast
  with keys sc(1) show thesis by (intro that [of "map (drop 8) ?keys"]) (simp_all add: prod_eq_iff)
qed

lemma scanned_view: "inv_at st now \<Longrightarrow> scanned_session R st now (sessionKey i) = v_sess (view st now) i"
  using view_kv(1) [of up kv smem st now now i] session_inv_smem(1) [of up kv smem st now now i]
  by (cases "v_sess (view st now) i") (simp_all add: scanned_session_def get inv_up)

lemma scan_delete_ok:
  assumes "inv_at st now"
  shows "inv_at (scan_delete R now P (map sessionKey ids) st) now \<and>
    (now \<le> t \<longrightarrow> view (scan_delete R now P (map sessionKey ids) st) t = (view st t)
       \<lparr>v_sess := (\<lambda>i. if i \<in> set ids \<and> (\<exists>s. v_sess (view st now) i = Some s \<and> P s) then None else v_sess (view st t) i)\<rparr>)"
  using assms
proof (induction ids arbitrary: st)
  case (Cons x ids)
  show ?case
  proof (cases "\<exists>s. v_sess (view st now) x = Some s \<and> P s")
    case True
    then have "scan_delete R now P (map sessionKey (x # ids)) st =
        scan_delete R now P (map sessionKey ids) (fst (r_Del R st now (sessionKey x)))"
      using Cons.prems by (auto simp: scanned_view)
    with Cons.IH [OF del_session(1) [OF Cons.prems, of x]] del_session(2) [OF Cons.prems] True
    show ?thesis by (auto simp: fun_eq_iff intro!: session_view.equality)
  next
    case False
    then have "scan_delete R now P (map sessionKey (x # ids)) st = scan_delete R now P (map sessionKey ids) st"
      using Cons.prems by (auto simp: scanned_view split: option.splits)
    with Cons.IH [OF Cons.prems] False show ?thesis by (auto simp: fun_eq_iff intro!: session_view.equality)
  qed
qed simp

lemma DeleteByOrg_ok:
  assumes "inv_at st now"
  shows "snd (Store_DeleteByOrg R st now g) = Inr ()" and "inv_at (fst (Store_DeleteByOrg R st now g)) now"
    and "now \<le> t \<Longrightarrow> view (fst (Store_DeleteByOrg R st now g)) t = (view st t)
       \<lparr>v_sess := (\<lambda>i. if \<exists>s. v_sess (view st now) i = Some s \<and> sd_OrgID s = g then None else v_sess (view st t) i)\<rparr>"
proof -
  obtain ids where ids: "r_Scan R st now ''session:*'' = (map sessionKey ids, None)"
      "set ids = {i. v_sess (view st now) i \<noteq> None}"
    using scan_sessions [OF assms] .
  show "snd (Store_DeleteByOrg R st now g) = Inr ()" by (simp add: Store_DeleteByOrg_def ids(1))
  show "inv_at (fst (Store_DeleteByOrg R st now g)) now"
    using scan_delete_ok [OF assms] by (simp add: Store_DeleteByOrg_def ids(1))
  have "(i \<in> set ids \<and> (\<exists>s. v_sess (view st now) i = Some s \<and> P s)) = (\<exists>s. v_sess (view st now) i = Some s \<and> P s)" for i P
    using ids(2) by auto
  then show "now \<le> t \<Longrightarrow> view (fst (Store_DeleteByOrg R st now g)) t = (view st t)
       \<lparr>v_sess := (\<lambda>i. if \<exists>s. v_sess (view st now) i = Some s \<and> sd_OrgID s = g then None else v_sess (view st t) i)\<rparr>"
    using scan_delete_ok [OF assms, of "\<lambda>s. sd_OrgID s = g" ids t] by (simp add: Store_DeleteByOrg_def ids(1))
qed

lemma GetIDsByUser_ok:
  assumes "inv_at st now"
  obtains ids where "Store_GetIDsByUser R st now u = Inr ids"
    and "set ids = {i. \<exists>s. v_sess (view st now) i = Some s \<and> sd_UserID s = u}"
proof -
  obtain ids where ids: "r_Scan R st now ''session:*'' = (map sessionKey ids, None)"
      "set ids = {i. v_sess (view st now) i \<noteq> None}"
    using scan_sessions [OF assms] .
  have mf: "List.map_filter (scanned_session R st now) (map sessionKey ids) = List.map_filter (v_sess (view st now)) ids"
    by (simp add: List.map_filter_def filter_map comp_def scanned_view [OF assms])
  have "set (map sd_ID (filter (\<lambda>s. sd_UserID s = u) (List.map_filter (v_sess (view st now)) ids))) =
      {i. \<exists>s. v_sess (view st now) i = Some s \<and> sd_UserID s = u}"
    using ids(2) session_inv_ID(1) [OF assms order_refl] by (force simp: List.map_filter_def)
  then show thesis by (intro that [OF _]) (auto simp: Store_GetIDsByUser_def ids(1) mf)
qed

lemma fold_RevokeSession:
  assumes "inv_at st now"
  shows "inv_at (fold (\<lambda>i st. fst (RevokeSession R st now i)) ids st) now \<and>
    (now \<le> t \<longrightarrow> view (fold (\<lambda>i st. fst (RevokeSession R st now i)) ids st) t = (view st t)
       \<lparr>v_sess := (\<lambda>i. if i \<in> set ids then None else v_sess (view st t) i),
        v_rev := (\<lambda>i. if i \<in> set ids then t < now + 8 * time_Hour else v_rev (view st t) i)\<rparr>)"
  using assms
proof (induction ids arbitrary: st)
  case (Cons x ids)
  note one = RevokeSession_ok [OF Cons.prems, where i = x]
  show ?case using Cons.IH [OF one(2)] one(3) by (auto simp: fun_eq_iff intro!: session_view.equality)
qed simp

section \<open>Service operations\<close>

lemma Unix_8h: "Unix (now + 28800000000000) = Unix now + 28800"
  using Unix_add_seconds [of now 28800] by simp

lemma new_refresh_token_fields [simp]:
  "rt_ExpiresAt (new_refresh_token L rnd now u g c sc) = Unix now + 28800"
  "rt_TokenHash (new_refresh_token L rnd now u g c sc) = HashToken (lib_sha256 L) (GenerateRefreshToken (rnd_bytes rnd))"
  "rt_FamilyID (new_refresh_token L rnd now u g c sc) = uuid_String (lib_uuid L) (rnd_family rnd)"
  "rt_SessionID (new_refresh_token L rnd now u g c sc) = uuid_String (lib_uuid L) (rnd_session rnd)"
  "rt_UsedAt (new_refresh_token L rnd now u g c sc) = None" "rt_RevokedAt (new_refresh_token L rnd now u g c sc) = None"
  "rt_UserID (new_refresh_token L rnd now u g c sc) = uuid_String (lib_uuid L) u"
  "rt_OrgID (new_refresh_token L rnd now u g c sc) = uuid_String (lib_uuid L) g"
  "rt_ClientID (new_refresh_token L rnd now u g c sc) = c" "rt_Scopes (new_refresh_token L rnd now u g c sc) = sc"
  by (simp_all add: new_refresh_token_def Unix_8h)

lemma stored_session_ID: "sd_ID (stored_session ttl now [] d) = sd_ID d"
  by (simp add: stored_session_def)

lemma Seconds_8h: "Seconds 28800 = 28800000000000"
  by (simp add: Seconds_def)

text \<open>The last step of a login and of a refresh: the new session and the new refresh token.\<close>

lemma session_and_token:
  assumes inv: "inv_at st now" and ttl: "0 < ttl"
    and st1: "Store_Create R ttl st now [] d = (st1, r1)"
    and st2: "Refresh_Create R st1 now (new_refresh_token L rnd now u g c sc) = (st2, r2)"
  shows "is_ok r1 \<and> r2 = Inr () \<and> inv_at st2 now" (is ?ok)
    and "now \<le> t \<Longrightarrow> view st2 t = (view st t)
      \<lparr>v_sess := (v_sess (view st t))(sd_ID d := held (t < now + ttl) (stored_session ttl now [] d)),
       v_tok := (v_tok (view st t))(HashToken (lib_sha256 L) (GenerateRefreshToken (rnd_bytes rnd)) :=
          held (t < now + 8 * time_Hour) (new_refresh_token L rnd now u g c sc)),
       v_fam := (v_fam (view st t))(uuid_String (lib_uuid L) (rnd_family rnd) := if t < now + 8 * time_Hour
          then insert (HashToken (lib_sha256 L) (GenerateRefreshToken (rnd_bytes rnd)))
                 (v_fam (view st now) (uuid_String (lib_uuid L) (rnd_family rnd))) else {})\<rparr>"
proof -
  note c1 = Store_Create_ok [OF inv ttl st1]
  note c2 = Refresh_Create_ok [OF c1(2) st2, simplified]
  show ?ok using c1 c2(1,2) by simp
  show "now \<le> t \<Longrightarrow> view st2 t = (view st t)
      \<lparr>v_sess := (v_sess (view st t))(sd_ID d := held (t < now + ttl) (stored_session ttl now [] d)),
       v_tok := (v_tok (view st t))(HashToken (lib_sha256 L) (GenerateRefreshToken (rnd_bytes rnd)) :=
          held (t < now + 8 * time_Hour) (new_refresh_token L rnd now u g c sc)),
       v_fam := (v_fam (view st t))(uuid_String (lib_uuid L) (rnd_family rnd) := if t < now + 8 * time_Hour
          then insert (HashToken (lib_sha256 L) (GenerateRefreshToken (rnd_bytes rnd)))
                 (v_fam (view st now) (uuid_String (lib_uuid L) (rnd_family rnd))) else {})\<rparr>"
    using c1(3) [of t] c1(3) [of now] c2(3) [of t] by (simp add: stored_session_ID Seconds_8h)
qed

lemma CreateSession_ok:
  assumes inv: "inv_at st now" and ttl: "0 < ses_ttl s"
    and issue: "IssueAccessToken (lib_uuid L) (lib_jwt L) (ses_jwt s) now (uuid_String (lib_uuid L) (rnd_jti rnd))
      (uuid_String (lib_uuid L) (rnd_session rnd)) u g cl = Inr (tok, at)"
    and run: "CreateSession L R s st now rnd u g ip ua cl = (st', r)"
  shows "r = Inr \<lparr>lr_AccessToken = tok, lr_RefreshToken = GenerateRefreshToken (rnd_bytes rnd), lr_ExpiresIn = 900,
      lr_SessionID = uuid_String (lib_uuid L) (rnd_session rnd), lr_UserID = u, lr_OrgID = g\<rparr>"
    and "inv_at st' now"
    and "\<exists>st1 r1. Store_Create R (ses_ttl s) st now [] (new_session L rnd u g ip ua cl) = (st1, r1) \<and>
      Refresh_Create R st1 now (new_refresh_token L rnd now u g (c_ClientID cl) (c_Roles cl)) = (st', Inr ())"
proof -
  obtain st1 r1 where st1: "Store_Create R (ses_ttl s) st now [] (new_session L rnd u g ip ua cl) = (st1, r1)" by fastforce
  obtain st2 r2 where st2: "Refresh_Create R st1 now (new_refresh_token L rnd now u g (c_ClientID cl) (c_Roles cl)) = (st2, r2)"
    by fastforce
  note ok = session_and_token(1) [OF inv ttl st1 st2]
  have "r1 = Inr (stored_session (ses_ttl s) now [] (new_session L rnd u g ip ua cl))"
    by (rule Store_Create_ok(1) [OF inv ttl st1])
  with ok run have st': "st' = st2" "r2 = Inr ()" and r: "r = Inr \<lparr>lr_AccessToken = tok, lr_RefreshToken = GenerateRefreshToken (rnd_bytes rnd), lr_ExpiresIn = 900,
      lr_SessionID = uuid_String (lib_uuid L) (rnd_session rnd), lr_UserID = u, lr_OrgID = g\<rparr>"
    by (auto simp: CreateSession_def Let_def st1 st2 issue)
  show "r = Inr \<lparr>lr_AccessToken = tok, lr_RefreshToken = GenerateRefreshToken (rnd_bytes rnd), lr_ExpiresIn = 900,
      lr_SessionID = uuid_String (lib_uuid L) (rnd_session rnd), lr_UserID = u, lr_OrgID = g\<rparr>" by (rule r)
  show "inv_at st' now" using ok st' by simp
  show "\<exists>st1 r1. Store_Create R (ses_ttl s) st now [] (new_session L rnd u g ip ua cl) = (st1, r1) \<and>
      Refresh_Create R st1 now (new_refresh_token L rnd now u g (c_ClientID cl) (c_Roles cl)) = (st', Inr ())"
    using st1 st2 st' by blast
qed

lemma ValidateSession_view:
  assumes "inv_at st now"
  shows "ValidateSession R s st now i ip = (case v_sess (view st now) i of
       None \<Rightarrow> (st, Inr None)
     | Some d \<Rightarrow> if sd_IPAddress d \<noteq> ip
         then (fst (Store_Delete R st now i), Inl (Errorf ''session.Service.ValidateSession: IP address mismatch''))
         else (fst (Store_UpdateLastUsed R (ses_ttl s) st now i), Inr (Some d)))"
  using assms by (simp add: ValidateSession_def Store_Get_view split: option.splits)

lemma RefreshTokens_view:
  assumes "inv_at st now"
  shows "RefreshTokens L R s st now rnd rtok ip =
    (let h = HashToken (lib_sha256 L) rtok in case v_tok (view st now) h of
       None \<Rightarrow> (st, Inl (Errorf ''session.Service.RefreshTokens: token not found''))
     | Some d \<Rightarrow>
         if rt_RevokedAt d \<noteq> None
         then (fst (RevokeFamily R st now (rt_FamilyID d)), Inl (Errorf ''session.Service.RefreshTokens: token revoked''))
         else if rt_UsedAt d \<noteq> None
         then (fst (Store_Delete R (fst (RevokeFamily R st now (rt_FamilyID d))) now (rt_SessionID d)),
               Inl (Errorf ''session.Service.RefreshTokens: token reuse detected''))
         else (case v_sess (view st now) (rt_SessionID d) of
             None \<Rightarrow> (st, Inl (Errorf ''session.Service.RefreshTokens: session not found''))
           | Some x \<Rightarrow> if sd_IPAddress x \<noteq> ip
               then (fst (Store_Delete R st now (rt_SessionID d)),
                     Inl (Errorf ''session.Service.RefreshTokens: IP address mismatch''))
               else rotate_tokens L R s st now rnd h d x ip))"
  using assms
  by (auto simp: RefreshTokens_def Let_def GetByHash_view IsReuse_def Store_Get_view split: option.splits bool.splits)

lemma rotate_tokens_ok:
  assumes inv: "inv_at st now" and ttl: "0 < ses_ttl s" and tok: "v_tok (view st now) h = Some d"
    and issue: "IssueAccessToken (lib_uuid L) (lib_jwt L) (ses_jwt s) now (uuid_String (lib_uuid L) (rnd_jti rnd))
      (uuid_String (lib_uuid L) (rnd_session rnd)) (uuid_Parse0 (lib_uuid L) (rt_UserID d)) (uuid_Parse0 (lib_uuid L) (rt_OrgID d))
      (Claims0\<lparr>c_ClientID := rt_ClientID d, c_Roles := rt_Scopes d\<rparr>) = Inr (atok, at)"
    and run: "rotate_tokens L R s st now rnd h d x ip = (st', r)"
  shows "r = Inr \<lparr>lr_AccessToken = atok, lr_RefreshToken = GenerateRefreshToken (rnd_bytes rnd), lr_ExpiresIn = 900,
      lr_SessionID = uuid_String (lib_uuid L) (rnd_session rnd), lr_UserID = uuid_Parse0 (lib_uuid L) (rt_UserID d),
      lr_OrgID = uuid_Parse0 (lib_uuid L) (rt_OrgID d)\<rparr>" (is "r = ?r")
    and "\<exists>st1 st2 r1. st1 = fst (Refresh_MarkUsed R st now h) \<and> inv_at st1 now \<and>
      Store_Create R (ses_ttl s) st1 now [] (x\<lparr>sd_ID := uuid_String (lib_uuid L) (rnd_session rnd), sd_IPAddress := ip\<rparr>) = (st2, r1) \<and>
      Refresh_Create R st2 now (new_refresh_token L rnd now (uuid_Parse0 (lib_uuid L) (rt_UserID d))
        (uuid_Parse0 (lib_uuid L) (rt_OrgID d)) (rt_ClientID d) (rt_Scopes d)) = (st', Inr ())" (is ?steps)
proof -
  let ?u = "uuid_Parse0 (lib_uuid L) (rt_UserID d)" and ?g = "uuid_Parse0 (lib_uuid L) (rt_OrgID d)"
  let ?x = "x\<lparr>sd_ID := uuid_String (lib_uuid L) (rnd_session rnd), sd_IPAddress := ip\<rparr>"
  define st1 where "st1 = fst (Refresh_MarkUsed R st now h)"
  have inv1: "inv_at st1 now" using MarkUsed_ok(1) [OF inv tok] by (simp add: st1_def)
  obtain st2 r1 where st2: "Store_Create R (ses_ttl s) st1 now [] ?x = (st2, r1)" by fastforce
  obtain st3 r2 where st3: "Refresh_Create R st2 now (new_refresh_token L rnd now ?u ?g (rt_ClientID d) (rt_Scopes d)) = (st3, r2)"
    by fastforce
  note ok = session_and_token(1) [OF inv1 ttl st2 st3]
  have "r1 = Inr (stored_session (ses_ttl s) now [] ?x)" by (rule Store_Create_ok(1) [OF inv1 ttl st2])
  with ok run have "st' = st3" "r2 = Inr ()" "r = ?r"
    by (auto simp: rotate_tokens_def Let_def st1_def [symmetric] st2 st3 issue)
  then show "r = ?r" and ?steps using inv1 st2 st3 st1_def by blast+
qed

text \<open>What a successful refresh leaves behind.\<close>

lemma RefreshTokens_success:
  assumes inv: "inv_at st now" and ttl: "0 < ses_ttl s"
    and tok: "GetByHash R st now (HashToken (lib_sha256 L) rtok) = Inr (Some d)"
    and run: "RefreshTokens L R s st now rnd rtok ip = (st', Inr lr)"
  obtains x st1 st2 r1 where "v_sess (view st now) (rt_SessionID d) = Some x" "sd_IPAddress x = ip"
    "rt_RevokedAt d = None" "rt_UsedAt d = None" "inv_at st1 now"
    "lr_RefreshToken lr = GenerateRefreshToken (rnd_bytes rnd)" "lr_SessionID lr = uuid_String (lib_uuid L) (rnd_session rnd)"
    "st1 = fst (Refresh_MarkUsed R st now (HashToken (lib_sha256 L) rtok))"
    "Store_Create R (ses_ttl s) st1 now [] (x\<lparr>sd_ID := uuid_String (lib_uuid L) (rnd_session rnd), sd_IPAddress := ip\<rparr>) = (st2, r1)"
    "Refresh_Create R st2 now (new_refresh_token L rnd now (uuid_Parse0 (lib_uuid L) (rt_UserID d))
        (uuid_Parse0 (lib_uuid L) (rt_OrgID d)) (rt_ClientID d) (rt_Scopes d)) = (st', Inr ())"
proof -
  let ?h = "HashToken (lib_sha256 L) rtok"
  have vt: "v_tok (view st now) ?h = Some d" using tok GetByHash_view [OF inv, of ?h] by simp
  from run [unfolded RefreshTokens_view [OF inv] Let_def vt] obtain x where
    x: "v_sess (view st now) (rt_SessionID d) = Some x" "sd_IPAddress x = ip" "rt_RevokedAt d = None" "rt_UsedAt d = None"
      and rot: "rotate_tokens L R s st now rnd ?h d x ip = (st', Inr lr)"
    by (auto split: if_splits option.splits)
  have inv1: "inv_at (fst (Refresh_MarkUsed R st now ?h)) now" by (rule MarkUsed_ok(1) [OF inv vt])
  obtain st2 r1 where c2: "Store_Create R (ses_ttl s) (fst (Refresh_MarkUsed R st now ?h)) now []
      (x\<lparr>sd_ID := uuid_String (lib_uuid L) (rnd_session rnd), sd_IPAddress := ip\<rparr>) = (st2, r1)" by fastforce
  note ok2 = Store_Create_ok(1) [OF inv1 ttl c2]
  from rot have "\<exists>p. IssueAccessToken (lib_uuid L) (lib_jwt L) (ses_jwt s) now (uuid_String (lib_uuid L) (rnd_jti rnd))
      (uuid_String (lib_uuid L) (rnd_session rnd)) (uuid_Parse0 (lib_uuid L) (rt_UserID d)) (uuid_Parse0 (lib_uuid L) (rt_OrgID d))
      (Claims0\<lparr>c_ClientID := rt_ClientID d, c_Roles := rt_Scopes d\<rparr>) = Inr p"
    by (auto simp: rotate_tokens_def Let_def c2 ok2 split: sum.splits)
  then obtain atok at where issue: "IssueAccessToken (lib_uuid L) (lib_jwt L) (ses_jwt s) now (uuid_String (lib_uuid L) (rnd_jti rnd))
      (uuid_String (lib_uuid L) (rnd_session rnd)) (uuid_Parse0 (lib_uuid L) (rt_UserID d)) (uuid_Parse0 (lib_uuid L) (rt_OrgID d))
      (Claims0\<lparr>c_ClientID := rt_ClientID d, c_Roles := rt_Scopes d\<rparr>) = Inr (atok, at)"
    by fastforce
  note ok = rotate_tokens_ok [OF inv ttl vt issue rot]
  show thesis using ok x inv1 that by auto
qed

lemma RefreshTokens_rotated:
  assumes inv: "inv_at st now" and ttl: "0 < ses_ttl s"
    and tok: "GetByHash R st now (HashToken (lib_sha256 L) rtok) = Inr (Some d)"
    and run: "RefreshTokens L R s st now rnd rtok ip = (st', Inr lr)"
    and fresh: "HashToken (lib_sha256 L) (lr_RefreshToken lr) \<noteq> HashToken (lib_sha256 L) rtok"
  shows "rt_RevokedAt d = None"
    and "now \<le> t \<Longrightarrow> t < now + Seconds (rt_ExpiresAt d - Unix now) \<Longrightarrow>
      v_tok (view st' t) (HashToken (lib_sha256 L) rtok) = Some (d\<lparr>rt_UsedAt := Some (Unix now)\<rparr>)"
proof -
  let ?h = "HashToken (lib_sha256 L) rtok"
  have vt: "v_tok (view st now) ?h = Some d" using tok GetByHash_view [OF inv, of ?h] by simp
  from RefreshTokens_success [OF inv ttl tok run] obtain x st1 st2 r1 where
    x: "rt_RevokedAt d = None" and inv1: "inv_at st1 now"
    and lr: "lr_RefreshToken lr = GenerateRefreshToken (rnd_bytes rnd)"
    and st1: "st1 = fst (Refresh_MarkUsed R st now ?h)"
    and st2: "Store_Create R (ses_ttl s) st1 now [] (x\<lparr>sd_ID := uuid_String (lib_uuid L) (rnd_session rnd), sd_IPAddress := ip\<rparr>) = (st2, r1)"
    and st3: "Refresh_Create R st2 now (new_refresh_token L rnd now (uuid_Parse0 (lib_uuid L) (rt_UserID d))
        (uuid_Parse0 (lib_uuid L) (rt_OrgID d)) (rt_ClientID d) (rt_Scopes d)) = (st', Inr ())" .
  show "rt_RevokedAt d = None" by (rule x)
  show "v_tok (view st' t) ?h = Some (d\<lparr>rt_UsedAt := Some (Unix now)\<rparr>)"
    if "now \<le> t" "t < now + Seconds (rt_ExpiresAt d - Unix now)"
    using session_and_token(2) [OF inv1 ttl st2 st3 that(1)] MarkUsed_ok(2) [OF inv vt that(1)] that fresh lr
    by (simp add: st1 lives_def)
qed

end

end
