(* ===== verification/SessionProps.thy ===== *)
theory SessionProps
  imports SessionLaws
begin

text \<open>
  The properties of the session package: what login, validation, refresh, revocation and
  delegation guarantee to their callers, and the invariant of every state the service can
  reach. Each property is a few steps over the laws of the stores.
\<close>

section \<open>The invariant is kept\<close>

context redis_server
begin

lemma CreateSession_inv:
  assumes "inv_at st now" and "0 < ses_ttl s"
  shows "inv_at (fst (CreateSession L R s st now rnd u g ip ua cl)) now"
proof (cases "IssueAccessToken (lib_uuid L) (lib_jwt L) (ses_jwt s) now (uuid_String (lib_uuid L) (rnd_jti rnd))
      (uuid_String (lib_uuid L) (rnd_session rnd)) u g cl")
  case (Inl e)
  obtain st1 r1 where c: "Store_Create R (ses_ttl s) st now [] (new_session L rnd u g ip ua cl) = (st1, r1)" by fastforce
  from Store_Create_ok(1,2) [OF assms c] show ?thesis by (simp add: CreateSession_def Let_def c Inl)
next
  case (Inr p)
  obtain tok at where p: "p = (tok, at)" by fastforce
  obtain st' r where c: "CreateSession L R s st now rnd u g ip ua cl = (st', r)" by fastforce
  from CreateSession_ok(2) [OF assms Inr [unfolded p] c] show ?thesis by (simp add: c)
qed

lemma ValidateSession_inv:
  "inv_at st now \<Longrightarrow> 0 < ses_ttl s \<Longrightarrow> inv_at (fst (ValidateSession R s st now i ip)) now"
  by (auto simp: ValidateSession_view Store_Delete_ok UpdateLastUsed_ok split: option.splits)

lemma rotate_tokens_inv:
  assumes inv: "inv_at st now" and ttl: "0 < ses_ttl s" and tok: "v_tok (view st now) h = Some d"
  shows "inv_at (fst (rotate_tokens L R s st now rnd h d x ip)) now"
proof -
  let ?x = "x\<lparr>sd_ID := uuid_String (lib_uuid L) (rnd_session rnd), sd_IPAddress := ip\<rparr>"
  let ?st1 = "fst (Refresh_MarkUsed R st now h)"
  have inv1: "inv_at ?st1 now" by (rule MarkUsed_ok(1) [OF inv tok])
  obtain st2 r1 where c2: "Store_Create R (ses_ttl s) ?st1 now [] ?x = (st2, r1)" by fastforce
  note ok2 = Store_Create_ok(1,2) [OF inv1 ttl c2]
  have "inv_at (fst (Refresh_Create R st2 now (new_refresh_token L rnd now u g c sc))) now" for u g c sc
    using Refresh_Create_ok(2) [OF ok2(2) prod.collapse [symmetric]] by simp
  then show ?thesis
    using ok2 by (auto simp: rotate_tokens_def Let_def c2 split: sum.splits prod.splits) (metis fst_conv)+
qed

lemma RefreshTokens_inv:
  assumes inv: "inv_at st now" and ttl: "0 < ses_ttl s"
  shows "inv_at (fst (RefreshTokens L R s st now rnd rtok ip)) now"
  using inv by (auto simp: RefreshTokens_view [OF inv] Let_def RevokeFamily_ok Store_Delete_ok
      rotate_tokens_inv [OF inv ttl] split: option.splits)

lemma RevokeAllUserSessions_ok:
  assumes inv: "inv_at st now"
  shows "snd (RevokeAllUserSessions R st now u) = Inr ()" and "inv_at (fst (RevokeAllUserSessions R st now u)) now"
    and "now \<le> t \<Longrightarrow> view (fst (RevokeAllUserSessions R st now u)) t = (view st t)
      \<lparr>v_sess := (\<lambda>i. if \<exists>d. v_sess (view st now) i = Some d \<and> sd_UserID d = u then None else v_sess (view st t) i),
       v_rev := (\<lambda>i. if \<exists>d. v_sess (view st now) i = Some d \<and> sd_UserID d = u
                     then t < now + 8 * time_Hour else v_rev (view st t) i)\<rparr>"
proof -
  obtain ids where ids: "Store_GetIDsByUser R st now u = Inr ids"
      "set ids = {i. \<exists>d. v_sess (view st now) i = Some d \<and> sd_UserID d = u}"
    by (rule GetIDsByUser_ok [OF inv])
  then have eq: "RevokeAllUserSessions R st now u = (fold (\<lambda>i st. fst (RevokeSession R st now i)) ids st, Inr ())"
    by (simp add: RevokeAllUserSessions_def)
  show "snd (RevokeAllUserSessions R st now u) = Inr ()" by (simp add: eq)
  show "inv_at (fst (RevokeAllUserSessions R st now u)) now" using fold_RevokeSession [OF inv] by (simp add: eq)
  show "now \<le> t \<Longrightarrow> view (fst (RevokeAllUserSessions R st now u)) t = (view st t)
      \<lparr>v_sess := (\<lambda>i. if \<exists>d. v_sess (view st now) i = Some d \<and> sd_UserID d = u then None else v_sess (view st t) i),
       v_rev := (\<lambda>i. if \<exists>d. v_sess (view st now) i = Some d \<and> sd_UserID d = u
                     then t < now + 8 * time_Hour else v_rev (view st t) i)\<rparr>"
    using fold_RevokeSession [OF inv, of ids t] by (simp add: eq ids(2))
qed

lemma RevokeAllOrgSessions_eq:
  "inv_at st now \<Longrightarrow> RevokeAllOrgSessions R st now g = (fst (Store_DeleteByOrg R st now g), Inr ())"
  using DeleteByOrg_ok(1) [of st now g] by (cases "Store_DeleteByOrg R st now g") (simp add: RevokeAllOrgSessions_def)

lemma StoreSession_inv:
  assumes "inv_at st now" and "0 < ses_ttl s"
  shows "inv_at (fst (StoreSession R s st now newID i u g)) now"
proof -
  let ?d = "session_data0\<lparr>sd_ID := i, sd_UserID := u, sd_OrgID := g, sd_Source := ''oauth''\<rparr>"
  obtain st1 r1 where c: "Store_Create R (ses_ttl s) st now newID ?d = (st1, r1)" by fastforce
  from Store_Create_ok(1,2) [OF assms c] show ?thesis by (simp add: StoreSession_def c)
qed

lemma VerifyAccessToken_view:
  assumes "inv_at st now"
  shows "VerifyAccessToken L R s st now tok = (case jwt_VerifyAccessToken (lib_jwt L) (ses_jwt s) now tok of
      Inl e \<Rightarrow> Inl e
    | Inr c \<Rightarrow> if v_rev (view st now) (c_SessionID c) then Inl (Errorf ''session revoked'') else Inr c)"
  using assms by (simp add: VerifyAccessToken_def IsSessionRevoked_view split: sum.splits)

end

section \<open>Reachable states\<close>

text \<open>
  One call of a service operation, whatever its arguments and outcome, or time passing.
\<close>

inductive session_step :: "libs \<Rightarrow> 'r redis \<Rightarrow> session_Service \<Rightarrow> 'r \<times> time \<Rightarrow> 'r \<times> time \<Rightarrow> bool"
  for L R s where
  tick: "now \<le> now' \<Longrightarrow> session_step L R s (st, now) (st, now')"
| create: "session_step L R s (st, now) (fst (CreateSession L R s st now rnd u g ip ua cl), now)"
| validate: "session_step L R s (st, now) (fst (ValidateSession R s st now i ip), now)"
| refresh: "session_step L R s (st, now) (fst (RefreshTokens L R s st now rnd rtok ip), now)"
| revoke: "session_step L R s (st, now) (fst (RevokeSession R st now i), now)"
| revoke_user: "session_step L R s (st, now) (fst (RevokeAllUserSessions R st now u), now)"
| revoke_org: "session_step L R s (st, now) (fst (RevokeAllOrgSessions R st now g), now)"
| store: "session_step L R s (st, now) (fst (StoreSession R s st now newID i u g), now)"

text \<open>A server with no keys, now and later.\<close>

definition empty_server ::
  "('r \<Rightarrow> bool) \<Rightarrow> ('r \<Rightarrow> time \<Rightarrow> string \<Rightarrow> payload option) \<Rightarrow> ('r \<Rightarrow> time \<Rightarrow> string \<Rightarrow> string set) \<Rightarrow> 'r \<Rightarrow> time \<Rightarrow> bool"
where
  "empty_server up kv smem st now \<longleftrightarrow> up st \<and> (\<forall>t \<ge> now. \<forall>k. kv st t k = None \<and> smem st t k = {})"

lemma empty_server_inv: "empty_server up kv smem st now \<Longrightarrow> session_inv up kv smem st now"
  by (simp add: empty_server_def inv_defs)

context redis_server
begin

lemma session_step_inv:
  assumes "session_step L R s c c'" and "0 < ses_ttl s" and "inv_at (fst c) (snd c)"
  shows "inv_at (fst c') (snd c')"
  using assms
  by (cases rule: session_step.cases)
    (auto simp: CreateSession_inv ValidateSession_inv RefreshTokens_inv RevokeSession_ok RevokeAllUserSessions_ok
      RevokeAllOrgSessions_eq DeleteByOrg_ok StoreSession_inv intro: session_inv_later)

lemma session_steps_inv:
  assumes "(session_step L R s)\<^sup>*\<^sup>* c c'" and "0 < ses_ttl s" and "inv_at (fst c) (snd c)"
  shows "inv_at (fst c') (snd c')"
  using assms by (induction rule: rtranclp_induct) (auto dest: session_step_inv)

end

section \<open>Properties\<close>

text \<open>
  C3: In every state the service reaches from an empty Redis, by any sequence of calls and
  with any outcome, a lookup of a session or of a refresh token succeeds (it finds a
  well-typed record or reports absence, never a decoding error), and a record found under
  an identifier carries that identifier.
\<close>

theorem reachable_lookups_typed:
  assumes redis: "redis_server R up kv smem" and ttl: "0 < ses_ttl s"
    and init: "empty_server up kv smem st0 t0"
    and steps: "(session_step L R s)\<^sup>*\<^sup>* (st0, t0) (st, now)"
  shows "(\<exists>x. Store_Get R st now i = Inr x \<and> (\<forall>d. x = Some d \<longrightarrow> sd_ID d = i)) \<and>
    (\<exists>y. GetByHash R st now h = Inr y \<and> (\<forall>d. y = Some d \<longrightarrow> rt_TokenHash d = h))"
proof -
  have inv: "session_inv up kv smem st now"
    using redis_server.session_steps_inv [OF redis steps ttl] empty_server_inv [OF init] by simp
  show ?thesis
    using redis_server.Store_Get_view [OF redis inv, of i] redis_server.GetByHash_view [OF redis inv, of h]
      session_inv_ID [OF inv order_refl] by blast
qed

definition demo_libs :: libs where
  "demo_libs = \<lparr>lib_uuid = bits_uuid, lib_jwt = field_jwt, lib_sha256 = (\<lambda>x. x)\<rparr>"

definition demo_sessions :: session_Service where
  "demo_sessions = \<lparr>ses_ttl = 8 * time_Hour, ses_jwt = demo_jwt\<rparr>"

definition demo_rand :: "uuid \<Rightarrow> session_rand" where
  "demo_rand n = \<lparr>rnd_session = n, rnd_jti = n + 1, rnd_family = n + 2, rnd_token = n + 3,
     rnd_bytes = uuid_String bits_uuid n\<rparr>"

lemma demo_simps [simp]:
  "lib_uuid demo_libs = bits_uuid" "lib_jwt demo_libs = field_jwt" "lib_sha256 demo_libs = (\<lambda>x. x)"
  "ses_ttl demo_sessions = 8 * time_Hour" "ses_jwt demo_sessions = demo_jwt"
  "rnd_session (demo_rand n) = n" "rnd_jti (demo_rand n) = n + 1" "rnd_family (demo_rand n) = n + 2"
  "rnd_token (demo_rand n) = n + 3" "rnd_bytes (demo_rand n) = uuid_String bits_uuid n"
  by (simp_all add: demo_libs_def demo_sessions_def demo_rand_def)

lemma mem_empty: "empty_server mem_up mem_kv mem_smem [] now"
  by (simp add: empty_server_def mem_read_defs)

lemma mem_empty_inv: "session_inv mem_up mem_kv mem_smem [] now"
  by (rule empty_server_inv [OF mem_empty])

lemma reachable_lookups_typed_witness:
  "\<exists>st. (session_step demo_libs mem_redis demo_sessions)\<^sup>*\<^sup>* ([], 0) (st, 0) \<and>
     (\<exists>x. Store_Get mem_redis st 0 ''a'' = Inr x \<and> (\<forall>d. x = Some d \<longrightarrow> sd_ID d = ''a''))"
proof -
  let ?st = "fst (StoreSession mem_redis demo_sessions [] 0 ''n'' ''a'' ''u'' ''o'')"
  have "(session_step demo_libs mem_redis demo_sessions)\<^sup>*\<^sup>* ([], 0) (?st, 0)"
    by (rule r_into_rtranclp) (rule session_step.store)
  with reachable_lookups_typed [OF mem.redis_server_axioms _ mem_empty this, of "''a''"] show ?thesis
    by (intro exI [of _ ?st]) simp
qed

text \<open>
  C2: \<^verbatim>\<open>CreateSession\<close> on a running Redis with a working signing key succeeds. Until the
  session lifetime ends the session is found under the returned identifier with the
  caller's user, organisation, address and roles; for eight hours the returned refresh
  token is found unused and unrevoked and points to that session; the returned access
  token verifies until it expires unless the session identifier was revoked; no other
  session changes.
\<close>

theorem create_session_establishes:
  assumes redis: "redis_server R up kv smem" and inv: "session_inv up kv smem st now" and ttl: "0 < ses_ttl s"
    and lib: "jwt_library (lib_jwt L) key_ok" and wf: "rkm_wf (js_keyManager (ses_jwt s))"
    and key: "ActiveKey (js_keyManager (ses_jwt s)) = Some km" "key_ok (km_privateKey km)"
    and run: "CreateSession L R s st now rnd u g ip ua cl = (st', r)"
  shows "\<exists>lr. r = Inr lr \<and> session_inv up kv smem st' now \<and>
    (\<forall>t. now \<le> t \<and> t < now + ses_ttl s \<longrightarrow> (\<exists>d. Store_Get R st' t (lr_SessionID lr) = Inr (Some d) \<and>
       sd_UserID d = uuid_String (lib_uuid L) u \<and> sd_OrgID d = uuid_String (lib_uuid L) g \<and>
       sd_IPAddress d = ip \<and> sd_Roles d = c_Roles cl)) \<and>
    (\<forall>t. now \<le> t \<and> t < now + 8 * time_Hour \<longrightarrow>
       (\<exists>d. GetByHash R st' t (HashToken (lib_sha256 L) (lr_RefreshToken lr)) = Inr (Some d) \<and>
          rt_SessionID d = lr_SessionID lr \<and> rt_UsedAt d = None \<and> rt_RevokedAt d = None)) \<and>
    (\<forall>t. now \<le> t \<and> t < (now + js_tokenTTL (ses_jwt s)) div time_Second * time_Second \<and>
         IsSessionRevoked R st t (lr_SessionID lr) = Inr False \<longrightarrow>
       (\<exists>c. VerifyAccessToken L R s st' t (lr_AccessToken lr) = Inr c \<and> c_SessionID c = lr_SessionID lr)) \<and>
    (\<forall>t i. now \<le> t \<and> i \<noteq> lr_SessionID lr \<longrightarrow> Store_Get R st' t i = Store_Get R st t i)"
proof -
  let ?sid = "uuid_String (lib_uuid L) (rnd_session rnd)"
  obtain tok at where issue: "IssueAccessToken (lib_uuid L) (lib_jwt L) (ses_jwt s) now
      (uuid_String (lib_uuid L) (rnd_jti rnd)) ?sid u g cl = Inr (tok, at)"
    using jwt_library.issue_ok [OF lib key] by blast
  note ok = redis_server.CreateSession_ok [OF redis inv ttl issue run]
  then obtain st1 r1 where steps: "Store_Create R (ses_ttl s) st now [] (new_session L rnd u g ip ua cl) = (st1, r1)"
      "Refresh_Create R st1 now (new_refresh_token L rnd now u g (c_ClientID cl) (c_Roles cl)) = (st', Inr ())"
    by blast
  note view = redis_server.session_and_token(2) [OF redis inv ttl steps]
  have inv_t: "session_inv up kv smem st t" "session_inv up kv smem st' t" if "now \<le> t" for t
    using session_inv_later [OF inv that] session_inv_later [OF ok(2) that] by simp_all
  have verify: "jwt_VerifyAccessToken (lib_jwt L) (ses_jwt s) t tok = Inr (access_claims (lib_uuid L) (lib_jwt L)
      (ses_jwt s) now (uuid_String (lib_uuid L) (rnd_jti rnd)) ?sid u g cl)"
    if "t < (now + js_tokenTTL (ses_jwt s)) div time_Second * time_Second" for t
    using jwt_library.verify_issued_by [OF lib issue key(1) ActiveKey_stored [OF wf key(1), THEN conjunct1] refl that] .
  show ?thesis
    unfolding ok(1)
    by (intro exI conjI, rule refl, rule ok(2))
      (auto simp: redis_server.Store_Get_view [OF redis inv_t(1)] redis_server.Store_Get_view [OF redis inv_t(2)]
        redis_server.GetByHash_view [OF redis inv_t(2)] redis_server.IsSessionRevoked_view [OF redis inv_t(1)]
        redis_server.VerifyAccessToken_view [OF redis inv_t(2)] view verify access_claims_fields
        new_session_def session_data0_def stored_session_def)
qed

lemma create_session_establishes_witness:
  "\<exists>lr. snd (CreateSession demo_libs mem_redis demo_sessions [] 0 (demo_rand 7) 1 2 ''10.0.0.1'' [] Claims0) = Inr lr \<and>
     (\<exists>d. Store_Get mem_redis (fst (CreateSession demo_libs mem_redis demo_sessions [] 0 (demo_rand 7) 1 2 ''10.0.0.1'' [] Claims0))
            time_Minute (lr_SessionID lr) = Inr (Some d) \<and> sd_IPAddress d = ''10.0.0.1'')"
proof -
  let ?c = "CreateSession demo_libs mem_redis demo_sessions [] 0 (demo_rand 7) 1 2 ''10.0.0.1'' [] Claims0"
  have "0 < ses_ttl demo_sessions" "jwt_library (lib_jwt demo_libs) (\<lambda>_. True)"
      "rkm_wf (js_keyManager (ses_jwt demo_sessions))"
    using field_jwt.jwt_library_axioms demo_jwt_wf by simp_all
  from create_session_establishes [OF mem.redis_server_axioms mem_empty_inv this demo_jwt_key [folded demo_simps(5)]
      TrueI prod.collapse [symmetric, of ?c]]
  obtain lr where lr: "snd ?c = Inr lr" and "\<forall>t. 0 \<le> t \<and> t < 0 + ses_ttl demo_sessions \<longrightarrow>
      (\<exists>d. Store_Get mem_redis (fst ?c) t (lr_SessionID lr) = Inr (Some d) \<and>
       sd_UserID d = uuid_String (lib_uuid demo_libs) 1 \<and> sd_OrgID d = uuid_String (lib_uuid demo_libs) 2 \<and>
       sd_IPAddress d = ''10.0.0.1'' \<and> sd_Roles d = c_Roles Claims0)"
    by blast
  from this(2) [THEN spec, of time_Minute] lr show ?thesis by auto
qed

text \<open>
  C4: \<^verbatim>\<open>ValidateSession\<close> binds a session to its address. A caller with the stored address
  gets the session, which stays live with its last use stamped; a caller with another
  address gets an error and the session is gone for everyone from then on; an unknown
  identifier gives no session and no error. Other sessions, tokens and revocations stay
  as they are.
\<close>

theorem validate_session_binds_address:
  assumes redis: "redis_server R up kv smem" and inv: "session_inv up kv smem st now" and ttl: "0 < ses_ttl s"
    and run: "ValidateSession R s st now i ip = (st', r)"
  shows "session_inv up kv smem st' now \<and>
    (case Store_Get R st now i of
       Inr None \<Rightarrow> st' = st \<and> r = Inr None
     | Inr (Some d) \<Rightarrow>
         (if sd_IPAddress d = ip
          then r = Inr (Some d) \<and> Store_Get R st' now i = Inr (Some (d\<lparr>sd_LastUsedAt := Unix now\<rparr>))
          else r = Inl (Errorf ''session.Service.ValidateSession: IP address mismatch'') \<and>
               (\<forall>t \<ge> now. Store_Get R st' t i = Inr None))
     | Inl e \<Rightarrow> False) \<and>
    (\<forall>t j h. now \<le> t \<and> j \<noteq> i \<longrightarrow> Store_Get R st' t j = Store_Get R st t j \<and>
       GetByHash R st' t h = GetByHash R st t h \<and> IsSessionRevoked R st' t h = IsSessionRevoked R st t h)"
proof -
  note inv' = redis_server.ValidateSession_inv [OF redis inv ttl, of i ip, unfolded run fst_conv]
  have inv_t: "session_inv up kv smem st t" "session_inv up kv smem st' t" if "now \<le> t" for t
    using session_inv_later [OF inv that] session_inv_later [OF inv' that] by simp_all
  note reads = redis_server.Store_Get_view [OF redis inv_t(1)] redis_server.Store_Get_view [OF redis inv_t(2)]
    redis_server.GetByHash_view [OF redis inv_t(1)] redis_server.GetByHash_view [OF redis inv_t(2)]
    redis_server.IsSessionRevoked_view [OF redis inv_t(1)] redis_server.IsSessionRevoked_view [OF redis inv_t(2)]
  show ?thesis
  proof (cases "v_sess (view_of kv smem st now) i")
    case None
    then have "st' = st" "r = Inr None" using run by (simp_all add: redis_server.ValidateSession_view [OF redis inv])
    then show ?thesis using None inv by (simp add: reads)
  next
    case (Some d)
    note upd = redis_server.UpdateLastUsed_ok [OF redis inv ttl Some]
    show ?thesis
    proof (cases "sd_IPAddress d = ip")
      case True
      then have st': "st' = fst (Store_UpdateLastUsed R (ses_ttl s) st now i)" and r: "r = Inr (Some d)"
        using run Some by (simp_all add: redis_server.ValidateSession_view [OF redis inv])
      show ?thesis using True inv' Some ttl r upd(3) [folded st'] by (auto simp: reads)
    next
      case False
      then have st': "st' = fst (Store_Delete R st now i)"
        and r: "r = Inl (Errorf ''session.Service.ValidateSession: IP address mismatch'')"
        using run Some by (simp_all add: redis_server.ValidateSession_view [OF redis inv])
      show ?thesis
        using False inv' Some r redis_server.Store_Delete_ok(3) [OF redis inv, where i = i, folded st'] by (auto simp: reads)
    qed
  qed
qed

lemma validate_session_binds_address_witness:
  "snd (ValidateSession mem_redis demo_sessions [(sessionKey ''a'', (MStr (JSession (session_data0\<lparr>sd_ID := ''a'', sd_IPAddress := ''x''\<rparr>)), None))]
     0 ''a'' ''y'') = Inl (Errorf ''session.Service.ValidateSession: IP address mismatch'')"
proof -
  let ?st = "[(sessionKey ''a'', (MStr (JSession (session_data0\<lparr>sd_ID := ''a'', sd_IPAddress := ''x''\<rparr>)), None))]"
  have inv: "session_inv mem_up mem_kv mem_smem ?st 0" by (auto simp: inv_defs mem_read_defs split: if_splits)
  have "Store_Get mem_redis ?st 0 ''a'' = Inr (Some (session_data0\<lparr>sd_ID := ''a'', sd_IPAddress := ''x''\<rparr>))"
    by (simp add: Store_Get_def mem_redis_def mem_get_def mem_entry_def)
  with validate_session_binds_address [OF mem.redis_server_axioms inv _ prod.collapse [symmetric], of demo_sessions "''a''" "''y''"]
  show ?thesis by simp
qed

text \<open>
  C1: A refresh token works once. After a successful \<^verbatim>\<open>RefreshTokens\<close> a second call with the
  same token before it expires, from any address, is answered "token reuse detected",
  deletes the session the token belonged to and leaves no usable token in the token's
  family. (The freshly drawn token must differ from the old one.)
\<close>

theorem refresh_token_single_use:
  assumes redis: "redis_server R up kv smem" and inv: "session_inv up kv smem st now" and ttl: "0 < ses_ttl s"
    and tok: "GetByHash R st now (HashToken (lib_sha256 L) rtok) = Inr (Some d)"
    and first: "RefreshTokens L R s st now rnd rtok ip = (st1, Inr lr)"
    and fresh: "HashToken (lib_sha256 L) (lr_RefreshToken lr) \<noteq> HashToken (lib_sha256 L) rtok"
    and later: "now \<le> t2" "t2 < now + Seconds (rt_ExpiresAt d - Unix now)"
    and second: "RefreshTokens L R s st1 t2 rnd2 rtok ip2 = (st2, r2)"
  shows "r2 = Inl (Errorf ''session.Service.RefreshTokens: token reuse detected'') \<and>
    session_inv up kv smem st2 t2 \<and>
    (\<forall>t \<ge> t2. Store_Get R st2 t (rt_SessionID d) = Inr None) \<and>
    (\<forall>h \<in> smem st1 t2 (familyKey (rt_FamilyID d)). \<forall>d'. GetByHash R st2 t2 h = Inr (Some d') \<longrightarrow>
       rt_RevokedAt d' \<noteq> None \<or> rt_ExpiresAt d' \<le> Unix t2)"
proof -
  let ?h = "HashToken (lib_sha256 L) rtok"
  have inv1: "session_inv up kv smem st1 t2"
    using redis_server.RefreshTokens_inv [OF redis inv ttl, of L rnd rtok ip] first
    by (intro session_inv_later [OF _ later(1)]) simp
  have t: "v_tok (view_of kv smem st1 t2) ?h = Some (d\<lparr>rt_UsedAt := Some (Unix now)\<rparr>)" and unrev: "rt_RevokedAt d = None"
    using redis_server.RefreshTokens_rotated [OF redis inv ttl tok first fresh] later by simp_all
  define stf where "stf = fst (RevokeFamily R st1 t2 (rt_FamilyID d))"
  note fam = redis_server.RevokeFamily_ok [OF redis inv1, where f = "rt_FamilyID d", folded stf_def]
  have eq: "st2 = fst (Store_Delete R stf t2 (rt_SessionID d))"
      "r2 = Inl (Errorf ''session.Service.RefreshTokens: token reuse detected'')"
    using second by (simp_all add: redis_server.RefreshTokens_view [OF redis inv1] Let_def t unrev stf_def)
  note del = redis_server.Store_Delete_ok [OF redis fam(2), where i = "rt_SessionID d", folded eq(1)]
  have "Store_Get R st2 t (rt_SessionID d) = Inr None" if "t2 \<le> t" for t
    using redis_server.Store_Get_view [OF redis session_inv_later [OF del(2) that]] del(3) [OF that] by simp
  moreover have "rt_RevokedAt d' \<noteq> None \<or> rt_ExpiresAt d' \<le> Unix t2"
    if "h \<in> smem st1 t2 (familyKey (rt_FamilyID d))" and "GetByHash R st2 t2 h = Inr (Some d')" for h d'
  proof (rule revoke_tok_now)
    have "h \<in> v_fam (view_of kv smem st1 t2) (rt_FamilyID d)" using that(1) by (simp add: view_of_def)
    then show "revoke_tok t2 t2 (v_tok (view_of kv smem st1 t2) h) (v_tok (view_of kv smem st1 t2) h) = Some d'"
      using that(2) redis_server.GetByHash_view [OF redis del(2), of h] del(3) [OF order_refl] fam(3) [OF order_refl]
      by simp
  qed
  ultimately show ?thesis using eq(2) del(2) by blast
qed

text \<open>A login and a refresh on the in-memory server.\<close>

definition demo_login :: mem where
  "demo_login = fst (CreateSession demo_libs mem_redis demo_sessions [] 0 (demo_rand 7) 1 2 ''ip'' [] Claims0)"

definition demo_token :: string where
  "demo_token = GenerateRefreshToken (uuid_String bits_uuid 7)"

lemma demo_login_ok:
  "session_inv mem_up mem_kv mem_smem demo_login 0"
  "0 \<le> t \<Longrightarrow> t < 8 * time_Hour \<Longrightarrow> \<exists>x. v_sess (view_of mem_kv mem_smem demo_login t) (uuid_String bits_uuid 7) = Some x \<and> sd_IPAddress x = ''ip''"
  "0 \<le> t \<Longrightarrow> t < 8 * time_Hour \<Longrightarrow> v_tok (view_of mem_kv mem_smem demo_login t) (HashToken (\<lambda>x. x) demo_token) =
     Some (new_refresh_token demo_libs (demo_rand 7) 0 1 2 [] [])"
  "0 \<le> t \<Longrightarrow> t < 8 * time_Hour \<Longrightarrow> v_fam (view_of mem_kv mem_smem demo_login t) (uuid_String bits_uuid 9) = {HashToken (\<lambda>x. x) demo_token}"
proof -
  obtain tok at where issue: "IssueAccessToken (lib_uuid demo_libs) (lib_jwt demo_libs) (ses_jwt demo_sessions) 0
      (uuid_String (lib_uuid demo_libs) (rnd_jti (demo_rand 7))) (uuid_String (lib_uuid demo_libs) (rnd_session (demo_rand 7))) 1 2 Claims0 = Inr (tok, at)"
    using field_jwt.issue_ok [OF demo_jwt_key TrueI] by (simp del: demo_simps(6,7)) blast
  have ttl: "0 < ses_ttl demo_sessions" by simp
  note ok = mem.CreateSession_ok [OF mem_empty_inv ttl issue prod.collapse [symmetric], of "''ip''" "[]", folded demo_login_def]
  from ok(3) obtain st1 r1 where steps:
      "Store_Create mem_redis (ses_ttl demo_sessions) [] 0 [] (new_session demo_libs (demo_rand 7) 1 2 ''ip'' [] Claims0) = (st1, r1)"
      "Refresh_Create mem_redis st1 0 (new_refresh_token demo_libs (demo_rand 7) 0 1 2 (c_ClientID Claims0) (c_Roles Claims0)) = (demo_login, Inr ())"
    by blast
  note view = mem.session_and_token(2) [OF mem_empty_inv ttl steps]
  show "session_inv mem_up mem_kv mem_smem demo_login 0" by (rule ok(2))
  show "0 \<le> t \<Longrightarrow> t < 8 * time_Hour \<Longrightarrow> \<exists>x. v_sess (view_of mem_kv mem_smem demo_login t) (uuid_String bits_uuid 7) = Some x \<and> sd_IPAddress x = ''ip''"
    by (simp add: view new_session_def stored_session_def)
  show "0 \<le> t \<Longrightarrow> t < 8 * time_Hour \<Longrightarrow> v_tok (view_of mem_kv mem_smem demo_login t) (HashToken (\<lambda>x. x) demo_token) =
     Some (new_refresh_token demo_libs (demo_rand 7) 0 1 2 [] [])"
    by (simp add: view demo_token_def Claims0_def)
  show "0 \<le> t \<Longrightarrow> t < 8 * time_Hour \<Longrightarrow> v_fam (view_of mem_kv mem_smem demo_login t) (uuid_String bits_uuid 9) = {HashToken (\<lambda>x. x) demo_token}"
    by (simp add: view demo_token_def) (simp add: view_of_def mem_read_defs)
qed

lemma demo_token_found:
  "GetByHash mem_redis demo_login 5 (HashToken (lib_sha256 demo_libs) demo_token) =
     Inr (Some (new_refresh_token demo_libs (demo_rand 7) 0 1 2 [] []))"
  using mem.GetByHash_view [OF session_inv_later [OF demo_login_ok(1)], of 5] demo_login_ok(3) [of 5] by simp

lemma demo_refresh_ok:
  "\<exists>lr. RefreshTokens demo_libs mem_redis demo_sessions demo_login 5 (demo_rand 100) demo_token ''ip'' =
     (fst (RefreshTokens demo_libs mem_redis demo_sessions demo_login 5 (demo_rand 100) demo_token ''ip''), Inr lr) \<and>
     lr_RefreshToken lr = GenerateRefreshToken (uuid_String bits_uuid 100) \<and> lr_SessionID lr = uuid_String bits_uuid 100"
proof -
  let ?h = "HashToken (\<lambda>x. x) demo_token" and ?d = "new_refresh_token demo_libs (demo_rand 7) 0 1 2 [] []"
  have inv: "session_inv mem_up mem_kv mem_smem demo_login 5" by (rule session_inv_later [OF demo_login_ok(1)]) simp
  have tok: "v_tok (view_of mem_kv mem_smem demo_login 5) ?h = Some ?d" using demo_login_ok(3) [of 5] by simp
  obtain x where x: "v_sess (view_of mem_kv mem_smem demo_login 5) (uuid_String bits_uuid 7) = Some x" "sd_IPAddress x = ''ip''"
    using demo_login_ok(2) [of 5] by auto
  have eq: "RefreshTokens demo_libs mem_redis demo_sessions demo_login 5 (demo_rand 100) demo_token ''ip'' =
      rotate_tokens demo_libs mem_redis demo_sessions demo_login 5 (demo_rand 100) ?h ?d x ''ip''"
    using tok x by (simp add: mem.RefreshTokens_view [OF inv] Let_def)
  obtain atok at where issue: "IssueAccessToken (lib_uuid demo_libs) (lib_jwt demo_libs) (ses_jwt demo_sessions) 5
      (uuid_String (lib_uuid demo_libs) (rnd_jti (demo_rand 100))) (uuid_String (lib_uuid demo_libs) (rnd_session (demo_rand 100)))
      (uuid_Parse0 (lib_uuid demo_libs) (rt_UserID ?d)) (uuid_Parse0 (lib_uuid demo_libs) (rt_OrgID ?d))
      (Claims0\<lparr>c_ClientID := rt_ClientID ?d, c_Roles := rt_Scopes ?d\<rparr>) = Inr (atok, at)"
    using field_jwt.issue_ok [OF demo_jwt_key TrueI] by (simp del: demo_simps(6,7)) blast
  have ttl: "0 < ses_ttl demo_sessions" by simp
  from mem.rotate_tokens_ok(1) [OF inv ttl tok issue prod.collapse [symmetric], of x "''ip''"]
  show ?thesis unfolding eq by (metis LoginResult.select_convs(2,4) demo_simps(1,6,10) prod.collapse)
qed

lemma demo_uuid_fresh: "uuid_String bits_uuid 100 \<noteq> uuid_String bits_uuid (7 :: uuid)"
  by simp

lemma refresh_token_single_use_witness:
  "\<exists>lr. snd (RefreshTokens demo_libs mem_redis demo_sessions demo_login 5 (demo_rand 100) demo_token ''ip'') = Inr lr \<and>
     snd (RefreshTokens demo_libs mem_redis demo_sessions
       (fst (RefreshTokens demo_libs mem_redis demo_sessions demo_login 5 (demo_rand 100) demo_token ''ip'')) 6
       (demo_rand 200) demo_token ''other'') = Inl (Errorf ''session.Service.RefreshTokens: token reuse detected'')"
proof -
  obtain lr where lr: "RefreshTokens demo_libs mem_redis demo_sessions demo_login 5 (demo_rand 100) demo_token ''ip'' =
     (fst (RefreshTokens demo_libs mem_redis demo_sessions demo_login 5 (demo_rand 100) demo_token ''ip''), Inr lr)"
     "lr_RefreshToken lr = GenerateRefreshToken (uuid_String bits_uuid 100)"
    using demo_refresh_ok by blast
  have f: "HashToken (lib_sha256 demo_libs) (lr_RefreshToken lr) \<noteq> HashToken (lib_sha256 demo_libs) demo_token"
    using demo_uuid_fresh by (simp add: lr(2) HashToken_def GenerateRefreshToken_def demo_token_def)
  have t: "6 < 5 + Seconds (rt_ExpiresAt (new_refresh_token demo_libs (demo_rand 7) 0 1 2 [] []) - Unix 5)" "5 \<le> (6 :: int)"
    by (simp_all add: Unix_def Seconds_def)
  have inv: "session_inv mem_up mem_kv mem_smem demo_login 5" by (rule session_inv_later [OF demo_login_ok(1)]) simp
  have ttl: "0 < ses_ttl demo_sessions" by simp
  from refresh_token_single_use [OF mem.redis_server_axioms inv ttl demo_token_found lr(1) f t(2,1) prod.collapse [symmetric]]
  have "snd (RefreshTokens demo_libs mem_redis demo_sessions
       (fst (RefreshTokens demo_libs mem_redis demo_sessions demo_login 5 (demo_rand 100) demo_token ''ip'')) 6
       (demo_rand 200) demo_token ''other'') = Inl (Errorf ''session.Service.RefreshTokens: token reuse detected'')" by blast
  then show ?thesis using lr(1) by (metis snd_conv)
qed

text \<open>
  C6: \<^verbatim>\<open>RevokeSession\<close> ends a session at once. From then on the session is not found and a
  refresh token bound to it is refused; for eight hours every access token that carries
  the session identifier fails verification; tokens of other sessions verify as before.
\<close>

theorem revoke_session_effect:
  assumes redis: "redis_server R up kv smem" and inv: "session_inv up kv smem st now"
    and run: "RevokeSession R st now i = (st', r)"
  shows "r = Inr () \<and> session_inv up kv smem st' now \<and>
    (\<forall>t \<ge> now. Store_Get R st' t i = Inr None) \<and>
    (\<forall>t rtok d rnd ip. now \<le> t \<and> GetByHash R st' t (HashToken (lib_sha256 L) rtok) = Inr (Some d) \<and> rt_SessionID d = i \<longrightarrow>
       \<not> is_ok (snd (RefreshTokens L R s st' t rnd rtok ip))) \<and>
    (\<forall>t tok c. now \<le> t \<and> t < now + 8 * time_Hour \<and> jwt_VerifyAccessToken (lib_jwt L) (ses_jwt s) t tok = Inr c \<and>
       c_SessionID c = i \<longrightarrow> VerifyAccessToken L R s st' t tok = Inl (Errorf ''session revoked'')) \<and>
    (\<forall>t tok c. now \<le> t \<and> jwt_VerifyAccessToken (lib_jwt L) (ses_jwt s) t tok = Inr c \<and> c_SessionID c \<noteq> i \<longrightarrow>
       VerifyAccessToken L R s st' t tok = VerifyAccessToken L R s st t tok)"
proof -
  have st': "st' = fst (RevokeSession R st now i)" and r: "r = snd (RevokeSession R st now i)" using run by simp_all
  note ok = redis_server.RevokeSession_ok [OF redis inv, where i = i, folded st' r]
  have inv_t: "session_inv up kv smem st t" "session_inv up kv smem st' t" if "now \<le> t" for t
    using session_inv_later [OF inv that] session_inv_later [OF ok(2) that] by simp_all
  note reads = redis_server.Store_Get_view [OF redis inv_t(2)] redis_server.VerifyAccessToken_view [OF redis inv_t(1)]
    redis_server.VerifyAccessToken_view [OF redis inv_t(2)]
  have "\<not> is_ok (snd (RefreshTokens L R s st' t rnd rtok ip))"
    if t: "now \<le> t" and tok: "GetByHash R st' t (HashToken (lib_sha256 L) rtok) = Inr (Some d)" and sid: "rt_SessionID d = i"
    for t rtok d rnd ip
    using tok redis_server.GetByHash_view [OF redis inv_t(2) [OF t]] ok(3) [OF t] sid
    by (simp add: redis_server.RefreshTokens_view [OF redis inv_t(2) [OF t]] Let_def split: option.splits)
  then show ?thesis using ok by (auto simp: reads)
qed

lemma revoke_session_effect_witness:
  "Store_Get mem_redis (fst (RevokeSession mem_redis demo_login 5 (uuid_String bits_uuid 7))) 6 (uuid_String bits_uuid 7) = Inr None"
proof -
  have inv: "session_inv mem_up mem_kv mem_smem demo_login 5" by (rule session_inv_later [OF demo_login_ok(1)]) simp
  from revoke_session_effect [OF mem.redis_server_axioms inv prod.collapse [symmetric], of "uuid_String bits_uuid 7"]
  show ?thesis by simp
qed

text \<open>
  \<^verbatim>\<open>RevokeAllUserSessions\<close> ends exactly the sessions of the user: each is deleted and its
  identifier rejected by \<^verbatim>\<open>VerifyAccessToken\<close> for eight hours, while the sessions of
  other users stay and their tokens verify as before.
\<close>

theorem revoke_all_user_sessions_effect:
  assumes redis: "redis_server R up kv smem" and inv: "session_inv up kv smem st now"
    and run: "RevokeAllUserSessions R st now u = (st', r)"
  shows "r = Inr () \<and> session_inv up kv smem st' now \<and>
    (\<forall>i d. Store_Get R st now i = Inr (Some d) \<longrightarrow>
       (if sd_UserID d = u
        then (\<forall>t \<ge> now. Store_Get R st' t i = Inr None) \<and>
             (\<forall>t. now \<le> t \<and> t < now + 8 * time_Hour \<longrightarrow> IsSessionRevoked R st' t i = Inr True)
        else (\<forall>t \<ge> now. Store_Get R st' t i = Store_Get R st t i \<and> IsSessionRevoked R st' t i = IsSessionRevoked R st t i)))"
proof -
  have st': "st' = fst (RevokeAllUserSessions R st now u)" and r: "r = snd (RevokeAllUserSessions R st now u)" using run by simp_all
  note ok = redis_server.RevokeAllUserSessions_ok [OF redis inv, where u = u, folded st' r]
  have inv_t: "session_inv up kv smem st t" "session_inv up kv smem st' t" if "now \<le> t" for t
    using session_inv_later [OF inv that] session_inv_later [OF ok(2) that] by simp_all
  show ?thesis
    using ok(1,2) redis_server.Store_Get_view [OF redis inv]
    by (auto simp: redis_server.Store_Get_view [OF redis inv_t(1)] redis_server.Store_Get_view [OF redis inv_t(2)]
        redis_server.IsSessionRevoked_view [OF redis inv_t(1)] redis_server.IsSessionRevoked_view [OF redis inv_t(2)] ok(3))
qed

lemma demo_session_found:
  "\<exists>d. Store_Get mem_redis demo_login 5 (uuid_String bits_uuid 7) = Inr (Some d) \<and>
     sd_UserID d = uuid_String bits_uuid 1 \<and> sd_OrgID d = uuid_String bits_uuid 2"
proof -
  obtain tok at where issue: "IssueAccessToken (lib_uuid demo_libs) (lib_jwt demo_libs) (ses_jwt demo_sessions) 0
      (uuid_String (lib_uuid demo_libs) (rnd_jti (demo_rand 7))) (uuid_String (lib_uuid demo_libs) (rnd_session (demo_rand 7))) 1 2 Claims0 = Inr (tok, at)"
    using field_jwt.issue_ok [OF demo_jwt_key TrueI] by (simp del: demo_simps(6,7)) blast
  have ttl: "0 < ses_ttl demo_sessions" by simp
  note ok = mem.CreateSession_ok [OF mem_empty_inv ttl issue prod.collapse [symmetric], of "''ip''" "[]", folded demo_login_def]
  from ok(3) obtain st1 r1 where steps:
      "Store_Create mem_redis (ses_ttl demo_sessions) [] 0 [] (new_session demo_libs (demo_rand 7) 1 2 ''ip'' [] Claims0) = (st1, r1)"
      "Refresh_Create mem_redis st1 0 (new_refresh_token demo_libs (demo_rand 7) 0 1 2 (c_ClientID Claims0) (c_Roles Claims0)) = (demo_login, Inr ())"
    by blast
  have inv5: "session_inv mem_up mem_kv mem_smem demo_login 5" by (rule session_inv_later [OF demo_login_ok(1)]) simp
  show ?thesis
    using mem.session_and_token(2) [OF mem_empty_inv ttl steps, of 5]
    by (simp add: mem.Store_Get_view [OF inv5] new_session_def stored_session_def)
qed

lemma revoke_all_user_sessions_effect_witness:
  "Store_Get mem_redis (fst (RevokeAllUserSessions mem_redis demo_login 5 (uuid_String bits_uuid 1))) 6 (uuid_String bits_uuid 7) = Inr None"
proof -
  have inv: "session_inv mem_up mem_kv mem_smem demo_login 5" by (rule session_inv_later [OF demo_login_ok(1)]) simp
  from revoke_all_user_sessions_effect [OF mem.redis_server_axioms inv prod.collapse [symmetric], of "uuid_String bits_uuid 1"]
    demo_session_found show ?thesis by fastforce
qed

text \<open>
  \<^verbatim>\<open>RevokeAllOrgSessions\<close>, the operation behind the emergency endpoints, deletes every
  session of the organisation and no other one, but marks none of them as revoked:
  every access token is judged after the call exactly as before it.
\<close>

theorem revoke_all_org_sessions_effect:
  assumes redis: "redis_server R up kv smem" and inv: "session_inv up kv smem st now"
    and run: "RevokeAllOrgSessions R st now g = (st', r)"
  shows "r = Inr () \<and> session_inv up kv smem st' now \<and>
    (\<forall>i d. Store_Get R st now i = Inr (Some d) \<longrightarrow>
       (\<forall>t \<ge> now. Store_Get R st' t i = (if sd_OrgID d = g then Inr None else Store_Get R st t i))) \<and>
    (\<forall>t tok. now \<le> t \<longrightarrow> VerifyAccessToken L R s st' t tok = VerifyAccessToken L R s st t tok)"
proof -
  have st': "st' = fst (Store_DeleteByOrg R st now g)" and r: "r = Inr ()"
    using run by (simp_all add: redis_server.RevokeAllOrgSessions_eq [OF redis inv])
  note ok = redis_server.DeleteByOrg_ok [OF redis inv, where g = g, folded st']
  have inv_t: "session_inv up kv smem st t" "session_inv up kv smem st' t" if "now \<le> t" for t
    using session_inv_later [OF inv that] session_inv_later [OF ok(2) that] by simp_all
  show ?thesis
    using r ok(2) redis_server.Store_Get_view [OF redis inv]
    by (auto simp: redis_server.Store_Get_view [OF redis inv_t(1)] redis_server.Store_Get_view [OF redis inv_t(2)]
        redis_server.VerifyAccessToken_view [OF redis inv_t(1)] redis_server.VerifyAccessToken_view [OF redis inv_t(2)] ok(3)
        split: sum.splits)
qed

lemma revoke_all_org_sessions_effect_witness:
  "Store_Get mem_redis (fst (RevokeAllOrgSessions mem_redis demo_login 5 (uuid_String bits_uuid 2))) 6 (uuid_String bits_uuid 7) = Inr None"
proof -
  have inv: "session_inv mem_up mem_kv mem_smem demo_login 5" by (rule session_inv_later [OF demo_login_ok(1)]) simp
  from revoke_all_org_sessions_effect [OF mem.redis_server_axioms inv prod.collapse [symmetric], of "uuid_String bits_uuid 2"]
    demo_session_found show ?thesis by fastforce
qed

text \<open>
  C7: Reuse detection does not reach the tokens issued by the legitimate refresh. When a
  token is presented again after it was rotated, the rotated token (which starts a new
  family and a new session) is still found unused and unrevoked and its session is live,
  for any reuse before the lifetimes end.
\<close>

theorem reuse_spares_rotated_token:
  assumes redis: "redis_server R up kv smem" and inv: "session_inv up kv smem st now" and ttl: "0 < ses_ttl s"
    and tok: "GetByHash R st now (HashToken (lib_sha256 L) rtok) = Inr (Some d)"
    and first: "RefreshTokens L R s st now rnd rtok ip = (st1, Inr lr)"
    and fresh: "HashToken (lib_sha256 L) (lr_RefreshToken lr) \<noteq> HashToken (lib_sha256 L) rtok"
      "lr_SessionID lr \<noteq> rt_SessionID d" "uuid_String (lib_uuid L) (rnd_family rnd) \<noteq> rt_FamilyID d"
      "HashToken (lib_sha256 L) (lr_RefreshToken lr) \<notin> smem st t2 (familyKey (rt_FamilyID d))"
    and later: "now \<le> t2" "t2 < now + Seconds (rt_ExpiresAt d - Unix now)" "t2 < now + ses_ttl s" "t2 < now + 8 * time_Hour"
    and second: "RefreshTokens L R s st1 t2 rnd2 rtok ip2 = (st2, r2)"
  shows "\<exists>d2 x2. GetByHash R st2 t2 (HashToken (lib_sha256 L) (lr_RefreshToken lr)) = Inr (Some d2) \<and>
    rt_UsedAt d2 = None \<and> rt_RevokedAt d2 = None \<and> rt_SessionID d2 = lr_SessionID lr \<and>
    Store_Get R st2 t2 (lr_SessionID lr) = Inr (Some x2) \<and> sd_IPAddress x2 = ip"
proof -
  let ?h = "HashToken (lib_sha256 L) rtok" and ?h2 = "HashToken (lib_sha256 L) (lr_RefreshToken lr)"
  have vt: "v_tok (view_of kv smem st now) ?h = Some d" using tok redis_server.GetByHash_view [OF redis inv, of ?h] by simp
  from redis_server.RefreshTokens_success [OF redis inv ttl tok first] obtain x sa sb ra where
    inva: "session_inv up kv smem sa now" and lr: "lr_RefreshToken lr = GenerateRefreshToken (rnd_bytes rnd)"
      "lr_SessionID lr = uuid_String (lib_uuid L) (rnd_session rnd)"
    and sa: "sa = fst (Refresh_MarkUsed R st now ?h)"
    and sb: "Store_Create R (ses_ttl s) sa now [] (x\<lparr>sd_ID := uuid_String (lib_uuid L) (rnd_session rnd), sd_IPAddress := ip\<rparr>) = (sb, ra)"
    and sc: "Refresh_Create R sb now (new_refresh_token L rnd now (uuid_Parse0 (lib_uuid L) (rt_UserID d))
        (uuid_Parse0 (lib_uuid L) (rt_OrgID d)) (rt_ClientID d) (rt_Scopes d)) = (st1, Inr ())" .
  note v1 = redis_server.session_and_token(2) [OF redis inva ttl sb sc later(1)]
  note va = redis_server.MarkUsed_ok(2) [OF redis inv vt later(1), folded sa]
  have inv1: "session_inv up kv smem st1 t2"
    using redis_server.session_and_token(1) [OF redis inva ttl sb sc] session_inv_later [of up kv smem st1 now t2] later(1)
    by simp
  have t: "v_tok (view_of kv smem st1 t2) ?h = Some (d\<lparr>rt_UsedAt := Some (Unix now)\<rparr>)" and unrev: "rt_RevokedAt d = None"
    using redis_server.RefreshTokens_rotated [OF redis inv ttl tok first fresh(1)] later by simp_all
  define stf where "stf = fst (RevokeFamily R st1 t2 (rt_FamilyID d))"
  note fam = redis_server.RevokeFamily_ok [OF redis inv1, where f = "rt_FamilyID d", folded stf_def]
  have st2: "st2 = fst (Store_Delete R stf t2 (rt_SessionID d))"
    using second by (simp add: redis_server.RefreshTokens_view [OF redis inv1] Let_def t unrev stf_def)
  note del = redis_server.Store_Delete_ok [OF redis fam(2), where i = "rt_SessionID d", folded st2]
  have notin: "?h2 \<notin> v_fam (view_of kv smem st1 t2) (rt_FamilyID d)"
    using fresh(3,4) va by (simp add: v1) (simp add: view_of_def)
  have "v_tok (view_of kv smem st2 t2) ?h2 = Some (new_refresh_token L rnd now (uuid_Parse0 (lib_uuid L) (rt_UserID d))
        (uuid_Parse0 (lib_uuid L) (rt_OrgID d)) (rt_ClientID d) (rt_Scopes d))"
    using notin del(3) [OF order_refl] fam(3) [OF order_refl] later(4) lr by (simp add: v1)
  moreover have "v_sess (view_of kv smem st2 t2) (lr_SessionID lr) =
      Some (stored_session (ses_ttl s) now [] (x\<lparr>sd_ID := uuid_String (lib_uuid L) (rnd_session rnd), sd_IPAddress := ip\<rparr>))"
    using fresh(2) del(3) [OF order_refl] fam(3) [OF order_refl] later(3) lr by (simp add: v1)
  ultimately show ?thesis
    by (simp add: redis_server.GetByHash_view [OF redis del(2)] redis_server.Store_Get_view [OF redis del(2)] lr stored_session_def)
qed

lemma reuse_spares_rotated_token_witness:
  "\<exists>d2. GetByHash mem_redis (fst (RefreshTokens demo_libs mem_redis demo_sessions
       (fst (RefreshTokens demo_libs mem_redis demo_sessions demo_login 5 (demo_rand 100) demo_token ''ip'')) 6
       (demo_rand 200) demo_token ''other'')) 6 (HashToken (\<lambda>x. x) (GenerateRefreshToken (uuid_String bits_uuid 100))) = Inr (Some d2) \<and>
     rt_RevokedAt d2 = None"
proof -
  obtain lr where lr: "RefreshTokens demo_libs mem_redis demo_sessions demo_login 5 (demo_rand 100) demo_token ''ip'' =
     (fst (RefreshTokens demo_libs mem_redis demo_sessions demo_login 5 (demo_rand 100) demo_token ''ip''), Inr lr)"
     "lr_RefreshToken lr = GenerateRefreshToken (uuid_String bits_uuid 100)" "lr_SessionID lr = uuid_String bits_uuid 100"
    using demo_refresh_ok by blast
  let ?d = "new_refresh_token demo_libs (demo_rand 7) 0 1 2 [] []"
  have ne: "HashToken (\<lambda>x. x) (GenerateRefreshToken (uuid_String bits_uuid 100)) \<noteq> HashToken (\<lambda>x. x) demo_token"
    using demo_uuid_fresh by (simp add: HashToken_def GenerateRefreshToken_def demo_token_def)
  have f: "HashToken (lib_sha256 demo_libs) (lr_RefreshToken lr) \<noteq> HashToken (lib_sha256 demo_libs) demo_token"
    "lr_SessionID lr \<noteq> rt_SessionID ?d" "uuid_String (lib_uuid demo_libs) (rnd_family (demo_rand 100)) \<noteq> rt_FamilyID ?d"
    "HashToken (lib_sha256 demo_libs) (lr_RefreshToken lr) \<notin> mem_smem demo_login 6 (familyKey (rt_FamilyID ?d))"
    using ne demo_uuid_fresh demo_login_ok(4) [of 6] by (simp_all add: lr view_of_def)
  have t: "5 \<le> (6 :: int)" "6 < 5 + Seconds (rt_ExpiresAt ?d - Unix 5)" "6 < 5 + ses_ttl demo_sessions" "6 < 5 + 8 * time_Hour"
    by (simp_all add: Unix_def Seconds_def)
  have inv: "session_inv mem_up mem_kv mem_smem demo_login 5" by (rule session_inv_later [OF demo_login_ok(1)]) simp
  have ttl: "0 < ses_ttl demo_sessions" by simp
  from reuse_spares_rotated_token [OF mem.redis_server_axioms inv ttl demo_token_found lr(1) f t prod.collapse [symmetric]]
  show ?thesis by (fastforce simp: lr(2))
qed

text \<open>
  C8: A delegated token is issued only for a subject token that verifies now and whose session is
  not revoked; it verifies in turn, names the same subject and session, and its actor
  claim is that subject.
\<close>

theorem delegated_token_sound:
  assumes redis: "redis_server R up kv smem" and inv: "session_inv up kv smem st now"
    and lib: "jwt_library (lib_jwt L) key_ok" and uu: "uuid_format (lib_uuid L)"
    and wf: "rkm_wf (js_keyManager (ses_jwt s))"
    and del: "IssueDelegatedAccessToken L R s st now jti subj = Inr tok"
    and t: "now \<le> t" "t < (now + js_tokenTTL (ses_jwt s)) div time_Second * time_Second"
  shows "\<exists>orig c. VerifyAccessToken L R s st now subj = Inr orig \<and>
    IsSessionRevoked R st now (c_SessionID orig) = Inr False \<and>
    jwt_VerifyAccessToken (lib_jwt L) (ses_jwt s) t tok = Inr c \<and>
    uuid_Parse (lib_uuid L) (c_Subject c) = uuid_Parse (lib_uuid L) (c_Subject orig) \<and>
    c_SessionID c = c_SessionID orig \<and> c_Roles c = c_Roles orig \<and> c_Act c = Some (c_Subject c)"
proof -
  from del obtain orig u where o: "VerifyAccessToken L R s st now subj = Inr orig"
    and u: "uuid_Parse (lib_uuid L) (c_Subject orig) = Some u"
    by (auto simp: IssueDelegatedAccessToken_def split: sum.splits option.splits)
  define g where "g = (if c_OrgID orig = [] then uuid_Nil else uuid_Parse0 (lib_uuid L) (c_OrgID orig))"
  define cl where "cl = Claims0\<lparr>c_SessionID := c_SessionID orig, c_ClientID := c_ClientID orig,
     c_Roles := c_Roles orig, c_Scope := c_Scope orig, c_BranchID := c_BranchID orig,
     c_Act := Some (uuid_String (lib_uuid L) u)\<rparr>"
  from del o u obtain at where issue: "IssueAccessToken (lib_uuid L) (lib_jwt L) (ses_jwt s) now
      (uuid_String (lib_uuid L) jti) (c_SessionID orig) u g cl = Inr (tok, at)"
    by (auto simp: IssueDelegatedAccessToken_def Let_def g_def cl_def split: sum.splits)
  from issue obtain km where km: "ActiveKey (js_keyManager (ses_jwt s)) = Some km"
    by (auto simp: IssueAccessToken_def split: option.splits)
  have "jwt_VerifyAccessToken (lib_jwt L) (ses_jwt s) t tok = Inr (access_claims (lib_uuid L) (lib_jwt L) (ses_jwt s) now
      (uuid_String (lib_uuid L) jti) (c_SessionID orig) u g cl)"
    using jwt_library.verify_issued_by [OF lib issue km ActiveKey_stored [OF wf km, THEN conjunct1] refl t(2)] .
  moreover have "IsSessionRevoked R st now (c_SessionID orig) = Inr False"
    using o by (auto simp: VerifyAccessToken_def redis_server.IsSessionRevoked_view [OF redis inv] split: sum.splits if_splits)
  ultimately show ?thesis
    using o u uuid_format.parse_string [OF uu, of u] by (simp add: access_claims_fields cl_def)
qed

lemma delegated_token_sound_witness:
  "\<exists>subj tok c. IssueDelegatedAccessToken demo_libs mem_redis demo_sessions [] 0 9 subj = Inr tok \<and>
     jwt_VerifyAccessToken field_jwt demo_jwt 1 tok = Inr c \<and> c_Act c = Some (c_Subject c) \<and> c_SessionID c = ''sid''"
proof -
  obtain subj at where issue: "IssueAccessToken bits_uuid field_jwt demo_jwt 0 ''j'' ''sid'' 1 2 Claims0 = Inr (subj, at)"
    using field_jwt.issue_ok [OF demo_jwt_key TrueI] by blast
  let ?c = "access_claims bits_uuid field_jwt demo_jwt 0 ''j'' ''sid'' 1 2 Claims0"
  have early: "t < (0 + js_tokenTTL demo_jwt) div time_Second * time_Second" if "t \<le> 1" for t
    using that by (simp add: demo_jwt_def jwt_NewService_def)
  have v: "jwt_VerifyAccessToken field_jwt demo_jwt 0 subj = Inr ?c"
    using field_jwt.verify_issued_by [OF issue demo_jwt_key ActiveKey_stored [OF demo_jwt_wf demo_jwt_key, THEN conjunct1] refl early] by simp
  have o: "VerifyAccessToken demo_libs mem_redis demo_sessions [] 0 subj = Inr ?c"
    by (simp add: mem.VerifyAccessToken_view [OF mem_empty_inv] v) (simp add: view_of_def mem_read_defs)
  obtain tok where tok: "IssueDelegatedAccessToken demo_libs mem_redis demo_sessions [] 0 9 subj = Inr tok"
  proof -
    have "is_ok (IssueDelegatedAccessToken demo_libs mem_redis demo_sessions [] 0 9 subj)"
      using field_jwt.issue_ok [OF demo_jwt_key TrueI, of bits_uuid 0 "uuid_String bits_uuid 9" "''sid''" 1]
      by (auto simp: IssueDelegatedAccessToken_def Let_def o access_claims_fields bits_uuid.parse_string is_ok_iff
          split: sum.splits) (metis Inl_Inr_False)+
    then show thesis using that by (auto simp: is_ok_iff)
  qed
  have "jwt_library (lib_jwt demo_libs) (\<lambda>_. True)" "uuid_format (lib_uuid demo_libs)" "rkm_wf (js_keyManager (ses_jwt demo_sessions))"
      "0 \<le> (1 :: int)" "1 < (0 + js_tokenTTL (ses_jwt demo_sessions)) div time_Second * time_Second"
    using field_jwt.jwt_library_axioms bits_uuid.uuid_format_axioms demo_jwt_wf early [of 1] by simp_all
  from delegated_token_sound [OF mem.redis_server_axioms mem_empty_inv this(1-3) tok this(4,5)] o tok
  show ?thesis by (auto simp: access_claims_fields)
qed

end
