(* ===== verification/OAuth2.thy ===== *)
theory OAuth2
  imports PostgresOAuth SessionProps
begin

text \<open>
  Package internal/service/oauth2: proof keys and authorization codes (authcode.go),
  clients (client.go), tokens (token.go) and OpenID Connect (oidc.go). The authorization
  code service is written against the interface \<^verbatim>\<open>AuthCodeStore\<close>, a record of operations on
  an abstract store, whose laws are the locale \<open>auth_code_store\<close>; the Postgres repository
  interprets it. The client service has the repository of clients. Random bytes and fresh
  UUIDs are arguments.
\<close>

section \<open>authcode.go\<close>

record 's AuthCodeStore =
  acs_Create :: "'s \<Rightarrow> AuthCode \<Rightarrow> 's \<times> unit result"
  acs_GetByCode :: "'s \<Rightarrow> string \<Rightarrow> AuthCode result"
  acs_MarkUsed :: "'s \<Rightarrow> string \<Rightarrow> 's \<times> unit result"
  acs_Delete :: "'s \<Rightarrow> string \<Rightarrow> 's \<times> unit result"

definition ErrCodeAlreadyUsed :: error where
  "ErrCodeAlreadyUsed = Sentinel ''ErrCodeAlreadyUsed''"

definition ErrCodeExpired :: error where
  "ErrCodeExpired = Sentinel ''ErrCodeExpired''"

definition ErrInvalidCodeVerifier :: error where
  "ErrInvalidCodeVerifier = Sentinel ''ErrInvalidCodeVerifier''"

definition ErrInvalidClient :: error where
  "ErrInvalidClient = Sentinel ''ErrInvalidClient''"

definition ErrInvalidRedirectURI :: error where
  "ErrInvalidRedirectURI = Sentinel ''ErrInvalidRedirectURI''"

definition ErrInvalidGrant :: error where
  "ErrInvalidGrant = Sentinel ''ErrInvalidGrant''"

definition ErrUnauthorizedClient :: error where
  "ErrUnauthorizedClient = Sentinel ''ErrUnauthorizedClient''"

lemmas oauth2_errors = ErrCodeAlreadyUsed_def ErrCodeExpired_def ErrInvalidCodeVerifier_def ErrInvalidClient_def
  ErrInvalidRedirectURI_def ErrInvalidGrant_def ErrUnauthorizedClient_def

definition GenerateCodeVerifier :: "string \<Rightarrow> string" where
  "GenerateCodeVerifier bytes = RawEncodeToString True bytes"

definition GenerateCodeChallenge :: "libs \<Rightarrow> string \<Rightarrow> string" where
  "GenerateCodeChallenge L verifier = RawEncodeToString True (lib_sha256 L verifier)"

definition VerifyCodeChallenge :: "libs \<Rightarrow> string \<Rightarrow> string \<Rightarrow> bool" where
  "VerifyCodeChallenge L verifier challenge = (GenerateCodeChallenge L verifier = challenge)"

definition generateCode :: "string \<Rightarrow> string" where
  "generateCode bytes = RawEncodeToString True bytes"

record AuthCodeParams =
  acp_ClientID :: string
  acp_RedirectURI :: string
  acp_Scope :: string
  acp_UserID :: uuid
  acp_Username :: string
  acp_Email :: string
  acp_OrgID :: uuid
  acp_Roles :: "string list"
  acp_BranchID :: string
  acp_CodeChallenge :: string
  acp_CodeChallengeMethod :: string

definition new_auth_code :: "time \<Rightarrow> string \<Rightarrow> AuthCodeParams \<Rightarrow> AuthCode" where
  "new_auth_code now bytes params =
     \<lparr>ac_Code = generateCode bytes, ac_ClientID = acp_ClientID params, ac_RedirectURI = acp_RedirectURI params,
      ac_Scope = acp_Scope params, ac_UserID = acp_UserID params, ac_Username = acp_Username params,
      ac_Email = acp_Email params, ac_OrgID = acp_OrgID params, ac_Roles = acp_Roles params,
      ac_BranchID = acp_BranchID params, ac_CodeChallenge = acp_CodeChallenge params,
      ac_CodeChallengeMethod = acp_CodeChallengeMethod params, ac_ExpiresAt = now + 5 * time_Minute, ac_CodeUsed = False\<rparr>"

definition CreateAuthCode :: "'s AuthCodeStore \<Rightarrow> 's \<Rightarrow> time \<Rightarrow> string \<Rightarrow> AuthCodeParams \<Rightarrow> 's \<times> AuthCode result" where
  "CreateAuthCode S st now bytes params =
     (case acs_Create S st (new_auth_code now bytes params) of
        (st', Inl e) \<Rightarrow> (st', Inl e)
      | (st', Inr _) \<Rightarrow> (st', Inr (new_auth_code now bytes params)))"

text \<open>The reading half of \<^verbatim>\<open>ExchangeAuthCode\<close>: the lookup and the checks, up to \<^verbatim>\<open>MarkUsed\<close>.\<close>

definition exchange_check :: "libs \<Rightarrow> 's AuthCodeStore \<Rightarrow> 's \<Rightarrow> time \<Rightarrow> string \<Rightarrow> string \<Rightarrow> AuthCode result" where
  "exchange_check L S st now code codeVerifier =
     (case acs_GetByCode S st code of
        Inl e \<Rightarrow> Inl e
      | Inr authCode \<Rightarrow>
          if ac_CodeUsed authCode then Inl ErrCodeAlreadyUsed
          else if now > ac_ExpiresAt authCode then Inl ErrCodeExpired
          else if ac_CodeChallenge authCode \<noteq> [] \<and> \<not> VerifyCodeChallenge L codeVerifier (ac_CodeChallenge authCode)
          then Inl ErrInvalidCodeVerifier
          else Inr authCode)"

definition ExchangeAuthCode :: "libs \<Rightarrow> 's AuthCodeStore \<Rightarrow> 's \<Rightarrow> time \<Rightarrow> string \<Rightarrow> string \<Rightarrow> 's \<times> AuthCode result" where
  "ExchangeAuthCode L S st now code codeVerifier =
     (case exchange_check L S st now code codeVerifier of
        Inl e \<Rightarrow> (st, Inl e)
      | Inr authCode \<Rightarrow> (fst (acs_MarkUsed S st code), Inr authCode))"

section \<open>client.go\<close>

record CreateClientParams =
  ccp_Name :: string
  ccp_Description :: string
  ccp_ClientType :: string
  ccp_TokenEndpointAuthMethod :: string
  ccp_AllowedScopes :: "string list"
  ccp_AllowedRedirectURIs :: "string list"
  ccp_AllowedOrigins :: "string list"
  ccp_TokenExpiration :: int
  ccp_RefreshTokenExpiration :: int
  ccp_AllowMultipleTokens :: bool
  ccp_SkipConsentScreen :: bool

definition new_client :: "time \<Rightarrow> uuid \<Rightarrow> uuid \<Rightarrow> CreateClientParams \<Rightarrow> string \<Rightarrow> Client" where
  "new_client now clientID orgID params secretHash =
     \<lparr>cl_ID = clientID, cl_ClientID = [], cl_OrgID = orgID, cl_Name = ccp_Name params, cl_Description = ccp_Description params,
      cl_AppURL = [], cl_IconName = [], cl_IconColor = [], cl_ClientType = ccp_ClientType params,
      cl_TokenEndpointAuthMethod = ccp_TokenEndpointAuthMethod params, cl_AllowedScopes = ccp_AllowedScopes params,
      cl_AllowedRedirectURIs = ccp_AllowedRedirectURIs params, cl_AllowedOrigins = ccp_AllowedOrigins params,
      cl_ClientSecretHash = secretHash, cl_PublicKeyJWK = [], cl_TokenExpiration = ccp_TokenExpiration params,
      cl_RefreshTokenExpiration = ccp_RefreshTokenExpiration params, cl_AllowMultipleTokens = ccp_AllowMultipleTokens params,
      cl_SkipConsentScreen = ccp_SkipConsentScreen params, cl_IsActive = True, cl_CreatedAt = now, cl_UpdatedAt = now\<rparr>"

definition generateClientSecret :: "string \<Rightarrow> string" where
  "generateClientSecret bytes = EncodeToString True bytes"

definition hashSecret :: "libs \<Rightarrow> string \<Rightarrow> string" where
  "hashSecret L secret = EncodeToString False (lib_sha256 L secret)"

definition CreateWithSecretHash ::
  "libs \<Rightarrow> db \<Rightarrow> time \<Rightarrow> uuid \<Rightarrow> uuid \<Rightarrow> CreateClientParams \<Rightarrow> string \<Rightarrow> db \<times> Client result" where
  "CreateWithSecretHash L db now clientID orgID params secretHash =
     (let client = new_client now clientID orgID params secretHash
      in case Clients_CreateClient (lib_uuid L) db client of
           (db', Inl e) \<Rightarrow> (db', Inl (Wrapf ''oauth2.ClientService.Create'' e))
         | (db', Inr _) \<Rightarrow> (db', Inr client))"

text \<open>
  \<open>bytes\<close>: the result of reading 32 random bytes. \<open>nilSlice\<close>: one of the three lists of the
  parameters is a nil slice, which is written as \<^verbatim>\<open>NULL\<close> into a column that is \<^verbatim>\<open>NOT NULL\<close>
  (\<^verbatim>\<open>CreateWithSecretHash\<close> replaces nil by the empty list first).
\<close>

definition Client_Create ::
  "libs \<Rightarrow> db \<Rightarrow> time \<Rightarrow> uuid \<Rightarrow> string result \<Rightarrow> uuid \<Rightarrow> CreateClientParams \<Rightarrow> bool \<Rightarrow> db \<times> Client result" where
  "Client_Create L db now clientID bytes orgID params nilSlice =
     (let create = (\<lambda>secretHash.
        if \<not> nilSlice then CreateWithSecretHash L db now clientID orgID params secretHash
        else (let client = new_client now clientID orgID params secretHash
              in case pg_Exec ''postgres.OAuth2ClientRepository.CreateClient'' db
                     (Inl (case clients_check client of Some e \<Rightarrow> e | None \<Rightarrow> pg_not_null)) of
                   (db', Inl e) \<Rightarrow> (db', Inl (Wrapf ''oauth2.ClientService.Create'' e))
                 | (db', Inr _) \<Rightarrow> (db', Inr client)))
      in if ccp_TokenEndpointAuthMethod params \<noteq> ''none''
         then (case bytes of
             Inl e \<Rightarrow> (db, Inl (Wrapf ''generate client secret'' e))
           | Inr b \<Rightarrow> create (hashSecret L (generateClientSecret b)))
         else create [])"

definition GetByClientID :: "db \<Rightarrow> string \<Rightarrow> Client result" where
  "GetByClientID db clientID =
     (case Clients_GetClient db clientID of Inl e \<Rightarrow> Inl (Wrapf ''oauth2.ClientService.Get'' e) | Inr c \<Rightarrow> Inr c)"

definition Client_Delete :: "libs \<Rightarrow> db \<Rightarrow> uuid \<Rightarrow> db \<times> unit result" where
  "Client_Delete L db clientID =
     (case Clients_DeleteClient db (uuid_String (lib_uuid L) clientID) of
        (db', Inl e) \<Rightarrow> (db', Inl (Wrapf ''oauth2.ClientService.Delete'' e)) | (db', Inr _) \<Rightarrow> (db', Inr ()))"

definition Client_ListApps :: "db \<Rightarrow> AppEntry list result" where
  "Client_ListApps db = Clients_ListApps db"

section \<open>token.go\<close>

definition pg_codes :: "uuid_pkg \<Rightarrow> db AuthCodeStore" where
  "pg_codes U = \<lparr>acs_Create = Codes_Create U, acs_GetByCode = Codes_GetByCode, acs_MarkUsed = Codes_MarkUsed,
     acs_Delete = Codes_Delete\<rparr>"

record TokenResponse =
  tr_AccessToken :: string
  tr_TokenType :: string
  tr_ExpiresIn :: int
  tr_RefreshToken :: string
  tr_Scope :: string
  tr_IDToken :: string

record IntrospectionResponse =
  ir_Active :: bool
  ir_ClientID :: string
  ir_Username :: string
  ir_TokenType :: string
  ir_Exp :: int
  ir_Iat :: int
  ir_Sub :: string
  ir_Scope :: string

text \<open>The claims of the token a code is exchanged for.\<close>

definition code_claims :: "libs \<Rightarrow> Client \<Rightarrow> AuthCode \<Rightarrow> Claims" where
  "code_claims L client authCode = Claims0\<lparr>c_ClientID := uuid_String (lib_uuid L) (cl_ID client), c_Scope := ac_Scope authCode,
     c_Username := ac_Username authCode, c_Email := ac_Email authCode, c_Roles := ac_Roles authCode,
     c_BranchID := ac_BranchID authCode\<rparr>"

text \<open>
  \<open>rnd\<close> holds what the call draws: the session's and the token's UUID and the bytes of the
  refresh token. The error of \<^verbatim>\<open>StoreSession\<close> is ignored.
\<close>

definition ExchangeCodeForTokens ::
  "libs \<Rightarrow> 'r redis \<Rightarrow> session_Service \<Rightarrow> db \<times> 'r \<Rightarrow> time \<Rightarrow> session_rand \<Rightarrow> string \<Rightarrow> string \<Rightarrow> string
     \<Rightarrow> (db \<times> 'r) \<times> TokenResponse result" where
  "ExchangeCodeForTokens L R ses st now rnd code codeVerifier redirectURI =
     (case st of (db, rs) \<Rightarrow>
      case ExchangeAuthCode L (pg_codes (lib_uuid L)) db now code codeVerifier of
        (db1, Inl e) \<Rightarrow> ((db1, rs), Inl (Wrapf ''oauth2.TokenService.Exchange'' e))
      | (db1, Inr authCode) \<Rightarrow>
        if ac_RedirectURI authCode \<noteq> redirectURI then ((db1, rs), Inl ErrInvalidRedirectURI)
        else (case GetByClientID db1 (ac_ClientID authCode) of
            Inl e \<Rightarrow> ((db1, rs), Inl (Wrapf ''oauth2.TokenService.Exchange'' e))
          | Inr client \<Rightarrow>
            if \<not> cl_IsActive client then ((db1, rs), Inl ErrUnauthorizedClient)
            else (let sessionID = uuid_String (lib_uuid L) (rnd_session rnd)
              in case IssueAccessToken (lib_uuid L) (lib_jwt L) (ses_jwt ses) now (uuid_String (lib_uuid L) (rnd_jti rnd)) sessionID
                        (ac_UserID authCode) (ac_OrgID authCode) (code_claims L client authCode) of
                   Inl e \<Rightarrow> ((db1, rs), Inl (Wrapf ''oauth2.TokenService.Exchange'' e))
                 | Inr (token, access) \<Rightarrow>
                     ((db1, fst (StoreSession R ses rs now [] sessionID (uuid_String (lib_uuid L) (ac_UserID authCode))
                         (uuid_String (lib_uuid L) (ac_OrgID authCode)))),
                      Inr \<lparr>tr_AccessToken = token, tr_TokenType = ''Bearer'',
                        tr_ExpiresIn = whole_Seconds (at_ExpiresAt access - now),
                        tr_RefreshToken = GenerateRefreshToken (rnd_bytes rnd), tr_Scope = ac_Scope authCode, tr_IDToken = []\<rparr>))))"

definition ClientCredentials ::
  "libs \<Rightarrow> session_Service \<Rightarrow> db \<Rightarrow> time \<Rightarrow> uuid \<Rightarrow> uuid \<Rightarrow> string \<Rightarrow> string \<Rightarrow> TokenResponse result" where
  "ClientCredentials L ses db now jti userID clientID scope =
     (case GetByClientID db clientID of
        Inl e \<Rightarrow> Inl (Wrapf ''oauth2.TokenService.ClientCredentials'' e)
      | Inr client \<Rightarrow>
        if \<not> IsConfidential client then Inl ErrUnauthorizedClient
        else if \<not> HasGrant client ''client_credentials'' then Inl ErrInvalidGrant
        else (case IssueAccessToken (lib_uuid L) (lib_jwt L) (ses_jwt ses) now (uuid_String (lib_uuid L) jti) (''m2m-'' @ clientID)
                userID (cl_OrgID client) (Claims0\<lparr>c_ClientID := clientID, c_Scope := scope\<rparr>) of
            Inl e \<Rightarrow> Inl (Wrapf ''oauth2.TokenService.ClientCredentials'' e)
          | Inr (token, access) \<Rightarrow> Inr \<lparr>tr_AccessToken = token, tr_TokenType = ''Bearer'',
              tr_ExpiresIn = whole_Seconds (at_ExpiresAt access - now), tr_RefreshToken = [], tr_Scope = scope, tr_IDToken = []\<rparr>))"

text \<open>A verified token carries both dates: the service signs no other.\<close>

definition IntrospectToken :: "libs \<Rightarrow> session_Service \<Rightarrow> time \<Rightarrow> string \<Rightarrow> IntrospectionResponse" where
  "IntrospectToken L ses now token =
     (case jwt_VerifyAccessToken (lib_jwt L) (ses_jwt ses) now token of
        Inl _ \<Rightarrow> \<lparr>ir_Active = False, ir_ClientID = [], ir_Username = [], ir_TokenType = [], ir_Exp = 0, ir_Iat = 0, ir_Sub = [], ir_Scope = []\<rparr>
      | Inr verified \<Rightarrow> \<lparr>ir_Active = True, ir_ClientID = c_ClientID verified, ir_Username = c_Username verified,
          ir_TokenType = ''access_token'', ir_Exp = Unix (case c_ExpiresAt verified of None \<Rightarrow> 0 | Some t \<Rightarrow> t),
          ir_Iat = Unix (case c_IssuedAt verified of None \<Rightarrow> 0 | Some t \<Rightarrow> t), ir_Sub = c_Subject verified, ir_Scope = c_Scope verified\<rparr>)"

section \<open>oidc.go\<close>

record OIDCDiscovery =
  od_Issuer :: string
  od_AuthorizationEndpoint :: string
  od_TokenEndpoint :: string
  od_UserInfoEndpoint :: string
  od_JwksURI :: string
  od_RegistrationEndpoint :: string
  od_ScopesSupported :: "string list"
  od_ResponseTypesSupported :: "string list"
  od_GrantTypesSupported :: "string list"
  od_SubjectTypesSupported :: "string list"
  od_IDTokenSigningAlgValuesSupported :: "string list"
  od_TokenEndpointAuthMethodsSupported :: "string list"
  od_CodeChallengeMethodsSupported :: "string list"

definition Discovery :: OIDCDiscovery where
  "Discovery = \<lparr>od_Issuer = ''https://auth7.bank.co.id'',
     od_AuthorizationEndpoint = ''https://auth7.bank.co.id/oauth2/authorize'',
     od_TokenEndpoint = ''https://auth7.bank.co.id/oauth2/token'',
     od_UserInfoEndpoint = ''https://auth7.bank.co.id/oauth2/userinfo'',
     od_JwksURI = ''https://auth7.bank.co.id/.well-known/jwks.json'',
     od_RegistrationEndpoint = ''https://auth7.bank.co.id/oauth2/register'',
     od_ScopesSupported = [''openid'', ''profile'', ''email'', ''roles''],
     od_ResponseTypesSupported = [''code''],
     od_GrantTypesSupported = [''authorization_code'', ''refresh_token'', ''client_credentials''],
     od_SubjectTypesSupported = [''public''],
     od_IDTokenSigningAlgValuesSupported = [''RS256''],
     od_TokenEndpointAuthMethodsSupported = [''client_secret_basic'', ''client_secret_post''],
     od_CodeChallengeMethodsSupported = [''S256'']\<rparr>"

text \<open>\<^verbatim>\<open>UserInfoResponse\<close>; the fields the service never sets are left out.\<close>

record UserInfoResponse =
  ui_Sub :: string
  ui_Name :: string
  ui_Email :: string
  ui_Scope :: string

definition UserInfo :: "libs \<Rightarrow> session_Service \<Rightarrow> time \<Rightarrow> string \<Rightarrow> UserInfoResponse result" where
  "UserInfo L ses now token =
     (case jwt_VerifyAccessToken (lib_jwt L) (ses_jwt ses) now token of
        Inl e \<Rightarrow> Inl (Wrapf ''verify token'' e)
      | Inr verified \<Rightarrow> Inr \<lparr>ui_Sub = c_Subject verified, ui_Name = c_Username verified, ui_Email = c_Email verified,
          ui_Scope = c_Scope verified\<rparr>)"

section \<open>The contract of the code store\<close>

text \<open>
  \<open>stored a\<close> is what a lookup returns for a created code \<open>a\<close>: a store may round the expiry
  down and normalise the branch, and keeps everything else.
\<close>

locale auth_code_store =
  fixes S :: "'s AuthCodeStore" and stored :: "AuthCode \<Rightarrow> AuthCode"
  assumes get_create: "acs_Create S st a = (st', Inr ()) \<Longrightarrow> acs_GetByCode S st' (ac_Code a) = Inr (stored a)"
    and create_fresh: "acs_Create S st a = (st', Inr ()) \<Longrightarrow> \<not> is_ok (acs_GetByCode S st (ac_Code a))"
    and get_create_other: "acs_Create S st a = (st', r) \<Longrightarrow> d \<noteq> ac_Code a \<or> r \<noteq> Inr () \<Longrightarrow> acs_GetByCode S st' d = acs_GetByCode S st d"
    and get_mark: "acs_GetByCode S st c = Inr a \<Longrightarrow> acs_GetByCode S (fst (acs_MarkUsed S st c)) c = Inr (a\<lparr>ac_CodeUsed := True\<rparr>)"
    and get_mark_other: "d \<noteq> c \<Longrightarrow> acs_GetByCode S (fst (acs_MarkUsed S st c)) d = acs_GetByCode S st d"
    and stored_eq: "stored a = a\<lparr>ac_BranchID := ac_BranchID (stored a), ac_ExpiresAt := ac_ExpiresAt (stored a)\<rparr>"
    and stored_expiry: "ac_ExpiresAt (stored a) \<le> ac_ExpiresAt a"
begin

definition spent :: "'s \<Rightarrow> string \<Rightarrow> bool" where
  "spent st c \<longleftrightarrow> (\<exists>a. acs_GetByCode S st c = Inr a \<and> ac_CodeUsed a)"

lemma spent_refused: "spent st c \<Longrightarrow> ExchangeAuthCode L S st now c v = (st, Inl ErrCodeAlreadyUsed)"
  by (auto simp: spent_def ExchangeAuthCode_def exchange_check_def)

lemma spent_mark: "spent st c \<Longrightarrow> spent (fst (acs_MarkUsed S st d)) c"
  by (cases "d = c") (auto simp: spent_def get_mark get_mark_other)

lemma spent_create: "spent st c \<Longrightarrow> spent (fst (CreateAuthCode S st now bytes params)) c"
proof -
  assume sp: "spent st c"
  let ?a = "new_auth_code now bytes params"
  obtain st' r where cr: "acs_Create S st ?a = (st', r)" by fastforce
  have "acs_GetByCode S st' c = acs_GetByCode S st c"
    by (rule get_create_other [OF cr]) (use sp create_fresh [of st ?a st'] cr in \<open>auto simp: spent_def\<close>)
  moreover have "fst (CreateAuthCode S st now bytes params) = st'"
    using cr by (auto simp: CreateAuthCode_def split: sum.splits)
  ultimately show "spent (fst (CreateAuthCode S st now bytes params)) c"
    using sp by (simp add: spent_def)
qed

lemma spent_exchange: "spent st c \<Longrightarrow> spent (fst (ExchangeAuthCode L S st now d v)) c"
  by (auto simp: ExchangeAuthCode_def spent_mark split: sum.splits)

lemma exchange_spends: "ExchangeAuthCode L S st now c v = (st', Inr a) \<Longrightarrow> spent st' c"
  by (auto simp: ExchangeAuthCode_def exchange_check_def spent_def get_mark split: sum.splits if_splits)

text \<open>A fresh code is accepted, with the right verifier, until the expiry the store kept.\<close>

lemma create_then_exchange:
  assumes create: "CreateAuthCode S st now bytes params = (st', Inr a)"
    and proof_key: "acp_CodeChallenge params \<noteq> [] \<Longrightarrow> GenerateCodeChallenge L v = acp_CodeChallenge params"
    and early: "now' \<le> ac_ExpiresAt (stored a)"
  shows "ac_Code a = generateCode bytes"
    and "ExchangeAuthCode L S st' now' (ac_Code a) v = (fst (acs_MarkUsed S st' (ac_Code a)), Inr (stored a))"
proof -
  have a: "a = new_auth_code now bytes params" and c: "acs_Create S st a = (st', Inr ())"
    using create by (auto simp: CreateAuthCode_def split: prod.splits sum.splits)
  show "ac_Code a = generateCode bytes" by (simp add: a new_auth_code_def)
  have "ac_CodeUsed (stored a) = ac_CodeUsed a" "ac_CodeChallenge (stored a) = ac_CodeChallenge a"
    by (subst stored_eq, simp)+
  then have "\<not> ac_CodeUsed (stored a)" "ac_CodeChallenge (stored a) = acp_CodeChallenge params"
    by (simp_all add: a new_auth_code_def)
  then show "ExchangeAuthCode L S st' now' (ac_Code a) v = (fst (acs_MarkUsed S st' (ac_Code a)), Inr (stored a))"
    using get_create [OF c] early proof_key by (auto simp: ExchangeAuthCode_def exchange_check_def VerifyCodeChallenge_def)
qed

end

interpretation pg_codes: auth_code_store "pg_codes U" "code_row U" for U
proof unfold_locales
  fix st st' :: db and a :: AuthCode and r d c
  show "acs_Create (pg_codes U) st a = (st', Inr ()) \<Longrightarrow> acs_GetByCode (pg_codes U) st' (ac_Code a) = Inr (code_row U a)"
    by (simp add: pg_codes_def Codes_Create_get)
  show "acs_Create (pg_codes U) st a = (st', Inr ()) \<Longrightarrow> \<not> is_ok (acs_GetByCode (pg_codes U) st (ac_Code a))"
    by (auto simp: pg_codes_def is_ok_iff dest!: Codes_CreateD(2) Codes_GetByCode_mem)
  show "acs_Create (pg_codes U) st a = (st', r) \<Longrightarrow> d \<noteq> ac_Code a \<or> r \<noteq> Inr () \<Longrightarrow>
      acs_GetByCode (pg_codes U) st' d = acs_GetByCode (pg_codes U) st d"
    using Codes_Create_get(2) [of U st a st' d]
    by (cases r) (auto simp: pg_codes_def Codes_Create_def pg_Exec_def split: if_splits)
  show "acs_GetByCode (pg_codes U) st c = Inr a \<Longrightarrow>
      acs_GetByCode (pg_codes U) (fst (acs_MarkUsed (pg_codes U) st c)) c = Inr (a\<lparr>ac_CodeUsed := True\<rparr>)"
    by (simp add: pg_codes_def Codes_MarkUsed_get)
  show "d \<noteq> c \<Longrightarrow> acs_GetByCode (pg_codes U) (fst (acs_MarkUsed (pg_codes U) st c)) d = acs_GetByCode (pg_codes U) st d"
    by (simp add: pg_codes_def Codes_MarkUsed_other)
  show "code_row U a = a\<lparr>ac_BranchID := ac_BranchID (code_row U a), ac_ExpiresAt := ac_ExpiresAt (code_row U a)\<rparr>"
    by (simp add: code_row_def)
  show "ac_ExpiresAt (code_row U a) \<le> ac_ExpiresAt a"
    by (simp add: code_row_def pg_ts_def minus_mod_eq_div_mult [symmetric])
qed

section \<open>Sequences and interleavings of exchanges\<close>

text \<open>\<open>code_run\<close>: any sequence of complete calls of the authorization code service.\<close>

inductive code_run :: "libs \<Rightarrow> 's AuthCodeStore \<Rightarrow> 's \<Rightarrow> 's \<Rightarrow> bool" for L S st where
  start: "code_run L S st st"
| create: "code_run L S st st1 \<Longrightarrow> code_run L S st (fst (CreateAuthCode S st1 now bytes params))"
| exchange: "code_run L S st st1 \<Longrightarrow> code_run L S st (fst (ExchangeAuthCode L S st1 now c v))"

text \<open>
  Concurrent calls of \<^verbatim>\<open>ExchangeAuthCode\<close> with the same code: each request first reads and
  checks, then marks the code, and other requests may run between the two statements.
\<close>

datatype exchange_pc = Ready | Checked AuthCode | Done "AuthCode result"

inductive exchange_step ::
  "libs \<Rightarrow> 's AuthCodeStore \<Rightarrow> time \<Rightarrow> string \<Rightarrow> string \<Rightarrow> 's \<times> exchange_pc list \<Rightarrow> 's \<times> exchange_pc list \<Rightarrow> bool"
  for L S now c v where
  check: "i < length pcs \<Longrightarrow> pcs ! i = Ready \<Longrightarrow> exchange_check L S st now c v = Inr a \<Longrightarrow>
    exchange_step L S now c v (st, pcs) (st, pcs[i := Checked a])"
| refuse: "i < length pcs \<Longrightarrow> pcs ! i = Ready \<Longrightarrow> exchange_check L S st now c v = Inl e \<Longrightarrow>
    exchange_step L S now c v (st, pcs) (st, pcs[i := Done (Inl e)])"
| mark: "i < length pcs \<Longrightarrow> pcs ! i = Checked a \<Longrightarrow>
    exchange_step L S now c v (st, pcs) (fst (acs_MarkUsed S st c), pcs[i := Done (Inr a)])"

lemma all_check:
  assumes "exchange_check L S st now c v = Inr a"
  shows "(exchange_step L S now c v)\<^sup>*\<^sup>* (st, ds @ replicate n Ready) (st, ds @ replicate n (Checked a))"
proof (induction n arbitrary: ds)
  case (Suc n)
  have "exchange_step L S now c v (st, ds @ Ready # replicate n Ready) (st, (ds @ Ready # replicate n Ready)[length ds := Checked a])"
    by (rule check) (use assms in auto)
  also have "(exchange_step L S now c v)\<^sup>*\<^sup>* (st, (ds @ Ready # replicate n Ready)[length ds := Checked a]) (st, (ds @ [Checked a]) @ replicate n (Checked a))"
    using Suc.IH [of "ds @ [Checked a]"] by simp
  finally show ?case by simp
qed simp

lemma all_mark:
  "\<exists>st'. (exchange_step L S now c v)\<^sup>*\<^sup>* (st, ds @ replicate n (Checked a)) (st', ds @ replicate n (Done (Inr a)))"
proof (induction n arbitrary: ds st)
  case 0
  show ?case by (rule exI [of _ st]) simp
next
  case (Suc n)
  let ?st1 = "fst (acs_MarkUsed S st c)"
  have "exchange_step L S now c v (st, ds @ Checked a # replicate n (Checked a)) (?st1, (ds @ Checked a # replicate n (Checked a))[length ds := Done (Inr a)])"
    by (rule mark) auto
  moreover obtain st' where "(exchange_step L S now c v)\<^sup>*\<^sup>* (?st1, (ds @ [Done (Inr a)]) @ replicate n (Checked a)) (st', (ds @ [Done (Inr a)]) @ replicate n (Done (Inr a)))"
    using Suc.IH by blast
  ultimately have "(exchange_step L S now c v)\<^sup>*\<^sup>* (st, ds @ Checked a # replicate n (Checked a)) (st', ds @ Done (Inr a) # replicate n (Done (Inr a)))"
    by (simp add: converse_rtranclp_into_rtranclp)
  then show ?case by auto
qed

section \<open>Properties\<close>

text \<open>
  C17: An authorization code is good for one exchange: once \<^verbatim>\<open>ExchangeAuthCode\<close> has returned
  it, every later exchange of the same code is refused as already used, whatever codes
  were created and exchanged in between and whatever the verifier.
\<close>

theorem auth_code_single_use:
  assumes "ExchangeAuthCode L (pg_codes U) db now c v = (db1, Inr a)" and "code_run L (pg_codes U) db1 db2"
  shows "ExchangeAuthCode L (pg_codes U) db2 now' c v' = (db2, Inl ErrCodeAlreadyUsed)"
proof -
  have "pg_codes.spent U db2 c"
    using assms(2)
    by induction (auto intro: pg_codes.exchange_spends [OF assms(1)] pg_codes.spent_create pg_codes.spent_exchange)
  then show ?thesis by (rule pg_codes.spent_refused)
qed

text \<open>
  Single use does not hold under concurrency: if one exchange of a code would be
  accepted, then any number of requests made at the same time can all be accepted,
  because the check and the marking are two statements.
\<close>

theorem exchange_race:
  assumes "exchange_check L (pg_codes U) db now c v = Inr a"
  shows "\<exists>db'. (exchange_step L (pg_codes U) now c v)\<^sup>*\<^sup>* (db, replicate n Ready) (db', replicate n (Done (Inr a)))"
proof -
  have "(exchange_step L (pg_codes U) now c v)\<^sup>*\<^sup>* (db, replicate n Ready) (db, replicate n (Checked a))"
    using all_check [OF assms, of "[]" n] by simp
  moreover obtain db' where "(exchange_step L (pg_codes U) now c v)\<^sup>*\<^sup>* (db, replicate n (Checked a)) (db', replicate n (Done (Inr a)))"
    using all_mark [of L "pg_codes U" now c v db "[]" n a] by auto
  ultimately show ?thesis by (blast intro: rtranclp_trans)
qed

section \<open>An instance\<close>

definition demo_code :: AuthCode where
  "demo_code = \<lparr>ac_Code = ''c1'', ac_ClientID = uuid_String bits_uuid 9, ac_RedirectURI = ''https://app/cb'', ac_Scope = ''openid'',
     ac_UserID = 5, ac_Username = ''ani'', ac_Email = ''ani@x.id'', ac_OrgID = 1, ac_Roles = [''teller''],
     ac_BranchID = uuid_String bits_uuid 3, ac_CodeChallenge = [], ac_CodeChallengeMethod = ''S256'',
     ac_ExpiresAt = 5 * time_Minute, ac_CodeUsed = False\<rparr>"

definition demo_code_db :: db where
  "demo_code_db = db_empty\<lparr>t_oauth2_authorization_codes := [demo_code]\<rparr>"

lemma demo_code_check: "exchange_check demo_libs (pg_codes bits_uuid) demo_code_db 7 ''c1'' [] = Inr demo_code"
  by (simp add: exchange_check_def pg_codes_def Codes_GetByCode_def pg_QueryRow_def demo_code_db_def db_empty_def demo_code_def)

theorem auth_code_single_use_witness:
  "\<exists>db1. ExchangeAuthCode demo_libs (pg_codes bits_uuid) demo_code_db 7 ''c1'' [] = (db1, Inr demo_code) \<and>
     ExchangeAuthCode demo_libs (pg_codes bits_uuid) db1 8 ''c1'' [] = (db1, Inl ErrCodeAlreadyUsed)"
proof -
  let ?db1 = "fst (acs_MarkUsed (pg_codes bits_uuid) demo_code_db ''c1'')"
  have e: "ExchangeAuthCode demo_libs (pg_codes bits_uuid) demo_code_db 7 ''c1'' [] = (?db1, Inr demo_code)"
    by (simp add: ExchangeAuthCode_def demo_code_check)
  show ?thesis using e auth_code_single_use [OF e code_run.start, of 8 "[]"] by blast
qed

theorem exchange_race_witness:
  "\<exists>db'. (exchange_step demo_libs (pg_codes bits_uuid) 7 ''c1'' [])\<^sup>*\<^sup>* (demo_code_db, [Ready, Ready]) (db', [Done (Inr demo_code), Done (Inr demo_code)])"
  using exchange_race [OF demo_code_check, of 2] by (simp add: numeral_2_eq_2)

end
