(* ===== verification/OAuth2Rest.thy ===== *)
theory OAuth2Rest
  imports OAuth2
begin

text \<open>
  The OAuth2 endpoints, internal/api/rest/oauth2.go: authorization, the token endpoint with
  its grants, introspection, user info and dynamic client registration. A request is its
  query, its form and its \<^verbatim>\<open>Authorization\<close> header; a JSON body is the record it binds to
  (\<open>None\<close>: it does not bind). A response keeps the status and the field \<^verbatim>\<open>error\<close>; the texts of
  \<^verbatim>\<open>error_description\<close> and the logging are left out.
\<close>

section \<open>Requests and the server\<close>

type_synonym params = "(string \<times> string) list"

definition gin_Query :: "params \<Rightarrow> string \<Rightarrow> string" where
  "gin_Query ps key = (case map_of ps key of None \<Rightarrow> [] | Some v \<Rightarrow> v)"

definition gin_DefaultQuery :: "params \<Rightarrow> string \<Rightarrow> string \<Rightarrow> string" where
  "gin_DefaultQuery ps key d = (case map_of ps key of None \<Rightarrow> d | Some v \<Rightarrow> v)"

record request =
  rq_query :: params
  rq_form :: params
  rq_Authorization :: string

abbreviation PostForm :: "request \<Rightarrow> string \<Rightarrow> string" where
  "PostForm rq key \<equiv> gin_Query (rq_form rq) key"

text \<open>
  The dependencies of the server; the flags tell which of the optional services are set
  (cmd/server/start.go sets all of them).
\<close>

record 'r server =
  sv_libs :: libs
  sv_redis :: "'r redis"
  sv_SessionSvc :: session_Service
  sv_has_SessionSvc :: bool
  sv_has_ClientSvc :: bool
  sv_has_AuthCodeSvc :: bool
  sv_has_TokenSvc :: bool
  sv_has_OIDCSvc :: bool
  sv_DefaultOrgID :: string

section \<open>Helpers\<close>

text \<open>\<^verbatim>\<open>http.Request.BasicAuth\<close> of the standard library: the scheme is compared without case.\<close>

definition http_BasicAuth :: "string \<Rightarrow> (string \<times> string) option" where
  "http_BasicAuth auth =
     (if \<not> strings_EqualFold (take 6 auth) ''Basic '' then None
      else (case DecodeString False (drop 6 auth) of
          None \<Rightarrow> None
        | Some cs \<Rightarrow> if CHR '':'' \<in> set cs then Some (takeWhile (\<lambda>c. c \<noteq> CHR '':'') cs, tl (dropWhile (\<lambda>c. c \<noteq> CHR '':'') cs)) else None))"

definition parseBasicAuth :: "string \<Rightarrow> (string \<times> string) option" where
  "parseBasicAuth auth =
     (if auth = [] then None
      else (case strings_SplitN2 auth (CHR '' '') of
          [scheme, encoded] \<Rightarrow>
            if scheme \<noteq> ''Basic'' then None
            else (case DecodeString False encoded of
                None \<Rightarrow> None
              | Some payload \<Rightarrow> (case strings_SplitN2 payload (CHR '':'') of [u, p] \<Rightarrow> Some (u, p) | _ \<Rightarrow> None))
        | _ \<Rightarrow> None))"

definition verifyClientSecret :: "libs \<Rightarrow> string \<Rightarrow> string \<Rightarrow> bool" where
  "verifyClientSecret L plainSecret storedHash =
     (if storedHash = [] then False
      else (let h = lib_sha256 L plainSecret
            in if hex_EncodeToString h = storedHash then True else EncodeToString False h = storedHash))"

definition hashClientSecret :: "libs \<Rightarrow> string \<Rightarrow> string" where
  "hashClientSecret L secret = EncodeToString False (lib_sha256 L secret)"

definition dcrGenerateSecret :: "string \<Rightarrow> string" where
  "dcrGenerateSecret bytes = EncodeToString True bytes"

definition mapOAuthError :: "error \<Rightarrow> nat \<times> string" where
  "mapOAuthError err =
     (if errors_Is err ErrInvalidClient then (401, ''invalid_client'')
      else if errors_Is err ErrInvalidGrant then (400, ''invalid_grant'')
      else if errors_Is err ErrCodeAlreadyUsed then (400, ''invalid_grant'')
      else if errors_Is err ErrCodeExpired then (400, ''invalid_grant'')
      else if errors_Is err ErrInvalidCodeVerifier then (400, ''invalid_grant'')
      else if errors_Is err ErrInvalidRedirectURI then (400, ''invalid_grant'')
      else if errors_Is err ErrUnauthorizedClient then (401, ''unauthorized_client'')
      else (500, ''server_error''))"

definition oauth_refused :: "error \<Rightarrow> 'a response" where
  "oauth_refused err = (case mapOAuthError err of (status, code) \<Rightarrow> Refused status code)"

text \<open>The client identifier and secret, from the header or else from the form.\<close>

definition client_auth :: "request \<Rightarrow> string \<times> string" where
  "client_auth rq =
     (case parseBasicAuth (rq_Authorization rq) of
        Some (u, p) \<Rightarrow> (u, p)
      | None \<Rightarrow> (PostForm rq ''client_id'', PostForm rq ''client_secret''))"

section \<open>Authorization\<close>

definition handleAuthorize :: "'r server \<Rightarrow> db \<Rightarrow> time \<Rightarrow> string \<Rightarrow> request \<Rightarrow> db \<times> string response" where
  "handleAuthorize sv db now bytes rq =
     (let L = sv_libs sv; q = rq_query rq; clientID = gin_Query q ''client_id''; redirectURI = gin_Query q ''redirect_uri'';
          state = gin_Query q ''state''
      in if gin_Query q ''response_type'' \<noteq> ''code'' then (db, Refused 400 ''unsupported_response_type'')
         else if clientID = [] \<or> redirectURI = [] then (db, Refused 400 ''invalid_request'')
         else if \<not> sv_has_ClientSvc sv then (db, Refused 500 ''server_error'')
         else (case GetByClientID db clientID of
             Inl _ \<Rightarrow> (db, Refused 400 ''invalid_client'')
           | Inr client \<Rightarrow>
             if \<not> cl_IsActive client then (db, Refused 400 ''invalid_client'')
             else if \<not> ValidateRedirectURI client redirectURI then (db, Refused 400 ''invalid_redirect_uri'')
             else (case http_BasicAuth (rq_Authorization rq) of
                 None \<Rightarrow> (db, Refused 401 ''login_required'')
               | Some (userIDStr, _) \<Rightarrow>
                 if userIDStr = [] then (db, Refused 401 ''login_required'')
                 else (case uuid_Parse (lib_uuid L) userIDStr of
                     None \<Rightarrow> (db, Refused 400 ''invalid_request'')
                   | Some userID \<Rightarrow>
                     if \<not> sv_has_AuthCodeSvc sv then (db, Refused 500 ''server_error'')
                     else (case CreateAuthCode (pg_codes (lib_uuid L)) db now bytes
                             \<lparr>acp_ClientID = clientID, acp_RedirectURI = redirectURI, acp_Scope = gin_DefaultQuery q ''scope'' ''openid'',
                              acp_UserID = userID, acp_Username = [], acp_Email = [], acp_OrgID = cl_OrgID client, acp_Roles = [],
                              acp_BranchID = [], acp_CodeChallenge = gin_Query q ''code_challenge'',
                              acp_CodeChallengeMethod = gin_DefaultQuery q ''code_challenge_method'' ''S256''\<rparr> of
                         (db', Inl _) \<Rightarrow> (db', Refused 500 ''server_error'')
                       | (db', Inr authCode) \<Rightarrow>
                           (db', OK (redirectURI @ ''?code='' @ ac_Code authCode @ (if state \<noteq> [] then ''&state='' @ state else []))))))))"

record authorize_request =
  arq_ClientID :: string
  arq_RedirectURI :: string
  arq_ResponseType :: string
  arq_Scope :: string
  arq_State :: string
  arq_CodeChallenge :: string
  arq_CodeChallengeMethod :: string

definition session_code_params :: "uuid \<Rightarrow> Claims \<Rightarrow> Client \<Rightarrow> authorize_request \<Rightarrow> AuthCodeParams" where
  "session_code_params userID claims client req =
     \<lparr>acp_ClientID = arq_ClientID req, acp_RedirectURI = arq_RedirectURI req,
      acp_Scope = (if arq_Scope req = [] then ''openid'' else arq_Scope req), acp_UserID = userID,
      acp_Username = c_Username claims, acp_Email = c_Email claims, acp_OrgID = cl_OrgID client, acp_Roles = c_Roles claims,
      acp_BranchID = c_BranchID claims, acp_CodeChallenge = arq_CodeChallenge req,
      acp_CodeChallengeMethod = (if arq_CodeChallengeMethod req = [] then ''S256'' else arq_CodeChallengeMethod req)\<rparr>"

definition handleAuthorizeWithSession ::
  "'r server \<Rightarrow> db \<times> 'r \<Rightarrow> time \<Rightarrow> string \<Rightarrow> request \<Rightarrow> authorize_request option \<Rightarrow> db \<times> string response" where
  "handleAuthorizeWithSession sv st now bytes rq body =
     (case st of (db, rs) \<Rightarrow>
      let L = sv_libs sv; authHeader = rq_Authorization rq
      in if authHeader = [] \<or> \<not> strings_HasPrefix authHeader ''Bearer '' then (db, Refused 401 ''invalid_token'')
         else if \<not> sv_has_SessionSvc sv then (db, Refused 500 ''server_error'')
         else (case VerifyAccessToken L (sv_redis sv) (sv_SessionSvc sv) rs now (strings_TrimPrefix authHeader ''Bearer '') of
             Inl _ \<Rightarrow> (db, Refused 401 ''invalid_token'')
           | Inr claims \<Rightarrow> (case uuid_Parse (lib_uuid L) (c_Subject claims) of
               None \<Rightarrow> (db, Refused 401 ''invalid_token'')
             | Some userID \<Rightarrow> (case body of
                 None \<Rightarrow> (db, Refused 400 ''invalid_request'')
               | Some req \<Rightarrow>
                 if arq_ClientID req = [] \<or> arq_RedirectURI req = [] then (db, Refused 400 ''invalid_request'')
                 else if arq_ResponseType req \<noteq> [] \<and> arq_ResponseType req \<noteq> ''code'' then (db, Refused 400 ''unsupported_response_type'')
                 else if \<not> sv_has_ClientSvc sv then (db, Refused 500 ''server_error'')
                 else (case GetByClientID db (arq_ClientID req) of
                     Inl _ \<Rightarrow> (db, Refused 400 ''invalid_client'')
                   | Inr client \<Rightarrow>
                     if \<not> cl_IsActive client then (db, Refused 400 ''invalid_client'')
                     else if \<not> ValidateRedirectURI client (arq_RedirectURI req) then (db, Refused 400 ''invalid_redirect_uri'')
                     else if \<not> sv_has_AuthCodeSvc sv then (db, Refused 500 ''server_error'')
                     else (case CreateAuthCode (pg_codes (lib_uuid L)) db now bytes (session_code_params userID claims client req) of
                         (db', Inl _) \<Rightarrow> (db', Refused 500 ''server_error'')
                       | (db', Inr authCode) \<Rightarrow> (db', OK (arq_RedirectURI req @ ''?code='' @ ac_Code authCode @
                           (if arq_State req \<noteq> [] then ''&state='' @ arq_State req else [])))))))))"

section \<open>The token endpoint\<close>

definition handleDelegatedTokenExchange ::
  "'r server \<Rightarrow> db \<times> 'r \<Rightarrow> time \<Rightarrow> session_rand \<Rightarrow> request \<Rightarrow> TokenResponse response" where
  "handleDelegatedTokenExchange sv st now rnd rq =
     (case st of (db, rs) \<Rightarrow> case client_auth rq of (clientID, clientSecret) \<Rightarrow>
      let L = sv_libs sv; subjectToken = PostForm rq ''subject_token'';
          scope = (if PostForm rq ''scope'' = [] then ''openid profile'' else PostForm rq ''scope'')
      in if subjectToken = [] \<or> clientID = [] \<or> clientSecret = [] then Refused 400 ''invalid_request''
         else if \<not> sv_has_ClientSvc sv then Refused 500 ''server_error''
         else (case GetByClientID db clientID of
             Inl _ \<Rightarrow> Refused 401 ''invalid_client''
           | Inr client \<Rightarrow>
             if \<not> cl_IsActive client \<or> \<not> verifyClientSecret L clientSecret (cl_ClientSecretHash client) then Refused 401 ''invalid_client''
             else if \<not> sv_has_SessionSvc sv then Refused 500 ''server_error''
             else (case IssueDelegatedAccessToken L (sv_redis sv) (sv_SessionSvc sv) rs now (rnd_jti rnd) subjectToken of
                 Inl _ \<Rightarrow> Refused 400 ''invalid_request''
               | Inr delegatedToken \<Rightarrow> OK \<lparr>tr_AccessToken = delegatedToken, tr_TokenType = ''Bearer'', tr_ExpiresIn = 900,
                   tr_RefreshToken = [], tr_Scope = scope, tr_IDToken = []\<rparr>)))"

definition handleTokenExchange ::
  "'r server \<Rightarrow> db \<times> 'r \<Rightarrow> time \<Rightarrow> session_rand \<Rightarrow> request \<Rightarrow> (db \<times> 'r) \<times> TokenResponse response" where
  "handleTokenExchange sv st now rnd rq =
     (case client_auth rq of (clientID, clientSecret) \<Rightarrow>
      let L = sv_libs sv; code = PostForm rq ''code''; redirectURI = PostForm rq ''redirect_uri''
      in if code = [] \<or> clientID = [] \<or> redirectURI = [] then (st, Refused 400 ''invalid_request'')
         else if \<not> sv_has_TokenSvc sv \<or> \<not> sv_has_ClientSvc sv then (st, Refused 500 ''server_error'')
         else (case GetByClientID (fst st) clientID of
             Inl _ \<Rightarrow> (st, Refused 401 ''invalid_client'')
           | Inr client \<Rightarrow>
             if IsConfidential client \<and> \<not> verifyClientSecret L clientSecret (cl_ClientSecretHash client) then (st, Refused 401 ''invalid_client'')
             else (case ExchangeCodeForTokens L (sv_redis sv) (sv_SessionSvc sv) st now rnd code (PostForm rq ''code_verifier'') redirectURI of
                 (st', Inl err) \<Rightarrow> (st', oauth_refused err)
               | (st', Inr resp) \<Rightarrow> (st', OK resp))))"

definition handleTokenRefresh :: "request \<Rightarrow> TokenResponse response" where
  "handleTokenRefresh rq =
     (if PostForm rq ''refresh_token'' = [] then Refused 400 ''invalid_request'' else Refused 400 ''unsupported_grant_type'')"

text \<open>The user identifier of the token is the fresh UUID \<open>rnd_session\<close>.\<close>

definition handleClientCredentials ::
  "'r server \<Rightarrow> db \<Rightarrow> time \<Rightarrow> session_rand \<Rightarrow> request \<Rightarrow> TokenResponse response" where
  "handleClientCredentials sv db now rnd rq =
     (case client_auth rq of (clientID, clientSecret) \<Rightarrow>
      let L = sv_libs sv
      in if clientID = [] \<or> clientSecret = [] then Refused 401 ''invalid_client''
         else if \<not> sv_has_ClientSvc sv \<or> \<not> sv_has_TokenSvc sv then Refused 500 ''server_error''
         else (case GetByClientID db clientID of
             Inl _ \<Rightarrow> Refused 401 ''invalid_client''
           | Inr client \<Rightarrow>
             if \<not> cl_IsActive client then Refused 401 ''invalid_client''
             else if \<not> verifyClientSecret L clientSecret (cl_ClientSecretHash client) then Refused 401 ''invalid_client''
             else (case ClientCredentials L (sv_SessionSvc sv) db now (rnd_jti rnd) (rnd_session rnd) clientID (PostForm rq ''scope'') of
                 Inl err \<Rightarrow> oauth_refused err
               | Inr resp \<Rightarrow> OK resp)))"

definition handleToken ::
  "'r server \<Rightarrow> db \<times> 'r \<Rightarrow> time \<Rightarrow> session_rand \<Rightarrow> request \<Rightarrow> (db \<times> 'r) \<times> TokenResponse response" where
  "handleToken sv st now rnd rq =
     (let grantType = PostForm rq ''grant_type''
      in if grantType = ''authorization_code'' then handleTokenExchange sv st now rnd rq
         else if grantType = ''urn:ietf:params:oauth:grant-type:token-exchange'' then (st, handleDelegatedTokenExchange sv st now rnd rq)
         else if grantType = ''refresh_token'' then (st, handleTokenRefresh rq)
         else if grantType = ''client_credentials'' then (st, handleClientCredentials sv (fst st) now rnd rq)
         else (st, Refused 400 ''unsupported_grant_type''))"

section \<open>Introspection and user info\<close>

definition handleIntrospect :: "'r server \<Rightarrow> db \<Rightarrow> time \<Rightarrow> request \<Rightarrow> IntrospectionResponse response" where
  "handleIntrospect sv db now rq =
     (let L = sv_libs sv; auth = rq_Authorization rq; form = PostForm rq ''token'';
          token = (if form = [] \<and> strings_HasPrefix auth ''Bearer '' then drop 7 auth else form);
          clientID = PostForm rq ''client_id''; clientSecret = PostForm rq ''client_secret'';
          answer = (if \<not> sv_has_TokenSvc sv then Refused 500 ''server_error'' else OK (IntrospectToken L (sv_SessionSvc sv) now token))
      in if token = [] then Refused 400 ''invalid_request''
         else if parseBasicAuth auth \<noteq> None then answer
         else if clientID = [] \<or> clientSecret = [] then Refused 401 ''invalid_client''
         else if \<not> sv_has_ClientSvc sv then answer
         else (case GetByClientID db clientID of
             Inl _ \<Rightarrow> Refused 401 ''invalid_client''
           | Inr client \<Rightarrow>
             if \<not> cl_IsActive client \<or> \<not> verifyClientSecret L clientSecret (cl_ClientSecretHash client) then Refused 401 ''invalid_client''
             else answer))"

text \<open>
  Without the OpenID service the answer is an error: the token service does not have the
  method signature the fallback asks for.
\<close>

definition handleUserInfo :: "'r server \<Rightarrow> 'r \<Rightarrow> time \<Rightarrow> request \<Rightarrow> UserInfoResponse response" where
  "handleUserInfo sv rs now rq =
     (let L = sv_libs sv; auth = rq_Authorization rq; tokenStr = strings_TrimPrefix auth ''Bearer ''
      in if auth = [] then Refused 401 ''invalid_token''
         else if tokenStr = auth then Refused 401 ''invalid_token''
         else if sv_has_SessionSvc sv \<and> \<not> is_ok (VerifyAccessToken L (sv_redis sv) (sv_SessionSvc sv) rs now tokenStr)
         then Refused 401 ''invalid_token''
         else if sv_has_OIDCSvc sv
         then (case UserInfo L (sv_SessionSvc sv) now tokenStr of Inl _ \<Rightarrow> Refused 401 ''invalid_token'' | Inr info \<Rightarrow> OK info)
         else Refused 500 ''server_error'')"

section \<open>Dynamic client registration\<close>

record DCRRequest =
  dq_ClientName :: string
  dq_RedirectURIs :: "string list"
  dq_GrantTypes :: "string list"
  dq_Scope :: string
  dq_TokenEndpointAuthMethod :: string

record DCRResponse =
  dp_ClientID :: string
  dp_ClientSecret :: string
  dp_ClientIDIssuedAt :: int
  dp_ClientSecretExpiresAt :: int
  dp_RedirectURIs :: "string list"
  dp_GrantTypes :: "string list"
  dp_ResponseTypes :: "string list"
  dp_Scope :: string
  dp_TokenEndpointAuthMethod :: string

definition dcr_orgID :: "'r server \<Rightarrow> uuid" where
  "dcr_orgID sv =
     (let orgID = (if sv_DefaultOrgID sv \<noteq> [] then uuid_Parse0 (lib_uuid (sv_libs sv)) (sv_DefaultOrgID sv) else uuid_Nil)
      in if orgID = uuid_Nil then 1 else orgID)"

definition dcr_grantTypes :: "DCRRequest \<Rightarrow> string list" where
  "dcr_grantTypes req = (if dq_GrantTypes req = [] then [''authorization_code''] else dq_GrantTypes req)"

definition dcr_params :: "libs \<Rightarrow> uuid \<Rightarrow> DCRRequest \<Rightarrow> CreateClientParams" where
  "dcr_params L nameID req =
     \<lparr>ccp_Name = (if dq_ClientName req = [] then ''DCR Client '' @ take 8 (uuid_String (lib_uuid L) nameID) else dq_ClientName req),
      ccp_Description = [],
      ccp_ClientType = (if list_ex (\<lambda>g. g = ''client_credentials'') (dcr_grantTypes req) then ''machine'' else ''web''),
      ccp_TokenEndpointAuthMethod = (if dq_TokenEndpointAuthMethod req = [] then ''client_secret_basic'' else dq_TokenEndpointAuthMethod req),
      ccp_AllowedScopes = strings_Fields (dq_Scope req), ccp_AllowedRedirectURIs = dq_RedirectURIs req, ccp_AllowedOrigins = [],
      ccp_TokenExpiration = 900, ccp_RefreshTokenExpiration = 28800, ccp_AllowMultipleTokens = False, ccp_SkipConsentScreen = False\<rparr>"

text \<open>\<open>clientID\<close>, \<open>nameID\<close> and \<open>bytes\<close>: the fresh identifiers and the random bytes of the secret.\<close>

definition handleDCR ::
  "'r server \<Rightarrow> db \<Rightarrow> time \<Rightarrow> uuid \<Rightarrow> uuid \<Rightarrow> string \<Rightarrow> DCRRequest option \<Rightarrow> db \<times> DCRResponse response" where
  "handleDCR sv db now clientID nameID bytes body =
     (case body of
        None \<Rightarrow> (db, Refused 400 ''invalid_request'')
      | Some req \<Rightarrow>
        if \<not> sv_has_ClientSvc sv then (db, Refused 500 ''server_error'')
        else (let L = sv_libs sv; plainSecret = dcrGenerateSecret bytes
              in case CreateWithSecretHash L db now clientID (dcr_orgID sv) (dcr_params L nameID req) (hashClientSecret L plainSecret) of
                   (db', Inl _) \<Rightarrow> (db', Refused 500 ''server_error'')
                 | (db', Inr client) \<Rightarrow> (db', OK \<lparr>dp_ClientID = uuid_String (lib_uuid L) (cl_ID client), dp_ClientSecret = plainSecret,
                     dp_ClientIDIssuedAt = Unix (cl_CreatedAt client), dp_ClientSecretExpiresAt = 0,
                     dp_RedirectURIs = cl_AllowedRedirectURIs client, dp_GrantTypes = dcr_grantTypes req, dp_ResponseTypes = [''code''],
                     dp_Scope = dq_Scope req, dp_TokenEndpointAuthMethod = cl_TokenEndpointAuthMethod client\<rparr>)))"

section \<open>Laws\<close>

lemma GetByClientID_MarkUsed [simp]: "GetByClientID (fst (Codes_MarkUsed db c)) i = GetByClientID db i"
  by (simp add: GetByClientID_def Clients_GetClient_def Codes_MarkUsed_def pg_Exec_def pg_QueryRow_def)

lemma GetByClientID_CreateAuthCode:
  "CreateAuthCode (pg_codes U) db now bytes params = (db', Inr a) \<Longrightarrow> GetByClientID db' i = GetByClientID db i"
  by (auto simp: CreateAuthCode_def pg_codes_def GetByClientID_def Clients_GetClient_def pg_QueryRow_def
      dest!: Codes_CreateD(1) split: prod.splits sum.splits)

text \<open>What a successful exchange has established, and the converse.\<close>

definition exchangeable :: "libs \<Rightarrow> db \<Rightarrow> time \<Rightarrow> string \<Rightarrow> string \<Rightarrow> string \<Rightarrow> AuthCode \<Rightarrow> Client \<Rightarrow> bool" where
  "exchangeable L db now code verifier redirectURI a client \<longleftrightarrow>
     Codes_GetByCode db code = Inr a \<and> \<not> ac_CodeUsed a \<and> now \<le> ac_ExpiresAt a \<and>
     (ac_CodeChallenge a \<noteq> [] \<longrightarrow> GenerateCodeChallenge L verifier = ac_CodeChallenge a) \<and>
     ac_RedirectURI a = redirectURI \<and> GetByClientID db (ac_ClientID a) = Inr client \<and> cl_IsActive client"

lemma exchange_check_pg:
  "exchange_check L (pg_codes U) db now code v = Inr a \<longleftrightarrow>
     Codes_GetByCode db code = Inr a \<and> \<not> ac_CodeUsed a \<and> now \<le> ac_ExpiresAt a \<and>
     (ac_CodeChallenge a \<noteq> [] \<longrightarrow> GenerateCodeChallenge L v = ac_CodeChallenge a)"
  by (auto simp: exchange_check_def pg_codes_def VerifyCodeChallenge_def split: sum.splits if_splits)

lemma ExchangeCodeForTokens_okD:
  assumes "ExchangeCodeForTokens L R ses (db, rs) now rnd code v redirectURI = ((db', rs'), Inr resp)"
  obtains a client acc where "exchangeable L db now code v redirectURI a client"
    and "db' = fst (Codes_MarkUsed db code)" and "tr_Scope resp = ac_Scope a" and "tr_ExpiresIn resp = whole_Seconds (at_ExpiresAt acc - now)"
    and "IssueAccessToken (lib_uuid L) (lib_jwt L) (ses_jwt ses) now (uuid_String (lib_uuid L) (rnd_jti rnd))
      (uuid_String (lib_uuid L) (rnd_session rnd)) (ac_UserID a) (ac_OrgID a) (code_claims L client a) = Inr (tr_AccessToken resp, acc)"
proof -
  obtain a where chk: "exchange_check L (pg_codes (lib_uuid L)) db now code v = Inr a"
    using assms by (auto simp: ExchangeCodeForTokens_def ExchangeAuthCode_def split: sum.splits)
  then have ex: "ExchangeAuthCode L (pg_codes (lib_uuid L)) db now code v = (fst (Codes_MarkUsed db code), Inr a)"
    by (simp add: ExchangeAuthCode_def) (simp add: pg_codes_def)
  have red: "ac_RedirectURI a = redirectURI"
    using assms by (auto simp: ExchangeCodeForTokens_def ex split: if_splits)
  obtain client where client: "GetByClientID db (ac_ClientID a) = Inr client"
    using assms by (auto simp: ExchangeCodeForTokens_def ex red split: sum.splits)
  have active: "cl_IsActive client"
    using assms by (auto simp: ExchangeCodeForTokens_def ex red client split: if_splits)
  obtain tok acc where iss: "IssueAccessToken (lib_uuid L) (lib_jwt L) (ses_jwt ses) now (uuid_String (lib_uuid L) (rnd_jti rnd))
      (uuid_String (lib_uuid L) (rnd_session rnd)) (ac_UserID a) (ac_OrgID a) (code_claims L client a) = Inr (tok, acc)"
    using assms by (auto simp: ExchangeCodeForTokens_def ex red client active Let_def split: sum.splits)
  show ?thesis
    by (rule that [of a client acc])
      (use assms iss chk active red client in \<open>auto simp: ExchangeCodeForTokens_def ex Let_def exchangeable_def exchange_check_pg\<close>)
qed

lemma ExchangeCodeForTokens_ok:
  assumes "exchangeable L db now code v redirectURI a client"
    and "IssueAccessToken (lib_uuid L) (lib_jwt L) (ses_jwt ses) now (uuid_String (lib_uuid L) (rnd_jti rnd))
      (uuid_String (lib_uuid L) (rnd_session rnd)) (ac_UserID a) (ac_OrgID a) (code_claims L client a) = Inr (tok, acc)"
  shows "\<exists>st' resp. ExchangeCodeForTokens L R ses (db, rs) now rnd code v redirectURI = (st', Inr resp) \<and>
    tr_AccessToken resp = tok \<and> tr_Scope resp = ac_Scope a"
proof -
  have "exchange_check L (pg_codes (lib_uuid L)) db now code v = Inr a"
    using assms(1) by (simp add: exchangeable_def exchange_check_pg)
  then have "ExchangeAuthCode L (pg_codes (lib_uuid L)) db now code v = (fst (Codes_MarkUsed db code), Inr a)"
    by (simp add: ExchangeAuthCode_def) (simp add: pg_codes_def)
  then show ?thesis
    using assms by (simp add: ExchangeCodeForTokens_def exchangeable_def Let_def)
qed

lemma SplitN2_separator: "c \<notin> set u \<Longrightarrow> strings_SplitN2 (u @ c # p) c = [u, p]"
  by (induction u) (auto simp: strings_SplitN2_def)

text \<open>The header a client builds from its credentials is read back.\<close>

lemma parseBasicAuth_header:
  assumes "CHR '':'' \<notin> set u"
  shows "parseBasicAuth (''Basic '' @ EncodeToString False (u @ CHR '':'' # p)) = Some (u, p)"
proof -
  have "strings_SplitN2 (''Basic'' @ CHR '' '' # e) (CHR '' '') = [''Basic'', e]" for e
    by (rule SplitN2_separator) simp
  then show ?thesis by (simp add: parseBasicAuth_def SplitN2_separator [OF assms])
qed

lemma client_authenticates: "handleTokenExchange sv st now rnd rq = (st', OK resp) \<Longrightarrow>
   \<exists>client. GetByClientID (fst st) (fst (client_auth rq)) = Inr client \<and>
     (IsConfidential client \<longrightarrow> verifyClientSecret (sv_libs sv) (snd (client_auth rq)) (cl_ClientSecretHash client)) \<and>
     ExchangeCodeForTokens (sv_libs sv) (sv_redis sv) (sv_SessionSvc sv) st now rnd (PostForm rq ''code'') (PostForm rq ''code_verifier'')
       (PostForm rq ''redirect_uri'') = (st', Inr resp)"
  by (auto simp: handleTokenExchange_def Let_def oauth_refused_def split: prod.splits if_splits sum.splits)

end
