(* ===== verification/OAuth2Props.thy ===== *)
theory OAuth2Props
  imports OAuth2Rest
begin

text \<open>
  Properties of the OAuth2 endpoints across the handlers, the OAuth2 services, the token
  service, the session service and the tables.
\<close>

section \<open>Exchanging a code\<close>

lemma verify_code_token:
  assumes lib: "jwt_library (lib_jwt L) key_ok" and wf: "rkm_wf (js_keyManager s)"
    and iss: "IssueAccessToken (lib_uuid L) (lib_jwt L) s now tid sid u org (code_claims L client a) = Inr (tok, acc)"
    and early: "now' < (now + js_tokenTTL s) div time_Second * time_Second"
  shows "\<exists>c. jwt_VerifyAccessToken (lib_jwt L) s now' tok = Inr c \<and> c_Subject c = uuid_String (lib_uuid L) u \<and>
    c_ClientID c = uuid_String (lib_uuid L) (cl_ID client) \<and> c_Scope c = ac_Scope a \<and> c_Roles c = ac_Roles a \<and>
    c_Username c = ac_Username a \<and> c_BranchID c = ac_BranchID a \<and> c_SessionID c = sid"
proof -
  obtain km where act: "ActiveKey (js_keyManager s) = Some km" using iss by (rule jwt_library.issuedD [OF lib])
  have "jwt_VerifyAccessToken (lib_jwt L) s now' tok = Inr (access_claims (lib_uuid L) (lib_jwt L) s now tid sid u org (code_claims L client a))"
    by (rule jwt_library.verify_issued_by [OF lib iss act ActiveKey_stored [OF wf act, THEN conjunct1] refl early])
  then show ?thesis by (simp add: access_claims_fields code_claims_def)
qed

text \<open>
  C18: The token endpoint gives out a token for a code only when the code is in the table,
  unused and unexpired, the verifier matches its challenge, the redirect URI is the one it
  was issued for, its client is registered and active, and the caller authenticated as
  some registered client. The token verifies until it expires and names the user, the
  client, the scope and the roles of the code; the code is used up.
\<close>

theorem code_exchange_sound:
  assumes lib: "jwt_library (lib_jwt (sv_libs sv)) key_ok" and wf: "rkm_wf (js_keyManager (ses_jwt (sv_SessionSvc sv)))"
    and run: "handleTokenExchange sv (db, rs) now rnd rq = ((db', rs'), OK resp)"
  shows "\<exists>a client who.
    exchangeable (sv_libs sv) db now (PostForm rq ''code'') (PostForm rq ''code_verifier'') (PostForm rq ''redirect_uri'') a client \<and>
    GetByClientID db (fst (client_auth rq)) = Inr who \<and>
    (IsConfidential who \<longrightarrow> verifyClientSecret (sv_libs sv) (snd (client_auth rq)) (cl_ClientSecretHash who)) \<and>
    Codes_GetByCode db' (PostForm rq ''code'') = Inr (a\<lparr>ac_CodeUsed := True\<rparr>) \<and>
    (\<forall>now' < (now + js_tokenTTL (ses_jwt (sv_SessionSvc sv))) div time_Second * time_Second.
       \<exists>c. jwt_VerifyAccessToken (lib_jwt (sv_libs sv)) (ses_jwt (sv_SessionSvc sv)) now' (tr_AccessToken resp) = Inr c \<and>
         c_Subject c = uuid_String (lib_uuid (sv_libs sv)) (ac_UserID a) \<and>
         c_ClientID c = uuid_String (lib_uuid (sv_libs sv)) (cl_ID client) \<and> c_Scope c = ac_Scope a \<and> c_Roles c = ac_Roles a)"
proof -
  obtain who where who: "GetByClientID db (fst (client_auth rq)) = Inr who"
      "IsConfidential who \<longrightarrow> verifyClientSecret (sv_libs sv) (snd (client_auth rq)) (cl_ClientSecretHash who)"
    and ex: "ExchangeCodeForTokens (sv_libs sv) (sv_redis sv) (sv_SessionSvc sv) (db, rs) now rnd (PostForm rq ''code'')
      (PostForm rq ''code_verifier'') (PostForm rq ''redirect_uri'') = ((db', rs'), Inr resp)"
    using client_authenticates [OF run] by auto
  obtain a client acc where a: "exchangeable (sv_libs sv) db now (PostForm rq ''code'') (PostForm rq ''code_verifier'') (PostForm rq ''redirect_uri'') a client"
    and db': "db' = fst (Codes_MarkUsed db (PostForm rq ''code''))"
    and iss: "IssueAccessToken (lib_uuid (sv_libs sv)) (lib_jwt (sv_libs sv)) (ses_jwt (sv_SessionSvc sv)) now
      (uuid_String (lib_uuid (sv_libs sv)) (rnd_jti rnd)) (uuid_String (lib_uuid (sv_libs sv)) (rnd_session rnd))
      (ac_UserID a) (ac_OrgID a) (code_claims (sv_libs sv) client a) = Inr (tr_AccessToken resp, acc)"
    by (rule ExchangeCodeForTokens_okD [OF ex]) blast
  have "Codes_GetByCode db (PostForm rq ''code'') = Inr a" using a by (simp add: exchangeable_def)
  then have "Codes_GetByCode db' (PostForm rq ''code'') = Inr (a\<lparr>ac_CodeUsed := True\<rparr>)" using Codes_MarkUsed_get db' by simp
  with a who verify_code_token [OF lib wf iss] show ?thesis by blast
qed

text \<open>
  C19: The authorization code flow carries a logged-in user from one token to the next:
  when a caller with a valid access token obtains a code, the token endpoint exchanges
  that code, up to the five minutes' expiry and with the verifier of the challenge, for a
  token of the same user with the same roles and the requested scope. Which registered
  client redeems the code makes no difference (\<open>other\<close> need not be the client of the code).
\<close>

theorem authorize_exchange_roundtrip:
  assumes uuid: "uuid_format (lib_uuid (sv_libs sv))" and lib: "jwt_library (lib_jwt (sv_libs sv)) key_ok"
    and wf: "rkm_wf (js_keyManager (ses_jwt (sv_SessionSvc sv)))"
    and key: "ActiveKey (js_keyManager (ses_jwt (sv_SessionSvc sv))) = Some km" "key_ok (km_privateKey km)"
    and login: "VerifyAccessToken (sv_libs sv) (sv_redis sv) (sv_SessionSvc sv) rs now tok = Inr claims"
    and rq: "rq_Authorization rq = ''Bearer '' @ tok"
    and auth: "handleAuthorizeWithSession sv (db, rs) now bytes rq (Some req) = (db', OK url)"
    and svc: "sv_has_TokenSvc sv" "sv_has_ClientSvc sv"
    and rq': "PostForm rq' ''code'' = generateCode bytes" "PostForm rq' ''redirect_uri'' = arq_RedirectURI req"
    and bytes: "bytes \<noteq> []"
    and pkce: "arq_CodeChallenge req \<noteq> [] \<Longrightarrow> GenerateCodeChallenge (sv_libs sv) (PostForm rq' ''code_verifier'') = arq_CodeChallenge req"
    and other: "GetByClientID db (fst (client_auth rq')) = Inr other" "fst (client_auth rq') \<noteq> []"
      "IsConfidential other \<Longrightarrow> verifyClientSecret (sv_libs sv) (snd (client_auth rq')) (cl_ClientSecretHash other)"
    and early: "now' \<le> pg_ts (now + 5 * time_Minute)"
    and t: "t < (now' + js_tokenTTL (ses_jwt (sv_SessionSvc sv))) div time_Second * time_Second"
  shows "\<exists>st' resp c. handleTokenExchange sv (db', rs) now' rnd rq' = (st', OK resp) \<and>
    jwt_VerifyAccessToken (lib_jwt (sv_libs sv)) (ses_jwt (sv_SessionSvc sv)) t (tr_AccessToken resp) = Inr c \<and>
    uuid_Parse (lib_uuid (sv_libs sv)) (c_Subject c) = uuid_Parse (lib_uuid (sv_libs sv)) (c_Subject claims) \<and>
    c_Roles c = c_Roles claims \<and> c_Username c = c_Username claims \<and>
    c_Scope c = (if arq_Scope req = [] then ''openid'' else arq_Scope req)"
proof -
  let ?L = "sv_libs sv"
  obtain u client code where u: "uuid_Parse (lib_uuid ?L) (c_Subject claims) = Some u"
    and client: "GetByClientID db (arq_ClientID req) = Inr client" "cl_IsActive client" and red: "arq_RedirectURI req \<noteq> []"
    and create: "CreateAuthCode (pg_codes (lib_uuid ?L)) db now bytes (session_code_params u claims client req) = (db', Inr code)"
    using auth rq login
    by (auto simp: handleAuthorizeWithSession_def Let_def strings_TrimPrefix_def split: option.splits sum.splits if_splits prod.splits)
  let ?p = "session_code_params u claims client req"
  let ?row = "code_row (lib_uuid ?L) (new_auth_code now bytes ?p)"
  have code: "code = new_auth_code now bytes ?p" and cr: "Codes_Create (lib_uuid ?L) db code = (db', Inr ())"
    using create by (auto simp: CreateAuthCode_def pg_codes_def split: prod.splits sum.splits)
  have get: "Codes_GetByCode db' (generateCode bytes) = Inr ?row"
    using Codes_Create_get(1) [OF cr] by (simp add: code new_auth_code_def)
  have exc: "exchangeable ?L db' now' (generateCode bytes) (PostForm rq' ''code_verifier'') (arq_RedirectURI req) ?row client"
    using get early pkce client by (simp add: exchangeable_def GetByClientID_CreateAuthCode [OF create] code_row_def new_auth_code_def session_code_params_def)
  obtain tk acc where iss: "IssueAccessToken (lib_uuid ?L) (lib_jwt ?L) (ses_jwt (sv_SessionSvc sv)) now' (uuid_String (lib_uuid ?L) (rnd_jti rnd))
      (uuid_String (lib_uuid ?L) (rnd_session rnd)) (ac_UserID ?row) (ac_OrgID ?row) (code_claims ?L client ?row) = Inr (tk, acc)"
    using jwt_library.issue_ok [OF lib key] by blast
  obtain st' resp where ex: "ExchangeCodeForTokens ?L (sv_redis sv) (sv_SessionSvc sv) (db', rs) now' rnd (generateCode bytes)
      (PostForm rq' ''code_verifier'') (arq_RedirectURI req) = (st', Inr resp)" and tk: "tr_AccessToken resp = tk"
    using ExchangeCodeForTokens_ok [OF exc iss, where R = "sv_redis sv" and rs = rs] by blast
  have "generateCode bytes \<noteq> []" using bytes RawEncode_inject [of True bytes "[]"] by (simp add: generateCode_def RawEncodeToString_def del: RawEncode_inject)
  then have "handleTokenExchange sv (db', rs) now' rnd rq' = (st', OK resp)"
    using ex other svc red by (auto simp: handleTokenExchange_def Let_def rq' GetByClientID_CreateAuthCode [OF create] split: prod.splits)
  moreover obtain c where "jwt_VerifyAccessToken (lib_jwt ?L) (ses_jwt (sv_SessionSvc sv)) t tk = Inr c" "c_Subject c = uuid_String (lib_uuid ?L) (ac_UserID ?row)"
      "c_Scope c = ac_Scope ?row" "c_Roles c = ac_Roles ?row" "c_Username c = ac_Username ?row"
    using verify_code_token [OF lib wf iss t] by blast
  ultimately show ?thesis
    using tk u uuid_format.parse_string [OF uuid] by (simp add: code_row_def new_auth_code_def session_code_params_def)
qed

text \<open>
  Every defect of a code is answered with \<^verbatim>\<open>invalid_grant\<close> and no token: a code that was
  used, one that has expired, a verifier that does not match, a redirect URI that differs.
  The first three leave the tables as they are; a wrong redirect URI uses the code up.
\<close>

theorem code_exchange_refusals:
  assumes svc: "sv_has_TokenSvc sv" "sv_has_ClientSvc sv"
    and rq: "PostForm rq ''code'' \<noteq> []" "PostForm rq ''redirect_uri'' \<noteq> []" "fst (client_auth rq) \<noteq> []"
    and who: "GetByClientID db (fst (client_auth rq)) = Inr who"
      "IsConfidential who \<Longrightarrow> verifyClientSecret (sv_libs sv) (snd (client_auth rq)) (cl_ClientSecretHash who)"
    and a: "Codes_GetByCode db (PostForm rq ''code'') = Inr a"
    and bad: "ac_CodeUsed a \<or> ac_ExpiresAt a < now \<or>
       (ac_CodeChallenge a \<noteq> [] \<and> GenerateCodeChallenge (sv_libs sv) (PostForm rq ''code_verifier'') \<noteq> ac_CodeChallenge a) \<or>
       ac_RedirectURI a \<noteq> PostForm rq ''redirect_uri''"
  shows "handleTokenExchange sv (db, rs) now rnd rq =
    ((if exchange_check (sv_libs sv) (pg_codes (lib_uuid (sv_libs sv))) db now (PostForm rq ''code'') (PostForm rq ''code_verifier'') = Inr a
      then fst (Codes_MarkUsed db (PostForm rq ''code'')) else db, rs), Refused 400 ''invalid_grant'')"
proof (cases "exchange_check (sv_libs sv) (pg_codes (lib_uuid (sv_libs sv))) db now (PostForm rq ''code'') (PostForm rq ''code_verifier'')")
  case (Inl e)
  then have "e \<in> {ErrCodeAlreadyUsed, ErrCodeExpired, ErrInvalidCodeVerifier}"
    using a by (auto simp: exchange_check_def pg_codes_def split: if_splits)
  then have "oauth_refused (Wrapf ''oauth2.TokenService.Exchange'' e) = (Refused 400 ''invalid_grant'' :: TokenResponse response)"
    by (auto simp: oauth_refused_def mapOAuthError_def oauth2_errors)
  then show ?thesis
    using svc rq who Inl by (auto simp: handleTokenExchange_def Let_def ExchangeCodeForTokens_def ExchangeAuthCode_def split: prod.splits)
next
  case (Inr a')
  then have "a' = a" "ac_RedirectURI a \<noteq> PostForm rq ''redirect_uri''"
    using a bad by (auto simp: exchange_check_pg)
  moreover have "oauth_refused ErrInvalidRedirectURI = (Refused 400 ''invalid_grant'' :: TokenResponse response)"
    by (simp add: oauth_refused_def mapOAuthError_def oauth2_errors)
  moreover have "fst (acs_MarkUsed (pg_codes (lib_uuid (sv_libs sv))) db c) = fst (Codes_MarkUsed db c)" for c by (simp add: pg_codes_def)
  ultimately show ?thesis
    using svc rq who Inr by (auto simp: handleTokenExchange_def Let_def ExchangeCodeForTokens_def ExchangeAuthCode_def split: prod.splits)
qed

section \<open>The endpoint without a session\<close>

text \<open>
  \<^verbatim>\<open>GET /oauth2/authorize\<close> never issues a code: it creates the code with an empty branch,
  and the column of the branch takes only UUIDs. Every request is refused and the tables
  stay as they are.
\<close>

theorem authorize_never_succeeds:
  assumes "uuid_Parse (lib_uuid (sv_libs sv)) [] = None"
  shows "\<exists>status e. handleAuthorize sv db now bytes rq = (db, Refused status e)"
proof -
  have branchless: "x = db \<and> (\<exists>e. y = Inl e)"
    if "CreateAuthCode (pg_codes (lib_uuid (sv_libs sv))) db now bytes p = (x, y)" "acp_BranchID p = []" for p x y
    using assms that by (auto simp: CreateAuthCode_def pg_codes_def Codes_Create_def pg_Exec_def new_auth_code_def split: if_splits)
  show ?thesis
    by (auto simp: handleAuthorize_def Let_def dest!: branchless split: sum.splits option.splits prod.splits)
qed

section \<open>Registered machine clients\<close>

lemma EncodeToString_Nil: "EncodeToString url [] = []"
  by (simp add: EncodeToString_def RawEncodeToString_def)

lemma handleDCR_ok:
  assumes "handleDCR sv db now clientID nameID bytes (Some req) = (db', OK r)"
    and grant: "''client_credentials'' \<in> set (dq_GrantTypes req)" and meth: "dq_TokenEndpointAuthMethod req \<noteq> ''none''"
  shows "\<exists>client. dp_ClientID r = uuid_String (lib_uuid (sv_libs sv)) clientID \<and>
    cl_ClientSecretHash client = hashClientSecret (sv_libs sv) (dp_ClientSecret r) \<and>
    GetByClientID db' (dp_ClientID r) = Inr client \<and> cl_IsActive client \<and> IsConfidential client \<and>
    HasGrant client ''client_credentials'' \<and> sv_has_ClientSvc sv"
proof -
  let ?L = "sv_libs sv" and ?h = "hashClientSecret (sv_libs sv) (dcrGenerateSecret bytes)"
  let ?p = "dcr_params ?L nameID req"
  have p: "ccp_ClientType ?p = ''machine''" "ccp_TokenEndpointAuthMethod ?p \<noteq> ''none''"
    using grant meth by (auto simp: dcr_params_def dcr_grantTypes_def list_ex_iff)
  have has: "sv_has_ClientSvc sv" and r: "dp_ClientID r = uuid_String (lib_uuid ?L) clientID" "dp_ClientSecret r = dcrGenerateSecret bytes"
    and create: "Clients_CreateClient (lib_uuid ?L) db (new_client now clientID (dcr_orgID sv) ?p ?h) = (db', Inr ())"
    using assms(1)
    by (auto simp: handleDCR_def CreateWithSecretHash_def Let_def new_client_def split: if_splits prod.splits sum.splits)
  show ?thesis
    using Clients_CreateClient_get [OF create] p has r
    by (auto simp: GetByClientID_def new_client_def IsConfidential_def HasGrant_def AllowedGrants_def)
qed

text \<open>
  C20: A client registered for the grant \<^verbatim>\<open>client_credentials\<close> can use it at once: the
  credentials of the registration response, sent as Basic authentication, yield a token
  for this client with whatever scope it asks for, and a secret with another digest is
  refused. The registered scopes are not consulted.
\<close>

theorem dcr_client_credentials_roundtrip:
  assumes lib: "jwt_library (lib_jwt (sv_libs sv)) key_ok" and wf: "rkm_wf (js_keyManager (ses_jwt (sv_SessionSvc sv)))"
    and key: "ActiveKey (js_keyManager (ses_jwt (sv_SessionSvc sv))) = Some km" "key_ok (km_privateKey km)"
    and dcr: "handleDCR sv db now clientID nameID bytes (Some req) = (db', OK r)"
    and grant: "''client_credentials'' \<in> set (dq_GrantTypes req)" and meth: "dq_TokenEndpointAuthMethod req \<noteq> ''none''"
    and plain: "CHR '':'' \<notin> set (uuid_String (lib_uuid (sv_libs sv)) clientID)" "uuid_String (lib_uuid (sv_libs sv)) clientID \<noteq> []"
    and rq: "rq_Authorization rq = ''Basic '' @ EncodeToString False (dp_ClientID r @ CHR '':'' # secret)" and secret: "secret \<noteq> []"
    and svc: "sv_has_TokenSvc sv" and sha: "lib_sha256 (sv_libs sv) (dp_ClientSecret r) \<noteq> []"
    and t: "t < (now' + js_tokenTTL (ses_jwt (sv_SessionSvc sv))) div time_Second * time_Second"
  shows "(secret = dp_ClientSecret r \<longrightarrow>
      (\<exists>resp c. handleClientCredentials sv db' now' rnd rq = OK resp \<and>
        jwt_VerifyAccessToken (lib_jwt (sv_libs sv)) (ses_jwt (sv_SessionSvc sv)) t (tr_AccessToken resp) = Inr c \<and>
        c_ClientID c = dp_ClientID r \<and> c_Scope c = PostForm rq ''scope'')) \<and>
    (hashClientSecret (sv_libs sv) secret \<noteq> hashClientSecret (sv_libs sv) (dp_ClientSecret r) \<longrightarrow>
     hex_EncodeToString (lib_sha256 (sv_libs sv) secret) \<noteq> hashClientSecret (sv_libs sv) (dp_ClientSecret r) \<longrightarrow>
      handleClientCredentials sv db' now' rnd rq = Refused 401 ''invalid_client'')"
proof -
  let ?L = "sv_libs sv" and ?J = "lib_jwt (sv_libs sv)" and ?U = "lib_uuid (sv_libs sv)" and ?js = "ses_jwt (sv_SessionSvc sv)"
  obtain client where cid: "dp_ClientID r = uuid_String ?U clientID" and hash: "cl_ClientSecretHash client = hashClientSecret ?L (dp_ClientSecret r)"
    and get: "GetByClientID db' (dp_ClientID r) = Inr client" "cl_IsActive client" "IsConfidential client" "HasGrant client ''client_credentials''"
    and has: "sv_has_ClientSvc sv"
    using handleDCR_ok [OF dcr grant meth] by blast
  have auth: "client_auth rq = (dp_ClientID r, secret)"
    using parseBasicAuth_header [of "dp_ClientID r" secret] plain by (simp add: client_auth_def rq cid)
  have ne: "cl_ClientSecretHash client \<noteq> []"
    using sha Encode_inject [of False "lib_sha256 ?L (dp_ClientSecret r)" "[]"]
    by (simp add: hash hashClientSecret_def EncodeToString_Nil del: Encode_inject)
  obtain tok acc where iss: "IssueAccessToken ?U ?J ?js now' (uuid_String ?U (rnd_jti rnd)) (''m2m-'' @ dp_ClientID r) (rnd_session rnd) (cl_OrgID client)
      (Claims0\<lparr>c_ClientID := dp_ClientID r, c_Scope := PostForm rq ''scope''\<rparr>) = Inr (tok, acc)"
    using jwt_library.issue_ok [OF lib key] by blast
  have good: "\<exists>resp. handleClientCredentials sv db' now' rnd rq = OK resp \<and> tr_AccessToken resp = tok" if "secret = dp_ClientSecret r"
    using auth get ne has svc plain secret iss that
    by (simp add: handleClientCredentials_def ClientCredentials_def verifyClientSecret_def hash hashClientSecret_def Let_def cid)
  have "jwt_VerifyAccessToken ?J ?js t tok = Inr (access_claims ?U ?J ?js now' (uuid_String ?U (rnd_jti rnd)) (''m2m-'' @ dp_ClientID r) (rnd_session rnd)
      (cl_OrgID client) (Claims0\<lparr>c_ClientID := dp_ClientID r, c_Scope := PostForm rq ''scope''\<rparr>))"
    by (rule jwt_library.verify_issued_by [OF lib iss key(1) ActiveKey_stored [OF wf key(1), THEN conjunct1] refl t])
  with good have "secret = dp_ClientSecret r \<longrightarrow> (\<exists>resp c. handleClientCredentials sv db' now' rnd rq = OK resp \<and>
      jwt_VerifyAccessToken ?J ?js t (tr_AccessToken resp) = Inr c \<and> c_ClientID c = dp_ClientID r \<and> c_Scope c = PostForm rq ''scope'')"
    by (fastforce simp: access_claims_fields)
  moreover have "handleClientCredentials sv db' now' rnd rq = Refused 401 ''invalid_client''"
    if "hashClientSecret ?L secret \<noteq> hashClientSecret ?L (dp_ClientSecret r)"
      "hex_EncodeToString (lib_sha256 ?L secret) \<noteq> hashClientSecret ?L (dp_ClientSecret r)"
    using auth get ne has svc plain secret that
    by (simp add: handleClientCredentials_def verifyClientSecret_def hash Let_def cid) (simp add: hashClientSecret_def)
  ultimately show ?thesis by blast
qed

section \<open>Introspection and revocation\<close>

text \<open>
  C21: A token whose session was revoked is refused by the user info endpoint and yet
  reported active by introspection, and any request with a well-formed Basic header may
  introspect: neither the client nor its secret is looked up.
\<close>

theorem introspection_ignores_revocation:
  assumes c: "jwt_VerifyAccessToken (lib_jwt (sv_libs sv)) (ses_jwt (sv_SessionSvc sv)) now tok = Inr c"
    and revoked: "IsSessionRevoked (sv_redis sv) rs now (c_SessionID c) = Inr True"
    and svc: "sv_has_SessionSvc sv" "sv_has_TokenSvc sv" and tok: "tok \<noteq> []"
    and ask: "PostForm rq ''token'' = tok" "parseBasicAuth (rq_Authorization rq) = Some cred"
    and rq': "rq_Authorization rq' = ''Bearer '' @ tok"
  shows "(\<exists>r. handleIntrospect sv db now rq = OK r \<and> ir_Active r \<and> ir_Sub r = c_Subject c) \<and>
    handleUserInfo sv rs now rq' = Refused 401 ''invalid_token''"
  using assms
  by (simp add: handleIntrospect_def IntrospectToken_def handleUserInfo_def VerifyAccessToken_def strings_TrimPrefix_def Let_def)

section \<open>Instances\<close>

definition demo_server :: "mem server" where
  "demo_server = \<lparr>sv_libs = demo_libs, sv_redis = mem_redis, sv_SessionSvc = demo_sessions, sv_has_SessionSvc = True, sv_has_ClientSvc = True,
     sv_has_AuthCodeSvc = True, sv_has_TokenSvc = True, sv_has_OIDCSvc = True, sv_DefaultOrgID = []\<rparr>"

definition demo_client :: Client where
  "demo_client = new_client 0 9 1 \<lparr>ccp_Name = ''app'', ccp_Description = [], ccp_ClientType = ''web'', ccp_TokenEndpointAuthMethod = ''none'',
     ccp_AllowedScopes = [], ccp_AllowedRedirectURIs = [''https://app/cb''], ccp_AllowedOrigins = [], ccp_TokenExpiration = 900,
     ccp_RefreshTokenExpiration = 28800, ccp_AllowMultipleTokens = False, ccp_SkipConsentScreen = False\<rparr> []"

definition demo_oauth_db :: db where
  "demo_oauth_db = db_empty\<lparr>t_users := [User0\<lparr>u_ID := 5\<rparr>],
     t_branches := [\<lparr>b_ID = 3, b_OrgID = 1, b_BranchCode = ''B3'', b_Name = [], b_Active = True, b_UpdatedAt = 0\<rparr>],
     t_oauth2_clients := [demo_client\<lparr>cl_ClientID := ''app''\<rparr>]\<rparr>"

definition demo_form :: "params \<Rightarrow> request" where
  "demo_form ps = \<lparr>rq_query = [], rq_form = ps, rq_Authorization = []\<rparr>"

lemma demo_server_simps [simp]:
  "sv_libs demo_server = demo_libs" "sv_redis demo_server = mem_redis" "sv_SessionSvc demo_server = demo_sessions"
  "sv_has_SessionSvc demo_server" "sv_has_ClientSvc demo_server" "sv_has_AuthCodeSvc demo_server" "sv_has_TokenSvc demo_server"
  "sv_has_OIDCSvc demo_server" "sv_DefaultOrgID demo_server = []"
  by (simp_all add: demo_server_def)

lemma bits_uuid_plain:
  "length (uuid_String bits_uuid u) = 128" "uuid_String bits_uuid u \<noteq> []" "CHR '':'' \<notin> set (uuid_String bits_uuid u)"
  by (auto simp: bits_uuid_def)

lemma demo_app: "GetByClientID demo_oauth_db ''app'' = Inr (demo_client\<lparr>cl_ClientID := ''app''\<rparr>)"
  by (simp add: demo_oauth_db_def db_empty_def GetByClientID_def Clients_GetClient_def pg_QueryRow_def demo_client_def new_client_def)

lemma demo_client_simps [simp]:
  "cl_IsActive demo_client" "\<not> IsConfidential (demo_client\<lparr>cl_ClientID := x\<rparr>)" "cl_OrgID demo_client = 1"
  "ValidateRedirectURI (demo_client\<lparr>cl_ClientID := x\<rparr>) ''https://app/cb''"
  by (simp_all add: demo_client_def new_client_def IsConfidential_def ValidateRedirectURI_def)

definition demo_exchange :: request where
  "demo_exchange = demo_form [(''code'', generateCode ''b''), (''redirect_uri'', ''https://app/cb''), (''client_id'', ''app'')]"

lemma demo_exchange_simps [simp]:
  "PostForm demo_exchange ''code'' = generateCode ''b''" "PostForm demo_exchange ''redirect_uri'' = ''https://app/cb''"
  "PostForm demo_exchange ''code_verifier'' = []" "client_auth demo_exchange = (''app'', [])"
  by (simp_all add: demo_exchange_def demo_form_def gin_Query_def client_auth_def parseBasicAuth_def)

definition demo_authorize :: authorize_request where
  "demo_authorize = \<lparr>arq_ClientID = ''app'', arq_RedirectURI = ''https://app/cb'', arq_ResponseType = ''code'', arq_Scope = [], arq_State = [],
     arq_CodeChallenge = [], arq_CodeChallengeMethod = []\<rparr>"

text \<open>A user with a branch is logged in, obtains a code and exchanges it.\<close>

lemma demo_flow:
  obtains tok claims db' url where
    "VerifyAccessToken demo_libs mem_redis demo_sessions [] 1 tok = Inr claims" "c_Roles claims = [''teller'']" "tok \<noteq> []"
    "handleAuthorizeWithSession demo_server (demo_oauth_db, []) 1 ''b'' \<lparr>rq_query = [], rq_form = [], rq_Authorization = ''Bearer '' @ tok\<rparr> (Some demo_authorize) = (db', OK url)"
    "GetByClientID db' ''app'' = Inr (demo_client\<lparr>cl_ClientID := ''app''\<rparr>)"
proof -
  let ?cl = "Claims0\<lparr>c_BranchID := uuid_String bits_uuid 3, c_Roles := [''teller'']\<rparr>"
  obtain tok acc where iss: "IssueAccessToken bits_uuid field_jwt demo_jwt 0 ''t'' ''s1'' 5 1 ?cl = Inr (tok, acc)"
    using field_jwt.issue_ok [OF demo_jwt_key TrueI] by blast
  let ?c = "access_claims bits_uuid field_jwt demo_jwt 0 ''t'' ''s1'' 5 1 ?cl"
  have "jwt_VerifyAccessToken field_jwt demo_jwt 1 tok = Inr ?c"
    by (rule field_jwt.verify_issued_by [OF iss demo_jwt_key ActiveKey_stored [OF demo_jwt_wf demo_jwt_key, THEN conjunct1] refl])
      (simp add: demo_jwt_def jwt_NewService_def)
  moreover have "IsSessionRevoked mem_redis [] 1 x = Inr False" for x
    by (simp add: IsSessionRevoked_def mem_redis_def mem_exists_def mem_read_defs)
  ultimately have ver: "VerifyAccessToken demo_libs mem_redis demo_sessions [] 1 tok = Inr ?c"
    by (simp add: VerifyAccessToken_def)
  let ?p = "session_code_params 5 ?c (demo_client\<lparr>cl_ClientID := ''app''\<rparr>) demo_authorize"
  have "snd (Codes_Create bits_uuid demo_oauth_db (new_auth_code 1 ''b'' ?p)) = Inr ()"
    by (simp add: Codes_Create_def pg_Exec_def new_auth_code_def session_code_params_def demo_authorize_def demo_oauth_db_def db_empty_def
        access_claims_fields bits_uuid.parse_string bits_uuid.parse0_string generateCode_def RawEncodeToString_def)
  then obtain db' where "CreateAuthCode (pg_codes bits_uuid) demo_oauth_db 1 ''b'' ?p = (db', Inr (new_auth_code 1 ''b'' ?p))"
    by (cases "Codes_Create bits_uuid demo_oauth_db (new_auth_code 1 ''b'' ?p)") (simp add: CreateAuthCode_def pg_codes_def)
  note create = this
  have subj: "uuid_Parse bits_uuid (c_Subject ?c) = Some 5" by (simp add: access_claims_fields bits_uuid.parse_string)
  have auth: "handleAuthorizeWithSession demo_server (demo_oauth_db, []) 1 ''b'' \<lparr>rq_query = [], rq_form = [], rq_Authorization = ''Bearer '' @ tok\<rparr> (Some demo_authorize) =
      (db', OK (''https://app/cb?code='' @ ac_Code (new_auth_code 1 ''b'' ?p)))"
    using ver create subj demo_app
    by (simp add: handleAuthorizeWithSession_def Let_def strings_TrimPrefix_def demo_authorize_def)
  have ne: "tok \<noteq> []" using iss
    by (auto simp: IssueAccessToken_def field_jwt_def field_sign_def pack_def split: option.splits)
  show ?thesis
    by (rule that [OF ver _ ne auth]) (simp_all add: access_claims_fields GetByClientID_CreateAuthCode [OF create] demo_app)
qed

lemma demo_early: "t < 60 * time_Second \<Longrightarrow> 0 \<le> now \<Longrightarrow> t < (now + js_tokenTTL demo_jwt) div time_Second * time_Second"
proof -
  assume "t < 60 * time_Second" "0 \<le> now"
  moreover have "js_tokenTTL demo_jwt = 900 * time_Second" by (simp add: demo_jwt_def jwt_NewService_def)
  moreover have "(now + 900 * time_Second) div time_Second = now div time_Second + 900" by simp
  moreover have "0 \<le> now div time_Second" using \<open>0 \<le> now\<close> by (simp add: pos_imp_zdiv_nonneg_iff)
  ultimately show ?thesis by simp
qed

theorem authorize_exchange_roundtrip_witness:
  "\<exists>tok db' url st' resp c.
     handleAuthorizeWithSession demo_server (demo_oauth_db, []) 1 ''b'' \<lparr>rq_query = [], rq_form = [], rq_Authorization = ''Bearer '' @ tok\<rparr> (Some demo_authorize) = (db', OK url) \<and>
     handleTokenExchange demo_server (db', []) 2 (demo_rand 40) demo_exchange = (st', OK resp) \<and>
     jwt_VerifyAccessToken field_jwt demo_jwt 3 (tr_AccessToken resp) = Inr c \<and> c_Roles c = [''teller'']"
proof -
  obtain tok claims db' url where f: "VerifyAccessToken demo_libs mem_redis demo_sessions [] 1 tok = Inr claims" "c_Roles claims = [''teller'']"
    "handleAuthorizeWithSession demo_server (demo_oauth_db, []) 1 ''b'' \<lparr>rq_query = [], rq_form = [], rq_Authorization = ''Bearer '' @ tok\<rparr> (Some demo_authorize) = (db', OK url)"
    by (rule demo_flow) blast
  have "\<exists>st' resp c. handleTokenExchange demo_server (db', []) 2 (demo_rand 40) demo_exchange = (st', OK resp) \<and>
    jwt_VerifyAccessToken (lib_jwt (sv_libs demo_server)) (ses_jwt (sv_SessionSvc demo_server)) 3 (tr_AccessToken resp) = Inr c \<and>
    uuid_Parse (lib_uuid (sv_libs demo_server)) (c_Subject c) = uuid_Parse (lib_uuid (sv_libs demo_server)) (c_Subject claims) \<and>
    c_Roles c = c_Roles claims \<and> c_Username c = c_Username claims \<and>
    c_Scope c = (if arq_Scope demo_authorize = [] then ''openid'' else arq_Scope demo_authorize)"
    by (rule authorize_exchange_roundtrip [where key_ok = "\<lambda>_. True" and now = 1 and tok = tok and bytes = "''b''" and db = demo_oauth_db
          and url = url and other = "demo_client\<lparr>cl_ClientID := ''app''\<rparr>"
          and rq = "\<lparr>rq_query = [], rq_form = [], rq_Authorization = ''Bearer '' @ tok\<rparr>"])
      (use f demo_early [of 3 2] in \<open>simp_all add: bits_uuid.uuid_format_axioms field_jwt.jwt_library_axioms demo_jwt_wf demo_jwt_key demo_app
          demo_authorize_def pg_ts_def\<close>)
  then obtain st' resp c where r: "handleTokenExchange demo_server (db', []) 2 (demo_rand 40) demo_exchange = (st', OK resp)"
      "jwt_VerifyAccessToken field_jwt demo_jwt 3 (tr_AccessToken resp) = Inr c" "c_Roles c = c_Roles claims" by auto
  show ?thesis
    by (intro exI [of _ tok] exI [of _ db'] exI [of _ url] exI [of _ st'] exI [of _ resp] exI [of _ c] conjI f(3) r(1,2)) (simp add: r(3) f(2))
qed

definition demo_exchange_db :: db where
  "demo_exchange_db = demo_oauth_db\<lparr>t_oauth2_authorization_codes := [demo_code\<lparr>ac_Code := generateCode ''b'', ac_ClientID := ''app''\<rparr>]\<rparr>"

lemma demo_exchangeable:
  "exchangeable demo_libs demo_exchange_db 2 (generateCode ''b'') [] ''https://app/cb'' (demo_code\<lparr>ac_Code := generateCode ''b'', ac_ClientID := ''app''\<rparr>)
     (demo_client\<lparr>cl_ClientID := ''app''\<rparr>)"
  using demo_app by (simp add: exchangeable_def demo_exchange_db_def demo_oauth_db_def db_empty_def Codes_GetByCode_def pg_QueryRow_def demo_code_def
      GetByClientID_def Clients_GetClient_def)

lemma generateCode_b: "generateCode ''b'' \<noteq> []"
  by (simp add: generateCode_def RawEncodeToString_def)

lemma demo_exchange_ok: "\<exists>st' resp. handleTokenExchange demo_server (demo_exchange_db, []) 2 (demo_rand 40) demo_exchange = (st', OK resp)"
proof -
  let ?a = "demo_code\<lparr>ac_Code := generateCode ''b'', ac_ClientID := ''app''\<rparr>" and ?c = "demo_client\<lparr>cl_ClientID := ''app''\<rparr>"
  obtain tok acc where "IssueAccessToken (lib_uuid demo_libs) (lib_jwt demo_libs) (ses_jwt demo_sessions) 2 (uuid_String (lib_uuid demo_libs) (rnd_jti (demo_rand 40)))
      (uuid_String (lib_uuid demo_libs) (rnd_session (demo_rand 40))) (ac_UserID ?a) (ac_OrgID ?a) (code_claims demo_libs ?c ?a) = Inr (tok, acc)"
    using field_jwt.issue_ok [OF demo_jwt_key TrueI] by (metis demo_simps(2,5))
  then obtain st' resp where "ExchangeCodeForTokens demo_libs mem_redis demo_sessions (demo_exchange_db, []) 2 (demo_rand 40) (generateCode ''b'') [] ''https://app/cb'' = (st', Inr resp)"
    using ExchangeCodeForTokens_ok [OF demo_exchangeable, where R = mem_redis and rs = "[]"] by blast
  moreover have "GetByClientID demo_exchange_db ''app'' = Inr ?c" using demo_exchangeable by (simp add: exchangeable_def)
  ultimately show ?thesis using generateCode_b by (simp add: handleTokenExchange_def Let_def)
qed

theorem code_exchange_sound_witness:
  "\<exists>db' rs' resp c. handleTokenExchange demo_server (demo_exchange_db, []) 2 (demo_rand 40) demo_exchange = ((db', rs'), OK resp) \<and>
     (\<exists>a. Codes_GetByCode db' (generateCode ''b'') = Inr a \<and> ac_CodeUsed a) \<and>
     jwt_VerifyAccessToken field_jwt demo_jwt 3 (tr_AccessToken resp) = Inr c"
proof -
  obtain db' rs' resp where ok: "handleTokenExchange demo_server (demo_exchange_db, []) 2 (demo_rand 40) demo_exchange = ((db', rs'), OK resp)"
    using demo_exchange_ok by (metis surj_pair)
  have lib: "jwt_library (lib_jwt (sv_libs demo_server)) (\<lambda>_. True)" "rkm_wf (js_keyManager (ses_jwt (sv_SessionSvc demo_server)))"
    using field_jwt.jwt_library_axioms demo_jwt_wf by simp_all
  from code_exchange_sound [OF lib ok] demo_early [of 3 2] obtain a c where
    "Codes_GetByCode db' (generateCode ''b'') = Inr (a\<lparr>ac_CodeUsed := True\<rparr>)" "jwt_VerifyAccessToken field_jwt demo_jwt 3 (tr_AccessToken resp) = Inr c"
    by auto
  with ok show ?thesis by fastforce
qed

theorem code_exchange_refusals_witness:
  "handleTokenExchange demo_server (demo_exchange_db, []) (6 * time_Minute) (demo_rand 40) demo_exchange =
     ((demo_exchange_db, []), Refused 400 ''invalid_grant'')"
proof -
  have e: "GetByClientID demo_exchange_db ''app'' = Inr (demo_client\<lparr>cl_ClientID := ''app''\<rparr>)"
      "Codes_GetByCode demo_exchange_db (generateCode ''b'') = Inr (demo_code\<lparr>ac_Code := generateCode ''b'', ac_ClientID := ''app''\<rparr>)"
    using demo_exchangeable by (simp_all add: exchangeable_def)
  show ?thesis
    using code_exchange_refusals [of demo_server demo_exchange demo_exchange_db "demo_client\<lparr>cl_ClientID := ''app''\<rparr>"
        "demo_code\<lparr>ac_Code := generateCode ''b'', ac_ClientID := ''app''\<rparr>" "6 * time_Minute" "[]" "demo_rand 40"] generateCode_b e
    by (simp add: demo_code_def exchange_check_pg)
qed

theorem authorize_never_succeeds_witness:
  "\<exists>status e. handleAuthorize demo_server demo_oauth_db 0 ''b'' (demo_form []) = (demo_oauth_db, Refused status e)"
  by (rule authorize_never_succeeds) (simp add: bits_uuid_def)

definition demo_dcr :: DCRRequest where
  "demo_dcr = \<lparr>dq_ClientName = ''batch'', dq_RedirectURIs = [], dq_GrantTypes = [''client_credentials''], dq_Scope = ''read'', dq_TokenEndpointAuthMethod = []\<rparr>"

theorem dcr_client_credentials_roundtrip_witness:
  "\<exists>db' r resp. handleDCR demo_server demo_oauth_db 0 11 12 ''k'' (Some demo_dcr) = (db', OK r) \<and>
     handleClientCredentials demo_server db' 1 (demo_rand 40)
       \<lparr>rq_query = [], rq_form = [(''scope'', ''admin'')], rq_Authorization = ''Basic '' @ EncodeToString False (dp_ClientID r @ CHR '':'' # dp_ClientSecret r)\<rparr> = OK resp"
proof -
  let ?c = "new_client 0 11 1 (dcr_params demo_libs 12 demo_dcr) (hashClientSecret demo_libs (dcrGenerateSecret ''k''))"
  have "length (hashClientSecret demo_libs (dcrGenerateSecret ''k'')) \<le> 256"
    by (simp add: hashClientSecret_def dcrGenerateSecret_def EncodeToString_def RawEncodeToString_def numeral_2_eq_2)
  moreover have "(9 :: uuid) \<noteq> 11" by simp
  moreover have "''app'' \<noteq> uuid_String bits_uuid 11"
  proof
    assume "''app'' = uuid_String bits_uuid 11"
    then have "length ''app'' = 128" by (simp only: bits_uuid_plain(1))
    then show False by simp
  qed
  ultimately have "snd (Clients_CreateClient bits_uuid demo_oauth_db ?c) = Inr ()"
    using bits_uuid_plain(1) [of 11]
    by (simp add: Clients_CreateClient_def pg_Exec_def clients_check_def pg_int4_def new_client_def dcr_params_def demo_dcr_def dcr_grantTypes_def
        demo_oauth_db_def db_empty_def demo_client_def)
  then obtain db' r where dcr: "handleDCR demo_server demo_oauth_db 0 11 12 ''k'' (Some demo_dcr) = (db', OK r)"
    and r: "dp_ClientID r = uuid_String bits_uuid 11" "dp_ClientSecret r = dcrGenerateSecret ''k''"
    by (cases "Clients_CreateClient bits_uuid demo_oauth_db ?c")
      (auto simp: handleDCR_def CreateWithSecretHash_def Let_def dcr_orgID_def new_client_def)
  let ?rq = "\<lparr>rq_query = [], rq_form = [(''scope'', ''admin'')], rq_Authorization = ''Basic '' @ EncodeToString False (dp_ClientID r @ CHR '':'' # dp_ClientSecret r)\<rparr>"
  have k: "dcrGenerateSecret ''k'' \<noteq> []" by (simp add: dcrGenerateSecret_def EncodeToString_def RawEncodeToString_def)
  have "\<exists>resp. handleClientCredentials demo_server db' 1 (demo_rand 40) ?rq = OK resp"
    using dcr_client_credentials_roundtrip [OF _ _ _ _ dcr, where rq = ?rq and secret = "dp_ClientSecret r" and key_ok = "\<lambda>_. True"
        and t = 3 and now' = 1 and rnd = "demo_rand 40"] k r demo_early [of 3 1]
    by (simp add: field_jwt.jwt_library_axioms demo_jwt_wf demo_jwt_key demo_dcr_def bits_uuid_plain) blast
  with dcr show ?thesis by blast
qed

theorem introspection_ignores_revocation_witness:
  "\<exists>tok r. handleIntrospect demo_server demo_oauth_db 1 \<lparr>rq_query = [], rq_form = [(''token'', tok)], rq_Authorization = ''Basic '' @ EncodeToString False ''x:y''\<rparr> = OK r \<and>
     ir_Active r \<and>
     handleUserInfo demo_server [(revokedKey ''s1'', (MStr (Text ''1''), None))] 1 \<lparr>rq_query = [], rq_form = [], rq_Authorization = ''Bearer '' @ tok\<rparr> = Refused 401 ''invalid_token''"
proof -
  obtain tok acc where iss: "IssueAccessToken bits_uuid field_jwt demo_jwt 0 ''t'' ''s1'' 5 1 Claims0 = Inr (tok, acc)"
    using field_jwt.issue_ok [OF demo_jwt_key TrueI] by blast
  let ?c = "access_claims bits_uuid field_jwt demo_jwt 0 ''t'' ''s1'' 5 1 Claims0"
  have ver: "jwt_VerifyAccessToken field_jwt demo_jwt 1 tok = Inr ?c"
    by (rule field_jwt.verify_issued_by [OF iss demo_jwt_key ActiveKey_stored [OF demo_jwt_wf demo_jwt_key, THEN conjunct1] refl demo_early]) simp_all
  have ne: "tok \<noteq> []" using iss
    by (auto simp: IssueAccessToken_def field_jwt_def field_sign_def pack_def split: option.splits)
  have rev: "IsSessionRevoked mem_redis [(revokedKey ''s1'', (MStr (Text ''1''), None))] 1 (c_SessionID ?c) = Inr True"
    by (simp add: IsSessionRevoked_def mem_redis_def mem_exists_def mem_read_defs access_claims_fields)
  have cred: "parseBasicAuth (''Basic '' @ EncodeToString False ''x:y'') = Some (''x'', ''y'')"
    using parseBasicAuth_header [of "''x''" "''y''"] by simp
  show ?thesis
    using introspection_ignores_revocation [of demo_server 1 tok ?c "[(revokedKey ''s1'', (MStr (Text ''1''), None))]"
        "\<lparr>rq_query = [], rq_form = [(''token'', tok)], rq_Authorization = ''Basic '' @ EncodeToString False ''x:y''\<rparr>" "(''x'', ''y'')"
        "\<lparr>rq_query = [], rq_form = [], rq_Authorization = ''Bearer '' @ tok\<rparr>" demo_oauth_db] ver rev ne cred
    by (simp add: gin_Query_def) blast
qed

end
