(* ===== verification/AuthRest.thy ===== *)
theory AuthRest
  imports Identity PostgresAuthz SessionProps
begin

text \<open>
  The login endpoints, internal/api/rest/auth.go: registration, login, logout, profile,
  second factor and passwords. They work on the tables and on Redis and do not use the
  identity service. A request body is the record it binds to, or the text of the binding
  error. Mails and published events are sent in the background with their errors ignored
  and are left out. \<open>ah_totp_Validate\<close> is \<^verbatim>\<open>totp.Validate\<close> of the package \<^verbatim>\<open>pquerna/otp\<close> at the
  current time, \<open>ah_cfb\<close> the CFB decryption of a text with an AES key and an initial vector.
\<close>

record 'r AuthHandler =
  ah_libs :: libs
  ah_redis :: "'r redis"
  ah_session :: session_Service
  ah_id :: id_env
  ah_totp_Validate :: "time \<Rightarrow> string \<Rightarrow> string \<Rightarrow> bool"
  ah_cfb :: "string \<Rightarrow> string \<Rightarrow> string \<Rightarrow> string"

text \<open>\<^verbatim>\<open>err.Error()\<close>\<close>

fun err_Error :: "error \<Rightarrow> string" where
  "err_Error (Errorf s) = s"
| "err_Error (Sentinel s) = s"
| "err_Error (External s) = s"
| "err_Error (Wrapf s e) = s @ '': '' @ err_Error e"

section \<open>Registration\<close>

record RegisterRequest =
  rrq_OrgID :: string
  rrq_Username :: string
  rrq_Email :: string
  rrq_Password :: string
  rrq_FullName :: string

definition HandleRegister ::
  "'r AuthHandler \<Rightarrow> db \<Rightarrow> time \<Rightarrow> id_rand \<Rightarrow> string + RegisterRequest \<Rightarrow> db \<times> RegisterOutput response" where
  "HandleRegister h db now rnd body =
     (case body of
        Inl msg \<Rightarrow> (db, Refused 400 msg)
      | Inr req \<Rightarrow> (case uuid_Parse (lib_uuid (ah_libs h)) (rrq_OrgID req) of
          None \<Rightarrow> (db, Refused 400 ''invalid org_id'')
        | Some orgID \<Rightarrow>
          (let E = ah_id h; email = NormalizeEmail (rrq_Email req)
           in if is_ok (Users_GetByUsername db (rrq_Username req)) then (db, Refused 409 ''username already exists'')
              else if is_ok (Users_GetByEmail db email) then (db, Refused 409 ''email already exists'')
              else (case PasswordPolicy_Validate DefaultPasswordPolicy (rrq_Password req) (rrq_Username req) email of
                  Inl e \<Rightarrow> (db, Refused 400 (err_Error e))
                | Inr _ \<Rightarrow> (case Hash (ie_argon2 E) (ie_config E) (ir_salt rnd) (rrq_Password req) of
                    Inl _ \<Rightarrow> (db, Refused 500 ''failed to hash password'')
                  | Inr passwordHash \<Rightarrow>
                    (case User_Validate (ie_parseAddress E) (User0\<lparr>u_ID := ir_user rnd, u_OrgID := orgID, u_Username := rrq_Username req,
                            u_Email := email, u_FullName := rrq_FullName req, u_PreferredLocale := ''id'',
                            u_Status := ''pending_verification'', u_CreatedAt := now, u_UpdatedAt := now\<rparr>) of
                      (_, Inl e) \<Rightarrow> (db, Refused 400 (err_Error e))
                    | (user, Inr _) \<Rightarrow> (case Users_Create db user of
                        (db1, Inl _) \<Rightarrow> (db1, Refused 500 ''failed to create user'')
                      | (db1, Inr _) \<Rightarrow>
                        (case Credentials_Create db1 (new_password_credential now (ir_cred rnd) (u_ID user) passwordHash) of
                          (db2, Inl _) \<Rightarrow> (db2, Refused 500 ''failed to create credential'')
                        | (db2, Inr _) \<Rightarrow>
                          (let verifyToken = uuid_String (lib_uuid (ah_libs h)) (ir_token rnd)
                           in case VTokens_Create db2 (new_verification_token now (ir_vt rnd) (u_ID user) verifyToken
                                     TokenTypeEmailVerification (24 * time_Hour)) of
                                (db3, Inl _) \<Rightarrow> (db3, Refused 500 ''failed to create verification token'')
                              | (db3, Inr _) \<Rightarrow> (db3, OK \<lparr>rout_User = user, rout_VerifyToken = verifyToken\<rparr>))))))))))"

section \<open>Login and logout\<close>

record client_headers =
  ch_XForwardedFor :: string
  ch_XRealIP :: string
  ch_ClientIP :: string
  ch_UserAgent :: string

definition clientIP :: "client_headers \<Rightarrow> string" where
  "clientIP c =
     (if ch_XForwardedFor c \<noteq> []
      then strings_TrimSpace (takeWhile (\<lambda>x. x \<noteq> CHR '','') (ch_XForwardedFor c))
      else if strings_TrimSpace (ch_XRealIP c) \<noteq> [] then strings_TrimSpace (ch_XRealIP c)
      else ch_ClientIP c)"

record LoginRequest =
  lrq_Username :: string
  lrq_Password :: string
  lrq_MFACode :: string

datatype login_response =
    MustChangePassword uuid string
  | MFARequired string uuid
  | LoggedIn LoginResult User

text \<open>The account a login name or an address stands for.\<close>

definition find_account :: "db \<Rightarrow> string \<Rightarrow> User result" where
  "find_account db name =
     (let usernameOrEmail = strings_TrimSpace name
      in if strings_Contains usernameOrEmail ''@'' then Users_GetByEmail db (NormalizeEmail usernameOrEmail)
         else Users_GetByUsername db usernameOrEmail)"

text \<open>The claims of the session: roles and branch of the user, empty where a query fails.\<close>

definition login_claims :: "uuid_pkg \<Rightarrow> db \<Rightarrow> User \<Rightarrow> Claims" where
  "login_claims U db user =
     (let roles = (case UserRoles_GetRoleCodesByUser db (u_ID user) of Inl _ \<Rightarrow> [] | Inr rs \<Rightarrow> rs);
          branch = (case Assignments_GetPrimaryByUserID db (u_ID user) of
                      Inr b \<Rightarrow> (uuid_String U (uba_BranchID b), uba_BranchCode b)
                    | Inl _ \<Rightarrow> (case Assignments_GetAnyActiveByUserID db (u_ID user) of
                        Inr b \<Rightarrow> (uuid_String U (uba_BranchID b), uba_BranchCode b) | Inl _ \<Rightarrow> ([], [])))
      in Claims0\<lparr>c_Username := u_Username user, c_Email := u_Email user, c_Roles := roles,
           c_BranchID := fst branch, c_BranchCode := snd branch\<rparr>)"

definition HandleLogin ::
  "'r AuthHandler \<Rightarrow> db \<times> 'r \<Rightarrow> time \<Rightarrow> session_rand \<Rightarrow> client_headers \<Rightarrow> string + LoginRequest \<Rightarrow> 'r \<times> login_response response" where
  "HandleLogin h st now rnd c body =
     (case st of (db, rs) \<Rightarrow> case body of
        Inl msg \<Rightarrow> (rs, Refused 400 msg)
      | Inr req \<Rightarrow> (case find_account db (lrq_Username req) of
          Inl _ \<Rightarrow> (rs, Refused 401 ''invalid credentials'')
        | Inr user \<Rightarrow>
          if \<not> User_CanLogin now user then (rs, Refused 403 ''account not available for login'')
          else (case Credentials_GetCurrentByUserID db (u_ID user) of
              Inl _ \<Rightarrow> (rs, Refused 500 ''failed to get credential'')
            | Inr cred \<Rightarrow>
              if \<not> Verify (ie_argon2 (ah_id h)) (lrq_Password req) (uc_SecretHash cred) then (rs, Refused 401 ''invalid credentials'')
              else if u_RequirePasswordChange user then (rs, OK (MustChangePassword (u_ID user) (u_Username user)))
              else if u_MFAEnabled user \<and> lrq_MFACode req = [] then (rs, OK (MFARequired (u_MFAMethod user) (u_ID user)))
              else (let U = lib_uuid (ah_libs h);
                        rs1 = fst (RevokeAllUserSessions (ah_redis h) rs now (uuid_String U (u_ID user)))
                    in case CreateSession (ah_libs h) (ah_redis h) (ah_session h) rs1 now rnd (u_ID user) (u_OrgID user)
                              (clientIP c) (ch_UserAgent c) (login_claims U db user) of
                         (rs2, Inl _) \<Rightarrow> (rs2, Refused 500 ''failed to create session'')
                       | (rs2, Inr result) \<Rightarrow> (rs2, OK (LoggedIn result user))))))"

text \<open>
  The opening of every authenticated endpoint: the claims of the Bearer token, \<open>None\<close> for
  the answer 401 \<^verbatim>\<open>invalid_token\<close>.
\<close>

definition bearer_claims :: "'r AuthHandler \<Rightarrow> 'r \<Rightarrow> time \<Rightarrow> string \<Rightarrow> Claims option" where
  "bearer_claims h rs now auth =
     (let tokenStr = strings_TrimPrefix auth ''Bearer ''
      in if auth = [] then None
         else if tokenStr = auth then None
         else (case VerifyAccessToken (ah_libs h) (ah_redis h) (ah_session h) rs now tokenStr of Inl _ \<Rightarrow> None | Inr claims \<Rightarrow> Some claims))"

definition HandleLogout :: "'r AuthHandler \<Rightarrow> 'r \<Rightarrow> time \<Rightarrow> string \<Rightarrow> 'r \<times> unit response" where
  "HandleLogout h rs now auth =
     (case bearer_claims h rs now auth of
        None \<Rightarrow> (rs, Refused 401 ''invalid_token'')
      | Some claims \<Rightarrow> (case RevokeAllUserSessions (ah_redis h) rs now (c_Subject claims) of
          (rs1, Inr _) \<Rightarrow> (rs1, OK ())
        | (rs1, Inl _) \<Rightarrow> (case RevokeSession (ah_redis h) rs1 now (c_SessionID claims) of
            (rs2, Inl _) \<Rightarrow> (rs2, Refused 500 ''failed to logout'')
          | (rs2, Inr _) \<Rightarrow> (rs2, OK ()))))"

section \<open>Profile\<close>

text \<open>The user of the token: \<^verbatim>\<open>uuid.Parse\<close> of the subject and the lookup.\<close>

definition bearer_user :: "'r AuthHandler \<Rightarrow> db \<times> 'r \<Rightarrow> time \<Rightarrow> string \<Rightarrow> User response" where
  "bearer_user h st now auth =
     (case st of (db, rs) \<Rightarrow> case bearer_claims h rs now auth of
        None \<Rightarrow> Refused 401 ''invalid_token''
      | Some claims \<Rightarrow> (case uuid_Parse (lib_uuid (ah_libs h)) (c_Subject claims) of
          None \<Rightarrow> Refused 401 ''invalid_token''
        | Some userID \<Rightarrow> (case Users_GetByID db userID of Inl _ \<Rightarrow> Refused 404 ''user not found'' | Inr user \<Rightarrow> OK user)))"

definition HandleMe :: "'r AuthHandler \<Rightarrow> db \<times> 'r \<Rightarrow> time \<Rightarrow> string \<Rightarrow> User response" where
  "HandleMe h st now auth = bearer_user h st now auth"

record UpdateProfileRequest =
  upr_FullName :: string
  upr_Email :: string
  upr_PreferredLocale :: string

definition HandleUpdateProfile ::
  "'r AuthHandler \<Rightarrow> db \<times> 'r \<Rightarrow> time \<Rightarrow> string \<Rightarrow> string + UpdateProfileRequest \<Rightarrow> db \<times> User response" where
  "HandleUpdateProfile h st now auth body =
     (case bearer_user h st now auth of
        Refused status e \<Rightarrow> (fst st, Refused status e)
      | OK user0 \<Rightarrow> (case body of
          Inl _ \<Rightarrow> (fst st, Refused 400 ''invalid_request'')
        | Inr req \<Rightarrow>
          (let user1 = (if upr_FullName req \<noteq> [] then user0\<lparr>u_FullName := upr_FullName req\<rparr> else user0);
               user2 = (if upr_Email req \<noteq> [] then user1\<lparr>u_Email := upr_Email req\<rparr> else user1)
           in if upr_PreferredLocale req \<noteq> [] \<and> upr_PreferredLocale req \<noteq> ''id'' \<and> upr_PreferredLocale req \<noteq> ''en''
              then (fst st, Refused 400 ''invalid_request'')
              else (let user3 = (if upr_PreferredLocale req \<noteq> [] then user2\<lparr>u_PreferredLocale := upr_PreferredLocale req\<rparr> else user2);
                        user = user3\<lparr>u_UpdatedAt := now\<rparr>
                    in case Users_Update (ie_inet (ah_id h)) (fst st) user of
                         (db1, Inl _) \<Rightarrow> (db1, Refused 500 ''update_failed'')
                       | (db1, Inr _) \<Rightarrow> (db1, OK user)))))"

section \<open>Second factor\<close>

record MFASetupRequest =
  msr_UserID :: string
  msr_Method :: string
  msr_Email :: string
  msr_TOTPCode :: string

definition HandleMFASetup :: "'r AuthHandler \<Rightarrow> db \<Rightarrow> string + MFASetupRequest \<Rightarrow> (string \<times> uuid) response" where
  "HandleMFASetup h db body =
     (case body of
        Inl msg \<Rightarrow> Refused 400 msg
      | Inr req \<Rightarrow> (case uuid_Parse (lib_uuid (ah_libs h)) (msr_UserID req) of
          None \<Rightarrow> Refused 400 ''invalid user_id''
        | Some userID \<Rightarrow> (case Users_GetByID db userID of
            Inl _ \<Rightarrow> Refused 404 ''user not found''
          | Inr _ \<Rightarrow>
            if msr_Method req = ''totp''
            then (if msr_TOTPCode req = [] then Refused 400 ''totp_code required'' else OK (msr_Method req, userID))
            else if msr_Method req = ''email_otp''
            then (if msr_Email req = [] then Refused 400 ''email required'' else OK (msr_Method req, userID))
            else Refused 400 ''invalid method'')))"

text \<open>
  \<^verbatim>\<open>aes.NewCipher\<close> accepts keys of 16, 24 and 32 bytes. For a short text the source returns
  the empty secret with the nil error.
\<close>

definition totp_key :: string where
  "totp_key = ''auth7-mfa-secret-key-32bytes!!''"

definition decryptTOTPSecret :: "'r AuthHandler \<Rightarrow> string \<Rightarrow> string \<Rightarrow> string result" where
  "decryptTOTPSecret h encrypted iv =
     (if length totp_key \<notin> {16, 24, 32} then Inl (External ''crypto/aes: invalid key size'')
      else if length encrypted < 16 then Inr []
      else Inr (ah_cfb h totp_key iv encrypted))"

definition validateTOTPCode :: "'r AuthHandler \<Rightarrow> time \<Rightarrow> string \<Rightarrow> string \<Rightarrow> bool" where
  "validateTOTPCode h now secret code = ah_totp_Validate h now code secret"

text \<open>The user update at the end of both handlers; its error is ignored.\<close>

definition update_user_flags :: "'r AuthHandler \<Rightarrow> db \<Rightarrow> uuid \<Rightarrow> (User \<Rightarrow> User) \<Rightarrow> db" where
  "update_user_flags h db userID f =
     (case Users_GetByID db userID of Inl _ \<Rightarrow> db | Inr user \<Rightarrow> fst (Users_Update (ie_inet (ah_id h)) db (f user)))"

record MFAVerifyRequest =
  mvr_UserID :: string
  mvr_Code :: string

definition HandleMFAVerify :: "'r AuthHandler \<Rightarrow> db \<Rightarrow> time \<Rightarrow> string + MFAVerifyRequest \<Rightarrow> db \<times> unit response" where
  "HandleMFAVerify h db now body =
     (case body of
        Inl msg \<Rightarrow> (db, Refused 400 msg)
      | Inr req \<Rightarrow> (case uuid_Parse (lib_uuid (ah_libs h)) (mvr_UserID req) of
          None \<Rightarrow> (db, Refused 400 ''invalid user_id'')
        | Some userID \<Rightarrow> (case MFA_GetByUserID db userID of
            Inl _ \<Rightarrow> (db, Refused 404 ''mfa config not found'')
          | Inr cfg \<Rightarrow>
            if \<not> IsFullyEnabled cfg then (db, Refused 400 ''mfa not fully enabled'')
            else
              (let byTOTP = (mc_IsTOTPEnabled cfg \<and> slice_len (mc_TOTPSecretEncrypted cfg) > 0 \<and>
                     (case decryptTOTPSecret h (the_slice (mc_TOTPSecretEncrypted cfg)) (the_slice (mc_TOTPSecretIV cfg)) of
                        Inl _ \<Rightarrow> False | Inr secret \<Rightarrow> validateTOTPCode h now secret (mvr_Code req)));
                   step = (if \<not> byTOTP \<and> mc_IsEmailOTPEnabled cfg
                     then (case OTP_GetActiveByUserID db now userID of
                         Inr code \<Rightarrow> if EmailOTPCode_IsValid now code \<and> eo_Code code = mvr_Code req
                           then (fst (OTP_MarkUsed db now (eo_ID code)), True) else (db, False)
                       | Inl _ \<Rightarrow> (db, False))
                     else (db, byTOTP))
               in if \<not> snd step then (fst step, Refused 400 ''invalid code'')
                  else (update_user_flags h (fst step) userID (\<lambda>u. u\<lparr>u_MFAEnabled := True, u_UpdatedAt := now\<rparr>), OK ())))))"

definition HandleMFADisable :: "'r AuthHandler \<Rightarrow> db \<Rightarrow> time \<Rightarrow> string + string \<Rightarrow> db \<times> unit response" where
  "HandleMFADisable h db now body =
     (case body of
        Inl msg \<Rightarrow> (db, Refused 400 msg)
      | Inr reqUserID \<Rightarrow> (case uuid_Parse (lib_uuid (ah_libs h)) reqUserID of
          None \<Rightarrow> (db, Refused 400 ''invalid user_id'')
        | Some userID \<Rightarrow> (case MFA_GetByUserID db userID of
            Inl _ \<Rightarrow> (db, Refused 404 ''mfa config not found'')
          | Inr cfg \<Rightarrow> (case MFA_Update db now (cfg\<lparr>mc_IsTOTPEnabled := False, mc_IsEmailOTPEnabled := False, mc_IsBackupCodesEnabled := False,
                  mc_TOTPSecretEncrypted := None, mc_TOTPSecretIV := None, mc_BackupCodesHash := None, mc_MFAEnabledAt := None, mc_UpdatedAt := now\<rparr>) of
              (db1, Inl _) \<Rightarrow> (db1, Refused 500 ''failed to disable mfa'')
            | (db1, Inr _) \<Rightarrow> (update_user_flags h db1 userID (\<lambda>u. u\<lparr>u_MFAEnabled := False, u_MFAMethod := [], u_UpdatedAt := now\<rparr>), OK ())))))"

section \<open>Passwords\<close>

record ChangePasswordRequest =
  cpr_CurrentPassword :: string
  cpr_NewPassword :: string

definition HandleChangePassword ::
  "'r AuthHandler \<Rightarrow> db \<times> 'r \<Rightarrow> time \<Rightarrow> id_rand \<Rightarrow> string \<Rightarrow> string + ChangePasswordRequest \<Rightarrow> db \<times> unit response" where
  "HandleChangePassword h st now rnd auth body =
     (case st of (db, rs) \<Rightarrow> case body of
        Inl msg \<Rightarrow> (db, Refused 400 msg)
      | Inr req \<Rightarrow> (case bearer_claims h rs now auth of
          None \<Rightarrow> (db, Refused 401 ''invalid_token'')
        | Some claims \<Rightarrow> (case uuid_Parse (lib_uuid (ah_libs h)) (c_Subject claims) of
            None \<Rightarrow> (db, Refused 401 ''invalid_token'')
          | Some userID \<Rightarrow> (case Credentials_GetCurrentByUserID db userID of
              Inl _ \<Rightarrow> (db, Refused 500 ''failed to get credential'')
            | Inr cred \<Rightarrow>
              if \<not> Verify (ie_argon2 (ah_id h)) (cpr_CurrentPassword req) (uc_SecretHash cred)
              then (db, Refused 400 ''current password is incorrect'')
              else (case PasswordPolicy_Validate DefaultPasswordPolicy (cpr_NewPassword req) (c_Username claims) (c_Email claims) of
                  Inl e \<Rightarrow> (db, Refused 400 (err_Error e))
                | Inr _ \<Rightarrow> (case Hash (ie_argon2 (ah_id h)) (ie_config (ah_id h)) (ir_salt rnd) (cpr_NewPassword req) of
                    Inl _ \<Rightarrow> (db, Refused 500 ''failed to hash password'')
                  | Inr newHash \<Rightarrow>
                    (case Credentials_Replace db now userID ''password'' newHash (pp_HistoryCount DefaultPasswordPolicy) of
                      (db1, Inl _) \<Rightarrow> (db1, Refused 500 ''failed to update credential'')
                    | (db1, Inr _) \<Rightarrow>
                      (update_user_flags h db1 userID
                         (\<lambda>u. u\<lparr>u_PasswordChangedAt := Some now, u_RequirePasswordChange := False, u_UpdatedAt := now\<rparr>), OK ()))))))))"

record InitialChangePasswordRequest =
  icp_Username :: string
  icp_CurrentPassword :: string
  icp_NewPassword :: string

definition HandleInitialChangePassword ::
  "'r AuthHandler \<Rightarrow> db \<Rightarrow> time \<Rightarrow> id_rand \<Rightarrow> string + InitialChangePasswordRequest \<Rightarrow> db \<times> unit response" where
  "HandleInitialChangePassword h db now rnd body =
     (case body of
        Inl msg \<Rightarrow> (db, Refused 400 msg)
      | Inr req \<Rightarrow> (case find_account db (icp_Username req) of
          Inl _ \<Rightarrow> (db, Refused 401 ''invalid credentials'')
        | Inr user \<Rightarrow>
          if \<not> u_RequirePasswordChange user then (db, Refused 400 ''password change not required'')
          else (case Credentials_GetCurrentByUserID db (u_ID user) of
              Inl _ \<Rightarrow> (db, Refused 500 ''failed to get credential'')
            | Inr cred \<Rightarrow>
              if \<not> Verify (ie_argon2 (ah_id h)) (icp_CurrentPassword req) (uc_SecretHash cred)
              then (db, Refused 401 ''invalid credentials'')
              else (case PasswordPolicy_Validate DefaultPasswordPolicy (icp_NewPassword req) (u_Username user) (u_Email user) of
                  Inl e \<Rightarrow> (db, Refused 400 (err_Error e))
                | Inr _ \<Rightarrow> (case Hash (ie_argon2 (ah_id h)) (ie_config (ah_id h)) (ir_salt rnd) (icp_NewPassword req) of
                    Inl _ \<Rightarrow> (db, Refused 500 ''failed to hash password'')
                  | Inr newHash \<Rightarrow>
                    (case Credentials_Replace db now (u_ID user) ''password'' newHash (pp_HistoryCount DefaultPasswordPolicy) of
                      (db1, Inl _) \<Rightarrow> (db1, Refused 500 ''failed to update credential'')
                    | (db1, Inr _) \<Rightarrow>
                      (fst (Users_Update (ie_inet (ah_id h)) db1 (user\<lparr>u_PasswordChangedAt := Some now, u_RequirePasswordChange := False, u_UpdatedAt := now\<rparr>)),
                       OK ())))))))"

text \<open>The answer holds the reset token when an account was found; \<open>None\<close> when there is none.\<close>

definition HandleForgotPassword :: "'r AuthHandler \<Rightarrow> db \<Rightarrow> time \<Rightarrow> id_rand \<Rightarrow> string + string \<Rightarrow> db \<times> string option response" where
  "HandleForgotPassword h db now rnd body =
     (case body of
        Inl msg \<Rightarrow> (db, Refused 400 msg)
      | Inr email \<Rightarrow> (case Users_GetByEmail db (NormalizeEmail email) of
          Inl _ \<Rightarrow> (db, OK None)
        | Inr user \<Rightarrow>
          (let resetToken = uuid_String (lib_uuid (ah_libs h)) (ir_token rnd)
           in case VTokens_Create db (new_verification_token now (ir_vt rnd) (u_ID user) resetToken TokenTypePasswordRecovery (15 * time_Minute)) of
                (db1, Inl _) \<Rightarrow> (db1, Refused 500 ''failed to create reset token'')
              | (db1, Inr _) \<Rightarrow> (db1, OK (Some resetToken)))))"

record ResetPasswordRequest =
  rpr_Token :: string
  rpr_NewPassword :: string

definition HandleResetPassword ::
  "'r AuthHandler \<Rightarrow> db \<Rightarrow> time \<Rightarrow> id_rand \<Rightarrow> string + ResetPasswordRequest \<Rightarrow> db \<times> unit response" where
  "HandleResetPassword h db now rnd body =
     (case body of
        Inl msg \<Rightarrow> (db, Refused 400 msg)
      | Inr req \<Rightarrow> (case VTokens_GetByToken db (rpr_Token req) of
          Inl _ \<Rightarrow> (db, Refused 400 ''invalid or expired reset token'')
        | Inr vt \<Rightarrow>
          if \<not> VerificationToken_IsValid now vt then (db, Refused 400 ''invalid or expired reset token'')
          else if vt_TokenType vt \<noteq> TokenTypePasswordRecovery then (db, Refused 400 ''invalid token type'')
          else (case PasswordPolicy_Validate DefaultPasswordPolicy (rpr_NewPassword req) [] [] of
              Inl e \<Rightarrow> (db, Refused 400 (err_Error e))
            | Inr _ \<Rightarrow> (case Hash (ie_argon2 (ah_id h)) (ie_config (ah_id h)) (ir_salt rnd) (rpr_NewPassword req) of
                Inl _ \<Rightarrow> (db, Refused 500 ''failed to hash password'')
              | Inr newHash \<Rightarrow>
                (case (if is_ok (Credentials_GetCurrentByUserID db (vt_UserID vt))
                       then Credentials_Replace db now (vt_UserID vt) ''password'' newHash (pp_HistoryCount DefaultPasswordPolicy)
                       else Credentials_Create db (new_password_credential now (ir_cred rnd) (vt_UserID vt) newHash)) of
                  (db1, Inl _) \<Rightarrow> (db1, Refused 500 ''failed to update password'')
                | (db1, Inr _) \<Rightarrow>
                  (update_user_flags h (fst (VTokens_MarkUsed db1 now (vt_ID vt))) (vt_UserID vt)
                     (\<lambda>u. u\<lparr>u_PasswordChangedAt := Some now, u_UpdatedAt := now\<rparr>), OK ()))))))"

end
