(* ===== verification/AuthProps.thy ===== *)
theory AuthProps
  imports AuthRest
begin

text \<open>
  What the login endpoints of internal/api/rest/auth.go guarantee: who gets a session and
  what becomes of the earlier ones, what a logout ends, what a holder of a recovery token
  can do, and which requests for the second factor cannot succeed.
\<close>

section \<open>Login and logout\<close>

text \<open>The conditions under which \<^verbatim>\<open>HandleLogin\<close> goes on to create a session for the user.\<close>

definition login_permitted :: "'r AuthHandler \<Rightarrow> db \<Rightarrow> time \<Rightarrow> LoginRequest \<Rightarrow> User \<Rightarrow> bool" where
  "login_permitted h db now req user \<longleftrightarrow>
     find_account db (lrq_Username req) = Inr user \<and> User_CanLogin now user \<and>
     (case Credentials_GetCurrentByUserID db (u_ID user) of
        Inl _ \<Rightarrow> False | Inr cred \<Rightarrow> Verify (ie_argon2 (ah_id h)) (lrq_Password req) (uc_SecretHash cred)) \<and>
     \<not> u_RequirePasswordChange user \<and> (u_MFAEnabled user \<longrightarrow> lrq_MFACode req \<noteq> [])"

lemma HandleLogin_permitted:
  assumes "login_permitted h db now req user"
  shows "HandleLogin h (db, rs) now rnd c (Inr req) =
    (case CreateSession (ah_libs h) (ah_redis h) (ah_session h)
         (fst (RevokeAllUserSessions (ah_redis h) rs now (uuid_String (lib_uuid (ah_libs h)) (u_ID user)))) now rnd (u_ID user) (u_OrgID user)
         (clientIP c) (ch_UserAgent c) (login_claims (lib_uuid (ah_libs h)) db user) of
       (rs2, Inl _) \<Rightarrow> (rs2, Refused 500 ''failed to create session'')
     | (rs2, Inr result) \<Rightarrow> (rs2, OK (LoggedIn result user)))"
  using assms by (auto simp: HandleLogin_def login_permitted_def Let_def split: sum.splits)

lemma HandleLogin_other:
  assumes "\<nexists>user. login_permitted h db now req user"
  shows "\<exists>r. HandleLogin h (db, rs) now rnd c (Inr req) = (rs, r) \<and> (\<forall>lr u. r \<noteq> OK (LoggedIn lr u))"
  using assms by (auto simp: HandleLogin_def login_permitted_def Let_def split: sum.splits)

context redis_server
begin

text \<open>\<^verbatim>\<open>CreateSession\<close> as one update of the view.\<close>

lemma CreateSession_view:
  assumes inv: "inv_at st now" and ttl: "0 < ses_ttl s" and lib: "jwt_library (lib_jwt L) key_ok"
    and key: "ActiveKey (js_keyManager (ses_jwt s)) = Some km" "key_ok (km_privateKey km)"
  obtains st' tok acc where "CreateSession L R s st now rnd u g ip ua cl = (st', Inr \<lparr>lr_AccessToken = tok,
      lr_RefreshToken = GenerateRefreshToken (rnd_bytes rnd), lr_ExpiresIn = 900,
      lr_SessionID = uuid_String (lib_uuid L) (rnd_session rnd), lr_UserID = u, lr_OrgID = g\<rparr>)"
    "IssueAccessToken (lib_uuid L) (lib_jwt L) (ses_jwt s) now (uuid_String (lib_uuid L) (rnd_jti rnd))
      (uuid_String (lib_uuid L) (rnd_session rnd)) u g cl = Inr (tok, acc)"
    "inv_at st' now"
    "\<forall>t \<ge> now. v_sess (view st' t) = (v_sess (view st t))(uuid_String (lib_uuid L) (rnd_session rnd) :=
        held (t < now + ses_ttl s) (stored_session (ses_ttl s) now [] (new_session L rnd u g ip ua cl)))"
    "\<forall>t \<ge> now. v_rev (view st' t) = v_rev (view st t)"
proof -
  let ?sid = "uuid_String (lib_uuid L) (rnd_session rnd)"
  obtain tok acc where issue: "IssueAccessToken (lib_uuid L) (lib_jwt L) (ses_jwt s) now
      (uuid_String (lib_uuid L) (rnd_jti rnd)) ?sid u g cl = Inr (tok, acc)"
    using jwt_library.issue_ok [OF lib key] by blast
  obtain st' r where run: "CreateSession L R s st now rnd u g ip ua cl = (st', r)" by fastforce
  note ok = CreateSession_ok [OF inv ttl issue run]
  then obtain st1 r1 where steps: "Store_Create R (ses_ttl s) st now [] (new_session L rnd u g ip ua cl) = (st1, r1)"
      "Refresh_Create R st1 now (new_refresh_token L rnd now u g (c_ClientID cl) (c_Roles cl)) = (st', Inr ())"
    by blast
  have "sd_ID (new_session L rnd u g ip ua cl) = ?sid" by (simp add: new_session_def)
  then show thesis
    using that [OF run [unfolded ok(1)] issue ok(2)] session_and_token(2) [OF inv ttl steps] by simp
qed

end

text \<open>
  C22: On a running Redis with a working signing key a login gives a session exactly when
  the name or address is that of an account which can log in, the password verifies
  against the account's current credential, no password change is forced, and a user of
  the second factor sent a code. Then every earlier session of the user is deleted and
  its identifier rejected for eight hours; the new session is found until its lifetime
  ends, with the user, the client's address and the user's roles; the returned access
  token verifies as the user's until it expires, when the new identifier is unused; and
  the sessions of other users stay. In every other case the session store is untouched.
\<close>

theorem login_replaces_sessions:
  assumes redis: "redis_server (ah_redis h) up kv smem" and inv: "session_inv up kv smem rs now" and ttl: "0 < ses_ttl (ah_session h)"
    and lib: "jwt_library (lib_jwt (ah_libs h)) key_ok" and wf: "rkm_wf (js_keyManager (ses_jwt (ah_session h)))"
    and key: "ActiveKey (js_keyManager (ses_jwt (ah_session h))) = Some km" "key_ok (km_privateKey km)"
    and run: "HandleLogin h (db, rs) now rnd c (Inr req) = (rs', r)"
  shows "if \<exists>user. login_permitted h db now req user
    then (\<exists>lr user. r = OK (LoggedIn lr user) \<and> login_permitted h db now req user \<and> session_inv up kv smem rs' now \<and>
      (\<forall>t. now \<le> t \<and> t < now + ses_ttl (ah_session h) \<longrightarrow> (\<exists>d. Store_Get (ah_redis h) rs' t (lr_SessionID lr) = Inr (Some d) \<and>
         sd_UserID d = uuid_String (lib_uuid (ah_libs h)) (u_ID user) \<and> sd_IPAddress d = clientIP c \<and>
         sd_Roles d = c_Roles (login_claims (lib_uuid (ah_libs h)) db user))) \<and>
      (\<forall>t. now \<le> t \<and> t < (now + js_tokenTTL (ses_jwt (ah_session h))) div time_Second * time_Second \<and>
           Store_Get (ah_redis h) rs now (lr_SessionID lr) = Inr None \<and> IsSessionRevoked (ah_redis h) rs t (lr_SessionID lr) = Inr False \<longrightarrow>
         (\<exists>cl. VerifyAccessToken (ah_libs h) (ah_redis h) (ah_session h) rs' t (lr_AccessToken lr) = Inr cl \<and>
            c_Subject cl = uuid_String (lib_uuid (ah_libs h)) (u_ID user))) \<and>
      (\<forall>i d. Store_Get (ah_redis h) rs now i = Inr (Some d) \<and> i \<noteq> lr_SessionID lr \<longrightarrow>
         (if sd_UserID d = uuid_String (lib_uuid (ah_libs h)) (u_ID user)
          then (\<forall>t \<ge> now. Store_Get (ah_redis h) rs' t i = Inr None) \<and>
               (\<forall>t. now \<le> t \<and> t < now + 8 * time_Hour \<longrightarrow> IsSessionRevoked (ah_redis h) rs' t i = Inr True)
          else (\<forall>t \<ge> now. Store_Get (ah_redis h) rs' t i = Store_Get (ah_redis h) rs t i \<and>
                  IsSessionRevoked (ah_redis h) rs' t i = IsSessionRevoked (ah_redis h) rs t i))))
    else rs' = rs \<and> (\<forall>lr user. r \<noteq> OK (LoggedIn lr user))"
proof (cases "\<exists>user. login_permitted h db now req user")
  case False
  then show ?thesis using HandleLogin_other [OF False, of rs rnd c] run by auto
next
  case True
  then obtain user where user: "login_permitted h db now req user" by blast
  let ?u = "uuid_String (lib_uuid (ah_libs h)) (u_ID user)" and ?R = "ah_redis h"
  define rs1 where "rs1 = fst (RevokeAllUserSessions ?R rs now ?u)"
  note rev = redis_server.RevokeAllUserSessions_ok [OF redis inv, where u = ?u, folded rs1_def]
  define cl where "cl = login_claims (lib_uuid (ah_libs h)) db user"
  obtain rs2 tok acc where cs: "CreateSession (ah_libs h) ?R (ah_session h) rs1 now rnd (u_ID user) (u_OrgID user) (clientIP c) (ch_UserAgent c) cl =
      (rs2, Inr \<lparr>lr_AccessToken = tok, lr_RefreshToken = GenerateRefreshToken (rnd_bytes rnd), lr_ExpiresIn = 900,
        lr_SessionID = uuid_String (lib_uuid (ah_libs h)) (rnd_session rnd), lr_UserID = u_ID user, lr_OrgID = u_OrgID user\<rparr>)"
    and issue: "IssueAccessToken (lib_uuid (ah_libs h)) (lib_jwt (ah_libs h)) (ses_jwt (ah_session h)) now
      (uuid_String (lib_uuid (ah_libs h)) (rnd_jti rnd)) (uuid_String (lib_uuid (ah_libs h)) (rnd_session rnd)) (u_ID user) (u_OrgID user) cl = Inr (tok, acc)"
    and inv2: "session_inv up kv smem rs2 now"
    and view2: "\<forall>t \<ge> now. v_sess (view_of kv smem rs2 t) = (v_sess (view_of kv smem rs1 t))
       (uuid_String (lib_uuid (ah_libs h)) (rnd_session rnd) := held (t < now + ses_ttl (ah_session h))
          (stored_session (ses_ttl (ah_session h)) now [] (new_session (ah_libs h) rnd (u_ID user) (u_OrgID user) (clientIP c) (ch_UserAgent c) cl)))"
      "\<forall>t \<ge> now. v_rev (view_of kv smem rs2 t) = v_rev (view_of kv smem rs1 t)"
    by (rule redis_server.CreateSession_view [OF redis rev(2) ttl lib key, where rnd = rnd and u = "u_ID user"
        and g = "u_OrgID user" and ip = "clientIP c" and ua = "ch_UserAgent c" and cl = cl])
  have inv_t: "session_inv up kv smem rs t" "session_inv up kv smem rs2 t" if "now \<le> t" for t
    using session_inv_later [OF inv that] session_inv_later [OF inv2 that] by simp_all
  have verify: "jwt_VerifyAccessToken (lib_jwt (ah_libs h)) (ses_jwt (ah_session h)) t tok = Inr (access_claims (lib_uuid (ah_libs h)) (lib_jwt (ah_libs h))
      (ses_jwt (ah_session h)) now (uuid_String (lib_uuid (ah_libs h)) (rnd_jti rnd)) (uuid_String (lib_uuid (ah_libs h)) (rnd_session rnd)) (u_ID user) (u_OrgID user) cl)"
    if "t < (now + js_tokenTTL (ses_jwt (ah_session h))) div time_Second * time_Second" for t
    using jwt_library.verify_issued_by [OF lib issue key(1) ActiveKey_stored [OF wf key(1), THEN conjunct1] refl that] .
  have out: "rs' = rs2" "r = OK (LoggedIn \<lparr>lr_AccessToken = tok, lr_RefreshToken = GenerateRefreshToken (rnd_bytes rnd), lr_ExpiresIn = 900,
        lr_SessionID = uuid_String (lib_uuid (ah_libs h)) (rnd_session rnd), lr_UserID = u_ID user, lr_OrgID = u_OrgID user\<rparr> user)"
    using run by (simp_all add: HandleLogin_permitted [OF user] cs [unfolded rs1_def cl_def])
  have views: "Store_Get ?R rs t i = Inr (v_sess (view_of kv smem rs t) i)" "Store_Get ?R rs2 t i = Inr (v_sess (view_of kv smem rs2 t) i)"
    "IsSessionRevoked ?R rs t i = Inr (v_rev (view_of kv smem rs t) i)" "IsSessionRevoked ?R rs2 t i = Inr (v_rev (view_of kv smem rs2 t) i)"
    if "now \<le> t" for t i
    using redis_server.Store_Get_view [OF redis] redis_server.IsSessionRevoked_view [OF redis] inv_t [OF that] by blast+
  show ?thesis
    unfolding out using True user inv2
    by (auto simp: views view2 rev(3) verify access_claims_fields redis_server.VerifyAccessToken_view [OF redis inv_t(2)]
        new_session_def stored_session_def cl_def [symmetric] intro!: exI)
qed


section \<open>Password recovery\<close>

lemma update_user_flags_frame:
  "t_user_credentials (update_user_flags h db i f) = t_user_credentials db"
  "t_verification_tokens (update_user_flags h db i f) = t_verification_tokens db"
  "db_down (update_user_flags h db i f) = db_down db" "db_archived (update_user_flags h db i f) = db_archived db"
  by (auto simp: update_user_flags_def Users_Update_def pg_Exec_def split: sum.splits option.splits)

lemma update_user_flags_wf: "db_wf db \<Longrightarrow> db_wf (update_user_flags h db i f)"
  by (simp add: update_user_flags_def Users_Update_wf split: sum.splits)

text \<open>Setting a credential leaves the credentials of other users as they are.\<close>

lemma set_credential_other:
  assumes step: "if is_ok (Credentials_GetCurrentByUserID db i)
       then Credentials_Replace db now i ''password'' h k = (db1, Inr ())
       else Credentials_Create db (new_password_credential now c0 i h) = (db1, Inr ())" and j: "j \<noteq> i"
  shows "Credentials_GetCurrentByUserID db1 j = Credentials_GetCurrentByUserID db j"
proof (cases "is_ok (Credentials_GetCurrentByUserID db i)")
  case True
  then have "Credentials_Replace db now i ''password'' h k = (db1, Inr ())" using step by simp
  then obtain d1 d2 where "\<not> db_down db" "replace_archive now i ''password'' db = Inr d1" "replace_prune i ''password'' k d1 = Inr d2"
      "replace_update now i ''password'' h d2 = Inr db1" by (rule Credentials_Replace_ok)
  then have d: "db_down db1 = db_down db"
      "t_user_credentials db1 = sql_update (\<lambda>c. uc_UserID c = i \<and> uc_CredentialType c = ''password'')
         (\<lambda>c. c\<lparr>uc_SecretHash := h, uc_CreatedAt := pg_ts now, uc_ExpiresAt := None\<rparr>) (t_user_credentials db)"
    by (auto dest!: replace_steps_frame)
  have "filter (\<lambda>c. uc_UserID c = j \<and> uc_CredentialType c = ''password'') (t_user_credentials db1) =
      filter (\<lambda>c. uc_UserID c = j \<and> uc_CredentialType c = ''password'') (t_user_credentials db)"
    unfolding d(2) by (rule filter_sql_update_other) (use j in auto)
  then show ?thesis using d(1) by (simp add: Credentials_GetCurrentByUserID_def pg_QueryRow_def)
next
  case False
  then have "Credentials_Create db (new_password_credential now c0 i h) = (db1, Inr ())" using step by simp
  from Credentials_Create_ok [OF this] j show ?thesis
    by (simp add: Credentials_GetCurrentByUserID_def pg_QueryRow_def new_password_credential_def)
qed

lemma HandleResetPassword_steps:
  assumes "HandleResetPassword h db now rnd (Inr req) = (db', OK x)"
  obtains vt hash db1 where "VTokens_GetByToken db (rpr_Token req) = Inr vt" "VerificationToken_IsValid now vt"
    "vt_TokenType vt = TokenTypePasswordRecovery" "PasswordPolicy_Validate DefaultPasswordPolicy (rpr_NewPassword req) [] [] = Inr ()"
    "Hash (ie_argon2 (ah_id h)) (ie_config (ah_id h)) (ir_salt rnd) (rpr_NewPassword req) = Inr hash"
    "if is_ok (Credentials_GetCurrentByUserID db (vt_UserID vt))
     then Credentials_Replace db now (vt_UserID vt) ''password'' hash (pp_HistoryCount DefaultPasswordPolicy) = (db1, Inr ())
     else Credentials_Create db (new_password_credential now (ir_cred rnd) (vt_UserID vt) hash) = (db1, Inr ())"
    "db' = update_user_flags h (fst (VTokens_MarkUsed db1 now (vt_ID vt))) (vt_UserID vt)
       (\<lambda>u. u\<lparr>u_PasswordChangedAt := Some now, u_UpdatedAt := now\<rparr>)"
  using assms that by (auto simp: HandleResetPassword_def split: sum.splits prod.splits if_splits)

lemma HandleForgotPassword_steps:
  assumes "HandleForgotPassword h db now rnd (Inr email) = (db', OK (Some tok))"
  obtains user where "Users_GetByEmail db (NormalizeEmail email) = Inr user"
    "VTokens_Create db (new_verification_token now (ir_vt rnd) (u_ID user) tok TokenTypePasswordRecovery (15 * time_Minute)) = (db', Inr ())"
  using assms that by (auto simp: HandleForgotPassword_def Let_def split: sum.splits prod.splits)

lemma current_recovery_refused:
  assumes "\<not> db_archived db"
  shows "HandleForgotPassword h db now rnd (Inr email) = (db,
      if is_ok (Users_GetByEmail db (NormalizeEmail email)) then Refused 500 ''failed to create reset token'' else OK None)"
    "HandleResetPassword h db now rnd (Inr req) = (db, Refused 400 ''invalid or expired reset token'')"
proof -
  obtain e where "VTokens_GetByToken db (rpr_Token req) = Inl e" using VTokens_current(2) [OF assms] by blast
  then show "HandleResetPassword h db now rnd (Inr req) = (db, Refused 400 ''invalid or expired reset token'')"
    by (simp add: HandleResetPassword_def)
  have "\<exists>e. VTokens_Create db vt = (db, Inl e)" for vt by (rule VTokens_current(1) [OF assms])
  then obtain err where "VTokens_Create db vt = (db, Inl (err vt))" for vt by metis
  then show "HandleForgotPassword h db now rnd (Inr email) = (db,
      if is_ok (Users_GetByEmail db (NormalizeEmail email)) then Refused 500 ''failed to create reset token'' else OK None)"
    by (simp add: HandleForgotPassword_def Let_def split: sum.splits)
qed



section \<open>The second factor\<close>

text \<open>The decryption key of \<^verbatim>\<open>decryptTOTPSecret\<close> is 30 bytes long, which AES does not take.\<close>

lemma decryptTOTPSecret_fails: "decryptTOTPSecret h enc iv = Inl (External ''crypto/aes: invalid key size'')"
  by (simp add: decryptTOTPSecret_def totp_key_def)

lemma MFA_Update_null: "mc_TOTPSecretEncrypted cfg = None \<Longrightarrow> mc_UserID cfg \<in> mc_UserID ` set (t_mfa_configs db) \<Longrightarrow>
    \<exists>e. MFA_Update db now cfg = (db, Inl e)"
  by (auto simp: MFA_Update_def mfa_check_def pg_Exec_def)

lemma MFA_GetByUserID_row: "MFA_GetByUserID db i = Inr cfg \<Longrightarrow> cfg \<in> set (t_mfa_configs db) \<and> mc_UserID cfg = i"
  by (auto simp: MFA_GetByUserID_def dest: filter_eq_ConsD)

text \<open>
  C24: Three facts on the second factor of the login endpoints. The content of the code
  is never looked at: \<^verbatim>\<open>HandleLogin\<close> does and answers the same for every two non-empty codes,
  whatever the account, so a login that gets a session with one code gets it with each of
  them. \<^verbatim>\<open>HandleMFAVerify\<close> accepts no code of an account whose emailed codes are
  off, since the TOTP secret cannot be decrypted. \<^verbatim>\<open>HandleMFADisable\<close> never succeeds and
  changes nothing, since it writes NULL into columns that are NOT NULL.
\<close>

theorem second_factor_unchecked:
  "(code \<noteq> [] \<and> code' \<noteq> [] \<longrightarrow>
      HandleLogin h (db, rs) now rnd c (Inr (req\<lparr>lrq_MFACode := code\<rparr>)) = HandleLogin h (db, rs) now rnd c (Inr (req\<lparr>lrq_MFACode := code'\<rparr>))) \<and>
   (MFA_GetByUserID db i = Inr cfg \<and> \<not> mc_IsEmailOTPEnabled cfg \<and> uuid_Parse (lib_uuid (ah_libs h)) (mvr_UserID vreq) = Some i \<longrightarrow>
      (\<exists>e. HandleMFAVerify h db now (Inr vreq) = (db, Refused 400 e))) \<and>
   (\<exists>status e. HandleMFADisable h db now body = (db, Refused status e))"
proof (intro conjI impI)
  show "HandleLogin h (db, rs) now rnd c (Inr (req\<lparr>lrq_MFACode := code\<rparr>)) = HandleLogin h (db, rs) now rnd c (Inr (req\<lparr>lrq_MFACode := code'\<rparr>))"
    if "code \<noteq> [] \<and> code' \<noteq> []"
    using that by (simp add: HandleLogin_def split: sum.splits)
  show "\<exists>e. HandleMFAVerify h db now (Inr vreq) = (db, Refused 400 e)"
    if "MFA_GetByUserID db i = Inr cfg \<and> \<not> mc_IsEmailOTPEnabled cfg \<and> uuid_Parse (lib_uuid (ah_libs h)) (mvr_UserID vreq) = Some i"
    using that by (simp add: HandleMFAVerify_def decryptTOTPSecret_fails Let_def)
  have "\<exists>e. MFA_Update db now (cfg\<lparr>mc_IsTOTPEnabled := False, mc_IsEmailOTPEnabled := False, mc_IsBackupCodesEnabled := False,
      mc_TOTPSecretEncrypted := None, mc_TOTPSecretIV := None, mc_BackupCodesHash := None, mc_MFAEnabledAt := None, mc_UpdatedAt := now\<rparr>) = (db, Inl e)"
    if "MFA_GetByUserID db j = Inr cfg" for j cfg
    using MFA_GetByUserID_row [OF that] by (intro MFA_Update_null) auto
  then show "\<exists>status e. HandleMFADisable h db now body = (db, Refused status e)"
    by (auto simp: HandleMFADisable_def split: sum.splits option.splits prod.splits) (metis Inl_Inr_False prod.inject)+
qed

section \<open>A concrete run\<close>

text \<open>
  The account registered in \<open>Identity\<close>, with its address verified, on an empty session
  store; and the same account with the second factor on.
\<close>

definition demo_handler :: "mem AuthHandler" where
  "demo_handler = \<lparr>ah_libs = demo_libs, ah_redis = mem_redis, ah_session = demo_sessions, ah_id = demo_env,
     ah_totp_Validate = (\<lambda>_ _ _. True), ah_cfb = (\<lambda>_ _ x. x)\<rparr>"

definition demo_db :: db where
  "demo_db = fst (VerifyEmail demo_env demo_registered 5 (uuid_String bits_uuid 8))"

definition demo_request :: LoginRequest where
  "demo_request = \<lparr>lrq_Username = ''bob'', lrq_Password = ''Secret123'', lrq_MFACode = []\<rparr>"

definition demo_client :: client_headers where
  "demo_client = \<lparr>ch_XForwardedFor = ''10.0.0.1, 10.0.0.2'', ch_XRealIP = [], ch_ClientIP = ''10.0.0.3'', ch_UserAgent = []\<rparr>"

lemma demo_db_wf: "db_wf demo_db"
  unfolding db_wf_def by code_simp

lemma demo_handler_simps [simp]:
  "ah_libs demo_handler = demo_libs" "ah_redis demo_handler = mem_redis" "ah_session demo_handler = demo_sessions"
  "ah_id demo_handler = demo_env"
  by (simp_all add: demo_handler_def)

lemma demo_permitted: "\<exists>user. login_permitted demo_handler demo_db 6 demo_request user"
proof -
  have "case find_account demo_db ''bob'' of Inl _ \<Rightarrow> False | Inr user \<Rightarrow> login_permitted demo_handler demo_db 6 demo_request user"
    unfolding login_permitted_def demo_handler_simps by code_simp
  then show ?thesis by (auto split: sum.splits)
qed

lemma login_replaces_sessions_witness:
  "\<exists>lr user. snd (HandleLogin demo_handler (demo_db, []) 6 (SessionProps.demo_rand 7) demo_client (Inr demo_request)) = OK (LoggedIn lr user) \<and>
     (\<exists>d. Store_Get mem_redis (fst (HandleLogin demo_handler (demo_db, []) 6 (SessionProps.demo_rand 7) demo_client (Inr demo_request)))
        time_Minute (lr_SessionID lr) = Inr (Some d) \<and> sd_IPAddress d = ''10.0.0.1'')"
proof -
  let ?run = "HandleLogin demo_handler (demo_db, []) 6 (SessionProps.demo_rand 7) demo_client (Inr demo_request)"
  have ip: "clientIP demo_client = ''10.0.0.1''" by code_simp
  have "redis_server (ah_redis demo_handler) mem_up mem_kv mem_smem" "0 < ses_ttl (ah_session demo_handler)"
      "jwt_library (lib_jwt (ah_libs demo_handler)) (\<lambda>_. True)" "rkm_wf (js_keyManager (ses_jwt (ah_session demo_handler)))"
      "ActiveKey (js_keyManager (ses_jwt (ah_session demo_handler))) = ActiveKey (js_keyManager demo_jwt)"
    using mem.redis_server_axioms field_jwt.jwt_library_axioms demo_jwt_wf by simp_all
  note login_replaces_sessions [OF this(1) mem_empty_inv this(2,3,4) this(5) [unfolded demo_jwt_key] TrueI
      prod.collapse [symmetric, of ?run], unfolded if_P [OF demo_permitted]]
  then obtain lr user where "snd ?run = OK (LoggedIn lr user)"
    and "\<forall>t. 6 \<le> t \<and> t < 6 + ses_ttl (ah_session demo_handler) \<longrightarrow>
      (\<exists>d. Store_Get mem_redis (fst ?run) t (lr_SessionID lr) = Inr (Some d) \<and> sd_IPAddress d = clientIP demo_client)"
    unfolding demo_handler_simps by blast
  from this(2) [THEN spec, of time_Minute] this(1) ip show ?thesis by auto
qed

definition demo_forgot :: db where
  "demo_forgot = fst (HandleForgotPassword demo_handler demo_db 6 (Identity.demo_rand 9) (Inr ''B@x ''))"


definition demo_mfa_db :: db where
  "demo_mfa_db = demo_db\<lparr>t_mfa_configs := [\<lparr>mc_ID = 1, mc_UserID = 7, mc_TOTPSecretEncrypted = Some ''0123456789abcdef'', mc_TOTPSecretIV = Some ''0123456789abcdef'',
     mc_IsTOTPEnabled = True, mc_IsEmailOTPEnabled = False, mc_IsBackupCodesEnabled = False, mc_BackupCodesHash = Some [], mc_MFAEnabledAt = None,
     mc_CreatedAt = 0, mc_UpdatedAt = 0\<rparr>], t_users := map (\<lambda>u. u\<lparr>u_MFAEnabled := True\<rparr>) (t_users demo_db)\<rparr>"

lemma second_factor_unchecked_witness:
  "(\<exists>rs lr user. HandleLogin demo_handler (demo_mfa_db, []) 6 (SessionProps.demo_rand 7) demo_client (Inr (demo_request\<lparr>lrq_MFACode := ''x''\<rparr>)) =
       (rs, OK (LoggedIn lr user)) \<and> u_MFAEnabled user \<and>
     HandleLogin demo_handler (demo_mfa_db, []) 6 (SessionProps.demo_rand 7) demo_client (Inr (demo_request\<lparr>lrq_MFACode := ''000000''\<rparr>)) =
       (rs, OK (LoggedIn lr user))) \<and>
   (\<exists>e. HandleMFAVerify demo_handler demo_mfa_db 6 (Inr \<lparr>mvr_UserID = uuid_String bits_uuid 7, mvr_Code = ''123456''\<rparr>) = (demo_mfa_db, Refused 400 e)) \<and>
   (\<exists>status e. HandleMFADisable demo_handler demo_mfa_db 6 (Inr (uuid_String bits_uuid 7)) = (demo_mfa_db, Refused status e))"
proof -
  have "case find_account demo_mfa_db ''bob'' of Inl _ \<Rightarrow> False
      | Inr user \<Rightarrow> login_permitted demo_handler demo_mfa_db 6 (demo_request\<lparr>lrq_MFACode := ''x''\<rparr>) user \<and> u_MFAEnabled user"
    unfolding login_permitted_def demo_handler_simps by code_simp
  then obtain user where user: "login_permitted demo_handler demo_mfa_db 6 (demo_request\<lparr>lrq_MFACode := ''x''\<rparr>) user" "u_MFAEnabled user"
    by (auto split: sum.splits)
  let ?x = "demo_request\<lparr>lrq_MFACode := ''x''\<rparr>"
  define rs1 where "rs1 = fst (RevokeAllUserSessions mem_redis [] 6 (uuid_String bits_uuid (u_ID user)))"
  have inv: "session_inv mem_up mem_kv mem_smem rs1 6" unfolding rs1_def by (rule mem.RevokeAllUserSessions_ok(2) [OF mem_empty_inv])
  have "0 < ses_ttl demo_sessions" "jwt_library (lib_jwt demo_libs) (\<lambda>_. True)"
    "ActiveKey (js_keyManager (ses_jwt demo_sessions)) = ActiveKey (js_keyManager demo_jwt)"
    using field_jwt.jwt_library_axioms by simp_all
  from mem.CreateSession_view [OF inv this(1,2) this(3) [unfolded demo_jwt_key] TrueI]
  obtain rs lr where "CreateSession demo_libs mem_redis demo_sessions rs1 6 (SessionProps.demo_rand 7) (u_ID user) (u_OrgID user)
      (clientIP demo_client) (ch_UserAgent demo_client) (login_claims (lib_uuid demo_libs) demo_mfa_db user) = (rs, Inr lr)" by metis
  then have run: "HandleLogin demo_handler (demo_mfa_db, []) 6 (SessionProps.demo_rand 7) demo_client (Inr ?x) = (rs, OK (LoggedIn lr user))"
    unfolding HandleLogin_permitted [OF user(1)] by (simp add: rs1_def)
  have "case MFA_GetByUserID demo_mfa_db 7 of Inl _ \<Rightarrow> False | Inr cfg \<Rightarrow> \<not> mc_IsEmailOTPEnabled cfg" by code_simp
  then obtain cfg where cfg: "MFA_GetByUserID demo_mfa_db 7 = Inr cfg" "\<not> mc_IsEmailOTPEnabled cfg" by (auto split: sum.splits)
  have "uuid_Parse (lib_uuid (ah_libs demo_handler)) (uuid_String bits_uuid 7) = Some 7"
    unfolding demo_handler_simps demo_simps by code_simp
  note T = this second_factor_unchecked [of "''x''" "''000000''" demo_handler demo_mfa_db "[]" 6 "SessionProps.demo_rand 7" demo_client demo_request 7 cfg
      "\<lparr>mvr_UserID = uuid_String bits_uuid 7, mvr_Code = ''123456''\<rparr>" "Inr (uuid_String bits_uuid 7)"]
  have "HandleLogin demo_handler (demo_mfa_db, []) 6 (SessionProps.demo_rand 7) demo_client (Inr (demo_request\<lparr>lrq_MFACode := ''000000''\<rparr>)) =
      (rs, OK (LoggedIn lr user))" using T(2) [THEN conjunct1] run by simp
  moreover have "(\<exists>e. HandleMFAVerify demo_handler demo_mfa_db 6 (Inr \<lparr>mvr_UserID = uuid_String bits_uuid 7, mvr_Code = ''123456''\<rparr>) = (demo_mfa_db, Refused 400 e)) \<and>
      (\<exists>status e. HandleMFADisable demo_handler demo_mfa_db 6 (Inr (uuid_String bits_uuid 7)) = (demo_mfa_db, Refused status e))"
    using T(1) T(2) [THEN conjunct2] cfg by simp
  ultimately show ?thesis using run user(2) by blast
qed

end
