(* ===== verification/GoTime.thy ===== *)
theory GoTime
  imports GoStd
begin

text \<open>
  Package \<^verbatim>\<open>time\<close>: the proleptic Gregorian calendar and the layouts \<^verbatim>\<open>time.RFC3339\<close> and
  \<^verbatim>\<open>time.RFC3339Nano\<close> (the JSON form of a \<^verbatim>\<open>time.Time\<close>). A zone is its offset from UTC in
  seconds.
\<close>

text \<open>Year, month and day of the day number since 1970-01-01.\<close>

definition civil :: "int \<Rightarrow> int \<times> int \<times> int" where
  "civil days =
     (let z = days + 719468; era = z div 146097; doe = z mod 146097;
          yoe = (doe - doe div 1460 + doe div 36524 - doe div 146096) div 365;
          doy = doe - (365 * yoe + yoe div 4 - yoe div 100);
          mp = (5 * doy + 2) div 153;
          d = doy - (153 * mp + 2) div 5 + 1;
          m = (if mp < 10 then mp + 3 else mp - 9)
      in (yoe + era * 400 + (if m \<le> 2 then 1 else 0), m, d))"

definition pad :: "nat \<Rightarrow> int \<Rightarrow> string" where
  "pad w n = (let s = print_nat (nat n) in replicate (w - length s) (CHR ''0'') @ s)"

definition zone_suffix :: "int \<Rightarrow> string" where
  "zone_suffix off =
     (if off = 0 then ''Z''
      else (let mins = (if off < 0 then - ((- off) div 60) else off div 60)
            in (if mins < 0 then ''-'' else ''+'') @ pad 2 (abs mins div 60) @ '':'' @ pad 2 (abs mins mod 60)))"

definition date_time :: "int \<Rightarrow> time \<Rightarrow> string" where
  "date_time off t =
     (let s = Unix t + off; (y, m, d) = civil (s div 86400); r = s mod 86400
      in pad 4 y @ ''-'' @ pad 2 m @ ''-'' @ pad 2 d @ ''T'' @
         pad 2 (r div 3600) @ '':'' @ pad 2 (r div 60 mod 60) @ '':'' @ pad 2 (r mod 60))"

definition Format_RFC3339 :: "int \<Rightarrow> time \<Rightarrow> string" where
  "Format_RFC3339 off t = date_time off t @ zone_suffix off"

definition Format_RFC3339Nano :: "int \<Rightarrow> time \<Rightarrow> string" where
  "Format_RFC3339Nano off t =
     (let frac = strings_TrimRightFunc (\<lambda>c. c = CHR ''0'') (pad 9 (t mod time_Second))
      in date_time off t @ (if frac = [] then [] else ''.'' @ frac) @ zone_suffix off)"

lemma civil_examples: "civil 0 = (1970, 1, 1)" "civil 20617 = (2026, 6, 13)" "civil 11016 = (2000, 2, 29)" "civil (-1) = (1969, 12, 31)"
  by code_simp+

end
