(* ===== verification/AuditService.thy ===== *)
theory AuditService
  imports PostgresAuthz GoTime "HOL-Library.Multiset"
begin

text \<open>
  Package internal/service/audit: the audit service over its Postgres store (service.go)
  and the messages it forwards to the central audit service (forwarder.go).
  \<^verbatim>\<open>LogAsync\<close> runs \<^verbatim>\<open>Log\<close> in a goroutine: an operation that calls it hands over the entry, and
  \<open>async_log\<close> is the step in which one of the entries handed over is written, in any order.
\<close>

section \<open>service.go\<close>

definition PGStore_Create :: "db \<Rightarrow> AuditLog \<Rightarrow> db \<times> unit result" where
  "PGStore_Create db entry = Audit_Create ''audit.PGStore.Create'' db entry"

definition PGStore_List :: "db \<Rightarrow> AuditLogFilter \<Rightarrow> (AuditLog list \<times> int) result" where
  "PGStore_List db f = Audit_List ''audit.PGStore.List'' db f"

text \<open>Whether the service has a store and a forwarder.\<close>

record audit_Service =
  as_store :: bool
  as_forwarder :: bool

record LogInput =
  li_OrgID :: uuid
  li_ActorID :: uuid
  li_ActorEmail :: string
  li_Action :: string
  li_ResourceType :: string
  li_ResourceID :: string
  li_OldValue :: "JSON option"
  li_NewValue :: "JSON option"
  li_IPAddress :: string
  li_UserAgent :: string
  li_BranchID :: string
  li_BranchCode :: string
  li_SessionID :: string
  li_CorrelationID :: string

definition LogInput0 :: LogInput where
  "LogInput0 = \<lparr>li_OrgID = uuid_Nil, li_ActorID = uuid_Nil, li_ActorEmail = [], li_Action = [], li_ResourceType = [],
     li_ResourceID = [], li_OldValue = None, li_NewValue = None, li_IPAddress = [], li_UserAgent = [], li_BranchID = [],
     li_BranchCode = [], li_SessionID = [], li_CorrelationID = []\<rparr>"

text \<open>The row of an entry: a nil snapshot becomes the empty object.\<close>

definition audit_row :: "time \<Rightarrow> uuid \<Rightarrow> LogInput \<Rightarrow> AuditLog" where
  "audit_row now i input =
     \<lparr>al_ID = i, al_OrgID = li_OrgID input, al_ActorID = li_ActorID input, al_ActorEmail = li_ActorEmail input,
      al_Action = li_Action input, al_ResourceType = li_ResourceType input, al_ResourceID = li_ResourceID input,
      al_OldValue = Some (case li_OldValue input of None \<Rightarrow> [] | Some v \<Rightarrow> v),
      al_NewValue = Some (case li_NewValue input of None \<Rightarrow> [] | Some v \<Rightarrow> v),
      al_IPAddress = li_IPAddress input, al_UserAgent = li_UserAgent input, al_CreatedAt = now\<rparr>"

section \<open>forwarder.go\<close>

abbreviation auditIngestSubject :: string where
  "auditIngestSubject \<equiv> ''audit7.ingest.auth7''"

definition opt_field :: "string \<Rightarrow> string \<Rightarrow> JSON" where
  "opt_field k s = (if s \<noteq> [] then [(k, AnyString s)] else [])"

definition opt_snapshot :: "string \<Rightarrow> JSON option \<Rightarrow> JSON" where
  "opt_snapshot k v = (case v of None \<Rightarrow> [] | Some m \<Rightarrow> if length m > 0 then [(k, AnyMap m)] else [])"

definition forward_event :: "uuid_pkg \<Rightarrow> uuid \<Rightarrow> AuditLog \<Rightarrow> LogInput \<Rightarrow> JSON" where
  "forward_event U eventID entry input =
     (let actorID = uuid_String U (al_ActorID entry);
          display = (if al_ActorEmail entry = [] then actorID else al_ActorEmail entry)
      in [(''event_id'', AnyString (uuid_String U eventID)),
          (''occurred_at'', AnyString (Format_RFC3339Nano 0 (al_CreatedAt entry))),
          (''org_id'', AnyString (uuid_String U (al_OrgID entry))),
          (''actor'', AnyMap [(''type'', AnyString ''user''), (''id'', AnyString actorID), (''display'', AnyString display)]),
          (''event_category'', AnyString ''MODIFICATION''),
          (''action'', AnyString (al_Action entry)),
          (''resource'', AnyMap [(''type'', AnyString (al_ResourceType entry)), (''id'', AnyString (al_ResourceID entry))]),
          (''result'', AnyString ''SUCCESS''),
          (''severity'', AnyString ''INFO''),
          (''channel'', AnyString ''BFF''),
          (''source_app'', AnyString ''auth7''),
          (''module'', AnyString ''access-management'')] @
         opt_field ''ip_address'' (al_IPAddress entry) @ opt_field ''user_agent'' (al_UserAgent entry) @
         opt_field ''branch_id'' (li_BranchID input) @ opt_field ''branch_code'' (li_BranchCode input) @
         opt_field ''session_id'' (li_SessionID input) @ opt_field ''correlation_id'' (li_CorrelationID input) @
         opt_snapshot ''before_snapshot'' (al_OldValue entry) @ opt_snapshot ''after_snapshot'' (al_NewValue entry))"

text \<open>A message for the broker: subject, body and message id.\<close>

type_synonym audit_message = "string \<times> JSON \<times> string"

definition forward :: "audit_Service \<Rightarrow> uuid_pkg \<Rightarrow> uuid \<Rightarrow> AuditLog \<Rightarrow> LogInput \<Rightarrow> audit_message list" where
  "forward s U eventID entry input =
     (if \<not> as_forwarder s then []
      else [(auditIngestSubject, forward_event U eventID entry input, uuid_String U eventID)])"

section \<open>Log and Query\<close>

definition Log :: "audit_Service \<Rightarrow> uuid_pkg \<Rightarrow> db \<Rightarrow> time \<Rightarrow> uuid \<Rightarrow> uuid \<Rightarrow> LogInput \<Rightarrow> db \<times> audit_message list \<times> unit result" where
  "Log s U db now i eventID input =
     (if \<not> as_store s then (db, [], Inr ())
      else (let entry = audit_row now i input
            in case PGStore_Create db entry of
                 (db1, Inl e) \<Rightarrow> (db1, [], Inl (Wrapf ''audit.Service.Log'' e))
               | (db1, Inr _) \<Rightarrow> (db1, forward s U eventID entry input, Inr ())))"

definition audit_Query :: "audit_Service \<Rightarrow> db \<Rightarrow> AuditLogFilter \<Rightarrow> (AuditLog list \<times> int) result" where
  "audit_Query s db f = (if \<not> as_store s then Inr ([], 0) else PGStore_List db f)"

text \<open>One of the entries handed to \<^verbatim>\<open>LogAsync\<close> is written.\<close>

inductive async_log :: "audit_Service \<Rightarrow> uuid_pkg \<Rightarrow> db \<times> audit_message list \<times> LogInput list \<Rightarrow> db \<times> audit_message list \<times> LogInput list \<Rightarrow> bool"
  for s U where
  run: "Log s U db now i eventID input = (db', ms', r) \<Longrightarrow> async_log s U (db, ms, xs @ input # ys) (db', ms @ ms', xs @ ys)"

section \<open>Laws\<close>

text \<open>\<open>n\<close> pages of \<open>k\<close> rows are the first \<open>n * k\<close> rows.\<close>

lemma concat_pages: "concat (map (\<lambda>i. take k (drop (i * k) xs)) [0..<n]) = take (n * k) xs"
proof (induction n)
  case (Suc n)
  have "take (n * k) xs @ take k (drop (n * k) xs) = take (n * k + k) xs" by (simp add: take_add)
  then show ?case using Suc by (simp add: add.commute)
qed simp

lemma audit_limit_bounds: "1 \<le> audit_limit n \<and> audit_limit n \<le> 100" and audit_limit_id: "1 \<le> n \<Longrightarrow> n \<le> 100 \<Longrightarrow> audit_limit n = n"
  by (auto simp: audit_limit_def Let_def)

lemma audit_Query_rows:
  "as_store s \<Longrightarrow> \<not> db_down db \<Longrightarrow> 0 \<le> af_Offset f \<Longrightarrow> audit_Query s db f =
     Inr (take (nat (audit_limit (af_Limit f))) (drop (nat (af_Offset f)) (order_desc (db_scan db) al_CreatedAt (filter (audit_where f) (t_audit_logs db)))),
          int (length (filter (audit_where f) (t_audit_logs db))))"
  by (simp add: audit_Query_def PGStore_List_def Audit_List_def sql_limit_def Let_def)

text \<open>
  The pages of size \<open>k\<close> at the offsets 0, \<open>k\<close>, \<open>2 k\<close>, ...; the server may read the rows in another
  order \<open>scan i\<close> for each page.
\<close>

definition audit_pages :: "audit_Service \<Rightarrow> db \<Rightarrow> AuditLogFilter \<Rightarrow> int \<Rightarrow> (nat \<Rightarrow> nat list) \<Rightarrow> nat \<Rightarrow> AuditLog list list" where
  "audit_pages s db f k scan n =
     map (\<lambda>i. fst (projr (audit_Query s (db\<lparr>db_scan := scan i\<rparr>) (f\<lparr>af_Limit := k, af_Offset := int i * k\<rparr>)))) [0..<n]"

lemma audit_pages_rows:
  assumes "as_store s" "\<not> db_down db" "1 \<le> k" "k \<le> 100"
  shows "audit_pages s db f k scan n =
    map (\<lambda>i. take (nat k) (drop (i * nat k) (order_desc (scan i) al_CreatedAt (filter (audit_where f) (t_audit_logs db))))) [0..<n]"
proof -
  have "audit_where (f\<lparr>af_Limit := k, af_Offset := o'\<rparr>) = audit_where f" for o' by (simp add: audit_where_def fun_eq_iff)
  then show ?thesis
    using assms audit_Query_rows [of s "db\<lparr>db_scan := scan i\<rparr>" "f\<lparr>af_Limit := k, af_Offset := int i * k\<rparr>" for i] audit_limit_id [of k]
    by (simp add: audit_pages_def nat_mult_distrib)
qed

text \<open>
  C27: \<^verbatim>\<open>Query\<close> pages through the log. Whatever limit is asked for, a page holds at most 100
  entries, all of them match the filter, newest first, and the total is the number of
  matching entries. With a limit between 1 and 100, and when no two matching entries have
  the same time, the pages at the offsets 0, limit, 2 limit, ... put together are exactly
  the matching entries, newest first, whatever order the server reads the table in for each
  page. Entries of one time have no such guarantee: of two of them, read in two pages, the
  first may come twice and the second never.
\<close>

theorem audit_query_pages:
  assumes up: "as_store s" "\<not> db_down db"
  shows "(0 \<le> af_Offset f \<longrightarrow> (\<exists>page total. audit_Query s db f = Inr (page, total) \<and> length page \<le> 100 \<and>
      (\<forall>r \<in> set page. r \<in> set (t_audit_logs db) \<and> audit_where f r) \<and> sorted (map (\<lambda>r. - al_CreatedAt r) page) \<and>
      total = int (length (filter (audit_where f) (t_audit_logs db))))) \<and>
    (1 \<le> k \<and> k \<le> 100 \<and> length (filter (audit_where f) (t_audit_logs db)) \<le> n * nat k \<and>
       distinct (map al_CreatedAt (filter (audit_where f) (t_audit_logs db))) \<longrightarrow>
      concat (audit_pages s db f k scan n) = sort_key (\<lambda>r. - al_CreatedAt r) (filter (audit_where f) (t_audit_logs db))) \<and>
    (filter (audit_where f) (t_audit_logs db) = [a, b] \<and> al_CreatedAt a = al_CreatedAt b \<longrightarrow>
      (\<exists>scans. concat (audit_pages s db f 1 scans 2) = [a, a]))"
proof (intro conjI impI)
  assume off: "0 \<le> af_Offset f"
  let ?rows = "filter (audit_where f) (t_audit_logs db)"
  let ?page = "take (nat (audit_limit (af_Limit f))) (drop (nat (af_Offset f)) (order_desc (db_scan db) al_CreatedAt ?rows))"
  have "set ?page \<subseteq> set ?rows" by (metis set_drop_subset set_order(2) set_take_subset subset_trans)
  moreover have "sorted (map (\<lambda>r. - al_CreatedAt r) ?page)"
    by (simp add: take_map [symmetric] drop_map [symmetric] sorted_wrt_take sorted_wrt_drop sorted_order_desc)
  moreover have "length ?page \<le> 100" using audit_limit_bounds [of "af_Limit f"] by auto
  ultimately show "\<exists>page total. audit_Query s db f = Inr (page, total) \<and> length page \<le> 100 \<and>
      (\<forall>r \<in> set page. r \<in> set (t_audit_logs db) \<and> audit_where f r) \<and> sorted (map (\<lambda>r. - al_CreatedAt r) page) \<and> total = int (length ?rows)"
    using audit_Query_rows [OF up off] by auto
next
  let ?rows = "filter (audit_where f) (t_audit_logs db)"
  assume k: "1 \<le> k \<and> k \<le> 100 \<and> length ?rows \<le> n * nat k \<and> distinct (map al_CreatedAt ?rows)"
  then show "concat (audit_pages s db f k scan n) = sort_key (\<lambda>r. - al_CreatedAt r) ?rows"
    using concat_pages [of "nat k" "sort_key (\<lambda>r. - al_CreatedAt r) ?rows" n]
    by (simp add: audit_pages_rows [OF up] order_desc_distinct)
next
  assume two: "filter (audit_where f) (t_audit_logs db) = [a, b] \<and> al_CreatedAt a = al_CreatedAt b"
  have "concat (audit_pages s db f 1 (\<lambda>i. if i = 0 then [] else [1, 0]) 2) = [a, a]"
    using two by (simp add: audit_pages_rows [OF up] order_desc_def order_by_def heap_order_def upt_rec)
  then show "\<exists>scans. concat (audit_pages s db f 1 scans 2) = [a, a]" by blast
qed

text \<open>Two entries written one after the other; and two written at the same time.\<close>

definition demo_audit :: audit_Service where
  "demo_audit = \<lparr>as_store = True, as_forwarder = False\<rparr>"

definition demo_entry :: "string \<Rightarrow> LogInput" where
  "demo_entry a = LogInput0\<lparr>li_OrgID := 1, li_Action := a\<rparr>"

definition demo_audit_db :: db where
  "demo_audit_db = fst (Log demo_audit bits_uuid (fst (Log demo_audit bits_uuid db_empty 5000 1 2 (demo_entry ''a''))) 7000 3 4 (demo_entry ''b''))"

definition demo_tied_db :: db where
  "demo_tied_db = fst (Log demo_audit bits_uuid (fst (Log demo_audit bits_uuid db_empty 5000 1 2 (demo_entry ''a''))) 5000 3 4 (demo_entry ''b''))"

definition demo_filter :: AuditLogFilter where
  "demo_filter = \<lparr>af_OrgID = Some 1, af_ActorID = None, af_Action = [], af_ResourceType = [], af_ResourceID = [],
     af_BranchID = None, af_FromDate = None, af_ToDate = None, af_Limit = 0, af_Offset = 0\<rparr>"

lemma audit_query_pages_witness:
  "(\<exists>page. audit_Query demo_audit demo_audit_db demo_filter = Inr (page, 2)) \<and>
   length (concat (audit_pages demo_audit demo_audit_db demo_filter 1 (\<lambda>i. [1 - i, i]) 2)) = 2 \<and>
   (\<exists>scans a. concat (audit_pages demo_audit demo_tied_db demo_filter 1 scans 2) = [a, a])"
proof -
  have up: "as_store demo_audit" "\<not> db_down demo_audit_db" "\<not> db_down demo_tied_db" by code_simp+
  have n: "length (filter (audit_where demo_filter) (t_audit_logs demo_audit_db)) = 2" by code_simp
  have d: "distinct (map al_CreatedAt (filter (audit_where demo_filter) (t_audit_logs demo_audit_db)))" by code_simp
  have o: "0 \<le> af_Offset demo_filter" by (simp add: demo_filter_def)
  have t: "map al_CreatedAt (filter (audit_where demo_filter) (t_audit_logs demo_tied_db)) = [5000, 5000]" by code_simp
  then obtain a b where "filter (audit_where demo_filter) (t_audit_logs demo_tied_db) = [a, b] \<and> al_CreatedAt a = al_CreatedAt b" by auto
  then have "\<exists>scans. concat (audit_pages demo_audit demo_tied_db demo_filter 1 scans 2) = [a, a]"
    using audit_query_pages [OF up(1,3), of demo_filter 1 2 "\<lambda>_. []" a b] by blast
  with audit_query_pages [OF up(1,2), of demo_filter 1 2 "\<lambda>i. [1 - i, i]" a b] n d o show ?thesis by auto
qed

end
