(* ===== verification/Admin.thy ===== *)
theory Admin
  imports Identity PostgresOAuth OAuth2 AuditService
begin

text \<open>
  The service adapters of internal/api/rest/admin\_routes.go, through which the admin API
  and the workflow callbacks read and write: users, roles, role assignments, OAuth2
  clients, branches; and the stub repository of branch types
  (internal/store/postgres/branch\_type.go). Statements the adapters send themselves
  return the error of the driver unwrapped. Where the source returns an object together
  with an error, callers look at the error first, and the object is left out.
\<close>

definition raw_Exec :: "db \<Rightarrow> db result \<Rightarrow> db \<times> unit result" where
  "raw_Exec db eff = (if db_down db then (db, Inl pg_conn_error) else case eff of Inl e \<Rightarrow> (db, Inl e) | Inr db' \<Rightarrow> (db', Inr ()))"

definition raw_QueryRow :: "db \<Rightarrow> 'a list \<Rightarrow> 'a result" where
  "raw_QueryRow db rows = (if db_down db then Inl pg_conn_error else case rows of [] \<Rightarrow> Inl pgx_ErrNoRows | r # _ \<Rightarrow> Inr r)"

definition raw_Query :: "db \<Rightarrow> 'a list \<Rightarrow> 'a list result" where
  "raw_Query db rows = (if db_down db then Inl pg_conn_error else Inr rows)"

text \<open>The value of an optional field (a pointer), where it is given.\<close>

definition given :: "'a option \<Rightarrow> ('a \<Rightarrow> 'b \<Rightarrow> 'b) \<Rightarrow> 'b \<Rightarrow> 'b" where
  "given x f r = (case x of None \<Rightarrow> r | Some v \<Rightarrow> f v r)"

section \<open>adminUserSvc\<close>

record adminUserSvc =
  aus_argon2 :: argon2_lib
  aus_inet :: "string \<Rightarrow> string option"

record CreateUserInput =
  cui_Username :: string
  cui_Email :: string
  cui_FullName :: string
  cui_PreferredLocale :: string
  cui_Password :: string
  cui_RequirePasswordChange :: bool
  cui_CreatedBy :: uuid

record UpdateUserInput =
  uui_Username :: "string option"
  uui_Email :: "string option"
  uui_FullName :: "string option"
  uui_Status :: "string option"
  uui_UpdatedBy :: "uuid option"

definition adminUserSvc_ListUsers :: "db \<Rightarrow> uuid \<Rightarrow> int \<Rightarrow> int \<Rightarrow> string \<Rightarrow> (User list \<times> int) result" where
  "adminUserSvc_ListUsers db orgID limit offset status =
     (case Users_ListByOrg db orgID limit offset of
        Inl e \<Rightarrow> Inl e
      | Inr (users, cnt) \<Rightarrow>
          if status = [] then Inr (users, cnt)
          else (let filtered = filter (\<lambda>u. u_Status u = status) users in Inr (filtered, int (length filtered))))"

definition adminUserSvc_GetUser :: "db \<Rightarrow> uuid \<Rightarrow> uuid \<Rightarrow> User result" where
  "adminUserSvc_GetUser db i orgID = Users_GetByID db i"

definition new_admin_user :: "time \<Rightarrow> uuid \<Rightarrow> uuid \<Rightarrow> CreateUserInput \<Rightarrow> User" where
  "new_admin_user now i orgID input =
     User0\<lparr>u_ID := i, u_OrgID := orgID, u_Username := cui_Username input, u_Email := cui_Email input,
       u_FullName := cui_FullName input,
       u_PreferredLocale := (if cui_PreferredLocale input \<noteq> ''id'' \<and> cui_PreferredLocale input \<noteq> ''en'' then ''id'' else cui_PreferredLocale input),
       u_Status := ''active'', u_RequirePasswordChange := cui_RequirePasswordChange input, u_CreatedAt := now, u_UpdatedAt := now\<rparr>"

text \<open>\<open>ir_user\<close>, \<open>ir_cred\<close> and \<open>ir_salt\<close> of the random draws are used.\<close>

definition adminUserSvc_CreateUser :: "adminUserSvc \<Rightarrow> db \<Rightarrow> time \<Rightarrow> id_rand \<Rightarrow> uuid \<Rightarrow> CreateUserInput \<Rightarrow> db \<times> User result" where
  "adminUserSvc_CreateUser s db now rnd orgID input =
     (let user = new_admin_user now (ir_user rnd) orgID input
      in case Users_Create db user of
           (db1, Inl e) \<Rightarrow> (db1, Inl e)
         | (db1, Inr _) \<Rightarrow>
             if cui_Password input = [] then (db1, Inr user)
             else (case Hash (aus_argon2 s) (NewHasher DefaultConfig) (ir_salt rnd) (cui_Password input) of
                 Inl e \<Rightarrow> (db1, Inl e)
               | Inr hash \<Rightarrow> (case Credentials_Create db1 (new_password_credential now (ir_cred rnd) (u_ID user) hash) of
                   (db2, Inl e) \<Rightarrow> (db2, Inl e)
                 | (db2, Inr _) \<Rightarrow> (db2, Inr user))))"

definition adminUserSvc_UpdateUser :: "adminUserSvc \<Rightarrow> db \<Rightarrow> time \<Rightarrow> uuid \<Rightarrow> uuid \<Rightarrow> UpdateUserInput \<Rightarrow> db \<times> User result" where
  "adminUserSvc_UpdateUser s db now i orgID input =
     (case Users_GetByID db i of
        Inl e \<Rightarrow> (db, Inl e)
      | Inr user0 \<Rightarrow>
          (let user1 = given (uui_Username input) (\<lambda>v u. u\<lparr>u_Username := v\<rparr>) user0;
               user2 = given (uui_Email input) (\<lambda>v u. u\<lparr>u_Email := v\<rparr>) user1;
               user3 = given (uui_FullName input) (\<lambda>v u. u\<lparr>u_FullName := v\<rparr>) user2;
               user4 = given (uui_Status input) (\<lambda>v u. u\<lparr>u_Status := v\<rparr>) user3;
               user = user4\<lparr>u_UpdatedAt := now\<rparr>
           in case Users_Update (aus_inet s) db user of
                (db1, Inl e) \<Rightarrow> (db1, Inl e)
              | (db1, Inr _) \<Rightarrow> (db1, Inr user)))"

definition adminUserSvc_DeleteUser :: "db \<Rightarrow> time \<Rightarrow> uuid \<Rightarrow> uuid \<Rightarrow> db \<times> unit result" where
  "adminUserSvc_DeleteUser db now i orgID = Users_Delete db now i"

definition updateUserStatus :: "adminUserSvc \<Rightarrow> db \<Rightarrow> time \<Rightarrow> uuid \<Rightarrow> string \<Rightarrow> db \<times> unit result" where
  "updateUserStatus s db now i status =
     (case Users_GetByID db i of
        Inl e \<Rightarrow> (db, Inl e)
      | Inr user \<Rightarrow> Users_Update (aus_inet s) db (user\<lparr>u_Status := status, u_UpdatedAt := now\<rparr>))"

definition adminUserSvc_LockUser :: "adminUserSvc \<Rightarrow> db \<Rightarrow> time \<Rightarrow> uuid \<Rightarrow> uuid \<Rightarrow> db \<times> unit result" where
  "adminUserSvc_LockUser s db now i orgID = updateUserStatus s db now i ''locked''"

definition adminUserSvc_UnlockUser :: "adminUserSvc \<Rightarrow> db \<Rightarrow> time \<Rightarrow> uuid \<Rightarrow> uuid \<Rightarrow> db \<times> unit result" where
  "adminUserSvc_UnlockUser s db now i orgID = updateUserStatus s db now i ''active''"

definition adminUserSvc_SuspendUser :: "adminUserSvc \<Rightarrow> db \<Rightarrow> time \<Rightarrow> uuid \<Rightarrow> uuid \<Rightarrow> db \<times> unit result" where
  "adminUserSvc_SuspendUser s db now i orgID = updateUserStatus s db now i ''suspended''"

section \<open>adminRoleSvc\<close>

record CreateRoleInput =
  cri_Code :: string
  cri_Name :: string
  cri_Description :: string
  cri_IsDefault :: bool

record UpdateRoleInput =
  uri_Name :: "string option"
  uri_Description :: "string option"

definition adminRoleSvc_ListRoles :: "db \<Rightarrow> uuid \<Rightarrow> Role list result" where
  "adminRoleSvc_ListRoles db orgID = Roles_ListByOrg db orgID"

definition adminRoleSvc_GetRole :: "db \<Rightarrow> uuid \<Rightarrow> uuid \<Rightarrow> Role result" where
  "adminRoleSvc_GetRole db i orgID = Roles_GetByID db i orgID"

definition adminRoleSvc_CreateRole :: "db \<Rightarrow> time \<Rightarrow> uuid \<Rightarrow> uuid \<Rightarrow> CreateRoleInput \<Rightarrow> db \<times> Role result" where
  "adminRoleSvc_CreateRole db now i orgID input =
     (let role = \<lparr>ro_ID = i, ro_OrgID = orgID, ro_Code = cri_Code input, ro_Name = cri_Name input,
            ro_Description = cri_Description input, ro_IsDefault = cri_IsDefault input, ro_Permissions = [],
            ro_CreatedAt = now, ro_UpdatedAt = now\<rparr>
      in case Roles_Create db role of (db1, Inl e) \<Rightarrow> (db1, Inl e) | (db1, Inr _) \<Rightarrow> (db1, Inr role))"

definition adminRoleSvc_UpdateRole :: "db \<Rightarrow> time \<Rightarrow> uuid \<Rightarrow> uuid \<Rightarrow> UpdateRoleInput \<Rightarrow> db \<times> Role result" where
  "adminRoleSvc_UpdateRole db now i orgID input =
     (case Roles_GetByID db i orgID of
        Inl e \<Rightarrow> (db, Inl e)
      | Inr role0 \<Rightarrow>
          (let role1 = given (uri_Name input) (\<lambda>v r. r\<lparr>ro_Name := v\<rparr>) role0;
               role2 = given (uri_Description input) (\<lambda>v r. r\<lparr>ro_Description := v\<rparr>) role1;
               role = role2\<lparr>ro_UpdatedAt := now\<rparr>
           in case Roles_Update db role of (db1, Inl e) \<Rightarrow> (db1, Inl e) | (db1, Inr _) \<Rightarrow> (db1, Inr role)))"

definition adminRoleSvc_DeleteRole :: "db \<Rightarrow> uuid \<Rightarrow> uuid \<Rightarrow> db \<times> unit result" where
  "adminRoleSvc_DeleteRole db i orgID = Roles_Delete db i orgID"

fun assign_each :: "db \<Rightarrow> uuid \<Rightarrow> uuid list \<Rightarrow> db \<times> unit result" where
  "assign_each db roleID [] = (db, Inr ())"
| "assign_each db roleID (pid # pids) =
     (case RolePerms_Assign db roleID pid of (db1, Inl e) \<Rightarrow> (db1, Inl e) | (db1, Inr _) \<Rightarrow> assign_each db1 roleID pids)"

definition AssignPermissions :: "db \<Rightarrow> uuid \<Rightarrow> uuid list \<Rightarrow> db \<times> unit result" where
  "AssignPermissions db roleID permissionIDs =
     (case RolePerms_DeleteByRole db roleID of (db1, Inl e) \<Rightarrow> (db1, Inl e) | (db1, Inr _) \<Rightarrow> assign_each db1 roleID permissionIDs)"

definition adminRoleSvc_ListPermissions :: "db \<Rightarrow> Permission list result" where
  "adminRoleSvc_ListPermissions db = Perms_List db"

section \<open>adminUserRoleSvc\<close>

definition adminUserRoleSvc_AssignRole ::
  "uuid_pkg \<Rightarrow> db \<Rightarrow> time \<Rightarrow> uuid \<Rightarrow> uuid \<Rightarrow> uuid \<Rightarrow> uuid \<Rightarrow> uuid option \<Rightarrow> uuid \<Rightarrow> db \<times> UserRole result" where
  "adminUserRoleSvc_AssignRole U db now i userID roleID orgID branchID grantedBy =
     (let ur = \<lparr>ur_ID = i, ur_UserID = userID, ur_RoleID = roleID, ur_BranchID = branchID, ur_OrgID = orgID,
            ur_GrantedBy = grantedBy, ur_GrantedAt = now, ur_RevokedAt = None, ur_RevokedBy = None\<rparr>
      in case UserRoles_Create U db ur of (db1, Inl e) \<Rightarrow> (db1, Inl e) | (db1, Inr _) \<Rightarrow> (db1, Inr ur))"

definition adminUserRoleSvc_RevokeRole :: "uuid_pkg \<Rightarrow> db \<Rightarrow> time \<Rightarrow> uuid \<Rightarrow> uuid \<Rightarrow> uuid \<Rightarrow> uuid \<Rightarrow> db \<times> unit result" where
  "adminUserRoleSvc_RevokeRole U db now userID roleID orgID revokedBy =
     UserRoles_RevokeByUserAndRole U db now userID roleID orgID revokedBy"

definition adminUserRoleSvc_GetBranchRoles :: "uuid_pkg \<Rightarrow> db \<Rightarrow> uuid \<Rightarrow> UserRole list result" where
  "adminUserRoleSvc_GetBranchRoles U db branchID = UserRoles_GetByBranch U db branchID"

section \<open>adminOAuth2ClientSvc\<close>

record CreateClientInput =
  cci_ClientID :: string
  cci_Name :: string
  cci_Description :: string
  cci_ClientType :: string
  cci_TokenEndpointAuthMethod :: string
  cci_AllowedScopes :: "string list"
  cci_AllowedRedirectURIs :: "string list"
  cci_AllowedOrigins :: "string list"
  cci_TokenExpiration :: int
  cci_RefreshTokenExpiration :: int
  cci_AllowMultipleTokens :: bool
  cci_SkipConsentScreen :: bool
  cci_ClientSecret :: string

record UpdateClientInput =
  uci_Name :: "string option"
  uci_Description :: "string option"
  uci_AllowedScopes :: "string list option"
  uci_AllowedRedirectURIs :: "string list option"
  uci_AllowedOrigins :: "string list option"
  uci_TokenExpiration :: "int option"
  uci_RefreshTokenExpiration :: "int option"
  uci_AllowMultipleTokens :: "bool option"
  uci_SkipConsentScreen :: "bool option"
  uci_IsActive :: "bool option"

text \<open>The columns each query selects; the others stay zero.\<close>

definition adminOAuth2ClientSvc_ListClients :: "db \<Rightarrow> uuid \<Rightarrow> Client list result" where
  "adminOAuth2ClientSvc_ListClients db orgID = raw_Query db
     (map (\<lambda>c. c\<lparr>cl_AppURL := [], cl_IconName := [], cl_IconColor := [], cl_ClientSecretHash := [], cl_PublicKeyJWK := []\<rparr>)
       (order_desc (db_scan db) cl_CreatedAt (filter (\<lambda>c. cl_OrgID c = orgID) (t_oauth2_clients db))))"

definition adminOAuth2ClientSvc_GetClient :: "db \<Rightarrow> uuid \<Rightarrow> Client result" where
  "adminOAuth2ClientSvc_GetClient db i = raw_QueryRow db
     (map (\<lambda>c. c\<lparr>cl_PublicKeyJWK := []\<rparr>) (filter (\<lambda>c. cl_ID c = i) (t_oauth2_clients db)))"

definition adminHashSecret :: "libs \<Rightarrow> string \<Rightarrow> string" where
  "adminHashSecret L secret = EncodeToString False (lib_sha256 L secret)"

definition new_admin_client :: "libs \<Rightarrow> time \<Rightarrow> uuid \<Rightarrow> uuid \<Rightarrow> CreateClientInput \<Rightarrow> Client" where
  "new_admin_client L now i orgID input =
     \<lparr>cl_ID = i, cl_ClientID = uuid_String (lib_uuid L) i, cl_OrgID = orgID, cl_Name = cci_Name input,
      cl_Description = cci_Description input, cl_AppURL = [], cl_IconName = [], cl_IconColor = [],
      cl_ClientType = cci_ClientType input, cl_TokenEndpointAuthMethod = cci_TokenEndpointAuthMethod input,
      cl_AllowedScopes = cci_AllowedScopes input, cl_AllowedRedirectURIs = cci_AllowedRedirectURIs input,
      cl_AllowedOrigins = cci_AllowedOrigins input,
      cl_ClientSecretHash = (if cci_ClientSecret input \<noteq> [] then adminHashSecret L (cci_ClientSecret input) else []),
      cl_PublicKeyJWK = [], cl_TokenExpiration = cci_TokenExpiration input,
      cl_RefreshTokenExpiration = cci_RefreshTokenExpiration input, cl_AllowMultipleTokens = cci_AllowMultipleTokens input,
      cl_SkipConsentScreen = cci_SkipConsentScreen input, cl_IsActive = True, cl_CreatedAt = now, cl_UpdatedAt = now\<rparr>"

definition adminOAuth2ClientSvc_CreateClient :: "libs \<Rightarrow> db \<Rightarrow> time \<Rightarrow> uuid \<Rightarrow> uuid \<Rightarrow> CreateClientInput \<Rightarrow> db \<times> Client result" where
  "adminOAuth2ClientSvc_CreateClient L db now i orgID input =
     (let cl = new_admin_client L now i orgID input
      in case Clients_CreateClient (lib_uuid L) db cl of (db1, Inl e) \<Rightarrow> (db1, Inl e) | (db1, Inr _) \<Rightarrow> (db1, Inr cl))"

definition apply_client_input :: "UpdateClientInput \<Rightarrow> Client \<Rightarrow> Client" where
  "apply_client_input input c0 =
     (let c1 = given (uci_Name input) (\<lambda>v c. c\<lparr>cl_Name := v\<rparr>) c0;
          c2 = given (uci_Description input) (\<lambda>v c. c\<lparr>cl_Description := v\<rparr>) c1;
          c3 = given (uci_AllowedScopes input) (\<lambda>v c. c\<lparr>cl_AllowedScopes := v\<rparr>) c2;
          c4 = given (uci_AllowedRedirectURIs input) (\<lambda>v c. c\<lparr>cl_AllowedRedirectURIs := v\<rparr>) c3;
          c5 = given (uci_AllowedOrigins input) (\<lambda>v c. c\<lparr>cl_AllowedOrigins := v\<rparr>) c4;
          c6 = given (uci_TokenExpiration input) (\<lambda>v c. c\<lparr>cl_TokenExpiration := v\<rparr>) c5;
          c7 = given (uci_RefreshTokenExpiration input) (\<lambda>v c. c\<lparr>cl_RefreshTokenExpiration := v\<rparr>) c6;
          c8 = given (uci_AllowMultipleTokens input) (\<lambda>v c. c\<lparr>cl_AllowMultipleTokens := v\<rparr>) c7;
          c9 = given (uci_SkipConsentScreen input) (\<lambda>v c. c\<lparr>cl_SkipConsentScreen := v\<rparr>) c8
      in given (uci_IsActive input) (\<lambda>v c. c\<lparr>cl_IsActive := v\<rparr>) c9)"

text \<open>The statement changes neither the secret nor the app fields of the client.\<close>

definition adminOAuth2ClientSvc_UpdateClient :: "db \<Rightarrow> time \<Rightarrow> uuid \<Rightarrow> uuid \<Rightarrow> UpdateClientInput \<Rightarrow> db \<times> Client result" where
  "adminOAuth2ClientSvc_UpdateClient db now i orgID input =
     (case adminOAuth2ClientSvc_GetClient db i of
        Inl e \<Rightarrow> (db, Inl e)
      | Inr cl0 \<Rightarrow>
          (let cl = (apply_client_input input cl0)\<lparr>cl_UpdatedAt := now\<rparr>
           in case raw_Exec db (case clients_check cl of
                  Some e \<Rightarrow> Inl e
                | None \<Rightarrow> Inr (db\<lparr>t_oauth2_clients := sql_update (\<lambda>r. cl_ID r = i)
                    (\<lambda>r. r\<lparr>cl_Name := cl_Name cl, cl_Description := cl_Description cl, cl_ClientType := cl_ClientType cl,
                       cl_TokenEndpointAuthMethod := cl_TokenEndpointAuthMethod cl, cl_AllowedScopes := cl_AllowedScopes cl,
                       cl_AllowedRedirectURIs := cl_AllowedRedirectURIs cl, cl_AllowedOrigins := cl_AllowedOrigins cl,
                       cl_TokenExpiration := cl_TokenExpiration cl, cl_RefreshTokenExpiration := cl_RefreshTokenExpiration cl,
                       cl_AllowMultipleTokens := cl_AllowMultipleTokens cl, cl_SkipConsentScreen := cl_SkipConsentScreen cl,
                       cl_IsActive := cl_IsActive cl, cl_UpdatedAt := pg_ts now\<rparr>) (t_oauth2_clients db)\<rparr>)) of
                (db1, Inl e) \<Rightarrow> (db1, Inl e)
              | (db1, Inr _) \<Rightarrow> (db1, Inr cl)))"

definition adminOAuth2ClientSvc_DeleteClient :: "db \<Rightarrow> uuid \<Rightarrow> db \<times> unit result" where
  "adminOAuth2ClientSvc_DeleteClient db i =
     raw_Exec db (Inr (db\<lparr>t_oauth2_clients := filter (\<lambda>c. cl_ID c \<noteq> i) (t_oauth2_clients db)\<rparr>))"

section \<open>branch\_type.go and adminBranchSvc\<close>

text \<open>The repository of branch types touches no table: every method fails.\<close>

definition domain_ErrNotFound :: error where
  "domain_ErrNotFound = Sentinel ''domain.ErrNotFound''"

definition BranchTypes_Create :: "BranchType \<Rightarrow> unit result" where
  "BranchTypes_Create bt = Inl (Wrapf ''BranchTypeRepository.Create'' domain_ErrNotFound)"

definition BranchTypes_Update :: "BranchType \<Rightarrow> unit result" where
  "BranchTypes_Update bt = Inl (Wrapf ''BranchTypeRepository.Update'' domain_ErrNotFound)"

definition BranchTypes_Delete :: "uuid \<Rightarrow> uuid \<Rightarrow> unit result" where
  "BranchTypes_Delete i orgID = Inl (Wrapf ''BranchTypeRepository.Delete'' domain_ErrNotFound)"

definition BranchTypes_GetByID :: "uuid \<Rightarrow> uuid \<Rightarrow> BranchType result" where
  "BranchTypes_GetByID i orgID = Inl (Wrapf ''BranchTypeRepository.GetByID'' domain_ErrNotFound)"

definition BranchTypes_GetByCode :: "uuid \<Rightarrow> string \<Rightarrow> BranchType result" where
  "BranchTypes_GetByCode orgID code = Inl (Wrapf ''BranchTypeRepository.GetByCode'' domain_ErrNotFound)"

definition BranchTypes_ListByOrg :: "uuid \<Rightarrow> BranchType list result" where
  "BranchTypes_ListByOrg orgID = Inl (Wrapf ''BranchTypeRepository.ListByOrg'' domain_ErrNotFound)"

record BranchTypeParams =
  btp_Code :: string
  btp_Label :: string
  btp_ShortCode :: string
  btp_Level :: int
  btp_IsOperational :: bool
  btp_CanHaveChildren :: bool
  btp_SortOrder :: int

definition adminBranchSvc_CreateBranchType :: "time \<Rightarrow> uuid \<Rightarrow> uuid \<Rightarrow> BranchTypeParams \<Rightarrow> BranchType result" where
  "adminBranchSvc_CreateBranchType now i orgID params =
     (if is_ok (BranchTypes_GetByCode orgID (btp_Code params)) then Inl (Errorf ''branch type code already exists'')
      else (let bt = \<lparr>bt_ID = i, bt_OrgID = orgID, bt_Code = btp_Code params, bt_Label = btp_Label params,
              bt_ShortCode = btp_ShortCode params, bt_Level = btp_Level params, bt_IsOperational = btp_IsOperational params,
              bt_CanHaveChildren = btp_CanHaveChildren params, bt_SortOrder = btp_SortOrder params, bt_CreatedAt = now, bt_UpdatedAt = now\<rparr>
            in case BranchTypes_Create bt of Inl e \<Rightarrow> Inl e | Inr _ \<Rightarrow> Inr bt))"

definition adminBranchSvc_GetBranchType :: "uuid \<Rightarrow> uuid \<Rightarrow> BranchType result" where
  "adminBranchSvc_GetBranchType i orgID = BranchTypes_GetByID i orgID"

definition adminBranchSvc_ListBranchTypes :: "uuid \<Rightarrow> BranchType list result" where
  "adminBranchSvc_ListBranchTypes orgID = BranchTypes_ListByOrg orgID"

definition adminBranchSvc_UpdateBranchType :: "time \<Rightarrow> uuid \<Rightarrow> uuid \<Rightarrow> BranchTypeParams \<Rightarrow> BranchType result" where
  "adminBranchSvc_UpdateBranchType now i orgID params =
     (case BranchTypes_GetByID i orgID of
        Inl e \<Rightarrow> Inl e
      | Inr bt0 \<Rightarrow>
          (let bt = bt0\<lparr>bt_Code := btp_Code params, bt_Label := btp_Label params, bt_ShortCode := btp_ShortCode params,
                 bt_Level := btp_Level params, bt_IsOperational := btp_IsOperational params,
                 bt_CanHaveChildren := btp_CanHaveChildren params, bt_SortOrder := btp_SortOrder params, bt_UpdatedAt := now\<rparr>
           in case BranchTypes_Update bt of Inl e \<Rightarrow> Inl e | Inr _ \<Rightarrow> Inr bt))"

definition adminBranchSvc_DeleteBranchType :: "uuid \<Rightarrow> uuid \<Rightarrow> unit result" where
  "adminBranchSvc_DeleteBranchType i orgID = BranchTypes_Delete i orgID"

record BranchParams =
  bp_BranchTypeID :: uuid
  bp_ParentID :: "uuid option"
  bp_Code :: string
  bp_Name :: string
  bp_Address :: string
  bp_Phone :: string

definition adminBranchSvc_CreateBranch :: "db \<Rightarrow> time \<Rightarrow> uuid \<Rightarrow> uuid \<Rightarrow> BranchParams \<Rightarrow> db \<times> Branch result" where
  "adminBranchSvc_CreateBranch db now i orgID params =
     (let b = \<lparr>b_ID = i, b_OrgID = orgID, b_BranchCode = bp_Code params, b_Name = bp_Name params, b_Active = True, b_UpdatedAt = now\<rparr>
      in case Branches_Create db b of (db1, Inl e) \<Rightarrow> (db1, Inl e) | (db1, Inr _) \<Rightarrow> (db1, Inr b))"

definition adminBranchSvc_GetBranch :: "db \<Rightarrow> uuid \<Rightarrow> uuid \<Rightarrow> Branch result" where
  "adminBranchSvc_GetBranch db i orgID = Branches_GetByID db i orgID"

definition adminBranchSvc_ListBranches :: "db \<Rightarrow> uuid \<Rightarrow> Branch list result" where
  "adminBranchSvc_ListBranches db orgID = Branches_ListByOrg db orgID"

definition adminBranchSvc_UpdateBranch :: "db \<Rightarrow> time \<Rightarrow> uuid \<Rightarrow> uuid \<Rightarrow> BranchParams \<Rightarrow> db \<times> Branch result" where
  "adminBranchSvc_UpdateBranch db now i orgID params =
     (case Branches_GetByID db i orgID of
        Inl e \<Rightarrow> (db, Inl e)
      | Inr b0 \<Rightarrow>
          (let b = b0\<lparr>b_Name := bp_Name params, b_UpdatedAt := now\<rparr>
           in case Branches_Update db b of (db1, Inl e) \<Rightarrow> (db1, Inl e) | (db1, Inr _) \<Rightarrow> (db1, Inr b)))"

definition adminBranchSvc_DeleteBranch :: "uuid_pkg \<Rightarrow> db \<Rightarrow> uuid \<Rightarrow> uuid \<Rightarrow> db \<times> unit result" where
  "adminBranchSvc_DeleteBranch U db i orgID = Branches_Delete U db i orgID"

record UserBranchParams =
  ubp_BranchID :: uuid
  ubp_Role :: string
  ubp_IsPrimary :: bool
  ubp_AssignedBy :: uuid

definition adminBranchSvc_AssignUserToBranch ::
  "db \<Rightarrow> time \<Rightarrow> uuid \<Rightarrow> uuid \<Rightarrow> uuid \<Rightarrow> uuid \<Rightarrow> UserBranchParams \<Rightarrow> db \<times> UserBranchAssignment result" where
  "adminBranchSvc_AssignUserToBranch db now i userID branchID orgID params =
     (let uba = \<lparr>uba_ID = i, uba_UserID = userID, uba_BranchID = branchID, uba_BranchCode = [], uba_BranchName = [],
            uba_OrgID = orgID, uba_Role = [], uba_IsPrimary = ubp_IsPrimary params, uba_AssignedBy = ubp_AssignedBy params,
            uba_AssignedAt = now, uba_RevokedAt = None, uba_RevokedBy = None\<rparr>
      in case Assignments_Create db uba of (db1, Inl e) \<Rightarrow> (db1, Inl e) | (db1, Inr _) \<Rightarrow> (db1, Inr uba))"

definition adminBranchSvc_GetUserBranches :: "db \<Rightarrow> uuid \<Rightarrow> UserBranchAssignment list result" where
  "adminBranchSvc_GetUserBranches db userID = Assignments_GetByUser db userID"

definition adminBranchSvc_RevokeUserBranch :: "db \<Rightarrow> time \<Rightarrow> uuid \<Rightarrow> uuid \<Rightarrow> uuid \<Rightarrow> db \<times> unit result" where
  "adminBranchSvc_RevokeUserBranch db now assignmentID orgID revokedBy = Assignments_Revoke db now assignmentID revokedBy"

end
