(* ===== verification/WfCallback.thy ===== *)
theory WfCallback
  imports Admin Authz
begin

text \<open>
  Package internal/api/rest/wfcallback: the callbacks through which the workflow service
  changes users, roles, clients and branch settings. A request is the path parameter and
  the envelope, \<open>None\<close> when the body does not bind. A handler returns the tables, the audit
  entries it hands to \<^verbatim>\<open>LogAsync\<close> and its answer. A Go map is an association list in the
  order of insertion, one of the orders in which Go may iterate. \<open>wh_zone\<close> is the offset of
  the process's time zone at an instant.
\<close>

section \<open>wfcallback.go\<close>

record wfEnvelope =
  we_Data :: JSON
  we_MasterID :: string
  we_MasterType :: string
  we_WfInstanceID :: string

definition dataStr :: "JSON \<Rightarrow> string \<Rightarrow> string" where
  "dataStr m key = (case map_of m key of Some (AnyString v) \<Rightarrow> v | _ \<Rightarrow> [])"

definition dataBool :: "JSON \<Rightarrow> string \<Rightarrow> bool" where
  "dataBool m key = (case map_of m key of Some (AnyBool v) \<Rightarrow> v | _ \<Rightarrow> False)"

definition dataStrPtr :: "JSON \<Rightarrow> string \<Rightarrow> string option" where
  "dataStrPtr m key = (case map_of m key of Some (AnyString v) \<Rightarrow> Some v | _ \<Rightarrow> None)"

text \<open>The conversion of a \<^verbatim>\<open>float64\<close> to \<^verbatim>\<open>int\<close> truncates towards zero.\<close>

definition dataInt :: "JSON \<Rightarrow> string \<Rightarrow> int" where
  "dataInt m key = (case map_of m key of
     Some (AnyFloat v) \<Rightarrow> if v < 0 then \<lceil>v\<rceil> else \<lfloor>v\<rfloor> | Some (AnyInt v) \<Rightarrow> v | _ \<Rightarrow> 0)"

definition dataMaps :: "JSON \<Rightarrow> string \<Rightarrow> JSON list" where
  "dataMaps m key = (case map_of m key of
     Some (AnySlice arr) \<Rightarrow> List.map_filter (\<lambda>x. case x of AnyMap mm \<Rightarrow> Some mm | _ \<Rightarrow> None) arr | _ \<Rightarrow> [])"

definition dataStrSlice :: "JSON \<Rightarrow> string \<Rightarrow> string list" where
  "dataStrSlice m key = (case map_of m key of
     Some (AnySlice arr) \<Rightarrow> List.map_filter (\<lambda>x. case x of AnyString s \<Rightarrow> if s \<noteq> [] then Some s else None | _ \<Rightarrow> None) arr | _ \<Rightarrow> [])"

text \<open>The bound request: envelope, organization, actor and the actor's address.\<close>

definition bindWfEnvelope :: "uuid_pkg \<Rightarrow> wfEnvelope option \<Rightarrow> (wfEnvelope \<times> uuid \<times> uuid \<times> string) response" where
  "bindWfEnvelope U body =
     (case body of
        None \<Rightarrow> Refused 400 ''invalid_request''
      | Some env \<Rightarrow> (case uuid_Parse U (dataStr (we_Data env) ''org_id'') of
          None \<Rightarrow> Refused 400 ''org_id required''
        | Some orgID \<Rightarrow> OK (env, orgID, uuid_Parse0 U (dataStr (we_Data env) ''actor_id''), dataStr (we_Data env) ''actor_email'')))"

definition paramID :: "uuid_pkg \<Rightarrow> string \<Rightarrow> uuid response" where
  "paramID U param = (case uuid_Parse U param of None \<Rightarrow> Refused 400 ''invalid id'' | Some i \<Rightarrow> OK i)"

definition wfFail :: "'a response" where
  "wfFail = Refused 500 ''internal_error''"

definition uuidSetKeys :: "uuid_pkg \<Rightarrow> (uuid \<times> bool) list \<Rightarrow> string list" where
  "uuidSetKeys U m = map (\<lambda>(k, _). uuid_String U k) m"

definition uuidSliceStr :: "uuid_pkg \<Rightarrow> uuid list \<Rightarrow> string list" where
  "uuidSliceStr U ids = map (uuid_String U) ids"

definition mapToLabels :: "string list \<Rightarrow> (string \<times> string) list \<Rightarrow> string list" where
  "mapToLabels ids labels = map (\<lambda>i. case map_of labels i of Some l \<Rightarrow> if l \<noteq> [] then l else i | None \<Rightarrow> i) ids"

definition json_strings :: "string list \<Rightarrow> any" where
  "json_strings ss = AnySlice (map AnyString ss)"

text \<open>The entry every handler passes to \<^verbatim>\<open>LogAsync\<close>.\<close>

definition wf_audit ::
  "JSON \<Rightarrow> string \<Rightarrow> uuid \<Rightarrow> uuid \<Rightarrow> string \<Rightarrow> string \<Rightarrow> string \<Rightarrow> string \<Rightarrow> JSON option \<Rightarrow> JSON option \<Rightarrow> LogInput" where
  "wf_audit data wfInstanceID orgID actorID actorEmail action resourceType resourceID oldV newV =
     \<lparr>li_OrgID = orgID, li_ActorID = actorID, li_ActorEmail = actorEmail, li_Action = action,
      li_ResourceType = resourceType, li_ResourceID = resourceID, li_OldValue = oldV, li_NewValue = newV,
      li_IPAddress = dataStr data ''ip_address'', li_UserAgent = dataStr data ''user_agent'',
      li_BranchID = dataStr data ''branch_id'', li_BranchCode = dataStr data ''branch_code'',
      li_SessionID = dataStr data ''session_id'', li_CorrelationID = wfInstanceID\<rparr>"

record wf_handler =
  wh_libs :: libs
  wh_users :: adminUserSvc
  wh_zone :: "time \<Rightarrow> int"

abbreviation wh_uuid :: "wf_handler \<Rightarrow> uuid_pkg" where
  "wh_uuid h \<equiv> lib_uuid (wh_libs h)"

text \<open>The opening of a handler with a path parameter: the id and the bound request.\<close>

definition wf_open ::
  "wf_handler \<Rightarrow> string \<Rightarrow> wfEnvelope option \<Rightarrow> (uuid \<times> wfEnvelope \<times> uuid \<times> uuid \<times> string) response" where
  "wf_open h param body =
     (case paramID (wh_uuid h) param of
        Refused st e \<Rightarrow> Refused st e
      | OK i \<Rightarrow> (case bindWfEnvelope (wh_uuid h) body of Refused st e \<Rightarrow> Refused st e | OK x \<Rightarrow> OK (i, x)))"

section \<open>user.go: user lifecycle\<close>

definition wfUserToJSON :: "wf_handler \<Rightarrow> User result \<Rightarrow> JSON option" where
  "wfUserToJSON h r =
     (case r of
        Inl _ \<Rightarrow> None
      | Inr u \<Rightarrow> Some [(''id'', AnyString (uuid_String (wh_uuid h) (u_ID u))), (''username'', AnyString (u_Username u)),
          (''email'', AnyString (u_Email u)), (''full_name'', AnyString (u_FullName u)), (''status'', AnyString (u_Status u)),
          (''created_at'', AnyString (Format_RFC3339 (wh_zone h (u_CreatedAt u)) (u_CreatedAt u)))])"

text \<open>The draws of one request: user, credential, salt; ids of assignments; the password generator's.\<close>

record wf_rand =
  wr_user :: id_rand
  wr_ids :: "nat \<Rightarrow> uuid"
  wr_branch :: uuid
  wr_gen :: "nat \<Rightarrow> nat \<Rightarrow> nat option"

fun assign_roles ::
  "uuid_pkg \<Rightarrow> db \<Rightarrow> time \<Rightarrow> (nat \<Rightarrow> uuid) \<Rightarrow> uuid \<Rightarrow> uuid \<Rightarrow> uuid \<Rightarrow> JSON list \<Rightarrow> db \<times> unit result" where
  "assign_roles U db now ids userID orgID actorID [] = (db, Inr ())"
| "assign_roles U db now ids userID orgID actorID (rm # rms) =
     (case uuid_Parse U (dataStr rm ''role_id'') of
        None \<Rightarrow> assign_roles U db now (ids \<circ> Suc) userID orgID actorID rms
      | Some rid \<Rightarrow> (case adminUserRoleSvc_AssignRole U db now (ids 0) userID rid orgID None actorID of
          (db1, Inl e) \<Rightarrow> (db1, Inl e)
        | (db1, Inr _) \<Rightarrow> assign_roles U db1 now (ids \<circ> Suc) userID orgID actorID rms))"

definition wf_create_input :: "JSON \<Rightarrow> uuid \<Rightarrow> string \<Rightarrow> CreateUserInput" where
  "wf_create_input data actorID plainPassword =
     \<lparr>cui_Username = dataStr data ''username'', cui_Email = dataStr data ''email'', cui_FullName = dataStr data ''full_name'',
      cui_PreferredLocale = dataStr data ''preferred_locale'', cui_Password = plainPassword,
      cui_RequirePasswordChange = dataBool data ''require_password_change'', cui_CreatedBy = actorID\<rparr>"

definition handleWfCreate ::
  "wf_handler \<Rightarrow> db \<Rightarrow> time \<Rightarrow> wf_rand \<Rightarrow> wfEnvelope option \<Rightarrow> db \<times> LogInput list \<times> (string \<times> string option) response" where
  "handleWfCreate h db now rnd body =
     (case bindWfEnvelope (wh_uuid h) body of
        Refused st e \<Rightarrow> (db, [], Refused st e)
      | OK (env, orgID, actorID, actorEmail) \<Rightarrow>
          (let U = wh_uuid h; data = we_Data env;
               autoGenerate = dataBool data ''auto_generate_password'';
               plainPassword = (if autoGenerate then Generate (wr_gen rnd) else dataStr data ''password'')
           in case adminUserSvc_CreateUser (wh_users h) db now (wr_user rnd) orgID (wf_create_input data actorID plainPassword) of
                (db1, Inl _) \<Rightarrow> (db1, [], wfFail)
              | (db1, Inr user) \<Rightarrow>
                (case assign_roles U db1 now (wr_ids rnd) (u_ID user) orgID actorID (dataMaps data ''roles'') of
                  (db2, Inl _) \<Rightarrow> (db2, [], wfFail)
                | (db2, Inr _) \<Rightarrow>
                  (case (case uuid_Parse U (dataStr data ''primary_branch_id'') of
                           Some bid \<Rightarrow> if dataStr data ''primary_branch_id'' = [] then (db2, Inr ())
                             else (case adminBranchSvc_AssignUserToBranch db2 now (wr_branch rnd) (u_ID user) bid orgID
                                     \<lparr>ubp_BranchID = bid, ubp_Role = [], ubp_IsPrimary = True, ubp_AssignedBy = actorID\<rparr> of
                               (db3, Inl e) \<Rightarrow> (db3, Inl e) | (db3, Inr _) \<Rightarrow> (db3, Inr ()))
                         | None \<Rightarrow> (db2, Inr ())) of
                     (db3, Inl _) \<Rightarrow> (db3, [], wfFail)
                   | (db3, Inr _) \<Rightarrow>
                       (db3, [wf_audit data (we_WfInstanceID env) orgID actorID actorEmail ''create_user'' ''user'' (uuid_String U (u_ID user))
                                None (wfUserToJSON h (Inr user))],
                        OK (uuid_String U (u_ID user), if autoGenerate then Some plainPassword else None))))))"

definition wf_update_input :: "JSON \<Rightarrow> uuid \<Rightarrow> UpdateUserInput" where
  "wf_update_input data actorID =
     \<lparr>uui_Username = dataStrPtr data ''username'', uui_Email = dataStrPtr data ''email'', uui_FullName = dataStrPtr data ''full_name'',
      uui_Status = dataStrPtr data ''status'', uui_UpdatedBy = Some actorID\<rparr>"

definition handleWfUpdate ::
  "wf_handler \<Rightarrow> db \<Rightarrow> time \<Rightarrow> string \<Rightarrow> wfEnvelope option \<Rightarrow> db \<times> LogInput list \<times> string response" where
  "handleWfUpdate h db now param body =
     (case wf_open h param body of
        Refused st e \<Rightarrow> (db, [], Refused st e)
      | OK (i, env, orgID, actorID, actorEmail) \<Rightarrow>
          (let oldUser = adminUserSvc_GetUser db i orgID
           in case adminUserSvc_UpdateUser (wh_users h) db now i orgID (wf_update_input (we_Data env) actorID) of
                (db1, Inl _) \<Rightarrow> (db1, [], wfFail)
              | (db1, Inr user) \<Rightarrow>
                  (db1, [wf_audit (we_Data env) (we_WfInstanceID env) orgID actorID actorEmail ''update_user'' ''user'' (uuid_String (wh_uuid h) i)
                           (wfUserToJSON h oldUser) (wfUserToJSON h (Inr user))],
                   OK (uuid_String (wh_uuid h) i))))"

definition handleWfDelete ::
  "wf_handler \<Rightarrow> db \<Rightarrow> time \<Rightarrow> string \<Rightarrow> wfEnvelope option \<Rightarrow> db \<times> LogInput list \<times> string response" where
  "handleWfDelete h db now param body =
     (case wf_open h param body of
        Refused st e \<Rightarrow> (db, [], Refused st e)
      | OK (i, env, orgID, actorID, actorEmail) \<Rightarrow>
          (let oldUser = adminUserSvc_GetUser db i orgID
           in case adminUserSvc_DeleteUser db now i orgID of
                (db1, Inl _) \<Rightarrow> (db1, [], wfFail)
              | (db1, Inr _) \<Rightarrow>
                  (db1, [wf_audit (we_Data env) (we_WfInstanceID env) orgID actorID actorEmail ''delete_user'' ''user'' (uuid_String (wh_uuid h) i)
                           (wfUserToJSON h oldUser) None],
                   OK (uuid_String (wh_uuid h) i))))"

definition statusChange ::
  "wf_handler \<Rightarrow> string \<Rightarrow> (db \<Rightarrow> uuid \<Rightarrow> uuid \<Rightarrow> db \<times> unit result) \<Rightarrow> db \<Rightarrow> string \<Rightarrow> wfEnvelope option \<Rightarrow> db \<times> LogInput list \<times> string response" where
  "statusChange h action fn db param body =
     (case wf_open h param body of
        Refused st e \<Rightarrow> (db, [], Refused st e)
      | OK (i, env, orgID, actorID, actorEmail) \<Rightarrow>
          (let oldUser = adminUserSvc_GetUser db i orgID
           in case fn db i orgID of
                (db1, Inl _) \<Rightarrow> (db1, [], wfFail)
              | (db1, Inr _) \<Rightarrow>
                  (let newUser = adminUserSvc_GetUser db1 i orgID
                   in (db1, [wf_audit (we_Data env) (we_WfInstanceID env) orgID actorID actorEmail action ''user'' (uuid_String (wh_uuid h) i)
                              (wfUserToJSON h oldUser) (wfUserToJSON h newUser)],
                       OK (uuid_String (wh_uuid h) i)))))"

definition handleWfLock :: "wf_handler \<Rightarrow> db \<Rightarrow> time \<Rightarrow> string \<Rightarrow> wfEnvelope option \<Rightarrow> db \<times> LogInput list \<times> string response" where
  "handleWfLock h db now param body =
     statusChange h ''lock_user'' (\<lambda>db i orgID. adminUserSvc_LockUser (wh_users h) db now i orgID) db param body"

definition handleWfUnlock :: "wf_handler \<Rightarrow> db \<Rightarrow> time \<Rightarrow> string \<Rightarrow> wfEnvelope option \<Rightarrow> db \<times> LogInput list \<times> string response" where
  "handleWfUnlock h db now param body =
     statusChange h ''unlock_user'' (\<lambda>db i orgID. adminUserSvc_UnlockUser (wh_users h) db now i orgID) db param body"

section \<open>user.go: roles and branches of a user\<close>

text \<open>\<open>code_name\<close>: id, code and name of the rows of the organization.\<close>

definition idLabels :: "uuid_pkg \<Rightarrow> db \<Rightarrow> (uuid \<times> string \<times> string) list \<Rightarrow> (string \<times> string) list" where
  "idLabels U db code_name =
     (if db_down db then []
      else fold (\<lambda>(i, code, name) m. AList.update (uuid_String U i)
        (let l1 = (if code = [] then name else code) in if l1 = [] then uuid_String U i else l1) m) code_name [])"

definition desired_roles :: "uuid_pkg \<Rightarrow> JSON \<Rightarrow> (uuid \<times> bool) list" where
  "desired_roles U data = fold (\<lambda>rm m. case uuid_Parse U (dataStr rm ''role_id'') of None \<Rightarrow> m | Some rid \<Rightarrow> AList.update rid True m)
     (dataMaps data ''roles'') []"

definition current_roles :: "UserRole list \<Rightarrow> (uuid \<times> bool) list" where
  "current_roles urs = fold (\<lambda>ur m. if ur_RevokedAt ur = None \<and> ur_BranchID ur = None then AList.update (ur_RoleID ur) True m else m) urs []"

fun revoke_each :: "uuid_pkg \<Rightarrow> db \<Rightarrow> time \<Rightarrow> uuid \<Rightarrow> uuid \<Rightarrow> uuid \<Rightarrow> uuid list \<Rightarrow> db \<times> unit result" where
  "revoke_each U db now userID orgID actorID [] = (db, Inr ())"
| "revoke_each U db now userID orgID actorID (rid # rids) =
     (case adminUserRoleSvc_RevokeRole U db now userID rid orgID actorID of
        (db1, Inl e) \<Rightarrow> (db1, Inl e)
      | (db1, Inr _) \<Rightarrow> revoke_each U db1 now userID orgID actorID rids)"

fun grant_each :: "uuid_pkg \<Rightarrow> db \<Rightarrow> time \<Rightarrow> (nat \<Rightarrow> uuid) \<Rightarrow> uuid \<Rightarrow> uuid \<Rightarrow> uuid \<Rightarrow> uuid list \<Rightarrow> db \<times> unit result" where
  "grant_each U db now ids userID orgID actorID [] = (db, Inr ())"
| "grant_each U db now ids userID orgID actorID (rid # rids) =
     (case adminUserRoleSvc_AssignRole U db now (ids 0) userID rid orgID None actorID of
        (db1, Inl e) \<Rightarrow> (db1, Inl e)
      | (db1, Inr _) \<Rightarrow> grant_each U db1 now (ids \<circ> Suc) userID orgID actorID rids)"

definition handleWfSetRoles ::
  "wf_handler \<Rightarrow> db \<Rightarrow> time \<Rightarrow> (nat \<Rightarrow> uuid) \<Rightarrow> string \<Rightarrow> wfEnvelope option \<Rightarrow> db \<times> LogInput list \<times> string response" where
  "handleWfSetRoles h db now ids param body =
     (case wf_open h param body of
        Refused st e \<Rightarrow> (db, [], Refused st e)
      | OK (userID, env, orgID, actorID, actorEmail) \<Rightarrow>
          (let U = wh_uuid h; desired = desired_roles U (we_Data env)
           in case adminUserRoleSvc_GetUserRoles U db userID of
                Inl _ \<Rightarrow> (db, [], wfFail)
              | Inr current \<Rightarrow>
                (let currentSet = current_roles current
                 in case revoke_each U db now userID orgID actorID (filter (\<lambda>rid. map_of desired rid \<noteq> Some True) (map fst currentSet)) of
                      (db1, Inl _) \<Rightarrow> (db1, [], wfFail)
                    | (db1, Inr _) \<Rightarrow>
                      (case grant_each U db1 now ids userID orgID actorID (filter (\<lambda>rid. map_of currentSet rid \<noteq> Some True) (map fst desired)) of
                        (db2, Inl _) \<Rightarrow> (db2, [], wfFail)
                      | (db2, Inr _) \<Rightarrow>
                        (let labels = idLabels U db2 (map (\<lambda>r. (ro_ID r, ro_Code r, ro_Name r)) (filter (\<lambda>r. ro_OrgID r = orgID) (t_roles db2)))
                         in (db2, [wf_audit (we_Data env) (we_WfInstanceID env) orgID actorID actorEmail ''set_roles'' ''user_role'' (uuid_String U userID)
                               (Some [(''roles'', json_strings (mapToLabels (uuidSetKeys U currentSet) labels))])
                               (Some [(''roles'', json_strings (mapToLabels (uuidSetKeys U desired) labels))])],
                             OK (uuid_String U userID)))))))"

definition desired_branches :: "uuid_pkg \<Rightarrow> uuid \<Rightarrow> JSON \<Rightarrow> (uuid \<times> bool) list" where
  "desired_branches U primaryID data =
     fold (\<lambda>bm m. case uuid_Parse U (dataStr bm ''branch_id'') of
         None \<Rightarrow> m | Some bid \<Rightarrow> if map_of m bid = None then AList.update bid False m else m)
       (dataMaps data ''branches'') [(primaryID, True)]"

text \<open>The statements of the transaction.\<close>

definition sb_clear :: "uuid \<Rightarrow> db \<Rightarrow> db" where
  "sb_clear userID db = db\<lparr>t_user_branch_assignments := sql_update (\<lambda>a. uba_UserID a = userID \<and> uba_RevokedAt a = None)
     (\<lambda>a. a\<lparr>uba_IsPrimary := False\<rparr>) (t_user_branch_assignments db)\<rparr>"

definition sb_active :: "uuid \<Rightarrow> db \<Rightarrow> uuid list" where
  "sb_active userID db = map uba_BranchID (filter (\<lambda>a. uba_UserID a = userID \<and> uba_RevokedAt a = None) (t_user_branch_assignments db))"

definition sb_revoke :: "time \<Rightarrow> uuid \<Rightarrow> uuid \<Rightarrow> uuid \<Rightarrow> db \<Rightarrow> db" where
  "sb_revoke now userID actorID bid db = db\<lparr>t_user_branch_assignments :=
     sql_update (\<lambda>a. uba_UserID a = userID \<and> uba_BranchID a = bid \<and> uba_RevokedAt a = None)
       (\<lambda>a. a\<lparr>uba_RevokedAt := Some (pg_ts now), uba_RevokedBy := Some actorID\<rparr>) (t_user_branch_assignments db)\<rparr>"

definition sb_upsert :: "time \<Rightarrow> uuid \<Rightarrow> uuid \<Rightarrow> uuid \<Rightarrow> uuid \<Rightarrow> uuid \<Rightarrow> db \<Rightarrow> db result" where
  "sb_upsert now newID orgID userID actorID bid db =
     (if \<exists>a \<in> set (t_user_branch_assignments db). uba_UserID a = userID \<and> uba_BranchID a = bid
      then Inr (db\<lparr>t_user_branch_assignments := sql_update (\<lambda>a. uba_UserID a = userID \<and> uba_BranchID a = bid)
         (\<lambda>a. a\<lparr>uba_IsPrimary := False, uba_RevokedAt := None, uba_RevokedBy := None, uba_AssignedBy := actorID, uba_AssignedAt := pg_ts now\<rparr>)
         (t_user_branch_assignments db)\<rparr>)
      else if newID \<in> uba_ID ` set (t_user_branch_assignments db) then Inl pg_unique
      else if orgID \<notin> set (t_organizations db) \<or> userID \<notin> u_ID ` set (t_users db) \<or> bid \<notin> b_ID ` set (t_branches db) then Inl pg_fk
      else Inr (db\<lparr>t_user_branch_assignments := t_user_branch_assignments db @
         [\<lparr>uba_ID = newID, uba_UserID = userID, uba_BranchID = bid, uba_BranchCode = [], uba_BranchName = [], uba_OrgID = orgID,
           uba_Role = [], uba_IsPrimary = False, uba_AssignedBy = actorID, uba_AssignedAt = pg_ts now, uba_RevokedAt = None,
           uba_RevokedBy = None\<rparr>]\<rparr>))"

fun sb_upserts :: "time \<Rightarrow> (nat \<Rightarrow> uuid) \<Rightarrow> uuid \<Rightarrow> uuid \<Rightarrow> uuid \<Rightarrow> uuid list \<Rightarrow> db \<Rightarrow> db result" where
  "sb_upserts now ids orgID userID actorID [] db = Inr db"
| "sb_upserts now ids orgID userID actorID (bid # bids) db =
     (case sb_upsert now (ids 0) orgID userID actorID bid db of
        Inl e \<Rightarrow> Inl e | Inr db1 \<Rightarrow> sb_upserts now (ids \<circ> Suc) orgID userID actorID bids db1)"

definition sb_primary :: "uuid \<Rightarrow> uuid \<Rightarrow> db \<Rightarrow> db" where
  "sb_primary userID primaryID db = db\<lparr>t_user_branch_assignments :=
     sql_update (\<lambda>a. uba_UserID a = userID \<and> uba_BranchID a = primaryID \<and> uba_RevokedAt a = None)
       (\<lambda>a. a\<lparr>uba_IsPrimary := True\<rparr>) (t_user_branch_assignments db)\<rparr>"

text \<open>The transaction up to the commit: the new tables and the branches that were active.\<close>

definition set_branches_tx :: "db \<Rightarrow> time \<Rightarrow> (nat \<Rightarrow> uuid) \<Rightarrow> uuid \<Rightarrow> uuid \<Rightarrow> uuid \<Rightarrow> uuid \<Rightarrow> (uuid \<times> bool) list \<Rightarrow> db result" where
  "set_branches_tx db now ids orgID userID actorID primaryID desired =
     (if db_down db then Inl pg_conn_error
      else (let db1 = sb_clear userID db;
                db2 = fold (sb_revoke now userID actorID) (filter (\<lambda>bid. map_of desired bid = None) (sb_active userID db1)) db1
            in case sb_upserts now ids orgID userID actorID (map fst desired) db2 of
                 Inl e \<Rightarrow> Inl e
               | Inr db3 \<Rightarrow> Inr (sb_primary userID primaryID db3)))"

definition handleWfSetBranches ::
  "wf_handler \<Rightarrow> db \<Rightarrow> time \<Rightarrow> (nat \<Rightarrow> uuid) \<Rightarrow> string \<Rightarrow> wfEnvelope option \<Rightarrow> db \<times> LogInput list \<times> string response" where
  "handleWfSetBranches h db now ids param body =
     (case wf_open h param body of
        Refused st e \<Rightarrow> (db, [], Refused st e)
      | OK (userID, env, orgID, actorID, actorEmail) \<Rightarrow>
          (let U = wh_uuid h; primaryStr = dataStr (we_Data env) ''primary_branch_id''
           in case uuid_Parse U primaryStr of
                None \<Rightarrow> (db, [], Refused 400 ''primary_branch_id required'')
              | Some primaryID \<Rightarrow>
                (let desired = desired_branches U primaryID (we_Data env)
                 in case set_branches_tx db now ids orgID userID actorID primaryID desired of
                      Inl _ \<Rightarrow> (db, [], wfFail)
                    | Inr db' \<Rightarrow>
                      (let labels = idLabels U db' (map (\<lambda>b. (b_ID b, b_BranchCode b, b_Name b)) (filter (\<lambda>b. b_OrgID b = orgID) (t_branches db')))
                       in (db', [wf_audit (we_Data env) (we_WfInstanceID env) orgID actorID actorEmail ''set_branches'' ''user_branch'' (uuid_String U userID)
                             (Some [(''branches'', json_strings (mapToLabels (uuidSliceStr U (sb_active userID db)) labels))])
                             (Some [(''primary_branch'', AnyString (hd (mapToLabels [primaryStr] labels))),
                                    (''branches'', json_strings (mapToLabels (uuidSetKeys U desired) labels))])],
                           OK (uuid_String U userID))))))"

section \<open>role.go\<close>

definition permLabel :: "uuid_pkg \<Rightarrow> Permission \<Rightarrow> string" where
  "permLabel U p = (if pe_Code p \<noteq> [] then pe_Code p else if pe_Name p \<noteq> [] then pe_Name p else uuid_String U (pe_ID p))"

definition roleToJSON :: "wf_handler \<Rightarrow> Role result \<Rightarrow> JSON option" where
  "roleToJSON h x =
     (case x of
        Inl _ \<Rightarrow> None
      | Inr r \<Rightarrow> Some [(''id'', AnyString (uuid_String (wh_uuid h) (ro_ID r))), (''code'', AnyString (ro_Code r)),
          (''name'', AnyString (ro_Name r)), (''description'', AnyString (ro_Description r)), (''is_default'', AnyBool (ro_IsDefault r)),
          (''created_at'', AnyString (Format_RFC3339 (wh_zone h (ro_CreatedAt r)) (ro_CreatedAt r)))])"

definition permissionIDsFromData :: "uuid_pkg \<Rightarrow> JSON \<Rightarrow> uuid list" where
  "permissionIDsFromData U data = List.map_filter (\<lambda>pm. uuid_Parse U (dataStr pm ''permission_id'')) (dataMaps data ''permissions'')"

definition role_handleWfCreate ::
  "wf_handler \<Rightarrow> db \<Rightarrow> time \<Rightarrow> uuid \<Rightarrow> wfEnvelope option \<Rightarrow> db \<times> LogInput list \<times> string response" where
  "role_handleWfCreate h db now newID body =
     (case bindWfEnvelope (wh_uuid h) body of
        Refused st e \<Rightarrow> (db, [], Refused st e)
      | OK (env, orgID, actorID, actorEmail) \<Rightarrow>
          (let U = wh_uuid h; data = we_Data env
           in case adminRoleSvc_CreateRole db now newID orgID \<lparr>cri_Code = dataStr data ''code'', cri_Name = dataStr data ''name'',
                     cri_Description = dataStr data ''description'', cri_IsDefault = dataBool data ''is_default''\<rparr> of
                (db1, Inl _) \<Rightarrow> (db1, [], wfFail)
              | (db1, Inr role) \<Rightarrow>
                (case (let perms = permissionIDsFromData U data
                       in if length perms > 0 then AssignPermissions db1 (ro_ID role) perms else (db1, Inr ())) of
                  (db2, Inl _) \<Rightarrow> (db2, [], wfFail)
                | (db2, Inr _) \<Rightarrow>
                    (db2, [wf_audit data (we_WfInstanceID env) orgID actorID actorEmail ''create_role'' ''role'' (uuid_String U (ro_ID role))
                             None (roleToJSON h (Inr role))],
                     OK (uuid_String U (ro_ID role))))))"

definition role_handleWfUpdate ::
  "wf_handler \<Rightarrow> db \<Rightarrow> time \<Rightarrow> string \<Rightarrow> wfEnvelope option \<Rightarrow> db \<times> LogInput list \<times> string response" where
  "role_handleWfUpdate h db now param body =
     (case wf_open h param body of
        Refused st e \<Rightarrow> (db, [], Refused st e)
      | OK (i, env, orgID, actorID, actorEmail) \<Rightarrow>
          (let oldRole = adminRoleSvc_GetRole db i orgID
           in case adminRoleSvc_UpdateRole db now i orgID
                     \<lparr>uri_Name = dataStrPtr (we_Data env) ''name'', uri_Description = dataStrPtr (we_Data env) ''description''\<rparr> of
                (db1, Inl _) \<Rightarrow> (db1, [], wfFail)
              | (db1, Inr role) \<Rightarrow>
                  (db1, [wf_audit (we_Data env) (we_WfInstanceID env) orgID actorID actorEmail ''update_role'' ''role'' (uuid_String (wh_uuid h) i)
                           (roleToJSON h oldRole) (roleToJSON h (Inr role))],
                   OK (uuid_String (wh_uuid h) i))))"

definition role_handleWfDelete ::
  "wf_handler \<Rightarrow> db \<Rightarrow> string \<Rightarrow> wfEnvelope option \<Rightarrow> db \<times> LogInput list \<times> string response" where
  "role_handleWfDelete h db param body =
     (case wf_open h param body of
        Refused st e \<Rightarrow> (db, [], Refused st e)
      | OK (i, env, orgID, actorID, actorEmail) \<Rightarrow>
          (let oldRole = adminRoleSvc_GetRole db i orgID
           in case adminRoleSvc_DeleteRole db i orgID of
                (db1, Inl _) \<Rightarrow> (db1, [], wfFail)
              | (db1, Inr _) \<Rightarrow>
                  (db1, [wf_audit (we_Data env) (we_WfInstanceID env) orgID actorID actorEmail ''delete_role'' ''role'' (uuid_String (wh_uuid h) i)
                           (roleToJSON h oldRole) None],
                   OK (uuid_String (wh_uuid h) i))))"

definition handleWfSetPermissions ::
  "wf_handler \<Rightarrow> db \<Rightarrow> string \<Rightarrow> wfEnvelope option \<Rightarrow> db \<times> LogInput list \<times> string response" where
  "handleWfSetPermissions h db param body =
     (case wf_open h param body of
        Refused st e \<Rightarrow> (db, [], Refused st e)
      | OK (i, env, orgID, actorID, actorEmail) \<Rightarrow>
          (let U = wh_uuid h;
               beforePerms = (case adminRoleSvc_GetPermissions db i of Inl _ \<Rightarrow> [] | Inr cur \<Rightarrow> map (permLabel U) cur);
               perms = permissionIDsFromData U (we_Data env)
           in case AssignPermissions db i perms of
                (db1, Inl _) \<Rightarrow> (db1, [], wfFail)
              | (db1, Inr _) \<Rightarrow>
                (let permLabels = (case adminRoleSvc_ListPermissions db1 of Inl _ \<Rightarrow> []
                       | Inr al \<Rightarrow> fold (\<lambda>p m. AList.update (uuid_String U (pe_ID p)) (permLabel U p) m) al []);
                     afterPerms = map (\<lambda>p. case map_of permLabels (uuid_String U p) of Some l \<Rightarrow> l | None \<Rightarrow> uuid_String U p) perms
                 in (db1, [wf_audit (we_Data env) (we_WfInstanceID env) orgID actorID actorEmail ''set_permissions'' ''role_permission'' (uuid_String U i)
                          (Some [(''permissions'', json_strings beforePerms)]) (Some [(''permissions'', json_strings afterPerms)])],
                     OK (uuid_String U i)))))"

section \<open>oauth2\_client.go\<close>

definition wfClientToJSON :: "uuid_pkg \<Rightarrow> Client result \<Rightarrow> JSON option" where
  "wfClientToJSON U x =
     (case x of
        Inl _ \<Rightarrow> None
      | Inr c \<Rightarrow> Some [(''id'', AnyString (uuid_String U (cl_ID c))), (''client_id'', AnyString (cl_ClientID c)),
          (''name'', AnyString (cl_Name c)), (''client_type'', AnyString (cl_ClientType c)), (''is_active'', AnyBool (cl_IsActive c))])"

definition wf_client_input :: "JSON \<Rightarrow> CreateClientInput" where
  "wf_client_input data =
     \<lparr>cci_ClientID = [], cci_Name = dataStr data ''name'', cci_Description = dataStr data ''description'',
      cci_ClientType = dataStr data ''client_type'', cci_TokenEndpointAuthMethod = dataStr data ''token_endpoint_auth_method'',
      cci_AllowedScopes = dataStrSlice data ''allowed_scopes'', cci_AllowedRedirectURIs = dataStrSlice data ''allowed_redirect_uris'',
      cci_AllowedOrigins = dataStrSlice data ''allowed_origins'', cci_TokenExpiration = dataInt data ''token_expiration'',
      cci_RefreshTokenExpiration = dataInt data ''refresh_token_expiration'', cci_AllowMultipleTokens = dataBool data ''allow_multiple_tokens'',
      cci_SkipConsentScreen = dataBool data ''skip_consent_screen'', cci_ClientSecret = dataStr data ''client_secret''\<rparr>"

definition wf_client_update :: "JSON \<Rightarrow> UpdateClientInput" where
  "wf_client_update data =
     \<lparr>uci_Name = Some (dataStr data ''name''), uci_Description = Some (dataStr data ''description''),
      uci_AllowedScopes = Some (dataStrSlice data ''allowed_scopes''), uci_AllowedRedirectURIs = Some (dataStrSlice data ''allowed_redirect_uris''),
      uci_AllowedOrigins = Some (dataStrSlice data ''allowed_origins''), uci_TokenExpiration = Some (dataInt data ''token_expiration''),
      uci_RefreshTokenExpiration = Some (dataInt data ''refresh_token_expiration''),
      uci_AllowMultipleTokens = Some (dataBool data ''allow_multiple_tokens''),
      uci_SkipConsentScreen = Some (dataBool data ''skip_consent_screen''), uci_IsActive = Some (dataBool data ''is_active'')\<rparr>"

definition client_handleWfCreate ::
  "wf_handler \<Rightarrow> db \<Rightarrow> time \<Rightarrow> uuid \<Rightarrow> wfEnvelope option \<Rightarrow> db \<times> LogInput list \<times> string response" where
  "client_handleWfCreate h db now newID body =
     (case bindWfEnvelope (wh_uuid h) body of
        Refused st e \<Rightarrow> (db, [], Refused st e)
      | OK (env, orgID, actorID, actorEmail) \<Rightarrow>
          (case adminOAuth2ClientSvc_CreateClient (wh_libs h) db now newID orgID (wf_client_input (we_Data env)) of
             (db1, Inl _) \<Rightarrow> (db1, [], wfFail)
           | (db1, Inr client) \<Rightarrow>
               (db1, [wf_audit (we_Data env) (we_WfInstanceID env) orgID actorID actorEmail ''create_client'' ''oauth2_client''
                        (uuid_String (wh_uuid h) (cl_ID client)) None (wfClientToJSON (wh_uuid h) (Inr client))],
                OK (uuid_String (wh_uuid h) (cl_ID client)))))"

definition client_handleWfUpdate ::
  "wf_handler \<Rightarrow> db \<Rightarrow> time \<Rightarrow> string \<Rightarrow> wfEnvelope option \<Rightarrow> db \<times> LogInput list \<times> string response" where
  "client_handleWfUpdate h db now param body =
     (case wf_open h param body of
        Refused st e \<Rightarrow> (db, [], Refused st e)
      | OK (i, env, orgID, actorID, actorEmail) \<Rightarrow>
          (let oldClient = adminOAuth2ClientSvc_GetClient db i
           in case adminOAuth2ClientSvc_UpdateClient db now i orgID (wf_client_update (we_Data env)) of
                (db1, Inl _) \<Rightarrow> (db1, [], wfFail)
              | (db1, Inr client) \<Rightarrow>
                  (db1, [wf_audit (we_Data env) (we_WfInstanceID env) orgID actorID actorEmail ''update_client'' ''oauth2_client''
                           (uuid_String (wh_uuid h) i) (wfClientToJSON (wh_uuid h) oldClient) (wfClientToJSON (wh_uuid h) (Inr client))],
                   OK (uuid_String (wh_uuid h) i))))"

definition client_handleWfDelete ::
  "wf_handler \<Rightarrow> db \<Rightarrow> string \<Rightarrow> wfEnvelope option \<Rightarrow> db \<times> LogInput list \<times> string response" where
  "client_handleWfDelete h db param body =
     (case wf_open h param body of
        Refused st e \<Rightarrow> (db, [], Refused st e)
      | OK (i, env, orgID, actorID, actorEmail) \<Rightarrow>
          (let oldClient = adminOAuth2ClientSvc_GetClient db i
           in case adminOAuth2ClientSvc_DeleteClient db i of
                (db1, Inl _) \<Rightarrow> (db1, [], wfFail)
              | (db1, Inr _) \<Rightarrow>
                  (db1, [wf_audit (we_Data env) (we_WfInstanceID env) orgID actorID actorEmail ''delete_client'' ''oauth2_client''
                           (uuid_String (wh_uuid h) i) (wfClientToJSON (wh_uuid h) oldClient) None],
                   OK (uuid_String (wh_uuid h) i))))"

section \<open>branch\_default\_roles.go\<close>

text \<open>
  The column \<^verbatim>\<open>created_at\<close> of \<^verbatim>\<open>branch_default_roles\<close> is NOT NULL without a default, and the
  insert gives it no value, so Postgres refuses the row before it looks for a conflict.
\<close>

definition bdr_clear :: "uuid \<Rightarrow> db \<Rightarrow> db" where
  "bdr_clear branchID db = db\<lparr>t_branch_default_roles := filter (\<lambda>r. fst r \<noteq> branchID) (t_branch_default_roles db)\<rparr>"

definition bdr_insert :: "uuid \<Rightarrow> uuid \<Rightarrow> db \<Rightarrow> db result" where
  "bdr_insert branchID roleID db = Inl pg_not_null"

fun bdr_inserts :: "uuid_pkg \<Rightarrow> uuid \<Rightarrow> string list \<Rightarrow> db \<Rightarrow> db result" where
  "bdr_inserts U branchID [] db = Inr db"
| "bdr_inserts U branchID (ridStr # ridStrs) db =
     (case uuid_Parse U ridStr of
        None \<Rightarrow> bdr_inserts U branchID ridStrs db
      | Some rid \<Rightarrow> (case bdr_insert branchID rid db of Inl e \<Rightarrow> Inl e | Inr db1 \<Rightarrow> bdr_inserts U branchID ridStrs db1))"

definition handleWfSetDefaultRoles ::
  "wf_handler \<Rightarrow> db \<Rightarrow> string \<Rightarrow> wfEnvelope option \<Rightarrow> db \<times> LogInput list \<times> string response" where
  "handleWfSetDefaultRoles h db param body =
     (case wf_open h param body of
        Refused st e \<Rightarrow> (db, [], Refused st e)
      | OK (branchID, env, orgID, actorID, actorEmail) \<Rightarrow>
          (let U = wh_uuid h; roleIDs = dataStrSlice (we_Data env) ''role_ids''
           in if db_down db then (db, [], wfFail)
              else (case bdr_inserts U branchID roleIDs (bdr_clear branchID db) of
                  Inl _ \<Rightarrow> (db, [], wfFail)
                | Inr db' \<Rightarrow>
                    (db', [LogInput0\<lparr>li_OrgID := orgID, li_ActorID := actorID, li_ActorEmail := actorEmail,
                             li_Action := ''set_branch_default_roles'', li_ResourceType := ''branch_default_roles'',
                             li_ResourceID := uuid_String U branchID, li_NewValue := Some [(''role_ids'', json_strings roleIDs)]\<rparr>],
                     OK (uuid_String U branchID)))))"

end
