(* ===== verification/WfProps.thy ===== *)
theory WfProps
  imports WfCallback AuthRest
begin

text \<open>
  What the workflow callbacks establish: \<^verbatim>\<open>wf-set-branches\<close> and \<^verbatim>\<open>wf-set-roles\<close> refine the
  replacement of a whole set.
\<close>

section \<open>Branches of a user\<close>

text \<open>The abstract state: the primary flags of the active assignments of a user to a branch.\<close>

fun flags :: "UserBranchAssignment list \<Rightarrow> uuid \<Rightarrow> uuid \<Rightarrow> bool set" where
  "flags [] u b = {}"
| "flags (a # as) u b = (if uba_UserID a = u \<and> uba_BranchID a = b \<and> uba_RevokedAt a = None then insert (uba_IsPrimary a) (flags as u b) else flags as u b)"

abbreviation assigned :: "db \<Rightarrow> uuid \<Rightarrow> uuid \<Rightarrow> bool set" where
  "assigned db \<equiv> flags (t_user_branch_assignments db)"

text \<open>The rows of the other users.\<close>

definition others :: "uuid \<Rightarrow> UserBranchAssignment list \<Rightarrow> UserBranchAssignment list" where
  "others u rows = filter (\<lambda>a. uba_UserID a \<noteq> u) rows"

text \<open>No revoked assignment of the user is flagged primary.\<close>

definition flags_ok :: "uuid \<Rightarrow> UserBranchAssignment list \<Rightarrow> bool" where
  "flags_ok u rows = list_all (\<lambda>a. uba_UserID a = u \<and> uba_RevokedAt a \<noteq> None \<longrightarrow> \<not> uba_IsPrimary a) rows"

lemma sql_update_simps [simp]: "sql_update P g [] = []" "sql_update P g (a # as) = (if P a then g a else a) # sql_update P g as"
  by (simp_all add: sql_update_def)

lemma list_simps [simp]: "others u [] = []" "others u (a # as) = (if uba_UserID a \<noteq> u then a # others u as else others u as)"
  "flags_ok u []" "flags_ok u (a # as) \<longleftrightarrow> (uba_UserID a = u \<and> uba_RevokedAt a \<noteq> None \<longrightarrow> \<not> uba_IsPrimary a) \<and> flags_ok u as"
  by (simp_all add: others_def flags_ok_def)

text \<open>One statement on the rows: what it does to the abstract state and that it leaves other users alone.\<close>

lemma clear_rows:
  "flags (sql_update (\<lambda>a. uba_UserID a = u \<and> uba_RevokedAt a = None) (\<lambda>a. a\<lparr>uba_IsPrimary := False\<rparr>) rows) u b =
     (if flags rows u b = {} then {} else {False})"
  "others u (sql_update (\<lambda>a. uba_UserID a = u \<and> uba_RevokedAt a = None) (\<lambda>a. a\<lparr>uba_IsPrimary := False\<rparr>) rows) = others u rows"
  "flags_ok u rows \<Longrightarrow> list_all (\<lambda>a. uba_UserID a = u \<longrightarrow> \<not> uba_IsPrimary a)
     (sql_update (\<lambda>a. uba_UserID a = u \<and> uba_RevokedAt a = None) (\<lambda>a. a\<lparr>uba_IsPrimary := False\<rparr>) rows)"
  by (induction rows) auto

lemma revoke_rows:
  "flags (sql_update (\<lambda>a. uba_UserID a = u \<and> uba_BranchID a = bid \<and> uba_RevokedAt a = None)
     (\<lambda>a. a\<lparr>uba_RevokedAt := Some t, uba_RevokedBy := x\<rparr>) rows) u b = (if b = bid then {} else flags rows u b)"
  "others u (sql_update (\<lambda>a. uba_UserID a = u \<and> uba_BranchID a = bid \<and> uba_RevokedAt a = None)
     (\<lambda>a. a\<lparr>uba_RevokedAt := Some t, uba_RevokedBy := x\<rparr>) rows) = others u rows"
  by (induction rows) auto

lemma upsert_rows:
  "\<exists>a \<in> set rows. uba_UserID a = u \<and> uba_BranchID a = bid \<Longrightarrow>
   flags (sql_update (\<lambda>a. uba_UserID a = u \<and> uba_BranchID a = bid) (\<lambda>a. a\<lparr>uba_IsPrimary := False, uba_RevokedAt := None,
     uba_RevokedBy := None, uba_AssignedBy := x, uba_AssignedAt := t\<rparr>) rows) u b = (if b = bid then {False} else flags rows u b)"
  "others u (sql_update (\<lambda>a. uba_UserID a = u \<and> uba_BranchID a = bid) (\<lambda>a. a\<lparr>uba_IsPrimary := False, uba_RevokedAt := None,
     uba_RevokedBy := None, uba_AssignedBy := x, uba_AssignedAt := t\<rparr>) rows) = others u rows"
proof -
  have f: "flags (sql_update (\<lambda>a. uba_UserID a = u \<and> uba_BranchID a = bid) (\<lambda>a. a\<lparr>uba_IsPrimary := False, uba_RevokedAt := None,
     uba_RevokedBy := None, uba_AssignedBy := x, uba_AssignedAt := t\<rparr>) rows) u b =
     (if b = bid then (if \<exists>a \<in> set rows. uba_UserID a = u \<and> uba_BranchID a = bid then {False} else {}) else flags rows u b)"
  proof (induction rows)
    case (Cons a rows)
    then show ?case by (cases "uba_UserID a = u"; cases "uba_BranchID a = bid"; cases "b = bid") (simp_all split: if_splits)
  qed simp
  then show "\<exists>a \<in> set rows. uba_UserID a = u \<and> uba_BranchID a = bid \<Longrightarrow>
   flags (sql_update (\<lambda>a. uba_UserID a = u \<and> uba_BranchID a = bid) (\<lambda>a. a\<lparr>uba_IsPrimary := False, uba_RevokedAt := None,
     uba_RevokedBy := None, uba_AssignedBy := x, uba_AssignedAt := t\<rparr>) rows) u b = (if b = bid then {False} else flags rows u b)" by simp
qed (induction rows; auto)

lemma flags_append: "flags (xs @ ys) u b = flags xs u b \<union> flags ys u b"
  by (induction xs) auto

lemma flags_absent: "\<not> (\<exists>a \<in> set rows. uba_UserID a = u \<and> uba_BranchID a = bid) \<Longrightarrow> flags rows u bid = {}"
  by (induction rows) auto

lemma others_append: "others u (xs @ ys) = others u xs @ others u ys"
  by (simp add: others_def)

lemma primary_rows:
  "flags (sql_update (\<lambda>a. uba_UserID a = u \<and> uba_BranchID a = p \<and> uba_RevokedAt a = None) (\<lambda>a. a\<lparr>uba_IsPrimary := True\<rparr>) rows) u b =
     (if b = p \<and> flags rows u b \<noteq> {} then {True} else flags rows u b)"
  "others u (sql_update (\<lambda>a. uba_UserID a = u \<and> uba_BranchID a = p \<and> uba_RevokedAt a = None) (\<lambda>a. a\<lparr>uba_IsPrimary := True\<rparr>) rows) = others u rows"
proof (induction rows)
  case (Cons a rows)
  case 1
  show ?case using Cons.IH(1) by (cases "uba_UserID a = u"; cases "uba_BranchID a = p"; cases "uba_RevokedAt a"; cases "b = p") (simp_all split: if_splits)
  case 2
  show ?case using Cons.IH(2) by simp
qed simp_all

lemma set_sb_active: "set (sb_active u db) = {b. assigned db u b \<noteq> {}}"
proof -
  have "uba_BranchID ` {a \<in> set rows. uba_UserID a = u \<and> uba_RevokedAt a = None} = {b. flags rows u b \<noteq> {}}" for rows
    by (induction rows) auto
  then show ?thesis by (simp add: sb_active_def)
qed

text \<open>Every step writes only the assignments; \<open>none_primary\<close>: no row of the user is flagged.\<close>

definition only_assignments :: "db \<Rightarrow> db \<Rightarrow> bool" where
  "only_assignments db db' \<longleftrightarrow> db' = db\<lparr>t_user_branch_assignments := t_user_branch_assignments db'\<rparr>"

definition none_primary :: "uuid \<Rightarrow> UserBranchAssignment list \<Rightarrow> bool" where
  "none_primary u rows = list_all (\<lambda>a. uba_UserID a = u \<longrightarrow> \<not> uba_IsPrimary a) rows"

lemma only_assignments_trans: "only_assignments a b \<Longrightarrow> only_assignments b c \<Longrightarrow> only_assignments a c"
  unfolding only_assignments_def by (cases a; cases b; cases c) simp

lemma only_assignments_frame: "only_assignments db db' \<Longrightarrow> t_organizations db' = t_organizations db \<and> t_users db' = t_users db \<and>
    t_branches db' = t_branches db \<and> t_roles db' = t_roles db \<and> t_user_roles db' = t_user_roles db \<and> db_down db' = db_down db"
  unfolding only_assignments_def by (cases db; cases db') simp

lemma none_primary_update: "none_primary u rows \<Longrightarrow> (\<And>a. uba_UserID (g a) = uba_UserID a \<and> (uba_IsPrimary (g a) \<longrightarrow> uba_IsPrimary a)) \<Longrightarrow>
    none_primary u (sql_update P g rows)"
  by (induction rows) (auto simp: none_primary_def)

lemma revokes_law:
  "assigned (fold (sb_revoke now u act) bids db) u b = (if b \<in> set bids then {} else assigned db u b) \<and>
   others u (t_user_branch_assignments (fold (sb_revoke now u act) bids db)) = others u (t_user_branch_assignments db) \<and>
   (none_primary u (t_user_branch_assignments db) \<longrightarrow> none_primary u (t_user_branch_assignments (fold (sb_revoke now u act) bids db))) \<and>
   only_assignments db (fold (sb_revoke now u act) bids db)"
proof (induction bids arbitrary: db)
  case Nil
  then show ?case by (simp add: only_assignments_def)
next
  case (Cons bid bids)
  let ?db = "sb_revoke now u act bid db"
  have "assigned ?db u b = (if b = bid then {} else assigned db u b)" "others u (t_user_branch_assignments ?db) = others u (t_user_branch_assignments db)"
    by (simp_all add: sb_revoke_def revoke_rows)
  moreover have "none_primary u (t_user_branch_assignments db) \<longrightarrow> none_primary u (t_user_branch_assignments ?db)"
    by (auto simp: sb_revoke_def intro!: none_primary_update)
  moreover have "only_assignments db ?db" by (simp add: only_assignments_def sb_revoke_def)
  ultimately show ?case using Cons.IH [of ?db] only_assignments_trans by auto
qed

lemma sb_upsert_law:
  assumes "sb_upsert now i g u act bid db = Inr db'"
  shows "assigned db' u b = (if b = bid then {False} else assigned db u b)" "others u (t_user_branch_assignments db') = others u (t_user_branch_assignments db)"
    "none_primary u (t_user_branch_assignments db) \<Longrightarrow> none_primary u (t_user_branch_assignments db')" "only_assignments db db'"
proof -
  have "(assigned db' u b = (if b = bid then {False} else assigned db u b)) \<and> others u (t_user_branch_assignments db') = others u (t_user_branch_assignments db) \<and>
    (none_primary u (t_user_branch_assignments db) \<longrightarrow> none_primary u (t_user_branch_assignments db')) \<and> only_assignments db db'"
  proof (cases "\<exists>a \<in> set (t_user_branch_assignments db). uba_UserID a = u \<and> uba_BranchID a = bid")
    case True
    then have db': "db' = db\<lparr>t_user_branch_assignments := sql_update (\<lambda>a. uba_UserID a = u \<and> uba_BranchID a = bid)
         (\<lambda>a. a\<lparr>uba_IsPrimary := False, uba_RevokedAt := None, uba_RevokedBy := None, uba_AssignedBy := act, uba_AssignedAt := pg_ts now\<rparr>)
         (t_user_branch_assignments db)\<rparr>" using assms by (simp add: sb_upsert_def)
    show ?thesis using upsert_rows(1) [OF True] by (auto simp: db' upsert_rows(2) only_assignments_def intro!: none_primary_update)
  next
    case False
    then have db': "db' = db\<lparr>t_user_branch_assignments := t_user_branch_assignments db @
         [\<lparr>uba_ID = i, uba_UserID = u, uba_BranchID = bid, uba_BranchCode = [], uba_BranchName = [], uba_OrgID = g,
           uba_Role = [], uba_IsPrimary = False, uba_AssignedBy = act, uba_AssignedAt = pg_ts now, uba_RevokedAt = None,
           uba_RevokedBy = None\<rparr>]\<rparr>" using assms unfolding sb_upsert_def if_not_P [OF False] by (simp split: if_splits)
    show ?thesis using flags_absent [OF False] by (simp add: db' flags_append others_append only_assignments_def none_primary_def)
  qed
  then show "assigned db' u b = (if b = bid then {False} else assigned db u b)" "others u (t_user_branch_assignments db') = others u (t_user_branch_assignments db)"
    "none_primary u (t_user_branch_assignments db) \<Longrightarrow> none_primary u (t_user_branch_assignments db')" "only_assignments db db'" by blast+
qed

lemma sb_upserts_law:
  "sb_upserts now ids g u act bids db = Inr db' \<Longrightarrow>
   assigned db' u b = (if b \<in> set bids then {False} else assigned db u b) \<and>
   others u (t_user_branch_assignments db') = others u (t_user_branch_assignments db) \<and>
   (none_primary u (t_user_branch_assignments db) \<longrightarrow> none_primary u (t_user_branch_assignments db')) \<and> only_assignments db db'"
proof (induction bids arbitrary: ids db)
  case Nil
  then show ?case by (simp add: only_assignments_def)
next
  case (Cons bid bids)
  then obtain db1 where s: "sb_upsert now (ids 0) g u act bid db = Inr db1" "sb_upserts now (ids \<circ> Suc) g u act bids db1 = Inr db'"
    by (auto split: sum.splits)
  note IH = Cons.IH [OF s(2)] and one = sb_upsert_law [OF s(1)]
  show ?case using IH one(1) [of b] one(2,3) only_assignments_trans [OF one(4)] by auto
qed

text \<open>The first \<open>n\<close> ids drawn are distinct and unused.\<close>

definition fresh_ids :: "(nat \<Rightarrow> uuid) \<Rightarrow> nat \<Rightarrow> uuid set \<Rightarrow> bool" where
  "fresh_ids ids n used \<longleftrightarrow> inj_on ids {..<n} \<and> ids ` {..<n} \<inter> used = {}"

lemma fresh_ids_Suc:
  assumes "fresh_ids ids (Suc n) used"
  shows "ids 0 \<notin> used" "fresh_ids (ids \<circ> Suc) n (insert (ids 0) used)"
proof -
  have inj: "\<And>i j. i < Suc n \<Longrightarrow> j < Suc n \<Longrightarrow> ids i = ids j \<Longrightarrow> i = j" and new: "\<And>i. i < Suc n \<Longrightarrow> ids i \<notin> used"
    using assms by (auto simp: fresh_ids_def inj_on_def)
  show "ids 0 \<notin> used" by (rule new) simp
  have "ids 0 \<noteq> ids (Suc i)" if "i < n" for i using inj [of 0 "Suc i"] that by auto
  then show "fresh_ids (ids \<circ> Suc) n (insert (ids 0) used)"
    using inj [of "Suc i" "Suc j" for i j] new [of "Suc i" for i] by (auto simp: fresh_ids_def inj_on_def)
qed

lemma fresh_ids_mono: "fresh_ids ids n used \<Longrightarrow> m \<le> n \<Longrightarrow> used' \<subseteq> used \<Longrightarrow> fresh_ids ids m used'"
  unfolding fresh_ids_def by (meson Int_mono disjoint_iff inj_on_subset image_mono lessThan_subset_iff subsetD)

text \<open>The upserts succeed when user, organization and branches exist and the drawn ids are new.\<close>

lemma sb_upserts_ok:
  "g \<in> set (t_organizations db) \<Longrightarrow> u \<in> u_ID ` set (t_users db) \<Longrightarrow> set bids \<subseteq> b_ID ` set (t_branches db) \<Longrightarrow>
   fresh_ids ids (length bids) (uba_ID ` set (t_user_branch_assignments db)) \<Longrightarrow> \<exists>db'. sb_upserts now ids g u act bids db = Inr db'"
proof (induction bids arbitrary: ids db)
  case (Cons bid bids)
  have "fresh_ids ids (Suc (length bids)) (uba_ID ` set (t_user_branch_assignments db))" using Cons.prems(4) by simp
  note new = fresh_ids_Suc [OF this]
  then have "\<exists>db1. sb_upsert now (ids 0) g u act bid db = Inr db1" using Cons.prems(1-3) by (simp add: sb_upsert_def)
  then obtain db1 where s: "sb_upsert now (ids 0) g u act bid db = Inr db1" by blast
  have ids: "uba_ID ` set (t_user_branch_assignments db1) \<subseteq> insert (ids 0) (uba_ID ` set (t_user_branch_assignments db))"
    using s by (auto simp: sb_upsert_def set_sql_update split: if_splits)
  have same: "t_organizations db1 = t_organizations db" "t_users db1 = t_users db" "t_branches db1 = t_branches db"
    using only_assignments_frame [OF sb_upsert_law(4) [OF s]] by simp_all
  have "\<exists>db'. sb_upserts now (ids \<circ> Suc) g u act bids db1 = Inr db'"
    using Cons.prems(1-3) same fresh_ids_mono [OF new(2) order_refl ids] by (intro Cons.IH) (simp_all add: comp_def)
  then show ?case by (simp add: s)
qed simp

lemma desired_branches_keys:
  "fst ` set (desired_branches U p data) = insert p {b. \<exists>bm \<in> set (dataMaps data ''branches''). uuid_Parse U (dataStr bm ''branch_id'') = Some b}"
proof -
  have "fst ` set (fold (\<lambda>bm m. case uuid_Parse U (dataStr bm ''branch_id'') of
         None \<Rightarrow> m | Some bid \<Rightarrow> if map_of m bid = None then AList.update bid False m else m) bms m) =
      fst ` set m \<union> {b. \<exists>bm \<in> set bms. uuid_Parse U (dataStr bm ''branch_id'') = Some b}" for bms :: "JSON list" and m :: "(uuid \<times> bool) list"
  proof (induction bms arbitrary: m)
    case (Cons bm bms)
    then show ?case by (cases "uuid_Parse U (dataStr bm ''branch_id'')") (auto simp: dom_update map_of_eq_None_iff)
  qed simp
  then show ?thesis by (simp add: desired_branches_def)
qed

lemma length_alist_update: "length (AList.update k v m) \<le> Suc (length m)"
  by (induction m) auto

lemma length_fold: "(\<And>x m. length (f x m) \<le> Suc (length m)) \<Longrightarrow> length (fold f xs m) \<le> length m + length xs"
proof (induction xs arbitrary: m)
  case (Cons x xs)
  show ?case using Cons.IH [OF Cons.prems, of "f x m"] Cons.prems [of x m] by simp
qed simp

lemma desired_branches_length: "length (desired_branches U p data) \<le> Suc (length (dataMaps data ''branches''))"
  unfolding desired_branches_def by (rule order_trans [OF length_fold]) (auto intro: length_alist_update split: option.splits)

text \<open>The transaction as one update of the abstract state.\<close>

lemma set_branches_tx_law:
  assumes run: "set_branches_tx db now ids g u act p desired = Inr db'" and p: "p \<in> fst ` set desired"
  shows "assigned db' u b = (if b \<in> fst ` set desired then {b = p} else {})"
    and "others u (t_user_branch_assignments db') = others u (t_user_branch_assignments db)" and "only_assignments db db'"
    and "flags_ok u (t_user_branch_assignments db) \<Longrightarrow> \<forall>a \<in> set (t_user_branch_assignments db'). uba_UserID a = u \<and> uba_IsPrimary a \<longrightarrow> uba_BranchID a = p"
proof -
  let ?db1 = "sb_clear u db"
  let ?gone = "filter (\<lambda>bid. map_of desired bid = None) (sb_active u ?db1)"
  let ?db2 = "fold (sb_revoke now u act) ?gone ?db1"
  obtain db3 where up: "sb_upserts now ids g u act (map fst desired) ?db2 = Inr db3" and db': "db' = sb_primary u p db3"
    using run by (auto simp: set_branches_tx_def Let_def split: if_splits sum.splits)
  note l2 = revokes_law [of now u act ?gone ?db1] and l3 = sb_upserts_law [OF up]
  have c1: "assigned ?db1 u b = (if assigned db u b = {} then {} else {False})" by (simp add: sb_clear_def clear_rows)
  have "b \<in> set ?gone \<longleftrightarrow> b \<notin> fst ` set desired \<and> assigned ?db1 u b \<noteq> {}" by (auto simp: set_sb_active map_of_eq_None_iff)
  then have "assigned db3 u b = (if b \<in> fst ` set desired then {False} else {})" using l2 [of b] l3 [of b] by auto
  then show "assigned db' u b = (if b \<in> fst ` set desired then {b = p} else {})"
    using p by (auto simp: db' sb_primary_def primary_rows)
  show "others u (t_user_branch_assignments db') = others u (t_user_branch_assignments db)"
    using l2 l3 by (simp add: db' sb_primary_def primary_rows sb_clear_def clear_rows)
  have "only_assignments db ?db1" by (simp add: only_assignments_def sb_clear_def)
  moreover have "only_assignments db3 db'" by (simp add: only_assignments_def db' sb_primary_def)
  ultimately show "only_assignments db db'" using l2 l3 by (meson only_assignments_trans)
  assume "flags_ok u (t_user_branch_assignments db)"
  then have "none_primary u (t_user_branch_assignments ?db1)" using clear_rows(3) by (simp add: none_primary_def sb_clear_def)
  then have "none_primary u (t_user_branch_assignments db3)" using l2 l3 by blast
  moreover have "none_primary u rows \<Longrightarrow> list_all (\<lambda>a. uba_UserID a = u \<and> uba_IsPrimary a \<longrightarrow> uba_BranchID a = p)
      (sql_update (\<lambda>a. uba_UserID a = u \<and> uba_BranchID a = p \<and> uba_RevokedAt a = None) (\<lambda>a. a\<lparr>uba_IsPrimary := True\<rparr>) rows)" for rows
    by (induction rows) (auto simp: none_primary_def)
  ultimately show "\<forall>a \<in> set (t_user_branch_assignments db'). uba_UserID a = u \<and> uba_IsPrimary a \<longrightarrow> uba_BranchID a = p"
    unfolding list_all_iff [symmetric] by (simp add: db' sb_primary_def)
qed

text \<open>A user whose only primary assignment is to an active branch logs in to that branch.\<close>

lemma login_branch:
  assumes up: "\<not> db_down db" and only: "\<forall>a \<in> set (t_user_branch_assignments db). uba_UserID a = u_ID user \<and> uba_IsPrimary a \<longrightarrow> uba_BranchID a = p"
    and flag: "True \<in> assigned db (u_ID user) p" and active: "\<exists>b \<in> set (t_branches db). b_ID b = p \<and> b_Active b"
  shows "c_BranchID (login_claims U db user) = uuid_String U p"
proof -
  let ?rows = "filter (\<lambda>(a, b). uba_UserID a = u_ID user \<and> uba_IsPrimary a \<and> b_Active b) (join_branches db)"
  have "\<exists>a \<in> set rows. uba_UserID a = u \<and> uba_BranchID a = p \<and> uba_IsPrimary a" if "True \<in> flags rows u p" for rows u
    using that by (induction rows) (auto split: if_splits)
  then obtain a b where "a \<in> set (t_user_branch_assignments db)" "uba_UserID a = u_ID user" "uba_BranchID a = p" "uba_IsPrimary a"
      "b \<in> set (t_branches db)" "b_ID b = p" "b_Active b" using flag active by blast
  then have "(a\<lparr>uba_BranchCode := b_BranchCode b, uba_BranchName := b_Name b\<rparr>, b) \<in> set ?rows"
    by (auto simp: join_branches_def)
  then obtain x xs where x: "?rows = x # xs" by (cases ?rows) auto
  then have "x \<in> set ?rows" by simp
  then have "uba_BranchID (fst x) = p" using only by (auto simp: join_branches_def)
  then have "\<exists>r. Assignments_GetPrimaryByUserID db (u_ID user) = Inr r \<and> uba_BranchID r = p"
    using up x by (auto simp: Assignments_GetPrimaryByUserID_def pg_QueryRow_def short_row_def split: prod.splits)
  then show ?thesis by (auto simp: login_claims_def Let_def)
qed

text \<open>The branches a request asks for.\<close>

definition asked_branches :: "uuid_pkg \<Rightarrow> uuid \<Rightarrow> JSON \<Rightarrow> uuid set" where
  "asked_branches U p data = insert p {b. \<exists>bm \<in> set (dataMaps data ''branches''). uuid_Parse U (dataStr bm ''branch_id'') = Some b}"

lemma handleWfSetBranches_run:
  assumes "uuid_Parse (wh_uuid h) param = Some u" "uuid_Parse (wh_uuid h) (dataStr (we_Data env) ''org_id'') = Some g"
    "uuid_Parse (wh_uuid h) (dataStr (we_Data env) ''primary_branch_id'') = Some p"
  shows "case set_branches_tx db now ids g u (uuid_Parse0 (wh_uuid h) (dataStr (we_Data env) ''actor_id'')) p (desired_branches (wh_uuid h) p (we_Data env)) of
      Inl _ \<Rightarrow> handleWfSetBranches h db now ids param (Some env) = (db, [], wfFail)
    | Inr db' \<Rightarrow> \<exists>entry. handleWfSetBranches h db now ids param (Some env) = (db', [entry], OK (uuid_String (wh_uuid h) u)) \<and>
        li_Action entry = ''set_branches'' \<and> li_ResourceID entry = uuid_String (wh_uuid h) u \<and> li_OrgID entry = g"
  using assms by (auto simp: handleWfSetBranches_def wf_open_def paramID_def bindWfEnvelope_def Let_def wf_audit_def split: sum.splits)

lemma set_branches_effect:
  assumes req: "uuid_Parse (wh_uuid h) param = Some u" "uuid_Parse (wh_uuid h) (dataStr (we_Data env) ''org_id'') = Some g"
      "uuid_Parse (wh_uuid h) (dataStr (we_Data env) ''primary_branch_id'') = Some p"
    and run: "handleWfSetBranches h db now ids param (Some env) = (db', entries, r)"
  shows "if r = OK (uuid_String (wh_uuid h) u)
    then length entries = 1 \<and> (\<forall>b. assigned db' u b = (if b \<in> asked_branches (wh_uuid h) p (we_Data env) then {b = p} else {})) \<and>
      others u (t_user_branch_assignments db') = others u (t_user_branch_assignments db) \<and> only_assignments db db' \<and>
      (flags_ok u (t_user_branch_assignments db) \<and> (\<exists>b \<in> set (t_branches db). b_ID b = p \<and> b_Active b) \<longrightarrow>
        (\<forall>user U. u_ID user = u \<longrightarrow> c_BranchID (login_claims U db' user) = uuid_String U p))
    else db' = db \<and> entries = [] \<and> r = wfFail"
proof -
  let ?U = "wh_uuid h" and ?act = "uuid_Parse0 (wh_uuid h) (dataStr (we_Data env) ''actor_id'')"
  let ?want = "desired_branches (wh_uuid h) p (we_Data env)"
  note keys = desired_branches_keys [of ?U p "we_Data env", folded asked_branches_def]
  have p: "p \<in> fst ` set ?want" by (simp add: keys asked_branches_def)
  show ?thesis
  proof (cases "set_branches_tx db now ids g u ?act p ?want")
    case (Inl e)
    then show ?thesis using handleWfSetBranches_run [OF req, of db now ids] run by (simp add: wfFail_def)
  next
    case (Inr d)
    then obtain entry where out: "db' = d" "entries = [entry]" "r = OK (uuid_String (wh_uuid h) u)"
      using handleWfSetBranches_run [OF req, of db now ids] run by auto
    note law = set_branches_tx_law [OF Inr p, folded out(1), unfolded keys]
    have up: "\<not> db_down db'" using Inr only_assignments_frame [OF law(3)] by (auto simp: set_branches_tx_def split: if_splits)
    have "c_BranchID (login_claims U db' user) = uuid_String U p"
      if "flags_ok u (t_user_branch_assignments db)" "\<exists>b \<in> set (t_branches db). b_ID b = p \<and> b_Active b" "u_ID user = u" for user U
    proof (rule login_branch [OF up])
      show "\<forall>a \<in> set (t_user_branch_assignments db'). uba_UserID a = u_ID user \<and> uba_IsPrimary a \<longrightarrow> uba_BranchID a = p" using law(4) that by simp
      show "True \<in> assigned db' (u_ID user) p" using law(1) [of p] that(3) by (simp add: asked_branches_def)
      show "\<exists>b \<in> set (t_branches db'). b_ID b = p \<and> b_Active b" using that(2) only_assignments_frame [OF law(3)] by simp
    qed
    then show ?thesis using law(1-3) out(2,3) by simp
  qed
qed

lemma set_branches_succeeds:
  assumes req: "uuid_Parse (wh_uuid h) param = Some u" "uuid_Parse (wh_uuid h) (dataStr (we_Data env) ''org_id'') = Some g"
      "uuid_Parse (wh_uuid h) (dataStr (we_Data env) ''primary_branch_id'') = Some p"
    and run: "handleWfSetBranches h db now ids param (Some env) = (db', entries, r)"
    and pre: "\<not> db_down db \<and> g \<in> set (t_organizations db) \<and> u \<in> u_ID ` set (t_users db) \<and>
      asked_branches (wh_uuid h) p (we_Data env) \<subseteq> b_ID ` set (t_branches db) \<and>
      fresh_ids ids (Suc (length (dataMaps (we_Data env) ''branches''))) (uba_ID ` set (t_user_branch_assignments db))"
  shows "r = OK (uuid_String (wh_uuid h) u)"
proof -
  let ?U = "wh_uuid h" and ?act = "uuid_Parse0 (wh_uuid h) (dataStr (we_Data env) ''actor_id'')"
  let ?want = "desired_branches (wh_uuid h) p (we_Data env)"
  note keys = desired_branches_keys [of ?U p "we_Data env", folded asked_branches_def]
  define db2 where "db2 = fold (sb_revoke now u ?act) (filter (\<lambda>bid. map_of ?want bid = None) (sb_active u (sb_clear u db))) (sb_clear u db)"
  have frame: "only_assignments db db2"
    using revokes_law [of now u ?act "filter (\<lambda>bid. map_of ?want bid = None) (sb_active u (sb_clear u db))" "sb_clear u db" p]
      only_assignments_trans [of db "sb_clear u db" db2] by (simp add: db2_def only_assignments_def sb_clear_def)
  have ids: "uba_ID ` set (t_user_branch_assignments db2) = uba_ID ` set (t_user_branch_assignments db)"
  proof -
    have "map uba_ID (t_user_branch_assignments (fold (sb_revoke now u ?act) bs d)) = map uba_ID (t_user_branch_assignments d)" for bs d
      by (induction bs arbitrary: d) (simp_all add: sb_revoke_def)
    then have "map uba_ID (t_user_branch_assignments db2) = map uba_ID (t_user_branch_assignments db)" by (simp add: db2_def sb_clear_def)
    then show ?thesis by (metis list.set_map)
  qed
  have "\<exists>db3. sb_upserts now ids g u ?act (map fst ?want) db2 = Inr db3"
    using pre frame ids keys fresh_ids_mono [OF _ desired_branches_length [of ?U p "we_Data env"] order_refl, of ids]
    by (intro sb_upserts_ok) (simp_all add: only_assignments_frame)
  then have "\<exists>d. set_branches_tx db now ids g u ?act p ?want = Inr d" using pre by (auto simp: set_branches_tx_def db2_def)
  then show "r = OK (uuid_String (wh_uuid h) u)" using handleWfSetBranches_run [OF req, of db now ids] run by auto
qed

text \<open>
  C25: \<^verbatim>\<open>wf-set-branches\<close> refines the replacement of a user's branches. Either it answers 500
  and changes nothing, or it answers with the user's id, records one audit entry, and
  then the user is actively assigned to exactly the branches asked for, the primary one
  and no other flagged primary; assignments of other users and all other tables stay as
  they were; and the user's next login carries the primary branch, when that branch is
  active and no earlier revoked assignment is flagged primary. It succeeds when the
  organization, the user and the branches exist and the drawn ids are new.
\<close>

theorem wf_set_branches_refines:
  assumes req: "uuid_Parse (wh_uuid h) param = Some u" "uuid_Parse (wh_uuid h) (dataStr (we_Data env) ''org_id'') = Some g"
      "uuid_Parse (wh_uuid h) (dataStr (we_Data env) ''primary_branch_id'') = Some p"
    and run: "handleWfSetBranches h db now ids param (Some env) = (db', entries, r)"
  shows "(if r = OK (uuid_String (wh_uuid h) u)
    then length entries = 1 \<and> (\<forall>b. assigned db' u b = (if b \<in> asked_branches (wh_uuid h) p (we_Data env) then {b = p} else {})) \<and>
      others u (t_user_branch_assignments db') = others u (t_user_branch_assignments db) \<and> only_assignments db db' \<and>
      (flags_ok u (t_user_branch_assignments db) \<and> (\<exists>b \<in> set (t_branches db). b_ID b = p \<and> b_Active b) \<longrightarrow>
        (\<forall>user U. u_ID user = u \<longrightarrow> c_BranchID (login_claims U db' user) = uuid_String U p))
    else db' = db \<and> entries = [] \<and> r = wfFail) \<and>
    (\<not> db_down db \<and> g \<in> set (t_organizations db) \<and> u \<in> u_ID ` set (t_users db) \<and>
      asked_branches (wh_uuid h) p (we_Data env) \<subseteq> b_ID ` set (t_branches db) \<and>
      fresh_ids ids (Suc (length (dataMaps (we_Data env) ''branches''))) (uba_ID ` set (t_user_branch_assignments db)) \<longrightarrow> r = OK (uuid_String (wh_uuid h) u))"
  using set_branches_effect [OF req run] set_branches_succeeds [OF req run] by (intro conjI impI)

section \<open>Roles of a user\<close>

text \<open>The abstract state: the organization-wide roles a user holds; and the roles a request asks for.\<close>

definition held_roles :: "db \<Rightarrow> uuid \<Rightarrow> uuid set" where
  "held_roles db u = urr_RoleID ` {r \<in> set (t_user_roles db). urr_UserID r = u \<and> urr_BranchID r = None \<and> urr_RevokedAt r = None}"

definition asked_roles :: "uuid_pkg \<Rightarrow> JSON \<Rightarrow> uuid set" where
  "asked_roles U data = {i. \<exists>rm \<in> set (dataMaps data ''roles''). uuid_Parse U (dataStr rm ''role_id'') = Some i}"

text \<open>The loop over the roles to revoke is one update.\<close>

lemma sql_update_revoke:
  "sql_update (\<lambda>r. urr_UserID r = u \<and> urr_RoleID r \<in> set rids \<and> urr_OrgID r = g \<and> urr_RevokedAt r = None) (\<lambda>r. r\<lparr>urr_RevokedAt := Some t, urr_RevokedBy := x\<rparr>)
    (sql_update (\<lambda>r. urr_UserID r = u \<and> urr_RoleID r = rid \<and> urr_OrgID r = g \<and> urr_RevokedAt r = None) (\<lambda>r. r\<lparr>urr_RevokedAt := Some t, urr_RevokedBy := x\<rparr>) rows) =
   sql_update (\<lambda>r. urr_UserID r = u \<and> urr_RoleID r \<in> set (rid # rids) \<and> urr_OrgID r = g \<and> urr_RevokedAt r = None) (\<lambda>r. r\<lparr>urr_RevokedAt := Some t, urr_RevokedBy := x\<rparr>) rows"
  by (induction rows) auto

lemma revoke_each_run:
  "\<not> db_down db \<Longrightarrow> revoke_each U db now u g act rids =
     (db\<lparr>t_user_roles := sql_update (\<lambda>r. urr_UserID r = u \<and> urr_RoleID r \<in> set rids \<and> urr_OrgID r = g \<and> urr_RevokedAt r = None)
        (\<lambda>r. r\<lparr>urr_RevokedAt := Some (pg_ts now), urr_RevokedBy := Some (uuid_String U act)\<rparr>) (t_user_roles db)\<rparr>, Inr ())"
proof (induction rids arbitrary: db)
  case Nil
  have "sql_update (\<lambda>r. False) f xs = xs" for f and xs :: "user_role_row list" by (induction xs) auto
  then show ?case by simp
next
  case (Cons rid rids)
  then show ?case by (simp add: adminUserRoleSvc_RevokeRole_def UserRoles_RevokeByUserAndRole_def pg_Exec_def sql_update_revoke del: set_simps)
qed

text \<open>The rows the loop over the roles to grant appends.\<close>

fun granted :: "uuid_pkg \<Rightarrow> time \<Rightarrow> (nat \<Rightarrow> uuid) \<Rightarrow> uuid \<Rightarrow> uuid \<Rightarrow> uuid \<Rightarrow> uuid list \<Rightarrow> user_role_row list" where
  "granted U now ids u g act [] = []"
| "granted U now ids u g act (rid # rids) = \<lparr>urr_ID = ids 0, urr_UserID = u, urr_RoleID = rid, urr_OrgID = g, urr_BranchID = None,
     urr_GrantedBy = uuid_String U act, urr_GrantedAt = pg_ts now, urr_RevokedAt = None, urr_RevokedBy = None\<rparr> # granted U now (ids \<circ> Suc) u g act rids"

lemma granted_rows: "r \<in> set (granted U now ids u g act rids) \<Longrightarrow> urr_UserID r = u \<and> urr_BranchID r = None \<and> urr_RevokedAt r = None \<and> urr_OrgID r = g"
  by (induction rids arbitrary: ids) auto

lemma granted_roles: "urr_RoleID ` set (granted U now ids u g act rids) = set rids"
  by (induction rids arbitrary: ids) auto

lemma grant_each_run:
  "grant_each U db now ids u g act rids = (db', res) \<Longrightarrow>
   (\<exists>k. db' = db\<lparr>t_user_roles := t_user_roles db @ granted U now ids u g act (take k rids)\<rparr> \<and> (isl res \<or> k = length rids)) \<and>
   (isl res \<or> (\<forall>r \<in> set (t_user_roles db). \<not> (urr_UserID r = u \<and> urr_RoleID r \<in> set rids \<and> urr_BranchID r = None)))"
proof (induction rids arbitrary: db ids)
  case Nil
  then show ?case by auto
next
  case (Cons rid rids)
  obtain db1 res1 where one: "adminUserRoleSvc_AssignRole U db now (ids 0) u rid g None act = (db1, res1)" by fastforce
  show ?case
  proof (cases res1)
    case (Inl e)
    then have "db1 = db" using one by (auto simp: adminUserRoleSvc_AssignRole_def UserRoles_Create_def pg_Exec_def Let_def split: if_splits prod.splits sum.splits)
    then show ?thesis using Cons.prems Inl one by (auto intro!: exI [of _ 0])
  next
    case (Inr ur)
    then have db1: "db1 = db\<lparr>t_user_roles := t_user_roles db @ granted U now ids u g act [rid]\<rparr>"
        "\<forall>r \<in> set (t_user_roles db). \<not> (urr_UserID r = u \<and> urr_RoleID r = rid \<and> urr_BranchID r = None)"
      using one by (auto simp: adminUserRoleSvc_AssignRole_def UserRoles_Create_def pg_Exec_def Let_def split: if_splits prod.splits sum.splits)
    have "grant_each U db1 now (ids \<circ> Suc) u g act rids = (db', res)" using Cons.prems one Inr by simp
    from Cons.IH [OF this] obtain k where "db' = db1\<lparr>t_user_roles := t_user_roles db1 @ granted U now (ids \<circ> Suc) u g act (take k rids)\<rparr>"
        "isl res \<or> k = length rids" "isl res \<or> (\<forall>r \<in> set (t_user_roles db1). \<not> (urr_UserID r = u \<and> urr_RoleID r \<in> set rids \<and> urr_BranchID r = None))"
      by blast
    then show ?thesis using db1 by (auto intro!: exI [of _ "Suc k"])
  qed
qed

lemma grant_each_ok:
  assumes "\<not> db_down db" "g \<in> set (t_organizations db)" "u \<in> u_ID ` set (t_users db)" "set rids \<subseteq> ro_ID ` set (t_roles db)"
    "fresh_ids ids (length rids) (urr_ID ` set (t_user_roles db))" "distinct rids"
    "\<forall>r \<in> set (t_user_roles db). \<not> (urr_UserID r = u \<and> urr_RoleID r \<in> set rids \<and> urr_BranchID r = None)"
  shows "\<exists>db'. grant_each U db now ids u g act rids = (db', Inr ())"
  using assms
proof (induction rids arbitrary: db ids)
  case (Cons rid rids)
  let ?db1 = "db\<lparr>t_user_roles := t_user_roles db @ granted U now ids u g act [rid]\<rparr>"
  have "fresh_ids ids (Suc (length rids)) (urr_ID ` set (t_user_roles db))" using Cons.prems(5) by simp
  note new = fresh_ids_Suc [OF this]
  then have free: "\<not> (\<exists>r \<in> set (t_user_roles db). urr_ID r = ids 0 \<or> (urr_UserID r = u \<and> urr_RoleID r = rid \<and> urr_BranchID r = None))"
    using Cons.prems(7) by force
  have one: "\<exists>ur. adminUserRoleSvc_AssignRole U db now (ids 0) u rid g None act = (?db1, Inr ur)"
    using Cons.prems(1-4) free by (simp add: adminUserRoleSvc_AssignRole_def UserRoles_Create_def pg_Exec_def Let_def)
  have "\<forall>r \<in> set (t_user_roles ?db1). \<not> (urr_UserID r = u \<and> urr_RoleID r \<in> set rids \<and> urr_BranchID r = None)"
    using Cons.prems(6,7) by auto
  then have "\<exists>db'. grant_each U ?db1 now (ids \<circ> Suc) u g act rids = (db', Inr ())"
    using Cons.prems(1-4,6) new(2) by (intro Cons.IH) (simp_all add: comp_def)
  then show ?case using one by auto
qed simp

lemma desired_roles_keys:
  "distinct (map fst (desired_roles U data)) \<and> fst ` set (desired_roles U data) = asked_roles U data \<and> snd ` set (desired_roles U data) \<subseteq> {True}"
proof -
  have "distinct (map fst m) \<and> snd ` set m \<subseteq> {True} \<longrightarrow> distinct (map fst (fold (\<lambda>rm m. case uuid_Parse U (dataStr rm ''role_id'') of None \<Rightarrow> m | Some rid \<Rightarrow> AList.update rid True m) rms m)) \<and>
      fst ` set (fold (\<lambda>rm m. case uuid_Parse U (dataStr rm ''role_id'') of None \<Rightarrow> m | Some rid \<Rightarrow> AList.update rid True m) rms m) =
        fst ` set m \<union> {i. \<exists>rm \<in> set rms. uuid_Parse U (dataStr rm ''role_id'') = Some i} \<and>
      snd ` set (fold (\<lambda>rm m. case uuid_Parse U (dataStr rm ''role_id'') of None \<Rightarrow> m | Some rid \<Rightarrow> AList.update rid True m) rms m) \<subseteq> {True}"
    for rms :: "JSON list" and m :: "(uuid \<times> bool) list"
  proof (induction rms arbitrary: m)
    case (Cons rm rms)
    have "snd ` set m \<subseteq> {True} \<Longrightarrow> snd ` set (AList.update i True m) \<subseteq> {True}" for i by (induction m) auto
    then show ?case using Cons by (cases "uuid_Parse U (dataStr rm ''role_id'')") (auto simp: dom_update distinct_update)
  qed simp
  then show ?thesis by (simp add: desired_roles_def asked_roles_def)
qed

lemma current_roles_keys:
  "fst ` set (current_roles urs) = ur_RoleID ` {ur \<in> set urs. ur_RevokedAt ur = None \<and> ur_BranchID ur = None} \<and> snd ` set (current_roles urs) \<subseteq> {True}"
proof -
  have "snd ` set m \<subseteq> {True} \<longrightarrow> fst ` set (fold (\<lambda>ur m. if ur_RevokedAt ur = None \<and> ur_BranchID ur = None then AList.update (ur_RoleID ur) True m else m) urs m) =
      fst ` set m \<union> ur_RoleID ` {ur \<in> set urs. ur_RevokedAt ur = None \<and> ur_BranchID ur = None} \<and>
      snd ` set (fold (\<lambda>ur m. if ur_RevokedAt ur = None \<and> ur_BranchID ur = None then AList.update (ur_RoleID ur) True m else m) urs m) \<subseteq> {True}"
    for m :: "(uuid \<times> bool) list"
  proof (induction urs arbitrary: m)
    case (Cons ur urs)
    have "snd ` set m \<subseteq> {True} \<Longrightarrow> snd ` set (AList.update i True m) \<subseteq> {True}" for i by (induction m) auto
    then show ?case using Cons by (auto simp: dom_update)
  qed simp
  then show ?thesis by (simp add: current_roles_def)
qed

lemma map_of_all_True: "snd ` set m \<subseteq> {True} \<Longrightarrow> map_of m k \<noteq> Some True \<longleftrightarrow> k \<notin> fst ` set m"
  by (induction m) auto

text \<open>The two loops of the handler between the read of the current roles and the answer.\<close>

lemma set_roles_run:
  assumes req: "uuid_Parse (wh_uuid h) param = Some u" "uuid_Parse (wh_uuid h) (dataStr (we_Data env) ''org_id'') = Some g"
    and run: "handleWfSetRoles h db now ids param (Some env) = (db', entries, r)" and up: "\<not> db_down db"
    and org: "\<forall>x \<in> set (t_user_roles db). urr_UserID x = u \<and> urr_BranchID x = None \<and> urr_RevokedAt x = None \<longrightarrow> urr_OrgID x = g"
  obtains rows rids res where
    "rows = sql_update (\<lambda>x. urr_UserID x = u \<and> urr_RoleID x \<in> held_roles db u - asked_roles (wh_uuid h) (we_Data env) \<and> urr_OrgID x = g \<and> urr_RevokedAt x = None)
        (\<lambda>x. x\<lparr>urr_RevokedAt := Some (pg_ts now), urr_RevokedBy := Some (uuid_String (wh_uuid h) (uuid_Parse0 (wh_uuid h) (dataStr (we_Data env) ''actor_id'')))\<rparr>) (t_user_roles db)"
    "distinct rids" "set rids = asked_roles (wh_uuid h) (we_Data env) - held_roles db u" "length rids \<le> length (dataMaps (we_Data env) ''roles'')"
    "grant_each (wh_uuid h) (db\<lparr>t_user_roles := rows\<rparr>) now ids u g (uuid_Parse0 (wh_uuid h) (dataStr (we_Data env) ''actor_id'')) rids = (db', res)"
    "case res of Inl _ \<Rightarrow> entries = [] \<and> r = wfFail | Inr _ \<Rightarrow> length entries = 1 \<and> r = OK (uuid_String (wh_uuid h) u)"
proof -
  let ?U = "wh_uuid h" and ?data = "we_Data env"
  let ?act = "uuid_Parse0 ?U (dataStr ?data ''actor_id'')"
  define urs where "urs = map (scanUserRole ?U) (order_desc (db_scan db) urr_GrantedAt (filter (\<lambda>r. urr_UserID r = u \<and> urr_RevokedAt r = None) (t_user_roles db)))"
  have get: "adminUserRoleSvc_GetUserRoles ?U db u = Inr urs"
    using up by (simp add: adminUserRoleSvc_GetUserRoles_def UserRoles_GetByUser_def pg_Query_def urs_def)
  note want = desired_roles_keys [of ?U ?data] and cur = current_roles_keys [of urs]
  have held: "fst ` set (current_roles urs) = held_roles db u"
    unfolding cur [THEN conjunct1] by (force simp: held_roles_def urs_def scanUserRole_def)
  define gone where "gone = filter (\<lambda>rid. map_of (desired_roles ?U ?data) rid \<noteq> Some True) (map fst (current_roles urs))"
  define rids where "rids = filter (\<lambda>rid. map_of (current_roles urs) rid \<noteq> Some True) (map fst (desired_roles ?U ?data))"
  have gone: "set gone = held_roles db u - asked_roles ?U ?data"
    using want held map_of_all_True [of "desired_roles ?U ?data"] by (auto simp: gone_def)
  define rows where "rows = sql_update (\<lambda>x. urr_UserID x = u \<and> urr_RoleID x \<in> held_roles db u - asked_roles ?U ?data \<and> urr_OrgID x = g \<and> urr_RevokedAt x = None)
      (\<lambda>x. x\<lparr>urr_RevokedAt := Some (pg_ts now), urr_RevokedBy := Some (uuid_String ?U ?act)\<rparr>) (t_user_roles db)"
  have rev: "revoke_each ?U db now u g ?act gone = (db\<lparr>t_user_roles := rows\<rparr>, Inr ())"
    unfolding revoke_each_run [OF up] rows_def gone ..
  obtain db2 res where gr: "grant_each ?U (db\<lparr>t_user_roles := rows\<rparr>) now ids u g ?act rids = (db2, res)" by (cases "grant_each ?U (db\<lparr>t_user_roles := rows\<rparr>) now ids u g ?act rids")
  have out: "db2 = db' \<and> (case res of Inl _ \<Rightarrow> entries = [] \<and> r = wfFail | Inr _ \<Rightarrow> length entries = 1 \<and> r = OK (uuid_String ?U u))"
    using run req by (auto simp: handleWfSetRoles_def wf_open_def paramID_def bindWfEnvelope_def Let_def get rev [unfolded gone_def] gr [unfolded rids_def] split: sum.splits)
  show thesis
  proof (rule that)
    show "distinct rids" using want by (simp add: rids_def)
    show "set rids = asked_roles ?U ?data - held_roles db u"
      using want held map_of_all_True [OF cur [THEN conjunct2]] by (auto simp: rids_def)
    show "length rids \<le> length (dataMaps ?data ''roles'')"
      unfolding rids_def desired_roles_def
      by (rule order_trans [OF length_filter_le], unfold length_map, rule order_trans [OF length_fold])
        (auto intro: length_alist_update split: option.splits)
  qed (use rows_def gr out in auto)
qed


lemma held_roles_append: "held_roles (db\<lparr>t_user_roles := xs @ ys\<rparr>) u = held_roles (db\<lparr>t_user_roles := xs\<rparr>) u \<union> held_roles (db\<lparr>t_user_roles := ys\<rparr>) u"
  by (auto simp: held_roles_def)

lemma held_roles_granted: "held_roles (db\<lparr>t_user_roles := granted U now ids u g act rids\<rparr>) u = set rids"
proof -
  have "{r \<in> set (granted U now ids u g act rids). urr_UserID r = u \<and> urr_BranchID r = None \<and> urr_RevokedAt r = None} = set (granted U now ids u g act rids)"
    using granted_rows by auto
  then show ?thesis by (simp add: held_roles_def granted_roles)
qed

text \<open>Revoking the roles of \<open>R\<close>: what the user still holds, and which organization-wide rows there are.\<close>

abbreviation revoking :: "uuid \<Rightarrow> uuid \<Rightarrow> uuid set \<Rightarrow> time \<Rightarrow> string option \<Rightarrow> user_role_row list \<Rightarrow> user_role_row list" where
  "revoking u g R t y \<equiv> sql_update (\<lambda>x. urr_UserID x = u \<and> urr_RoleID x \<in> R \<and> urr_OrgID x = g \<and> urr_RevokedAt x = None)
      (\<lambda>x. x\<lparr>urr_RevokedAt := Some t, urr_RevokedBy := y\<rparr>)"

lemma held_roles_revoked:
  assumes "\<forall>x \<in> set rows. urr_UserID x = u \<and> urr_BranchID x = None \<and> urr_RevokedAt x = None \<longrightarrow> urr_OrgID x = g"
  shows "held_roles (db\<lparr>t_user_roles := revoking u g R t y rows\<rparr>) u = held_roles (db\<lparr>t_user_roles := rows\<rparr>) u - R"
  using assms
proof (induction rows)
  case (Cons x rows)
  have step: "held_roles (db\<lparr>t_user_roles := x # xs\<rparr>) u = held_roles (db\<lparr>t_user_roles := xs\<rparr>) u \<union>
      (if urr_UserID x = u \<and> urr_BranchID x = None \<and> urr_RevokedAt x = None then {urr_RoleID x} else {})" for x xs
    by (auto simp: held_roles_def)
  show ?case using Cons by (simp only: sql_update_simps step) auto
qed (simp add: held_roles_def)

lemma revoking_rows:
  "(\<exists>x \<in> set (revoking u g R t y rows). urr_UserID x = u \<and> urr_RoleID x \<in> S \<and> urr_BranchID x = None) \<longleftrightarrow>
   (\<exists>x \<in> set rows. urr_UserID x = u \<and> urr_RoleID x \<in> S \<and> urr_BranchID x = None)"
  "filter (\<lambda>x. urr_UserID x \<noteq> u) (revoking u g R t y rows) = filter (\<lambda>x. urr_UserID x \<noteq> u) rows"
  "urr_ID ` set (revoking u g R t y rows) = urr_ID ` set rows"
  by (induction rows) auto

text \<open>
  C26: \<^verbatim>\<open>wf-set-roles\<close> refines the replacement of a user's organization-wide roles, as far as
  the tables allow. Whatever it answers, the roles no longer asked for are gone, the
  roles kept are kept, no role that was not asked for is held and the rows of other users
  are untouched; when it answers with the user's id the user holds exactly the roles
  asked for and one audit entry is recorded, otherwise it answers 500 and records none.
  When the database is up, organization, user and roles exist and the drawn ids are new,
  it succeeds exactly when none of the roles to grant was revoked for the user before:
  the unique index on the rows also counts the revoked ones.
\<close>

theorem wf_set_roles_refines:
  assumes req: "uuid_Parse (wh_uuid h) param = Some u" "uuid_Parse (wh_uuid h) (dataStr (we_Data env) ''org_id'') = Some g"
    and run: "handleWfSetRoles h db now ids param (Some env) = (db', entries, r)" and up: "\<not> db_down db"
    and org: "\<forall>x \<in> set (t_user_roles db). urr_UserID x = u \<and> urr_BranchID x = None \<and> urr_RevokedAt x = None \<longrightarrow> urr_OrgID x = g"
  shows "held_roles db u \<inter> asked_roles (wh_uuid h) (we_Data env) \<subseteq> held_roles db' u \<and> held_roles db' u \<subseteq> asked_roles (wh_uuid h) (we_Data env) \<and>
    filter (\<lambda>x. urr_UserID x \<noteq> u) (t_user_roles db') = filter (\<lambda>x. urr_UserID x \<noteq> u) (t_user_roles db) \<and>
    db' = db\<lparr>t_user_roles := t_user_roles db'\<rparr> \<and>
    (if r = OK (uuid_String (wh_uuid h) u) then length entries = 1 \<and> held_roles db' u = asked_roles (wh_uuid h) (we_Data env)
     else entries = [] \<and> r = wfFail) \<and>
    (g \<in> set (t_organizations db) \<and> u \<in> u_ID ` set (t_users db) \<and> asked_roles (wh_uuid h) (we_Data env) \<subseteq> ro_ID ` set (t_roles db) \<and>
     fresh_ids ids (length (dataMaps (we_Data env) ''roles'')) (urr_ID ` set (t_user_roles db)) \<longrightarrow>
      (r = OK (uuid_String (wh_uuid h) u) \<longleftrightarrow>
       (\<forall>x \<in> set (t_user_roles db). urr_UserID x = u \<and> urr_BranchID x = None \<and> urr_RevokedAt x \<noteq> None \<longrightarrow>
          urr_RoleID x \<notin> asked_roles (wh_uuid h) (we_Data env) - held_roles db u)))"
proof -
  let ?asked = "asked_roles (wh_uuid h) (we_Data env)"
  obtain rows rids res where rows: "rows = sql_update (\<lambda>x. urr_UserID x = u \<and> urr_RoleID x \<in> held_roles db u - ?asked \<and> urr_OrgID x = g \<and> urr_RevokedAt x = None)
        (\<lambda>x. x\<lparr>urr_RevokedAt := Some (pg_ts now), urr_RevokedBy := Some (uuid_String (wh_uuid h) (uuid_Parse0 (wh_uuid h) (dataStr (we_Data env) ''actor_id'')))\<rparr>) (t_user_roles db)"
    and rids: "distinct rids" "set rids = ?asked - held_roles db u" "length rids \<le> length (dataMaps (we_Data env) ''roles'')"
    and gr: "grant_each (wh_uuid h) (db\<lparr>t_user_roles := rows\<rparr>) now ids u g (uuid_Parse0 (wh_uuid h) (dataStr (we_Data env) ''actor_id'')) rids = (db', res)"
    and out: "case res of Inl _ \<Rightarrow> entries = [] \<and> r = wfFail | Inr _ \<Rightarrow> length entries = 1 \<and> r = OK (uuid_String (wh_uuid h) u)"
    by (rule set_roles_run [OF req run up org])
  obtain k where db': "db' = db\<lparr>t_user_roles := rows @ granted (wh_uuid h) now ids u g (uuid_Parse0 (wh_uuid h) (dataStr (we_Data env) ''actor_id'')) (take k rids)\<rparr>"
      "isl res \<or> k = length rids" and free: "isl res \<or> (\<forall>r \<in> set rows. \<not> (urr_UserID r = u \<and> urr_RoleID r \<in> set rids \<and> urr_BranchID r = None))"
    using grant_each_run [OF gr] by auto
  have held: "held_roles db' u = (held_roles db u \<inter> ?asked) \<union> set (take k rids)"
    unfolding db'(1) held_roles_append held_roles_granted rows held_roles_revoked [OF org] by auto
  have none: "filter (\<lambda>x. urr_UserID x \<noteq> u) (granted U now ids u g act rids) = []" for U ids act rids
    using granted_rows by (fastforce simp: filter_empty_conv)
  have oth: "filter (\<lambda>x. urr_UserID x \<noteq> u) (t_user_roles db') = filter (\<lambda>x. urr_UserID x \<noteq> u) (t_user_roles db)"
  proof -
    have "filter (\<lambda>x. urr_UserID x \<noteq> u) rows = filter (\<lambda>x. urr_UserID x \<noteq> u) (t_user_roles db)" unfolding rows by (rule revoking_rows(2))
    then show ?thesis by (simp add: db'(1) none)
  qed
  have taken: "set (take k rids) \<subseteq> ?asked - held_roles db u" using set_take_subset [of k rids] rids(2) by blast
  have conflict: "(\<forall>x \<in> set rows. \<not> (urr_UserID x = u \<and> urr_RoleID x \<in> set rids \<and> urr_BranchID x = None)) \<longleftrightarrow>
      (\<forall>x \<in> set (t_user_roles db). urr_UserID x = u \<and> urr_BranchID x = None \<and> urr_RevokedAt x \<noteq> None \<longrightarrow> urr_RoleID x \<notin> ?asked - held_roles db u)"
  proof -
    have "urr_RevokedAt x \<noteq> None" if "x \<in> set (t_user_roles db)" "urr_UserID x = u" "urr_BranchID x = None" "urr_RoleID x \<notin> held_roles db u" for x
      using that by (auto simp: held_roles_def image_iff)
    moreover have "(\<exists>x \<in> set rows. urr_UserID x = u \<and> urr_RoleID x \<in> set rids \<and> urr_BranchID x = None) \<longleftrightarrow>
        (\<exists>x \<in> set (t_user_roles db). urr_UserID x = u \<and> urr_RoleID x \<in> set rids \<and> urr_BranchID x = None)"
      unfolding rows by (rule revoking_rows(1))
    ultimately show ?thesis unfolding rids(2) by blast
  qed
  have fin: "\<not> isl res" if "g \<in> set (t_organizations db)" "u \<in> u_ID ` set (t_users db)" "?asked \<subseteq> ro_ID ` set (t_roles db)"
      "fresh_ids ids (length (dataMaps (we_Data env) ''roles'')) (urr_ID ` set (t_user_roles db))"
      "\<forall>x \<in> set rows. \<not> (urr_UserID x = u \<and> urr_RoleID x \<in> set rids \<and> urr_BranchID x = None)"
  proof -
    have "\<exists>d. grant_each (wh_uuid h) (db\<lparr>t_user_roles := rows\<rparr>) now ids u g (uuid_Parse0 (wh_uuid h) (dataStr (we_Data env) ''actor_id'')) rids = (d, Inr ())"
    proof (rule grant_each_ok)
      show "fresh_ids ids (length rids) (urr_ID ` set (t_user_roles (db\<lparr>t_user_roles := rows\<rparr>)))"

      proof -
        have "urr_ID ` set rows = urr_ID ` set (t_user_roles db)" unfolding rows by (rule revoking_rows(3))
        then show ?thesis using fresh_ids_mono [OF that(4) rids(3) order_refl] by simp
      qed
      show "set rids \<subseteq> ro_ID ` set (t_roles (db\<lparr>t_user_roles := rows\<rparr>))" using that(3) rids(2) by auto
    qed (use that up rids(1) in simp_all)
    then show ?thesis using gr by auto
  qed
  have answer: "if r = OK (uuid_String (wh_uuid h) u) then length entries = 1 \<and> \<not> isl res else entries = [] \<and> r = wfFail \<and> isl res"
    using out by (cases res) (simp_all add: wfFail_def)
  have full: "held_roles db' u = ?asked" if "\<not> isl res" using that db'(2) held rids(2) by auto
  have table: "db' = db\<lparr>t_user_roles := t_user_roles db'\<rparr>" by (simp add: db'(1))
  have "held_roles db u \<inter> ?asked \<subseteq> held_roles db' u \<and> held_roles db' u \<subseteq> ?asked" using held taken by auto
  moreover have "if r = OK (uuid_String (wh_uuid h) u) then length entries = 1 \<and> held_roles db' u = ?asked else entries = [] \<and> r = wfFail"
    using answer full by presburger
  moreover have "r = OK (uuid_String (wh_uuid h) u) \<longleftrightarrow> \<not> isl res" using answer by (auto split: if_splits)
  ultimately show ?thesis using oth table fin [unfolded conflict] free [unfolded conflict] by (intro conjI impI) blast+
qed

section \<open>A concrete run\<close>

text \<open>
  The account 7 registered in \<open>Identity\<close>, assigned to branch 2 of organization 1 and holding the
  role 10; branch 3 and role 11 exist. The requests ask for branch 3 and role 11 instead.
\<close>

definition demo_wf :: wf_handler where
  "demo_wf = \<lparr>wh_libs = demo_libs, wh_users = \<lparr>aus_argon2 = ie_argon2 demo_env, aus_inet = Some\<rparr>, wh_zone = (\<lambda>_. 0)\<rparr>"

definition demo_branch :: "uuid \<Rightarrow> string \<Rightarrow> Branch" where
  "demo_branch i c = \<lparr>b_ID = i, b_OrgID = 1, b_BranchCode = c, b_Name = c, b_Active = True, b_UpdatedAt = 0\<rparr>"

definition demo_role :: "uuid \<Rightarrow> string \<Rightarrow> Role" where
  "demo_role i c = \<lparr>ro_ID = i, ro_OrgID = 1, ro_Code = c, ro_Name = c, ro_Description = [], ro_IsDefault = False, ro_Permissions = [],
     ro_CreatedAt = 0, ro_UpdatedAt = 0\<rparr>"

definition demo_staff :: db where
  "demo_staff = demo_registered\<lparr>t_branches := [demo_branch 2 ''B2'', demo_branch 3 ''B3''], t_roles := [demo_role 10 ''teller'', demo_role 11 ''admin''],
     t_user_branch_assignments := [\<lparr>uba_ID = 40, uba_UserID = 7, uba_BranchID = 2, uba_BranchCode = [], uba_BranchName = [], uba_OrgID = 1,
       uba_Role = [], uba_IsPrimary = True, uba_AssignedBy = 9, uba_AssignedAt = 0, uba_RevokedAt = None, uba_RevokedBy = None\<rparr>],
     t_user_roles := [\<lparr>urr_ID = 30, urr_UserID = 7, urr_RoleID = 10, urr_OrgID = 1, urr_BranchID = None, urr_GrantedBy = [],
        urr_GrantedAt = 0, urr_RevokedAt = None, urr_RevokedBy = None\<rparr>]\<rparr>"

definition demo_envelope :: "JSON \<Rightarrow> wfEnvelope" where
  "demo_envelope data = \<lparr>we_Data = (''org_id'', AnyString (uuid_String bits_uuid 1)) # data, we_MasterID = [], we_MasterType = [], we_WfInstanceID = []\<rparr>"

definition demo_set_branches :: JSON where
  "demo_set_branches = [(''primary_branch_id'', AnyString (uuid_String bits_uuid 3))]"

definition demo_set_roles :: JSON where
  "demo_set_roles = [(''roles'', AnySlice [AnyMap [(''role_id'', AnyString (uuid_String bits_uuid 11))]])]"

lemma demo_wf_simps: "wh_uuid demo_wf = bits_uuid" "dataStr (we_Data (demo_envelope data)) ''org_id'' = uuid_String bits_uuid 1"
    "dataStr (we_Data (demo_envelope demo_set_branches)) ''primary_branch_id'' = uuid_String bits_uuid 3"
    "dataMaps (we_Data (demo_envelope demo_set_branches)) ''branches'' = []"
    "dataMaps (we_Data (demo_envelope demo_set_roles)) ''roles'' = [[(''role_id'', AnyString (uuid_String bits_uuid 11))]]"
    "dataStr [(''role_id'', AnyString (uuid_String bits_uuid 11))] ''role_id'' = uuid_String bits_uuid 11"
  by (simp_all add: demo_wf_def demo_libs_def demo_envelope_def demo_set_branches_def demo_set_roles_def dataStr_def dataMaps_def List.map_filter_simps)

lemma demo_staff_simps: "t_branches demo_staff = [demo_branch 2 ''B2'', demo_branch 3 ''B3'']" "t_roles demo_staff = [demo_role 10 ''teller'', demo_role 11 ''admin'']"
    "uba_ID ` set (t_user_branch_assignments demo_staff) = {40}" "flags_ok 7 (t_user_branch_assignments demo_staff)"
    "\<not> db_down demo_staff" "t_organizations demo_staff = [1]" "map u_ID (t_users demo_staff) = [7]"
    "t_user_roles demo_staff = [\<lparr>urr_ID = 30, urr_UserID = 7, urr_RoleID = 10, urr_OrgID = 1, urr_BranchID = None, urr_GrantedBy = [],
        urr_GrantedAt = 0, urr_RevokedAt = None, urr_RevokedBy = None\<rparr>]"
proof -
  show "\<not> db_down demo_staff" "t_organizations demo_staff = [1]" "map u_ID (t_users demo_staff) = [7]" by code_simp+
qed (simp_all add: demo_staff_def)

lemma demo_user: "u_ID ` set (t_users demo_staff) = {7}"
  using demo_staff_simps(7) by (metis list.set(1) list.simps(15) list.set_map)

theorem wf_set_branches_refines_witness:
  "\<exists>db' entries. handleWfSetBranches demo_wf demo_staff 5 (\<lambda>n. 50) (uuid_String bits_uuid 7) (Some (demo_envelope demo_set_branches)) =
       (db', entries, OK (uuid_String bits_uuid 7)) \<and> assigned db' 7 3 = {True} \<and> assigned db' 7 2 = {} \<and>
     (\<forall>user. u_ID user = 7 \<longrightarrow> c_BranchID (login_claims bits_uuid db' user) = uuid_String bits_uuid 3)"
proof -
  obtain db' entries r where run: "handleWfSetBranches demo_wf demo_staff 5 (\<lambda>n. 50) (uuid_String bits_uuid 7) (Some (demo_envelope demo_set_branches)) = (db', entries, r)"
    by (cases "handleWfSetBranches demo_wf demo_staff 5 (\<lambda>n. 50) (uuid_String bits_uuid 7) (Some (demo_envelope demo_set_branches))")
  have asked: "asked_branches bits_uuid 3 (we_Data (demo_envelope demo_set_branches)) = {3}" by (simp add: asked_branches_def demo_wf_simps)
  have fresh: "fresh_ids (\<lambda>n. 50) (Suc 0) {40}" by (simp add: fresh_ids_def inj_on_def lessThan_Suc)
  show ?thesis
    using wf_set_branches_refines [OF _ _ _ run, of 7 1 3] run fresh
    by (auto simp: demo_wf_simps demo_staff_simps asked demo_user bits_uuid.parse_string demo_branch_def)
qed

theorem wf_set_roles_refines_witness:
  "\<exists>db' entries. handleWfSetRoles demo_wf demo_staff 5 (\<lambda>n. 50) (uuid_String bits_uuid 7) (Some (demo_envelope demo_set_roles)) =
       (db', entries, OK (uuid_String bits_uuid 7)) \<and> held_roles db' 7 = {11}"
proof -
  obtain db' entries r where run: "handleWfSetRoles demo_wf demo_staff 5 (\<lambda>n. 50) (uuid_String bits_uuid 7) (Some (demo_envelope demo_set_roles)) = (db', entries, r)"
    by (cases "handleWfSetRoles demo_wf demo_staff 5 (\<lambda>n. 50) (uuid_String bits_uuid 7) (Some (demo_envelope demo_set_roles))")
  have asked: "asked_roles bits_uuid (we_Data (demo_envelope demo_set_roles)) = {11}" by (simp add: asked_roles_def demo_wf_simps bits_uuid.parse_string)
  have fresh: "fresh_ids (\<lambda>n. 50) (Suc 0) {30}" by (simp add: fresh_ids_def inj_on_def lessThan_Suc)
  have "r = OK (uuid_String bits_uuid 7) \<and> held_roles db' 7 = {11}"
    using wf_set_roles_refines [OF _ _ run, of 7 1] fresh
    by (simp add: demo_wf_simps demo_staff_simps asked demo_user bits_uuid.parse_string demo_role_def split: if_splits)
  then show ?thesis using run by blast
qed

end
