(* ===== verification/GoFloat.thy ===== *)
theory GoFloat
  imports Complex_Main "HOL-Library.Log_Nat"
begin

text \<open>
  Go's \<^verbatim>\<open>float64\<close> arithmetic: the exact rational result rounded to 53 significant bits, to
  nearest, ties to even. Subnormal numbers, infinities and overflow do not occur in the
  code and are left out: the exponent is unbounded.
\<close>

text \<open>The exponent \<open>e\<close> of a positive number: \<open>2 ^ e \<le> x < 2 ^ (e + 1)\<close>.\<close>

definition flexp :: "rat \<Rightarrow> int" where
  "flexp x = (let (p, q) = quotient_of x; e = bitlen p - bitlen q in if 2 powi e \<le> x then e else e - 1)"

definition round_even :: "rat \<Rightarrow> int" where
  "round_even y = (let n = \<lfloor>y\<rfloor>; d = y - of_int n in if d < 1 / 2 then n else if d > 1 / 2 then n + 1 else if even n then n else n + 1)"

definition fl_pos :: "rat \<Rightarrow> rat" where
  "fl_pos x = (let u = 2 powi (flexp x - 52) in of_int (round_even (x / u)) * u)"

definition float64 :: "rat \<Rightarrow> rat" where
  "float64 x = (if x = 0 then 0 else if x < 0 then - fl_pos (- x) else fl_pos x)"

text \<open>\<^verbatim>\<open>int(x)\<close>: towards zero.\<close>

definition float_int :: "rat \<Rightarrow> int" where
  "float_int x = (if x < 0 then - \<lfloor>- x\<rfloor> else \<lfloor>x\<rfloor>)"

lemma flexp_bounds:
  assumes "0 < x"
  shows "2 powi (flexp x) \<le> x" and "x < 2 powi (flexp x + 1)"
proof -
  obtain p q where pq: "quotient_of x = (p, q)" by fastforce
  have q: "0 < q" using quotient_of_denom_pos [OF pq] .
  have x: "x = of_int p / of_int q" using quotient_of_div [OF pq] .
  have p: "0 < p" using assms q by (simp add: x zero_less_divide_iff)
  let ?a = "bitlen p" and ?b = "bitlen q"
  have "2 ^ nat (?a - 1) \<le> p" "p < 2 ^ nat ?a" "2 ^ nat (?b - 1) \<le> q" "q < 2 ^ nat ?b"
    using bitlen_bounds [OF p] bitlen_bounds [OF q] by simp_all
  then have "(of_int (2 ^ nat (?a - 1)) :: rat) \<le> of_int p" "(of_int p :: rat) < of_int (2 ^ nat ?a)"
      "(of_int (2 ^ nat (?b - 1)) :: rat) \<le> of_int q" "(of_int q :: rat) < of_int (2 ^ nat ?b)"
    by (simp_all only: of_int_le_iff of_int_less_iff)
  then have nat: "(2 ^ nat (?a - 1) :: rat) \<le> of_int p" "of_int p < (2 ^ nat ?a :: rat)" "(2 ^ nat (?b - 1) :: rat) \<le> of_int q" "of_int q < (2 ^ nat ?b :: rat)"
    by simp_all
  have pos: "0 < ?a" "0 < ?b" using p q bitlen_nonneg [of p] bitlen_nonneg [of q] bitlen_eq_zero_iff [of p] bitlen_eq_zero_iff [of q] by linarith+
  have up: "of_int p < (2 powi ?a :: rat)" "of_int q < (2 powi ?b :: rat)"
    using nat(2,4) pos by (simp_all add: power_int_def)
  have lo: "(2 powi (?a - 1) :: rat) \<le> of_int p" "(2 powi (?b - 1) :: rat) \<le> of_int q"
    using nat(1,3) pos by (simp_all add: power_int_def)
  have "x < 2 powi ?a / 2 powi (?b - 1)" unfolding x using up(1) lo(2) q p by (intro frac_less) simp_all
  then have hi: "x < 2 powi (?a - ?b + 1)" by (simp add: power_int_diff power_int_add)
  have "2 powi (?a - 1) / 2 powi ?b \<le> x" unfolding x using lo(1) up(2) q p by (intro frac_le) simp_all
  then have low: "2 powi (?a - ?b - 1) \<le> x" by (simp add: power_int_diff)
  show "2 powi (flexp x) \<le> x" "x < 2 powi (flexp x + 1)"
    using hi low by (auto simp: flexp_def pq Let_def)
qed

lemma round_even_int: "round_even (of_int n) = n"
  by (simp add: round_even_def)

lemma round_even_mono:
  assumes "y \<le> z"
  shows "round_even y \<le> round_even z"
proof (cases "\<lfloor>y\<rfloor> = \<lfloor>z\<rfloor>")
  case True
  then show ?thesis using assms by (auto simp: round_even_def Let_def)
next
  case False
  then have "\<lfloor>y\<rfloor> + 1 \<le> \<lfloor>z\<rfloor>" using assms floor_mono [of y z] by linarith
  moreover have "round_even y \<le> \<lfloor>y\<rfloor> + 1" "\<lfloor>z\<rfloor> \<le> round_even z" by (simp_all add: round_even_def Let_def)
  ultimately show ?thesis by linarith
qed

lemma fl_pos_bounds:
  assumes "0 < x"
  shows "2 powi (flexp x) \<le> fl_pos x" and "fl_pos x \<le> 2 powi (flexp x + 1)"
proof -
  let ?u = "2 powi (flexp x - 52) :: rat"
  have u: "0 < ?u" by simp
  have "2 powi (flexp x) = (2 ^ 52) * ?u" "2 powi (flexp x + 1) = (2 ^ 53) * ?u"
    by (simp_all add: power_int_diff power_int_add)
  then have s: "2 ^ 52 \<le> x / ?u" "x / ?u \<le> 2 ^ 53" "2 powi (flexp x) = of_int (2 ^ 52) * ?u" "2 powi (flexp x + 1) = of_int (2 ^ 53) * ?u"
    using flexp_bounds [OF assms] u by (simp_all add: pos_le_divide_eq pos_divide_le_eq)
  have "round_even (of_int (2 ^ 52)) \<le> round_even (x / ?u)" "round_even (x / ?u) \<le> round_even (of_int (2 ^ 53))"
    using s(1,2) by (intro round_even_mono; simp)+
  then have "2 ^ 52 \<le> round_even (x / ?u)" "round_even (x / ?u) \<le> 2 ^ 53" unfolding round_even_int by simp_all
  then have "(of_int (2 ^ 52) :: rat) \<le> of_int (round_even (x / ?u))" "(of_int (round_even (x / ?u)) :: rat) \<le> of_int (2 ^ 53)"
    by (simp_all only: of_int_le_iff)
  then show "2 powi (flexp x) \<le> fl_pos x" "fl_pos x \<le> 2 powi (flexp x + 1)"
    unfolding s(3,4) fl_pos_def Let_def using u by (intro mult_right_mono; simp)+
qed

lemma fl_pos_mono:
  assumes "0 < x" "x \<le> y"
  shows "fl_pos x \<le> fl_pos y"
proof (cases "flexp x = flexp y")
  case True
  have "x / 2 powi (flexp y - 52) \<le> y / 2 powi (flexp y - 52)" using assms by (intro divide_right_mono) simp_all
  then have "(of_int (round_even (x / 2 powi (flexp y - 52))) :: rat) \<le> of_int (round_even (y / 2 powi (flexp y - 52)))"
    using round_even_mono by simp
  then show ?thesis unfolding fl_pos_def True Let_def by (intro mult_right_mono) simp_all
next
  case False
  have y: "0 < y" using assms by simp
  have "(2 powi (flexp x) :: rat) < 2 powi (flexp y + 1)"
    using flexp_bounds(1) [OF assms(1)] flexp_bounds(2) [OF y] assms(2) by simp
  then have "flexp x < flexp y + 1" using power_int_increasing [of "flexp y + 1" "flexp x" "2 :: rat"] by (cases "flexp y + 1 \<le> flexp x") auto
  then have "flexp x + 1 \<le> flexp y" using False by simp
  then have "(2 powi (flexp x + 1) :: rat) \<le> 2 powi (flexp y)" by (intro power_int_increasing) simp_all
  then show ?thesis using fl_pos_bounds(2) [OF assms(1)] fl_pos_bounds(1) [OF y] by linarith
qed

text \<open>What the code relies on: rounding is monotone, and exact on the integers up to \<open>2 ^ 53\<close>.\<close>

lemma float64_mono: "0 \<le> x \<Longrightarrow> x \<le> y \<Longrightarrow> float64 x \<le> float64 y"
proof -
  assume "0 \<le> x" "x \<le> y"
  moreover have "0 \<le> fl_pos y" if "0 < y" using fl_pos_bounds(1) [OF that] by (rule order_trans [rotated]) simp
  ultimately show "float64 x \<le> float64 y" using fl_pos_mono [of x y] by (cases "x = 0") (auto simp: float64_def)
qed

lemma float64_int:
  assumes "0 \<le> n" "n \<le> 2 ^ 53"
  shows "float64 (of_int n) = of_int n"
proof (cases "n = 0")
  case False
  then have n: "0 < (of_int n :: rat)" using assms(1) by simp
  have "(2 powi (flexp (of_int n)) :: rat) \<le> of_int (2 ^ 53)" using flexp_bounds(1) [OF n] assms(2)
    by (metis of_int_le_iff order_trans)
  then have "(2 powi (flexp (of_int n)) :: rat) \<le> 2 powi 53" by simp
  then have e: "flexp (of_int n) \<le> 53" using power_int_strict_increasing [of 53 "flexp (of_int n)" "2 :: rat"] by (cases "53 < flexp (of_int n)") auto
  have "\<exists>m. (of_int n :: rat) / 2 powi (flexp (of_int n) - 52) = of_int m"
  proof (cases "flexp (of_int n) \<le> 52")
    case True
    then have "(2 powi (52 - flexp (of_int n)) :: rat) = of_int (2 ^ nat (52 - flexp (of_int n)))" by (simp add: power_int_def)
    moreover have "(2 powi (flexp (of_int n) - 52) :: rat) = inverse (2 powi (52 - flexp (of_int n)))"
      unfolding power_int_minus [symmetric] by simp
    ultimately have "(of_int n :: rat) / 2 powi (flexp (of_int n) - 52) = of_int (n * 2 ^ nat (52 - flexp (of_int n)))"
      by (simp only: divide_inverse inverse_inverse_eq of_int_mult)
    then show ?thesis by blast
  next
    case False
    then have e53: "flexp (of_int n) = 53" using e by simp
    then have "(of_int (2 ^ 53) :: rat) \<le> of_int n" using flexp_bounds(1) [OF n] by simp
    then have "n = 2 ^ 53" using assms(2) by linarith
    then show ?thesis using e53 by (auto intro!: exI [of _ "2 ^ 52"])
  qed
  then obtain m where m: "(of_int n :: rat) / 2 powi (flexp (of_int n) - 52) = of_int m" by blast
  have "fl_pos (of_int n) = of_int n" unfolding fl_pos_def Let_def m round_even_int using m by (simp add: field_simps)
  then show ?thesis using n by (simp add: float64_def)
qed (simp add: float64_def)

lemma float64_nonneg: "0 \<le> x \<Longrightarrow> 0 \<le> float64 x"
  using float64_mono [of 0 x] by (simp add: float64_def)

end
