(* ===== verification/Middleware.thy ===== *)
theory Middleware
  imports Authz OAuth2Rest Password AuditService GoFloat
begin

text \<open>
  Package internal/api/middleware: brute-force protection (bruteforce.go), the Redis-backed
  request limit (ratelimit.go), authentication, limits and auditing of the admin API
  (admin.go), permission checks (authz.go) and the fixed headers (security.go). A
  middleware answers \<^const>\<open>OK\<close> where it calls \<^verbatim>\<open>c.Next\<close> and \<^const>\<open>Refused\<close> where it aborts.
\<close>

section \<open>bruteforce.go\<close>

record Threshold =
  thr_Failures :: int
  thr_Cooldown :: duration
  thr_Lockout :: bool

definition bf_thresholds :: "Threshold list" where
  "bf_thresholds = [\<lparr>thr_Failures = 4, thr_Cooldown = 1 * time_Minute, thr_Lockout = False\<rparr>,
     \<lparr>thr_Failures = 6, thr_Cooldown = 5 * time_Minute, thr_Lockout = False\<rparr>,
     \<lparr>thr_Failures = 10, thr_Cooldown = 0, thr_Lockout = True\<rparr>]"

definition bf_userKey :: "string \<Rightarrow> string" where
  "bf_userKey username = ''bruteforce:user:'' @ username"

definition bf_ipKey :: "string \<Rightarrow> string" where
  "bf_ipKey ip = ''bruteforce:ip:'' @ ip"

text \<open>A command of a pipeline whose value is not read.\<close>

definition pipe_Incr :: "'r redis \<Rightarrow> time \<Rightarrow> string \<Rightarrow> 'r \<Rightarrow> 'r \<times> error option" where
  "pipe_Incr R now k st = (case r_Incr R st now k of (st1, Inl e) \<Rightarrow> (st1, Some e) | (st1, Inr _) \<Rightarrow> (st1, None))"

definition RecordFailure :: "'r redis \<Rightarrow> 'r \<Rightarrow> time \<Rightarrow> string \<Rightarrow> string \<Rightarrow> 'r \<times> unit result" where
  "RecordFailure R st now username ip =
     (case pipe_Exec [pipe_Incr R now (bf_userKey username), \<lambda>s. r_Expire R s now (bf_userKey username) (1 * time_Hour),
        pipe_Incr R now (bf_ipKey ip), \<lambda>s. r_Expire R s now (bf_ipKey ip) (24 * time_Hour)] st of
        (st1, None) \<Rightarrow> (st1, Inr ())
      | (st1, Some e) \<Rightarrow> (st1, Inl (Wrapf ''BruteForceProtector.RecordFailure: redis pipeline'' e)))"

definition RecordSuccess :: "'r redis \<Rightarrow> 'r \<Rightarrow> time \<Rightarrow> string \<Rightarrow> string \<Rightarrow> 'r \<times> unit result" where
  "RecordSuccess R st now username ip =
     (case pipe_Exec [\<lambda>s. r_Del R s now (bf_userKey username), \<lambda>s. r_Del R s now (bf_ipKey ip)] st of
        (st1, None) \<Rightarrow> (st1, Inr ())
      | (st1, Some e) \<Rightarrow> (st1, Inl (Wrapf ''BruteForceProtector.RecordSuccess: redis pipeline'' e)))"

text \<open>
  The text of a value read from Redis, empty where there is none; a JSON document is no
  number. A counter read back: \<^verbatim>\<open>strconv.Atoi\<close> with the error ignored.
\<close>

fun payload_text :: "payload \<Rightarrow> string" where
  "payload_text (Text s) = s"
| "payload_text _ = ''{}''"

definition bf_read :: "'r redis \<Rightarrow> 'r \<Rightarrow> time \<Rightarrow> string \<Rightarrow> string result" where
  "bf_read R st now k = (case r_Get R st now k of Inr v \<Rightarrow> Inr (payload_text v) | Inl e \<Rightarrow> if e = redis_Nil then Inr [] else Inl e)"

definition Atoi0 :: "string \<Rightarrow> int" where
  "Atoi0 s = (case strconv_Atoi s of None \<Rightarrow> 0 | Some n \<Rightarrow> n)"

definition TTL0 :: "'r redis \<Rightarrow> 'r \<Rightarrow> time \<Rightarrow> string \<Rightarrow> duration" where
  "TTL0 R st now k = (case r_TTL R st now k of Inl _ \<Rightarrow> 0 | Inr d \<Rightarrow> d)"

fun bf_decide :: "'r redis \<Rightarrow> 'r \<Rightarrow> time \<Rightarrow> string \<Rightarrow> int \<Rightarrow> Threshold list \<Rightarrow> bool \<times> duration" where
  "bf_decide R st now username maxCount [] = (False, 0)"
| "bf_decide R st now username maxCount (th # ths) =
     (if maxCount \<ge> thr_Failures th
      then if thr_Lockout th then (True, TTL0 R st now (bf_userKey username))
           else (let ttl = TTL0 R st now (''bruteforce:cooldown:'' @ username)
                 in if ttl > 0 then (True, ttl) else (True, TTL0 R st now (bf_userKey username)))
      else bf_decide R st now username maxCount ths)"

definition IsLocked :: "'r redis \<Rightarrow> 'r \<Rightarrow> time \<Rightarrow> string \<Rightarrow> string \<Rightarrow> (bool \<times> duration) result" where
  "IsLocked R st now username ip =
     (case bf_read R st now (bf_userKey username) of
        Inl e \<Rightarrow> Inl (Wrapf ''BruteForceProtector.IsLocked: redis get user'' e)
      | Inr userCountStr \<Rightarrow>
          (case bf_read R st now (bf_ipKey ip) of
             Inl e \<Rightarrow> Inl (Wrapf ''BruteForceProtector.IsLocked: redis get ip'' e)
           | Inr ipCountStr \<Rightarrow>
               (let userCount = (if userCountStr \<noteq> [] then Atoi0 userCountStr else 0);
                    ipCount = (if ipCountStr \<noteq> [] then Atoi0 ipCountStr else 0);
                    maxCount = (if ipCount > userCount then ipCount else userCount)
                in Inr (bf_decide R st now username maxCount bf_thresholds))))"

text \<open>
  The middleware: the identifier it notes for the handler (empty where the path is not
  guarded or Redis fails) or status 429 with the seconds to wait.
\<close>

datatype bf_outcome = BfNext string | BfLocked int

definition BruteForce_Middleware :: "'r redis \<Rightarrow> 'r \<Rightarrow> time \<Rightarrow> string \<Rightarrow> request \<Rightarrow> string \<Rightarrow> bf_outcome" where
  "BruteForce_Middleware R st now fullPath rq clientIP =
     (if fullPath \<noteq> ''/auth/login'' \<and> fullPath \<noteq> ''/oauth2/token'' then BfNext []
      else (let username = PostForm rq ''username''; clientID = PostForm rq ''client_id'';
                identifier1 = (if username = [] then clientID else username);
                identifier = (if identifier1 = [] then clientIP else identifier1)
            in case IsLocked R st now identifier clientIP of
                 Inl _ \<Rightarrow> BfNext []
               | Inr (locked, retryAfter) \<Rightarrow> if locked then BfLocked (whole_Seconds retryAfter + 1) else BfNext identifier))"

definition RecordLoginResult :: "'r redis \<Rightarrow> 'r \<Rightarrow> time \<Rightarrow> string \<Rightarrow> string \<Rightarrow> bool \<Rightarrow> 'r" where
  "RecordLoginResult R st now username ip success =
     (if success then fst (RecordSuccess R st now username ip) else fst (RecordFailure R st now username ip))"

section \<open>ratelimit.go\<close>

record RateLimitConfig =
  rlc_MaxRequests :: int
  rlc_Window :: duration

definition rl_limits :: "string \<Rightarrow> RateLimitConfig" where
  "rl_limits name =
     (if name = ''default'' then \<lparr>rlc_MaxRequests = 100, rlc_Window = time_Minute\<rparr>
      else if name = ''auth'' then \<lparr>rlc_MaxRequests = 10, rlc_Window = time_Minute\<rparr>
      else if name = ''admin'' then \<lparr>rlc_MaxRequests = 30, rlc_Window = time_Minute\<rparr>
      else \<lparr>rlc_MaxRequests = 0, rlc_Window = 0\<rparr>)"

text \<open>\<^verbatim>\<open>Time.Truncate\<close>: down to a multiple of the duration since the zero time, January 1 of the year 1.\<close>

definition time_Truncate :: "time \<Rightarrow> duration \<Rightarrow> time" where
  "time_Truncate t d = (if d \<le> 0 then t else t - (t + 62135596800 * time_Second) mod d)"

definition window_key :: "string \<Rightarrow> time \<Rightarrow> string" where
  "window_key key start = key @ '':'' @ strconv_Itoa (Unix start)"

text \<open>The weighted count of the previous window and the total, in floating point.\<close>

definition weighted_total :: "duration \<Rightarrow> duration \<Rightarrow> int \<Rightarrow> int \<Rightarrow> int" where
  "weighted_total elapsed window prevCount currentCount =
     (let weight = float64 (float64 (of_int elapsed) / float64 (of_int window));
          prevWeightedCount = float64 (float64 (of_int prevCount) * float64 (1 - weight))
      in float_int (float64 (float64 (of_int currentCount) + prevWeightedCount)))"

definition prev_count :: "'r redis \<Rightarrow> 'r \<Rightarrow> time \<Rightarrow> string \<Rightarrow> int" where
  "prev_count R st now k =
     (case r_Get R st now k of
        Inl _ \<Rightarrow> 0
      | Inr v \<Rightarrow> if payload_text v = [] then 0 else case scan_int (payload_text v) of None \<Rightarrow> 0 | Some (n, _) \<Rightarrow> n)"

text \<open>Allowed, remaining requests and the end of the window.\<close>

definition checkLimit :: "'r redis \<Rightarrow> 'r \<Rightarrow> time \<Rightarrow> string \<Rightarrow> RateLimitConfig \<Rightarrow> 'r \<times> (bool \<times> int \<times> time) result" where
  "checkLimit R st now key config =
     (let windowStart = time_Truncate now (rlc_Window config);
          resetTime = windowStart + rlc_Window config;
          currentWindowKey = window_key key windowStart;
          prevCount = prev_count R st now (window_key key (windowStart - rlc_Window config))
      in case r_Incr R st now currentWindowKey of (st1, incr) \<Rightarrow>
         (case r_Expire R st1 now currentWindowKey (rlc_Window config * 2) of (st2, err) \<Rightarrow>
           (case (incr, err) of
              (Inl e, _) \<Rightarrow> (st2, Inl (Wrapf ''redis pipeline'' e))
            | (Inr _, Some e) \<Rightarrow> (st2, Inl (Wrapf ''redis pipeline'' e))
            | (Inr currentCount, None) \<Rightarrow>
                (let totalCount = weighted_total (now - windowStart) (rlc_Window config) prevCount currentCount;
                     remaining = rlc_MaxRequests config - totalCount
                 in (st2, Inr (totalCount \<le> rlc_MaxRequests config, if remaining < 0 then 0 else remaining, resetTime))))))"

text \<open>The headers set and whether the request goes on; \<open>None\<close> is a limiter without Redis.\<close>

definition Limit :: "'r redis option \<Rightarrow> 'r \<Rightarrow> time \<Rightarrow> string \<Rightarrow> RateLimitConfig \<Rightarrow> 'r \<times> params \<times> bool" where
  "Limit rl st now identifier config =
     (case rl of
        None \<Rightarrow> (st, [], True)
      | Some R \<Rightarrow>
          (let lim_hdr = (''X-RateLimit-Limit'', strconv_Itoa (rlc_MaxRequests config))
           in case checkLimit R st now (''ratelimit:'' @ identifier) config of
                (st1, Inl _) \<Rightarrow> (st1, [lim_hdr], True)
              | (st1, Inr (allowed, remaining, resetTime)) \<Rightarrow>
                  (let hdrs = [lim_hdr, (''X-RateLimit-Remaining'', strconv_Itoa remaining), (''X-RateLimit-Reset'', strconv_Itoa (Unix resetTime))]
                   in if \<not> allowed
                      then (st1, hdrs @ [(''Retry-After'', strconv_Itoa (whole_Seconds (resetTime - now) + 1))], False)
                      else (st1, hdrs, True))))"

definition IPLimit :: "'r redis option \<Rightarrow> 'r \<Rightarrow> time \<Rightarrow> 'r \<times> params \<times> bool" where
  "IPLimit rl st now = Limit rl st now ''ip:default'' (rl_limits ''default'')"

definition AuthLimit :: "'r redis option \<Rightarrow> 'r \<Rightarrow> time \<Rightarrow> 'r \<times> params \<times> bool" where
  "AuthLimit rl st now = Limit rl st now ''ip:auth'' (rl_limits ''auth'')"

definition AdminLimit :: "'r redis option \<Rightarrow> 'r \<Rightarrow> time \<Rightarrow> 'r \<times> params \<times> bool" where
  "AdminLimit rl st now = Limit rl st now ''ip:admin'' (rl_limits ''admin'')"

section \<open>admin.go\<close>

record AdminAuthConfig =
  aac_RateLimit :: int
  aac_BurstLimit :: int
  aac_AllowedRoles :: "string list"
  aac_RequireOrgMatch :: bool

definition DefaultAdminAuthConfig :: AdminAuthConfig where
  "DefaultAdminAuthConfig = \<lparr>aac_RateLimit = 10, aac_BurstLimit = 20, aac_AllowedRoles = [''admin'', ''super_admin''], aac_RequireOrgMatch = True\<rparr>"

text \<open>The limiter: the parameters, and the instants of the admitted requests per key.\<close>

record AdminRateLimiter =
  arl_rateLimit :: int
  arl_burst :: int
  arl_window :: duration

type_synonym arl_tokens = "(string \<times> time list) list"

definition NewAdminRateLimiter :: "int \<Rightarrow> int \<Rightarrow> AdminRateLimiter" where
  "NewAdminRateLimiter rateLimit burst = \<lparr>arl_rateLimit = rateLimit, arl_burst = burst, arl_window = time_Second\<rparr>"

definition Allow :: "AdminRateLimiter \<Rightarrow> arl_tokens \<Rightarrow> time \<Rightarrow> string \<Rightarrow> arl_tokens \<times> bool" where
  "Allow r tokens now key =
     (let windowStart = now - arl_window r;
          valid = filter (\<lambda>t. windowStart < t) (case map_of tokens key of None \<Rightarrow> [] | Some ts \<Rightarrow> ts)
      in if int (length valid) \<ge> arl_burst r then (AList.update key valid tokens, False)
         else (AList.update key (valid @ [now]) tokens, True))"

text \<open>\<open>claims\<close>: what the bearer middleware stored in the context, if it ran.\<close>

definition AdminAuth ::
  "AdminAuthConfig \<Rightarrow> arl_tokens \<Rightarrow> time \<Rightarrow> string \<Rightarrow> request \<Rightarrow> Claims option \<Rightarrow> arl_tokens \<times> unit response" where
  "AdminAuth cfg tokens now ip rq claims =
     (case Allow (NewAdminRateLimiter (aac_RateLimit cfg) (aac_BurstLimit cfg)) tokens now ip of
        (tokens1, False) \<Rightarrow> (tokens1, Refused 429 ''rate limit exceeded'')
      | (tokens1, True) \<Rightarrow>
          (tokens1,
           if rq_Authorization rq = [] \<or> length (rq_Authorization rq) < 8 then Refused 401 ''invalid_token''
           else (case claims of
               None \<Rightarrow> Refused 401 ''invalid_token''
             | Some c \<Rightarrow>
                 if \<not> list_ex (\<lambda>role. strings_ToLower role \<in> set (aac_AllowedRoles cfg)) (c_Roles c) then Refused 403 ''permission denied''
                 else if aac_RequireOrgMatch cfg
                 then (let orgID = gin_Query (rq_query rq) ''org_id''
                       in if c_OrgID c = []
                          then if \<not> list_ex (\<lambda>role. strings_ToLower role = ''super_admin'') (c_Roles c) then Refused 403 ''org binding required'' else OK ()
                          else if orgID \<noteq> [] \<and> orgID \<noteq> c_OrgID c then Refused 403 ''org mismatch''
                          else OK ())
                 else OK ())))"

definition GetActorFromContext :: "uuid_pkg \<Rightarrow> Claims option \<Rightarrow> uuid \<times> string" where
  "GetActorFromContext U claims =
     (case claims of None \<Rightarrow> (uuid_Nil, []) | Some c \<Rightarrow> (uuid_Parse0 U (c_Subject c), c_Email c))"

text \<open>The parts of a path between slashes, without the empty ones.\<close>

definition extractResourceType :: "string \<Rightarrow> string" where
  "extractResourceType path =
     (if length path < 2 then []
      else (let parts = filter (\<lambda>p. p \<noteq> []) (strings_Split path (CHR ''/''))
            in if length parts \<ge> 2 \<and> parts ! 0 = ''admin'' then parts ! 1 else []))"

text \<open>After the handler, unless it aborted: the entry written to the audit log.\<close>

definition LogAdminAction ::
  "uuid_pkg \<Rightarrow> Claims option \<Rightarrow> bool \<Rightarrow> request \<Rightarrow> string \<Rightarrow> string \<Rightarrow> string \<Rightarrow> string \<Rightarrow> string \<Rightarrow> LogInput option" where
  "LogAdminAction U claims aborted rq method path idParam clientIP userAgent =
     (if aborted then None
      else (let (actorID, actorEmail) = GetActorFromContext U claims; orgStr = gin_Query (rq_query rq) ''org_id''
            in Some (LogInput0\<lparr>li_OrgID := (if orgStr \<noteq> [] then uuid_Parse0 U orgStr else uuid_Nil), li_ActorID := actorID,
                 li_ActorEmail := actorEmail, li_Action := method @ '' '' @ path, li_ResourceType := extractResourceType path,
                 li_ResourceID := idParam, li_IPAddress := clientIP, li_UserAgent := userAgent\<rparr>)))"

section \<open>authz.go\<close>

text \<open>The values in the request context, \<open>None\<close> where one is absent or of another type.\<close>

record context_values =
  cv_user_id :: "string option"
  cv_org_id :: "string option"
  cv_branch_id :: "string option"
  cv_permissions :: "string list option"
  cv_branch_scope :: "string option"

definition ctx_uuid :: "uuid_pkg \<Rightarrow> string option \<Rightarrow> uuid" where
  "ctx_uuid U v = (case v of None \<Rightarrow> uuid_Nil | Some s \<Rightarrow> uuid_Parse0 U s)"

definition extractAuthContext :: "uuid_pkg \<Rightarrow> context_values \<Rightarrow> AuthContext" where
  "extractAuthContext U cv =
     \<lparr>actx_UserID = ctx_uuid U (cv_user_id cv), actx_OrgID = ctx_uuid U (cv_org_id cv), actx_BranchID = ctx_uuid U (cv_branch_id cv),
      actx_Roles = [], actx_Permissions = (case cv_permissions cv of None \<Rightarrow> [] | Some ps \<Rightarrow> ps),
      actx_BranchScope = (case cv_branch_scope cv of Some s \<Rightarrow> if s \<in> {''own'', ''assigned'', ''all''} then s else ''assigned'' | None \<Rightarrow> ''assigned''),
      actx_FieldMasks = [], actx_Attributes = None\<rparr>"

definition RequirePermission :: "uuid_pkg \<Rightarrow> context_values \<Rightarrow> string \<Rightarrow> unit response" where
  "RequirePermission U cv permission =
     (let result = CheckPermission (Some (extractAuthContext U cv)) permission
      in if \<not> res_Allowed result then Refused 403 (res_Reason result) else OK ())"

fun RequirePermissions :: "uuid_pkg \<Rightarrow> context_values \<Rightarrow> string list \<Rightarrow> unit response" where
  "RequirePermissions U cv [] = OK ()"
| "RequirePermissions U cv (perm # perms) =
     (let result = CheckPermission (Some (extractAuthContext U cv)) perm
      in if \<not> res_Allowed result then Refused 403 (res_Reason result) else RequirePermissions U cv perms)"

definition RequireAnyPermission :: "uuid_pkg \<Rightarrow> context_values \<Rightarrow> string list \<Rightarrow> unit response" where
  "RequireAnyPermission U cv permissions =
     (if list_ex (\<lambda>perm. res_Allowed (CheckPermission (Some (extractAuthContext U cv)) perm)) permissions then OK ()
      else Refused 403 ''no matching permission'')"

definition RequireBranchAccess :: "uuid_pkg \<Rightarrow> context_values \<Rightarrow> string \<Rightarrow> unit response" where
  "RequireBranchAccess U cv branchIDStr =
     (if branchIDStr = [] then Refused 400 ''branch_id required''
      else (case uuid_Parse U branchIDStr of
          None \<Rightarrow> Refused 400 ''invalid branch_id''
        | Some branchID \<Rightarrow>
            (let result = CheckBranchScope (extractAuthContext U cv) branchID
             in if \<not> res_Allowed result then Refused 403 (res_Reason result) else OK ())))"

text \<open>Where the checker fails there is no result, and reading its reason panics (answered with 500).\<close>

definition RequireFourLayer ::
  "uuid_pkg \<Rightarrow> 'p PermissionChecker \<Rightarrow> time \<Rightarrow> OperationalHours cache \<times> 'p \<Rightarrow> context_values \<Rightarrow> AuthParams \<Rightarrow>
     (OperationalHours cache \<times> 'p) \<times> unit response" where
  "RequireFourLayer U checker now s cv params =
     (case Authorize checker now s (extractAuthContext U cv) params of
        (s', Inl _) \<Rightarrow> (s', Refused 500 [])
      | (s', Inr result) \<Rightarrow> (s', if \<not> res_Allowed result then Refused 403 (res_Reason result) else OK ()))"

definition BuildAuthContext :: "uuid \<Rightarrow> uuid \<Rightarrow> uuid \<Rightarrow> AuthContext" where
  "BuildAuthContext userID orgID branchID =
     \<lparr>actx_UserID = userID, actx_OrgID = orgID, actx_BranchID = branchID, actx_Roles = [], actx_Permissions = [],
      actx_BranchScope = ''assigned'', actx_FieldMasks = [], actx_Attributes = None\<rparr>"

definition ParseTokenFromHeader :: "string \<Rightarrow> string" where
  "ParseTokenFromHeader authHeader =
     (if authHeader = [] then []
      else (let parts = strings_SplitN2 authHeader (CHR '' '')
            in if length parts \<noteq> 2 \<or> strings_ToLower (parts ! 0) \<noteq> ''bearer'' then [] else parts ! 1))"

section \<open>security.go\<close>

definition SecurityHeaders :: "string \<Rightarrow> params" where
  "SecurityHeaders requestID =
     [(''Strict-Transport-Security'', ''max-age=31536000; includeSubDomains; preload''),
      (''Content-Security-Policy'', ''default-src '' @ [CHR 0x27] @ ''self'' @ [CHR 0x27] @ ''; frame-ancestors '' @ [CHR 0x27] @ ''none'' @ [CHR 0x27]),
      (''X-Frame-Options'', ''DENY''), (''X-Content-Type-Options'', ''nosniff''), (''X-XSS-Protection'', ''1; mode=block''),
      (''Referrer-Policy'', ''strict-origin-when-cross-origin''), (''Permissions-Policy'', ''camera=(), microphone=(), geolocation=()''),
      (''X-Request-ID'', requestID)]"

definition CORSMiddleware :: "string \<Rightarrow> params \<times> bool" where
  "CORSMiddleware method =
     ([(''Access-Control-Allow-Origin'', ''*''), (''Access-Control-Allow-Methods'', ''GET, POST, PUT, PATCH, DELETE, OPTIONS''),
       (''Access-Control-Allow-Headers'', ''Origin, Content-Type, Accept, Authorization, X-Request-ID''),
       (''Access-Control-Expose-Headers'', ''X-Request-ID''), (''Access-Control-Max-Age'', ''86400'')],
      method \<noteq> ''OPTIONS'')"

end
