(* ===== verification/MiddlewareProps.thy ===== *)
theory MiddlewareProps
  imports Middleware
begin

text \<open>
  What the limits of the middleware guarantee: the burst limit of the admin API is a
  sliding window, the Redis-backed limit bounds the requests per window, and failures
  lock an account or an address.
\<close>

section \<open>The burst limit of the admin API\<close>

text \<open>A sequence of requests, from an empty limiter: its tokens and the log of admitted requests.\<close>

definition admit :: "AdminRateLimiter \<Rightarrow> arl_tokens \<times> (string \<times> time) list \<Rightarrow> string \<times> time \<Rightarrow> arl_tokens \<times> (string \<times> time) list" where
  "admit r s call = (case Allow r (fst s) (snd call) (fst call) of (tokens, ok) \<Rightarrow> (tokens, if ok then snd s @ [call] else snd s))"

definition admitted :: "AdminRateLimiter \<Rightarrow> (string \<times> time) list \<Rightarrow> arl_tokens \<times> (string \<times> time) list" where
  "admitted r calls = foldl (admit r) ([], []) calls"

text \<open>The admitted requests of a key in the window that ends at \<open>t\<close>.\<close>

definition recent :: "duration \<Rightarrow> (string \<times> time) list \<Rightarrow> string \<Rightarrow> time \<Rightarrow> time list" where
  "recent w entries key t = map snd (filter (\<lambda>(k, s). k = key \<and> t - w < s \<and> s \<le> t) entries)"

abbreviation tokens_of :: "arl_tokens \<Rightarrow> string \<Rightarrow> time list" where
  "tokens_of tokens key \<equiv> (case map_of tokens key of None \<Rightarrow> [] | Some ts \<Rightarrow> ts)"

text \<open>At an instant no earlier than every request, the tokens that count are the recent requests.\<close>

definition tokens_exact :: "duration \<Rightarrow> arl_tokens \<times> (string \<times> time) list \<Rightarrow> time \<Rightarrow> bool" where
  "tokens_exact w s now \<longleftrightarrow> (\<forall>key. filter (\<lambda>t. now - w < t) (tokens_of (fst s) key) = recent w (snd s) key now) \<and> (\<forall>c \<in> set (snd s). snd c \<le> now)"

lemma recent_later:
  assumes "now \<le> t" "\<forall>c \<in> set entries. snd c \<le> now"
  shows "recent w entries key t = filter (\<lambda>s. t - w < s) (recent w entries key now)"
  using assms by (induction entries) (auto simp: recent_def)

lemma tokens_exact_later: "tokens_exact w s now \<Longrightarrow> now \<le> t \<Longrightarrow> tokens_exact w s t"
proof -
  assume e: "tokens_exact w s now" and t: "now \<le> t"
  have "filter (\<lambda>x. t - w < x) (tokens_of (fst s) key) = recent w (snd s) key t" for key
  proof -
    have "filter (\<lambda>x. t - w < x) (tokens_of (fst s) key) = filter (\<lambda>x. t - w < x) (filter (\<lambda>x. now - w < x) (tokens_of (fst s) key))"
      using t by (auto intro!: filter_cong)
    also have "\<dots> = recent w (snd s) key t" using e recent_later [OF t, of "snd s" w key] by (simp add: tokens_exact_def)
    finally show ?thesis .
  qed
  then show "tokens_exact w s t" using e t unfolding tokens_exact_def by force
qed

lemma Allow_exact:
  assumes "tokens_exact (arl_window r) s now"
  shows "snd (Allow r (fst s) now key) \<longleftrightarrow> int (length (recent (arl_window r) (snd s) key now)) < arl_burst r"
  using assms by (simp add: Allow_def tokens_exact_def Let_def not_le)

lemma admit_exact:
  assumes e: "tokens_exact (arl_window r) s now" and w: "0 < arl_window r"
  shows "tokens_exact (arl_window r) (admit r s (key, now)) now"
proof -
  let ?w = "arl_window r" and ?s' = "admit r s (key, now)"
  have valid: "filter (\<lambda>t. now - ?w < t) (tokens_of (fst s) key) = recent ?w (snd s) key now" using e by (simp add: tokens_exact_def)
  have "filter (\<lambda>t. now - ?w < t) (tokens_of (fst ?s') k) = recent ?w (snd ?s') k now" for k
    using e w by (cases "k = key") (simp_all add: admit_def Allow_def Let_def valid update_conv' recent_def tokens_exact_def)
  then show ?thesis using e by (auto simp: tokens_exact_def admit_def split: prod.splits)
qed

text \<open>
  C31: The burst limit of the admin API is an exact sliding window. For requests in the
  order of time, a request of a key is admitted if and only if fewer than the burst
  limit of its requests were admitted in the second before it; so in every window of one
  second at most that many requests of a key are admitted, and requests of one key never
  block another. The rate of ten requests per second of the configuration plays no part.
\<close>

theorem admin_burst_limit:
  assumes "sorted (map snd calls)" and "\<forall>c \<in> set calls. snd c \<le> now" and "0 \<le> burst"
  shows "(snd (Allow (NewAdminRateLimiter rate burst) (fst (admitted (NewAdminRateLimiter rate burst) calls)) now key) \<longleftrightarrow>
      int (length (recent time_Second (snd (admitted (NewAdminRateLimiter rate burst) calls)) key now)) < burst) \<and>
    (\<forall>k t. int (length (recent time_Second (snd (admitted (NewAdminRateLimiter rate burst) calls)) k t)) \<le> burst)"
proof -
  let ?r = "NewAdminRateLimiter rate burst"
  have w: "arl_window ?r = time_Second" "arl_burst ?r = burst" by (simp_all add: NewAdminRateLimiter_def)
  have run: "tokens_exact time_Second (admitted ?r calls) now \<and> (\<forall>k t. int (length (recent time_Second (snd (admitted ?r calls)) k t)) \<le> burst)"
    using assms(1,2)
  proof (induction calls arbitrary: now rule: rev_induct)
    case Nil
    then show ?case using assms(3) by (simp add: admitted_def tokens_exact_def recent_def)
  next
    case (snoc c calls)
    obtain k0 t0 where c: "c = (k0, t0)" by fastforce
    let ?s = "admitted ?r calls"
    have ord: "sorted (map snd calls)" "\<forall>d \<in> set calls. snd d \<le> t0" "t0 \<le> now" using snoc.prems by (auto simp: c sorted_append)
    have IH: "tokens_exact time_Second ?s t0" "\<forall>k t. int (length (recent time_Second (snd ?s) k t)) \<le> burst" using snoc.IH ord by simp_all
    have step: "admitted ?r (calls @ [c]) = admit ?r ?s (k0, t0)" by (simp add: admitted_def c)
    have "tokens_exact time_Second (admit ?r ?s (k0, t0)) t0" using admit_exact [of ?r ?s t0 k0] IH(1) w by simp
    moreover have "int (length (recent time_Second (snd (admit ?r ?s (k0, t0))) k t)) \<le> burst" for k t
    proof (cases "snd (Allow ?r (fst ?s) t0 k0) \<and> k = k0 \<and> t - time_Second < t0 \<and> t0 \<le> t")
      case True
      then have lt: "int (length (recent time_Second (snd ?s) k0 t0)) < burst" using Allow_exact [of ?r ?s t0 k0] IH(1) w by simp
      have "\<forall>d \<in> set (snd ?s). snd d \<le> t0" using IH(1) by (simp add: tokens_exact_def)
      then have "length (recent time_Second (snd ?s) k0 t) \<le> length (recent time_Second (snd ?s) k0 t0)"
        using recent_later [of t0 t "snd ?s" time_Second k0] True by simp
      then show ?thesis using True lt by (auto simp: admit_def recent_def split: prod.splits)
    next
      case False
      then have "recent time_Second (snd (admit ?r ?s (k0, t0))) k t = recent time_Second (snd ?s) k t"
        by (auto simp: admit_def recent_def split: prod.splits)
      then show ?thesis using IH(2) by simp
    qed
    ultimately show ?case unfolding step using tokens_exact_later [OF _ ord(3)] by blast
  qed
  then show ?thesis using Allow_exact [of ?r "admitted ?r calls" now key] w by simp
qed

theorem admin_burst_limit_witness:
  "\<not> snd (Allow (NewAdminRateLimiter 10 2) (fst (admitted (NewAdminRateLimiter 10 2) [(''a'', 1), (''a'', 5), (''b'', 6)])) 7 ''a'') \<and>
   snd (Allow (NewAdminRateLimiter 10 2) (fst (admitted (NewAdminRateLimiter 10 2) [(''a'', 1), (''a'', 5), (''b'', 6)])) 1000000002 ''a'')"
proof -
  let ?r = "NewAdminRateLimiter 10 2" and ?calls = "[(''a'', 1), (''a'', 5), (''b'', 6)] :: (string \<times> time) list"
  have "length (recent time_Second (snd (admitted ?r ?calls)) ''a'' 7) = 2" "length (recent time_Second (snd (admitted ?r ?calls)) ''a'' 1000000002) = 1"
    by code_simp+
  then show ?thesis
    using admin_burst_limit [of ?calls 7 2 10 "''a''"] admin_burst_limit [of ?calls 1000000002 2 10 "''a''"] by simp
qed

section \<open>The requests of a window\<close>

lemma weighted_total_bounds:
  assumes "0 \<le> elapsed" "elapsed \<le> window" "0 < window" "window \<le> 2 ^ 53" "0 \<le> prev" "0 \<le> cur" "prev + cur \<le> 2 ^ 53"
  shows "cur \<le> weighted_total elapsed window prev cur" and "weighted_total elapsed window prev cur \<le> cur + prev"
proof -
  have int: "float64 (of_int elapsed) = of_int elapsed" "float64 (of_int window) = of_int window" "float64 (of_int prev) = of_int prev"
      "float64 (of_int cur) = of_int cur" "float64 (of_int (cur + prev)) = of_int (cur + prev)" "float64 1 = 1"
    using assms float64_int [of 1] by (simp_all add: float64_int del: of_int_add)
  define wgt where "wgt = float64 (of_int elapsed / of_int window)"
  have "0 \<le> (of_int elapsed / of_int window :: rat)" "(of_int elapsed / of_int window :: rat) \<le> 1" using assms by (simp_all add: divide_le_eq_1)
  then have wgt: "0 \<le> wgt" "wgt \<le> 1" unfolding wgt_def using float64_nonneg float64_mono [of _ 1] int(6) by fastforce+
  define k where "k = float64 (1 - wgt)"
  have k: "0 \<le> k" "k \<le> 1" unfolding k_def using wgt float64_nonneg [of "1 - wgt"] float64_mono [of "1 - wgt" 1] int(6) by simp_all
  define pw where "pw = float64 (of_int prev * k)"
  have "0 \<le> of_int prev * k" "of_int prev * k \<le> of_int prev" using k assms(5) by (simp_all add: mult_left_le)
  then have pw: "0 \<le> pw" "pw \<le> of_int prev" unfolding pw_def using float64_nonneg float64_mono [of "of_int prev * k" "of_int prev"] int(3) by simp_all
  have "0 \<le> (of_int cur :: rat)" "of_int cur \<le> of_int cur + pw" "of_int cur + pw \<le> of_int (cur + prev)" using assms(6) pw by simp_all
  then have total: "of_int cur \<le> float64 (of_int cur + pw)" "float64 (of_int cur + pw) \<le> of_int (cur + prev)"
    using float64_mono [of "of_int cur" "of_int cur + pw"] float64_mono [of "of_int cur + pw" "of_int (cur + prev)"] int(4,5) by simp_all
  have "weighted_total elapsed window prev cur = \<lfloor>float64 (of_int cur + pw)\<rfloor>"
    unfolding weighted_total_def Let_def int pw_def k_def wgt_def [symmetric]
    using total(1) assms(6) unfolding pw_def k_def by (simp add: float_int_def)
  then show "cur \<le> weighted_total elapsed window prev cur" "weighted_total elapsed window prev cur \<le> cur + prev"
    using total by (simp_all add: le_floor_iff floor_le_iff)
qed

text \<open>The answers to requests for one key at the instants \<open>ts\<close>.\<close>

fun limit_run :: "'r redis \<Rightarrow> string \<Rightarrow> RateLimitConfig \<Rightarrow> 'r \<Rightarrow> time list \<Rightarrow> (bool \<times> int \<times> time) result list" where
  "limit_run R key config st [] = []"
| "limit_run R key config st (t # ts) = (case checkLimit R st t key config of (st1, res) \<Rightarrow> res # limit_run R key config st1 ts)"

text \<open>A counter as the server shows it at an instant.\<close>

definition counter_at :: "('r \<Rightarrow> time \<Rightarrow> string \<Rightarrow> payload option) \<Rightarrow> ('r \<Rightarrow> time \<Rightarrow> string \<Rightarrow> string set) \<Rightarrow> 'r \<Rightarrow> time \<Rightarrow> string \<Rightarrow> int \<Rightarrow> bool" where
  "counter_at kv smem st t k n \<longleftrightarrow>
     (if n = 0 then kv st t k = None \<and> smem st t k = {} else 0 < n \<and> n < 2 ^ 62 \<and> kv st t k = Some (Text (strconv_Itoa n)))"

context redis_server
begin

lemma incr_counter:
  assumes "up st" "counter_at kv smem st now k n"
  shows "snd (r_Incr R st now k) = Inr (n + 1)" "up (fst (r_Incr R st now k))" "kv (fst (r_Incr R st now k)) now k = Some (Text (strconv_Itoa (n + 1)))"
proof -
  have "snd (r_Incr R st now k) = Inr (n + 1) \<and> up (fst (r_Incr R st now k)) \<and> kv (fst (r_Incr R st now k)) now k = Some (Text (strconv_Itoa (n + 1)))"
  proof (cases "n = 0")
    case True
    then show ?thesis using incr_new [OF assms(1), of now k] assms(2) by (simp add: counter_at_def)
  next
    case False
    then have "kv st now k = Some (Text (strconv_Itoa n))" "0 < n" "n < 2 ^ 62" using assms(2) by (simp_all add: counter_at_def)
    then show ?thesis using incr_old [OF assms(1), of now k "strconv_Itoa n" n] Atoi_Itoa [of n] by simp
  qed
  then show "snd (r_Incr R st now k) = Inr (n + 1)" "up (fst (r_Incr R st now k))" "kv (fst (r_Incr R st now k)) now k = Some (Text (strconv_Itoa (n + 1)))"
    by blast+
qed

text \<open>INCR and EXPIRE, as the limiters issue them: the counter goes up and lives for \<open>d\<close>; other keys stay.\<close>

lemma count_up:
  assumes up: "up st" and n: "counter_at kv smem st now k n" "n + 1 < 2 ^ 62" and d: "0 < d"
    and st': "st' = fst (r_Expire R (fst (r_Incr R st now k)) now k d)"
  shows "up st'" "\<lbrakk>now \<le> t; t < now + d\<rbrakk> \<Longrightarrow> counter_at kv smem st' t k (n + 1)"
    "\<lbrakk>now \<le> t; k' \<noteq> k\<rbrakk> \<Longrightarrow> kv st' t k' = kv st t k' \<and> smem st' t k' = smem st t k'"
proof -
  note inc = incr_counter [OF up n(1)]
  have "0 < n + 1" using n(1) by (auto simp: counter_at_def split: if_splits)
  then show "up st'" "\<lbrakk>now \<le> t; t < now + d\<rbrakk> \<Longrightarrow> counter_at kv smem st' t k (n + 1)"
    using inc n(2) d expire_kv [OF inc(2), of now t d k k] by (simp_all add: st' counter_at_def)
  assume t: "now \<le> t" and k': "k' \<noteq> k"
  show "kv st' t k' = kv st t k' \<and> smem st' t k' = smem st t k'"
    using incr_other [OF up t k'] expire_kv [OF inc(2) t d, of k k'] expire_smem [OF inc(2) t d, of k k'] k' by (simp add: st')
qed

lemma counter_read:
  assumes "up st" "counter_at kv smem st now k n" "smem st now k = {}"
  shows "prev_count R st now k = n"
proof (cases "n = 0")
  case True
  then show ?thesis using get [OF assms(1,3)] assms(2) by (simp add: prev_count_def counter_at_def)
next
  case False
  then have "kv st now k = Some (Text (strconv_Itoa n))" "0 < n" "n < 2 ^ 62" using assms(2) by (simp_all add: counter_at_def)
  moreover have "strconv_Itoa n \<noteq> []" using print_nat_nonempty by (simp add: strconv_Itoa_def)
  ultimately show ?thesis using get [OF assms(1,3)] scan_int_Itoa [of n] by (simp add: prev_count_def)
qed

end

lemma Itoa_inject: "strconv_Itoa i = strconv_Itoa j \<Longrightarrow> - (2 ^ 63) \<le> i \<Longrightarrow> i < 2 ^ 63 \<Longrightarrow> - (2 ^ 63) \<le> j \<Longrightarrow> j < 2 ^ 63 \<Longrightarrow> i = j"
  by (metis Atoi_Itoa option.inject)

lemma Truncate_bounds: "0 < w \<Longrightarrow> time_Truncate t w \<le> t \<and> t < time_Truncate t w + w"
  by (simp add: time_Truncate_def)

lemma window_keys_differ:
  assumes "time_Second \<le> w" "\<bar>start\<bar> < 2 ^ 62" "\<bar>start - w\<bar> < 2 ^ 62"
  shows "window_key key (start - w) \<noteq> window_key key start"
proof
  assume "window_key key (start - w) = window_key key start"
  moreover have "\<bar>Unix t\<bar> < 2 ^ 62" if "\<bar>t\<bar> < 2 ^ 62" for t using that by (auto simp: Unix_def)
  ultimately have "Unix (start - w) = Unix start" using Itoa_inject [of "Unix (start - w)" "Unix start"] assms(2,3) by (fastforce simp: window_key_def)
  moreover have "Unix (start - w) \<le> Unix (start - time_Second)" using assms(1) by (intro Unix_mono) simp
  ultimately show False using Unix_add_seconds [of start "- 1"] by simp
qed

lemma counter_at_cong: "kv st' t k = kv st t k \<Longrightarrow> smem st' t k = smem st t k \<Longrightarrow> counter_at kv smem st' t k n = counter_at kv smem st t k n"
  by (simp add: counter_at_def)

context redis_server
begin

text \<open>One request: its number in the window, and the server after it.\<close>

lemma checkLimit_step:
  assumes up: "up st" and start: "time_Truncate now w = start" and w: "time_Second \<le> w" "w \<le> 2 ^ 53" "\<bar>start\<bar> < 2 ^ 62" "\<bar>start - w\<bar> < 2 ^ 62"
    and cur: "counter_at kv smem st now (window_key key start) n" "n + 1 + p \<le> 2 ^ 53"
    and prev: "counter_at kv smem st now (window_key key (start - w)) q" "smem st now (window_key key (start - w)) = {}" "q \<le> p"
    and run: "checkLimit R st now key \<lparr>rlc_MaxRequests = m, rlc_Window = w\<rparr> = (st', res)"
  shows "\<exists>total. res = Inr (total \<le> m, max 0 (m - total), start + w) \<and> n + 1 \<le> total \<and> total \<le> n + 1 + q"
    "up st'" "\<lbrakk>now \<le> t; t < now + w * 2\<rbrakk> \<Longrightarrow> counter_at kv smem st' t (window_key key start) (n + 1)"
    "\<lbrakk>now \<le> t; k' \<noteq> window_key key start\<rbrakk> \<Longrightarrow> kv st' t k' = kv st t k' \<and> smem st' t k' = smem st t k'"
proof -
  let ?K = "window_key key start"
  have n: "0 \<le> n" "n + 1 < 2 ^ 62" and q: "0 \<le> q" using cur prev(1,3) by (auto simp: counter_at_def split: if_splits)
  have d: "0 < w * 2" using w(1) by simp
  note inc = incr_counter [OF up cur(1)]
  have st': "st' = fst (r_Expire R (fst (r_Incr R st now ?K)) now ?K (w * 2))"
    and res: "res = (let total = weighted_total (now - start) w q (n + 1) in Inr (total \<le> m, if m - total < 0 then 0 else m - total, start + w))"
  proof -
    obtain st1 where st1: "r_Incr R st now ?K = (st1, Inr (n + 1))" using inc(1) by (metis prod.collapse)
    obtain st2 where st2: "r_Expire R st1 now ?K (w * 2) = (st2, None)" using write_noerr(3) [OF inc(2), of now ?K "w * 2"] st1 by (metis fst_conv prod.collapse)
    have "checkLimit R st now key \<lparr>rlc_MaxRequests = m, rlc_Window = w\<rparr> =
        (st2, let total = weighted_total (now - start) w q (n + 1) in Inr (total \<le> m, if m - total < 0 then 0 else m - total, start + w))"
      unfolding checkLimit_def by (simp add: start Let_def st1 st2 counter_read [OF up prev(1,2)])
    then show "st' = fst (r_Expire R (fst (r_Incr R st now ?K)) now ?K (w * 2))"
      "res = (let total = weighted_total (now - start) w q (n + 1) in Inr (total \<le> m, if m - total < 0 then 0 else m - total, start + w))"
      using run st1 st2 by simp_all
  qed
  have b: "start \<le> now" "now < start + w" using Truncate_bounds [of w now] start w(1) by simp_all
  have "n + 1 \<le> weighted_total (now - start) w q (n + 1)" "weighted_total (now - start) w q (n + 1) \<le> n + 1 + q"
    using weighted_total_bounds [of "now - start" w q "n + 1"] b w n(1) q cur(2) prev(3) by simp_all
  then show "\<exists>total. res = Inr (total \<le> m, max 0 (m - total), start + w) \<and> n + 1 \<le> total \<and> total \<le> n + 1 + q"
    unfolding res Let_def by (intro exI [of _ "weighted_total (now - start) w q (n + 1)"]) (simp add: max_def)
  show "up st'" "\<lbrakk>now \<le> t; t < now + w * 2\<rbrakk> \<Longrightarrow> counter_at kv smem st' t ?K (n + 1)"
    "\<lbrakk>now \<le> t; k' \<noteq> ?K\<rbrakk> \<Longrightarrow> kv st' t k' = kv st t k' \<and> smem st' t k' = smem st t k'"
    using count_up [OF up cur(1) n(2) d st'] by blast+
qed

lemma limit_run_window:
  assumes "up st" "sorted ts" "\<forall>t \<in> set ts. time_Truncate t w = start" "time_Second \<le> w" "w \<le> 2 ^ 53" "\<bar>start\<bar> < 2 ^ 62" "\<bar>start - w\<bar> < 2 ^ 62"
    and "\<forall>t \<in> set ts. counter_at kv smem st t (window_key key start) n" "0 \<le> n" "n + int (length ts) + p \<le> 2 ^ 53"
    and "\<forall>t \<in> set ts. smem st t (window_key key (start - w)) = {} \<and> (\<exists>q \<le> p. counter_at kv smem st t (window_key key (start - w)) q)"
    and "i < length ts"
  shows "\<exists>total. limit_run R key \<lparr>rlc_MaxRequests = m, rlc_Window = w\<rparr> st ts ! i = Inr (total \<le> m, max 0 (m - total), start + w) \<and>
     n + int i + 1 \<le> total \<and> total \<le> n + int i + 1 + p"
  using assms
proof (induction ts arbitrary: st n i)
  case (Cons now ts)
  obtain q where q: "q \<le> p" "counter_at kv smem st now (window_key key (start - w)) q" and sm: "smem st now (window_key key (start - w)) = {}"
    using Cons.prems(11) by auto
  have q0: "0 \<le> q" using q(2) by (auto simp: counter_at_def split: if_splits)
  have bound: "n + 1 + p \<le> 2 ^ 53" using Cons.prems(10) by simp
  obtain st' res where run: "checkLimit R st now key \<lparr>rlc_MaxRequests = m, rlc_Window = w\<rparr> = (st', res)" by fastforce
  note step = checkLimit_step [OF Cons.prems(1) _ Cons.prems(4-7) _ bound q(2) sm q(1) run]
  have st: "time_Truncate now w = start" "counter_at kv smem st now (window_key key start) n" using Cons.prems(3,8) by simp_all
  note step = step [OF st]
  have later: "now \<le> t \<and> t < now + w * 2" if "t \<in> set ts" for t
    using that Cons.prems(2-4) Truncate_bounds [of w t] Truncate_bounds [of w now] by auto
  have keys: "window_key key (start - w) \<noteq> window_key key start" by (rule window_keys_differ [OF Cons.prems(4,6,7)])
  show ?case
  proof (cases i)
    case 0
    then show ?thesis using step(1) q(1) by (auto simp: run)
  next
    case (Suc j)
    have "\<exists>total. limit_run R key \<lparr>rlc_MaxRequests = m, rlc_Window = w\<rparr> st' ts ! j = Inr (total \<le> m, max 0 (m - total), start + w) \<and>
        (n + 1) + int j + 1 \<le> total \<and> total \<le> (n + 1) + int j + 1 + p"
    proof (rule Cons.IH)
      show "\<forall>t \<in> set ts. counter_at kv smem st' t (window_key key start) (n + 1)" using step(3) later by blast
      show "\<forall>t \<in> set ts. smem st' t (window_key key (start - w)) = {} \<and> (\<exists>q \<le> p. counter_at kv smem st' t (window_key key (start - w)) q)"
      proof
        fix t assume t: "t \<in> set ts"
        then have "kv st' t (window_key key (start - w)) = kv st t (window_key key (start - w)) \<and> smem st' t (window_key key (start - w)) = smem st t (window_key key (start - w))"
          using step(4) later keys by blast
        then show "smem st' t (window_key key (start - w)) = {} \<and> (\<exists>q \<le> p. counter_at kv smem st' t (window_key key (start - w)) q)"
          using Cons.prems(11) t counter_at_cong [of kv st' t _ st smem] by (metis list.set_intros(2))
      qed
    qed (use Cons.prems Suc step(2) in auto)
    then show ?thesis by (simp add: run Suc add.assoc)
  qed
qed simp

end

text \<open>
  C32: The Redis-backed limit bounds the requests of a window. For requests in one window
  that starts without a counter, when the window before it counted at most \<open>p\<close>, every
  check succeeds on a running server; only the first \<open>MaxRequests\<close> requests can be allowed;
  the first \<open>MaxRequests - p\<close> are; and the number of remaining requests reported lies between
  zero and what is left of the limit, whatever the rounding of the floating point weights does.
\<close>

theorem rate_limit_bounds:
  assumes "redis_server R up kv smem" "up st" "sorted ts" "\<forall>t \<in> set ts. time_Truncate t w = start"
    and "time_Second \<le> w \<and> w \<le> 2 ^ 53 \<and> \<bar>start\<bar> < 2 ^ 62 \<and> \<bar>start - w\<bar> < 2 ^ 62 \<and> int (length ts) + p \<le> 2 ^ 53"
    and "\<forall>t \<in> set ts. counter_at kv smem st t (window_key key start) 0 \<and> smem st t (window_key key (start - w)) = {} \<and>
      (\<exists>q \<le> p. counter_at kv smem st t (window_key key (start - w)) q)"
    and "i < length ts"
  shows "\<exists>allowed remaining. limit_run R key \<lparr>rlc_MaxRequests = m, rlc_Window = w\<rparr> st ts ! i = Inr (allowed, remaining, start + w) \<and>
    (allowed \<longrightarrow> int i < m) \<and> (int i + 1 + p \<le> m \<longrightarrow> allowed) \<and> 0 \<le> remaining \<and> remaining \<le> max 0 (m - int i - 1)"
proof -
  have "\<exists>total. limit_run R key \<lparr>rlc_MaxRequests = m, rlc_Window = w\<rparr> st ts ! i = Inr (total \<le> m, max 0 (m - total), start + w) \<and>
      0 + int i + 1 \<le> total \<and> total \<le> 0 + int i + 1 + p"
    using assms by (intro redis_server.limit_run_window [OF assms(1)]) auto
  then obtain total where "limit_run R key \<lparr>rlc_MaxRequests = m, rlc_Window = w\<rparr> st ts ! i = Inr (total \<le> m, max 0 (m - total), start + w)"
      "int i + 1 \<le> total" "total \<le> int i + 1 + p" by auto
  then show ?thesis by (intro exI [of _ "total \<le> m"] exI [of _ "max 0 (m - total)"]) auto
qed

theorem rate_limit_bounds_witness:
  "\<exists>remaining. limit_run mem_redis ''ratelimit:ip:auth'' (rl_limits ''auth'') [] [1, 2] ! 1 = Inr (True, remaining, time_Minute) \<and> 0 \<le> remaining \<and> remaining \<le> 8"
proof -
  have cfg: "rl_limits ''auth'' = \<lparr>rlc_MaxRequests = 10, rlc_Window = time_Minute\<rparr>" by (simp add: rl_limits_def)
  have trunc: "time_Truncate 1 time_Minute = 0" "time_Truncate 2 time_Minute = 0" by (simp_all add: time_Truncate_def)
  have none: "counter_at mem_kv mem_smem [] t k 0" "mem_smem [] t k = {}" for t k by (simp_all add: counter_at_def mem_kv_def mem_smem_def mem_entry_def)
  then have "\<exists>q \<le> 0. counter_at mem_kv mem_smem [] t k q" for t k by blast
  then show ?thesis
    using rate_limit_bounds [OF mem.redis_server_axioms, where st = "[]" and ts = "[1, 2]" and w = time_Minute and start = 0 and p = 0 and
        key = "''ratelimit:ip:auth''" and i = 1 and m = 10] trunc none by (auto simp: cfg)
qed


section \<open>Failed logins\<close>

lemma bf_keys: "bf_userKey u \<noteq> bf_ipKey ip" "bf_userKey u = bf_userKey u' \<longleftrightarrow> u = u'" "bf_ipKey ip = bf_ipKey ip' \<longleftrightarrow> ip = ip'"
  by (simp_all add: bf_userKey_def bf_ipKey_def)

lemma bf_decide_locked: "fst (bf_decide R st now u n bf_thresholds) \<longleftrightarrow> 4 \<le> n"
  by (simp add: bf_thresholds_def Let_def)

text \<open>Failed logins of a user from an address at the instants \<open>ts\<close>.\<close>

fun failures :: "'r redis \<Rightarrow> string \<Rightarrow> string \<Rightarrow> 'r \<Rightarrow> time list \<Rightarrow> 'r" where
  "failures R u ip st [] = st"
| "failures R u ip st (t # ts) = failures R u ip (RecordLoginResult R st t u ip False) ts"

text \<open>Each of the instants comes within the hour of the one before it.\<close>

fun hourly :: "time list \<Rightarrow> bool" where
  "hourly (t # t' # ts) \<longleftrightarrow> t \<le> t' \<and> t' < t + time_Hour \<and> hourly (t' # ts)"
| "hourly _ \<longleftrightarrow> True"

context redis_server
begin

lemma RecordFailure_step:
  assumes up: "up st" and u: "counter_at kv smem st now (bf_userKey u) n" "n + 1 < 2 ^ 62"
    and ip: "counter_at kv smem st now (bf_ipKey ip) m" "m + 1 < 2 ^ 62" and st': "st' = RecordLoginResult R st now u ip False"
  shows "up st'" "\<lbrakk>now \<le> t; t < now + time_Hour\<rbrakk> \<Longrightarrow> counter_at kv smem st' t (bf_userKey u) (n + 1) \<and> counter_at kv smem st' t (bf_ipKey ip) (m + 1)"
    "\<lbrakk>now \<le> t; k \<noteq> bf_userKey u; k \<noteq> bf_ipKey ip\<rbrakk> \<Longrightarrow> kv st' t k = kv st t k \<and> smem st' t k = smem st t k"
proof -
  define st1 where "st1 = fst (r_Expire R (fst (r_Incr R st now (bf_userKey u))) now (bf_userKey u) (1 * time_Hour))"
  define st2 where "st2 = fst (r_Expire R (fst (r_Incr R st1 now (bf_ipKey ip))) now (bf_ipKey ip) (24 * time_Hour))"
  have one: "up st1" "\<And>t. \<lbrakk>now \<le> t; t < now + time_Hour\<rbrakk> \<Longrightarrow> counter_at kv smem st1 t (bf_userKey u) (n + 1)"
      "\<And>t k. \<lbrakk>now \<le> t; k \<noteq> bf_userKey u\<rbrakk> \<Longrightarrow> kv st1 t k = kv st t k \<and> smem st1 t k = smem st t k"
    using count_up [OF up u _ st1_def] by simp_all
  have ip1: "counter_at kv smem st1 now (bf_ipKey ip) m" using ip(1) one(3) [of now "bf_ipKey ip"] bf_keys(1) [of u ip] by (metis counter_at_cong order_refl)
  have two: "up st2" "\<And>t. \<lbrakk>now \<le> t; t < now + 24 * time_Hour\<rbrakk> \<Longrightarrow> counter_at kv smem st2 t (bf_ipKey ip) (m + 1)"
      "\<And>t k. \<lbrakk>now \<le> t; k \<noteq> bf_ipKey ip\<rbrakk> \<Longrightarrow> kv st2 t k = kv st1 t k \<and> smem st2 t k = smem st1 t k"
    using count_up [OF one(1) ip1 ip(2) _ st2_def] by simp_all
  have "fst (RecordFailure R st now u ip) = st2"
    by (simp add: RecordFailure_def pipe_Incr_def st2_def st1_def split: prod.splits sum.splits option.splits)
  then have "st' = st2" by (simp add: st' RecordLoginResult_def)
  then show "up st'" "\<lbrakk>now \<le> t; t < now + time_Hour\<rbrakk> \<Longrightarrow> counter_at kv smem st' t (bf_userKey u) (n + 1) \<and> counter_at kv smem st' t (bf_ipKey ip) (m + 1)"
    "\<lbrakk>now \<le> t; k \<noteq> bf_userKey u; k \<noteq> bf_ipKey ip\<rbrakk> \<Longrightarrow> kv st' t k = kv st t k \<and> smem st' t k = smem st t k"
    using one two bf_keys(1) [of u ip] counter_at_cong [of kv st2 t "bf_userKey u" st1 smem] by (auto simp del: one_type)
qed

lemma failures_count:
  assumes "up st" "counter_at kv smem st now (bf_userKey u) n" "counter_at kv smem st now (bf_ipKey ip) n" "0 \<le> n" "n + int (length ts) < 2 ^ 62"
    and "hourly (ts @ [now'])" "hd (ts @ [now']) = now"
  shows "up (failures R u ip st ts)" "counter_at kv smem (failures R u ip st ts) now' (bf_userKey u) (n + int (length ts))"
    "counter_at kv smem (failures R u ip st ts) now' (bf_ipKey ip) (n + int (length ts))"
    "\<lbrakk>now' \<le> t; k \<noteq> bf_userKey u; k \<noteq> bf_ipKey ip\<rbrakk> \<Longrightarrow> kv (failures R u ip st ts) t k = kv st t k \<and> smem (failures R u ip st ts) t k = smem st t k"
proof -
  have "up (failures R u ip st ts) \<and> counter_at kv smem (failures R u ip st ts) now' (bf_userKey u) (n + int (length ts)) \<and>
    counter_at kv smem (failures R u ip st ts) now' (bf_ipKey ip) (n + int (length ts)) \<and>
    (\<forall>t k. now' \<le> t \<and> k \<noteq> bf_userKey u \<and> k \<noteq> bf_ipKey ip \<longrightarrow> kv (failures R u ip st ts) t k = kv st t k \<and> smem (failures R u ip st ts) t k = smem st t k) \<and> now \<le> now'"
    using assms
  proof (induction ts arbitrary: st now n)
    case Nil
    then show ?case by simp
  next
    case (Cons t0 ts)
    let ?st' = "RecordLoginResult R st t0 u ip False" and ?next = "hd (ts @ [now'])"
    have t0: "t0 = now" using Cons.prems(7) by simp
    have gap: "t0 \<le> ?next" "?next < t0 + time_Hour" "hourly (ts @ [now'])" using Cons.prems(6) by (cases ts; simp)+
    have step: "up ?st'" "\<And>t. \<lbrakk>t0 \<le> t; t < t0 + time_Hour\<rbrakk> \<Longrightarrow> counter_at kv smem ?st' t (bf_userKey u) (n + 1) \<and> counter_at kv smem ?st' t (bf_ipKey ip) (n + 1)"
        "\<And>t k. \<lbrakk>t0 \<le> t; k \<noteq> bf_userKey u; k \<noteq> bf_ipKey ip\<rbrakk> \<Longrightarrow> kv ?st' t k = kv st t k \<and> smem ?st' t k = smem st t k"
      using RecordFailure_step [of st t0 u n ip n ?st'] Cons.prems(1-5) t0 by auto
    show ?case using Cons.IH [OF step(1), of ?next "n + 1"] step(2) [of ?next] step(3) gap Cons.prems(4,5) t0 by (fastforce simp: add.assoc)
  qed
  then show "up (failures R u ip st ts)" "counter_at kv smem (failures R u ip st ts) now' (bf_userKey u) (n + int (length ts))"
    "counter_at kv smem (failures R u ip st ts) now' (bf_ipKey ip) (n + int (length ts))"
    "\<lbrakk>now' \<le> t; k \<noteq> bf_userKey u; k \<noteq> bf_ipKey ip\<rbrakk> \<Longrightarrow> kv (failures R u ip st ts) t k = kv st t k \<and> smem (failures R u ip st ts) t k = smem st t k" by blast+
qed

lemma IsLocked_counters:
  assumes "up st" "counter_at kv smem st now (bf_userKey u) n" "counter_at kv smem st now (bf_ipKey ip) m"
  shows "IsLocked R st now u ip = Inr (bf_decide R st now u (max n m) bf_thresholds)"
proof -
  have read: "\<exists>s. bf_read R st now k = Inr s \<and> (if s \<noteq> [] then Atoi0 s else 0) = c" if "counter_at kv smem st now k c" for k c
  proof (cases "c = 0")
    case True
    then show ?thesis using get [OF assms(1), of now k] that by (simp add: counter_at_def bf_read_def)
  next
    case False
    then have c: "kv st now k = Some (Text (strconv_Itoa c))" "0 < c" "c < 2 ^ 62" using that by (simp_all add: counter_at_def)
    then have "r_Get R st now k = Inr (Text (strconv_Itoa c))" using get [OF assms(1), of now k] one_type [OF assms(1), of now k] by simp
    moreover have "strconv_Itoa c \<noteq> []" using print_nat_nonempty by (simp add: strconv_Itoa_def)
    ultimately show ?thesis using c Atoi_Itoa [of c] by (simp add: bf_read_def Atoi0_def)
  qed
  show ?thesis using read [OF assms(2)] read [OF assms(3)] by (auto simp: IsLocked_def Let_def max_def)
qed

lemma IsLocked_failures:
  assumes "up st" "hourly (ts @ [now])" "int (length ts) < 2 ^ 61"
    and "\<forall>t k. counter_at kv smem st t (bf_userKey k) 0 \<and> counter_at kv smem st t (bf_ipKey k) 0"
  shows "\<exists>locked ttl. IsLocked R (failures R u ip st ts) now u' ip' = Inr (locked, ttl) \<and> (locked \<longleftrightarrow> (u' = u \<or> ip' = ip) \<and> 4 \<le> length ts)"
proof -
  let ?st = "failures R u ip st ts" and ?n = "int (length ts)"
  note c = failures_count [OF assms(1), of "hd (ts @ [now])" u 0 ip ts now]
  have up: "up ?st" using c(1) assms(2-4) by simp
  have "counter_at kv smem ?st now (bf_userKey u') (if u' = u then ?n else 0)"
    using c(2) c(4) [of now "bf_userKey u'"] assms(2-4) bf_keys counter_at_cong [of kv ?st now "bf_userKey u'" st smem 0] by (cases "u' = u") auto
  moreover have "counter_at kv smem ?st now (bf_ipKey ip') (if ip' = ip then ?n else 0)"
    using c(3) c(4) [of now "bf_ipKey ip'"] assms(2-4) bf_keys [symmetric] bf_keys counter_at_cong [of kv ?st now "bf_ipKey ip'" st smem 0] by (cases "ip' = ip") auto
  ultimately have l: "IsLocked R ?st now u' ip' = Inr (bf_decide R ?st now u' (max (if u' = u then ?n else 0) (if ip' = ip then ?n else 0)) bf_thresholds)"
    by (rule IsLocked_counters [OF up])
  have "fst (bf_decide R ?st now u' (max (if u' = u then ?n else 0) (if ip' = ip then ?n else 0)) bf_thresholds) \<longleftrightarrow> (u' = u \<or> ip' = ip) \<and> 4 \<le> length ts"
    unfolding bf_decide_locked by auto
  then show ?thesis unfolding l by (cases "bf_decide R ?st now u' (max (if u' = u then ?n else 0) (if ip' = ip then ?n else 0)) bf_thresholds") simp
qed

lemma IsLocked_success:
  assumes "up st" "hourly (ts @ [now])" "int (length ts) < 2 ^ 61"
    and "\<forall>t k. counter_at kv smem st t (bf_userKey k) 0 \<and> counter_at kv smem st t (bf_ipKey k) 0"
  shows "IsLocked R (RecordLoginResult R (failures R u ip st ts) now u ip True) now u ip = Inr (False, 0)"
proof -
  let ?st = "failures R u ip st ts" and ?st' = "RecordLoginResult R (failures R u ip st ts) now u ip True"
  have up: "up ?st" using failures_count(1) [OF assms(1), of "hd (ts @ [now])" u 0 ip ts now] assms(2-4) by simp
  have st': "?st' = fst (r_Del R (fst (r_Del R ?st now (bf_userKey u))) now (bf_ipKey ip))"
    using write_noerr(2) by (simp add: RecordLoginResult_def RecordSuccess_def split: prod.splits option.splits)
  have up': "up ?st'" unfolding st' using up by simp
  have "kv ?st' now k = None \<and> smem ?st' now k = {}" if "k = bf_userKey u \<or> k = bf_ipKey ip" for k
    using that up by (auto simp: st' del_kv del_smem)
  then have "counter_at kv smem ?st' now (bf_userKey u) 0" "counter_at kv smem ?st' now (bf_ipKey ip) 0" by (simp_all add: counter_at_def)
  then show ?thesis using IsLocked_counters [OF up'] by (simp add: bf_thresholds_def)
qed

end

text \<open>
  C33: Failed logins lock. After failures of a user from an address, each within the hour of
  the one before, \<^verbatim>\<open>IsLocked\<close> answers, within the hour of the last one, that the login is
  locked exactly from the fourth failure on (the thresholds of six and ten failures never
  decide anything else); it looks at the user and at the address, so four failures lock
  every other user from that address and that user from everywhere; users without
  failures are not locked elsewhere, and one recorded success unlocks.
\<close>

theorem failures_lock:
  assumes "redis_server R up kv smem" "up st" "hourly (ts @ [now])" "int (length ts) < 2 ^ 61"
    and "\<forall>t k. counter_at kv smem st t (bf_userKey k) 0 \<and> counter_at kv smem st t (bf_ipKey k) 0"
  shows "(\<exists>locked ttl. IsLocked R (failures R u ip st ts) now u' ip' = Inr (locked, ttl) \<and>
      (locked \<longleftrightarrow> (u' = u \<or> ip' = ip) \<and> 4 \<le> length ts)) \<and>
    IsLocked R (RecordLoginResult R (failures R u ip st ts) now u ip True) now u ip = Inr (False, 0)"
proof -
  show ?thesis using redis_server.IsLocked_failures [OF assms(1-4), of u ip u' ip'] redis_server.IsLocked_success [OF assms(1-4), of u ip] assms(5) by blast
qed

theorem failures_lock_witness:
  "\<exists>ttl. IsLocked mem_redis (failures mem_redis ''bob'' ''10.0.0.1'' [] [1, 2, 3, 4]) 5 ''eve'' ''10.0.0.1'' = Inr (True, ttl)"
proof -
  have none: "\<forall>t k. counter_at mem_kv mem_smem [] t (bf_userKey k) 0 \<and> counter_at mem_kv mem_smem [] t (bf_ipKey k) 0"
    by (simp add: counter_at_def mem_kv_def mem_smem_def mem_entry_def)
  show ?thesis
    using failures_lock [OF mem.redis_server_axioms _ _ _ none, of "[1, 2, 3, 4]" 5 "''bob''" "''10.0.0.1''" "''eve''" "''10.0.0.1''"] by auto
qed

end
