(* ===== verification/AdminRest.thy ===== *)
theory AdminRest
  imports Middleware WfCallback "HOL-Library.Product_Lexorder"
begin

text \<open>
  The read side of the admin API (package internal/api/rest/admin and the handlers of
  internal/api/rest/admin\_routes.go), the service-to-service endpoints
  (internal\_routes.go), the user lookup (users\_lookup.go) and the list of applications
  (apps.go). \<open>claims\<close> are the claims the bearer middleware stored in the context. A JSON
  body is the record it binds to, \<open>None\<close> where it does not bind. Texts are ordered byte by
  byte, as under the collation C.
\<close>

section \<open>Bearer tokens\<close>

text \<open>\<^verbatim>\<open>bearerMW\<close> of \<^verbatim>\<open>RegisterAdminV1Routes\<close> and \<^verbatim>\<open>m2mOnlyMW\<close>: the claims stored in the context.\<close>

definition bearerMW :: "libs \<Rightarrow> jwt_Service \<Rightarrow> time \<Rightarrow> request \<Rightarrow> Claims response" where
  "bearerMW L jwtSvc now rq =
     (let auth = rq_Authorization rq
      in if length auth < 8 \<or> take 7 auth \<noteq> ''Bearer '' then Refused 401 ''invalid_token''
         else (case jwt_VerifyAccessToken (lib_jwt L) jwtSvc now (drop 7 auth) of
             Inl _ \<Rightarrow> Refused 401 ''invalid_token''
           | Inr rawClaims \<Rightarrow> OK rawClaims))"

definition m2mOnlyMW :: "libs \<Rightarrow> jwt_Service \<Rightarrow> time \<Rightarrow> request \<Rightarrow> unit response" where
  "m2mOnlyMW L jwtSvc now rq =
     (let auth = rq_Authorization rq
      in if length auth < 8 \<or> take 7 auth \<noteq> ''Bearer '' then Refused 401 ''invalid_token''
         else (case jwt_VerifyAccessToken (lib_jwt L) jwtSvc now (drop 7 auth) of
             Inl _ \<Rightarrow> Refused 401 ''invalid_token''
           | Inr claims \<Rightarrow> if c_ClientID claims = [] then Refused 403 ''endpoint restricted to service callers'' else OK ()))"

text \<open>\<^verbatim>\<open>RegisterAdminV1Routes\<close>: what a request under /admin/v1 passes before its handler.\<close>

definition admin_gate :: "libs \<Rightarrow> jwt_Service \<Rightarrow> arl_tokens \<Rightarrow> time \<Rightarrow> string \<Rightarrow> request \<Rightarrow> arl_tokens \<times> Claims response" where
  "admin_gate L jwtSvc tokens now ip rq =
     (case bearerMW L jwtSvc now rq of
        Refused st e \<Rightarrow> (tokens, Refused st e)
      | OK claims \<Rightarrow>
          (case AdminAuth DefaultAdminAuthConfig tokens now ip rq (Some claims) of
             (tokens1, Refused st e) \<Rightarrow> (tokens1, Refused st e)
           | (tokens1, OK _) \<Rightarrow> (tokens1, OK claims)))"

section \<open>helpers.go\<close>

definition claimsOrgID :: "Claims option \<Rightarrow> string" where
  "claimsOrgID claims = (case claims of None \<Rightarrow> [] | Some c \<Rightarrow> c_OrgID c)"

definition claimsSubject :: "Claims option \<Rightarrow> string" where
  "claimsSubject claims = (case claims of None \<Rightarrow> [] | Some c \<Rightarrow> c_Subject c)"

definition requireOrgID :: "uuid_pkg \<Rightarrow> Claims option \<Rightarrow> request \<Rightarrow> uuid response" where
  "requireOrgID U claims rq =
     (let orgStr = (if claimsOrgID claims = [] then gin_Query (rq_query rq) ''org_id'' else claimsOrgID claims)
      in if orgStr = [] then Refused 400 ''org_id required''
         else (case uuid_Parse U orgStr of None \<Rightarrow> Refused 400 ''invalid org_id'' | Some orgID \<Rightarrow> OK orgID))"

definition domain_ErrAlreadyExists :: error where
  "domain_ErrAlreadyExists = Sentinel ''domain.ErrAlreadyExists''"

definition domain_ErrPermissionDenied :: error where
  "domain_ErrPermissionDenied = Sentinel ''domain.ErrPermissionDenied''"

definition respondError :: "error \<Rightarrow> 'a response" where
  "respondError err =
     (if errors_Is err domain_ErrNotFound \<or> errors_Is err pgx_ErrNoRows then Refused 404 ''not_found''
      else if errors_Is err domain_ErrAlreadyExists then Refused 409 ''already_exists''
      else if errors_Is err domain_ErrPermissionDenied then Refused 403 ''forbidden''
      else Refused 500 ''internal_error'')"

text \<open>The end of a read handler: the result or the mapped error.\<close>

definition respond :: "'a result \<Rightarrow> 'a response" where
  "respond r = (case r of Inl e \<Rightarrow> respondError e | Inr x \<Rightarrow> OK x)"

text \<open>A numeric query parameter with its default, zero where it is no number.\<close>

definition query_int :: "request \<Rightarrow> string \<Rightarrow> string \<Rightarrow> int" where
  "query_int rq key d = Atoi0 (gin_DefaultQuery (rq_query rq) key d)"

section \<open>user.go, role.go, user\_role.go, oauth2\_client.go, branch.go\<close>

definition handleListUsers :: "uuid_pkg \<Rightarrow> db \<Rightarrow> Claims option \<Rightarrow> request \<Rightarrow> (User list \<times> int \<times> int \<times> int) response" where
  "handleListUsers U db claims rq =
     (case requireOrgID U claims rq of
        Refused st e \<Rightarrow> Refused st e
      | OK orgID \<Rightarrow>
          (let limit = query_int rq ''limit'' ''20''; offset = query_int rq ''offset'' ''0''; status = gin_Query (rq_query rq) ''status''
           in case adminUserSvc_ListUsers db orgID limit offset status of
                Inl err \<Rightarrow> respondError err
              | Inr (users, n) \<Rightarrow> OK (users, n, limit, offset)))"

definition handleGetUser :: "uuid_pkg \<Rightarrow> db \<Rightarrow> Claims option \<Rightarrow> request \<Rightarrow> string \<Rightarrow> User response" where
  "handleGetUser U db claims rq param =
     (case requireOrgID U claims rq of
        Refused st e \<Rightarrow> Refused st e
      | OK orgID \<Rightarrow>
          (case uuid_Parse U param of None \<Rightarrow> Refused 400 ''invalid user id'' | Some i \<Rightarrow> respond (adminUserSvc_GetUser db i orgID)))"

definition handleListRoles :: "uuid_pkg \<Rightarrow> db \<Rightarrow> Claims option \<Rightarrow> request \<Rightarrow> Role list response" where
  "handleListRoles U db claims rq =
     (case requireOrgID U claims rq of Refused st e \<Rightarrow> Refused st e | OK orgID \<Rightarrow> respond (adminRoleSvc_ListRoles db orgID))"

definition handleGetRole :: "uuid_pkg \<Rightarrow> db \<Rightarrow> Claims option \<Rightarrow> request \<Rightarrow> string \<Rightarrow> Role response" where
  "handleGetRole U db claims rq param =
     (case requireOrgID U claims rq of
        Refused st e \<Rightarrow> Refused st e
      | OK orgID \<Rightarrow>
          (case uuid_Parse U param of None \<Rightarrow> Refused 400 ''invalid role id'' | Some i \<Rightarrow> respond (adminRoleSvc_GetRole db i orgID)))"

definition handleGetRolePermissions :: "uuid_pkg \<Rightarrow> db \<Rightarrow> string \<Rightarrow> Permission list response" where
  "handleGetRolePermissions U db param =
     (case uuid_Parse U param of None \<Rightarrow> Refused 400 ''invalid role id'' | Some i \<Rightarrow> respond (adminRoleSvc_GetPermissions db i))"

definition handleListPermissions :: "db \<Rightarrow> Permission list response" where
  "handleListPermissions db = respond (adminRoleSvc_ListPermissions db)"

definition handleGetUserRoles :: "uuid_pkg \<Rightarrow> db \<Rightarrow> string \<Rightarrow> UserRole list response" where
  "handleGetUserRoles U db param =
     (case uuid_Parse U param of None \<Rightarrow> Refused 400 ''invalid user id'' | Some userID \<Rightarrow> respond (adminUserRoleSvc_GetUserRoles U db userID))"

definition handleGetBranchRoles :: "uuid_pkg \<Rightarrow> db \<Rightarrow> string \<Rightarrow> UserRole list response" where
  "handleGetBranchRoles U db param =
     (case uuid_Parse U param of None \<Rightarrow> Refused 400 ''invalid branch id'' | Some branchID \<Rightarrow> respond (adminUserRoleSvc_GetBranchRoles U db branchID))"

definition handleListClients :: "uuid_pkg \<Rightarrow> db \<Rightarrow> Claims option \<Rightarrow> request \<Rightarrow> Client list response" where
  "handleListClients U db claims rq =
     (case requireOrgID U claims rq of Refused st e \<Rightarrow> Refused st e | OK orgID \<Rightarrow> respond (adminOAuth2ClientSvc_ListClients db orgID))"

definition handleGetClient :: "uuid_pkg \<Rightarrow> db \<Rightarrow> string \<Rightarrow> Client response" where
  "handleGetClient U db param =
     (case uuid_Parse U param of None \<Rightarrow> Refused 400 ''invalid client id'' | Some i \<Rightarrow> respond (adminOAuth2ClientSvc_GetClient db i))"

definition handleListBranchTypes :: "uuid_pkg \<Rightarrow> Claims option \<Rightarrow> request \<Rightarrow> BranchType list response" where
  "handleListBranchTypes U claims rq =
     (case requireOrgID U claims rq of Refused st e \<Rightarrow> Refused st e | OK orgID \<Rightarrow> respond (adminBranchSvc_ListBranchTypes orgID))"

definition handleGetBranchType :: "uuid_pkg \<Rightarrow> Claims option \<Rightarrow> request \<Rightarrow> string \<Rightarrow> BranchType response" where
  "handleGetBranchType U claims rq param =
     (case requireOrgID U claims rq of
        Refused st e \<Rightarrow> Refused st e
      | OK orgID \<Rightarrow> respond (adminBranchSvc_GetBranchType (uuid_Parse0 U param) orgID))"

definition handleListBranches :: "uuid_pkg \<Rightarrow> db \<Rightarrow> Claims option \<Rightarrow> request \<Rightarrow> Branch list response" where
  "handleListBranches U db claims rq =
     (case requireOrgID U claims rq of Refused st e \<Rightarrow> Refused st e | OK orgID \<Rightarrow> respond (adminBranchSvc_ListBranches db orgID))"

definition handleGetBranch :: "uuid_pkg \<Rightarrow> db \<Rightarrow> Claims option \<Rightarrow> request \<Rightarrow> string \<Rightarrow> Branch response" where
  "handleGetBranch U db claims rq param =
     (case requireOrgID U claims rq of
        Refused st e \<Rightarrow> Refused st e
      | OK orgID \<Rightarrow> respond (adminBranchSvc_GetBranch db (uuid_Parse0 U param) orgID))"

definition handleGetUserBranches :: "uuid_pkg \<Rightarrow> db \<Rightarrow> string \<Rightarrow> UserBranchAssignment list response" where
  "handleGetUserBranches U db param = respond (adminBranchSvc_GetUserBranches db (uuid_Parse0 U param))"

section \<open>audit.go\<close>

text \<open>\<^verbatim>\<open>time.Parse(time.RFC3339, s)\<close> is an argument, \<open>None\<close> where the text does not parse.\<close>

definition handleQueryAuditLogs ::
  "uuid_pkg \<Rightarrow> (string \<Rightarrow> time option) \<Rightarrow> audit_Service \<Rightarrow> db \<Rightarrow> request \<Rightarrow> (AuditLog list \<times> int \<times> int \<times> int) response" where
  "handleQueryAuditLogs U parse_time auditSvc db rq =
     (let q = gin_Query (rq_query rq)
      in if q ''org_id'' \<noteq> [] \<and> uuid_Parse U (q ''org_id'') = None then Refused 400 ''invalid org_id''
         else if q ''actor_id'' \<noteq> [] \<and> uuid_Parse U (q ''actor_id'') = None then Refused 400 ''invalid actor_id''
         else (let filt = \<lparr>af_OrgID = (if q ''org_id'' = [] then None else uuid_Parse U (q ''org_id'')),
                     af_ActorID = (if q ''actor_id'' = [] then None else uuid_Parse U (q ''actor_id'')),
                     af_Action = q ''action'', af_ResourceType = q ''resource_type'', af_ResourceID = q ''resource_id'', af_BranchID = None,
                     af_FromDate = (if q ''from_date'' = [] then None else parse_time (q ''from_date'')),
                     af_ToDate = (if q ''to_date'' = [] then None else parse_time (q ''to_date'')),
                     af_Limit = query_int rq ''limit'' ''50'', af_Offset = query_int rq ''offset'' ''0''\<rparr>
               in case audit_Query auditSvc db filt of
                    Inl _ \<Rightarrow> Refused 500 ''internal_error''
                  | Inr (logs, n) \<Rightarrow> OK (logs, n, af_Limit filt, af_Offset filt)))"

section \<open>session.go\<close>

definition GetSession :: "'r redis \<Rightarrow> 'r \<Rightarrow> time \<Rightarrow> string \<Rightarrow> session_data option result" where
  "GetSession R st now sessionID = Store_Get R st now sessionID"

definition ListAllSessions :: "'r redis \<Rightarrow> 'r \<Rightarrow> time \<Rightarrow> session_data list result" where
  "ListAllSessions R st now = Store_ListAll R st now"

record SessionListItem =
  sli_SessionID :: string
  sli_UserID :: string
  sli_Username :: string
  sli_OrgID :: string
  sli_IPAddress :: string
  sli_UserAgent :: string
  sli_DeviceInfo :: string
  sli_ActiveBranchID :: string
  sli_MFAVerified :: bool
  sli_Source :: string
  sli_CreatedAt :: string
  sli_LastUsedAt :: string
  sli_ExpiresAt :: string

definition unix_RFC3339 :: "int \<Rightarrow> string" where
  "unix_RFC3339 n = Format_RFC3339 0 (n * time_Second)"

definition sessionToItem :: "session_data \<Rightarrow> SessionListItem" where
  "sessionToItem s =
     \<lparr>sli_SessionID = sd_ID s, sli_UserID = sd_UserID s, sli_Username = [], sli_OrgID = sd_OrgID s, sli_IPAddress = sd_IPAddress s,
      sli_UserAgent = sd_UserAgent s, sli_DeviceInfo = sd_DeviceInfo s, sli_ActiveBranchID = sd_ActiveBranchID s,
      sli_MFAVerified = sd_MFAVerified s, sli_Source = sd_Source s, sli_CreatedAt = unix_RFC3339 (sd_CreatedAt s),
      sli_LastUsedAt = (if sd_LastUsedAt s > 0 then unix_RFC3339 (sd_LastUsedAt s) else []), sli_ExpiresAt = unix_RFC3339 (sd_ExpiresAt s)\<rparr>"

text \<open>The items, the number of sessions in scope, the page and its size.\<close>

definition handleListSessions ::
  "'r redis \<Rightarrow> 'r \<Rightarrow> time \<Rightarrow> Claims option \<Rightarrow> request \<Rightarrow> (SessionListItem list \<times> nat \<times> int \<times> int) response" where
  "handleListSessions R st now claims rq =
     (let page0 = query_int rq ''page'' ''1''; pageSize0 = query_int rq ''page_size'' ''20'';
          page = (if page0 < 1 then 1 else page0); pageSize = (if pageSize0 < 1 \<or> pageSize0 > 100 then 20 else pageSize0)
      in case ListAllSessions R st now of
           Inl err \<Rightarrow> respondError err
         | Inr every \<Rightarrow>
             (let callerOrg = claimsOrgID claims;
                  scoped = (if callerOrg \<noteq> [] then filter (\<lambda>s. sd_OrgID s = callerOrg) every else every);
                  offset = nat ((page - 1) * pageSize)
              in OK (map sessionToItem (take (nat pageSize) (drop offset scoped)), length scoped, page, pageSize)))"

definition handleRevokeSession ::
  "uuid_pkg \<Rightarrow> 'r redis \<Rightarrow> 'r \<Rightarrow> time \<Rightarrow> Claims option \<Rightarrow> string \<Rightarrow> string \<Rightarrow> string \<Rightarrow> 'r \<times> LogInput list \<times> unit response" where
  "handleRevokeSession U R st now claims sessionID clientIP userAgent =
     (if sessionID = [] then (st, [], Refused 400 ''session_id required'')
      else (case GetSession R st now sessionID of
          Inl err \<Rightarrow> (st, [], respondError err)
        | Inr None \<Rightarrow> (st, [], Refused 404 ''session_not_found'')
        | Inr (Some sess) \<Rightarrow>
            (case RevokeSession R st now sessionID of
               (st1, Inl err) \<Rightarrow> (st1, [], respondError err)
             | (st1, Inr _) \<Rightarrow>
                 (let (actorID, actorEmail) = GetActorFromContext U claims
                  in (st1, [LogInput0\<lparr>li_OrgID := (if sd_OrgID sess \<noteq> [] then uuid_Parse0 U (sd_OrgID sess) else uuid_Nil),
                             li_ActorID := actorID, li_ActorEmail := actorEmail, li_Action := ''revoke_session'', li_ResourceType := ''session'',
                             li_ResourceID := sessionID, li_IPAddress := clientIP, li_UserAgent := userAgent\<rparr>],
                      OK ())))))"

section \<open>admin\_routes.go: default roles, statistics, applications\<close>

record default_role =
  dr_RoleID :: uuid
  dr_RoleName :: string
  dr_IsDefault :: bool

definition handleGetBranchDefaultRoles :: "uuid_pkg \<Rightarrow> db \<Rightarrow> string \<Rightarrow> (uuid \<times> string \<times> default_role list) response" where
  "handleGetBranchDefaultRoles U db param =
     (case uuid_Parse U param of
        None \<Rightarrow> Refused 400 ''invalid branch id''
      | Some branchID \<Rightarrow>
          if db_down db then Refused 500 ''internal_error''
          else (let rows = filter (\<lambda>b. b_ID b = branchID) (t_branches db)
                in OK (branchID, case rows of [] \<Rightarrow> [] | b # _ \<Rightarrow> b_BranchCode b,
                     map (\<lambda>r. \<lparr>dr_RoleID = ro_ID r, dr_RoleName = ro_Name r,
                            dr_IsDefault = (case find (\<lambda>(b, i, d). b = branchID \<and> i = ro_ID r) (t_branch_default_roles db) of None \<Rightarrow> False | Some (_, _, d) \<Rightarrow> d)\<rparr>)
                       (order_by (db_scan db) ro_Name (filter (\<lambda>r. case rows of [] \<Rightarrow> False | b # _ \<Rightarrow> ro_OrgID r = b_OrgID b) (t_roles db))))))"

definition handlePutBranchDefaultRoles :: "uuid_pkg \<Rightarrow> db \<Rightarrow> string \<Rightarrow> (string \<times> bool) list option \<Rightarrow> db \<times> unit response" where
  "handlePutBranchDefaultRoles U db param body =
     (case uuid_Parse U param of
        None \<Rightarrow> (db, Refused 400 ''invalid branch id'')
      | Some branchID \<Rightarrow>
          (case body of
             None \<Rightarrow> (db, Refused 400 ''invalid_request'')
           | Some roles \<Rightarrow>
               if db_down db then (db, Refused 500 ''internal_error'')
               else (case bdr_inserts U branchID (map fst (filter snd roles)) (bdr_clear branchID db) of
                   Inl _ \<Rightarrow> (db, Refused 500 ''internal_error'')
                 | Inr db' \<Rightarrow> (db', OK ()))))"

record admin_stats =
  as_totalUsers :: int
  as_activeUsers :: nat
  as_lockedUsers :: nat
  as_totalRoles :: nat
  as_totalBranches :: nat
  as_totalClients :: nat
  as_recentAuditCount :: int

definition handleAdminStats :: "uuid_pkg \<Rightarrow> db \<Rightarrow> request \<Rightarrow> admin_stats response" where
  "handleAdminStats U db rq =
     (let orgIDStr0 = gin_Query (rq_query rq) ''org_id'';
          orgIDStr = (if orgIDStr0 = [] then ''00000000-0000-0000-0000-000000000001'' else orgIDStr0)
      in case uuid_Parse U orgIDStr of
           None \<Rightarrow> Refused 400 ''invalid org_id''
         | Some orgID \<Rightarrow>
             (let (users, totalUsers) = (case Users_ListByOrg db orgID 1000 0 of Inl _ \<Rightarrow> ([], 0) | Inr r \<Rightarrow> r);
                  roles = (case Roles_ListByOrg db orgID of Inl _ \<Rightarrow> [] | Inr r \<Rightarrow> r);
                  auditTotal = (case Audit_List ''postgres.AuditLogRepository.List'' db
                      \<lparr>af_OrgID = None, af_ActorID = None, af_Action = [], af_ResourceType = [], af_ResourceID = [], af_BranchID = None,
                       af_FromDate = None, af_ToDate = None, af_Limit = 1, af_Offset = 0\<rparr> of Inl _ \<Rightarrow> 0 | Inr (_, n) \<Rightarrow> n)
              in OK \<lparr>as_totalUsers = totalUsers, as_activeUsers = length (filter (\<lambda>u. u_Status u = ''active'') users),
                     as_lockedUsers = length (filter (\<lambda>u. u_Status u = ''locked'') users), as_totalRoles = length roles, as_totalBranches = 0, as_totalClients = 0,
                     as_recentAuditCount = auditTotal\<rparr>))"

text \<open>datatable.go; the cursor rows are JSON objects, \<open>None\<close> where they are absent.\<close>

record DataTableRequest =
  dt_ReqType :: string
  dt_PageSize :: int
  dt_TopData :: "JSON option"
  dt_BottomData :: "JSON option"
  dt_SearchText :: "string option"

record 'a DataTableResponse =
  dt_Data :: "'a list"
  dt_AllowNext :: bool
  dt_AllowPrev :: bool

text \<open>A field of a cursor row, empty where it is absent or no string.\<close>

definition row_string :: "JSON option \<Rightarrow> string \<Rightarrow> string" where
  "row_string row key = (case row of None \<Rightarrow> [] | Some m \<Rightarrow> case map_of m key of Some (AnyString s) \<Rightarrow> s | _ \<Rightarrow> [])"

text \<open>
  \<^verbatim>\<open>LIKE\<close>: \<^verbatim>\<open>%\<close> stands for any text, \<^verbatim>\<open>_\<close> for any character, a backslash takes the next
  character literally; \<^verbatim>\<open>ILIKE\<close> ignores case.
\<close>

fun like :: "string \<Rightarrow> string \<Rightarrow> bool" where
  "like [] s = (s = [])"
| "like (c # p) s =
     (if c = CHR ''%'' then like p s \<or> (case s of [] \<Rightarrow> False | _ # s' \<Rightarrow> like (c # p) s')
      else if c = CHR ''_'' then (case s of [] \<Rightarrow> False | _ # s' \<Rightarrow> like p s')
      else if c = CHR 0x5C then (case (p, s) of (d # p', x # s') \<Rightarrow> x = d \<and> like p' s' | _ \<Rightarrow> False)
      else (case s of [] \<Rightarrow> False | x # s' \<Rightarrow> x = c \<and> like p s'))"

definition ilike :: "string \<Rightarrow> string \<Rightarrow> bool" where
  "ilike s pattern = like (strings_ToLower pattern) (strings_ToLower s)"

text \<open>
  \<^verbatim>\<open>handleAppsQuery\<close>: \<open>timestamptz\<close> is Postgres' cast of a text to an instant. A cursor that does
  not cast makes the query fail. Rows are ordered by creation and id; the secret and the key are not selected.
\<close>

definition apps_cursor :: "uuid_pkg \<Rightarrow> (string \<Rightarrow> time option) \<Rightarrow> DataTableRequest \<Rightarrow> (time \<times> uuid) option result" where
  "apps_cursor U timestamptz req =
     (let row = (if dt_ReqType req = ''next'' then dt_BottomData req else if dt_ReqType req = ''prev'' then dt_TopData req else None);
          cID = row_string row ''id''; cAt = row_string row ''created_at''
      in if cID = [] \<or> cAt = [] then Inr None
         else (case (timestamptz cAt, uuid_Parse U cID) of (Some t, Some i) \<Rightarrow> Inr (Some (t, i)) | _ \<Rightarrow> Inl pg_invalid))"

definition handleAppsQuery :: "uuid_pkg \<Rightarrow> (string \<Rightarrow> time option) \<Rightarrow> db \<Rightarrow> DataTableRequest option \<Rightarrow> Client DataTableResponse response" where
  "handleAppsQuery U timestamptz db body =
     (case body of
        None \<Rightarrow> Refused 400 ''invalid_request''
      | Some req \<Rightarrow>
          (let pageSize = (if dt_PageSize req \<le> 0 \<or> dt_PageSize req > 100 then 20 else dt_PageSize req);
               reversed = (dt_ReqType req = ''prev'');
               key = (\<lambda>c. (cl_CreatedAt c, cl_ID c))
           in case apps_cursor U timestamptz req of
                Inl _ \<Rightarrow> Refused 500 ''internal_error''
              | Inr cursor \<Rightarrow>
                  if db_down db then Refused 500 ''internal_error''
                  else (let rows = filter (\<lambda>c. (case dt_SearchText req of None \<Rightarrow> True | Some s \<Rightarrow> s = [] \<or> ilike (cl_Name c) (''%'' @ s @ ''%'')) \<and>
                                (case cursor of None \<Rightarrow> True | Some k \<Rightarrow> if reversed then k < key c else key c < k)) (t_oauth2_clients db);
                            ordered = (if reversed then sort_key key rows else rev (sort_key key rows));
                            fetched = take (nat (pageSize + 1)) ordered;
                            hasExtra = int (length fetched) > pageSize;
                            page = map (\<lambda>c. c\<lparr>cl_ClientSecretHash := [], cl_PublicKeyJWK := []\<rparr>) (take (nat pageSize) fetched)
                        in OK \<lparr>dt_Data = (if reversed then rev page else page),
                               dt_AllowNext = (if reversed then True else hasExtra),
                               dt_AllowPrev = (if dt_ReqType req = ''next'' then True else reversed \<and> hasExtra)\<rparr>)))"

section \<open>apps.go\<close>

definition handleListApps :: "db \<Rightarrow> AppEntry list response" where
  "handleListApps db = (case Client_ListApps db of Inl _ \<Rightarrow> Refused 500 ''failed to list apps'' | Inr apps \<Rightarrow> OK apps)"

section \<open>users\_lookup.go\<close>

definition trimBearer :: "string \<Rightarrow> string" where
  "trimBearer auth = (if length auth < 7 \<or> take 7 auth \<noteq> ''Bearer '' then [] else drop 7 auth)"

record userLookupRow =
  ulr_ID :: string
  ulr_Username :: string
  ulr_FullName :: string
  ulr_Email :: string
  ulr_Status :: string

definition lookup_row :: "uuid_pkg \<Rightarrow> User \<Rightarrow> userLookupRow" where
  "lookup_row U u = \<lparr>ulr_ID = uuid_String U (u_ID u), ulr_Username = u_Username u, ulr_FullName = u_FullName u, ulr_Email = u_Email u, ulr_Status = u_Status u\<rparr>"

text \<open>The users a lookup ranges over, in order; and the query with its cursor.\<close>

definition lookup_users :: "db \<Rightarrow> uuid \<Rightarrow> string \<Rightarrow> User list" where
  "lookup_users db orgID search =
     sort_key (\<lambda>u. (u_Username u, u_ID u))
       (filter (\<lambda>u. u_OrgID u = orgID \<and> u_DeletedAt u = None \<and>
          (search = [] \<or> list_ex (\<lambda>f. ilike (f u) (''%'' @ search @ ''%'')) [u_Username, u_FullName, u_Email])) (t_users db))"

definition lookup_query :: "uuid_pkg \<Rightarrow> db \<Rightarrow> uuid \<Rightarrow> string \<Rightarrow> DataTableRequest \<Rightarrow> User list" where
  "lookup_query U db orgID search req =
     (let rows = lookup_users db orgID search; fetch = nat (dt_PageSize req + 1)
      in if dt_ReqType req = ''prev'' \<or> dt_ReqType req = ''last''
         then (let curU = row_string (dt_TopData req) ''username''; curID = row_string (dt_TopData req) ''id''
               in if curU \<noteq> [] \<and> dt_ReqType req = ''prev''
                  then take fetch (rev (filter (\<lambda>u. (u_Username u, uuid_String U (u_ID u)) < (curU, curID)) rows))
                  else take fetch (rev rows))
         else (let curU = row_string (dt_BottomData req) ''username''; curID = row_string (dt_BottomData req) ''id''
               in if curU \<noteq> [] then take fetch (filter (\<lambda>u. (curU, curID) < (u_Username u, uuid_String U (u_ID u))) rows)
                  else take fetch rows))"

text \<open>Without a body, or with one that does not decode, the request is the zero request.\<close>

definition lookup_request :: "DataTableRequest option \<Rightarrow> DataTableRequest" where
  "lookup_request body =
     (let req = (case body of None \<Rightarrow> \<lparr>dt_ReqType = [], dt_PageSize = 0, dt_TopData = None, dt_BottomData = None, dt_SearchText = None\<rparr> | Some r \<Rightarrow> r)
      in if dt_PageSize req \<le> 0 \<or> dt_PageSize req > 100 then req\<lparr>dt_PageSize := 20\<rparr> else req)"

definition handleUserLookup :: "'r server \<Rightarrow> db \<Rightarrow> 'r \<Rightarrow> time \<Rightarrow> request \<Rightarrow> DataTableRequest option \<Rightarrow> userLookupRow DataTableResponse response" where
  "handleUserLookup sv db rs now rq body =
     (let L = sv_libs sv; tokenStr = trimBearer (rq_Authorization rq)
      in if tokenStr = [] then Refused 401 ''invalid_token''
         else if \<not> sv_has_SessionSvc sv then Refused 500 ''session service unavailable''
         else (case VerifyAccessToken L (sv_redis sv) (sv_SessionSvc sv) rs now tokenStr of
             Inl _ \<Rightarrow> Refused 401 ''invalid_token''
           | Inr claims \<Rightarrow>
               (case uuid_Parse (lib_uuid L) (c_OrgID claims) of
                  None \<Rightarrow> Refused 400 ''invalid org_id in token''
                | Some orgID \<Rightarrow>
                    (let req = lookup_request body;
                         search = (case dt_SearchText req of None \<Rightarrow> [] | Some s \<Rightarrow> strings_TrimSpace s)
                     in if db_down db then Refused 500 ''internal_error''
                        else (let items0 = map (lookup_row (lib_uuid L)) (lookup_query (lib_uuid L) db orgID search req);
                                  hasMore = int (length items0) > dt_PageSize req;
                                  items = take (nat (dt_PageSize req)) items0;
                                  backward = (dt_ReqType req = ''prev'' \<or> dt_ReqType req = ''last'')
                              in OK \<lparr>dt_Data = (if backward then rev items else items),
                                     dt_AllowNext = (hasMore \<and> dt_ReqType req \<noteq> ''last''),
                                     dt_AllowPrev = (dt_ReqType req = ''next'' \<or> dt_ReqType req = ''prev'' \<or> dt_ReqType req = ''last'')\<rparr>)))))"

section \<open>internal\_routes.go\<close>

record user_context =
  ux_user_id :: string
  ux_username :: string
  ux_name :: string
  ux_org_id :: string
  ux_branch_id :: string
  ux_branch_code :: string
  ux_branch_name :: string
  ux_roles :: "string list"

definition handleInternalUserContext :: "uuid_pkg \<Rightarrow> db \<Rightarrow> string \<Rightarrow> user_context response" where
  "handleInternalUserContext U db param =
     (case uuid_Parse U param of
        None \<Rightarrow> Refused 400 ''invalid user_id''
      | Some userID \<Rightarrow>
          (case Users_GetByID db userID of
             Inl _ \<Rightarrow> Refused 404 ''user not found''
           | Inr user \<Rightarrow>
               (let branch = (case Assignments_GetPrimaryByUserID db userID of
                       Inr primary \<Rightarrow> Some primary
                     | Inl _ \<Rightarrow> (case Assignments_GetAnyActiveByUserID db userID of Inr a \<Rightarrow> Some a | Inl _ \<Rightarrow> None));
                    field = (\<lambda>f. case branch of None \<Rightarrow> [] | Some a \<Rightarrow> f a)
                in OK \<lparr>ux_user_id = uuid_String U (u_ID user), ux_username = u_Username user, ux_name = u_FullName user,
                       ux_org_id = uuid_String U (u_OrgID user), ux_branch_id = field (\<lambda>a. uuid_String U (uba_BranchID a)),
                       ux_branch_code = field uba_BranchCode, ux_branch_name = field uba_BranchName,
                       ux_roles = (case UserRoles_GetRoleCodesByUser db userID of Inl _ \<Rightarrow> [] | Inr roles \<Rightarrow> roles)\<rparr>)))"

end
