(* ===== verification/AdminProps.thy ===== *)
theory AdminProps
  imports AdminRest AuthProps OAuth2Props
begin

text \<open>
  What the gates of the admin API and of the service endpoints let through, how far the
  answers of the admin API stay within an organization, and that paging through the user
  lookup ends with every user.
\<close>

section \<open>Organizations\<close>

lemma requireOrgID_token: "c_OrgID c \<noteq> [] \<Longrightarrow> requireOrgID U (Some c) rq = (case uuid_Parse U (c_OrgID c) of None \<Rightarrow> Refused 400 ''invalid org_id'' | Some g \<Rightarrow> OK g)"
  by (simp add: requireOrgID_def claimsOrgID_def Let_def)

lemma respond_OK: "respond r = OK x \<longleftrightarrow> r = Inr x"
  by (auto simp: respond_def respondError_def split: sum.splits)

lemma set_sql_limit: "x \<in> set (sql_limit n k rows) \<Longrightarrow> x \<in> set rows"
  by (auto simp: sql_limit_def dest: in_set_takeD in_set_dropD)

lemma pg_Query_OK: "pg_Query op db rows = Inr xs \<longleftrightarrow> \<not> db_down db \<and> rows = xs"
  by (auto simp: pg_Query_def)

lemma admin_gate_OK:
  assumes "admin_gate L js tokens now ip rq = (tokens', OK c)"
  shows "jwt_VerifyAccessToken (lib_jwt L) js now (drop 7 (rq_Authorization rq)) = Inr c"
    "\<exists>role \<in> set (c_Roles c). strings_ToLower role \<in> {''admin'', ''super_admin''}"
    "c_OrgID c = [] \<Longrightarrow> \<exists>role \<in> set (c_Roles c). strings_ToLower role = ''super_admin''"
    "c_OrgID c \<noteq> [] \<Longrightarrow> gin_Query (rq_query rq) ''org_id'' \<in> {[], c_OrgID c}"
  using assms
  by (auto simp: admin_gate_def bearerMW_def AdminAuth_def DefaultAdminAuthConfig_def Let_def list_ex_iff
      split: response.splits prod.splits sum.splits if_splits bool.splits)

text \<open>
  C28: A request that passes the gates of the admin API carries a token whose signature and
  expiry were verified, with the role admin or super\_admin; the claims handed to the handler
  are those of that token. With an organization in the token, a request that names another
  one is not let through, and the lists of users, roles, clients, branches and sessions hold only entries of that organization. The reads by identifier and the audit log do
  not keep to it: a user, a client, the roles of a user are answered whatever organization
  they belong to, and the audit log without a filter counts the entries of all organizations.
\<close>

theorem admin_tenant_scope:
  assumes gate: "admin_gate L js tokens now ip rq = (tokens', OK c)" and org: "uuid_Parse U (c_OrgID c) = Some g" "c_OrgID c \<noteq> []"
  shows "jwt_VerifyAccessToken (lib_jwt L) js now (drop 7 (rq_Authorization rq)) = Inr c \<and>
    (\<exists>role \<in> set (c_Roles c). strings_ToLower role \<in> {''admin'', ''super_admin''}) \<and>
    gin_Query (rq_query rq) ''org_id'' \<in> {[], c_OrgID c} \<and>
    (\<forall>users n l k. handleListUsers U db (Some c) rq = OK (users, n, l, k) \<longrightarrow> (\<forall>u \<in> set users. u_OrgID u = g)) \<and>
    (\<forall>roles. handleListRoles U db (Some c) rq = OK roles \<longrightarrow> (\<forall>r \<in> set roles. ro_OrgID r = g)) \<and>
    (\<forall>clients. handleListClients U db (Some c) rq = OK clients \<longrightarrow> (\<forall>x \<in> set clients. cl_OrgID x = g)) \<and>
    (\<forall>branches. handleListBranches U db (Some c) rq = OK branches \<longrightarrow> (\<forall>b \<in> set branches. b_OrgID b = g)) \<and>
    (\<forall>items n p s. handleListSessions R st now (Some c) rq = OK (items, n, p, s) \<longrightarrow> (\<forall>i \<in> set items. sli_OrgID i = c_OrgID c)) \<and>
    (\<forall>i param. uuid_Parse U param = Some i \<longrightarrow>
       handleGetUser U db (Some c) rq param = respond (Users_GetByID db i) \<and> handleGetClient U db param = respond (adminOAuth2ClientSvc_GetClient db i) \<and>
       handleGetUserRoles U db param = respond (UserRoles_GetByUser U db i)) \<and>
    (rq_query rq = [] \<and> as_store auditSvc \<and> \<not> db_down db \<longrightarrow>
       (\<exists>logs. handleQueryAuditLogs U parse_time auditSvc db rq = OK (logs, int (length (t_audit_logs db)), 50, 0)))"
proof -
  have req: "requireOrgID U (Some c) rq = OK g" using requireOrgID_token [OF org(2)] org(1) by simp
  have users: "u_OrgID u = g" if "handleListUsers U db (Some c) rq = OK (users, n, l, k)" "u \<in> set users" for users n l k u
    using that by (auto simp: handleListUsers_def req adminUserSvc_ListUsers_def Users_ListByOrg_def respondError_def Let_def
        split: sum.splits if_splits dest!: set_sql_limit)
  have roles: "ro_OrgID r = g" if "handleListRoles U db (Some c) rq = OK rs" "r \<in> set rs" for rs r
    using that by (auto simp: handleListRoles_def req respond_OK adminRoleSvc_ListRoles_def Roles_ListByOrg_def pg_Query_OK)
  have clients: "cl_OrgID x = g" if "handleListClients U db (Some c) rq = OK cs" "x \<in> set cs" for cs x
    using that by (auto simp: handleListClients_def req respond_OK adminOAuth2ClientSvc_ListClients_def raw_Query_def split: if_splits)
  have branches: "b_OrgID b = g" if "handleListBranches U db (Some c) rq = OK bs" "b \<in> set bs" for bs b
    using that by (auto simp: handleListBranches_def req respond_OK adminBranchSvc_ListBranches_def Branches_ListByOrg_def pg_Query_OK)
  have sessions: "sli_OrgID i = c_OrgID c" if "handleListSessions R st now (Some c) rq = OK (items, n, p, s)" "i \<in> set items" for items n p s i
    using that org(2) by (auto simp: handleListSessions_def claimsOrgID_def respondError_def sessionToItem_def Let_def split: sum.splits if_splits
        dest!: in_set_takeD in_set_dropD)
  have single: "handleGetUser U db (Some c) rq param = respond (Users_GetByID db i)" "handleGetClient U db param = respond (adminOAuth2ClientSvc_GetClient db i)"
      "handleGetUserRoles U db param = respond (UserRoles_GetByUser U db i)" if "uuid_Parse U param = Some i" for i param
    using that by (simp_all add: handleGetUser_def req adminUserSvc_GetUser_def handleGetClient_def handleGetUserRoles_def adminUserRoleSvc_GetUserRoles_def)
  have audit: "\<exists>logs. handleQueryAuditLogs U parse_time auditSvc db rq = OK (logs, int (length (t_audit_logs db)), 50, 0)"
    if "rq_query rq = []" "as_store auditSvc" "\<not> db_down db"
  proof -
    have "query_int rq ''limit'' ''50'' = 50" "query_int rq ''offset'' ''0'' = 0"
      unfolding query_int_def gin_DefaultQuery_def that(1) by code_simp+
    moreover have "filter (audit_where \<lparr>af_OrgID = None, af_ActorID = None, af_Action = [], af_ResourceType = [], af_ResourceID = [], af_BranchID = None,
        af_FromDate = None, af_ToDate = None, af_Limit = 50, af_Offset = 0\<rparr>) rows = rows" for rows by (auto simp: audit_where_def filter_id_conv)
    ultimately show ?thesis using that audit_Query_rows [OF that(2,3), of "\<lparr>af_OrgID = None, af_ActorID = None, af_Action = [], af_ResourceType = [],
        af_ResourceID = [], af_BranchID = None, af_FromDate = None, af_ToDate = None, af_Limit = 50, af_Offset = 0\<rparr>"]
      by (simp add: handleQueryAuditLogs_def gin_Query_def Let_def)
  qed
  show ?thesis
    using admin_gate_OK(1,2) [OF gate] admin_gate_OK(4) [OF gate org(2)] by (intro conjI allI impI ballI) (blast intro: users roles clients branches sessions single audit)+
qed

section \<open>Service endpoints\<close>

definition bearer :: "string \<Rightarrow> request" where
  "bearer tok = \<lparr>rq_query = [], rq_form = [], rq_Authorization = ''Bearer '' @ tok\<rparr>"

lemma m2mOnlyMW_bearer:
  "tok \<noteq> [] \<Longrightarrow> m2mOnlyMW L js now (bearer tok) = (case jwt_VerifyAccessToken (lib_jwt L) js now tok of
     Inl _ \<Rightarrow> Refused 401 ''invalid_token''
   | Inr c \<Rightarrow> if c_ClientID c = [] then Refused 403 ''endpoint restricted to service callers'' else OK ())"
  by (cases tok) (simp_all add: m2mOnlyMW_def bearer_def Let_def)

lemma CreateSession_token:
  "CreateSession L R s st now rnd u g ip ua cl = (st', Inr lr) \<Longrightarrow>
   \<exists>acc. IssueAccessToken (lib_uuid L) (lib_jwt L) (ses_jwt s) now (uuid_String (lib_uuid L) (rnd_jti rnd)) (uuid_String (lib_uuid L) (rnd_session rnd)) u g cl =
     Inr (lr_AccessToken lr, acc)"
  by (auto simp: CreateSession_def Let_def split: prod.splits sum.splits)

lemma login_token:
  assumes "HandleLogin h (db, rs) now rnd c (Inr req) = (rs', OK (LoggedIn lr user))"
  shows "\<exists>acc. IssueAccessToken (lib_uuid (ah_libs h)) (lib_jwt (ah_libs h)) (ses_jwt (ah_session h)) now (uuid_String (lib_uuid (ah_libs h)) (rnd_jti rnd))
     (uuid_String (lib_uuid (ah_libs h)) (rnd_session rnd)) (u_ID user) (u_OrgID user) (login_claims (lib_uuid (ah_libs h)) db user) = Inr (lr_AccessToken lr, acc)"
proof (cases "\<exists>u. login_permitted h db now req u")
  case False
  then show ?thesis using HandleLogin_other [OF False, of rs rnd c] assms by auto
next
  case True
  then obtain u where u: "login_permitted h db now req u" by blast
  then show ?thesis using assms CreateSession_token unfolding HandleLogin_permitted [OF u] by (auto split: prod.splits sum.splits)
qed

text \<open>
  C29: The gate of the service endpoints under /internal/v1 looks only for a client in the
  token. It refuses the token of a login with status 403; but it admits the token a user
  obtains by exchanging an authorization code, although that token is a user's: its
  subject is the user of the code. So the workflow callbacks, which create users and set
  roles, are open to every user of an OAuth2 application.
\<close>

theorem service_gate_admits_user_tokens:
  assumes lib: "jwt_library (lib_jwt (sv_libs sv)) key_ok" and wf: "rkm_wf (js_keyManager (ses_jwt (sv_SessionSvc sv)))"
    and same: "ah_libs h = sv_libs sv" "ses_jwt (ah_session h) = ses_jwt (sv_SessionSvc sv)"
    and login: "HandleLogin h (db, rs) now rnd c (Inr req) = (rs1, OK (LoggedIn lr user))" "lr_AccessToken lr \<noteq> []"
    and exch: "handleTokenExchange sv (db', rs') now rnd' rq = ((db'', rs''), OK resp)" "tr_AccessToken resp \<noteq> []"
    and early: "now' < (now + js_tokenTTL (ses_jwt (sv_SessionSvc sv))) div time_Second * time_Second"
    and ids: "\<And>u. uuid_String (lib_uuid (sv_libs sv)) u \<noteq> []"
  shows "m2mOnlyMW (sv_libs sv) (ses_jwt (sv_SessionSvc sv)) now' (bearer (lr_AccessToken lr)) = Refused 403 ''endpoint restricted to service callers'' \<and>
    m2mOnlyMW (sv_libs sv) (ses_jwt (sv_SessionSvc sv)) now' (bearer (tr_AccessToken resp)) = OK () \<and>
    (\<exists>a cl. Codes_GetByCode db' (PostForm rq ''code'') = Inr a \<and>
       jwt_VerifyAccessToken (lib_jwt (sv_libs sv)) (ses_jwt (sv_SessionSvc sv)) now' (tr_AccessToken resp) = Inr cl \<and>
       c_Subject cl = uuid_String (lib_uuid (sv_libs sv)) (ac_UserID a))"
proof -
  let ?L = "sv_libs sv" and ?js = "ses_jwt (sv_SessionSvc sv)"
  obtain acc where iss: "IssueAccessToken (lib_uuid ?L) (lib_jwt ?L) ?js now (uuid_String (lib_uuid ?L) (rnd_jti rnd))
      (uuid_String (lib_uuid ?L) (rnd_session rnd)) (u_ID user) (u_OrgID user) (login_claims (lib_uuid ?L) db user) = Inr (lr_AccessToken lr, acc)"
    using login_token [OF login(1)] unfolding same by blast
  obtain km where act: "ActiveKey (js_keyManager ?js) = Some km" using iss by (rule jwt_library.issuedD [OF lib])
  have "\<exists>cl. jwt_VerifyAccessToken (lib_jwt ?L) ?js now' (lr_AccessToken lr) = Inr cl \<and> c_ClientID cl = []"
    using jwt_library.verify_issued_by [OF lib iss act ActiveKey_stored [OF wf act, THEN conjunct1] refl early]
    by (simp add: access_claims_fields login_claims_def Let_def)
  moreover obtain who where ex: "ExchangeCodeForTokens ?L (sv_redis sv) (sv_SessionSvc sv) (db', rs') now rnd' (PostForm rq ''code'')
      (PostForm rq ''code_verifier'') (PostForm rq ''redirect_uri'') = ((db'', rs''), Inr resp)"
    using client_authenticates [OF exch(1)] by auto
  moreover obtain a client acc' where a: "exchangeable ?L db' now (PostForm rq ''code'') (PostForm rq ''code_verifier'') (PostForm rq ''redirect_uri'') a client"
    and code: "IssueAccessToken (lib_uuid ?L) (lib_jwt ?L) ?js now (uuid_String (lib_uuid ?L) (rnd_jti rnd')) (uuid_String (lib_uuid ?L) (rnd_session rnd'))
      (ac_UserID a) (ac_OrgID a) (code_claims ?L client a) = Inr (tr_AccessToken resp, acc')"
    by (rule ExchangeCodeForTokens_okD [OF ex]) blast
  ultimately show ?thesis
    using verify_code_token [OF lib wf code early] ids [of "cl_ID client"] login(2) exch(2) by (auto simp: m2mOnlyMW_bearer exchangeable_def)
qed

section \<open>Paging through the users\<close>

text \<open>A client that asks for the first page and then for the next one, with the last row as cursor, while there is one.\<close>

definition row_json :: "userLookupRow \<Rightarrow> JSON" where
  "row_json r = [(''id'', AnyString (ulr_ID r)), (''username'', AnyString (ulr_Username r)), (''full_name'', AnyString (ulr_FullName r)),
     (''email'', AnyString (ulr_Email r)), (''status'', AnyString (ulr_Status r))]"

fun lookup_walk ::
  "nat \<Rightarrow> (DataTableRequest \<Rightarrow> userLookupRow DataTableResponse response) \<Rightarrow> int \<Rightarrow> string option \<Rightarrow> JSON option \<Rightarrow> userLookupRow list option" where
  "lookup_walk 0 ask psize search bottom = None"
| "lookup_walk (Suc fuel) ask psize search bottom =
     (case ask \<lparr>dt_ReqType = (if bottom = None then ''first'' else ''next''), dt_PageSize = psize, dt_TopData = None, dt_BottomData = bottom, dt_SearchText = search\<rparr> of
        Refused _ _ \<Rightarrow> None
      | OK r \<Rightarrow> if dt_AllowNext r then map_option ((@) (dt_Data r)) (lookup_walk fuel ask psize search (Some (row_json (last (dt_Data r)))))
          else Some (dt_Data r))"

text \<open>The rows after a row of a list that is strictly ordered by name.\<close>

lemma filter_after:
  fixes f :: "User \<Rightarrow> string"
  assumes "sorted_wrt (\<lambda>a b. u_Username a < u_Username b) (xs @ ys)" "xs \<noteq> []"
  shows "filter (\<lambda>u. (u_Username (last xs), f (last xs)) < (u_Username u, f u)) (xs @ ys) = ys"
proof -
  obtain zs x where xs: "xs = zs @ [x]" using assms(2) by (metis rev_exhaust)
  have "filter (\<lambda>u. (u_Username x, f x) < (u_Username u, f u)) zs = []"
    using assms(1) by (auto simp: xs sorted_wrt_append filter_empty_conv)
  moreover have "filter (\<lambda>u. (u_Username x, f x) < (u_Username u, f u)) ys = ys"
    using assms(1) by (auto simp: xs sorted_wrt_append filter_id_conv)
  ultimately show ?thesis by (simp add: xs)
qed

lemma strictly_sorted:
  fixes f :: "'a \<Rightarrow> 'b :: linorder"
  shows "sorted_wrt (\<lambda>a b. f a < f b) xs \<Longrightarrow> distinct xs \<and> sorted (map f xs)"
  by (induction xs) (auto simp: less_le)

lemma lookup_users_strict:
  assumes "db_wf db"
  shows "sorted_wrt (\<lambda>a b. u_Username a < u_Username b) (lookup_users db g search)"
proof -
  let ?L = "lookup_users db g search"
  have "distinct (map u_Username (t_users db))" using assms by (simp add: db_wf_def)
  then have d: "distinct (map u_Username ?L)"
    unfolding lookup_users_def by (metis (no_types, lifting) distinct_map_filter distinct_map distinct_sort set_sort)
  have "sorted (map (\<lambda>u. (u_Username u, u_ID u)) ?L)" by (simp add: lookup_users_def)
  then have "sorted_wrt (\<lambda>a b. u_Username a \<le> u_Username b) ?L" by (auto simp: sorted_map elim: sorted_wrt_mono_rel [rotated])
  then show ?thesis using d by (auto simp: sorted_wrt_iff_nth_less distinct_conv_nth order.strict_iff_order)
qed

text \<open>The answer to a request, once the token is verified.\<close>

lemma lookup_page:
  assumes ok: "sv_has_SessionSvc sv" "rq_Authorization rq = ''Bearer '' @ tok" "tok \<noteq> []" "\<not> db_down db"
      "VerifyAccessToken (sv_libs sv) (sv_redis sv) (sv_SessionSvc sv) rs now tok = Inr c" "uuid_Parse (lib_uuid (sv_libs sv)) (c_OrgID c) = Some g"
    and psize: "1 \<le> psize" "psize \<le> 100"
    and rows: "lookup_users db g (case search of None \<Rightarrow> [] | Some s \<Rightarrow> strings_TrimSpace s) = xs @ ys"
      "sorted_wrt (\<lambda>a b. u_Username a < u_Username b) (xs @ ys)" "\<forall>u \<in> set xs. u_Username u \<noteq> []"
    and bottom: "bottom = (if xs = [] then None else Some (row_json (lookup_row (lib_uuid (sv_libs sv)) (last xs))))"
  shows "handleUserLookup sv db rs now rq (Some \<lparr>dt_ReqType = (if bottom = None then ''first'' else ''next''), dt_PageSize = psize, dt_TopData = None, dt_BottomData = bottom, dt_SearchText = search\<rparr>) =
    OK \<lparr>dt_Data = map (lookup_row (lib_uuid (sv_libs sv))) (take (nat psize) ys), dt_AllowNext = int (length ys) > psize, dt_AllowPrev = bottom \<noteq> None\<rparr>"
proof -
  let ?U = "lib_uuid (sv_libs sv)" and ?search = "case search of None \<Rightarrow> [] | Some s \<Rightarrow> strings_TrimSpace s"
  let ?req = "\<lparr>dt_ReqType = (if bottom = None then ''first'' else ''next''), dt_PageSize = psize, dt_TopData = None, dt_BottomData = bottom, dt_SearchText = search\<rparr>"
  have tok: "trimBearer (rq_Authorization rq) = tok" by (simp add: trimBearer_def ok(2))
  have req: "lookup_request (Some ?req) = ?req" using psize by (simp add: lookup_request_def)
  have q: "lookup_query ?U db g ?search ?req = take (nat (psize + 1)) ys"
  proof (cases "xs = []")
    case True
    then show ?thesis using rows(1) by (simp add: lookup_query_def bottom row_string_def Let_def)
  next
    case False
    then have "u_Username (last xs) \<noteq> []" using rows(3) by simp
    then show ?thesis using False filter_after [OF rows(2) False, of "\<lambda>u. uuid_String ?U (u_ID u)"]
      by (simp add: lookup_query_def bottom row_string_def row_json_def lookup_row_def rows(1) Let_def)
  qed
  have len: "int (length (take (nat (psize + 1)) ys)) > psize \<longleftrightarrow> int (length ys) > psize" using psize by auto
  have min: "take (nat psize) (take (nat (psize + 1)) ys) = take (nat psize) ys" using psize by (simp add: min_def)
  show ?thesis
    unfolding handleUserLookup_def Let_def tok using ok(1,3-6) psize
    by (simp add: req q [unfolded Let_def] len [simplified] take_map min)
qed

lemma lookup_walk_rest:
  assumes ok: "sv_has_SessionSvc sv" "rq_Authorization rq = ''Bearer '' @ tok" "tok \<noteq> []" "\<not> db_down db"
      "VerifyAccessToken (sv_libs sv) (sv_redis sv) (sv_SessionSvc sv) rs now tok = Inr c" "uuid_Parse (lib_uuid (sv_libs sv)) (c_OrgID c) = Some g"
    and psize: "1 \<le> psize" "psize \<le> 100"
    and rows: "lookup_users db g (case search of None \<Rightarrow> [] | Some s \<Rightarrow> strings_TrimSpace s) = xs @ ys"
      "sorted_wrt (\<lambda>a b. u_Username a < u_Username b) (xs @ ys)" "\<forall>u \<in> set (xs @ ys). u_Username u \<noteq> []"
    and fuel: "length ys < fuel"
  shows "lookup_walk fuel (\<lambda>r. handleUserLookup sv db rs now rq (Some r)) psize search
      (if xs = [] then None else Some (row_json (lookup_row (lib_uuid (sv_libs sv)) (last xs)))) = Some (map (lookup_row (lib_uuid (sv_libs sv))) ys)"
  using rows fuel
proof (induction fuel arbitrary: xs ys)
  case (Suc fuel)
  let ?U = "lib_uuid (sv_libs sv)" and ?page = "take (nat psize) ys"
  let ?bottom = "if xs = [] then None else Some (row_json (lookup_row ?U (last xs)))"
  note page = lookup_page [OF ok psize Suc.prems(1,2) _ refl]
  show ?case
  proof (cases "int (length ys) > psize")
    case False
    then show ?thesis using page Suc.prems(3) by simp
  next
    case True
    then have ne: "?page \<noteq> []" using psize by (cases ys) auto
    have "lookup_walk fuel (\<lambda>r. handleUserLookup sv db rs now rq (Some r)) psize search
        (if xs @ ?page = [] then None else Some (row_json (lookup_row ?U (last (xs @ ?page))))) = Some (map (lookup_row ?U) (drop (nat psize) ys))"
    proof (rule Suc.IH)
      show "lookup_users db g (case search of None \<Rightarrow> [] | Some s \<Rightarrow> strings_TrimSpace s) = (xs @ ?page) @ drop (nat psize) ys" using Suc.prems(1) by simp
      show "sorted_wrt (\<lambda>a b. u_Username a < u_Username b) ((xs @ ?page) @ drop (nat psize) ys)" using Suc.prems(2) by simp
      show "\<forall>u \<in> set ((xs @ ?page) @ drop (nat psize) ys). u_Username u \<noteq> []" using Suc.prems(3) by simp
      show "length (drop (nat psize) ys) < fuel" using Suc.prems(4) psize True by simp
    qed
    moreover have "last (map (lookup_row ?U) ?page) = lookup_row ?U (last (xs @ ?page))" using ne by (simp add: last_map)
    moreover have "map (lookup_row ?U) ?page @ map (lookup_row ?U) (drop (nat psize) ys) = map (lookup_row ?U) ys"
      unfolding map_append [symmetric] append_take_drop_id ..
    ultimately show ?thesis using page Suc.prems(3) True ne by simp
  qed
qed simp

text \<open>
  C30: Paging through the user lookup ends. For a verified token and a page size between 1
  and 100, asking for the first page and then for the next one until none is offered takes
  at most one request more than there are users, and the pages together are exactly the
  users of the token's organization that match the search, each once, ordered by name
  (no user has an empty name, which the cursor could not tell from an absent one).
\<close>

theorem user_lookup_pages_terminate:
  assumes "sv_has_SessionSvc sv" "rq_Authorization rq = ''Bearer '' @ tok" "tok \<noteq> []" "\<not> db_down db"
      "VerifyAccessToken (sv_libs sv) (sv_redis sv) (sv_SessionSvc sv) rs now tok = Inr c" "uuid_Parse (lib_uuid (sv_libs sv)) (c_OrgID c) = Some g"
    and "1 \<le> psize" "psize \<le> 100" and "db_wf db" and "\<forall>u \<in> set (t_users db). u_Username u \<noteq> []"
    and "fuel = Suc (length (t_users db))"
  shows "\<exists>users. lookup_walk fuel (\<lambda>r. handleUserLookup sv db rs now rq (Some r)) psize search None = Some (map (lookup_row (lib_uuid (sv_libs sv))) users) \<and>
    distinct users \<and> sorted (map u_Username users) \<and>
    set users = {u \<in> set (t_users db). u_OrgID u = g \<and> u_DeletedAt u = None \<and>
      (let s = (case search of None \<Rightarrow> [] | Some s \<Rightarrow> strings_TrimSpace s)
       in s = [] \<or> (\<exists>f \<in> {u_Username, u_FullName, u_Email}. ilike (f u) (''%'' @ s @ ''%'')))}"
proof -
  let ?s = "case search of None \<Rightarrow> [] | Some s \<Rightarrow> strings_TrimSpace s"
  let ?users = "lookup_users db g ?s"
  note strict = lookup_users_strict [OF assms(9), of g ?s]
  have set: "set ?users = {u \<in> set (t_users db). u_OrgID u = g \<and> u_DeletedAt u = None \<and>
      (let s = ?s in s = [] \<or> (\<exists>f \<in> {u_Username, u_FullName, u_Email}. ilike (f u) (''%'' @ s @ ''%'')))}"
    by (auto simp: lookup_users_def Let_def)
  have "length ?users < fuel" using assms(11) by (simp add: lookup_users_def le_imp_less_Suc)
  then have "lookup_walk fuel (\<lambda>r. handleUserLookup sv db rs now rq (Some r)) psize search None = Some (map (lookup_row (lib_uuid (sv_libs sv))) ?users)"
    using lookup_walk_rest [OF assms(1-8), of search "[]" ?users fuel] strict assms(10) set by auto
  moreover have "distinct ?users" "sorted (map u_Username ?users)"
    using strictly_sorted [OF strict] by simp_all
  ultimately show ?thesis using set by blast
qed

section \<open>A concrete run\<close>

lemma demo_token_nonempty: "IssueAccessToken U field_jwt js now tid sid u g cl = Inr (tok, acc) \<Longrightarrow> tok \<noteq> []"
  by (auto simp: IssueAccessToken_def field_jwt_def field_sign_def pack_def split: option.splits sum.splits)

text \<open>An administrator of organization 1: the token and its claims.\<close>

lemma demo_admin:
  obtains tok c where "jwt_VerifyAccessToken field_jwt demo_jwt 1 tok = Inr c" "VerifyAccessToken demo_libs mem_redis demo_sessions [] 1 tok = Inr c" "tok \<noteq> []"
    "c_OrgID c = uuid_String bits_uuid 1" "c_Roles c = [''Admin'']"
proof -
  let ?cl = "Claims0\<lparr>c_Roles := [''Admin'']\<rparr>"
  obtain tok acc where iss: "IssueAccessToken bits_uuid field_jwt demo_jwt 0 ''t'' ''s1'' 5 1 ?cl = Inr (tok, acc)"
    using field_jwt.issue_ok [OF demo_jwt_key TrueI] by blast
  have ver: "jwt_VerifyAccessToken field_jwt demo_jwt 1 tok = Inr (access_claims bits_uuid field_jwt demo_jwt 0 ''t'' ''s1'' 5 1 ?cl)"
    by (rule field_jwt.verify_issued_by [OF iss demo_jwt_key ActiveKey_stored [OF demo_jwt_wf demo_jwt_key, THEN conjunct1] refl])
      (simp add: demo_jwt_def jwt_NewService_def)
  moreover have "IsSessionRevoked mem_redis [] 1 x = Inr False" for x
    by (simp add: IsSessionRevoked_def mem_redis_def mem_exists_def mem_read_defs)
  ultimately have "VerifyAccessToken demo_libs mem_redis demo_sessions [] 1 tok = Inr (access_claims bits_uuid field_jwt demo_jwt 0 ''t'' ''s1'' 5 1 ?cl)"
    by (simp add: VerifyAccessToken_def)
  from that [OF ver this demo_token_nonempty [OF iss]] show thesis by (simp add: access_claims_fields)
qed

theorem admin_tenant_scope_witness:
  "\<exists>tok. (\<exists>c. admin_gate demo_libs demo_jwt [] 1 ''10.0.0.1'' (bearer tok) = ([(''10.0.0.1'', [1])], OK c) \<and>
     (\<exists>logs. handleQueryAuditLogs bits_uuid (\<lambda>_. None) demo_audit demo_audit_db (bearer tok) = OK (logs, 2, 50, 0)))"
proof -
  obtain tok c where t: "jwt_VerifyAccessToken field_jwt demo_jwt 1 tok = Inr c" "tok \<noteq> []" "c_OrgID c = uuid_String bits_uuid 1" "c_Roles c = [''Admin'']"
    by (rule demo_admin)
  have low: "strings_ToLower ''Admin'' = ''admin''" by code_simp
  have gate: "admin_gate demo_libs demo_jwt [] 1 ''10.0.0.1'' (bearer tok) = ([(''10.0.0.1'', [1])], OK c)"
    using t(1,2) by (cases tok) (simp_all add: admin_gate_def bearerMW_def bearer_def AdminAuth_def Allow_def NewAdminRateLimiter_def
        DefaultAdminAuthConfig_def Let_def gin_Query_def low t(3,4) bits_uuid_plain)
  have "as_store demo_audit" "\<not> db_down demo_audit_db" "length (t_audit_logs demo_audit_db) = 2" "rq_query (bearer tok) = []"
    by (code_simp, code_simp, code_simp, simp add: bearer_def)
  note facts = this
  have org: "uuid_Parse bits_uuid (c_OrgID c) = Some 1" "c_OrgID c \<noteq> []" using t(3) bits_uuid_plain(2) bits_uuid.parse_string by simp_all
  note scope = admin_tenant_scope [OF gate org, where auditSvc = demo_audit and db = demo_audit_db and parse_time = "\<lambda>_. None" and R = mem_redis and st = "[]"]
  from scope have "rq_query (bearer tok) = [] \<and> as_store demo_audit \<and> \<not> db_down demo_audit_db \<longrightarrow>
      (\<exists>logs. handleQueryAuditLogs bits_uuid (\<lambda>_. None) demo_audit demo_audit_db (bearer tok) = OK (logs, int (length (t_audit_logs demo_audit_db)), 50, 0))"
    by (elim conjE)
  then show ?thesis using facts gate by auto
qed

theorem service_gate_admits_user_tokens_witness:
  "\<exists>lr user st' resp. snd (HandleLogin demo_handler (AuthProps.demo_db, []) 2 (SessionProps.demo_rand 7) AuthProps.demo_client (Inr demo_request)) = OK (LoggedIn lr user) \<and>
     handleTokenExchange demo_server (demo_exchange_db, []) 2 (SessionProps.demo_rand 40) demo_exchange = (st', OK resp) \<and>
     m2mOnlyMW demo_libs demo_jwt 3 (bearer (lr_AccessToken lr)) = Refused 403 ''endpoint restricted to service callers'' \<and>
     m2mOnlyMW demo_libs demo_jwt 3 (bearer (tr_AccessToken resp)) = OK ()"
proof -
  have "case find_account AuthProps.demo_db ''bob'' of Inl _ \<Rightarrow> False | Inr user \<Rightarrow> login_permitted demo_handler AuthProps.demo_db 2 demo_request user"
    unfolding login_permitted_def demo_handler_simps by code_simp
  then obtain user where user: "login_permitted demo_handler AuthProps.demo_db 2 demo_request user" by (auto split: sum.splits)
  let ?rs1 = "fst (RevokeAllUserSessions mem_redis [] 2 (uuid_String bits_uuid (u_ID user)))"
  have inv: "session_inv mem_up mem_kv mem_smem ?rs1 2" using mem.RevokeAllUserSessions_ok(2) [OF mem_empty_inv] .
  have lib: "jwt_library (lib_jwt demo_libs) (\<lambda>_. True)" "0 < ses_ttl demo_sessions" using field_jwt.jwt_library_axioms by simp_all
  obtain rs2 lr where cs: "CreateSession demo_libs mem_redis demo_sessions ?rs1 2 (SessionProps.demo_rand 7) (u_ID user) (u_OrgID user) (clientIP AuthProps.demo_client)
      (ch_UserAgent AuthProps.demo_client) (login_claims bits_uuid AuthProps.demo_db user) = (rs2, Inr lr)"
    using mem.CreateSession_view [OF inv lib(2,1) demo_jwt_key [folded demo_simps(5)] TrueI, where rnd = "SessionProps.demo_rand 7" and u = "u_ID user" and
      g = "u_OrgID user" and ip = "clientIP AuthProps.demo_client" and ua = "ch_UserAgent AuthProps.demo_client" and cl = "login_claims bits_uuid AuthProps.demo_db user"]
    by metis
  have login: "HandleLogin demo_handler (AuthProps.demo_db, []) 2 (SessionProps.demo_rand 7) AuthProps.demo_client (Inr demo_request) = (rs2, OK (LoggedIn lr user))"
    using cs by (simp add: HandleLogin_permitted [OF user])
  obtain db' rs' resp where exch: "handleTokenExchange demo_server (demo_exchange_db, []) 2 (SessionProps.demo_rand 40) demo_exchange = ((db', rs'), OK resp)"
    using demo_exchange_ok by (metis surj_pair)
  have "\<exists>acc. IssueAccessToken bits_uuid field_jwt demo_jwt 2 (uuid_String bits_uuid (rnd_jti (SessionProps.demo_rand 7))) (uuid_String bits_uuid (rnd_session (SessionProps.demo_rand 7)))
      (u_ID user) (u_OrgID user) (login_claims bits_uuid AuthProps.demo_db user) = Inr (lr_AccessToken lr, acc)"
    using CreateSession_token [OF cs] by simp
  then have tok: "lr_AccessToken lr \<noteq> []" using demo_token_nonempty by blast
  have tok': "tr_AccessToken resp \<noteq> []"
  proof -
    have "ExchangeCodeForTokens demo_libs mem_redis demo_sessions (demo_exchange_db, []) 2 (SessionProps.demo_rand 40) (generateCode ''b'') [] ''https://app/cb'' = ((db', rs'), Inr resp)"
      using client_authenticates [OF exch] by auto
    then show ?thesis by (rule ExchangeCodeForTokens_okD) (use demo_token_nonempty in auto)
  qed
  have "jwt_library (lib_jwt (sv_libs demo_server)) (\<lambda>_. True)" "rkm_wf (js_keyManager (ses_jwt (sv_SessionSvc demo_server)))"
      "ah_libs demo_handler = sv_libs demo_server" "ses_jwt (ah_session demo_handler) = ses_jwt (sv_SessionSvc demo_server)"
      "3 < (2 + js_tokenTTL (ses_jwt (sv_SessionSvc demo_server))) div time_Second * time_Second"
    using lib(1) demo_jwt_wf demo_early [of 3 2] by simp_all
  from service_gate_admits_user_tokens [OF this(1-4) login tok exch tok' this(5)] show ?thesis
    using login exch bits_uuid_plain(2) by simp
qed

theorem user_lookup_pages_terminate_witness:
  "\<exists>tok. lookup_walk 2 (\<lambda>r. handleUserLookup demo_server demo_registered [] 1 (bearer tok) (Some r)) 1 (Some '' bO '') None =
     Some (map (lookup_row bits_uuid) (t_users demo_registered))"
proof -
  obtain tok c where t: "VerifyAccessToken demo_libs mem_redis demo_sessions [] 1 tok = Inr c" "tok \<noteq> []" "c_OrgID c = uuid_String bits_uuid 1"
    by (rule demo_admin)
  have db: "\<not> db_down demo_registered" "\<forall>u \<in> set (t_users demo_registered). u_Username u \<noteq> []" "length (t_users demo_registered) = 1"
    by code_simp+
  then obtain u0 where u0: "t_users demo_registered = [u0]" by (cases "t_users demo_registered") auto
  have m: "list_all (\<lambda>u. u_OrgID u = 1 \<and> u_DeletedAt u = None \<and> ilike (u_Username u) (''%'' @ strings_TrimSpace '' bO '' @ ''%'')) (t_users demo_registered)"
    by code_simp
  from user_lookup_pages_terminate [of demo_server "bearer tok" tok demo_registered "[]" 1 c 1 1 2 "Some '' bO ''"] t db demo_wf(1)
  obtain users where walk: "lookup_walk 2 (\<lambda>r. handleUserLookup demo_server demo_registered [] 1 (bearer tok) (Some r)) 1 (Some '' bO '') None = Some (map (lookup_row bits_uuid) users)"
    and "distinct users" "set users = {u \<in> set (t_users demo_registered). u_OrgID u = 1 \<and> u_DeletedAt u = None \<and>
      (let s = strings_TrimSpace '' bO '' in s = [] \<or> (\<exists>f \<in> {u_Username, u_FullName, u_Email}. ilike (f u) (''%'' @ s @ ''%'')))}"
    by (auto simp: bearer_def bits_uuid.parse_string)
  moreover from m have "u_OrgID u0 = 1 \<and> u_DeletedAt u0 = None \<and> ilike (u_Username u0) (''%'' @ strings_TrimSpace '' bO '' @ ''%'')"
    by (simp add: u0)
  ultimately have "distinct users" "set users = {u0}" by (auto simp: u0 Let_def)
  then have "users = [u0]" by (cases users; cases "tl users") auto
  then show ?thesis using walk u0 by auto
qed

end
