(* ===== verification/Mfa.thy ===== *)
theory Mfa
  imports AuthRest Middleware
begin

text \<open>
  Package internal/service/mfa, the second factor service: encryption of secrets
  (encryptor.go), time-based codes (totp.go), codes by mail (email.go, ratelimit.go),
  backup codes (backup.go) and the service over them (service.go), and its endpoints
  (internal/api/rest/mfa.go). The state is the tables and Redis. Parameters of the service
  record: AES-GCM, the packages \<^verbatim>\<open>pquerna/otp\<close> and \<^verbatim>\<open>bcrypt\<close>. Random bytes, salts and
  identifiers are arguments.
\<close>

record 'r MFAService =
  mfa_redis :: "'r redis"
  mfa_uuid :: uuid_pkg
  mfa_inet :: "string \<Rightarrow> string option"
  mfa_key :: string
  mfa_Seal :: "string \<Rightarrow> string \<Rightarrow> string \<Rightarrow> string"
  mfa_Open :: "string \<Rightarrow> string \<Rightarrow> string \<Rightarrow> string option"
  mfa_totp_Generate :: "string \<Rightarrow> string \<Rightarrow> string \<Rightarrow> (string \<times> string) result"
  mfa_totp_Validate :: "time \<Rightarrow> string \<Rightarrow> string \<Rightarrow> bool"
  mfa_bcrypt_Generate :: "string \<Rightarrow> string \<Rightarrow> string result"
  mfa_bcrypt_Compare :: "string \<Rightarrow> string \<Rightarrow> bool"

section \<open>encryptor.go\<close>

text \<open>\<open>mfa_Seal key iv text\<close> and \<open>mfa_Open key iv text\<close> are GCM with an AES key and nonces of 12 bytes.\<close>

definition NewEncryptor :: "string \<Rightarrow> string result" where
  "NewEncryptor key = (if length key \<noteq> 32 then Inl (Errorf ''mfa.NewEncryptor: key must be 32 bytes'') else Inr key)"

definition aes_key_ok :: "string \<Rightarrow> bool" where
  "aes_key_ok key \<longleftrightarrow> length key \<in> {16, 24, 32}"

definition aes_key_error :: error where
  "aes_key_error = External ''crypto/aes: invalid key size''"

definition Encrypt :: "'r MFAService \<Rightarrow> string \<Rightarrow> string \<Rightarrow> (string \<times> string) result" where
  "Encrypt s iv plaintext =
     (if \<not> aes_key_ok (mfa_key s) then Inl (Wrapf ''Encryptor.Encrypt: new cipher'' aes_key_error)
      else Inr (mfa_Seal s (mfa_key s) iv plaintext, iv))"

definition Decrypt :: "'r MFAService \<Rightarrow> string \<Rightarrow> string \<Rightarrow> string result" where
  "Decrypt s ciphertext iv =
     (if \<not> aes_key_ok (mfa_key s) then Inl (Wrapf ''Encryptor.Decrypt: new cipher'' aes_key_error)
      else if length iv \<noteq> 12 then Inl (Errorf ''Encryptor.Decrypt: invalid iv size'')
      else case mfa_Open s (mfa_key s) iv ciphertext of
        None \<Rightarrow> Inl (Wrapf ''Encryptor.Decrypt: decrypt'' (External ''cipher: message authentication failed''))
      | Some plaintext \<Rightarrow> Inr plaintext)"

section \<open>totp.go\<close>

text \<open>
  \<open>mfa_totp_Generate issuer account secret\<close> is \<^verbatim>\<open>totp.Generate\<close> with a secret of its own: the
  secret in base 32 and the URL of the key. The repository never answers without a row and
  without an error, so the branches for a nil configuration are not reached.
\<close>

definition Enroll :: "'r MFAService \<Rightarrow> db \<Rightarrow> time \<Rightarrow> string \<Rightarrow> uuid \<Rightarrow> db \<times> (string \<times> string) result" where
  "Enroll s db now iv userID =
     (case mfa_totp_Generate s ''Auth7'' (uuid_String (mfa_uuid s) userID) (replicate 20 (CHR 0x00)) of
        Inl e \<Rightarrow> (db, Inl (Wrapf ''TOTPService.Enroll: generate key'' e))
      | Inr (secretBase32, qrData) \<Rightarrow>
          (case MFA_GetByUserID db userID of
             Inl e \<Rightarrow> (db, Inl (Wrapf ''TOTPService.Enroll: get config'' e))
           | Inr cfg0 \<Rightarrow>
               (case Encrypt s iv secretBase32 of
                  Inl e \<Rightarrow> (db, Inl (Wrapf ''TOTPService.Enroll: encrypt secret'' e))
                | Inr (encryptedSecret, iv') \<Rightarrow>
                    (let cfg = cfg0\<lparr>mc_TOTPSecretEncrypted := Some encryptedSecret, mc_TOTPSecretIV := Some iv', mc_IsTOTPEnabled := False, mc_UpdatedAt := now\<rparr>
                     in if mc_ID cfg = uuid_Nil
                        then (case MFA_Create db cfg of
                            (db1, Inl e) \<Rightarrow> (db1, Inl (Wrapf ''TOTPService.Enroll: create config'' e))
                          | (db1, Inr _) \<Rightarrow> (db1, Inr (secretBase32, qrData)))
                        else (case MFA_Update db now cfg of
                            (db1, Inl e) \<Rightarrow> (db1, Inl (Wrapf ''TOTPService.Enroll: update config'' e))
                          | (db1, Inr _) \<Rightarrow> (db1, Inr (secretBase32, qrData)))))))"

definition replayKey :: "'r MFAService \<Rightarrow> uuid \<Rightarrow> string \<Rightarrow> string" where
  "replayKey s userID code = ''mfa:totp:replay:'' @ uuid_String (mfa_uuid s) userID @ '':'' @ code"

text \<open>The common end of \<^verbatim>\<open>Enable\<close> and \<^verbatim>\<open>Verify\<close>: decrypt, validate, and note the code as used.\<close>

definition check_code :: "'r MFAService \<Rightarrow> string \<Rightarrow> 'r \<Rightarrow> time \<Rightarrow> MFAConfig \<Rightarrow> uuid \<Rightarrow> string \<Rightarrow> 'r \<times> unit result" where
  "check_code s op rs now cfg userID code =
     (case Decrypt s (the_slice (mc_TOTPSecretEncrypted cfg)) (the_slice (mc_TOTPSecretIV cfg)) of
        Inl e \<Rightarrow> (rs, Inl (Wrapf (op @ '': decrypt secret'') e))
      | Inr secret \<Rightarrow>
          if \<not> mfa_totp_Validate s now code secret then (rs, Inl (Errorf (op @ '': invalid code'')))
          else if (case r_Get (mfa_redis s) rs now (replayKey s userID code) of Inl _ \<Rightarrow> False | Inr v \<Rightarrow> payload_text v \<noteq> [])
          then (rs, Inl (Errorf (op @ '': code already used'')))
          else (case r_Set (mfa_redis s) rs now (replayKey s userID code) (Text ''1'') (30 * time_Second) of
              (rs1, Some e) \<Rightarrow> (rs1, Inl (Wrapf (op @ '': set replay key'') e))
            | (rs1, None) \<Rightarrow> (rs1, Inr ())))"

definition totp_Enable :: "'r MFAService \<Rightarrow> db \<times> 'r \<Rightarrow> time \<Rightarrow> uuid \<Rightarrow> string \<Rightarrow> (db \<times> 'r) \<times> unit result" where
  "totp_Enable s st now userID code =
     (case MFA_GetByUserID (fst st) userID of
        Inl e \<Rightarrow> (st, Inl (Wrapf ''TOTPService.Enable: get config'' e))
      | Inr cfg \<Rightarrow>
          if slice_len (mc_TOTPSecretEncrypted cfg) = 0 then (st, Inl (Errorf ''TOTPService.Enable: totp not enrolled''))
          else (case check_code s ''TOTPService.Enable'' (snd st) now cfg userID code of
              (rs1, Inl e) \<Rightarrow> ((fst st, rs1), Inl e)
            | (rs1, Inr _) \<Rightarrow>
                (case MFA_Update (fst st) now (cfg\<lparr>mc_IsTOTPEnabled := True, mc_MFAEnabledAt := Some now, mc_UpdatedAt := now\<rparr>) of
                   (db1, Inl e) \<Rightarrow> ((db1, rs1), Inl (Wrapf ''TOTPService.Enable: update config'' e))
                 | (db1, Inr _) \<Rightarrow> ((db1, rs1), Inr ()))))"

definition totp_Verify :: "'r MFAService \<Rightarrow> db \<times> 'r \<Rightarrow> time \<Rightarrow> uuid \<Rightarrow> string \<Rightarrow> (db \<times> 'r) \<times> unit result" where
  "totp_Verify s st now userID code =
     (case MFA_GetByUserID (fst st) userID of
        Inl e \<Rightarrow> (st, Inl (Wrapf ''TOTPService.Verify: get config'' e))
      | Inr cfg \<Rightarrow>
          if \<not> mc_IsTOTPEnabled cfg \<or> slice_len (mc_TOTPSecretEncrypted cfg) = 0 then (st, Inl (Errorf ''TOTPService.Verify: totp not enabled''))
          else (case check_code s ''TOTPService.Verify'' (snd st) now cfg userID code of (rs1, r) \<Rightarrow> ((fst st, rs1), r)))"

definition ValidateTOTPCode :: "'r MFAService \<Rightarrow> time \<Rightarrow> string \<Rightarrow> string \<Rightarrow> bool" where
  "ValidateTOTPCode s now secret code = mfa_totp_Validate s now code secret"

section \<open>ratelimit.go\<close>

definition mfa_Allow :: "'r redis \<Rightarrow> 'r \<Rightarrow> time \<Rightarrow> string \<Rightarrow> int \<Rightarrow> duration \<Rightarrow> 'r \<times> bool result" where
  "mfa_Allow R rs now key limit window =
     (case r_Incr R rs now (''rate_limit:'' @ key) of
        (rs1, Inl e) \<Rightarrow> (rs1, Inl (Wrapf ''RedisRateLimiter.Allow: incr'' e))
      | (rs1, Inr n) \<Rightarrow> (if n = 1 then fst (r_Expire R rs1 now (''rate_limit:'' @ key) window) else rs1, Inr (n \<le> limit)))"

section \<open>email.go\<close>

text \<open>\<open>ds\<close>: the six numbers drawn below ten. The texts of the results of \<^verbatim>\<open>bcrypt\<close> are the hashes.\<close>

definition otp_generateCode :: "nat list \<Rightarrow> string" where
  "otp_generateCode ds = map (\<lambda>d. ''0123456789'' ! d) ds"

definition otpKey :: "'r MFAService \<Rightarrow> uuid \<Rightarrow> string \<Rightarrow> string" where
  "otpKey s userID purpose = ''mfa:email_otp:code:'' @ uuid_String (mfa_uuid s) userID @ '':'' @ purpose"

record otp_rand =
  or_digits :: "nat list"
  or_salt :: string
  or_id :: uuid

definition otp_Generate :: "'r MFAService \<Rightarrow> db \<times> 'r \<Rightarrow> time \<Rightarrow> otp_rand \<Rightarrow> uuid \<Rightarrow> string \<Rightarrow> (db \<times> 'r) \<times> string result" where
  "otp_Generate s st now rnd userID purpose =
     (case mfa_Allow (mfa_redis s) (snd st) now (''mfa:email_otp:rate:'' @ uuid_String (mfa_uuid s) userID) 3 time_Hour of
        (rs1, Inl e) \<Rightarrow> ((fst st, rs1), Inl (Wrapf ''EmailOTPService.Generate: rate limit check'' e))
      | (rs1, Inr allowed) \<Rightarrow>
          if \<not> allowed then ((fst st, rs1), Inl (Errorf ''EmailOTPService.Generate: rate limit exceeded''))
          else (let code = otp_generateCode (or_digits rnd)
                in case mfa_bcrypt_Generate s (or_salt rnd) code of
                     Inl e \<Rightarrow> ((fst st, rs1), Inl (Wrapf ''EmailOTPService.Generate: hash code'' e))
                   | Inr codeHash \<Rightarrow>
                       (case r_Set (mfa_redis s) rs1 now (otpKey s userID purpose) (Text codeHash) (10 * time_Minute) of
                          (rs2, Some e) \<Rightarrow> ((fst st, rs2), Inl (Wrapf ''EmailOTPService.Generate: cache code'' e))
                        | (rs2, None) \<Rightarrow>
                            (case OTP_Create (fst st) \<lparr>eo_ID = or_id rnd, eo_UserID = userID, eo_Code = codeHash, eo_Purpose = purpose,
                                 eo_ExpiresAt = now + 10 * time_Minute, eo_UsedAt = None, eo_Attempts = 0, eo_CreatedAt = now\<rparr> of
                               (db1, Inl e) \<Rightarrow> ((db1, rs2), Inl (Wrapf ''EmailOTPService.Generate: create code record'' e))
                             | (db1, Inr _) \<Rightarrow> ((db1, rs2), Inr code)))))"

definition otp_Verify :: "'r MFAService \<Rightarrow> db \<times> 'r \<Rightarrow> time \<Rightarrow> uuid \<Rightarrow> string \<Rightarrow> string \<Rightarrow> (db \<times> 'r) \<times> unit result" where
  "otp_Verify s st now userID code purpose =
     (case r_Get (mfa_redis s) (snd st) now (otpKey s userID purpose) of
        Inl e \<Rightarrow> (st, Inl (Wrapf ''EmailOTPService.Verify: get cached code'' e))
      | Inr v \<Rightarrow>
          if \<not> mfa_bcrypt_Compare s (payload_text v) code then (st, Inl (Errorf ''EmailOTPService.Verify: invalid code''))
          else (let rs1 = fst (r_Del (mfa_redis s) (snd st) now (otpKey s userID purpose));
                    db1 = (case OTP_GetActiveByUserID (fst st) now userID of Inl _ \<Rightarrow> fst st | Inr latest \<Rightarrow> fst (OTP_MarkUsed (fst st) now (eo_ID latest)))
                in ((db1, rs1), Inr ())))"

definition CleanupExpired :: "db \<Rightarrow> uuid \<Rightarrow> db \<times> unit result" where
  "CleanupExpired db userID = OTP_DeleteByUserID db userID"

section \<open>backup.go\<close>

text \<open>A code is ten random bytes, each read as one of 32 letters and digits.\<close>

definition backup_chars :: string where
  "backup_chars = ''ABCDEFGHJKLMNPQRSTUVWXYZ23456789''"

definition backup_generateCode :: "nat list \<Rightarrow> string" where
  "backup_generateCode bytes = map (\<lambda>b. backup_chars ! (b mod length backup_chars)) bytes"

text \<open>\<open>draws\<close>: for each of the ten codes its ten random bytes and the salt of its hash.\<close>

fun hash_codes :: "'r MFAService \<Rightarrow> (nat list \<times> string) list \<Rightarrow> (string list \<times> string list) result" where
  "hash_codes s [] = Inr ([], [])"
| "hash_codes s ((bytes, salt) # draws) =
     (case mfa_bcrypt_Generate s salt (backup_generateCode bytes) of
        Inl e \<Rightarrow> Inl (Wrapf ''BackupCodeService.Generate: hash code'' e)
      | Inr h \<Rightarrow>
          (case hash_codes s draws of
             Inl e \<Rightarrow> Inl e
           | Inr (codes, hashes) \<Rightarrow> Inr (backup_generateCode bytes # codes, h # hashes)))"

definition backup_Generate :: "'r MFAService \<Rightarrow> db \<Rightarrow> time \<Rightarrow> (nat list \<times> string) list \<Rightarrow> uuid \<Rightarrow> db \<times> string list result" where
  "backup_Generate s db now draws userID =
     (case hash_codes s draws of
        Inl e \<Rightarrow> (db, Inl e)
      | Inr (codes, hashes) \<Rightarrow>
          (case MFA_GetByUserID db userID of
             Inl e \<Rightarrow> (db, Inl (Wrapf ''BackupCodeService.Generate: get config'' e))
           | Inr cfg0 \<Rightarrow>
               (let cfg = cfg0\<lparr>mc_BackupCodesHash := Some hashes, mc_IsBackupCodesEnabled := True, mc_UpdatedAt := now\<rparr>
                in if mc_ID cfg = uuid_Nil
                   then (case MFA_Create db cfg of
                       (db1, Inl e) \<Rightarrow> (db1, Inl (Wrapf ''BackupCodeService.Generate: create config'' e))
                     | (db1, Inr _) \<Rightarrow> (db1, Inr codes))
                   else (case MFA_Update db now cfg of
                       (db1, Inl e) \<Rightarrow> (db1, Inl (Wrapf ''BackupCodeService.Generate: update config'' e))
                     | (db1, Inr _) \<Rightarrow> (db1, Inr codes)))))"

text \<open>The loop of \<^verbatim>\<open>Verify\<close>: the hashes without the first one that fits the code.\<close>

fun drop_match :: "('h \<Rightarrow> bool) \<Rightarrow> 'h list \<Rightarrow> 'h list option" where
  "drop_match fits [] = None"
| "drop_match fits (h # hs) = (if fits h then Some hs else map_option ((#) h) (drop_match fits hs))"

definition backup_Verify :: "'r MFAService \<Rightarrow> db \<Rightarrow> time \<Rightarrow> uuid \<Rightarrow> string \<Rightarrow> db \<times> unit result" where
  "backup_Verify s db now userID code =
     (case MFA_GetByUserID db userID of
        Inl e \<Rightarrow> (db, Inl (Wrapf ''BackupCodeService.Verify: get config'' e))
      | Inr cfg \<Rightarrow>
          if \<not> mc_IsBackupCodesEnabled cfg \<or> slice_len (mc_BackupCodesHash cfg) = 0 then (db, Inl (Errorf ''BackupCodeService.Verify: backup codes not enabled''))
          else (case drop_match (\<lambda>h. mfa_bcrypt_Compare s h (strings_ToUpper (strings_TrimSpace code))) (the_slice (mc_BackupCodesHash cfg)) of
              None \<Rightarrow> (db, Inl (Errorf ''BackupCodeService.Verify: invalid backup code''))
            | Some hashes \<Rightarrow>
                (case MFA_Update db now (cfg\<lparr>mc_BackupCodesHash := Some hashes, mc_UpdatedAt := now\<rparr>) of
                   (db1, Inl e) \<Rightarrow> (db1, Inl (Wrapf ''BackupCodeService.Verify: update config'' e))
                 | (db1, Inr _) \<Rightarrow> (db1, Inr ()))))"

definition Remaining :: "db \<Rightarrow> uuid \<Rightarrow> nat result" where
  "Remaining db userID =
     (case MFA_GetByUserID db userID of Inl e \<Rightarrow> Inl (Wrapf ''get config'' e) | Inr cfg \<Rightarrow> Inr (slice_len (mc_BackupCodesHash cfg)))"

section \<open>service.go\<close>

definition NewMFAService :: "(string \<Rightarrow> 'r MFAService) \<Rightarrow> string \<Rightarrow> 'r MFAService result" where
  "NewMFAService mk encryptionKey =
     (case NewEncryptor encryptionKey of Inl e \<Rightarrow> Inl (Wrapf ''NewMFAService: encryptor'' e) | Inr key \<Rightarrow> Inr (mk key))"

definition EnrollTOTP :: "'r MFAService \<Rightarrow> db \<Rightarrow> time \<Rightarrow> string \<Rightarrow> uuid \<Rightarrow> db \<times> (string \<times> string) result" where
  "EnrollTOTP s db now iv userID = Enroll s db now iv userID"

definition EnableTOTP :: "'r MFAService \<Rightarrow> db \<times> 'r \<Rightarrow> time \<Rightarrow> uuid \<Rightarrow> string \<Rightarrow> (db \<times> 'r) \<times> unit result" where
  "EnableTOTP s st now userID code = totp_Enable s st now userID code"

definition VerifyTOTP :: "'r MFAService \<Rightarrow> db \<times> 'r \<Rightarrow> time \<Rightarrow> uuid \<Rightarrow> string \<Rightarrow> (db \<times> 'r) \<times> unit result" where
  "VerifyTOTP s st now userID code = totp_Verify s st now userID code"

definition EnrollEmailOTP :: "'r MFAService \<Rightarrow> db \<times> 'r \<Rightarrow> time \<Rightarrow> otp_rand \<Rightarrow> uuid \<Rightarrow> (db \<times> 'r) \<times> string result" where
  "EnrollEmailOTP s st now rnd userID = otp_Generate s st now rnd userID ''mfa_enroll''"

definition VerifyEmailOTP :: "'r MFAService \<Rightarrow> db \<times> 'r \<Rightarrow> time \<Rightarrow> uuid \<Rightarrow> string \<Rightarrow> string \<Rightarrow> (db \<times> 'r) \<times> unit result" where
  "VerifyEmailOTP s st now userID code purpose = otp_Verify s st now userID code purpose"

definition GenerateBackupCodes :: "'r MFAService \<Rightarrow> db \<Rightarrow> time \<Rightarrow> (nat list \<times> string) list \<Rightarrow> uuid \<Rightarrow> db \<times> string list result" where
  "GenerateBackupCodes s db now draws userID = backup_Generate s db now draws userID"

definition VerifyBackupCode :: "'r MFAService \<Rightarrow> db \<Rightarrow> time \<Rightarrow> uuid \<Rightarrow> string \<Rightarrow> db \<times> unit result" where
  "VerifyBackupCode s db now userID code = backup_Verify s db now userID code"

record MFAConfigOutput =
  mco_IsTOTPEnabled :: bool
  mco_IsEmailOTPEnabled :: bool
  mco_IsBackupCodesEnabled :: bool
  mco_BackupCodesRemaining :: nat

definition GetMFAConfig :: "db \<Rightarrow> uuid \<Rightarrow> MFAConfigOutput result" where
  "GetMFAConfig db userID =
     (case MFA_GetByUserID db userID of
        Inl e \<Rightarrow> Inl (Wrapf ''get mfa config'' e)
      | Inr cfg \<Rightarrow> Inr \<lparr>mco_IsTOTPEnabled = mc_IsTOTPEnabled cfg, mco_IsEmailOTPEnabled = mc_IsEmailOTPEnabled cfg,
          mco_IsBackupCodesEnabled = mc_IsBackupCodesEnabled cfg,
          mco_BackupCodesRemaining = (case Remaining db userID of Inl _ \<Rightarrow> 0 | Inr n \<Rightarrow> n)\<rparr>)"

definition stepUpKey :: "'r MFAService \<Rightarrow> uuid \<Rightarrow> string" where
  "stepUpKey s userID = ''mfa:stepup:'' @ uuid_String (mfa_uuid s) userID"

text \<open>The switch over the methods.\<close>

definition step_up_verify :: "'r MFAService \<Rightarrow> db \<times> 'r \<Rightarrow> time \<Rightarrow> uuid \<Rightarrow> string \<Rightarrow> string \<Rightarrow> (db \<times> 'r) \<times> unit result" where
  "step_up_verify s st now userID method code =
     (if method = ''totp''
      then (case totp_Verify s st now userID code of
          (st1, Inl e) \<Rightarrow> (st1, Inl (Wrapf ''MFAService.StepUpAuth: totp verify'' e)) | (st1, Inr _) \<Rightarrow> (st1, Inr ()))
      else if method = ''email_otp''
      then (case otp_Verify s st now userID code ''mfa_login'' of
          (st1, Inl e) \<Rightarrow> (st1, Inl (Wrapf ''MFAService.StepUpAuth: email otp verify'' e)) | (st1, Inr _) \<Rightarrow> (st1, Inr ()))
      else if method = ''backup''
      then (case backup_Verify s (fst st) now userID code of
          (db1, Inl e) \<Rightarrow> ((db1, snd st), Inl (Wrapf ''MFAService.StepUpAuth: backup verify'' e)) | (db1, Inr _) \<Rightarrow> ((db1, snd st), Inr ()))
      else (st, Inl (Errorf (''MFAService.StepUpAuth: unknown method: '' @ method))))"

text \<open>The message of the successful answer.\<close>

definition StepUpAuth :: "'r MFAService \<Rightarrow> db \<times> 'r \<Rightarrow> time \<Rightarrow> uuid \<Rightarrow> string \<Rightarrow> string \<Rightarrow> (db \<times> 'r) \<times> string result" where
  "StepUpAuth s st now userID method code =
     (case MFA_GetByUserID (fst st) userID of
        Inl e \<Rightarrow> (st, Inl (Wrapf ''MFAService.StepUpAuth: get config'' e))
      | Inr cfg \<Rightarrow>
          if \<not> IsFullyEnabled cfg then (st, Inr ''mfa not configured'')
          else (let rs1 = fst (r_Set (mfa_redis s) (snd st) now (stepUpKey s userID) (Text ''1'') (15 * time_Minute))
                in case step_up_verify s (fst st, rs1) now userID method code of
                     (st2, Inl e) \<Rightarrow> (st2, Inl e)
                   | (st2, Inr _) \<Rightarrow> ((fst st2, fst (r_Del (mfa_redis s) (snd st2) now (stepUpKey s userID))), Inr ''step-up successful'')))"

definition IsStepUpRequired :: "'r MFAService \<Rightarrow> 'r \<Rightarrow> time \<Rightarrow> uuid \<Rightarrow> bool result" where
  "IsStepUpRequired s rs now userID =
     (case r_Exists (mfa_redis s) rs now (stepUpKey s userID) of Inl e \<Rightarrow> Inl (Wrapf ''check step-up'' e) | Inr n \<Rightarrow> Inr (n > 0))"

text \<open>
  \<^verbatim>\<open>SetupMFA\<close> reads the configuration before the factor is enabled and writes that copy back.
  \<open>i\<close> is the identifier drawn where no configuration is found.
\<close>

definition setup_config :: "db \<Rightarrow> time \<Rightarrow> uuid \<Rightarrow> uuid \<Rightarrow> MFAConfig" where
  "setup_config db now i userID =
     (case MFA_GetByUserID db userID of
        Inr cfg \<Rightarrow> cfg
      | Inl _ \<Rightarrow> \<lparr>mc_ID = i, mc_UserID = userID, mc_TOTPSecretEncrypted = None, mc_TOTPSecretIV = None, mc_IsTOTPEnabled = False,
          mc_IsEmailOTPEnabled = False, mc_IsBackupCodesEnabled = False, mc_BackupCodesHash = None, mc_MFAEnabledAt = None,
          mc_CreatedAt = now, mc_UpdatedAt = 0\<rparr>)\<lparr>mc_UpdatedAt := now\<rparr>"

definition setup_method ::
  "'r MFAService \<Rightarrow> db \<times> 'r \<Rightarrow> time \<Rightarrow> (nat list \<times> string) list \<Rightarrow> uuid \<Rightarrow> string \<Rightarrow> string \<Rightarrow> MFAConfig \<Rightarrow> (db \<times> 'r) \<times> MFAConfig result" where
  "setup_method s st now draws userID method totpCode cfg =
     (if method = ''totp''
      then (case totp_Enable s st now userID totpCode of
          (st1, Inl e) \<Rightarrow> (st1, Inl (Wrapf ''MFAService.SetupMFA: enable totp'' e))
        | (st1, Inr _) \<Rightarrow> (st1, Inr (cfg\<lparr>mc_IsTOTPEnabled := True\<rparr>)))
      else if method = ''email_otp'' then (st, Inr (cfg\<lparr>mc_IsEmailOTPEnabled := True\<rparr>))
      else if method = ''backup''
      then (case backup_Generate s (fst st) now draws userID of
          (db1, Inl e) \<Rightarrow> ((db1, snd st), Inl (Wrapf ''MFAService.SetupMFA: generate backup codes'' e))
        | (db1, Inr _) \<Rightarrow> ((db1, snd st), Inr (cfg\<lparr>mc_IsBackupCodesEnabled := True\<rparr>)))
      else (st, Inr cfg))"

definition SetupMFA ::
  "'r MFAService \<Rightarrow> db \<times> 'r \<Rightarrow> time \<Rightarrow> uuid \<Rightarrow> (nat list \<times> string) list \<Rightarrow> uuid \<Rightarrow> string \<Rightarrow> string \<Rightarrow> (db \<times> 'r) \<times> unit result" where
  "SetupMFA s st now i draws userID method totpCode =
     (case setup_method s st now draws userID method totpCode (setup_config (fst st) now i userID) of
        (st1, Inl e) \<Rightarrow> (st1, Inl e)
      | (st1, Inr cfg) \<Rightarrow>
          (case MFA_Update (fst st1) now (cfg\<lparr>mc_MFAEnabledAt := Some now\<rparr>) of
             (db2, Inl e) \<Rightarrow> ((db2, snd st1), Inl (Wrapf ''MFAService.SetupMFA: update config'' e))
           | (db2, Inr _) \<Rightarrow>
               ((case Users_GetByID db2 userID of
                   Inl _ \<Rightarrow> db2
                 | Inr user \<Rightarrow> fst (Users_Update (mfa_inet s) db2 (user\<lparr>u_MFAEnabled := True, u_MFAMethod := method, u_UpdatedAt := now\<rparr>)), snd st1), Inr ())))"

section \<open>rest/mfa.go\<close>

text \<open>
  A body is the record it binds to, or the text of the binding error. \<open>mfa_answer\<close> ends a
  handler: status 200, or the text of the error under the status given.
\<close>

definition mfa_answer :: "nat \<Rightarrow> 'a result \<Rightarrow> 'a response" where
  "mfa_answer status r = (case r of Inl e \<Rightarrow> Refused status (err_Error e) | Inr x \<Rightarrow> OK x)"

definition MFAHandler_EnrollTOTP :: "'r MFAService \<Rightarrow> db \<Rightarrow> time \<Rightarrow> string \<Rightarrow> string + string \<Rightarrow> db \<times> (string \<times> string) response" where
  "MFAHandler_EnrollTOTP s db now iv body =
     (case body of
        Inl msg \<Rightarrow> (db, Refused 400 msg)
      | Inr user \<Rightarrow> (case uuid_Parse (mfa_uuid s) user of
          None \<Rightarrow> (db, Refused 400 ''invalid user_id'')
        | Some userID \<Rightarrow> map_prod id (mfa_answer 500) (EnrollTOTP s db now iv userID)))"

definition MFAHandler_VerifyTOTP :: "'r MFAService \<Rightarrow> db \<times> 'r \<Rightarrow> time \<Rightarrow> string + string \<times> string \<Rightarrow> (db \<times> 'r) \<times> unit response" where
  "MFAHandler_VerifyTOTP s st now body =
     (case body of
        Inl msg \<Rightarrow> (st, Refused 400 msg)
      | Inr (user, code) \<Rightarrow> (case uuid_Parse (mfa_uuid s) user of
          None \<Rightarrow> (st, Refused 400 ''invalid user_id'')
        | Some userID \<Rightarrow> map_prod id (mfa_answer 400) (EnableTOTP s st now userID code)))"

definition MFAHandler_EnrollEmailOTP :: "'r MFAService \<Rightarrow> db \<times> 'r \<Rightarrow> time \<Rightarrow> otp_rand \<Rightarrow> string + string \<times> string \<Rightarrow> (db \<times> 'r) \<times> string response" where
  "MFAHandler_EnrollEmailOTP s st now rnd body =
     (case body of
        Inl msg \<Rightarrow> (st, Refused 400 msg)
      | Inr (user, email) \<Rightarrow> (case uuid_Parse (mfa_uuid s) user of
          None \<Rightarrow> (st, Refused 400 ''invalid user_id'')
        | Some userID \<Rightarrow> (case EnrollEmailOTP s st now rnd userID of
            (st1, Inl e) \<Rightarrow> (st1, Refused 500 (err_Error e))
          | (st1, Inr _) \<Rightarrow> (st1, OK email))))"

definition MFAHandler_VerifyEmailOTP :: "'r MFAService \<Rightarrow> db \<times> 'r \<Rightarrow> time \<Rightarrow> string + string \<times> string \<times> string \<Rightarrow> (db \<times> 'r) \<times> unit response" where
  "MFAHandler_VerifyEmailOTP s st now body =
     (case body of
        Inl msg \<Rightarrow> (st, Refused 400 msg)
      | Inr (user, code, reqPurpose) \<Rightarrow> (case uuid_Parse (mfa_uuid s) user of
          None \<Rightarrow> (st, Refused 400 ''invalid user_id'')
        | Some userID \<Rightarrow> map_prod id (mfa_answer 400)
            (VerifyEmailOTP s st now userID code (if reqPurpose \<noteq> [] then reqPurpose else ''mfa_login''))))"

definition MFAHandler_GenerateBackupCodes :: "'r MFAService \<Rightarrow> db \<Rightarrow> time \<Rightarrow> (nat list \<times> string) list \<Rightarrow> string + string \<Rightarrow> db \<times> string list response" where
  "MFAHandler_GenerateBackupCodes s db now draws body =
     (case body of
        Inl msg \<Rightarrow> (db, Refused 400 msg)
      | Inr user \<Rightarrow> (case uuid_Parse (mfa_uuid s) user of
          None \<Rightarrow> (db, Refused 400 ''invalid user_id'')
        | Some userID \<Rightarrow> map_prod id (mfa_answer 500) (GenerateBackupCodes s db now draws userID)))"

definition MFAHandler_VerifyBackupCode :: "'r MFAService \<Rightarrow> db \<Rightarrow> time \<Rightarrow> string + string \<times> string \<Rightarrow> db \<times> unit response" where
  "MFAHandler_VerifyBackupCode s db now body =
     (case body of
        Inl msg \<Rightarrow> (db, Refused 400 msg)
      | Inr (user, code) \<Rightarrow> (case uuid_Parse (mfa_uuid s) user of
          None \<Rightarrow> (db, Refused 400 ''invalid user_id'')
        | Some userID \<Rightarrow> map_prod id (mfa_answer 400) (VerifyBackupCode s db now userID code)))"

definition MFAHandler_GetMFAConfig :: "'r MFAService \<Rightarrow> db \<Rightarrow> string \<Rightarrow> MFAConfigOutput response" where
  "MFAHandler_GetMFAConfig s db param =
     (case uuid_Parse (mfa_uuid s) param of
        None \<Rightarrow> Refused 400 ''invalid user_id''
      | Some userID \<Rightarrow> mfa_answer 500 (GetMFAConfig db userID))"

record StepUpAuthRequest =
  sur_UserID :: string
  sur_Method :: string
  sur_Code :: string

definition MFAHandler_StepUpAuth :: "'r MFAService \<Rightarrow> db \<times> 'r \<Rightarrow> time \<Rightarrow> string + StepUpAuthRequest \<Rightarrow> (db \<times> 'r) \<times> string response" where
  "MFAHandler_StepUpAuth s st now body =
     (case body of
        Inl msg \<Rightarrow> (st, Refused 400 msg)
      | Inr req \<Rightarrow> (case uuid_Parse (mfa_uuid s) (sur_UserID req) of
          None \<Rightarrow> (st, Refused 400 ''invalid user_id'')
        | Some userID \<Rightarrow> map_prod id (mfa_answer 400) (StepUpAuth s st now userID (sur_Method req) (sur_Code req))))"

record SetupMFARequest =
  smr_UserID :: string
  smr_Method :: string
  smr_Email :: string
  smr_TOTPCode :: string

definition MFAHandler_SetupMFA ::
  "'r MFAService \<Rightarrow> db \<times> 'r \<Rightarrow> time \<Rightarrow> uuid \<Rightarrow> (nat list \<times> string) list \<Rightarrow> string + SetupMFARequest \<Rightarrow> (db \<times> 'r) \<times> unit response" where
  "MFAHandler_SetupMFA s st now i draws body =
     (case body of
        Inl msg \<Rightarrow> (st, Refused 400 msg)
      | Inr req \<Rightarrow> (case uuid_Parse (mfa_uuid s) (smr_UserID req) of
          None \<Rightarrow> (st, Refused 400 ''invalid user_id'')
        | Some userID \<Rightarrow> map_prod id (mfa_answer 400) (SetupMFA s st now i draws userID (smr_Method req) (smr_TOTPCode req))))"

end
