(* ===== verification/MfaProps.thy ===== *)
theory MfaProps
  imports Mfa
begin

text \<open>
  Properties of the second factor service: backup codes refine a multiset of unused codes,
  time-based codes and their replay, the step-up flag, codes by mail. Interfaces: the
  packages \<^verbatim>\<open>bcrypt\<close> (\<open>bcrypt_pkg\<close>) and \<^verbatim>\<open>pquerna/otp\<close> (\<open>totp_pkg\<close>) and the Redis server.
\<close>

section \<open>Configurations\<close>

text \<open>What the constraints keep true of every stored configuration.\<close>

definition mfa_row_ok :: "MFAConfig \<Rightarrow> bool" where
  "mfa_row_ok cfg \<longleftrightarrow> mfa_text_ok cfg \<and> mfa_check cfg = None"

lemma filter_sql_update:
  assumes "\<And>r. P r \<Longrightarrow> P (f r)"
  shows "filter P (sql_update P f rows) = map f (filter P rows)"
  using assms by (induction rows) (auto simp: sql_update_def)

lemma MFA_Update_row:
  assumes get: "MFA_GetByUserID db u = Inr row" and cfg: "mc_UserID cfg = u" "mfa_row_ok cfg"
  obtains db' row' where "MFA_Update db now cfg = (db', Inr ())" "MFA_GetByUserID db' u = Inr row'"
    "row' = row\<lparr>mc_TOTPSecretEncrypted := mc_TOTPSecretEncrypted cfg, mc_TOTPSecretIV := mc_TOTPSecretIV cfg,
       mc_IsTOTPEnabled := mc_IsTOTPEnabled cfg, mc_IsEmailOTPEnabled := mc_IsEmailOTPEnabled cfg,
       mc_IsBackupCodesEnabled := mc_IsBackupCodesEnabled cfg, mc_BackupCodesHash := mc_BackupCodesHash cfg,
       mc_MFAEnabledAt := map_option pg_ts (mc_MFAEnabledAt cfg), mc_UpdatedAt := pg_ts now\<rparr>"
    "\<And>v. v \<noteq> u \<Longrightarrow> MFA_GetByUserID db' v = MFA_GetByUserID db v" "t_users db' = t_users db"
proof -
  let ?f = "\<lambda>r. r\<lparr>mc_TOTPSecretEncrypted := mc_TOTPSecretEncrypted cfg, mc_TOTPSecretIV := mc_TOTPSecretIV cfg,
       mc_IsTOTPEnabled := mc_IsTOTPEnabled cfg, mc_IsEmailOTPEnabled := mc_IsEmailOTPEnabled cfg,
       mc_IsBackupCodesEnabled := mc_IsBackupCodesEnabled cfg, mc_BackupCodesHash := mc_BackupCodesHash cfg,
       mc_MFAEnabledAt := map_option pg_ts (mc_MFAEnabledAt cfg), mc_UpdatedAt := pg_ts now\<rparr>"
  let ?db' = "db\<lparr>t_mfa_configs := sql_update (\<lambda>r. mc_UserID r = u) ?f (t_mfa_configs db)\<rparr>"
  have up: "\<not> db_down db" and rows: "\<exists>rs. filter (\<lambda>r. mc_UserID r = u) (t_mfa_configs db) = row # rs"
    using get by (auto simp: MFA_GetByUserID_def pg_QueryRow_def split: if_splits list.splits)
  have "MFA_Update db now cfg = (?db', Inr ())" using up cfg by (simp add: MFA_Update_def pg_Exec_def mfa_row_ok_def)
  moreover have "MFA_GetByUserID ?db' u = Inr (?f row)"
    using up rows by (auto simp: MFA_GetByUserID_def pg_QueryRow_def filter_sql_update)
  moreover have "MFA_GetByUserID ?db' v = MFA_GetByUserID db v" if "v \<noteq> u" for v
  proof -
    have "filter (\<lambda>r. mc_UserID r = v) (sql_update (\<lambda>r. mc_UserID r = u) ?f rows) = filter (\<lambda>r. mc_UserID r = v) rows" for rows :: "MFAConfig list"
      using that by (induction rows) (auto simp: sql_update_def)
    then show ?thesis by (simp add: MFA_GetByUserID_def pg_QueryRow_def)
  qed
  ultimately show thesis using that by simp
qed

lemma MFA_Get_user: "MFA_GetByUserID db u = Inr row \<Longrightarrow> mc_UserID row = u"
  by (auto simp: MFA_GetByUserID_def dest!: filter_eq_ConsD)

section \<open>Backup codes\<close>

text \<open>
  The package \<^verbatim>\<open>bcrypt\<close>: hashing accepts up to 72 bytes and answers with 60 characters; a
  password fits its hash. \<open>texts\<close> are texts whose hashes do not collide, as is expected
  of the few texts one set of codes meets.
\<close>

locale bcrypt_pkg =
  fixes gen :: "string \<Rightarrow> string \<Rightarrow> string result" and cmp :: "string \<Rightarrow> string \<Rightarrow> bool" and texts :: "string set"
  assumes hashes: "length p \<le> 72 \<Longrightarrow> \<exists>h. gen salt p = Inr h \<and> length h = 60"
    and fits: "gen salt p = Inr h \<Longrightarrow> cmp h p"
    and differs: "gen salt p = Inr h \<Longrightarrow> p \<in> texts \<Longrightarrow> q \<in> texts \<Longrightarrow> cmp h q \<Longrightarrow> q = p"

text \<open>The codes still unused, and what one use does to them.\<close>

definition use_code :: "string multiset \<Rightarrow> string \<Rightarrow> string multiset \<times> bool" where
  "use_code M q = (let c = strings_ToUpper (strings_TrimSpace q) in if c \<in># M then (M - {#c#}, True) else (M, False))"

fun use_codes :: "string multiset \<Rightarrow> string list \<Rightarrow> string multiset \<times> bool list" where
  "use_codes M [] = (M, [])"
| "use_codes M (q # qs) = (case use_code M q of (M1, b) \<Rightarrow> case use_codes M1 qs of (M2, bs) \<Rightarrow> (M2, b # bs))"

fun verify_codes :: "'r MFAService \<Rightarrow> uuid \<Rightarrow> db \<Rightarrow> (time \<times> string) list \<Rightarrow> db \<times> bool list" where
  "verify_codes s u db [] = (db, [])"
| "verify_codes s u db ((now, q) # qs) =
     (case VerifyBackupCode s db now u q of (db1, r) \<Rightarrow> case verify_codes s u db1 qs of (db2, bs) \<Rightarrow> (db2, is_ok r # bs))"

text \<open>The hashes stand for the codes.\<close>

definition stands_for :: "string set \<Rightarrow> (string \<Rightarrow> string \<Rightarrow> bool) \<Rightarrow> string list \<Rightarrow> string list \<Rightarrow> bool" where
  "stands_for T cmp hs cs \<longleftrightarrow> list_all2 (\<lambda>h c. \<forall>q \<in> T. cmp h q \<longleftrightarrow> q = c) hs cs"

lemma drop_match_stands_for:
  assumes "stands_for T cmp hs cs" "q \<in> T"
  shows "if q \<in> set cs then \<exists>hs' cs'. drop_match (\<lambda>h. cmp h q) hs = Some hs' \<and> stands_for T cmp hs' cs' \<and> mset cs' = mset cs - {#q#}
    else drop_match (\<lambda>h. cmp h q) hs = None"
  using assms
proof (induction hs arbitrary: cs)
  case (Cons h hs)
  then obtain c cs1 where cs: "cs = c # cs1" "stands_for T cmp hs cs1" and h: "cmp h q \<longleftrightarrow> q = c"
    by (cases cs) (auto simp: stands_for_def)
  show ?case
  proof (cases "q = c")
    case True
    then show ?thesis using cs h by auto
  next
    case False
    have "stands_for T cmp (h # hs') (c # cs')" if "stands_for T cmp hs' cs'" for hs' cs'
      using that Cons.prems(1) cs(1) by (simp add: stands_for_def)
    then show ?thesis using Cons.IH [OF cs(2) Cons.prems(2)] False h cs(1) by (fastforce split: if_splits)
  qed
qed (simp add: stands_for_def)

text \<open>A configuration whose backup codes are enabled and stand for \<open>cs\<close>.\<close>

definition codes_row :: "string set \<Rightarrow> 'r MFAService \<Rightarrow> db \<Rightarrow> uuid \<Rightarrow> string list \<Rightarrow> bool" where
  "codes_row T s db u cs \<longleftrightarrow> (\<exists>row hs. MFA_GetByUserID db u = Inr row \<and> mfa_row_ok row \<and> mc_IsBackupCodesEnabled row \<and>
     mc_BackupCodesHash row = Some hs \<and> stands_for T (mfa_bcrypt_Compare s) hs cs)"

lemma stands_for_length: "stands_for T cmp hs cs \<Longrightarrow> length hs = length cs"
  by (simp add: stands_for_def list_all2_lengthD)

lemma codes_row_update:
  assumes row: "MFA_GetByUserID db u = Inr row" "mfa_row_ok row"
    and new: "stands_for T (mfa_bcrypt_Compare s) hs cs"
  obtains db' where "MFA_Update db now (row\<lparr>mc_BackupCodesHash := Some hs, mc_IsBackupCodesEnabled := True, mc_UpdatedAt := now\<rparr>) = (db', Inr ())"
    "codes_row T s db' u cs"
proof -
  let ?cfg = "row\<lparr>mc_BackupCodesHash := Some hs, mc_IsBackupCodesEnabled := True, mc_UpdatedAt := now\<rparr>"
  have ok: "mc_UserID ?cfg = u" "mfa_row_ok ?cfg"
    using MFA_Get_user [OF row(1)] row(2) by (auto simp: mfa_row_ok_def mfa_text_ok_def mfa_check_def split: option.splits if_splits)
  obtain db' row' where "MFA_Update db now ?cfg = (db', Inr ())" "MFA_GetByUserID db' u = Inr row'"
    "row' = row\<lparr>mc_TOTPSecretEncrypted := mc_TOTPSecretEncrypted ?cfg, mc_TOTPSecretIV := mc_TOTPSecretIV ?cfg,
       mc_IsTOTPEnabled := mc_IsTOTPEnabled ?cfg, mc_IsEmailOTPEnabled := mc_IsEmailOTPEnabled ?cfg,
       mc_IsBackupCodesEnabled := mc_IsBackupCodesEnabled ?cfg, mc_BackupCodesHash := mc_BackupCodesHash ?cfg,
       mc_MFAEnabledAt := map_option pg_ts (mc_MFAEnabledAt ?cfg), mc_UpdatedAt := pg_ts now\<rparr>"
    by (rule MFA_Update_row [OF row(1) ok])
  moreover from this have "mfa_row_ok row'" using ok(2) by (simp add: mfa_row_ok_def mfa_text_ok_def mfa_check_def)
  ultimately have "codes_row T s db' u cs" using new by (auto simp: codes_row_def)
  then show thesis using \<open>MFA_Update db now ?cfg = (db', Inr ())\<close> that by blast
qed

lemma VerifyBackupCode_refines:
  assumes "codes_row T s db u cs" and q: "strings_ToUpper (strings_TrimSpace q) \<in> T"
  obtains db' cs' r where "VerifyBackupCode s db now u q = (db', r)" "use_code (mset cs) q = (mset cs', is_ok r)" "codes_row T s db' u cs'"
proof -
  let ?q = "strings_ToUpper (strings_TrimSpace q)" and ?cmp = "mfa_bcrypt_Compare s"
  obtain row hs where row: "MFA_GetByUserID db u = Inr row" "mfa_row_ok row" "mc_IsBackupCodesEnabled row"
    and hs: "mc_BackupCodesHash row = Some hs" "stands_for T ?cmp hs cs" using assms(1) by (auto simp: codes_row_def)
  note step = drop_match_stands_for [OF hs(2) q]
  show thesis
  proof (cases "?q \<in> set cs")
    case True
    then have ne: "hs \<noteq> []" using stands_for_length [OF hs(2)] by auto
    obtain hs' cs' where m: "drop_match (\<lambda>h. ?cmp h ?q) hs = Some hs'" "stands_for T ?cmp hs' cs'" "mset cs' = mset cs - {#?q#}" using step True by auto
    obtain db' where "MFA_Update db now (row\<lparr>mc_BackupCodesHash := Some hs', mc_IsBackupCodesEnabled := True, mc_UpdatedAt := now\<rparr>) = (db', Inr ())"
      and row': "codes_row T s db' u cs'" by (rule codes_row_update [OF row(1,2) m(2)])
    moreover have "row\<lparr>mc_BackupCodesHash := Some hs', mc_IsBackupCodesEnabled := True, mc_UpdatedAt := now\<rparr> = row\<lparr>mc_BackupCodesHash := Some hs', mc_UpdatedAt := now\<rparr>"
      using row(3) by simp
    ultimately have "VerifyBackupCode s db now u q = (db', Inr ())"
      using row hs(1) m(1) ne by (simp add: VerifyBackupCode_def backup_Verify_def slice_len_def the_slice_def)
    then show thesis using that [of db' "Inr ()" cs'] row' True m(3) by (simp add: use_code_def)
  next
    case False
    then have "drop_match (\<lambda>h. ?cmp h ?q) hs = None" using step by simp
    then obtain e where "VerifyBackupCode s db now u q = (db, Inl e)"
      using row hs(1) by (cases "hs = []") (auto simp: VerifyBackupCode_def backup_Verify_def the_slice_def slice_len_def)
    then show thesis using that [of db "Inl e" cs] assms(1) False by (simp add: use_code_def)
  qed
qed

lemma verify_codes_refines:
  assumes "codes_row T s db u cs" "\<forall>(t, q) \<in> set qs. strings_ToUpper (strings_TrimSpace q) \<in> T"
  shows "\<exists>db' cs'. verify_codes s u db qs = (db', snd (use_codes (mset cs) (map snd qs))) \<and> fst (use_codes (mset cs) (map snd qs)) = mset cs' \<and> codes_row T s db' u cs'"
  using assms
proof (induction qs arbitrary: db cs)
  case (Cons tq qs)
  obtain t q where tq: "tq = (t, q)" by fastforce
  have "strings_ToUpper (strings_TrimSpace q) \<in> T" using Cons.prems(2) tq by simp
  then obtain db1 cs1 r where v: "VerifyBackupCode s db t u q = (db1, r)" "use_code (mset cs) q = (mset cs1, is_ok r)" "codes_row T s db1 u cs1"
    by (rule VerifyBackupCode_refines [OF Cons.prems(1)])
  obtain db' cs' where "verify_codes s u db1 qs = (db', snd (use_codes (mset cs1) (map snd qs)))" "fst (use_codes (mset cs1) (map snd qs)) = mset cs'" "codes_row T s db' u cs'"
    using Cons.IH [OF v(3)] Cons.prems(2) by auto
  then show ?case using v tq by (auto split: prod.splits)
qed auto

lemma use_codes_size: "size (fst (use_codes M qs)) + length (filter id (snd (use_codes M qs))) = size M"
proof (induction qs arbitrary: M)
  case (Cons q qs)
  have "size (fst (use_code M q)) + (if snd (use_code M q) then 1 else 0) = size M"
    by (auto simp: use_code_def Let_def size_Diff_singleton dest: multi_member_split)
  then show ?case using Cons.IH [of "fst (use_code M q)"] by (auto split: prod.splits)
qed simp

lemma hash_codes_stand:
  assumes "bcrypt_pkg (mfa_bcrypt_Generate s) (mfa_bcrypt_Compare s) T"
    and "\<forall>(bytes, salt) \<in> set draws. length bytes \<le> 72 \<and> backup_generateCode bytes \<in> T"
  shows "\<exists>hs. hash_codes s draws = Inr (map (backup_generateCode \<circ> fst) draws, hs) \<and> stands_for T (mfa_bcrypt_Compare s) hs (map (backup_generateCode \<circ> fst) draws)"
  using assms(2)
proof (induction draws)
  case (Cons d draws)
  obtain bytes salt where d: "d = (bytes, salt)" by fastforce
  let ?c = "backup_generateCode bytes"
  have c: "?c \<in> T" "length ?c \<le> 72" using Cons.prems d by (auto simp: backup_generateCode_def)
  then obtain h where h: "mfa_bcrypt_Generate s salt ?c = Inr h" using bcrypt_pkg.hashes [OF assms(1)] by blast
  have "mfa_bcrypt_Compare s h q \<longleftrightarrow> q = ?c" if "q \<in> T" for q
    using bcrypt_pkg.fits [OF assms(1) h] bcrypt_pkg.differs [OF assms(1) h c(1) that] by blast
  then show ?case using Cons d h by (auto simp: stands_for_def)
qed (simp add: stands_for_def)

text \<open>
  C34: Backup codes refine a multiset of codes. For a stored configuration,
  \<^verbatim>\<open>GenerateBackupCodes\<close> succeeds and gives as many codes as were drawn; over every
  sequence of \<^verbatim>\<open>VerifyBackupCode\<close> calls that follows, a text is accepted exactly when, trimmed
  and in upper case, it is one of the codes not used before, and is then used up. So no
  more texts are accepted than codes were given, and \<^verbatim>\<open>Remaining\<close> counts the unused ones.
\<close>

theorem backup_codes_refine:
  assumes "bcrypt_pkg (mfa_bcrypt_Generate s) (mfa_bcrypt_Compare s) T"
    and "\<forall>(bytes, salt) \<in> set draws. length bytes \<le> 72 \<and> backup_generateCode bytes \<in> T"
    and "MFA_GetByUserID db u = Inr row" "mfa_row_ok row" "mc_ID row \<noteq> uuid_Nil"
    and "\<forall>(t, q) \<in> set qs. strings_ToUpper (strings_TrimSpace q) \<in> T"
  shows "\<exists>codes db1 db2. GenerateBackupCodes s db now draws u = (db1, Inr codes) \<and> length codes = length draws \<and>
    verify_codes s u db1 qs = (db2, snd (use_codes (mset codes) (map snd qs))) \<and>
    Remaining db2 u = Inr (size (fst (use_codes (mset codes) (map snd qs)))) \<and>
    length (filter id (snd (verify_codes s u db1 qs))) + size (fst (use_codes (mset codes) (map snd qs))) = length draws"
proof -
  let ?codes = "map (backup_generateCode \<circ> fst) draws"
  obtain hs where hs: "hash_codes s draws = Inr (?codes, hs)" "stands_for T (mfa_bcrypt_Compare s) hs ?codes"
    using hash_codes_stand [OF assms(1,2)] by blast
  obtain db1 where up: "MFA_Update db now (row\<lparr>mc_BackupCodesHash := Some hs, mc_IsBackupCodesEnabled := True, mc_UpdatedAt := now\<rparr>) = (db1, Inr ())"
    and row: "codes_row T s db1 u ?codes" by (rule codes_row_update [OF assms(3,4) hs(2)])
  have gen: "GenerateBackupCodes s db now draws u = (db1, Inr ?codes)"
    using hs(1) assms(3,5) up by (simp add: GenerateBackupCodes_def backup_Generate_def)
  obtain db2 cs' where run: "verify_codes s u db1 qs = (db2, snd (use_codes (mset ?codes) (map snd qs)))"
      "fst (use_codes (mset ?codes) (map snd qs)) = mset cs'" "codes_row T s db2 u cs'"
    using verify_codes_refines [OF row assms(6)] by blast
  then have "Remaining db2 u = Inr (length cs')" by (auto simp: codes_row_def Remaining_def slice_len_def dest!: stands_for_length)
  then show ?thesis using gen run use_codes_size [of "mset ?codes" "map snd qs"] by (intro exI [of _ ?codes] exI [of _ db1] exI [of _ db2]) simp
qed

section \<open>Time-based codes\<close>

text \<open>
  \<^verbatim>\<open>totp.Generate\<close> of \<^verbatim>\<open>pquerna/otp\<close>: a secret given in the options is the secret of the key,
  in base 32 (\<open>base32\<close>).
\<close>

locale totp_pkg =
  fixes generate :: "string \<Rightarrow> string \<Rightarrow> string \<Rightarrow> (string \<times> string) result" and base32 :: "string \<Rightarrow> string"
  assumes secret: "generate issuer account bytes = Inr (key, url) \<Longrightarrow> key = base32 bytes"

lemma Enroll_secret:
  assumes "totp_pkg (mfa_totp_Generate s) base32" "Enroll s db now iv u = (db1, Inr (secret, url))"
  shows "secret = base32 (replicate 20 (CHR 0x00))"
proof -
  have "mfa_totp_Generate s ''Auth7'' (uuid_String (mfa_uuid s) u) (replicate 20 (CHR 0x00)) = Inr (secret, url)"
    using assms(2) by (auto simp: Enroll_def Let_def split: sum.splits prod.splits if_splits)
  then show ?thesis by (rule totp_pkg.secret [OF assms(1)])
qed

context redis_server
begin

lemma check_code_replay:
  assumes "mfa_redis s = R" "up rs" "check_code s op rs t cfg u code = (rs1, Inr ())" "t \<le> t'"
    and valid: "\<And>key. mfa_totp_Validate s t code key \<Longrightarrow> mfa_totp_Validate s t' code key"
  shows "snd (check_code s op' rs1 t' cfg u code) = (if t' < t + 30 * time_Second then Inl (Errorf (op' @ '': code already used'')) else Inr ())"
proof -
  let ?k = "replayKey s u code"
  obtain key where key: "Decrypt s (the_slice (mc_TOTPSecretEncrypted cfg)) (the_slice (mc_TOTPSecretIV cfg)) = Inr key" "mfa_totp_Validate s t code key"
    and rs1: "rs1 = fst (r_Set R rs t ?k (Text ''1'') (30 * time_Second))"
    using assms(1,3) by (auto simp: check_code_def split: sum.splits if_splits prod.splits option.splits)
  have "up rs1" using assms(2) rs1 by simp
  moreover have "smem rs1 t' ?k = {}" using assms(2,4) by (simp add: rs1 set_smem)
  moreover have "kv rs1 t' ?k = (if t' < t + 30 * time_Second then Some (Text ''1'') else None)"
    using assms(2,4) by (simp add: rs1 set_kv)
  ultimately have "r_Get R rs1 t' ?k = (if t' < t + 30 * time_Second then Inr (Text ''1'') else Inl redis_Nil)" by (simp add: get)
  moreover have "snd (r_Set R rs1 t' ?k (Text ''1'') (30 * time_Second)) = None" using \<open>up rs1\<close> by simp
  ultimately show ?thesis using key valid assms(1) by (auto simp: check_code_def split: prod.splits option.splits)
qed

end

text \<open>
  C35: A time-based code is refused only for thirty seconds after its use. When a code was
  accepted, the same code of the same user is answered with \<^verbatim>\<open>code already used\<close> for thirty
  seconds; after them it is accepted again, for as long as the package holds it valid
  (ninety seconds with its default skew). And every enrolled user is given one and the same
  secret, that of twenty zero bytes, so a valid code of one user is a valid code of all.
\<close>

theorem totp_replay:
  assumes "redis_server R up kv smem" "mfa_redis s = R" "up rs"
    and "totp_pkg (mfa_totp_Generate s) base32"
    and "VerifyTOTP s (db, rs) t u code = ((db1, rs1), Inr ())" "t \<le> t'"
    and "\<forall>key. mfa_totp_Validate s t code key \<longrightarrow> mfa_totp_Validate s t' code key"
  shows "db1 = db \<and>
    snd (VerifyTOTP s (db, rs1) t' u code) = (if t' < t + 30 * time_Second then Inl (Errorf ''TOTPService.Verify: code already used'') else Inr ()) \<and>
    (\<forall>db' db'' iv now v key url. EnrollTOTP s db' now iv v = (db'', Inr (key, url)) \<longrightarrow> key = base32 (replicate 20 (CHR 0x00)))"
proof -
  obtain cfg where cfg: "MFA_GetByUserID db u = Inr cfg" "mc_IsTOTPEnabled cfg" "slice_len (mc_TOTPSecretEncrypted cfg) \<noteq> 0"
    and code: "check_code s ''TOTPService.Verify'' rs t cfg u code = (rs1, Inr ())" "db1 = db"
    using assms(5) by (auto simp: VerifyTOTP_def totp_Verify_def split: sum.splits if_splits prod.splits)
  have "snd (check_code s ''TOTPService.Verify'' rs1 t' cfg u code) =
      (if t' < t + 30 * time_Second then Inl (Errorf (''TOTPService.Verify'' @ '': code already used'')) else Inr ())"
    using assms(7) by (intro redis_server.check_code_replay [OF assms(1,2,3) code(1) assms(6)]) blast
  then have "snd (VerifyTOTP s (db, rs1) t' u code) = (if t' < t + 30 * time_Second then Inl (Errorf ''TOTPService.Verify: code already used'') else Inr ())"
    using cfg by (auto simp: VerifyTOTP_def totp_Verify_def split: prod.splits)
  moreover have "key = base32 (replicate 20 (CHR 0x00))" if "EnrollTOTP s db' now iv v = (db'', Inr (key, url))" for db' db'' iv now v key url
    using Enroll_secret [OF assms(4)] that unfolding EnrollTOTP_def by blast
  ultimately show ?thesis using code(2) by blast
qed

section \<open>Step-up\<close>

lemma mfa_keys_differ:
  "stepUpKey s u \<noteq> replayKey s v code" "stepUpKey s u \<noteq> otpKey s v purpose" "otpKey s u purpose \<noteq> stepUpKey s v"
  by (auto simp: stepUpKey_def replayKey_def otpKey_def)

context redis_server
begin

lemma totp_Verify_redis:
  assumes "mfa_redis s = R"
  shows "snd (fst (totp_Verify s (db, rs) now u code)) \<in> {rs, fst (r_Set R rs now (replayKey s u code) (Text ''1'') (30 * time_Second))}"
proof -
  have "fst (check_code s op rs now cfg u code) \<in> {rs, fst (r_Set R rs now (replayKey s u code) (Text ''1'') (30 * time_Second))}" for op cfg
    unfolding check_code_def assms by (auto split: sum.split prod.split option.split)
  note code = this [of "''TOTPService.Verify''"]
  then show ?thesis unfolding totp_Verify_def by (auto split: sum.split prod.split) (metis code fst_conv insertE singletonD)
qed

lemma step_up_key_kept:
  assumes "mfa_redis s = R" "up rs" "now \<le> t"
  shows "up (snd (fst (totp_Verify s (db, rs) now u code))) \<and> kv (snd (fst (totp_Verify s (db, rs) now u code))) t (stepUpKey s u) = kv rs t (stepUpKey s u) \<and>
      smem (snd (fst (totp_Verify s (db, rs) now u code))) t (stepUpKey s u) = smem rs t (stepUpKey s u)"
    and "up (snd (fst (otp_Verify s (db, rs) now u code purpose))) \<and> kv (snd (fst (otp_Verify s (db, rs) now u code purpose))) t (stepUpKey s u) = kv rs t (stepUpKey s u) \<and>
      smem (snd (fst (otp_Verify s (db, rs) now u code purpose))) t (stepUpKey s u) = smem rs t (stepUpKey s u)"
proof -
  have set: "up (fst (r_Set R rs now (replayKey s u code) (Text ''1'') (30 * time_Second)))" 
      "kv (fst (r_Set R rs now (replayKey s u code) (Text ''1'') (30 * time_Second))) t (stepUpKey s u) = kv rs t (stepUpKey s u)"
      "smem (fst (r_Set R rs now (replayKey s u code) (Text ''1'') (30 * time_Second))) t (stepUpKey s u) = smem rs t (stepUpKey s u)"
    using assms(2,3) mfa_keys_differ(1) [of s u u code] by (simp_all add: set_kv set_smem)
  show "up (snd (fst (totp_Verify s (db, rs) now u code))) \<and> kv (snd (fst (totp_Verify s (db, rs) now u code))) t (stepUpKey s u) = kv rs t (stepUpKey s u) \<and>
      smem (snd (fst (totp_Verify s (db, rs) now u code))) t (stepUpKey s u) = smem rs t (stepUpKey s u)"
    using totp_Verify_redis [OF assms(1), of db rs now u code] by (elim insertE emptyE) (simp_all only: set assms(2) simp_thms)
  show "up (snd (fst (otp_Verify s (db, rs) now u code purpose))) \<and> kv (snd (fst (otp_Verify s (db, rs) now u code purpose))) t (stepUpKey s u) = kv rs t (stepUpKey s u) \<and>
      smem (snd (fst (otp_Verify s (db, rs) now u code purpose))) t (stepUpKey s u) = smem rs t (stepUpKey s u)"
    using assms mfa_keys_differ(2) [of s u u purpose] by (auto simp: otp_Verify_def Let_def del_kv del_smem split: sum.splits)
qed

end

text \<open>
  The step-up flag of a user with a second factor. After an attempt \<^verbatim>\<open>IsStepUpRequired\<close>
  answers no when it succeeded and, when it failed (an unknown method included), yes for
  fifteen minutes and no afterwards. A user without a second factor passes every attempt,
  and nothing is written.
\<close>

theorem step_up_flag:
  assumes "redis_server R up kv smem" "mfa_redis s = R" "up rs"
    and "MFA_GetByUserID db u = Inr cfg" "StepUpAuth s (db, rs) now u method code = ((db1, rs1), r)" "now \<le> t"
  shows "(IsFullyEnabled cfg \<longrightarrow> IsStepUpRequired s rs1 t u = Inr (\<not> is_ok r \<and> t < now + 15 * time_Minute) \<and> (is_ok r \<longrightarrow> r = Inr ''step-up successful'')) \<and>
    (\<not> IsFullyEnabled cfg \<longrightarrow> r = Inr ''mfa not configured'' \<and> db1 = db \<and> rs1 = rs)"
proof (cases "IsFullyEnabled cfg")
  case True
  let ?k = "stepUpKey s u" and ?rs = "fst (r_Set R rs now (stepUpKey s u) (Text ''1'') (15 * time_Minute))"
  obtain dba rsa v where att: "step_up_verify s (db, ?rs) now u method code = ((dba, rsa), v)" by (metis prod.collapse)
  have set: "up ?rs" "kv ?rs t ?k = (if t < now + 15 * time_Minute then Some (Text ''1'') else None)" "smem ?rs t ?k = {}"
    using assms(3,6) redis_server.set_ok [OF assms(1)] redis_server.set_kv [OF assms(1)] redis_server.set_smem [OF assms(1)] by simp_all
  have "rsa \<in> {snd (fst (totp_Verify s (db, ?rs) now u code)), snd (fst (otp_Verify s (db, ?rs) now u code ''mfa_login'')), ?rs}"
    using att by (auto simp: step_up_verify_def split: if_splits prod.splits sum.splits)
  then have kept: "up rsa \<and> kv rsa t ?k = kv ?rs t ?k \<and> smem rsa t ?k = {}"
    using set redis_server.step_up_key_kept [OF assms(1,2) set(1) assms(6), of db u code] by auto
  have "IsStepUpRequired s (if is_ok v then fst (r_Del R rsa now ?k) else rsa) t u = Inr (\<not> is_ok v \<and> t < now + 15 * time_Minute)"
    using kept set assms(2,6) redis_server.exists_cmd [OF assms(1)] redis_server.del_ok [OF assms(1)] redis_server.del_kv [OF assms(1)]
      redis_server.del_smem [OF assms(1)] by (simp add: IsStepUpRequired_def)
  moreover have "rs1 = (if is_ok v then fst (r_Del R rsa now ?k) else rsa) \<and> is_ok r = is_ok v \<and> (is_ok v \<longrightarrow> r = Inr ''step-up successful'')"
    using assms(2,4,5) True att by (cases v) (auto simp: StepUpAuth_def Let_def)
  ultimately show ?thesis using True by simp
next
  case False
  then show ?thesis using assms(4,5) by (simp add: StepUpAuth_def)
qed

section \<open>Codes by mail\<close>

text \<open>
  A code by mail is never sent: the hash of 60 characters goes to a column of six, so
  \<^verbatim>\<open>EnrollEmailOTP\<close> fails for every user, after it has put the hash into Redis.
\<close>

lemma EnrollEmailOTP_fails:
  assumes "bcrypt_pkg (mfa_bcrypt_Generate s) cmp T" "length (or_digits rnd) = 6"
  shows "\<not> is_ok (snd (EnrollEmailOTP s st now rnd u))"
proof -
  have "length h = 60" if "mfa_bcrypt_Generate s (or_salt rnd) (otp_generateCode (or_digits rnd)) = Inr h" for h
    using bcrypt_pkg.hashes [OF assms(1), of "otp_generateCode (or_digits rnd)" "or_salt rnd"] that assms(2) by (auto simp: otp_generateCode_def)
  then show ?thesis
    by (auto simp: EnrollEmailOTP_def otp_Generate_def OTP_Create_def pg_Exec_def Let_def split: sum.splits prod.splits option.splits if_splits)
qed

section \<open>An instance\<close>

text \<open>
  Packages for evaluation: hashes that pad the text to 60 characters, a cipher that keeps
  the text, keys of the letter A and one code that is always valid.
\<close>

definition pad_hash :: "string \<Rightarrow> string" where
  "pad_hash p = take 60 (p @ replicate 60 (CHR 0x00))"

definition pad_bcrypt :: "string \<Rightarrow> string \<Rightarrow> string result" where
  "pad_bcrypt salt p = (if length p > 72 then Inl (External ''bcrypt: password length exceeds 72 bytes'') else Inr (pad_hash p))"

definition pad_compare :: "string \<Rightarrow> string \<Rightarrow> bool" where
  "pad_compare h q \<longleftrightarrow> h = pad_hash q"

lemma take_pad: "length p \<le> n \<Longrightarrow> take n (p @ replicate n c) @ [c] = p @ c # replicate (n - length p) c"
  by (simp add: min_def replicate_append_same)

lemma pad_hash_strip:
  assumes "length p \<le> 60" "CHR 0x00 \<notin> set p"
  shows "takeWhile (\<lambda>c. c \<noteq> CHR 0x00) (pad_hash p @ [CHR 0x00]) = p"
  unfolding pad_hash_def take_pad [OF assms(1)] using assms(2) by (subst takeWhile_append2) auto

interpretation pad_bcrypt: bcrypt_pkg pad_bcrypt pad_compare "{p. length p \<le> 60 \<and> CHR 0x00 \<notin> set p}"
proof unfold_locales
  fix salt p h q
  assume "pad_bcrypt salt p = Inr h" "p \<in> {p. length p \<le> 60 \<and> CHR 0x00 \<notin> set p}" "q \<in> {p. length p \<le> 60 \<and> CHR 0x00 \<notin> set p}" "pad_compare h q"
  then have "pad_hash p = pad_hash q" "length p \<le> 60" "CHR 0x00 \<notin> set p" "length q \<le> 60" "CHR 0x00 \<notin> set q"
    by (auto simp: pad_bcrypt_def pad_compare_def split: if_splits)
  then show "q = p" by (metis pad_hash_strip)
qed (auto simp: pad_bcrypt_def pad_hash_def pad_compare_def split: if_splits)

definition letter_key :: "string \<Rightarrow> string" where
  "letter_key bytes = map (\<lambda>_. CHR ''A'') bytes"

definition letter_totp :: "string \<Rightarrow> string \<Rightarrow> string \<Rightarrow> (string \<times> string) result" where
  "letter_totp issuer account bytes = Inr (letter_key bytes, ''otpauth://totp/'' @ issuer @ '':'' @ account)"

interpretation letter_totp: totp_pkg letter_totp letter_key
  by unfold_locales (simp add: letter_totp_def)

definition demo_mfa :: "mem MFAService" where
  "demo_mfa = \<lparr>mfa_redis = mem_redis, mfa_uuid = bits_uuid, mfa_inet = Some, mfa_key = replicate 32 (CHR ''k''),
     mfa_Seal = (\<lambda>key iv text. text), mfa_Open = (\<lambda>key iv text. Some text), mfa_totp_Generate = letter_totp,
     mfa_totp_Validate = (\<lambda>now code key. code = ''123456''), mfa_bcrypt_Generate = pad_bcrypt, mfa_bcrypt_Compare = pad_compare\<rparr>"

definition demo_mfa_row :: MFAConfig where
  "demo_mfa_row = \<lparr>mc_ID = 7, mc_UserID = 1, mc_TOTPSecretEncrypted = Some ''AAAA'', mc_TOTPSecretIV = Some (replicate 12 (CHR ''i'')),
     mc_IsTOTPEnabled = True, mc_IsEmailOTPEnabled = False, mc_IsBackupCodesEnabled = False, mc_BackupCodesHash = Some [],
     mc_MFAEnabledAt = None, mc_CreatedAt = 0, mc_UpdatedAt = 0\<rparr>"

definition demo_mfa_db :: db where
  "demo_mfa_db = db_empty\<lparr>t_mfa_configs := [demo_mfa_row]\<rparr>"

lemma demo_mfa_facts:
  "MFA_GetByUserID demo_mfa_db 1 = Inr demo_mfa_row" "mfa_row_ok demo_mfa_row" "mc_ID demo_mfa_row \<noteq> uuid_Nil" "IsFullyEnabled demo_mfa_row"
  by code_simp+

lemma demo_mfa_packages:
  "mfa_redis demo_mfa = mem_redis" "mfa_totp_Generate demo_mfa = letter_totp" "mfa_bcrypt_Generate demo_mfa = pad_bcrypt" "mfa_bcrypt_Compare demo_mfa = pad_compare"
  "mfa_totp_Validate demo_mfa = (\<lambda>now code key. code = ''123456'')"
  by (simp_all add: demo_mfa_def)

theorem backup_codes_refine_witness:
  "\<exists>codes db1 db2. GenerateBackupCodes demo_mfa demo_mfa_db 0 [([2, 3, 4], ''x''), ([5, 6, 7], ''y'')] 1 = (db1, Inr codes) \<and> length codes = 2 \<and>
    verify_codes demo_mfa 1 db1 [(1, '' cde ''), (2, ''CDE'')] = (db2, snd (use_codes (mset codes) ['' cde '', ''CDE'']))"
proof -
  have codes: "backup_generateCode [2, 3, 4] = ''CDE''" "backup_generateCode [5, 6, 7] = ''FGH''"
    "strings_ToUpper (strings_TrimSpace '' cde '') = ''CDE''" "strings_ToUpper (strings_TrimSpace ''CDE'') = ''CDE''" by code_simp+
  have "\<forall>(bytes, salt) \<in> set [([2, 3, 4], ''x''), ([5, 6, 7], ''y'')]. length bytes \<le> 72 \<and> backup_generateCode bytes \<in> {p. length p \<le> 60 \<and> CHR 0x00 \<notin> set p}"
    "\<forall>(t, q) \<in> set [(1 :: time, '' cde ''), (2, ''CDE'')]. strings_ToUpper (strings_TrimSpace q) \<in> {p. length p \<le> 60 \<and> CHR 0x00 \<notin> set p}"
    by (simp_all add: codes)
  from backup_codes_refine [where s = demo_mfa and now = 0, unfolded demo_mfa_packages, OF pad_bcrypt.bcrypt_pkg_axioms this(1) demo_mfa_facts(1-3) this(2)]
  show ?thesis by auto
qed

theorem totp_replay_witness:
  "\<exists>rs1. snd (VerifyTOTP demo_mfa (demo_mfa_db, rs1) 5 1 ''123456'') = Inl (Errorf ''TOTPService.Verify: code already used'')"
proof -
  have "is_ok (snd (VerifyTOTP demo_mfa (demo_mfa_db, []) 0 1 ''123456''))" "mem_up []" by code_simp+
  then obtain db1 rs1 where v: "VerifyTOTP demo_mfa (demo_mfa_db, []) 0 1 ''123456'' = ((db1, rs1), Inr ())"
    by (cases "VerifyTOTP demo_mfa (demo_mfa_db, []) 0 1 ''123456''"; cases "snd (VerifyTOTP demo_mfa (demo_mfa_db, []) 0 1 ''123456'')") auto
  have "totp_pkg (mfa_totp_Generate demo_mfa) letter_key" by (simp add: demo_mfa_packages letter_totp.totp_pkg_axioms)
  from totp_replay [OF mem.redis_server_axioms demo_mfa_packages(1) \<open>mem_up []\<close> this v, of 5] show ?thesis by (auto simp: demo_mfa_packages)
qed

theorem step_up_flag_witness:
  "\<exists>rs1. IsStepUpRequired demo_mfa rs1 5 1 = Inr True"
proof -
  have "\<not> is_ok (snd (StepUpAuth demo_mfa (demo_mfa_db, []) 0 1 ''totp'' ''000000''))" "mem_up []" by code_simp+
  then obtain db1 rs1 e where v: "StepUpAuth demo_mfa (demo_mfa_db, []) 0 1 ''totp'' ''000000'' = ((db1, rs1), Inl e)"
    by (cases "StepUpAuth demo_mfa (demo_mfa_db, []) 0 1 ''totp'' ''000000''"; cases "snd (StepUpAuth demo_mfa (demo_mfa_db, []) 0 1 ''totp'' ''000000'')") auto
  from step_up_flag [OF mem.redis_server_axioms demo_mfa_packages(1) \<open>mem_up []\<close> demo_mfa_facts(1) v, of 5] demo_mfa_facts(4) show ?thesis by auto
qed

end
