(* ===== verification/BranchSync.thy ===== *)
theory BranchSync
  imports PostgresAuthz
begin

text \<open>
  Package internal/service/branchsync: the poller that copies the branches of the
  enterprise service into the table \<^verbatim>\<open>branches\<close>. The HTTP client is a parameter: \<open>hc_Do\<close> answers
  a request, \<open>hc_url_ok\<close> says which texts \<^verbatim>\<open>http.NewRequest\<close> accepts as URLs. A response is its
  status, its text, and what \<^verbatim>\<open>json.Unmarshal\<close> makes of it, \<open>None\<close> where the text does not
  decode. A pass over the pages is partial: \<open>None\<close> stands for a pass that never ends.
\<close>

section \<open>Configuration\<close>

record poller_Config =
  pc_SourceURL :: string
  pc_ClientID :: string
  pc_ClientSecret :: string
  pc_TokenEndpoint :: string
  pc_OrgID :: uuid
  pc_Interval :: duration
  pc_PerPage :: int
  pc_HTTPTimeout :: duration

definition poller_DefaultConfig :: "uuid_pkg \<Rightarrow> poller_Config" where
  "poller_DefaultConfig U = \<lparr>pc_SourceURL = [], pc_ClientID = [], pc_ClientSecret = [], pc_TokenEndpoint = [],
     pc_OrgID = uuid_Parse0 U ''00000000-0000-0000-0000-000000000001'', pc_Interval = 5 * time_Minute, pc_PerPage = 200,
     pc_HTTPTimeout = 30 * time_Second\<rparr>"

record Poller =
  po_cfg :: poller_Config
  po_enabled :: bool

definition NewPoller :: "poller_Config \<Rightarrow> Poller" where
  "NewPoller cfg =
     \<lparr>po_cfg = cfg\<lparr>pc_Interval := (if pc_Interval cfg = 0 then 5 * time_Minute else pc_Interval cfg),
        pc_PerPage := (if pc_PerPage cfg = 0 then 200 else pc_PerPage cfg),
        pc_HTTPTimeout := (if pc_HTTPTimeout cfg = 0 then 30 * time_Second else pc_HTTPTimeout cfg)\<rparr>,
      po_enabled = (pc_SourceURL cfg \<noteq> [] \<and> pc_ClientID cfg \<noteq> [])\<rparr>"

section \<open>Requests\<close>

record branchProjectionItem =
  bp_BranchID :: string
  bp_BranchCode :: string
  bp_Status :: string
  bp_UpdatedAt :: string

record contractEnvelope =
  ce_Data :: "branchProjectionItem list"
  ce_Total :: int
  ce_Page :: int
  ce_PerPage :: int
  ce_TotalPages :: int

record http_request =
  hq_Method :: string
  hq_URL :: string
  hq_Header :: "(string \<times> string) list"
  hq_Body :: string

record http_response =
  hr_StatusCode :: int
  hr_Body :: string
  hr_envelope :: "contractEnvelope option"
  hr_access_token :: "string option"

record http_client =
  hc_url_ok :: "string \<Rightarrow> bool"
  hc_Do :: "http_request \<Rightarrow> http_response result"

definition snippet :: "string \<Rightarrow> string" where
  "snippet b = (if length b > 200 then take 200 b @ ''...'' else b)"

definition url_error :: error where
  "url_error = External ''net/url: parse''"

definition json_error :: error where
  "json_error = External ''json''"

definition getM2MToken :: "Poller \<Rightarrow> http_client \<Rightarrow> string result" where
  "getM2MToken p client =
     (let cfg = po_cfg p
      in if \<not> hc_url_ok client (pc_TokenEndpoint cfg) then Inl (Wrapf ''branchsync.Poller.getM2MToken build req'' url_error)
         else (case hc_Do client \<lparr>hq_Method = ''POST'', hq_URL = pc_TokenEndpoint cfg,
                hq_Header = [(''Content-Type'', ''application/x-www-form-urlencoding'')],
                hq_Body = ''grant_type=client_credentials'' @ ''&client_id='' @ pc_ClientID cfg @ ''&client_secret='' @ pc_ClientSecret cfg\<rparr> of
             Inl e \<Rightarrow> Inl (Wrapf ''branchsync.Poller.getM2MToken http'' e)
           | Inr resp \<Rightarrow>
               if hr_StatusCode resp \<noteq> 200
               then Inl (Errorf (''branchsync.Poller.getM2MToken token endpoint '' @ strconv_Itoa (hr_StatusCode resp) @ '': '' @ snippet (hr_Body resp)))
               else (case hr_access_token resp of
                   None \<Rightarrow> Inl (Wrapf ''branchsync.Poller.getM2MToken parse response'' json_error)
                 | Some token \<Rightarrow>
                     if token = [] then Inl (Errorf ''branchsync.Poller.getM2MToken empty access_token in response'') else Inr token)))"

definition page_url :: "Poller \<Rightarrow> nat \<Rightarrow> string" where
  "page_url p page = pc_SourceURL (po_cfg p) @ ''?page='' @ strconv_Itoa (int page) @ ''&per_page='' @ strconv_Itoa (pc_PerPage (po_cfg p))"

definition fetchPage :: "uuid_pkg \<Rightarrow> Poller \<Rightarrow> http_client \<Rightarrow> nat \<Rightarrow> contractEnvelope result" where
  "fetchPage U p client page =
     (if \<not> hc_url_ok client (page_url p page) then Inl (Wrapf ''branchsync.Poller.fetchPage build req'' url_error)
      else (case getM2MToken p client of
          Inl e \<Rightarrow> Inl (Wrapf ''branchsync.Poller.fetchPage get m2m token'' e)
        | Inr token \<Rightarrow>
            (case hc_Do client \<lparr>hq_Method = ''GET'', hq_URL = page_url p page,
                hq_Header = [(''Authorization'', ''Bearer '' @ token), (''X-Actor-Org-Id'', uuid_String U (pc_OrgID (po_cfg p))), (''Accept'', ''application/json'')],
                hq_Body = []\<rparr> of
               Inl e \<Rightarrow> Inl (Wrapf ''branchsync.Poller.fetchPage http'' e)
             | Inr resp \<Rightarrow>
                 if hr_StatusCode resp \<ge> 400
                 then Inl (Errorf (''branchsync.Poller.fetchPage upstream '' @ strconv_Itoa (hr_StatusCode resp) @ '': '' @ snippet (hr_Body resp)))
                 else (case hr_envelope resp of None \<Rightarrow> Inl (Wrapf ''branchsync.Poller.fetchPage decode'' json_error) | Some env \<Rightarrow> Inr env))))"

section \<open>Writing a page\<close>

text \<open>
  \<^verbatim>\<open>INSERT .. ON CONFLICT (id) DO UPDATE .. WHERE branches.updated_at < EXCLUDED.updated_at\<close>;
  \<open>now\<close> is the start of the transaction.
\<close>

definition upsert_branch :: "time \<Rightarrow> uuid \<Rightarrow> uuid \<Rightarrow> string \<Rightarrow> bool \<Rightarrow> db \<Rightarrow> db result" where
  "upsert_branch now orgID i code active db =
     (let taken = list_ex (\<lambda>r. b_ID r \<noteq> i \<and> b_OrgID r = orgID \<and> b_BranchCode r = code) (t_branches db)
      in if length code > 20 then Inl pg_too_long
         else case find (\<lambda>r. b_ID r = i) (t_branches db) of
           None \<Rightarrow>
             if taken then Inl pg_unique
             else if orgID \<notin> set (t_organizations db) then Inl pg_fk
             else Inr (db\<lparr>t_branches := t_branches db @ [\<lparr>b_ID = i, b_OrgID = orgID, b_BranchCode = code, b_Name = [], b_Active = active, b_UpdatedAt = pg_ts now\<rparr>]\<rparr>)
         | Some r \<Rightarrow>
             if \<not> b_UpdatedAt r < pg_ts now then Inr db
             else if taken then Inl pg_unique
             else if orgID \<notin> set (t_organizations db) then Inl pg_fk
             else Inr (db\<lparr>t_branches := sql_update (\<lambda>r. b_ID r = i)
               (\<lambda>r. r\<lparr>b_OrgID := orgID, b_BranchCode := code, b_Active := active, b_UpdatedAt := pg_ts now\<rparr>) (t_branches db)\<rparr>))"

text \<open>The loop of \<^verbatim>\<open>upsertBatch\<close>; \<open>seen\<close> are the keys of the map.\<close>

fun upsert_items :: "uuid_pkg \<Rightarrow> time \<Rightarrow> uuid \<Rightarrow> branchProjectionItem list \<Rightarrow> db \<Rightarrow> uuid list \<Rightarrow> nat \<Rightarrow> uuid list \<times> (db \<times> nat) result" where
  "upsert_items U now orgID [] db seen applied = (seen, Inr (db, applied))"
| "upsert_items U now orgID (item # items) db seen applied =
     (case uuid_Parse U (bp_BranchID item) of
        None \<Rightarrow> upsert_items U now orgID items db seen applied
      | Some i \<Rightarrow>
          (case upsert_branch now orgID i (bp_BranchCode item) (strings_EqualFold (bp_Status item) ''active'') db of
             Inl e \<Rightarrow> (List.insert i seen, Inl (Wrapf (''branchsync.Poller.upsertBatch upsert id='' @ uuid_String U i) e))
           | Inr db1 \<Rightarrow> upsert_items U now orgID items db1 (List.insert i seen) (Suc applied)))"

text \<open>One transaction: after an error the tables are as before, the map keeps its keys.\<close>

definition upsertBatch :: "uuid_pkg \<Rightarrow> Poller \<Rightarrow> time \<Rightarrow> branchProjectionItem list \<Rightarrow> db \<times> uuid list \<Rightarrow> (db \<times> uuid list) \<times> nat result" where
  "upsertBatch U p now items st =
     (if db_down (fst st) then (st, Inl (Wrapf ''branchsync.Poller.upsertBatch begin'' pg_conn_error))
      else (case upsert_items U now (pc_OrgID (po_cfg p)) items (fst st) (snd st) 0 of
          (seen, Inl e) \<Rightarrow> ((fst st, seen), Inl e)
        | (seen, Inr (db1, applied)) \<Rightarrow> ((db1, seen), Inr applied)))"

definition deactivateAbsent :: "Poller \<Rightarrow> time \<Rightarrow> uuid list \<Rightarrow> db \<Rightarrow> db \<times> nat result" where
  "deactivateAbsent p now seen db =
     (if seen = [] then (db, Inr 0)
      else if db_down db then (db, Inl (Wrapf ''branchsync.Poller.deactivateAbsent'' pg_conn_error))
      else (let absent = (\<lambda>r. b_OrgID r = pc_OrgID (po_cfg p) \<and> b_Active r \<and> b_ID r \<notin> set seen)
            in (db\<lparr>t_branches := sql_update absent (\<lambda>r. r\<lparr>b_Active := False, b_UpdatedAt := pg_ts now\<rparr>) (t_branches db)\<rparr>,
                Inr (length (filter absent (t_branches db))))))"

section \<open>A pass\<close>

text \<open>
  The loop over the pages. \<open>H n\<close> is the HTTP client and \<open>clock n\<close> the time while page \<open>n\<close> is
  read and written.
\<close>

partial_function (option) tick_pages ::
  "uuid_pkg \<Rightarrow> Poller \<Rightarrow> (nat \<Rightarrow> http_client) \<Rightarrow> (nat \<Rightarrow> time) \<Rightarrow> nat \<Rightarrow> db \<times> uuid list \<Rightarrow> nat \<Rightarrow> ((db \<times> uuid list) \<times> nat result) option" where
  "tick_pages U p H clock page st totalApplied =
     (case fetchPage U p (H page) page of
        Inl e \<Rightarrow> Some (st, Inl (Wrapf (''branchsync.Poller.tick page='' @ strconv_Itoa (int page)) e))
      | Inr env \<Rightarrow>
          if ce_Data env = [] then Some (st, Inr totalApplied)
          else (case upsertBatch U p (clock page) (ce_Data env) st of
              (st1, Inl e) \<Rightarrow> Some (st1, Inl (Wrapf (''branchsync.Poller.tick upsert page='' @ strconv_Itoa (int page)) e))
            | (st1, Inr applied) \<Rightarrow>
                if ce_TotalPages env \<le> int page then Some (st1, Inr (totalApplied + applied))
                else tick_pages U p H clock (Suc page) st1 (totalApplied + applied)))"

declare tick_pages.simps [code]

text \<open>The tables, and the numbers of rows applied and deactivated; \<open>fin\<close> is the time of the last statement.\<close>

definition tick :: "uuid_pkg \<Rightarrow> Poller \<Rightarrow> (nat \<Rightarrow> http_client) \<Rightarrow> (nat \<Rightarrow> time) \<Rightarrow> time \<Rightarrow> db \<Rightarrow> (db \<times> (nat \<times> nat) result) option" where
  "tick U p H clock fin db =
     (case tick_pages U p H clock 1 (db, []) 0 of
        None \<Rightarrow> None
      | Some ((db1, seen), Inl e) \<Rightarrow> Some (db1, Inl e)
      | Some ((db1, seen), Inr applied) \<Rightarrow>
          (case deactivateAbsent p fin seen db1 of
             (db2, Inl e) \<Rightarrow> Some (db2, Inl (Wrapf ''branchsync.Poller.tick deactivate'' e))
           | (db2, Inr deactivated) \<Rightarrow> Some (db2, Inr (applied, deactivated))))"

text \<open>
  \<^verbatim>\<open>Run\<close> until it is cancelled: the passes made so far, each with what it met, and errors
  ignored. A disabled poller makes none.
\<close>

fun run_passes :: "uuid_pkg \<Rightarrow> Poller \<Rightarrow> ((nat \<Rightarrow> http_client) \<times> (nat \<Rightarrow> time) \<times> time) list \<Rightarrow> db \<Rightarrow> db option" where
  "run_passes U p [] db = Some db"
| "run_passes U p ((H, clock, fin) # passes) db =
     (case tick U p H clock fin db of None \<Rightarrow> None | Some (db1, _) \<Rightarrow> run_passes U p passes db1)"

definition poller_Run :: "uuid_pkg \<Rightarrow> Poller \<Rightarrow> ((nat \<Rightarrow> http_client) \<times> (nat \<Rightarrow> time) \<times> time) list \<Rightarrow> db \<Rightarrow> db option" where
  "poller_Run U p passes db = (if \<not> po_enabled p then Some db else run_passes U p passes db)"

end
