(* ===== verification/BranchSyncProps.thy ===== *)
theory BranchSyncProps
  imports BranchSync
begin

text \<open>
  Properties of the branch synchronisation: a complete pass makes the table a projection of
  the source; a pass ends when the source bounds the number of its pages; a failing pass
  leaves unreported branches alone.
\<close>

section \<open>Writing branches\<close>

text \<open>What a list of reported items says: identifier, code and whether the branch is active.\<close>

definition parsed :: "uuid_pkg \<Rightarrow> branchProjectionItem list \<Rightarrow> (uuid \<times> string \<times> bool) list" where
  "parsed U items = List.map_filter (\<lambda>item. map_option (\<lambda>i. (i, bp_BranchCode item, strings_EqualFold (bp_Status item) ''active'')) (uuid_Parse U (bp_BranchID item))) items"

lemma parsed_simps [simp]:
  "parsed U [] = []"
  "parsed U (item # items) = (case uuid_Parse U (bp_BranchID item) of None \<Rightarrow> parsed U items
     | Some i \<Rightarrow> (i, bp_BranchCode item, strings_EqualFold (bp_Status item) ''active'') # parsed U items)"
  "parsed U (xs @ ys) = parsed U xs @ parsed U ys"
  by (auto simp: parsed_def map_filter_def split: option.splits)

text \<open>
  The rows after writing reported branches: those reported are as reported, in the given
  organization; the others are as before.
\<close>

definition projected :: "uuid \<Rightarrow> (uuid \<times> string \<times> bool) list \<Rightarrow> db \<Rightarrow> db \<Rightarrow> bool" where
  "projected org reps db db' \<longleftrightarrow> distinct (map b_ID (t_branches db')) \<and>
     (\<forall>(i, c, a) \<in> set reps. \<exists>r \<in> set (t_branches db'). b_ID r = i \<and> b_OrgID r = org \<and> b_BranchCode r = c \<and> b_Active r = a) \<and>
     (\<forall>r. b_ID r \<notin> fst ` set reps \<longrightarrow> (r \<in> set (t_branches db') \<longleftrightarrow> r \<in> set (t_branches db)))"

lemma projected_append:
  assumes "projected org P db db1" "projected org Q db1 db2" "fst ` set P \<inter> fst ` set Q = {}"
  shows "projected org (P @ Q) db db2"
  unfolding projected_def
proof (intro conjI ballI allI impI)
  show "distinct (map b_ID (t_branches db2))" using assms(2) by (simp add: projected_def)
  fix x assume x: "x \<in> set (P @ Q)"
  obtain i c a where ica: "x = (i, c, a)" by (metis prod_cases3)
  have "\<exists>r \<in> set (t_branches db2). b_ID r = i \<and> b_OrgID r = org \<and> b_BranchCode r = c \<and> b_Active r = a"
  proof (cases "x \<in> set Q")
    case True
    then show ?thesis using assms(2) ica by (auto simp: projected_def)
  next
    case False
    then have "x \<in> set P" using x by simp
    then obtain r where r: "r \<in> set (t_branches db1)" "b_ID r = i" "b_OrgID r = org" "b_BranchCode r = c" "b_Active r = a"
      using assms(1) ica by (fastforce simp: projected_def)
    moreover have "b_ID r \<notin> fst ` set Q" using assms(3) \<open>x \<in> set P\<close> ica r(2) by force
    ultimately show ?thesis using assms(2) by (auto simp: projected_def)
  qed
  then show "case x of (i, c, a) \<Rightarrow> \<exists>r \<in> set (t_branches db2). b_ID r = i \<and> b_OrgID r = org \<and> b_BranchCode r = c \<and> b_Active r = a"
    using ica by simp
next
  fix r :: Branch
  assume "b_ID r \<notin> fst ` set (P @ Q)"
  then show "r \<in> set (t_branches db2) \<longleftrightarrow> r \<in> set (t_branches db)" using assms(1,2) by (simp add: projected_def image_Un)
qed

lemma upsert_branch_projects:
  assumes ok: "upsert_branch now org i c a db = Inr db'" and ids: "distinct (map b_ID (t_branches db))"
    and old: "\<forall>r \<in> set (t_branches db). b_ID r = i \<longrightarrow> b_UpdatedAt r < pg_ts now"
  shows "projected org [(i, c, a)] db db' \<and> db_down db' = db_down db"
proof (cases "find (\<lambda>r. b_ID r = i) (t_branches db)")
  case None
  then have "i \<notin> b_ID ` set (t_branches db)" by (auto simp: find_None_iff)
  then show ?thesis using ok ids None by (auto simp: upsert_branch_def projected_def Let_def split: if_splits)
next
  case (Some r)
  then have "r \<in> set (t_branches db)" "b_ID r = i" by (auto simp: find_Some_iff)
  then have db': "db' = db\<lparr>t_branches := sql_update (\<lambda>r. b_ID r = i) (\<lambda>r. r\<lparr>b_OrgID := org, b_BranchCode := c, b_Active := a, b_UpdatedAt := pg_ts now\<rparr>) (t_branches db)\<rparr>"
    using ok old Some by (auto simp: upsert_branch_def Let_def split: if_splits)
  let ?new = "r\<lparr>b_OrgID := org, b_BranchCode := c, b_Active := a, b_UpdatedAt := pg_ts now\<rparr>"
  have "?new \<in> set (t_branches db')" using \<open>r \<in> set (t_branches db)\<close> \<open>b_ID r = i\<close> by (force simp: db' set_sql_update image_iff)
  then have "\<exists>r \<in> set (t_branches db'). b_ID r = i \<and> b_OrgID r = org \<and> b_BranchCode r = c \<and> b_Active r = a"
    using \<open>b_ID r = i\<close> by (intro bexI [of _ ?new]) simp_all
  moreover have "distinct (map b_ID (t_branches db'))" "db_down db' = db_down db" using ids by (simp_all add: db')
  moreover have "r' \<in> set (t_branches db') \<longleftrightarrow> r' \<in> set (t_branches db)" if "b_ID r' \<noteq> i" for r' :: Branch
    using that by (auto simp: db' set_sql_update image_iff)
  ultimately show ?thesis by (simp add: projected_def)
qed

lemma projected_refl: "distinct (map b_ID (t_branches db)) \<Longrightarrow> projected org [] db db"
  by (simp add: projected_def)

lemma upsert_items_projects:
  assumes "upsert_items U now org items db seen k = (seen', Inr (db', k'))" "distinct (map b_ID (t_branches db))"
    and "distinct (map fst (parsed U items))" "\<forall>r \<in> set (t_branches db). b_ID r \<in> fst ` set (parsed U items) \<longrightarrow> b_UpdatedAt r < pg_ts now"
  shows "projected org (parsed U items) db db' \<and> db_down db' = db_down db \<and> set seen' = set seen \<union> fst ` set (parsed U items)"
  using assms
proof (induction items arbitrary: db seen k)
  case Nil
  then show ?case using projected_refl by auto
next
  case (Cons item items)
  show ?case
  proof (cases "uuid_Parse U (bp_BranchID item)")
    case None
    then show ?thesis using Cons.IH [of db seen k] Cons.prems by simp
  next
    case (Some i)
    let ?c = "bp_BranchCode item" and ?a = "strings_EqualFold (bp_Status item) ''active''"
    obtain db1 where one: "upsert_branch now org i ?c ?a db = Inr db1"
      and rest: "upsert_items U now org items db1 (List.insert i seen) (Suc k) = (seen', Inr (db', k'))"
      using Cons.prems(1) Some by (auto split: sum.splits)
    have p1: "projected org [(i, ?c, ?a)] db db1" "db_down db1 = db_down db"
      using upsert_branch_projects [OF one Cons.prems(2)] Cons.prems(4) Some by auto
    have "\<forall>r \<in> set (t_branches db1). b_ID r \<in> fst ` set (parsed U items) \<longrightarrow> b_UpdatedAt r < pg_ts now"
    proof (intro ballI impI)
      fix r assume r: "r \<in> set (t_branches db1)" "b_ID r \<in> fst ` set (parsed U items)"
      then have "b_ID r \<noteq> i" using Cons.prems(3) Some by auto
      then have "r \<in> set (t_branches db)" using p1(1) r(1) by (simp add: projected_def)
      then show "b_UpdatedAt r < pg_ts now" using Cons.prems(4) r(2) Some by simp
    qed
    then have "projected org (parsed U items) db1 db' \<and> db_down db' = db_down db1 \<and> set seen' = set (List.insert i seen) \<union> fst ` set (parsed U items)"
      using Cons.IH [OF rest] p1(1) Cons.prems(3) Some by (auto simp: projected_def)
    moreover from this have "projected org ([(i, ?c, ?a)] @ parsed U items) db db'"
      using Cons.prems(3) Some by (intro projected_append [OF p1(1)]) auto
    ultimately show ?thesis using Some p1(2) by auto
  qed
qed

section \<open>A pass over served pages\<close>

text \<open>A source that serves the pages given: every page has items and names the number of pages.\<close>

definition serves :: "uuid_pkg \<Rightarrow> Poller \<Rightarrow> (nat \<Rightarrow> http_client) \<Rightarrow> branchProjectionItem list list \<Rightarrow> bool" where
  "serves U p H pages \<longleftrightarrow> pages \<noteq> [] \<and> (\<forall>n < length pages. pages ! n \<noteq> [] \<and>
     (\<exists>env. fetchPage U p (H (Suc n)) (Suc n) = Inr env \<and> ce_Data env = pages ! n \<and> ce_TotalPages env = int (length pages)))"

fun write_pages :: "uuid_pkg \<Rightarrow> Poller \<Rightarrow> (nat \<Rightarrow> time) \<Rightarrow> nat \<Rightarrow> branchProjectionItem list list \<Rightarrow> db \<times> uuid list \<Rightarrow> nat \<Rightarrow> (db \<times> uuid list) \<times> nat result" where
  "write_pages U p clock page [] st k = (st, Inr k)"
| "write_pages U p clock page (items # pages) st k =
     (case upsertBatch U p (clock page) items st of
        (st1, Inl e) \<Rightarrow> (st1, Inl (Wrapf (''branchsync.Poller.tick upsert page='' @ strconv_Itoa (int page)) e))
      | (st1, Inr n) \<Rightarrow> write_pages U p clock (Suc page) pages st1 (k + n))"

lemma tick_pages_served:
  assumes "serves U p H pages" "n < length pages"
  shows "tick_pages U p H clock (Suc n) st k = Some (write_pages U p clock (Suc n) (drop n pages) st k)"
  using assms(2)
proof (induction "length pages - Suc n" arbitrary: n st k)
  case (0 n)
  then have "drop n pages = [pages ! n]" "int (length pages) \<le> int (Suc n)" by (simp_all add: Cons_nth_drop_Suc [symmetric])
  then show ?case using assms(1) 0(2) by (subst tick_pages.simps) (fastforce simp: serves_def split: sum.splits prod.splits)
next
  case (Suc m n)
  then have "Suc n < length pages" "m = length pages - Suc (Suc n)" by simp_all
  note IH = Suc.hyps(1) [OF this(2) this(1)]
  have "drop n pages = pages ! n # drop (Suc n) pages" using Suc.prems by (simp add: Cons_nth_drop_Suc)
  moreover obtain env where "fetchPage U p (H (Suc n)) (Suc n) = Inr env" "ce_Data env = pages ! n" "pages ! n \<noteq> []" "\<not> ce_TotalPages env \<le> int (Suc n)"
    using assms(1) Suc.prems \<open>Suc n < length pages\<close> unfolding serves_def by (metis not_le of_nat_less_iff)
  ultimately show ?case using IH by (subst tick_pages.simps) (auto split: sum.splits prod.splits)
qed

lemma upsertBatch_projects:
  assumes "upsertBatch U p now items (db, seen) = ((db', seen'), Inr k)" "distinct (map b_ID (t_branches db))"
    and "distinct (map fst (parsed U items))" "\<forall>r \<in> set (t_branches db). b_ID r \<in> fst ` set (parsed U items) \<longrightarrow> b_UpdatedAt r < pg_ts now"
  shows "projected (pc_OrgID (po_cfg p)) (parsed U items) db db' \<and> \<not> db_down db' \<and> set seen' = set seen \<union> fst ` set (parsed U items)"
proof -
  obtain k' where "upsert_items U now (pc_OrgID (po_cfg p)) items db seen 0 = (seen', Inr (db', k'))" "\<not> db_down db"
    using assms(1) by (auto simp: upsertBatch_def split: sum.splits prod.splits if_splits)
  then show ?thesis using upsert_items_projects [OF _ assms(2-4)] by metis
qed

lemma write_pages_projects:
  assumes "write_pages U p clock page pages (db, seen) k = ((db', seen'), Inr k')" "distinct (map b_ID (t_branches db))"
    and "distinct (map fst (parsed U (concat pages)))"
    and "\<forall>r \<in> set (t_branches db). \<forall>n. b_ID r \<in> fst ` set (parsed U (concat pages)) \<longrightarrow> b_UpdatedAt r < pg_ts (clock n)"
  shows "projected (pc_OrgID (po_cfg p)) (parsed U (concat pages)) db db' \<and> (pages \<noteq> [] \<longrightarrow> \<not> db_down db') \<and>
    set seen' = set seen \<union> fst ` set (parsed U (concat pages))"
  using assms
proof (induction pages arbitrary: page db seen k)
  case Nil
  then show ?case using projected_refl by auto
next
  case (Cons items pages)
  obtain db1 seen1 n where one: "upsertBatch U p (clock page) items (db, seen) = ((db1, seen1), Inr n)"
    and rest: "write_pages U p clock (Suc page) pages (db1, seen1) (k + n) = ((db', seen'), Inr k')"
    using Cons.prems(1) by (auto split: sum.splits prod.splits)
  have p1: "projected (pc_OrgID (po_cfg p)) (parsed U items) db db1" "\<not> db_down db1" "set seen1 = set seen \<union> fst ` set (parsed U items)"
    using upsertBatch_projects [OF one Cons.prems(2)] Cons.prems(3,4) by auto
  have disj: "fst ` set (parsed U items) \<inter> fst ` set (parsed U (concat pages)) = {}" using Cons.prems(3) by auto
  have "\<forall>r \<in> set (t_branches db1). \<forall>n. b_ID r \<in> fst ` set (parsed U (concat pages)) \<longrightarrow> b_UpdatedAt r < pg_ts (clock n)"
  proof (intro ballI allI impI)
    fix r n assume r: "r \<in> set (t_branches db1)" "b_ID r \<in> fst ` set (parsed U (concat pages))"
    then have "r \<in> set (t_branches db)" using p1(1) disj unfolding projected_def by blast
    then show "b_UpdatedAt r < pg_ts (clock n)" using Cons.prems(4) r(2) by (simp add: image_Un)
  qed
  then have p2: "projected (pc_OrgID (po_cfg p)) (parsed U (concat pages)) db1 db' \<and> (pages \<noteq> [] \<longrightarrow> \<not> db_down db') \<and>
      set seen' = set seen1 \<union> fst ` set (parsed U (concat pages))"
    using p1(1) Cons.prems(3) by (intro Cons.IH [OF rest]) (auto simp: projected_def)
  then show ?case using projected_append [OF p1(1) _ disj] p1(2,3) rest by (auto simp: image_Un)
qed

text \<open>Rows after the rows absent from the report were deactivated.\<close>

definition tombstone :: "uuid \<Rightarrow> (uuid \<times> string \<times> bool) list \<Rightarrow> time \<Rightarrow> Branch \<Rightarrow> Branch" where
  "tombstone org reps fin r = (if b_OrgID r = org \<and> b_Active r \<and> b_ID r \<notin> fst ` set reps then r\<lparr>b_Active := False, b_UpdatedAt := pg_ts fin\<rparr> else r)"

lemma tombstone_simps [simp]: "b_ID (tombstone org reps fin r) = b_ID r" "b_OrgID (tombstone org reps fin r) = b_OrgID r"
  "b_BranchCode (tombstone org reps fin r) = b_BranchCode r"
  by (simp_all add: tombstone_def)

lemma tombstone_active: "b_OrgID r = org \<Longrightarrow> b_Active (tombstone org reps fin r) \<longleftrightarrow> b_Active r \<and> b_ID r \<in> fst ` set reps"
  by (auto simp: tombstone_def)

lemma projected_reported:
  "projected org reps db db' \<Longrightarrow> (i, c, a) \<in> set reps \<Longrightarrow> \<exists>r \<in> set (t_branches db'). b_ID r = i \<and> b_OrgID r = org \<and> b_BranchCode r = c \<and> b_Active r = a"
  by (auto simp: projected_def)

lemma projected_row:
  assumes "projected org reps db db'" "r \<in> set (t_branches db')" "(b_ID r, c, a) \<in> set reps"
  shows "b_OrgID r = org \<and> b_BranchCode r = c \<and> b_Active r = a"
proof -
  obtain r' where r': "r' \<in> set (t_branches db')" "b_ID r' = b_ID r" "b_OrgID r' = org \<and> b_BranchCode r' = c \<and> b_Active r' = a"
    using projected_reported [OF assms(1,3)] by blast
  moreover have "inj_on b_ID (set (t_branches db'))" using assms(1) by (simp add: projected_def distinct_map)
  ultimately show ?thesis using assms(2) by (metis inj_onD)
qed

lemma tombstoned_active:
  assumes "projected org reps db db1" "set (t_branches db') = tombstone org reps fin ` set (t_branches db1)"
  shows "(\<lambda>r. (b_ID r, b_BranchCode r)) ` {r \<in> set (t_branches db'). b_OrgID r = org \<and> b_Active r} = {(i, c). (i, c, True) \<in> set reps}" (is "?code ` ?A = ?B")
proof
  show "?code ` ?A \<subseteq> ?B"
  proof
    fix x assume "x \<in> ?code ` ?A"
    then obtain r where r: "x = ?code r" "r \<in> set (t_branches db1)" "b_OrgID r = org" "b_Active (tombstone org reps fin r)"
      unfolding assms(2) by auto
    then obtain c a where "b_Active r" and i: "(b_ID r, c, a) \<in> set reps" using tombstone_active by fastforce
    then show "x \<in> ?B" using r(1) projected_row [OF assms(1) r(2) i] by simp
  qed
  show "?B \<subseteq> ?code ` ?A"
  proof
    fix x assume "x \<in> ?B"
    then obtain i c where x: "x = (i, c)" "(i, c, True) \<in> set reps" by blast
    from projected_reported [OF assms(1) this(2)]
    obtain r where r: "r \<in> set (t_branches db1)" "b_ID r = i" "b_OrgID r = org" "b_BranchCode r = c" "b_Active r" by blast
    moreover have "i \<in> fst ` set reps" using x(2) by force
    ultimately have "tombstone org reps fin r \<in> ?A" using assms(2) tombstone_active by auto
    then show "x \<in> ?code ` ?A" using r x(1) by (intro image_eqI [of _ _ "tombstone org reps fin r"]) simp_all
  qed
qed

lemma tombstoned_rows:
  assumes "projected org reps db db1" "set (t_branches db') = tombstone org reps fin ` set (t_branches db1)"
  shows "b_ID ` set (t_branches db) \<subseteq> b_ID ` set (t_branches db')"
    and "b_OrgID r \<noteq> org \<Longrightarrow> b_ID r \<notin> fst ` set reps \<Longrightarrow> r \<in> set (t_branches db') \<longleftrightarrow> r \<in> set (t_branches db)"
    and "r \<in> set (t_branches db') \<Longrightarrow> b_ID r \<in> fst ` set reps \<Longrightarrow> b_OrgID r = org"
proof -
  have "b_ID r \<in> b_ID ` set (t_branches db1)" if "r \<in> set (t_branches db)" for r
  proof (cases "b_ID r \<in> fst ` set reps")
    case True
    then obtain c a where "(b_ID r, c, a) \<in> set reps" by force
    from projected_reported [OF assms(1) this] show ?thesis by (metis image_eqI)
  next
    case False
    then show ?thesis using assms(1) that unfolding projected_def by blast
  qed
  then show "b_ID ` set (t_branches db) \<subseteq> b_ID ` set (t_branches db')" unfolding assms(2) image_image by auto
  {
    assume r: "r \<in> set (t_branches db')" "b_ID r \<in> fst ` set reps"
    then obtain r1 c a where r1: "r = tombstone org reps fin r1" "r1 \<in> set (t_branches db1)" "(b_ID r1, c, a) \<in> set reps" unfolding assms(2) by auto
    show "b_OrgID r = org" using projected_row [OF assms(1) r1(2,3)] by (simp add: r1(1))
  }
  assume r: "b_OrgID r \<noteq> org" "b_ID r \<notin> fst ` set reps"
  have "r \<in> set (t_branches db') \<longleftrightarrow> r \<in> set (t_branches db1)"
    unfolding assms(2) using r(1) by (metis (no_types, lifting) image_iff tombstone_def tombstone_simps(2))
  then show "r \<in> set (t_branches db') \<longleftrightarrow> r \<in> set (t_branches db)" using assms(1) r(2) by (simp add: projected_def)
qed

text \<open>
  C36: A complete pass of the branch synchronisation makes the table a projection of the
  source. When the source serves its branches in pages, each branch once, and the rows in
  the table are older than the pass, then after a successful pass the active branches of
  the tenant are exactly the branches reported as active, with the codes reported; no row
  is lost; and rows of other organizations that are not reported stay as they are. A
  reported identifier is taken from whatever organization had it: its row then belongs to
  the tenant of the pass.
\<close>

theorem sync_pass_projects:
  assumes "serves U p H pages" "distinct (map fst (parsed U (concat pages)))" "parsed U (concat pages) \<noteq> []"
    and "distinct (map b_ID (t_branches db))" "\<forall>r \<in> set (t_branches db). \<forall>n. b_UpdatedAt r < pg_ts (clock n)"
    and "tick U p H clock fin db = Some (db', Inr k)"
  shows "(\<lambda>r. (b_ID r, b_BranchCode r)) ` {r \<in> set (t_branches db'). b_OrgID r = pc_OrgID (po_cfg p) \<and> b_Active r} =
      {(i, c). (i, c, True) \<in> set (parsed U (concat pages))} \<and>
    b_ID ` set (t_branches db) \<subseteq> b_ID ` set (t_branches db') \<and>
    (\<forall>r. b_OrgID r \<noteq> pc_OrgID (po_cfg p) \<and> b_ID r \<notin> fst ` set (parsed U (concat pages)) \<longrightarrow> (r \<in> set (t_branches db') \<longleftrightarrow> r \<in> set (t_branches db))) \<and>
    (\<forall>r \<in> set (t_branches db'). b_ID r \<in> fst ` set (parsed U (concat pages)) \<longrightarrow> b_OrgID r = pc_OrgID (po_cfg p))"
proof -
  let ?org = "pc_OrgID (po_cfg p)" and ?R = "parsed U (concat pages)"
  have ne: "0 < length pages" using assms(1) by (simp add: serves_def)
  have pages: "tick_pages U p H clock 1 (db, []) 0 = Some (write_pages U p clock 1 pages (db, []) 0)"
    using tick_pages_served [OF assms(1) ne] by simp
  obtain db1 seen n where w: "write_pages U p clock 1 pages (db, []) 0 = ((db1, seen), Inr n)"
    and d: "fst (deactivateAbsent p fin seen db1) = db'"
    using assms(6) pages by (auto simp: tick_def split: sum.splits prod.splits)
  have p: "projected ?org ?R db db1" "\<not> db_down db1" "set seen = fst ` set ?R"
    using write_pages_projects [OF w assms(4,2)] assms(5) ne by auto
  have "seen \<noteq> []" using p(3) assms(3) by (cases seen) auto
  then have "t_branches db' = sql_update (\<lambda>r. b_OrgID r = ?org \<and> b_Active r \<and> b_ID r \<notin> fst ` set ?R) (\<lambda>r. r\<lparr>b_Active := False, b_UpdatedAt := pg_ts fin\<rparr>) (t_branches db1)"
    using d p(2,3) by (auto simp: deactivateAbsent_def Let_def)
  then have "set (t_branches db') = tombstone ?org ?R fin ` set (t_branches db1)" by (simp only: set_sql_update tombstone_def [abs_def])
  note rows = this
  show ?thesis using tombstoned_active [OF p(1) rows] tombstoned_rows(1) [OF p(1) rows] tombstoned_rows(2,3) [OF p(1) rows]
    by (intro conjI allI impI ballI) simp_all
qed

section \<open>Ends, and failures\<close>

lemma upsert_items_keeps:
  assumes "upsert_items U now org items db seen k = (seen', Inr (db', k'))" "r \<in> set (t_branches db)" "b_ID r \<notin> fst ` set (parsed U items)"
  shows "r \<in> set (t_branches db')"
  using assms
proof (induction items arbitrary: db seen k)
  case (Cons item items)
  show ?case
  proof (cases "uuid_Parse U (bp_BranchID item)")
    case None
    then show ?thesis using Cons by simp
  next
    case (Some i)
    then obtain db1 where one: "upsert_branch now org i (bp_BranchCode item) (strings_EqualFold (bp_Status item) ''active'') db = Inr db1"
      and rest: "upsert_items U now org items db1 (List.insert i seen) (Suc k) = (seen', Inr (db', k'))"
      using Cons.prems(1) by (auto split: sum.splits)
    have "b_ID r \<noteq> i" using Cons.prems(3) Some by auto
    then have "r \<in> set (t_branches db1)" using one Cons.prems(2)
      by (auto simp: upsert_branch_def Let_def set_sql_update image_iff split: if_splits option.splits)
    then show ?thesis using Cons.IH [OF rest] Cons.prems(3) Some by auto
  qed
qed simp

lemma upsertBatch_keeps:
  assumes "upsertBatch U p now items st = (st', res)" "r \<in> set (t_branches (fst st))" "b_ID r \<notin> fst ` set (parsed U items)"
  shows "r \<in> set (t_branches (fst st'))"
  using assms upsert_items_keeps [of U now "pc_OrgID (po_cfg p)" items "fst st" "snd st" 0]
  by (auto simp: upsertBatch_def split: if_splits sum.splits prod.splits)

text \<open>The rows whose branch no page of the source reports.\<close>

definition unreported :: "uuid_pkg \<Rightarrow> Poller \<Rightarrow> (nat \<Rightarrow> http_client) \<Rightarrow> Branch \<Rightarrow> bool" where
  "unreported U p H r \<longleftrightarrow> (\<forall>n env. fetchPage U p (H n) n = Inr env \<longrightarrow> b_ID r \<notin> fst ` set (parsed U (ce_Data env)))"

lemma tick_pages_total:
  assumes bound: "\<And>n env. fetchPage U p (H n) n = Inr env \<Longrightarrow> ce_TotalPages env \<le> int N"
  shows "\<exists>st' res. tick_pages U p H clock page st k = Some (st', res) \<and> {r \<in> set (t_branches (fst st)). unreported U p H r} \<subseteq> set (t_branches (fst st'))"
proof (induction "N - page" arbitrary: page st k rule: less_induct)
  case less
  show ?case
  proof (cases "fetchPage U p (H page) page")
    case (Inl e)
    then show ?thesis by (subst tick_pages.simps) auto
  next
    case (Inr env)
    obtain st1 res where b: "upsertBatch U p (clock page) (ce_Data env) st = (st1, res)" by fastforce
    have keep: "{r \<in> set (t_branches (fst st)). unreported U p H r} \<subseteq> set (t_branches (fst st1))"
      using upsertBatch_keeps [OF b] Inr by (auto simp: unreported_def)
    have next_page: "\<exists>st' res. tick_pages U p H clock (Suc page) st1 k' = Some (st', res) \<and>
        {r \<in> set (t_branches (fst st1)). unreported U p H r} \<subseteq> set (t_branches (fst st'))" if "\<not> ce_TotalPages env \<le> int page" for k'
      using bound [OF Inr] that by (intro less) auto
    then have next_page': "\<exists>st' res. tick_pages U p H clock (Suc page) st1 k' = Some (st', res) \<and>
        {r \<in> set (t_branches (fst st)). unreported U p H r} \<subseteq> set (t_branches (fst st'))" if "\<not> ce_TotalPages env \<le> int page" for k'
      using that keep by blast
    show ?thesis
    proof (cases res)
      case (Inl e)
      then show ?thesis using Inr b keep by (subst tick_pages.simps) (cases st; cases st1; auto)
    next
      case (Inr n)
      then show ?thesis using \<open>fetchPage U p (H page) page = Inr env\<close> b keep next_page' by (subst tick_pages.simps) (cases st; cases st1; auto)
    qed
  qed
qed

text \<open>
  C37: A pass ends and a failing source cannot empty the table. When the numbers of pages the
  source names are bounded, the pass returns, whatever else the source answers and whatever
  the table holds; and when it returns with an error, every row whose branch was reported by
  no page is still there as it was, active if it was active.
\<close>

theorem sync_pass_ends:
  assumes "\<forall>n env. fetchPage U p (H n) n = Inr env \<longrightarrow> ce_TotalPages env \<le> int N"
  shows "\<exists>db' res. tick U p H clock fin db = Some (db', res) \<and>
    (is_ok res \<or> (\<forall>r \<in> set (t_branches db). unreported U p H r \<longrightarrow> r \<in> set (t_branches db')))"
proof -
  obtain st res where t: "tick_pages U p H clock 1 (db, []) 0 = Some (st, res)"
      "{r \<in> set (t_branches db). unreported U p H r} \<subseteq> set (t_branches (fst st))"
    using tick_pages_total [of U p H N clock 1 "(db, [])" 0] assms by auto
  have "t_branches (fst (deactivateAbsent p fin (snd st) (fst st))) = t_branches (fst st)" if "\<not> is_ok (snd (deactivateAbsent p fin (snd st) (fst st)))"
    using that by (auto simp: deactivateAbsent_def Let_def split: if_splits)
  then show ?thesis using t by (cases st; cases res) (auto simp: tick_def split: sum.splits prod.splits)
qed

section \<open>An instance\<close>

text \<open>A source with one page of two branches, one of them closed.\<close>

definition demo_items :: "branchProjectionItem list" where
  "demo_items = [\<lparr>bp_BranchID = uuid_String bits_uuid 5, bp_BranchCode = ''KC-1'', bp_Status = ''ACTIVE'', bp_UpdatedAt = []\<rparr>,
     \<lparr>bp_BranchID = uuid_String bits_uuid 6, bp_BranchCode = ''KC-2'', bp_Status = ''closed'', bp_UpdatedAt = []\<rparr>]"

definition demo_source :: http_client where
  "demo_source = \<lparr>hc_url_ok = (\<lambda>_. True), hc_Do = (\<lambda>rq. Inr
     (if hq_Method rq = ''POST'' then \<lparr>hr_StatusCode = 200, hr_Body = [], hr_envelope = None, hr_access_token = Some ''t''\<rparr>
      else \<lparr>hr_StatusCode = 200, hr_Body = [], hr_envelope = Some \<lparr>ce_Data = demo_items, ce_Total = 2, ce_Page = 1, ce_PerPage = 200, ce_TotalPages = 1\<rparr>,
            hr_access_token = None\<rparr>))\<rparr>"

definition demo_poller :: Poller where
  "demo_poller = NewPoller ((poller_DefaultConfig bits_uuid)\<lparr>pc_SourceURL := ''http://e'', pc_ClientID := ''c'', pc_OrgID := 1\<rparr>)"

definition demo_old_branch :: Branch where
  "demo_old_branch = \<lparr>b_ID = 9, b_OrgID = 1, b_BranchCode = ''KC-9'', b_Name = [], b_Active = True, b_UpdatedAt = 0\<rparr>"

definition demo_sync_db :: db where
  "demo_sync_db = db_empty\<lparr>t_organizations := [1], t_branches := [demo_old_branch]\<rparr>"

theorem sync_pass_projects_witness:
  "\<exists>db'. tick bits_uuid demo_poller (\<lambda>_. demo_source) (\<lambda>_. 5000) 6000 demo_sync_db = Some (db', Inr (2, 1)) \<and>
    (\<lambda>r. (b_ID r, b_BranchCode r)) ` {r \<in> set (t_branches db'). b_OrgID r = 1 \<and> b_Active r} = {(5, ''KC-1'')}"
proof -
  have p: "parsed bits_uuid (concat [demo_items]) = [(5, ''KC-1'', True), (6, ''KC-2'', False)]" by code_simp
  have f: "fetchPage bits_uuid demo_poller demo_source (Suc 0) = Inr \<lparr>ce_Data = demo_items, ce_Total = 2, ce_Page = 1, ce_PerPage = 200, ce_TotalPages = 1\<rparr>"
    by code_simp
  have s: "serves bits_uuid demo_poller (\<lambda>_. demo_source) [demo_items]" using f by (auto simp: serves_def demo_items_def)
  have t: "map_option snd (tick bits_uuid demo_poller (\<lambda>_. demo_source) (\<lambda>_. 5000) 6000 demo_sync_db) = Some (Inr (2, 1))" by code_simp
  then obtain db' where db': "tick bits_uuid demo_poller (\<lambda>_. demo_source) (\<lambda>_. 5000) 6000 demo_sync_db = Some (db', Inr (2, 1))" by auto
  have d: "pc_OrgID (po_cfg demo_poller) = 1" "distinct (map b_ID (t_branches demo_sync_db))" "list_all (\<lambda>r. b_UpdatedAt r < pg_ts 5000) (t_branches demo_sync_db)"
    by code_simp+
  have q: "distinct (map fst (parsed bits_uuid (concat [demo_items])))" "parsed bits_uuid (concat [demo_items]) \<noteq> []" unfolding p by simp_all
  have o: "\<forall>r \<in> set (t_branches demo_sync_db). \<forall>n. b_UpdatedAt r < pg_ts ((\<lambda>_. 5000) n)" using d(3) by (simp add: list_all_iff)
  note image = sync_pass_projects [OF s q d(2) o db', THEN conjunct1, unfolded p d(1)]
  have "(\<lambda>r. (b_ID r, b_BranchCode r)) ` {r \<in> set (t_branches db'). b_OrgID r = 1 \<and> b_Active r} = {(5, ''KC-1'')}" unfolding image by auto
  then show ?thesis using db' by (intro exI [of _ db'] conjI)
qed

theorem sync_pass_ends_witness:
  "\<exists>db' res. tick bits_uuid demo_poller (\<lambda>n. demo_source\<lparr>hc_Do := (\<lambda>_. Inl (External ''timeout''))\<rparr>) (\<lambda>_. 5000) 6000 demo_sync_db = Some (db', res) \<and>
    (is_ok res \<or> demo_old_branch \<in> set (t_branches db'))"
proof -
  have f: "fetchPage bits_uuid demo_poller (demo_source\<lparr>hc_Do := (\<lambda>_. Inl (External ''timeout''))\<rparr>) n \<noteq> Inr env" for n env
    by (simp add: fetchPage_def getM2MToken_def demo_source_def Let_def)
  then have "unreported bits_uuid demo_poller (\<lambda>n. demo_source\<lparr>hc_Do := (\<lambda>_. Inl (External ''timeout''))\<rparr>) demo_old_branch"
    by (simp only: unreported_def) blast
  moreover have "demo_old_branch \<in> set (t_branches demo_sync_db)" by (simp add: demo_sync_db_def)
  moreover have "\<forall>n env. fetchPage bits_uuid demo_poller (demo_source\<lparr>hc_Do := (\<lambda>_. Inl (External ''timeout''))\<rparr>) n = Inr env \<longrightarrow> ce_TotalPages env \<le> int 0"
    using f by blast
  ultimately show ?thesis
    using sync_pass_ends [of bits_uuid demo_poller "\<lambda>n. demo_source\<lparr>hc_Do := (\<lambda>_. Inl (External ''timeout''))\<rparr>" 0 "\<lambda>_. 5000" 6000 demo_sync_db]
    by blast
qed

end
