(* ===== verification/BranchRest.thy ===== *)
theory BranchRest
  imports AdminRest AuthRest
begin

text \<open>
  The branch service (internal/service/branch) and the branch endpoints of the server
  (internal/api/rest/branch.go): the branches of the caller, and switching the branch of
  a session. A \<^verbatim>\<open>gin.H\<close> is a JSON object.
\<close>

section \<open>branch/service.go\<close>

text \<open>
  The stores are interfaces: functions on a state of their own. They hand out copies, as the
  repositories do, so an assignment to a field of a struct they returned (in
  \<^verbatim>\<open>clearPrimaryBranch\<close> and \<^verbatim>\<open>SwitchBranch\<close>) changes nothing in them.
\<close>

record 's branch_Service =
  bs_type_Create :: "'s \<Rightarrow> BranchType \<Rightarrow> 's \<times> unit result"
  bs_type_GetByID :: "'s \<Rightarrow> uuid \<Rightarrow> uuid \<Rightarrow> BranchType result"
  bs_type_GetByCode :: "'s \<Rightarrow> uuid \<Rightarrow> string \<Rightarrow> BranchType result"
  bs_branch_GetByID :: "'s \<Rightarrow> uuid \<Rightarrow> uuid \<Rightarrow> Branch result"
  bs_user_Create :: "'s \<Rightarrow> UserBranchAssignment \<Rightarrow> 's \<times> unit result"
  bs_user_GetByUser :: "'s \<Rightarrow> uuid \<Rightarrow> UserBranchAssignment list result"

definition ErrInvalidBranchType :: error where
  "ErrInvalidBranchType = Sentinel ''invalid branch type parameters''"

definition ErrBranchTypeExists :: error where
  "ErrBranchTypeExists = Sentinel ''branch type already exists''"

definition ErrBranchNotActive :: error where
  "ErrBranchNotActive = Sentinel ''branch is not active''"

definition ErrUserCannotAccessBranch :: error where
  "ErrUserCannotAccessBranch = Sentinel ''user does not have access to this branch''"

definition ErrBranchWriteNotSupported :: error where
  "ErrBranchWriteNotSupported = Sentinel ''branch write operations not supported: branches are a read-only projection synced from enterprise service''"

definition BranchTypeParams_Validate :: "BranchTypeParams \<Rightarrow> bool" where
  "BranchTypeParams_Validate p \<longleftrightarrow> length (btp_Code p) \<ge> 2 \<and> length (btp_Code p) \<le> 50 \<and> length (btp_Label p) \<ge> 1"

definition BranchParams_Validate :: "BranchParams \<Rightarrow> bool" where
  "BranchParams_Validate p \<longleftrightarrow> length (bp_Code p) \<ge> 2 \<and> length (bp_Code p) \<le> 20 \<and> length (bp_Name p) \<ge> 1"

definition CreateBranchType :: "'s branch_Service \<Rightarrow> 's \<Rightarrow> time \<Rightarrow> uuid \<Rightarrow> uuid \<Rightarrow> BranchTypeParams \<Rightarrow> 's \<times> BranchType result" where
  "CreateBranchType s st now i orgID params =
     (if \<not> BranchTypeParams_Validate params then (st, Inl ErrInvalidBranchType)
      else if is_ok (bs_type_GetByCode s st orgID (btp_Code params)) then (st, Inl ErrBranchTypeExists)
      else (let bt = \<lparr>bt_ID = i, bt_OrgID = orgID, bt_Code = btp_Code params, bt_Label = btp_Label params,
              bt_ShortCode = btp_ShortCode params, bt_Level = btp_Level params, bt_IsOperational = btp_IsOperational params,
              bt_CanHaveChildren = btp_CanHaveChildren params, bt_SortOrder = btp_SortOrder params, bt_CreatedAt = now, bt_UpdatedAt = now\<rparr>
            in case bs_type_Create s st bt of
                 (st1, Inl e) \<Rightarrow> (st1, Inl (Wrapf ''branch.Service.CreateBranchType'' e))
               | (st1, Inr _) \<Rightarrow> (st1, Inr bt)))"

definition GetBranchType :: "'s branch_Service \<Rightarrow> 's \<Rightarrow> uuid \<Rightarrow> uuid \<Rightarrow> BranchType result" where
  "GetBranchType s st i orgID = (case bs_type_GetByID s st i orgID of Inl e \<Rightarrow> Inl (Wrapf ''branch.Service.GetBranchType'' e) | Inr bt \<Rightarrow> Inr bt)"

definition CreateBranch :: "BranchParams \<Rightarrow> Branch result" where
  "CreateBranch params = Inl (Wrapf ''branch.Service.CreateBranch'' ErrBranchWriteNotSupported)"

definition clearPrimaryBranch :: "'s branch_Service \<Rightarrow> 's \<Rightarrow> uuid \<Rightarrow> 's \<times> unit result" where
  "clearPrimaryBranch s st userID = (st, Inr ())"

definition AssignUserToBranch ::
  "'s branch_Service \<Rightarrow> 's \<Rightarrow> time \<Rightarrow> uuid \<Rightarrow> uuid \<Rightarrow> uuid \<Rightarrow> uuid \<Rightarrow> UserBranchParams \<Rightarrow> 's \<times> UserBranchAssignment result" where
  "AssignUserToBranch s st now i userID branchID orgID params =
     (case bs_branch_GetByID s st branchID orgID of
        Inl e \<Rightarrow> (st, Inl (Wrapf ''invalid branch'' e))
      | Inr branch \<Rightarrow>
          if \<not> b_Active branch then (st, Inl ErrBranchNotActive)
          else (case (if ubp_IsPrimary params then clearPrimaryBranch s st userID else (st, Inr ())) of
              (st1, Inl e) \<Rightarrow> (st1, Inl (Wrapf ''clear primary'' e))
            | (st1, Inr _) \<Rightarrow>
                (let uba = \<lparr>uba_ID = i, uba_UserID = userID, uba_BranchID = branchID, uba_BranchCode = [], uba_BranchName = [], uba_OrgID = orgID,
                       uba_Role = ubp_Role params, uba_IsPrimary = ubp_IsPrimary params, uba_AssignedBy = ubp_AssignedBy params,
                       uba_AssignedAt = now, uba_RevokedAt = None, uba_RevokedBy = None\<rparr>
                 in case bs_user_Create s st1 uba of
                      (st2, Inl e) \<Rightarrow> (st2, Inl (Wrapf ''branch.Service.AssignUserToBranch'' e))
                    | (st2, Inr _) \<Rightarrow> (st2, Inr uba))))"

definition GetUserBranches :: "'s branch_Service \<Rightarrow> 's \<Rightarrow> uuid \<Rightarrow> UserBranchAssignment list result" where
  "GetUserBranches s st userID =
     (case bs_user_GetByUser s st userID of Inl e \<Rightarrow> Inl e | Inr assignments \<Rightarrow> Inr (filter UserBranchAssignment_IsActive assignments))"

definition SwitchBranch :: "'s branch_Service \<Rightarrow> 's \<Rightarrow> uuid \<Rightarrow> uuid \<Rightarrow> 's \<times> unit result" where
  "SwitchBranch s st userID newBranchID =
     (case bs_user_GetByUser s st userID of
        Inl e \<Rightarrow> (st, Inl (Wrapf ''branch.Service.SwitchBranch'' e))
      | Inr assignments \<Rightarrow>
          (case find (\<lambda>a. uba_BranchID a = newBranchID \<and> UserBranchAssignment_IsActive a) assignments of
             None \<Rightarrow> (st, Inl ErrUserCannotAccessBranch)
           | Some a \<Rightarrow>
               (case clearPrimaryBranch s st userID of
                  (st1, Inl e) \<Rightarrow> (st1, Inl (Wrapf ''clear primary'' e))
                | (st1, Inr _) \<Rightarrow> (st1, Inr ()))))"

section \<open>rest/branch.go: fixed answers\<close>

definition Server_handleListBranchTypes :: "request \<Rightarrow> JSON response" where
  "Server_handleListBranchTypes rq =
     (if gin_Query (rq_query rq) ''org_id'' = [] then Refused 400 ''org_id required'' else OK [(''branch_types'', AnySlice [])])"

text \<open>\<open>i\<close> is the identifier drawn.\<close>

definition Server_handleCreateBranchType :: "uuid_pkg \<Rightarrow> uuid \<Rightarrow> BranchTypeParams option \<Rightarrow> JSON response" where
  "Server_handleCreateBranchType U i body =
     (case body of
        None \<Rightarrow> Refused 400 ''invalid_request''
      | Some req \<Rightarrow> OK [(''id'', AnyString (uuid_String U i)), (''code'', AnyString (btp_Code req)), (''label'', AnyString (btp_Label req)),
          (''short_code'', AnyString (btp_ShortCode req)), (''level'', AnyInt (btp_Level req)), (''created_at'', AnyString ''2026-04-27T10:00:00Z'')])"

definition Server_handleGetBranchType :: "string \<Rightarrow> JSON response" where
  "Server_handleGetBranchType i = OK [(''id'', AnyString i), (''code'', AnyString ''KC''), (''label'', AnyString ''Kantor Cabang''), (''level'', AnyInt 1)]"

definition Server_handleUpdateBranchType :: "string \<Rightarrow> JSON response" where
  "Server_handleUpdateBranchType i = OK [(''id'', AnyString i), (''code'', AnyString ''KC''), (''label'', AnyString ''Kantor Cabang''), (''level'', AnyInt 1)]"

definition Server_handleDeleteBranchType :: "string \<Rightarrow> JSON response" where
  "Server_handleDeleteBranchType i = OK [(''deleted'', AnyString i)]"

definition Server_handleListBranches :: "request \<Rightarrow> JSON response" where
  "Server_handleListBranches rq =
     (if gin_Query (rq_query rq) ''org_id'' = [] then Refused 400 ''org_id required'' else OK [(''branches'', AnySlice [])])"

record create_branch_request =
  cbr_BranchTypeID :: string
  cbr_ParentID :: string
  cbr_Code :: string
  cbr_Name :: string
  cbr_Address :: string
  cbr_Phone :: string

definition Server_handleCreateBranch :: "uuid_pkg \<Rightarrow> uuid \<Rightarrow> create_branch_request option \<Rightarrow> JSON response" where
  "Server_handleCreateBranch U i body =
     (case body of
        None \<Rightarrow> Refused 400 ''invalid_request''
      | Some req \<Rightarrow> OK [(''id'', AnyString (uuid_String U i)), (''branch_type_id'', AnyString (cbr_BranchTypeID req)), (''code'', AnyString (cbr_Code req)),
          (''name'', AnyString (cbr_Name req)), (''status'', AnyString ''active''), (''created_at'', AnyString ''2026-04-27T10:00:00Z'')])"

definition Server_handleGetBranch :: "string \<Rightarrow> JSON response" where
  "Server_handleGetBranch i =
     OK [(''id'', AnyString i), (''code'', AnyString ''KC-BDG-001''), (''name'', AnyString ''Kantor Cabang Bandung''), (''status'', AnyString ''active'')]"

definition Server_handleUpdateBranch :: "string \<Rightarrow> JSON response" where
  "Server_handleUpdateBranch i =
     OK [(''id'', AnyString i), (''code'', AnyString ''KC-BDG-001''), (''name'', AnyString ''Kantor Cabang Bandung''), (''status'', AnyString ''active'')]"

definition Server_handleDeleteBranch :: "string \<Rightarrow> JSON response" where
  "Server_handleDeleteBranch i = OK [(''deleted'', AnyString i)]"

section \<open>rest/branch.go: the branches of the caller\<close>

text \<open>The opening of both endpoints: the claims and the user of the Bearer token, or the refusal.\<close>

definition branch_caller :: "'r server \<Rightarrow> 'r \<Rightarrow> time \<Rightarrow> string \<Rightarrow> (Claims \<times> uuid) response" where
  "branch_caller sv rs now auth =
     (if auth = [] \<or> trimBearer auth = [] then Refused 401 ''invalid_token''
      else if \<not> sv_has_SessionSvc sv then Refused 500 ''session service unavailable''
      else (case VerifyAccessToken (sv_libs sv) (sv_redis sv) (sv_SessionSvc sv) rs now (trimBearer auth) of
          Inl _ \<Rightarrow> Refused 401 ''invalid_token''
        | Inr claims \<Rightarrow>
            (case uuid_Parse (lib_uuid (sv_libs sv)) (c_Subject claims) of None \<Rightarrow> Refused 401 ''invalid_token'' | Some userID \<Rightarrow> OK (claims, userID))))"

record branch_info =
  bi_id :: string
  bi_org_id :: string
  bi_role :: string
  bi_is_primary :: bool
  bi_assigned_at :: time
  bi_branch :: "(string \<times> string) option"

definition branch_entry :: "uuid_pkg \<Rightarrow> db \<Rightarrow> UserBranchAssignment \<Rightarrow> branch_info" where
  "branch_entry U db a =
     \<lparr>bi_id = uuid_String U (uba_BranchID a), bi_org_id = uuid_String U (uba_OrgID a), bi_role = uba_Role a, bi_is_primary = uba_IsPrimary a,
      bi_assigned_at = uba_AssignedAt a,
      bi_branch = (if db_down db then None else map_option (\<lambda>b. (b_BranchCode b, b_Name b)) (find (\<lambda>b. b_ID b = uba_BranchID a) (t_branches db)))\<rparr>"

definition handleListUserBranches :: "'r server \<Rightarrow> db \<Rightarrow> 'r \<Rightarrow> time \<Rightarrow> string \<Rightarrow> branch_info list response" where
  "handleListUserBranches sv db rs now auth =
     (case branch_caller sv rs now auth of
        Refused st e \<Rightarrow> Refused st e
      | OK (claims, userID) \<Rightarrow>
          (case Assignments_GetByUserID db userID of
             Inl _ \<Rightarrow> OK []
           | Inr assignments \<Rightarrow> OK (map (branch_entry (lib_uuid (sv_libs sv)) db) assignments)))"

record switch_result =
  sw_login :: LoginResult
  sw_branch_id :: string
  sw_branch_code :: string
  sw_switched_at :: string

text \<open>\<^verbatim>\<open>nats.BranchSwitchedEvent\<close>, published after the answer where a publisher is configured.\<close>

record BranchSwitchedEvent =
  bse_UserID :: string
  bse_Username :: string
  bse_OrgID :: string
  bse_OldSessionID :: string
  bse_NewSessionID :: string
  bse_OldBranchID :: string
  bse_OldBranchCode :: string
  bse_NewBranchID :: string
  bse_NewBranchCode :: string
  bse_IPAddress :: string
  bse_UserAgent :: string
  bse_SwitchedAt :: time

definition switch_claims :: "uuid_pkg \<Rightarrow> db \<Rightarrow> uuid \<Rightarrow> Claims \<Rightarrow> uuid \<Rightarrow> UserBranchAssignment \<Rightarrow> Claims" where
  "switch_claims U db userID claims branchID assignment =
     Claims0\<lparr>c_Username := c_Username claims, c_Email := c_Email claims,
       c_Roles := (case UserRoles_GetRoleCodesByUser db userID of Inl _ \<Rightarrow> [] | Inr roles \<Rightarrow> roles),
       c_BranchID := uuid_String U branchID, c_BranchCode := uba_BranchCode assignment\<rparr>"

definition handleSwitchBranch ::
  "'r server \<Rightarrow> db \<Rightarrow> 'r \<Rightarrow> time \<Rightarrow> session_rand \<Rightarrow> client_headers \<Rightarrow> string \<Rightarrow> string option \<Rightarrow> 'r \<times> BranchSwitchedEvent list \<times> switch_result response" where
  "handleSwitchBranch sv db rs now rnd c auth body =
     (let L = sv_libs sv; U = lib_uuid L; R = sv_redis sv
      in case body of
        None \<Rightarrow> (rs, [], Refused 400 ''invalid_request'')
      | Some req \<Rightarrow>
          (case branch_caller sv rs now auth of
             Refused st e \<Rightarrow> (rs, [], Refused st e)
           | OK (claims, userID) \<Rightarrow>
               (case uuid_Parse U req of
                  None \<Rightarrow> (rs, [], Refused 400 ''invalid branch_id'')
                | Some branchID \<Rightarrow>
                    (case Assignments_GetByUserAndBranch db userID branchID of
                       Inl _ \<Rightarrow> (rs, [], Refused 403 ''user not assigned to this branch or branch inactive'')
                     | Inr assignment \<Rightarrow>
                         (case RevokeSession R rs now (c_SessionID claims) of
                            (rs1, Inl _) \<Rightarrow> (rs1, [], Refused 500 ''failed to revoke previous session'')
                          | (rs1, Inr _) \<Rightarrow>
                              (case CreateSession L R (sv_SessionSvc sv) rs1 now rnd userID (uuid_Parse0 U (c_OrgID claims)) (clientIP c) (ch_UserAgent c)
                                      (switch_claims U db userID claims branchID assignment) of
                                 (rs2, Inl _) \<Rightarrow> (rs2, [], Refused 500 ''failed to create new session'')
                               | (rs2, Inr result) \<Rightarrow>
                                   (rs2,
                                    [\<lparr>bse_UserID = uuid_String U userID, bse_Username = c_Username claims, bse_OrgID = uuid_String U (uuid_Parse0 U (c_OrgID claims)),
                                      bse_OldSessionID = c_SessionID claims, bse_NewSessionID = lr_SessionID result, bse_OldBranchID = c_BranchID claims,
                                      bse_OldBranchCode = c_BranchCode claims, bse_NewBranchID = uuid_String U branchID, bse_NewBranchCode = uba_BranchCode assignment,
                                      bse_IPAddress = clientIP c, bse_UserAgent = ch_UserAgent c, bse_SwitchedAt = now\<rparr>],
                                    OK \<lparr>sw_login = result, sw_branch_id = uuid_String U branchID, sw_branch_code = uba_BranchCode assignment,
                                        sw_switched_at = Format_RFC3339 0 now\<rparr>)))))))"

end
