(* ===== verification/BranchProps.thy ===== *)
theory BranchProps
  imports BranchRest AuthProps OAuth2Props
begin

text \<open>
  What the branch switch does (POST /v1/auth/switch-branch, internal/api/rest/branch.go): which
  assignments it accepts, what becomes of the old session and what the new token says.
\<close>

text \<open>The assignments switching looks at: revoked ones count.\<close>

definition switchable :: "db \<Rightarrow> uuid \<Rightarrow> uuid \<Rightarrow> bool" where
  "switchable db u b \<longleftrightarrow> (\<exists>a \<in> set (t_user_branch_assignments db). uba_UserID a = u \<and> uba_BranchID a = b) \<and> (\<exists>r \<in> set (t_branches db). b_ID r = b \<and> b_Active r)"

lemma switchable_query:
  assumes "\<not> db_down db"
  shows "switchable db u b \<longleftrightarrow> is_ok (Assignments_GetByUserAndBranch db u b)"
proof -
  have "switchable db u b \<longleftrightarrow> (\<exists>x \<in> set (join_branches db). case x of (a, r) \<Rightarrow> uba_UserID a = u \<and> uba_BranchID a = b \<and> b_Active r)"
  proof
    assume "switchable db u b"
    then obtain a r where "a \<in> set (t_user_branch_assignments db)" "uba_UserID a = u" "uba_BranchID a = b" "r \<in> set (t_branches db)" "b_ID r = b" "b_Active r"
      unfolding switchable_def by blast
    then have "(a\<lparr>uba_BranchCode := b_BranchCode r, uba_BranchName := b_Name r\<rparr>, r) \<in> set (join_branches db)"
      unfolding join_branches_def by (simp only: set_concat set_map image_image UN_iff set_filter) (rule bexI [of _ a]; simp)
    then show "\<exists>x \<in> set (join_branches db). case x of (a, r) \<Rightarrow> uba_UserID a = u \<and> uba_BranchID a = b \<and> b_Active r"
      by (rule bexI [rotated]) (simp add: \<open>uba_UserID a = u\<close> \<open>uba_BranchID a = b\<close> \<open>b_Active r\<close>)
  next
    assume "\<exists>x \<in> set (join_branches db). case x of (a, r) \<Rightarrow> uba_UserID a = u \<and> uba_BranchID a = b \<and> b_Active r"
    then show "switchable db u b" unfolding join_branches_def switchable_def by auto
  qed
  also have "\<dots> \<longleftrightarrow> filter (\<lambda>(a, r). uba_UserID a = u \<and> uba_BranchID a = b \<and> b_Active r) (join_branches db) \<noteq> []"
    by (auto simp: filter_empty_conv)
  finally show ?thesis using assms by (auto simp: Assignments_GetByUserAndBranch_def pg_QueryRow_def split: list.splits)
qed

text \<open>
  C38: Switching the branch of a session. A caller with a verified token is refused, and
  nothing changes, unless an assignment of the user to the branch exists, revoked or not,
  and the branch is active. Otherwise the old session is gone, its access tokens are
  refused for eight hours, and the new access token verifies for its lifetime, for the
  same user and with the branch asked for. The token is all that is asked for: no password.
\<close>

theorem switch_branch_effect:
  assumes redis: "redis_server (sv_redis sv) up kv smem" and inv: "session_inv up kv smem rs now" and ttl: "0 < ses_ttl (sv_SessionSvc sv)"
    and lib: "jwt_library (lib_jwt (sv_libs sv)) key_ok" and wf: "rkm_wf (js_keyManager (ses_jwt (sv_SessionSvc sv)))"
    and key: "ActiveKey (js_keyManager (ses_jwt (sv_SessionSvc sv))) = Some km" "key_ok (km_privateKey km)"
    and caller: "branch_caller sv rs now auth = OK (cl, u)" "uuid_Parse (lib_uuid (sv_libs sv)) req = Some b" "\<not> db_down db"
    and fresh: "uuid_String (lib_uuid (sv_libs sv)) (rnd_session rnd) \<noteq> c_SessionID cl"
    and run: "handleSwitchBranch sv db rs now rnd c auth (Some req) = (rs', ev, r)"
  shows "if switchable db u b
    then (\<exists>res. r = OK res \<and> (\<forall>t \<ge> now. Store_Get (sv_redis sv) rs' t (c_SessionID cl) = Inr None) \<and>
      (\<forall>t tok cl'. now \<le> t \<and> t < now + 8 * time_Hour \<and> jwt_VerifyAccessToken (lib_jwt (sv_libs sv)) (ses_jwt (sv_SessionSvc sv)) t tok = Inr cl' \<and>
         c_SessionID cl' = c_SessionID cl \<longrightarrow> VerifyAccessToken (sv_libs sv) (sv_redis sv) (sv_SessionSvc sv) rs' t tok = Inl (Errorf ''session revoked'')) \<and>
      (\<forall>t. now \<le> t \<and> t < (now + js_tokenTTL (ses_jwt (sv_SessionSvc sv))) div time_Second * time_Second \<and>
         IsSessionRevoked (sv_redis sv) rs t (lr_SessionID (sw_login res)) = Inr False \<longrightarrow>
         (\<exists>cl'. VerifyAccessToken (sv_libs sv) (sv_redis sv) (sv_SessionSvc sv) rs' t (lr_AccessToken (sw_login res)) = Inr cl' \<and>
            c_Subject cl' = uuid_String (lib_uuid (sv_libs sv)) u \<and> c_BranchID cl' = uuid_String (lib_uuid (sv_libs sv)) b)))
    else r = Refused 403 ''user not assigned to this branch or branch inactive'' \<and> rs' = rs"
proof (cases "switchable db u b")
  case False
  then obtain e where "Assignments_GetByUserAndBranch db u b = Inl e"
    using switchable_query [OF caller(3)] by (cases "Assignments_GetByUserAndBranch db u b") auto
  then show ?thesis using False run caller(1,2) by (simp add: handleSwitchBranch_def Let_def)
next
  case True
  let ?L = "sv_libs sv" and ?R = "sv_redis sv" and ?s = "sv_SessionSvc sv"
  let ?U = "lib_uuid ?L"
  obtain a where a: "Assignments_GetByUserAndBranch db u b = Inr a"
    using True switchable_query [OF caller(3)] by (cases "Assignments_GetByUserAndBranch db u b") auto
  define rs1 where "rs1 = fst (RevokeSession ?R rs now (c_SessionID cl))"
  note rev = redis_server.RevokeSession_ok [OF redis inv, where i = "c_SessionID cl", folded rs1_def]
  define ncl where "ncl = switch_claims ?U db u cl b a"
  let ?g = "uuid_Parse0 ?U (c_OrgID cl)"
  obtain rs2 tok acc where cs: "CreateSession ?L ?R ?s rs1 now rnd u ?g (clientIP c) (ch_UserAgent c) ncl =
      (rs2, Inr \<lparr>lr_AccessToken = tok, lr_RefreshToken = GenerateRefreshToken (rnd_bytes rnd), lr_ExpiresIn = 900,
        lr_SessionID = uuid_String ?U (rnd_session rnd), lr_UserID = u, lr_OrgID = ?g\<rparr>)"
    and issue: "IssueAccessToken ?U (lib_jwt ?L) (ses_jwt ?s) now (uuid_String ?U (rnd_jti rnd)) (uuid_String ?U (rnd_session rnd)) u ?g ncl = Inr (tok, acc)"
    and inv2: "session_inv up kv smem rs2 now"
    and view2: "\<forall>t \<ge> now. v_sess (view_of kv smem rs2 t) = (v_sess (view_of kv smem rs1 t))
       (uuid_String ?U (rnd_session rnd) := held (t < now + ses_ttl ?s) (stored_session (ses_ttl ?s) now [] (new_session ?L rnd u ?g (clientIP c) (ch_UserAgent c) ncl)))"
      "\<forall>t \<ge> now. v_rev (view_of kv smem rs2 t) = v_rev (view_of kv smem rs1 t)"
    by (rule redis_server.CreateSession_view [OF redis rev(2) ttl lib key, where rnd = rnd and u = u
        and g = ?g and ip = "clientIP c" and ua = "ch_UserAgent c" and cl = ncl])
  have verify: "jwt_VerifyAccessToken (lib_jwt ?L) (ses_jwt ?s) t tok = Inr (access_claims ?U (lib_jwt ?L)
      (ses_jwt ?s) now (uuid_String ?U (rnd_jti rnd)) (uuid_String ?U (rnd_session rnd)) u ?g ncl)"
    if "t < (now + js_tokenTTL (ses_jwt ?s)) div time_Second * time_Second" for t
    using jwt_library.verify_issued_by [OF lib issue key(1) ActiveKey_stored [OF wf key(1), THEN conjunct1] refl that] .
  have out: "rs' = rs2" "\<exists>res. r = OK res \<and> sw_login res = \<lparr>lr_AccessToken = tok, lr_RefreshToken = GenerateRefreshToken (rnd_bytes rnd), lr_ExpiresIn = 900,
        lr_SessionID = uuid_String ?U (rnd_session rnd), lr_UserID = u, lr_OrgID = ?g\<rparr>"
    using run rev(1) caller(1,2) a cs by (auto simp: handleSwitchBranch_def Let_def rs1_def ncl_def split: prod.splits sum.splits)
  have inv_t: "session_inv up kv smem rs t" "session_inv up kv smem rs2 t" if "now \<le> t" for t
    using session_inv_later [OF inv that] session_inv_later [OF inv2 that] by simp_all
  note reads = redis_server.Store_Get_view [OF redis inv_t(2)] redis_server.VerifyAccessToken_view [OF redis inv_t(2)] redis_server.IsSessionRevoked_view [OF redis inv_t(1)]
  obtain res where res: "r = OK res" "sw_login res = \<lparr>lr_AccessToken = tok, lr_RefreshToken = GenerateRefreshToken (rnd_bytes rnd), lr_ExpiresIn = 900,
        lr_SessionID = uuid_String ?U (rnd_session rnd), lr_UserID = u, lr_OrgID = ?g\<rparr>" using out(2) by blast
  show ?thesis using True unfolding out(1) res(1)
    by (auto simp: reads view2 rev(3) verify access_claims_fields fresh [symmetric] fresh res(2) ncl_def switch_claims_def intro!: exI [of _ res])
qed

section \<open>An instance\<close>

text \<open>A user whose assignment to an active branch was revoked.\<close>

definition demo_switch_db :: db where
  "demo_switch_db = db_empty\<lparr>t_branches := [\<lparr>b_ID = 3, b_OrgID = 1, b_BranchCode = ''B3'', b_Name = [], b_Active = True, b_UpdatedAt = 0\<rparr>],
     t_user_branch_assignments := [\<lparr>uba_ID = 4, uba_UserID = 5, uba_BranchID = 3, uba_BranchCode = [], uba_BranchName = [], uba_OrgID = 1, uba_Role = [],
       uba_IsPrimary = True, uba_AssignedBy = 9, uba_AssignedAt = 0, uba_RevokedAt = Some 0, uba_RevokedBy = Some 9\<rparr>]\<rparr>"

lemma demo_caller:
  obtains tok cl where "branch_caller demo_server [] 1 (''Bearer '' @ tok) = OK (cl, 5)" "c_SessionID cl = ''s1''"
proof -
  obtain tok acc where iss: "IssueAccessToken bits_uuid field_jwt demo_jwt 0 ''t'' ''s1'' 5 1 Claims0 = Inr (tok, acc)"
    using field_jwt.issue_ok [OF demo_jwt_key TrueI] by blast
  let ?cl = "access_claims bits_uuid field_jwt demo_jwt 0 ''t'' ''s1'' 5 1 Claims0"
  have ver: "jwt_VerifyAccessToken field_jwt demo_jwt 1 tok = Inr ?cl"
    by (rule field_jwt.verify_issued_by [OF iss demo_jwt_key ActiveKey_stored [OF demo_jwt_wf demo_jwt_key, THEN conjunct1] refl])
      (simp add: demo_jwt_def jwt_NewService_def)
  have ne: "tok \<noteq> []" using iss by (auto simp: IssueAccessToken_def field_jwt_def field_sign_def pack_def split: option.splits sum.splits)
  have "VerifyAccessToken demo_libs mem_redis demo_sessions [] 1 tok = Inr ?cl"
    by (simp add: mem.VerifyAccessToken_view [OF mem_empty_inv] ver) (simp add: view_of_def mem_read_defs)
  then have "branch_caller demo_server [] 1 (''Bearer '' @ tok) = OK (?cl, 5)"
    using ne by (simp add: branch_caller_def trimBearer_def demo_server_def access_claims_fields bits_uuid.parse_string)
  from that [OF this] show thesis by (simp add: access_claims_fields)
qed

theorem switch_branch_effect_witness:
  "\<exists>tok rs' ev res. handleSwitchBranch demo_server demo_switch_db [] 1 (SessionProps.demo_rand 7) \<lparr>ch_XForwardedFor = [], ch_XRealIP = [], ch_ClientIP = ''10.0.0.1'', ch_UserAgent = []\<rparr>
     (''Bearer '' @ tok) (Some (uuid_String bits_uuid 3)) = (rs', ev, OK res) \<and> Store_Get mem_redis rs' 1 ''s1'' = Inr None"
proof -
  obtain tok cl where c: "branch_caller demo_server [] 1 (''Bearer '' @ tok) = OK (cl, 5)" "c_SessionID cl = ''s1''" by (rule demo_caller)
  let ?run = "handleSwitchBranch demo_server demo_switch_db [] 1 (SessionProps.demo_rand 7) \<lparr>ch_XForwardedFor = [], ch_XRealIP = [], ch_ClientIP = ''10.0.0.1'', ch_UserAgent = []\<rparr> (''Bearer '' @ tok) (Some (uuid_String bits_uuid 3))"
  obtain rs' ev r where run: "?run = (rs', ev, r)" by (metis prod_cases3)
  have sv: "sv_redis demo_server = mem_redis" "sv_libs demo_server = demo_libs" "sv_SessionSvc demo_server = demo_sessions" by (simp_all add: demo_server_def)
  have db: "\<not> db_down demo_switch_db" "switchable demo_switch_db 5 3" by (simp_all add: demo_switch_db_def db_empty_def switchable_def)
  have ne: "uuid_String bits_uuid 7 \<noteq> ''s1''" by code_simp
  note step = switch_branch_effect [where sv = demo_server and key_ok = "\<lambda>_. True" and db = demo_switch_db and u = 5 and b = 3, unfolded sv demo_simps,
    OF mem.redis_server_axioms mem_empty_inv _ field_jwt.jwt_library_axioms demo_jwt_wf demo_jwt_key TrueI c(1) bits_uuid.parse_string db(1) _ run]
  have "\<exists>res. r = OK res \<and> Store_Get mem_redis rs' 1 ''s1'' = Inr None"
    using step ne c(2) db(2) by (auto simp: demo_sessions_def)
  then show ?thesis using run by blast
qed

end
