(* ===== verification/PolicyEvents.thy ===== *)
theory PolicyEvents
  imports TimeWindow BranchSync
begin

text \<open>
  The operating hours from the policy service to a decision: the configuration
  (pkg/config/config.go, \<^verbatim>\<open>Policy7Config\<close>), the HTTP client of the policy service
  (internal/policy7client), the wiring of the evaluator (cmd/server/start.go) and the
  handlers of its change events (internal/messaging/nats/policy\_handler.go), which drop
  entries of the cache. The HTTP client is a parameter on a state of its own; a response
  is its status and the first JSON value of its body, \<open>None\<close> if it has none. An event is
  what \<^verbatim>\<open>json.Unmarshal\<close> makes of the message, \<open>None\<close> where it fails.
\<close>

section \<open>pkg/config/config.go\<close>

record Policy7Config =
  p7_Enabled :: bool
  p7_APIURL :: string
  p7_ServiceID :: string
  p7_APIKey :: string
  p7_ParamName :: string
  p7_DefaultTimezone :: string
  p7_TimeGatedPermissions :: "string list"
  p7_FailOpen :: bool

definition ParamNameOrDefault :: "Policy7Config \<Rightarrow> string" where
  "ParamNameOrDefault c = (if p7_ParamName c \<noteq> [] then p7_ParamName c else ''teller_operating_hours'')"

definition DefaultTimezoneOrFallback :: "Policy7Config \<Rightarrow> string" where
  "DefaultTimezoneOrFallback c = (if p7_DefaultTimezone c \<noteq> [] then p7_DefaultTimezone c else ''Asia/Jakarta'')"

section \<open>policy7client/fetcher.go\<close>

record Fetcher =
  fe_baseURL :: string
  fe_serviceID :: string
  fe_apiKey :: string
  fe_paramName :: string

definition policy7client_New :: "string \<Rightarrow> string \<Rightarrow> string \<Rightarrow> string \<Rightarrow> Fetcher" where
  "policy7client_New baseURL serviceID apiKey paramName =
     \<lparr>fe_baseURL = baseURL, fe_serviceID = serviceID, fe_apiKey = apiKey, fe_paramName = paramName\<rparr>"

record policy_response =
  pr_StatusCode :: int
  pr_Body :: "any option"

record 'p policy_http =
  ph_url_ok :: "string \<Rightarrow> bool"
  ph_Do :: "http_request \<Rightarrow> 'p \<Rightarrow> 'p \<times> policy_response result"

text \<open>
  Decoding into \<^verbatim>\<open>struct{Data struct{Value json.RawMessage}}\<close>: the value is \<open>None\<close> while the raw
  message is empty; \<^verbatim>\<open>null\<close> leaves the inner struct alone but is a raw message.
\<close>

fun env_value :: "(string \<times> any) list \<Rightarrow> any option \<Rightarrow> any option" where
  "env_value [] v = v"
| "env_value ((k, x) # ms) v = env_value ms (if strings_EqualFold k ''value'' then Some x else v)"

fun env_data :: "(string \<times> any) list \<Rightarrow> any option \<Rightarrow> any option option" where
  "env_data [] v = Some v"
| "env_data ((k, x) # ms) v =
     (if strings_EqualFold k ''data''
      then (case x of AnyNil \<Rightarrow> env_data ms v | AnyMap inner \<Rightarrow> env_data ms (env_value inner v) | _ \<Rightarrow> None)
      else env_data ms v)"

definition decode_envelope :: "any option \<Rightarrow> any option option" where
  "decode_envelope body =
     (case body of Some AnyNil \<Rightarrow> Some None | Some (AnyMap ms) \<Rightarrow> env_data ms None | _ \<Rightarrow> None)"

definition FetchOperationalHours :: "'p policy_http \<Rightarrow> Fetcher \<Rightarrow> string \<Rightarrow> string \<Rightarrow> string \<Rightarrow> 'p \<Rightarrow> 'p \<times> any result" where
  "FetchOperationalHours client f orgID roleID branchID p =
     (let path = fe_baseURL f @ ''/v1/params/'' @ ''operational_hours'' @ ''/'' @ fe_paramName f @ ''/effective''
      in if \<not> ph_url_ok client path then (p, Inl (Wrapf ''policy7client.Fetcher.FetchOperationalHours: build request'' url_error))
         else (case ph_Do client \<lparr>hq_Method = ''GET'', hq_URL = path,
               hq_Header = [(''X-Service-ID'', fe_serviceID f), (''X-API-Key'', fe_apiKey f), (''X-Org-ID'', orgID)], hq_Body = []\<rparr> p of
             (p', Inl e) \<Rightarrow> (p', Inl (Wrapf ''policy7client.Fetcher.FetchOperationalHours: do request'' e))
           | (p', Inr resp) \<Rightarrow>
               if pr_StatusCode resp \<noteq> 200
               then (p', Inl (Errorf (''policy7client.Fetcher.FetchOperationalHours: unexpected status code: '' @ strconv_Itoa (pr_StatusCode resp))))
               else (case decode_envelope (pr_Body resp) of
                   None \<Rightarrow> (p', Inl (Wrapf ''policy7client.Fetcher.FetchOperationalHours: decode envelope'' json_error))
                 | Some None \<Rightarrow> (p', Inl (Errorf ''policy7client.Fetcher.FetchOperationalHours: empty parameter value''))
                 | Some (Some v) \<Rightarrow> (p', Inr v))))"

section \<open>cmd/server/start.go\<close>

text \<open>The cache lives for five minutes; the evaluator exists only where it is enabled.\<close>

definition start_opaCache :: "OperationalHours cache" where
  "start_opaCache = NewCache (5 * time_Minute)"

definition start_timeWindow :: "'p policy_http \<Rightarrow> tz_db \<Rightarrow> uuid_pkg \<Rightarrow> Policy7Config \<Rightarrow> 'p TimeWindowEvaluator option" where
  "start_timeWindow client tzdb U cfg =
     (if p7_Enabled cfg
      then (let fetcher = policy7client_New (p7_APIURL cfg) (p7_ServiceID cfg) (p7_APIKey cfg) (ParamNameOrDefault cfg)
            in Some \<lparr>ev_fetch = FetchOperationalHours client fetcher, ev_tz = tzdb, ev_uuid = U,
                 ev_defaultTZ = DefaultTimezoneOrFallback cfg, ev_failOpen = p7_FailOpen cfg\<rparr>)
      else None)"

section \<open>messaging/nats/policy\_events.go and policy\_handler.go\<close>

record PolicyParamUpdatedEvent =
  pu_OrgID :: string
  pu_ParameterName :: string
  pu_ParameterType :: string
  pu_UpdatedBy :: string
  pu_UpdatedAt :: time

record PolicyParamDeletedEvent =
  pd_OrgID :: string
  pd_ParameterName :: string
  pd_ParameterType :: string
  pd_DeletedBy :: string
  pd_DeletedAt :: time

definition HandleParamUpdated :: "'v cache \<Rightarrow> PolicyParamUpdatedEvent option \<Rightarrow> 'v cache \<times> unit result" where
  "HandleParamUpdated cache data =
     (case data of
        None \<Rightarrow> (cache, Inl (Wrapf ''messaging.HandleParamUpdated: unmarshal event'' json_error))
      | Some event \<Rightarrow> (InvalidateByPrefix cache (''opa:'' @ pu_OrgID event @ '':'' @ pu_ParameterName event), Inr ()))"

definition HandleParamDeleted :: "'v cache \<Rightarrow> PolicyParamDeletedEvent option \<Rightarrow> 'v cache \<times> unit result" where
  "HandleParamDeleted cache data =
     (case data of
        None \<Rightarrow> (cache, Inl (Wrapf ''messaging.HandleParamDeleted: unmarshal event'' json_error))
      | Some event \<Rightarrow> (InvalidateByPrefix cache (''opa:'' @ pd_OrgID event @ '':''), Inr ()))"

section \<open>Which events reach a decision\<close>

text \<open>Every UUID prints to a text of the same length.\<close>

locale uuid_fixed = uuid_format +
  assumes string_length: "length (uuid_String U u) = length (uuid_String U v)"
begin

lemma string_nonempty [simp]: "uuid_String U u \<noteq> []"
proof
  assume "uuid_String U u = []"
  then have "uuid_String U v = uuid_String U u" for v using string_length [of v u] by simp
  from this [of "u + 1"] show False by simp
qed

lemma key_prefix:
  "prefix (''opa:'' @ uuid_String U g @ '':'' @ n) (cacheKey (uuid_String U o') (uuid_String U b)) \<longleftrightarrow>
     g = o' \<and> prefix n (''operational_hours:'' @ uuid_String U b)"
proof -
  have split: "prefix (uuid_String U g @ xs) (uuid_String U o' @ ys) \<longleftrightarrow> g = o' \<and> prefix xs ys" for xs ys
    unfolding prefix_def using string_length [of g o'] by (auto simp: append_eq_append_conv)
  show ?thesis using split by (simp add: cacheKey_def)
qed

end

interpretation bits_uuid: uuid_fixed bits_uuid
  by unfold_locales (simp add: bits_uuid_def)

lemma opa_Get_InvalidateByPrefix: "opa_Get t (InvalidateByPrefix c p) k = (if prefix p k then None else opa_Get t c k)"
  using map_of_filter_key [of "\<lambda>k. \<not> prefix p k" "ca_entries c" k] by (simp add: opa_Get_def InvalidateByPrefix_def)

text \<open>A decision depends on the cache through one entry only.\<close>

lemma TimeWindow_Evaluate_key:
  assumes "opa_Get t c (cacheKey (uuid_String (ev_uuid e) (actx_OrgID ctx)) (uuid_String (ev_uuid e) (actx_BranchID ctx))) =
      opa_Get t c' (cacheKey (uuid_String (ev_uuid e) (actx_OrgID ctx)) (uuid_String (ev_uuid e) (actx_BranchID ctx)))"
  shows "snd (TimeWindow_Evaluate e t c p ctx) = snd (TimeWindow_Evaluate e t c' p ctx)"
proof -
  have "snd (operationalHours e t c p ctx) = snd (operationalHours e t c' p ctx)"
    using assms by (simp add: operationalHours_def GetOrFetch_def Let_def split: option.splits prod.splits sum.splits)
  then show ?thesis
    by (cases "operationalHours e t c p ctx"; cases "operationalHours e t c' p ctx")
      (simp add: TimeWindow_Evaluate_def split: sum.splits option.splits prod.splits)
qed

lemma opa_Get_NewCache [simp]: "opa_Get t (NewCache d) k = None"
  by (simp add: opa_Get_def NewCache_def)

text \<open>
  C39: Which changes of the policy service reach a decision on operating hours at once. After
  an event of an organization, a decision is made as with an empty cache, by asking the
  policy service, exactly if it is for that organization and the event is a deletion, or
  an update whose parameter name starts the text \<^verbatim>\<open>operational_hours:<branch>\<close>; other
  decisions are made as before. So an update of the parameter the evaluator asks for by
  default (\<^verbatim>\<open>teller_operating_hours\<close>) changes no decision while the entry lives.
\<close>

theorem policy_events_reach_hours:
  assumes fmt: "uuid_fixed U" and win: "start_timeWindow client tzdb U cfg = Some e"
    and upd: "pu_OrgID ev = uuid_String U g" and del: "pd_OrgID ev' = uuid_String U g"
  shows "snd (TimeWindow_Evaluate e t (fst (HandleParamUpdated c (Some ev))) p ctx) =
      snd (TimeWindow_Evaluate e t
        (if actx_OrgID ctx = g \<and> prefix (pu_ParameterName ev) (''operational_hours:'' @ uuid_String U (actx_BranchID ctx)) then NewCache d else c) p ctx) \<and>
    snd (TimeWindow_Evaluate e t (fst (HandleParamDeleted c (Some ev'))) p ctx) =
      snd (TimeWindow_Evaluate e t (if actx_OrgID ctx = g then NewCache d else c) p ctx) \<and>
    (p7_ParamName cfg = [] \<and> pu_ParameterName ev = ParamNameOrDefault cfg \<longrightarrow>
      snd (TimeWindow_Evaluate e t (fst (HandleParamUpdated c (Some ev))) p ctx) = snd (TimeWindow_Evaluate e t c p ctx))"
proof -
  have U: "ev_uuid e = U" using win by (auto simp: start_timeWindow_def Let_def split: if_splits)
  note key = uuid_fixed.key_prefix [OF fmt]
  have u: "snd (TimeWindow_Evaluate e t (fst (HandleParamUpdated c (Some ev))) p ctx) =
      snd (TimeWindow_Evaluate e t
        (if actx_OrgID ctx = g \<and> prefix (pu_ParameterName ev) (''operational_hours:'' @ uuid_String U (actx_BranchID ctx)) then NewCache d else c) p ctx)"
    by (rule TimeWindow_Evaluate_key) (simp only: HandleParamUpdated_def option.case fst_conv opa_Get_InvalidateByPrefix U upd key opa_Get_NewCache split: if_split, metis opa_Get_NewCache)
  have d: "snd (TimeWindow_Evaluate e t (fst (HandleParamDeleted c (Some ev'))) p ctx) =
      snd (TimeWindow_Evaluate e t (if actx_OrgID ctx = g then NewCache d else c) p ctx)"
    by (rule TimeWindow_Evaluate_key) (simp only: HandleParamDeleted_def option.case fst_conv opa_Get_InvalidateByPrefix U del key [where n = "[]", unfolded append_Nil2] opa_Get_NewCache Nil_prefix split: if_split, metis opa_Get_NewCache)
  show ?thesis using u d by (simp add: ParamNameOrDefault_def)
qed

text \<open>
  A policy service whose hours changed from the morning to the afternoon: the entry of the
  old hours decides until an event that reaches it.
\<close>

definition demo_policy :: "any policy_http" where
  "demo_policy = \<lparr>ph_url_ok = (\<lambda>_. True), ph_Do = (\<lambda>_ v. (v, Inr \<lparr>pr_StatusCode = 200, pr_Body = Some (AnyMap [(''data'', AnyMap [(''value'', v)])])\<rparr>))\<rparr>"

definition demo_policy_cfg :: Policy7Config where
  "demo_policy_cfg = \<lparr>p7_Enabled = True, p7_APIURL = ''http://policy7'', p7_ServiceID = ''auth7'', p7_APIKey = [], p7_ParamName = [], p7_DefaultTimezone = [],
     p7_TimeGatedPermissions = [], p7_FailOpen = False\<rparr>"

definition demo_hours_event :: "string \<Rightarrow> PolicyParamUpdatedEvent" where
  "demo_hours_event n = \<lparr>pu_OrgID = uuid_String bits_uuid 1, pu_ParameterName = n, pu_ParameterType = [], pu_UpdatedBy = [], pu_UpdatedAt = 0\<rparr>"

lemma demo_fetch: "FetchOperationalHours demo_policy f g r b v = (v, Inr v)"
proof -
  have "strings_EqualFold ''data'' ''data''" "strings_EqualFold ''value'' ''value''" by code_simp+
  then show ?thesis by (simp add: FetchOperationalHours_def demo_policy_def decode_envelope_def)
qed

lemma demo_zone: "resolveLocation (ev_tz demo_window) [] ''Asia/Jakarta'' = Some (\<lambda>t. \<lparr>ci_Weekday = 1, ci_Hour = (t div time_Hour) mod 24, ci_Minute = (t div time_Minute) mod 60\<rparr>)"
proof -
  have "strings_ToUpper (strings_TrimSpace ''Asia/Jakarta'') = ''ASIA/JAKARTA''" by code_simp
  then show ?thesis by (simp add: resolveLocation_def demo_window_def)
qed

lemma demo_hours: "parseOperationalHours (AnyMap [(''open_time'', AnyString ''12:00''), (''close_time'', AnyString ''23:00'')]) =
    Inr (OperationalHours0\<lparr>oh_OpenTime := ''12:00'', oh_CloseTime := ''23:00''\<rparr>)"
  by code_simp

lemma demo_open:
  "oh_Timezone OperationalHours0 = []"
  "fst (IsOpenAt (OperationalHours0\<lparr>oh_OpenTime := ''00:00'', oh_CloseTime := ''12:00''\<rparr>) \<lparr>ci_Weekday = Suc 0, ci_Hour = 0, ci_Minute = 1\<rparr>)"
  "\<not> fst (IsOpenAt (OperationalHours0\<lparr>oh_OpenTime := ''12:00'', oh_CloseTime := ''23:00''\<rparr>) \<lparr>ci_Weekday = Suc 0, ci_Hour = 0, ci_Minute = 1\<rparr>)"
  by code_simp+

theorem policy_events_reach_hours_witness:
  "\<exists>e c. start_timeWindow demo_policy (ev_tz demo_window) bits_uuid demo_policy_cfg = Some e \<and>
     c = opa_Set 0 start_opaCache (cacheKey (uuid_String bits_uuid 1) (uuid_String bits_uuid 2)) (OperationalHours0\<lparr>oh_OpenTime := ''00:00'', oh_CloseTime := ''12:00''\<rparr>) \<and>
     res_Allowed (snd (TimeWindow_Evaluate e time_Minute (fst (HandleParamUpdated c (Some (demo_hours_event ''teller_operating_hours'')))) (AnyMap [(''open_time'', AnyString ''12:00''), (''close_time'', AnyString ''23:00'')]) (demo_ctx []))) \<and>
     \<not> res_Allowed (snd (TimeWindow_Evaluate e time_Minute (fst (HandleParamUpdated c (Some (demo_hours_event ''operational_hours'')))) (AnyMap [(''open_time'', AnyString ''12:00''), (''close_time'', AnyString ''23:00'')]) (demo_ctx [])))"
proof -
  let ?new = "AnyMap [(''open_time'', AnyString ''12:00''), (''close_time'', AnyString ''23:00'')]"
  let ?old = "OperationalHours0\<lparr>oh_OpenTime := ''00:00'', oh_CloseTime := ''12:00''\<rparr>"
  let ?K = "cacheKey (uuid_String bits_uuid 1) (uuid_String bits_uuid 2)"
  define c where "c = opa_Set 0 start_opaCache ?K ?old"
  obtain e where e: "start_timeWindow demo_policy (ev_tz demo_window) bits_uuid demo_policy_cfg = Some e" "ev_uuid e = bits_uuid" "ev_tz e = ev_tz demo_window"
      "ev_defaultTZ e = ''Asia/Jakarta''" "\<not> ev_failOpen e" "\<forall>g r b. ev_fetch e g r b ?new = (?new, Inr ?new)"
    by (simp add: start_timeWindow_def demo_policy_cfg_def DefaultTimezoneOrFallback_def demo_fetch)
  note step = policy_events_reach_hours [OF bits_uuid.uuid_fixed_axioms e(1), where g = 1 and t = time_Minute and c = c and p = ?new and ctx = "demo_ctx []" and d = 0
    and ev' = "\<lparr>pd_OrgID = uuid_String bits_uuid 1, pd_ParameterName = [], pd_ParameterType = [], pd_DeletedBy = [], pd_DeletedAt = 0\<rparr>", simplified]
  have ctx: "actx_OrgID (demo_ctx []) = 1" "actx_BranchID (demo_ctx []) = 2" by (simp_all add: demo_ctx_def)
  have "opa_Get time_Minute c ?K = Some ?old" by (simp add: c_def opa_Set_def opa_Get_def start_opaCache_def NewCache_def)
  then have old: "res_Allowed (snd (TimeWindow_Evaluate e time_Minute c ?new (demo_ctx [])))"
    unfolding TimeWindow_Evaluate_allowed by (simp add: operationalHours_def GetOrFetch_def e ctx Let_def demo_zone demo_open)
  have new: "\<not> res_Allowed (snd (TimeWindow_Evaluate e time_Minute (NewCache 0) ?new (demo_ctx [])))"
    unfolding TimeWindow_Evaluate_allowed by (simp add: operationalHours_def GetOrFetch_def e ctx Let_def demo_hours demo_zone demo_open)
  show ?thesis using step [of "demo_hours_event ''teller_operating_hours''"] step [of "demo_hours_event ''operational_hours''"] old new e(1)
    unfolding c_def [symmetric] by (simp add: demo_hours_event_def ctx)
qed

end
