(* ===== verification/AuthzService.thy ===== *)
theory AuthzService
  imports Authz AuthRest
begin

text \<open>
  The role service (internal/service/authz/service.go) over its store interfaces, the rest
  of the enforcer (casbin\_adapter.go), and the two gRPC servers that are not the transport
  of the decision point: internal/api/grpc/auth and internal/api/grpc/server.go.
\<close>

section \<open>authz/service.go\<close>

text \<open>
  The stores and the enforcer are interfaces: functions on a state of their own. A nil
  role with a nil error is not a result of a lookup.
\<close>

record 's authz_Service =
  as_role_Create :: "'s \<Rightarrow> Role \<Rightarrow> 's \<times> unit result"
  as_role_GetByID :: "'s \<Rightarrow> uuid \<Rightarrow> uuid \<Rightarrow> Role result"
  as_role_GetByName :: "'s \<Rightarrow> uuid \<Rightarrow> string \<Rightarrow> Role result"
  as_role_ListByOrg :: "'s \<Rightarrow> uuid \<Rightarrow> Role list result"
  as_perm_Create :: "'s \<Rightarrow> Permission \<Rightarrow> 's \<times> unit result"
  as_perm_GetByCode :: "'s \<Rightarrow> string \<Rightarrow> Permission result"
  as_perm_ListAll :: "'s \<Rightarrow> Permission list result"
  as_ur_Create :: "'s \<Rightarrow> UserRole \<Rightarrow> 's \<times> unit result"
  as_ur_GetByUser :: "'s \<Rightarrow> uuid \<Rightarrow> uuid \<Rightarrow> UserRole list result"
  as_ur_GetByUserBranch :: "'s \<Rightarrow> uuid \<Rightarrow> uuid \<Rightarrow> uuid \<Rightarrow> UserRole list result"
  as_ur_Revoke :: "'s \<Rightarrow> uuid \<Rightarrow> uuid \<Rightarrow> 's \<times> unit result"
  as_UpdateRolePermissions :: "'s \<Rightarrow> uuid \<Rightarrow> uuid \<Rightarrow> string \<Rightarrow> string list \<Rightarrow> 's \<times> unit result"
  as_GrantUserRole :: "'s \<Rightarrow> uuid \<Rightarrow> uuid \<Rightarrow> string \<Rightarrow> uuid \<Rightarrow> 's \<times> unit result"
  as_Enforce :: "AuthContext \<Rightarrow> string \<Rightarrow> AuthorizationResult result"

record authz_RoleParams =
  rp_Name :: string
  rp_Description :: string
  rp_IsDefault :: bool
  rp_Permissions :: "string list"

definition authz_RoleParams_Validate :: "authz_RoleParams \<Rightarrow> unit result" where
  "authz_RoleParams_Validate p =
     (if length (rp_Name p) < 2 \<or> length (rp_Name p) > 100 then Inl (Errorf ''name must be between 2 and 100 characters'') else Inr ())"

record authz_PermParams =
  ppm_Code :: string
  ppm_Name :: string
  ppm_Description :: string
  ppm_Category :: string

definition authz_PermParams_Validate :: "authz_PermParams \<Rightarrow> unit result" where
  "authz_PermParams_Validate p =
     (if length (ppm_Code p) < 2 \<or> length (ppm_Code p) > 100 then Inl (Errorf ''code must be between 2 and 100 characters'')
      else if length (ppm_Category p) < 1 \<or> length (ppm_Category p) > 50 then Inl (Errorf ''category must be between 1 and 50 characters'')
      else Inr ())"

definition ErrRoleExists :: error where
  "ErrRoleExists = Sentinel ''role already exists''"

definition ErrPermissionExists :: error where
  "ErrPermissionExists = Sentinel ''permission already exists''"

definition authz_CreateRole :: "'s authz_Service \<Rightarrow> 's \<Rightarrow> time \<Rightarrow> uuid \<Rightarrow> uuid \<Rightarrow> authz_RoleParams \<Rightarrow> 's \<times> Role result" where
  "authz_CreateRole s st now i orgID params =
     (case authz_RoleParams_Validate params of
        Inl e \<Rightarrow> (st, Inl e)
      | Inr _ \<Rightarrow>
        if is_ok (as_role_GetByName s st orgID (rp_Name params)) then (st, Inl ErrRoleExists)
        else (let role = \<lparr>ro_ID = i, ro_OrgID = orgID, ro_Code = [], ro_Name = rp_Name params, ro_Description = rp_Description params,
                ro_IsDefault = rp_IsDefault params, ro_Permissions = rp_Permissions params, ro_CreatedAt = now, ro_UpdatedAt = now\<rparr>
              in case as_role_Create s st role of
                   (st1, Inl e) \<Rightarrow> (st1, Inl (Wrapf ''authz.Service.CreateRole'' e))
                 | (st1, Inr _) \<Rightarrow>
                     (case as_UpdateRolePermissions s st1 orgID (ro_ID role) (ro_Name role) (ro_Permissions role) of
                        (st2, Inl e) \<Rightarrow> (st2, Inl (Wrapf ''authz.Service.CreateRole: sync casbin'' e))
                      | (st2, Inr _) \<Rightarrow> (st2, Inr role))))"

definition authz_GetRole :: "'s authz_Service \<Rightarrow> 's \<Rightarrow> uuid \<Rightarrow> uuid \<Rightarrow> Role result" where
  "authz_GetRole s st i orgID =
     (case as_role_GetByID s st i orgID of Inl e \<Rightarrow> Inl (Wrapf ''authz.Service.GetRole'' e) | Inr role \<Rightarrow> Inr role)"

definition authz_ListRoles :: "'s authz_Service \<Rightarrow> 's \<Rightarrow> uuid \<Rightarrow> Role list result" where
  "authz_ListRoles s st orgID =
     (case as_role_ListByOrg s st orgID of Inl e \<Rightarrow> Inl (Wrapf ''authz.Service.ListRoles'' e) | Inr roles \<Rightarrow> Inr roles)"

definition authz_CreatePermission :: "'s authz_Service \<Rightarrow> 's \<Rightarrow> time \<Rightarrow> uuid \<Rightarrow> authz_PermParams \<Rightarrow> 's \<times> Permission result" where
  "authz_CreatePermission s st now i params =
     (case authz_PermParams_Validate params of
        Inl e \<Rightarrow> (st, Inl e)
      | Inr _ \<Rightarrow>
        if is_ok (as_perm_GetByCode s st (ppm_Code params)) then (st, Inl ErrPermissionExists)
        else (let perm = \<lparr>pe_ID = i, pe_Code = ppm_Code params, pe_Name = ppm_Name params, pe_Description = ppm_Description params,
                pe_ResourceType = ppm_Category params, pe_CreatedAt = now\<rparr>
              in case as_perm_Create s st perm of
                   (st1, Inl e) \<Rightarrow> (st1, Inl (Wrapf ''authz.Service.CreatePermission'' e))
                 | (st1, Inr _) \<Rightarrow> (st1, Inr perm)))"

definition authz_ListPermissions :: "'s authz_Service \<Rightarrow> 's \<Rightarrow> Permission list result" where
  "authz_ListPermissions s st =
     (case as_perm_ListAll s st of Inl e \<Rightarrow> Inl (Wrapf ''authz.Service.ListPermissions'' e) | Inr perms \<Rightarrow> Inr perms)"

definition authz_AssignRole ::
  "'s authz_Service \<Rightarrow> 's \<Rightarrow> time \<Rightarrow> uuid \<Rightarrow> uuid \<Rightarrow> uuid \<Rightarrow> uuid \<Rightarrow> uuid \<Rightarrow> uuid \<Rightarrow> 's \<times> UserRole result" where
  "authz_AssignRole s st now i userID roleID branchID orgID assignedBy =
     (case as_role_GetByID s st roleID orgID of
        Inl e \<Rightarrow> (st, Inl (Wrapf ''invalid role'' e))
      | Inr role \<Rightarrow>
          (let ur = \<lparr>ur_ID = i, ur_UserID = userID, ur_RoleID = roleID, ur_BranchID = Some branchID, ur_OrgID = orgID,
                 ur_GrantedBy = assignedBy, ur_GrantedAt = now, ur_RevokedAt = None, ur_RevokedBy = None\<rparr>
           in case as_ur_Create s st ur of
                (st1, Inl e) \<Rightarrow> (st1, Inl (Wrapf ''authz.Service.AssignRole'' e))
              | (st1, Inr _) \<Rightarrow>
                  (case as_GrantUserRole s st1 orgID userID (ro_Name role) branchID of
                     (st2, Inl e) \<Rightarrow> (st2, Inl (Wrapf ''authz.Service.AssignRole: sync casbin'' e))
                   | (st2, Inr _) \<Rightarrow> (st2, Inr ur))))"

definition authz_RevokeRole :: "'s authz_Service \<Rightarrow> 's \<Rightarrow> uuid \<Rightarrow> uuid \<Rightarrow> 's \<times> unit result" where
  "authz_RevokeRole s st userRoleID revokedBy =
     (case as_ur_Revoke s st userRoleID revokedBy of
        (st1, Inl e) \<Rightarrow> (st1, Inl (Wrapf ''authz.Service.RevokeRole'' e))
      | (st1, Inr _) \<Rightarrow> (st1, Inr ()))"

definition authz_GetUserRoles :: "'s authz_Service \<Rightarrow> 's \<Rightarrow> uuid \<Rightarrow> uuid \<Rightarrow> UserRole list result" where
  "authz_GetUserRoles s st userID orgID =
     (case as_ur_GetByUser s st userID orgID of
        Inl e \<Rightarrow> Inl (Wrapf ''authz.Service.GetUserRoles'' e)
      | Inr roles \<Rightarrow> Inr (filter UserRole_IsActive roles))"

definition authz_CheckPermission :: "'s authz_Service \<Rightarrow> AuthContext \<Rightarrow> string \<Rightarrow> AuthorizationResult result" where
  "authz_CheckPermission s authCtx permission =
     (case as_Enforce s authCtx permission of Inl e \<Rightarrow> Inl (Wrapf ''authz.Service.CheckPermission'' e) | Inr result \<Rightarrow> Inr result)"

text \<open>The loop over the assignments; a role that cannot be read is passed over.\<close>

fun role_perms :: "(uuid \<Rightarrow> Role result) \<Rightarrow> UserRole list \<Rightarrow> string list" where
  "role_perms getRole [] = []"
| "role_perms getRole (ur # urs) =
     (if UserRole_IsActive ur then (case getRole (ur_RoleID ur) of Inl _ \<Rightarrow> [] | Inr role \<Rightarrow> ro_Permissions role) else []) @ role_perms getRole urs"

definition authz_GetUserPermissions :: "'s authz_Service \<Rightarrow> 's \<Rightarrow> uuid \<Rightarrow> uuid \<Rightarrow> uuid \<Rightarrow> string list result" where
  "authz_GetUserPermissions s st userID orgID branchID =
     (case as_ur_GetByUserBranch s st userID branchID orgID of
        Inl e \<Rightarrow> Inl (Wrapf ''authz.Service.GetUserPermissions'' e)
      | Inr roles \<Rightarrow> Inr (role_perms (\<lambda>r. as_role_GetByID s st r orgID) roles))"

section \<open>The rest of casbin\_adapter.go\<close>

text \<open>
  The enforcer keeps no policies: granting, revoking and updating do nothing, and so does
  the adapter, which loads no rules.
\<close>

definition CasbinEnforcer_UpdateRolePermissions :: "'s \<Rightarrow> uuid \<Rightarrow> uuid \<Rightarrow> string \<Rightarrow> string list \<Rightarrow> 's \<times> unit result" where
  "CasbinEnforcer_UpdateRolePermissions st orgID roleID roleName permissions = (st, Inr ())"

definition CasbinEnforcer_GrantUserRole :: "'s \<Rightarrow> uuid \<Rightarrow> uuid \<Rightarrow> string \<Rightarrow> uuid \<Rightarrow> 's \<times> unit result" where
  "CasbinEnforcer_GrantUserRole st orgID userID roleName branchID = (st, Inr ())"

definition CasbinEnforcer_RevokeUserRole :: "'s \<Rightarrow> uuid \<Rightarrow> uuid \<Rightarrow> string \<Rightarrow> uuid \<Rightarrow> 's \<times> unit result" where
  "CasbinEnforcer_RevokeUserRole st orgID userID roleName branchID = (st, Inr ())"

definition CasbinEnforcer_LoadPolicies :: "'s \<Rightarrow> uuid \<Rightarrow> 's \<times> unit result" where
  "CasbinEnforcer_LoadPolicies st orgID = (st, Inr ())"

section \<open>grpc/auth/auth\_check\_server.go\<close>

text \<open>
  This server hands the checker a context without roles and permissions. Status codes
  as in the other transport: \<^verbatim>\<open>InvalidArgument\<close> (3) and \<^verbatim>\<open>Internal\<close> (13).
\<close>

definition check_identity :: "uuid_pkg \<Rightarrow> pdp_request \<Rightarrow> AuthContext response" where
  "check_identity U req =
     (case uuid_Parse U (pq_UserID req) of None \<Rightarrow> Refused 3 ''invalid user_id'' | Some userID \<Rightarrow>
      case uuid_Parse U (pq_OrgID req) of None \<Rightarrow> Refused 3 ''invalid org_id'' | Some orgID \<Rightarrow>
      case uuid_Parse U (pq_BranchID req) of None \<Rightarrow> Refused 3 ''invalid branch_id'' | Some branchID \<Rightarrow>
      OK \<lparr>actx_UserID = userID, actx_OrgID = orgID, actx_BranchID = branchID, actx_Roles = [], actx_Permissions = [],
        actx_BranchScope = ''assigned'', actx_FieldMasks = [], actx_Attributes = None\<rparr>)"

definition AuthCheckServer_CheckPermission :: "uuid_pkg \<Rightarrow> pdp_request \<Rightarrow> AuthorizationResult response" where
  "AuthCheckServer_CheckPermission U req =
     (case check_identity U req of
        Refused code msg \<Rightarrow> Refused code msg
      | OK authCtx \<Rightarrow> OK (CheckPermission (Some authCtx) (pq_Permission req)))"

definition AuthCheckServer_GetUserPermissions :: "uuid_pkg \<Rightarrow> pdp_request \<Rightarrow> string list response" where
  "AuthCheckServer_GetUserPermissions U req =
     (case check_identity U req of
        Refused code msg \<Rightarrow> Refused code msg
      | OK authCtx \<Rightarrow> Refused 13 ''get permissions failed: not implemented'')"

definition AuthCheckServer_CheckDataAccess ::
  "uuid_pkg \<Rightarrow> 'p PermissionChecker \<Rightarrow> time \<Rightarrow> OperationalHours cache \<times> 'p \<Rightarrow> pdp_request \<Rightarrow>
     (OperationalHours cache \<times> 'p) \<times> (AuthorizationResult \<times> string) response" where
  "AuthCheckServer_CheckDataAccess U checker now s req =
     (case check_identity U req of
        Refused code msg \<Rightarrow> (s, Refused code msg)
      | OK authCtx \<Rightarrow>
          (case uuid_Parse U (pq_ResourceID req) of
             None \<Rightarrow> (s, Refused 3 ''invalid resource_id'')
           | Some _ \<Rightarrow>
               (case CheckDataAccess checker now s (Some authCtx) (pq_Permission req) of
                  (s', Inl e) \<Rightarrow> (s', Refused 13 (''check data access failed: '' @ err_Error e))
                | (s', Inr result) \<Rightarrow> (s', OK (result, actx_BranchScope authCtx)))))"

section \<open>grpc/server.go\<close>

record VerifyTokenResponse =
  vk_Valid :: bool
  vk_UserID :: string
  vk_OrgID :: string
  vk_ClientID :: string
  vk_Roles :: "string list"
  vk_Scope :: string
  vk_ExpiresAt :: int
  vk_Error :: string

text \<open>\<open>None\<close> is the panic on a token without an expiry.\<close>

definition grpc_VerifyToken :: "uuid_pkg \<Rightarrow> jwt_lib \<Rightarrow> jwt_Service \<Rightarrow> time \<Rightarrow> string \<Rightarrow> VerifyTokenResponse option" where
  "grpc_VerifyToken U J s now token =
     (case jwt_VerifyAccessToken J s now token of
        Inl e \<Rightarrow> Some \<lparr>vk_Valid = False, vk_UserID = [], vk_OrgID = [], vk_ClientID = [], vk_Roles = [], vk_Scope = [], vk_ExpiresAt = 0, vk_Error = err_Error e\<rparr>
      | Inr claims \<Rightarrow>
          (case c_ExpiresAt claims of
             None \<Rightarrow> None
           | Some t \<Rightarrow> Some \<lparr>vk_Valid = True, vk_UserID = uuid_String U (uuid_Parse0 U (c_Subject claims)),
               vk_OrgID = uuid_String U (uuid_Parse0 U (c_OrgID claims)), vk_ClientID = c_ClientID claims, vk_Roles = c_Roles claims,
               vk_Scope = c_Scope claims, vk_ExpiresAt = Unix t, vk_Error = []\<rparr>))"

record IssueTokenRequest =
  iq_UserID :: string
  iq_ClientID :: string
  iq_Roles :: "string list"
  iq_Scope :: string
  iq_ExpiresIn :: int
  iq_OrgID :: string

record IssueTokenResponse =
  it_AccessToken :: string
  it_RefreshToken :: string
  it_ExpiresIn :: int
  it_TokenType :: string
  it_Scope :: string

definition grpc_IssueToken ::
  "uuid_pkg \<Rightarrow> jwt_lib \<Rightarrow> jwt_Service \<Rightarrow> time \<Rightarrow> uuid \<Rightarrow> uuid \<Rightarrow> IssueTokenRequest \<Rightarrow> IssueTokenResponse response" where
  "grpc_IssueToken U J s now jti sid req =
     (case IssueAccessToken U J s now (uuid_String U jti) (uuid_String U sid) (uuid_Parse0 U (iq_UserID req)) (uuid_Parse0 U (iq_OrgID req))
             (Claims0\<lparr>c_ClientID := iq_ClientID req, c_Roles := iq_Roles req, c_Scope := iq_Scope req\<rparr>) of
        Inl e \<Rightarrow> Refused 13 (''grpc.tokenServer.IssueToken: '' @ err_Error e)
      | Inr (accessToken, _) \<Rightarrow>
          OK \<lparr>it_AccessToken = accessToken, it_RefreshToken = [], it_ExpiresIn = (if iq_ExpiresIn req > 0 then iq_ExpiresIn req else 900),
            it_TokenType = ''Bearer'', it_Scope = iq_Scope req\<rparr>)"

record GetUserInfoResponse =
  gu_UserID :: string
  gu_Username :: string
  gu_Email :: string
  gu_FullName :: string
  gu_OrgID :: string
  gu_Roles :: "string list"
  gu_EmailVerified :: bool
  gu_MfaEnabled :: bool
  gu_Status :: string

text \<open>The other operations answer with fixed values.\<close>

definition authServer_CheckPermission :: "pdp_request \<Rightarrow> bool \<times> string" where
  "authServer_CheckPermission req = (True, ''permission check not yet implemented'')"

definition grpc_GetUserInfo :: "string \<Rightarrow> string \<Rightarrow> GetUserInfoResponse" where
  "grpc_GetUserInfo userID orgID = \<lparr>gu_UserID = userID, gu_Username = ''user'', gu_Email = ''user@example.com'', gu_FullName = ''User'', gu_OrgID = orgID,
     gu_Roles = [], gu_EmailVerified = True, gu_MfaEnabled = False, gu_Status = ''active''\<rparr>"

record RefreshTokenResponse =
  rf_AccessToken :: string
  rf_ExpiresIn :: int
  rf_TokenType :: string
  rf_Scope :: string

definition grpc_RefreshToken :: "string \<Rightarrow> RefreshTokenResponse" where
  "grpc_RefreshToken refreshToken = \<lparr>rf_AccessToken = [], rf_ExpiresIn = 900, rf_TokenType = ''Bearer'', rf_Scope = []\<rparr>"

definition grpc_RevokeToken :: "jwt_Service \<Rightarrow> string \<Rightarrow> string \<Rightarrow> jwt_Service" where
  "grpc_RevokeToken s token hint = s"

section \<open>Properties\<close>

text \<open>The permissions of a user are those of the roles of the active assignments that can be read.\<close>

lemma role_perms_concat:
  "role_perms getRole urs = concat (map (\<lambda>ur. case getRole (ur_RoleID ur) of Inl _ \<Rightarrow> [] | Inr role \<Rightarrow> ro_Permissions role) (filter UserRole_IsActive urs))"
  by (induction urs) auto

text \<open>The enforcer and the checker allow the same.\<close>

lemma enforcer_agrees: "res_Allowed (Enforce ctx p) = res_Allowed (CheckPermission (Some ctx) p)"
  by (simp add: Enforce_def CheckPermission_def hasPermission_def getUserPermissionsFromStore_def Let_def)

text \<open>
  The server of grpc/auth never allows anything: its context carries no permission and the
  checker finds none in the store.
\<close>

lemma AuthCheckServer_denies:
  "AuthCheckServer_CheckPermission U req = OK r \<Longrightarrow> \<not> res_Allowed r"
  "AuthCheckServer_CheckDataAccess U checker now s req = (s', OK (r, scope)) \<Longrightarrow> \<not> res_Allowed r \<and> s' = s"
  by (auto simp: AuthCheckServer_CheckPermission_def AuthCheckServer_CheckDataAccess_def check_identity_def CheckDataAccess_def CheckPermission_def
      hasPermission_def getUserPermissionsFromStore_def Let_def split: option.splits)

text \<open>
  A token issued over gRPC, for whatever user, client and roles the request names, verifies
  until it expires and says what was asked for; the lifetime asked for is only echoed.
\<close>

lemma grpc_issue_verify:
  assumes lib: "jwt_library J key_ok" and U: "uuid_format U" and wf: "rkm_wf (js_keyManager s)"
    and key: "ActiveKey (js_keyManager s) = Some km" "key_ok (km_privateKey km)"
    and user: "uuid_Parse U (iq_UserID req) = Some u"
  obtains resp r where "grpc_IssueToken U J s now jti sid req = OK resp"
    "\<And>t. t < (now + js_tokenTTL s) div time_Second * time_Second \<Longrightarrow> grpc_VerifyToken U J s t (it_AccessToken resp) = Some r"
    "vk_Valid r" "vk_UserID r = uuid_String U u" "vk_ClientID r = iq_ClientID req" "vk_Roles r = iq_Roles req" "vk_Scope r = iq_Scope req"
    "vk_ExpiresAt r = Unix ((now + js_tokenTTL s) div time_Second * time_Second)"
proof -
  let ?cl = "Claims0\<lparr>c_ClientID := iq_ClientID req, c_Roles := iq_Roles req, c_Scope := iq_Scope req\<rparr>"
  obtain tok acc where iss: "IssueAccessToken U J s now (uuid_String U jti) (uuid_String U sid) (uuid_Parse0 U (iq_UserID req)) (uuid_Parse0 U (iq_OrgID req)) ?cl = Inr (tok, acc)"
    using jwt_library.issue_ok [OF lib key] by blast
  note ver = jwt_library.verify_issued_by [OF lib iss key(1) ActiveKey_stored [OF wf key(1), THEN conjunct1] refl]
  have issued: "grpc_IssueToken U J s now jti sid req = OK \<lparr>it_AccessToken = tok, it_RefreshToken = [],
      it_ExpiresIn = (if iq_ExpiresIn req > 0 then iq_ExpiresIn req else 900), it_TokenType = ''Bearer'', it_Scope = iq_Scope req\<rparr>" (is "_ = OK ?resp")
    unfolding grpc_IssueToken_def iss by simp
  let ?c = "access_claims U J s now (uuid_String U jti) (uuid_String U sid) (uuid_Parse0 U (iq_UserID req)) (uuid_Parse0 U (iq_OrgID req)) ?cl"
  define r where "r = \<lparr>vk_Valid = True, vk_UserID = uuid_String U (uuid_Parse0 U (c_Subject ?c)), vk_OrgID = uuid_String U (uuid_Parse0 U (c_OrgID ?c)),
    vk_ClientID = c_ClientID ?c, vk_Roles = c_Roles ?c, vk_Scope = c_Scope ?c, vk_ExpiresAt = Unix (jl_NewNumericDate J (now + js_tokenTTL s)), vk_Error = []\<rparr>"
  have exp: "c_ExpiresAt ?c = Some (jl_NewNumericDate J (now + js_tokenTTL s))" by (simp add: access_claims_def)
  have "grpc_VerifyToken U J s t (it_AccessToken ?resp) = Some r" if "t < (now + js_tokenTTL s) div time_Second * time_Second" for t
    using ver [OF that] exp by (simp add: grpc_VerifyToken_def r_def)
  from that [OF issued this] show thesis
    by (simp add: r_def access_claims_def uuid_format.parse0_string [OF U] uuid_Parse0_def user uuid_format.parse_string [OF U] jwt_library.numeric_date [OF lib])
qed

end
