(* ===== verification/Emergency.thy ===== *)
theory Emergency
  imports OAuth2Rest SessionProps
begin

text \<open>
  The emergency operations (internal/service/security/emergency.go), their endpoints
  (internal/api/rest/emergency.go) and the handlers of internal/api/rest/server.go. Their
  state is the Redis server and the JWT service with its keys.

  Both layers hold their collaborators in fields of type \<^verbatim>\<open>any\<close> and ask for one method at a
  time with a type assertion. A field of the service is a flag: whether the value held has
  the method, with the code's session and JWT services behind it. The handler's value is a
  record with one entry per method, \<open>None\<close> where the value has no method of the type the
  handler asks for.
\<close>

section \<open>security/emergency.go\<close>

record EmergencyService =
  es_has_sessionSvc :: bool
  es_has_keySvc :: bool

text \<open>\<open>key\<close> is what generating a new key yields; \<open>fmtMonth\<close> prints the month of an instant.\<close>

definition EmergencyService_RevokeAllTokens ::
  "EmergencyService \<Rightarrow> uuid_pkg \<Rightarrow> 'r redis \<Rightarrow> time \<Rightarrow> 'r \<times> jwt_Service \<Rightarrow> uuid \<Rightarrow> ('r \<times> jwt_Service) \<times> unit result" where
  "EmergencyService_RevokeAllTokens es U R now st orgID =
     (if es_has_sessionSvc es
      then (case RevokeAllOrgSessions R (fst st) now (uuid_String U orgID) of
          (rs, Inl e) \<Rightarrow> ((rs, snd st), Inl (Wrapf ''EmergencyService.RevokeAllTokens: revoke sessions'' e))
        | (rs, Inr _) \<Rightarrow> ((rs, snd st), Inr ()))
      else (st, Inr ()))"

definition emergency_rotate ::
  "string \<Rightarrow> EmergencyService \<Rightarrow> (time \<Rightarrow> string) \<Rightarrow> rsa_PrivateKey result \<Rightarrow> time \<Rightarrow> 'r \<times> jwt_Service \<Rightarrow> ('r \<times> jwt_Service) \<times> unit result" where
  "emergency_rotate op es fmtMonth key now st =
     (if es_has_keySvc es
      then (case RotateKey fmtMonth now key (snd st) of
          (js, Inl e) \<Rightarrow> ((fst st, js), Inl (Wrapf (op @ '': rotate key'') e))
        | (js, Inr _) \<Rightarrow> ((fst st, js), Inr ()))
      else (st, Inr ()))"

definition EmergencyService_ForceLogoutAllUsers ::
  "EmergencyService \<Rightarrow> uuid_pkg \<Rightarrow> 'r redis \<Rightarrow> (time \<Rightarrow> string) \<Rightarrow> rsa_PrivateKey result \<Rightarrow> time \<Rightarrow> 'r \<times> jwt_Service \<Rightarrow> uuid \<Rightarrow>
     ('r \<times> jwt_Service) \<times> unit result" where
  "EmergencyService_ForceLogoutAllUsers es U R fmtMonth key now st orgID =
     (if es_has_sessionSvc es
      then (case RevokeAllOrgSessions R (fst st) now (uuid_String U orgID) of
          (rs, Inl e) \<Rightarrow> ((rs, snd st), Inl (Wrapf ''EmergencyService.ForceLogoutAllUsers: revoke sessions'' e))
        | (rs, Inr _) \<Rightarrow> emergency_rotate ''EmergencyService.ForceLogoutAllUsers'' es fmtMonth key now (rs, snd st))
      else emergency_rotate ''EmergencyService.ForceLogoutAllUsers'' es fmtMonth key now st)"

definition EmergencyService_EmergencyKeyRotation ::
  "EmergencyService \<Rightarrow> (time \<Rightarrow> string) \<Rightarrow> rsa_PrivateKey result \<Rightarrow> time \<Rightarrow> 'r \<times> jwt_Service \<Rightarrow> uuid \<Rightarrow> ('r \<times> jwt_Service) \<times> unit result" where
  "EmergencyService_EmergencyKeyRotation es fmtMonth key now st orgID =
     emergency_rotate ''EmergencyService.EmergencyKeyRotation'' es fmtMonth key now st"

definition EmergencyService_GetSecurityStatus :: "uuid_pkg \<Rightarrow> uuid \<Rightarrow> JSON result" where
  "EmergencyService_GetSecurityStatus U orgID =
     Inr [(''org_id'', AnyString (uuid_String U orgID)), (''brute_force'', AnyString ''active''),
       ('' rate_limiting'', AnyString ''active''), (''security_headers'', AnyString ''enabled'')]"

section \<open>rest/emergency.go\<close>

record 's EmergencyHandler =
  eh_RevokeAllTokens :: "('s \<Rightarrow> uuid \<Rightarrow> 's \<times> unit result) option"
  eh_ForceLogoutAllUsers :: "('s \<Rightarrow> uuid \<Rightarrow> 's \<times> unit result) option"
  eh_EmergencyKeyRotation :: "('s \<Rightarrow> uuid \<Rightarrow> 's \<times> unit result) option"
  eh_GetSecurityStatus :: "('s \<Rightarrow> uuid \<Rightarrow> JSON result) option"

record EmergencyResponse =
  er_Success :: bool
  er_Message :: string

text \<open>The three posts have the same shape; \<open>None\<close> is a body without an organization.\<close>

definition emergency_post ::
  "uuid_pkg \<Rightarrow> ('s \<Rightarrow> uuid \<Rightarrow> 's \<times> unit result) option \<Rightarrow> string \<Rightarrow> string \<Rightarrow> 's \<Rightarrow> string option \<Rightarrow> 's \<times> EmergencyResponse response" where
  "emergency_post U call failure message st body =
     (case body of
        None \<Rightarrow> (st, Refused 400 ''invalid_request'')
      | Some org \<Rightarrow>
          (case uuid_Parse U org of
             None \<Rightarrow> (st, Refused 400 ''invalid_org_id'')
           | Some orgID \<Rightarrow>
               (case call of
                  None \<Rightarrow> (st, OK \<lparr>er_Success = True, er_Message = message\<rparr>)
                | Some f \<Rightarrow>
                    (case f st orgID of
                       (st1, Inl _) \<Rightarrow> (st1, Refused 500 failure)
                     | (st1, Inr _) \<Rightarrow> (st1, OK \<lparr>er_Success = True, er_Message = message\<rparr>)))))"

definition handleRevokeAllTokens :: "uuid_pkg \<Rightarrow> 's EmergencyHandler \<Rightarrow> 's \<Rightarrow> string option \<Rightarrow> 's \<times> EmergencyResponse response" where
  "handleRevokeAllTokens U h = emergency_post U (eh_RevokeAllTokens h) ''failed_to_revoke_tokens'' ''All tokens revoked successfully''"

definition handleForceLogoutAllUsers :: "uuid_pkg \<Rightarrow> 's EmergencyHandler \<Rightarrow> 's \<Rightarrow> string option \<Rightarrow> 's \<times> EmergencyResponse response" where
  "handleForceLogoutAllUsers U h = emergency_post U (eh_ForceLogoutAllUsers h) ''failed_to_force_logout'' ''All users logged out successfully''"

definition handleEmergencyKeyRotation :: "uuid_pkg \<Rightarrow> 's EmergencyHandler \<Rightarrow> 's \<Rightarrow> string option \<Rightarrow> 's \<times> EmergencyResponse response" where
  "handleEmergencyKeyRotation U h = emergency_post U (eh_EmergencyKeyRotation h) ''failed_to_rotate_keys'' ''Emergency key rotation completed successfully''"

definition handleGetSecurityStatus :: "uuid_pkg \<Rightarrow> 's EmergencyHandler \<Rightarrow> 's \<Rightarrow> string \<Rightarrow> JSON response" where
  "handleGetSecurityStatus U h st orgIDStr =
     (if orgIDStr = [] then Refused 400 ''org_id required''
      else (case uuid_Parse U orgIDStr of
          None \<Rightarrow> Refused 400 ''invalid_org_id''
        | Some orgID \<Rightarrow>
            (case eh_GetSecurityStatus h of
               Some f \<Rightarrow> (case f st orgID of Inl _ \<Rightarrow> Refused 500 ''failed_to_get_status'' | Inr status \<Rightarrow> OK status)
             | None \<Rightarrow> OK [(''org_id'', AnyString orgIDStr), (''status'', AnyString ''active'')])))"

section \<open>rest/server.go\<close>

text \<open>
  \<^verbatim>\<open>RegisterRoutes\<close> makes the handler from nil, which has no methods. Neither has an
  \<^verbatim>\<open>EmergencyService\<close>: the handler asks for methods whose first parameter is of type \<^verbatim>\<open>any\<close>,
  those of the service take a \<^verbatim>\<open>context.Context\<close>.
\<close>

definition registered_emergency :: "'s EmergencyHandler" where
  "registered_emergency = \<lparr>eh_RevokeAllTokens = None, eh_ForceLogoutAllUsers = None, eh_EmergencyKeyRotation = None, eh_GetSecurityStatus = None\<rparr>"

text \<open>\<open>None\<close> is a nil slice: the server has no JWT service.\<close>

definition handleJWKS :: "jwt_Service option \<Rightarrow> jwk list option" where
  "handleJWKS jwtSvc = (case jwtSvc of None \<Rightarrow> None | Some s \<Rightarrow> Some (GetJWKS s))"

text \<open>\<open>base\<close> is the configured base URL, \<open>None\<close> without a configuration.\<close>

definition handleOIDCDiscovery :: "string option \<Rightarrow> OIDCDiscovery" where
  "handleOIDCDiscovery base =
     (let baseURL = (case base of Some b \<Rightarrow> if b \<noteq> [] then b else ''https://auth7.bank.co.id'' | None \<Rightarrow> ''https://auth7.bank.co.id'')
      in \<lparr>od_Issuer = baseURL, od_AuthorizationEndpoint = baseURL @ ''/oauth2/authorize'', od_TokenEndpoint = baseURL @ ''/oauth2/token'',
          od_UserInfoEndpoint = baseURL @ ''/oauth2/userinfo'', od_JwksURI = baseURL @ ''/.well-known/jwks.json'',
          od_RegistrationEndpoint = baseURL @ ''/oauth2/register'', od_ScopesSupported = [''openid'', ''profile'', ''email'', ''roles''],
          od_ResponseTypesSupported = [''code''], od_GrantTypesSupported = [''authorization_code'', ''refresh_token'', ''client_credentials''],
          od_SubjectTypesSupported = [''public''], od_IDTokenSigningAlgValuesSupported = [''RS256''],
          od_TokenEndpointAuthMethodsSupported = [''client_secret_basic'', ''client_secret_post''], od_CodeChallengeMethodsSupported = [''S256'']\<rparr>)"

section \<open>Properties\<close>

text \<open>The two discovery documents agree where no base URL is configured.\<close>

lemma discovery_documents_agree: "handleOIDCDiscovery None = Discovery"
  by (simp add: handleOIDCDiscovery_def Discovery_def)

text \<open>
  C40: The emergency logout. The service deletes the sessions of the organization, and no
  other, and rotates the signing key of all organizations; a token signed before, of
  whatever organization, is from then on refused if both keys were made in the same month,
  and accepted until it expires otherwise. The endpoint, as it is registered, answers the
  same request with success and changes nothing.
\<close>

theorem force_logout_effect:
  assumes redis: "redis_server R up kv smem" and inv: "session_inv up kv smem rs now"
    and lib: "jwt_library J key_ok" and wf: "rkm_wf (js_keyManager js)" and act: "ActiveKey (js_keyManager js) = Some km"
    and issue: "IssueAccessToken U J js t0 tid sid u g0 cl = Inr (tok, acc)" and fresh: "sk_PublicKey k \<noteq> km_PublicKey km"
    and early: "t < (t0 + js_tokenTTL js) div time_Second * time_Second"
    and svc: "es_has_sessionSvc es" "es_has_keySvc es" and org: "uuid_Parse U body = Some g"
    and run: "EmergencyService_ForceLogoutAllUsers es U R fmtMonth (Inr k) now (rs, js) g = ((rs', js'), r)"
  shows "r = Inr () \<and>
    (\<forall>i d. Store_Get R rs now i = Inr (Some d) \<longrightarrow>
       (\<forall>t \<ge> now. Store_Get R rs' t i = (if sd_OrgID d = uuid_String U g then Inr None else Store_Get R rs t i))) \<and>
    (is_ok (jwt_VerifyAccessToken J js' t tok) \<longleftrightarrow> km_kid km \<noteq> ''auth7-'' @ fmtMonth now) \<and>
    handleForceLogoutAllUsers U registered_emergency (rs, js) (Some body) =
      ((rs, js), OK \<lparr>er_Success = True, er_Message = ''All users logged out successfully''\<rparr>)"
proof -
  obtain rs1 r1 where rev: "RevokeAllOrgSessions R rs now (uuid_String U g) = (rs1, r1)" by fastforce
  note eff = revoke_all_org_sessions_effect [OF redis inv rev]
  obtain js1 r2 where rot: "RotateKey fmtMonth now (Inr k) js = (js1, r2)" by fastforce
  note key = rotate_key_effect [OF lib wf act issue fresh rot early]
  have "rs' = rs1" "js' = js1" "r = Inr ()"
    using run eff key rev rot svc by (auto simp: EmergencyService_ForceLogoutAllUsers_def emergency_rotate_def)
  with eff key org show ?thesis
    by (simp add: handleForceLogoutAllUsers_def emergency_post_def registered_emergency_def)
qed

text \<open>One session, one token, and two months.\<close>

theorem force_logout_effect_witness:
  "\<exists>tok acc. IssueAccessToken bits_uuid field_jwt demo_jwt time_Second ''t'' ''s1'' 5 6 Claims0 = Inr (tok, acc) \<and>
     (\<exists>rs' js'. EmergencyService_ForceLogoutAllUsers \<lparr>es_has_sessionSvc = True, es_has_keySvc = True\<rparr> bits_uuid mem_redis (\<lambda>t. ''2026-02'') (Inr (demo_key 3599)) 5
         (demo_login, demo_jwt) 2 = ((rs', js'), Inr ()) \<and>
       Store_Get mem_redis rs' 6 (uuid_String bits_uuid 7) = Inr None \<and> is_ok (jwt_VerifyAccessToken field_jwt js' 6 tok))"
proof -
  obtain tok acc where i: "IssueAccessToken bits_uuid field_jwt demo_jwt time_Second ''t'' ''s1'' 5 6 Claims0 = Inr (tok, acc)"
    using field_jwt.issue_ok [OF demo_jwt_key TrueI] by blast
  have e: "6 < (time_Second + js_tokenTTL demo_jwt) div time_Second * time_Second" by (simp add: demo_jwt_def jwt_NewService_def)
  have f: "sk_PublicKey (demo_key 3599) \<noteq> km_PublicKey \<lparr>km_privateKey = demo_key 3233, km_kid = ''auth7-2026-01'', km_algorithm = ''RS256'', km_createdAt = 0\<rparr>"
    by (simp add: demo_key_def km_PublicKey_def)
  have inv: "session_inv mem_up mem_kv mem_smem demo_login 5" by (rule session_inv_later [OF demo_login_ok(1)]) simp
  obtain rs' js' r where run: "EmergencyService_ForceLogoutAllUsers \<lparr>es_has_sessionSvc = True, es_has_keySvc = True\<rparr> bits_uuid mem_redis (\<lambda>t. ''2026-02'')
      (Inr (demo_key 3599)) 5 (demo_login, demo_jwt) 2 = ((rs', js'), r)" by (metis prod.exhaust)
  note eff = force_logout_effect [OF mem.redis_server_axioms inv field_jwt.jwt_library_axioms demo_jwt_wf demo_jwt_key i f e _ _ bits_uuid.parse_string run, simplified]
  show ?thesis using i run eff demo_session_found by fastforce
qed

end
