(* ===== verification/Validation.thy ===== *)
theory Validation
  imports Domain
begin

text \<open>
  Package internal/service/security, validation.go: the checks of user input. Its regular
  expressions are terms over character classes, matched by derivatives; the matcher is
  proved to decide the language. The tables of package \<^verbatim>\<open>unicode\<close> are a parameter, on code
  points; \<^verbatim>\<open>range\<close> over a string decodes UTF-8 as Go does.
\<close>

section \<open>Regular expressions\<close>

text \<open>
  The constructs the five patterns use. All are anchored at both ends, so a pattern accepts
  a text as a whole. Classes are over bytes: those of the patterns hold ASCII only, but for
  the dot, which stands for everything except a line feed.
\<close>

datatype rx = Zero | Eps | Cls "char \<Rightarrow> bool" | Alt rx rx | Cat rx rx | Star rx

primrec nullable :: "rx \<Rightarrow> bool" where
  "nullable Zero = False"
| "nullable Eps = True"
| "nullable (Cls P) = False"
| "nullable (Alt r s) = (nullable r \<or> nullable s)"
| "nullable (Cat r s) = (nullable r \<and> nullable s)"
| "nullable (Star r) = True"

primrec deriv :: "char \<Rightarrow> rx \<Rightarrow> rx" where
  "deriv c Zero = Zero"
| "deriv c Eps = Zero"
| "deriv c (Cls P) = (if P c then Eps else Zero)"
| "deriv c (Alt r s) = Alt (deriv c r) (deriv c s)"
| "deriv c (Cat r s) = (if nullable r then Alt (Cat (deriv c r) s) (deriv c s) else Cat (deriv c r) s)"
| "deriv c (Star r) = Cat (deriv c r) (Star r)"

primrec MatchString :: "rx \<Rightarrow> string \<Rightarrow> bool" where
  "MatchString r [] = nullable r"
| "MatchString r (c # s) = MatchString (deriv c r) s"

definition Plus :: "rx \<Rightarrow> rx" where
  "Plus r = Cat r (Star r)"

definition Opt :: "rx \<Rightarrow> rx" where
  "Opt r = Alt Eps r"

primrec Lit :: "string \<Rightarrow> rx" where
  "Lit [] = Eps"
| "Lit (c # s) = Cat (Cls (\<lambda>x. x = c)) (Lit s)"

text \<open>\<open>Upto n r\<close> is \<open>r{0,n}\<close>.\<close>

primrec Upto :: "nat \<Rightarrow> rx \<Rightarrow> rx" where
  "Upto 0 r = Eps"
| "Upto (Suc n) r = Opt (Cat r (Upto n r))"

definition is_alpha :: "char \<Rightarrow> bool" where
  "is_alpha c \<longleftrightarrow> char_between (CHR ''a'') (CHR ''z'') c \<or> char_between (CHR ''A'') (CHR ''Z'') c"

definition is_alnum :: "char \<Rightarrow> bool" where
  "is_alnum c \<longleftrightarrow> is_alpha c \<or> is_digit c"

definition emailRegex :: rx where
  "emailRegex = Cat (Plus (Cls (\<lambda>c. is_alnum c \<or> c \<in> set ''._%+-''))) (Cat (Lit ''@'')
     (Cat (Plus (Cls (\<lambda>c. is_alnum c \<or> c \<in> set ''.-''))) (Cat (Lit ''.'') (Cat (Cls is_alpha) (Plus (Cls is_alpha))))))"

definition phoneRegex :: rx where
  "phoneRegex = Cat (Opt (Lit ''+'')) (Cat (Cls (\<lambda>c. is_digit c \<and> c \<noteq> CHR ''0'')) (Cat (Cls is_digit) (Upto 13 (Cls is_digit))))"

definition validUsername :: rx where
  "validUsername = Plus (Cls (\<lambda>c. is_alnum c \<or> c \<in> set ''_-.''))"

definition redirectRegex :: rx where
  "redirectRegex = Cat (Lit ''http'') (Cat (Opt (Lit ''s'')) (Cat (Lit ''://'')
     (Cat (Plus (Cls (\<lambda>c. is_alnum c \<or> c \<in> set ''-.''))) (Cat (Cat (Lit ''.'') (Cat (Cls is_alpha) (Plus (Cls is_alpha))))
       (Cat (Opt (Cat (Lit '':'') (Plus (Cls is_digit)))) (Opt (Cat (Lit ''/'') (Star (Cls (\<lambda>c. c \<noteq> CHR 0x0A))))))))))"

section \<open>Runes\<close>

record unicode_tables =
  un_IsUpper :: "nat \<Rightarrow> bool"
  un_IsLower :: "nat \<Rightarrow> bool"
  un_IsDigit :: "nat \<Rightarrow> bool"
  un_IsPrint :: "nat \<Rightarrow> bool"

definition cont_byte :: "nat \<Rightarrow> nat \<Rightarrow> nat \<Rightarrow> bool" where
  "cont_byte lo hi b \<longleftrightarrow> lo \<le> b \<and> b \<le> hi"

text \<open>
  \<^verbatim>\<open>utf8.DecodeRuneInString\<close>: the code point and its width; an invalid sequence gives the
  replacement character and one byte. \<open>byte n\<close> is the byte at offset \<open>n\<close>, 0 past the end, which
  is no continuation byte.
\<close>

definition DecodeRune :: "string \<Rightarrow> nat \<times> nat" where
  "DecodeRune s =
     (let byte = (\<lambda>n. if n < length s then of_char (s ! n) else (0::nat)); b0 = byte 0; b1 = byte 1; b2 = byte 2; b3 = byte 3
      in if b0 < 128 then (b0, 1)
         else if 194 \<le> b0 \<and> b0 \<le> 223 \<and> cont_byte 128 191 b1 then ((b0 - 192) * 64 + (b1 - 128), 2)
         else if 224 \<le> b0 \<and> b0 \<le> 239 \<and> cont_byte (if b0 = 224 then 160 else 128) (if b0 = 237 then 159 else 191) b1 \<and> cont_byte 128 191 b2
           then ((b0 - 224) * 4096 + (b1 - 128) * 64 + (b2 - 128), 3)
         else if 240 \<le> b0 \<and> b0 \<le> 244 \<and> cont_byte (if b0 = 240 then 144 else 128) (if b0 = 244 then 143 else 191) b1 \<and> cont_byte 128 191 b2 \<and> cont_byte 128 191 b3
           then ((b0 - 240) * 262144 + (b1 - 128) * 4096 + (b2 - 128) * 64 + (b3 - 128), 4)
         else (65533, 1))"

lemma DecodeRune_width: "1 \<le> snd (DecodeRune s)"
  by (simp add: DecodeRune_def Let_def)

text \<open>\<open>for _, r := range s\<close>: the runes.\<close>

function runes :: "string \<Rightarrow> nat list" where
  "runes s = (if s = [] then [] else fst (DecodeRune s) # runes (drop (snd (DecodeRune s)) s))"
  by auto
termination
proof (relation "measure length")
  fix s :: string
  assume "s \<noteq> []"
  then show "(drop (snd (DecodeRune s)) s, s) \<in> measure length"
    using DecodeRune_width [of s] by (simp add: diff_less)
qed simp

declare runes.simps [simp del]

text \<open>\<^verbatim>\<open>strings.Builder.WriteRune\<close> of a code point that decoding yields.\<close>

definition WriteRune :: "nat \<Rightarrow> string" where
  "WriteRune r =
     map char_of
       (if r < 128 then [r]
        else if r < 2048 then [192 + r div 64, 128 + r mod 64]
        else if r < 65536 then [224 + r div 4096, 128 + r div 64 mod 64, 128 + r mod 64]
        else [240 + r div 262144, 128 + r div 4096 mod 64, 128 + r div 64 mod 64, 128 + r mod 64])"

section \<open>validation.go\<close>

record ValidationError =
  ve_Field :: string
  ve_Message :: string

record ValidationResult =
  vr_Valid :: bool
  vr_Errors :: "ValidationError list"

definition ValidationError_Error :: "ValidationError \<Rightarrow> string" where
  "ValidationError_Error e = ve_Field e @ '': '' @ ve_Message e"

definition ValidationResult_Error :: "ValidationResult \<Rightarrow> string" where
  "ValidationResult_Error r = (if \<not> vr_Valid r then strings_Join (map ValidationError_Error (vr_Errors r)) ''; '' else [])"

definition ValidateEmail :: "string \<Rightarrow> unit result" where
  "ValidateEmail email0 =
     (let email = strings_TrimSpace email0
      in if email = [] then Inl (Errorf ''security.ValidateEmail: email is required'')
         else if length email > 254 then Inl (Errorf ''security.ValidateEmail: email too long'')
         else if \<not> MatchString emailRegex email then Inl (Errorf ''security.ValidateEmail: invalid email format'')
         else Inr ())"

text \<open>\<^verbatim>\<open>strings.ReplaceAll\<close> of one character by nothing.\<close>

definition ReplaceAll_empty :: "string \<Rightarrow> char \<Rightarrow> string" where
  "ReplaceAll_empty s c = filter (\<lambda>x. x \<noteq> c) s"

definition ValidatePhone :: "string \<Rightarrow> unit result" where
  "ValidatePhone phone0 =
     (let phone = strings_TrimSpace phone0
      in if phone = [] then Inl (Errorf ''security.ValidatePhone: phone is required'')
         else (let phone = ReplaceAll_empty phone (CHR '' ''); phone = ReplaceAll_empty phone (CHR ''-'');
                   phone = ReplaceAll_empty phone (CHR ''(''); phone = ReplaceAll_empty phone (CHR '')'')
               in if \<not> MatchString phoneRegex phone then Inl (Errorf ''security.ValidatePhone: invalid phone format'') else Inr ()))"

definition ValidateUUID :: "uuid_pkg \<Rightarrow> string \<Rightarrow> unit result" where
  "ValidateUUID U i0 =
     (let i = strings_TrimSpace i0
      in if i = [] then Inl (Errorf ''security.ValidateUUID: UUID is required'')
         else (case uuid_Parse U i of None \<Rightarrow> Inl (Errorf ''security.ValidateUUID: invalid UUID format'') | Some _ \<Rightarrow> Inr ()))"

definition ValidateUsername :: "string \<Rightarrow> unit result" where
  "ValidateUsername username0 =
     (let username = strings_TrimSpace username0
      in if username = [] then Inl (Errorf ''security.ValidateUsername: username is required'')
         else if length username < 3 \<or> length username > 32 then Inl (Errorf ''security.ValidateUsername: username must be 3-32 characters'')
         else if \<not> MatchString validUsername username then Inl (Errorf ''security.ValidateUsername: username contains invalid characters'')
         else Inr ())"

definition sanitized_rune :: "unicode_tables \<Rightarrow> nat \<Rightarrow> bool" where
  "sanitized_rune T r \<longleftrightarrow> r \<notin> {60, 62, 38, 34, 39} \<and> un_IsPrint T r"

definition SanitizeString :: "unicode_tables \<Rightarrow> string \<Rightarrow> string" where
  "SanitizeString T input = concat (map WriteRune (filter (sanitized_rune T) (runes (strings_TrimSpace input))))"

definition ValidatePassword :: "unicode_tables \<Rightarrow> string \<Rightarrow> unit result" where
  "ValidatePassword T password =
     (if length password < 8 then Inl (Errorf ''security.ValidatePassword: password must be at least 8 characters'')
      else if length password > 128 then Inl (Errorf ''security.ValidatePassword: password too long'')
      else if \<not> list_ex (un_IsUpper T) (runes password) \<or> \<not> list_ex (un_IsLower T) (runes password) \<or> \<not> list_ex (un_IsDigit T) (runes password)
        then Inl (Errorf ''security.ValidatePassword: password must contain uppercase, lowercase, and digit'')
      else Inr ())"

definition security_ValidateRedirectURI :: "string \<Rightarrow> unit result" where
  "security_ValidateRedirectURI uri0 =
     (let uri = strings_TrimSpace uri0
      in if uri = [] then Inl (Errorf ''security.ValidateRedirectURI: redirect URI is required'')
         else if \<not> MatchString redirectRegex uri then Inl (Errorf ''security.ValidateRedirectURI: invalid redirect URI format'')
         else Inr ())"

text \<open>The first scope that is not in the table stops the loop.\<close>

definition security_ValidateScope :: "string \<Rightarrow> unit result" where
  "security_ValidateScope scope0 =
     (let scope = strings_TrimSpace scope0
      in if scope = [] then Inl (Errorf ''security.ValidateScope: scope is required'')
         else (case filter (\<lambda>s. s \<notin> set [''openid'', ''profile'', ''email'', ''roles'', ''offline_access'']) (strings_Split scope (CHR '' '')) of
             [] \<Rightarrow> Inr ()
           | s # _ \<Rightarrow> Inl (Errorf (''security.ValidateScope: invalid scope: '' @ s))))"

section \<open>The matcher decides the language\<close>

inductive_set star :: "string set \<Rightarrow> string set" for A where
  star_Nil: "[] \<in> star A"
| star_append: "u \<in> A \<Longrightarrow> v \<in> star A \<Longrightarrow> u @ v \<in> star A"

primrec lang :: "rx \<Rightarrow> string set" where
  "lang Zero = {}"
| "lang Eps = {[]}"
| "lang (Cls P) = {[c] | c. P c}"
| "lang (Alt r s) = lang r \<union> lang s"
| "lang (Cat r s) = {u @ v | u v. u \<in> lang r \<and> v \<in> lang s}"
| "lang (Star r) = star (lang r)"

lemma nullable_iff: "nullable r \<longleftrightarrow> [] \<in> lang r"
  by (induction r) (auto intro: star_Nil)

lemma star_Cons: "c # s \<in> star A \<longleftrightarrow> (\<exists>u v. s = u @ v \<and> c # u \<in> A \<and> v \<in> star A)"
proof
  show "c # s \<in> star A \<Longrightarrow> \<exists>u v. s = u @ v \<and> c # u \<in> A \<and> v \<in> star A"
    by (induction "c # s" rule: star.induct) (auto simp: append_eq_Cons_conv)
next
  assume "\<exists>u v. s = u @ v \<and> c # u \<in> A \<and> v \<in> star A"
  then show "c # s \<in> star A" by (metis append_Cons star_append)
qed

lemma deriv_iff: "s \<in> lang (deriv c r) \<longleftrightarrow> c # s \<in> lang r"
proof (induction r arbitrary: s)
  case (Cat r1 r2)
  have "c # s \<in> lang (Cat r1 r2) \<longleftrightarrow> (\<exists>u v. s = u @ v \<and> c # u \<in> lang r1 \<and> v \<in> lang r2) \<or> ([] \<in> lang r1 \<and> c # s \<in> lang r2)"
    by (auto simp: Cons_eq_append_conv)
  with Cat show ?case by (auto simp: nullable_iff)
next
  case (Star r)
  then show ?case by (simp add: star_Cons)
qed auto

lemma MatchString_iff: "MatchString r s \<longleftrightarrow> s \<in> lang r"
  by (induction s arbitrary: r) (simp_all add: nullable_iff deriv_iff)

lemma lang_Lit [simp]: "lang (Lit w) = {w}"
  by (induction w) auto

lemma star_Cls: "star {[c] | c. P c} = {s. list_all P s}"
proof (intro set_eqI iffI)
  fix s assume "s \<in> star {[c] | c. P c}"
  then show "s \<in> {s. list_all P s}" by induction auto
next
  fix s assume "s \<in> {s. list_all P s}"
  then show "s \<in> star {[c] | c. P c}"
    by (induction s) (use star_append [of "[_]" "{[c] | c. P c}"] in \<open>auto intro: star_Nil\<close>)
qed

lemma lang_Cat_Cls: "s \<in> lang (Cat (Cls P) r) \<longleftrightarrow> (\<exists>c v. s = c # v \<and> P c \<and> v \<in> lang r)"
proof
  assume "\<exists>c v. s = c # v \<and> P c \<and> v \<in> lang r"
  then obtain c v where "s = [c] @ v" "P c" "v \<in> lang r" by auto
  then show "s \<in> lang (Cat (Cls P) r)" unfolding lang.simps by blast
qed auto

lemma lang_Plus_Cls [simp]: "lang (Plus (Cls P)) = {s. s \<noteq> [] \<and> list_all P s}"
proof (rule set_eqI)
  fix s show "s \<in> lang (Plus (Cls P)) \<longleftrightarrow> s \<in> {s. s \<noteq> [] \<and> list_all P s}"
    unfolding Plus_def lang_Cat_Cls by (cases s) (simp_all add: star_Cls)
qed

lemma lang_two: "lang (Cat (Cls P) (Plus (Cls P))) = {s. 2 \<le> length s \<and> list_all P s}"
proof (rule set_eqI)
  fix s show "s \<in> lang (Cat (Cls P) (Plus (Cls P))) \<longleftrightarrow> s \<in> {s. 2 \<le> length s \<and> list_all P s}"
    unfolding lang_Cat_Cls by (cases s; cases "tl s") auto
qed

lemma is_ok_if: "is_ok (if b then Inl e else r) \<longleftrightarrow> \<not> b \<and> is_ok r"
  by simp

text \<open>The addresses accepted are those of the usual form, after trimming.\<close>

lemma ValidateEmail_iff:
  "is_ok (ValidateEmail e) \<longleftrightarrow> length (strings_TrimSpace e) \<le> 254 \<and>
     (\<exists>l d t. strings_TrimSpace e = l @ ''@'' @ d @ ''.'' @ t \<and> l \<noteq> [] \<and> d \<noteq> [] \<and> 2 \<le> length t \<and>
        list_all (\<lambda>c. is_alnum c \<or> c \<in> set ''._%+-'') l \<and> list_all (\<lambda>c. is_alnum c \<or> c \<in> set ''.-'') d \<and> list_all is_alpha t)"
proof -
  have "s \<in> lang emailRegex \<longleftrightarrow> (\<exists>l d t. s = l @ ''@'' @ d @ ''.'' @ t \<and> l \<noteq> [] \<and> d \<noteq> [] \<and> 2 \<le> length t \<and>
        list_all (\<lambda>c. is_alnum c \<or> c \<in> set ''._%+-'') l \<and> list_all (\<lambda>c. is_alnum c \<or> c \<in> set ''.-'') d \<and> list_all is_alpha t)" for s
    unfolding emailRegex_def lang.simps(5) [of _ "Cat _ _"] lang_two lang_Plus_Cls lang_Lit
    by blast
  then show ?thesis
    unfolding ValidateEmail_def Let_def is_ok_if MatchString_iff by auto
qed

text \<open>A text is a valid list of scopes if it names nothing but the five known ones.\<close>

lemma security_ValidateScope_iff:
  "is_ok (security_ValidateScope s) \<longleftrightarrow> strings_TrimSpace s \<noteq> [] \<and>
     set (strings_Split (strings_TrimSpace s) (CHR '' '')) \<subseteq> {''openid'', ''profile'', ''email'', ''roles'', ''offline_access''}"
proof -
  have "is_ok (case filter (\<lambda>s. s \<notin> A) xs of [] \<Rightarrow> Inr () | s # _ \<Rightarrow> Inl (f s)) \<longleftrightarrow> set xs \<subseteq> A" for A and xs :: "string list" and f
    by (cases "filter (\<lambda>s. s \<notin> A) xs") (auto simp: filter_empty_conv dest: filter_eq_ConsD)
  then show ?thesis unfolding security_ValidateScope_def Let_def is_ok_if by (simp only: list.set)
qed

text \<open>What is left of a text has none of the five characters that are special in HTML.\<close>

lemma DecodeRune_bound: "fst (DecodeRune s) < 5 * 262144"
proof -
  have "of_char (s ! n) < (256::nat)" for n by simp
  then show ?thesis unfolding DecodeRune_def Let_def cont_byte_def by (auto simp: less_Suc_eq_le)
qed

lemma runes_bound: "r \<in> set (runes s) \<Longrightarrow> r < 5 * 262144"
proof (induction s rule: runes.induct)
  case (1 s)
  then show ?case
    using DecodeRune_bound [of s] by (subst (asm) (2) runes.simps) (auto split: if_splits)
qed

lemma WriteRune_chars:
  assumes "c \<in> set (WriteRune r)" "r < 5 * 262144"
  shows "(of_char c = r \<and> r < 128) \<or> 128 \<le> (of_char c :: nat)"
proof -
  have "r div 64 < 32" if "r < 2048" using that by simp
  moreover have "r div 4096 < 16" if "r < 65536" using that by simp
  moreover have "r div 262144 < 5" using assms(2) by simp
  ultimately show ?thesis using assms(1) unfolding WriteRune_def by (auto split: if_splits)
qed

lemma SanitizeString_safe: "set (SanitizeString T s) \<inter> {CHR ''<'', CHR ''>'', CHR ''&'', CHR 0x22, CHR 0x27} = {}"
proof -
  have "c \<notin> {CHR ''<'', CHR ''>'', CHR ''&'', CHR 0x22, CHR 0x27}"
    if "r \<in> set (runes (strings_TrimSpace s))" "sanitized_rune T r" "c \<in> set (WriteRune r)" for r c
    using WriteRune_chars [OF that(3) runes_bound [OF that(1)]] that(2) by (auto simp: sanitized_rune_def)
  then show ?thesis unfolding SanitizeString_def by auto
qed

text \<open>Sanitizing is not idempotent: a blank behind a removed character is trimmed the second time only.\<close>

lemma SanitizeString_twice:
  assumes "un_IsPrint T 32" "un_IsPrint T 97"
  shows "SanitizeString T ''< a'' = '' a''" "SanitizeString T '' a'' = ''a''"
proof -
  have t: "strings_TrimSpace ''< a'' = ''< a''" "strings_TrimSpace '' a'' = ''a''" "runes ''< a'' = [60, 32, 97]" "runes ''a'' = [97]"
    "WriteRune 32 = '' ''" "WriteRune 97 = ''a''" by code_simp+
  show "SanitizeString T ''< a'' = '' a''" "SanitizeString T '' a'' = ''a''"
    using assms by (simp_all add: SanitizeString_def t sanitized_rune_def)
qed

text \<open>The texts of the tests of the repository.\<close>

lemma validation_examples:
  "is_ok (ValidateEmail ''test+tag@example.com'')" "\<not> is_ok (ValidateEmail ''testexample.com'')" "\<not> is_ok (ValidateEmail ''test@'')"
  "is_ok (ValidatePhone ''+62123456789'')" "\<not> is_ok (ValidatePhone ''0123456789'')"
  "is_ok (ValidateUsername ''john_doe-1.x'')" "\<not> is_ok (ValidateUsername ''jo'')"
  "is_ok (security_ValidateRedirectURI ''https://app.example.com:8443/cb'')" "\<not> is_ok (security_ValidateRedirectURI ''http://localhost:3000/cb'')"
  by code_simp+

end
