(* ===== verification/DbRules.thy ===== *)
theory DbRules
  imports Admin
begin

text \<open>
  Consistency of the tables as the migrations declare it: primary keys and unique columns, and
  every foreign key has its row. Each statement of the repositories (internal/store/postgres)
  keeps it, whatever its arguments and whether it succeeds or fails.
\<close>

section \<open>Consistency of the tables\<close>

text \<open>Keys are unique.\<close>

definition keys_ok :: "db \<Rightarrow> bool" where
  "keys_ok db \<longleftrightarrow> distinct (map ro_ID (t_roles db)) \<and> distinct (map pe_ID (t_permissions db)) \<and> distinct (t_role_permissions db) \<and>
     distinct (map urr_ID (t_user_roles db)) \<and> distinct (map b_ID (t_branches db)) \<and> distinct (map uba_ID (t_user_branch_assignments db)) \<and>
     distinct (map (\<lambda>a. (uba_UserID a, uba_BranchID a)) (t_user_branch_assignments db)) \<and> distinct (map cl_ID (t_oauth2_clients db)) \<and>
     distinct (map ac_Code (t_oauth2_authorization_codes db)) \<and> distinct (map mc_UserID (t_mfa_configs db)) \<and> distinct (map eo_ID (t_email_otp_codes db))"

text \<open>Every reference has its row.\<close>

definition refs_ok :: "db \<Rightarrow> bool" where
  "refs_ok db \<longleftrightarrow> set (map u_OrgID (t_users db)) \<subseteq> set (t_organizations db) \<and>
     set (map uc_UserID (t_user_credentials db)) \<subseteq> set (map u_ID (t_users db)) \<and>
     set (map vt_UserID (t_verification_tokens db)) \<subseteq> set (map u_ID (t_users db)) \<and>
     set (map mc_UserID (t_mfa_configs db)) \<subseteq> set (map u_ID (t_users db)) \<and>
     set (map eo_UserID (t_email_otp_codes db)) \<subseteq> set (map u_ID (t_users db)) \<and>
     set (map fst (t_role_permissions db)) \<subseteq> set (map ro_ID (t_roles db)) \<and>
     set (map snd (t_role_permissions db)) \<subseteq> set (map pe_ID (t_permissions db)) \<and>
     set (map urr_UserID (t_user_roles db)) \<subseteq> set (map u_ID (t_users db)) \<and>
     set (map urr_RoleID (t_user_roles db)) \<subseteq> set (map ro_ID (t_roles db)) \<and>
     set (map uba_UserID (t_user_branch_assignments db)) \<subseteq> set (map u_ID (t_users db)) \<and>
     set (map uba_BranchID (t_user_branch_assignments db)) \<subseteq> set (map b_ID (t_branches db)) \<and>
     set (map ac_UserID (t_oauth2_authorization_codes db)) \<subseteq> set (map u_ID (t_users db))"

definition db_ok :: "db \<Rightarrow> bool" where
  "db_ok db \<longleftrightarrow> db_wf db \<and> keys_ok db \<and> refs_ok db"

lemma db_okI [intro?]: "db_wf db \<Longrightarrow> keys_ok db \<Longrightarrow> refs_ok db \<Longrightarrow> db_ok db"
  by (simp add: db_ok_def)

lemma db_okD: "db_ok db \<Longrightarrow> db_wf db" "db_ok db \<Longrightarrow> keys_ok db" "db_ok db \<Longrightarrow> refs_ok db"
  by (simp_all add: db_ok_def)

lemma pg_Exec_keep:
  "db_ok db \<Longrightarrow> (\<And>db'. eff = Inr db' \<Longrightarrow> db_ok db') \<Longrightarrow> db_ok (fst (pg_Exec op db eff))"
  by (cases eff) (auto simp: pg_Exec_def)

text \<open>What a new content of one table has to satisfy.\<close>

lemma ok_users:
  assumes "db_ok db" "distinct (map u_ID us)" "distinct (map u_Username us)" "distinct (map u_Email us)"
    "u_ID ` set (t_users db) \<subseteq> u_ID ` set us" "u_OrgID ` set us \<subseteq> set (t_organizations db)"
  shows "db_ok (db\<lparr>t_users := us\<rparr>)"
  using assms unfolding db_ok_def db_wf_def keys_ok_def refs_ok_def by (simp add: order_trans [OF _ assms(5)])

lemma ok_creds:
  assumes "db_ok db" "distinct (map uc_ID cs)" "distinct (map (\<lambda>c. (uc_UserID c, uc_CredentialType c)) cs)" "uc_UserID ` set cs \<subseteq> u_ID ` set (t_users db)"
  shows "db_ok (db\<lparr>t_user_credentials := cs\<rparr>)"
  using assms unfolding db_ok_def db_wf_def keys_ok_def refs_ok_def by simp

lemma ok_history: "db_ok db \<Longrightarrow> distinct (map uh_ID hs) \<Longrightarrow> db_ok (db\<lparr>t_user_credential_history := hs\<rparr>)"
  unfolding db_ok_def db_wf_def keys_ok_def refs_ok_def by simp

lemma ok_vtokens:
  assumes "db_ok db" "distinct (map vt_ID ts)" "distinct (map vt_Token ts)" "vt_UserID ` set ts \<subseteq> u_ID ` set (t_users db)"
  shows "db_ok (db\<lparr>t_verification_tokens := ts\<rparr>)"
  using assms unfolding db_ok_def db_wf_def keys_ok_def refs_ok_def by simp

lemma ok_mfa:
  assumes "db_ok db" "distinct (map mc_UserID ms)" "mc_UserID ` set ms \<subseteq> u_ID ` set (t_users db)"
  shows "db_ok (db\<lparr>t_mfa_configs := ms\<rparr>)"
  using assms unfolding db_ok_def db_wf_def keys_ok_def refs_ok_def by simp

lemma ok_otp:
  assumes "db_ok db" "distinct (map eo_ID es)" "eo_UserID ` set es \<subseteq> u_ID ` set (t_users db)"
  shows "db_ok (db\<lparr>t_email_otp_codes := es\<rparr>)"
  using assms unfolding db_ok_def db_wf_def keys_ok_def refs_ok_def by simp

lemma ok_roles:
  assumes "db_ok db" "distinct (map ro_ID rs)" "fst ` set (t_role_permissions db) \<subseteq> ro_ID ` set rs" "urr_RoleID ` set (t_user_roles db) \<subseteq> ro_ID ` set rs"
  shows "db_ok (db\<lparr>t_roles := rs\<rparr>)"
  using assms unfolding db_ok_def db_wf_def keys_ok_def refs_ok_def by simp

lemma ok_perms:
  assumes "db_ok db" "distinct (map pe_ID ps)" "pe_ID ` set (t_permissions db) \<subseteq> pe_ID ` set ps"
  shows "db_ok (db\<lparr>t_permissions := ps\<rparr>)"
  using assms unfolding db_ok_def db_wf_def keys_ok_def refs_ok_def by (simp add: order_trans [OF _ assms(3)])

lemma ok_role_perms:
  assumes "db_ok db" "distinct rps" "fst ` set rps \<subseteq> ro_ID ` set (t_roles db)" "snd ` set rps \<subseteq> pe_ID ` set (t_permissions db)"
  shows "db_ok (db\<lparr>t_role_permissions := rps\<rparr>)"
  using assms unfolding db_ok_def db_wf_def keys_ok_def refs_ok_def by simp

lemma ok_user_roles:
  assumes "db_ok db" "distinct (map urr_ID urs)" "urr_UserID ` set urs \<subseteq> u_ID ` set (t_users db)" "urr_RoleID ` set urs \<subseteq> ro_ID ` set (t_roles db)"
  shows "db_ok (db\<lparr>t_user_roles := urs\<rparr>)"
  using assms unfolding db_ok_def db_wf_def keys_ok_def refs_ok_def by simp

lemma ok_branches:
  assumes "db_ok db" "distinct (map b_ID bs)" "uba_BranchID ` set (t_user_branch_assignments db) \<subseteq> b_ID ` set bs"
  shows "db_ok (db\<lparr>t_branches := bs\<rparr>)"
  using assms unfolding db_ok_def db_wf_def keys_ok_def refs_ok_def by simp

lemma ok_assignments:
  assumes "db_ok db" "distinct (map uba_ID as)" "distinct (map (\<lambda>a. (uba_UserID a, uba_BranchID a)) as)"
    "uba_UserID ` set as \<subseteq> u_ID ` set (t_users db)" "uba_BranchID ` set as \<subseteq> b_ID ` set (t_branches db)"
  shows "db_ok (db\<lparr>t_user_branch_assignments := as\<rparr>)"
  using assms unfolding db_ok_def db_wf_def keys_ok_def refs_ok_def by simp

lemma ok_clients: "db_ok db \<Longrightarrow> distinct (map cl_ID cs) \<Longrightarrow> db_ok (db\<lparr>t_oauth2_clients := cs\<rparr>)"
  unfolding db_ok_def db_wf_def keys_ok_def refs_ok_def by simp

lemma ok_codes:
  assumes "db_ok db" "distinct (map ac_Code cs)" "ac_UserID ` set cs \<subseteq> u_ID ` set (t_users db)"
  shows "db_ok (db\<lparr>t_oauth2_authorization_codes := cs\<rparr>)"
  using assms unfolding db_ok_def db_wf_def keys_ok_def refs_ok_def by simp

lemma ok_others [simp]: "db_ok (db\<lparr>t_audit_logs := ls\<rparr>) = db_ok db" "db_ok (db\<lparr>t_branch_default_roles := ds\<rparr>) = db_ok db"
  unfolding db_ok_def db_wf_def keys_ok_def refs_ok_def by simp_all

text \<open>What a table satisfies in a consistent database.\<close>

lemma okD:
  assumes "db_ok db"
  shows "distinct (map u_ID (t_users db))" "distinct (map u_Username (t_users db))" "distinct (map u_Email (t_users db))"
    "u_OrgID ` set (t_users db) \<subseteq> set (t_organizations db)"
    "distinct (map uc_ID (t_user_credentials db))" "distinct (map (\<lambda>c. (uc_UserID c, uc_CredentialType c)) (t_user_credentials db))"
    "uc_UserID ` set (t_user_credentials db) \<subseteq> u_ID ` set (t_users db)" "distinct (map uh_ID (t_user_credential_history db))"
    "distinct (map vt_ID (t_verification_tokens db))" "distinct (map vt_Token (t_verification_tokens db))" "vt_UserID ` set (t_verification_tokens db) \<subseteq> u_ID ` set (t_users db)"
    "distinct (map mc_UserID (t_mfa_configs db))" "mc_UserID ` set (t_mfa_configs db) \<subseteq> u_ID ` set (t_users db)"
    "distinct (map eo_ID (t_email_otp_codes db))" "eo_UserID ` set (t_email_otp_codes db) \<subseteq> u_ID ` set (t_users db)"
    "distinct (map ro_ID (t_roles db))" "fst ` set (t_role_permissions db) \<subseteq> ro_ID ` set (t_roles db)" "urr_RoleID ` set (t_user_roles db) \<subseteq> ro_ID ` set (t_roles db)"
    "distinct (map pe_ID (t_permissions db))" "distinct (t_role_permissions db)" "snd ` set (t_role_permissions db) \<subseteq> pe_ID ` set (t_permissions db)"
    "distinct (map urr_ID (t_user_roles db))" "urr_UserID ` set (t_user_roles db) \<subseteq> u_ID ` set (t_users db)"
    "distinct (map b_ID (t_branches db))" "uba_BranchID ` set (t_user_branch_assignments db) \<subseteq> b_ID ` set (t_branches db)"
    "distinct (map uba_ID (t_user_branch_assignments db))" "distinct (map (\<lambda>a. (uba_UserID a, uba_BranchID a)) (t_user_branch_assignments db))"
    "uba_UserID ` set (t_user_branch_assignments db) \<subseteq> u_ID ` set (t_users db)" "distinct (map cl_ID (t_oauth2_clients db))"
    "distinct (map ac_Code (t_oauth2_authorization_codes db))" "ac_UserID ` set (t_oauth2_authorization_codes db) \<subseteq> u_ID ` set (t_users db)"
  using assms unfolding db_ok_def db_wf_def keys_ok_def refs_ok_def by simp_all

lemma image_sql_update [simp]: "(\<And>r. k (f r) = k r) \<Longrightarrow> k ` set (sql_update P f xs) = k ` set xs"
  by (metis set_map sql_update_map)

lemma image_filter: "k ` set xs \<subseteq> A \<Longrightarrow> k ` set (filter P xs) \<subseteq> A"
  by auto

lemma distinct_append_key: "distinct (map k xs) \<Longrightarrow> \<not> (\<exists>x \<in> set xs. k x = k y) \<Longrightarrow> distinct (map k (xs @ [y]))"
  by auto

lemma image_append: "k ` set xs \<subseteq> A \<Longrightarrow> k y \<in> A \<Longrightarrow> k ` set (xs @ [y]) \<subseteq> A"
  by auto

text \<open>The three kinds of statements on a table: insert, update of other columns, delete.\<close>

lemma ok_creds_insert:
  assumes "db_ok db" "\<not> (\<exists>x \<in> set (t_user_credentials db). uc_ID x = uc_ID y)" "\<not> (\<exists>x \<in> set (t_user_credentials db). uc_UserID x = uc_UserID y \<and> uc_CredentialType x = uc_CredentialType y)" "uc_UserID y \<in> u_ID ` set (t_users db)"
  shows "db_ok (db\<lparr>t_user_credentials := t_user_credentials db @ [y]\<rparr>)"
  by (rule ok_creds [OF assms(1)]) (use assms in \<open>auto simp: okD [OF assms(1)]\<close>)

lemma ok_creds_update:
  assumes "db_ok db" "\<And>r. uc_ID (f r) = uc_ID r" "\<And>r. uc_UserID (f r) = uc_UserID r" "\<And>r. uc_CredentialType (f r) = uc_CredentialType r"
  shows "db_ok (db\<lparr>t_user_credentials := sql_update P f (t_user_credentials db)\<rparr>)"
  by (rule ok_creds [OF assms(1)]) (simp_all add: assms(2-) okD [OF assms(1)])

lemma ok_creds_delete: "db_ok db \<Longrightarrow> db_ok (db\<lparr>t_user_credentials := filter P (t_user_credentials db)\<rparr>)"
  by (rule ok_creds) (simp_all add: okD distinct_map_filter image_filter del: set_filter)

lemma ok_vtokens_insert:
  assumes "db_ok db" "\<not> (\<exists>x \<in> set (t_verification_tokens db). vt_ID x = vt_ID y)" "\<not> (\<exists>x \<in> set (t_verification_tokens db). vt_Token x = vt_Token y)" "vt_UserID y \<in> u_ID ` set (t_users db)"
  shows "db_ok (db\<lparr>t_verification_tokens := t_verification_tokens db @ [y]\<rparr>)"
  by (rule ok_vtokens [OF assms(1)]) (use assms in \<open>auto simp: okD [OF assms(1)]\<close>)

lemma ok_vtokens_update:
  assumes "db_ok db" "\<And>r. vt_ID (f r) = vt_ID r" "\<And>r. vt_Token (f r) = vt_Token r" "\<And>r. vt_UserID (f r) = vt_UserID r"
  shows "db_ok (db\<lparr>t_verification_tokens := sql_update P f (t_verification_tokens db)\<rparr>)"
  by (rule ok_vtokens [OF assms(1)]) (simp_all add: assms(2-) okD [OF assms(1)])

lemma ok_vtokens_delete: "db_ok db \<Longrightarrow> db_ok (db\<lparr>t_verification_tokens := filter P (t_verification_tokens db)\<rparr>)"
  by (rule ok_vtokens) (simp_all add: okD distinct_map_filter image_filter del: set_filter)

lemma ok_mfa_insert:
  assumes "db_ok db" "\<not> (\<exists>x \<in> set (t_mfa_configs db). mc_UserID x = mc_UserID y)" "mc_UserID y \<in> u_ID ` set (t_users db)"
  shows "db_ok (db\<lparr>t_mfa_configs := t_mfa_configs db @ [y]\<rparr>)"
  by (rule ok_mfa [OF assms(1)]) (use assms in \<open>auto simp: okD [OF assms(1)]\<close>)

lemma ok_mfa_update:
  assumes "db_ok db" "\<And>r. mc_UserID (f r) = mc_UserID r"
  shows "db_ok (db\<lparr>t_mfa_configs := sql_update P f (t_mfa_configs db)\<rparr>)"
  by (rule ok_mfa [OF assms(1)]) (simp_all add: assms(2-) okD [OF assms(1)])

lemma ok_mfa_delete: "db_ok db \<Longrightarrow> db_ok (db\<lparr>t_mfa_configs := filter P (t_mfa_configs db)\<rparr>)"
  by (rule ok_mfa) (simp_all add: okD distinct_map_filter image_filter del: set_filter)

lemma ok_otp_insert:
  assumes "db_ok db" "\<not> (\<exists>x \<in> set (t_email_otp_codes db). eo_ID x = eo_ID y)" "eo_UserID y \<in> u_ID ` set (t_users db)"
  shows "db_ok (db\<lparr>t_email_otp_codes := t_email_otp_codes db @ [y]\<rparr>)"
  by (rule ok_otp [OF assms(1)]) (use assms in \<open>auto simp: okD [OF assms(1)]\<close>)

lemma ok_otp_update:
  assumes "db_ok db" "\<And>r. eo_ID (f r) = eo_ID r" "\<And>r. eo_UserID (f r) = eo_UserID r"
  shows "db_ok (db\<lparr>t_email_otp_codes := sql_update P f (t_email_otp_codes db)\<rparr>)"
  by (rule ok_otp [OF assms(1)]) (simp_all add: assms(2-) okD [OF assms(1)])

lemma ok_otp_delete: "db_ok db \<Longrightarrow> db_ok (db\<lparr>t_email_otp_codes := filter P (t_email_otp_codes db)\<rparr>)"
  by (rule ok_otp) (simp_all add: okD distinct_map_filter image_filter del: set_filter)

lemma ok_roles_insert:
  assumes "db_ok db" "\<not> (\<exists>x \<in> set (t_roles db). ro_ID x = ro_ID y)"
  shows "db_ok (db\<lparr>t_roles := t_roles db @ [y]\<rparr>)"
  by (rule ok_roles [OF assms(1) distinct_append_key [OF _ assms(2)]]) (simp_all add: okD [OF assms(1)] subset_insertI2)

lemma ok_roles_update:
  assumes "db_ok db" "\<And>r. ro_ID (f r) = ro_ID r"
  shows "db_ok (db\<lparr>t_roles := sql_update P f (t_roles db)\<rparr>)"
  by (rule ok_roles [OF assms(1)]) (simp_all add: assms(2-) okD [OF assms(1)])

lemma ok_perms_insert:
  assumes "db_ok db" "\<not> (\<exists>x \<in> set (t_permissions db). pe_ID x = pe_ID y)"
  shows "db_ok (db\<lparr>t_permissions := t_permissions db @ [y]\<rparr>)"
  by (rule ok_perms [OF assms(1)]) (use assms in \<open>auto simp: okD [OF assms(1)]\<close>)

lemma ok_perms_update:
  assumes "db_ok db" "\<And>r. pe_ID (f r) = pe_ID r"
  shows "db_ok (db\<lparr>t_permissions := sql_update P f (t_permissions db)\<rparr>)"
  by (rule ok_perms [OF assms(1)]) (simp_all add: assms(2-) okD [OF assms(1)])

lemma ok_user_roles_insert:
  assumes "db_ok db" "\<not> (\<exists>x \<in> set (t_user_roles db). urr_ID x = urr_ID y)" "urr_UserID y \<in> u_ID ` set (t_users db)" "urr_RoleID y \<in> ro_ID ` set (t_roles db)"
  shows "db_ok (db\<lparr>t_user_roles := t_user_roles db @ [y]\<rparr>)"
  by (rule ok_user_roles [OF assms(1)]) (use assms in \<open>auto simp: okD [OF assms(1)]\<close>)

lemma ok_user_roles_update:
  assumes "db_ok db" "\<And>r. urr_ID (f r) = urr_ID r" "\<And>r. urr_UserID (f r) = urr_UserID r" "\<And>r. urr_RoleID (f r) = urr_RoleID r"
  shows "db_ok (db\<lparr>t_user_roles := sql_update P f (t_user_roles db)\<rparr>)"
  by (rule ok_user_roles [OF assms(1)]) (simp_all add: assms(2-) okD [OF assms(1)])

lemma ok_user_roles_delete: "db_ok db \<Longrightarrow> db_ok (db\<lparr>t_user_roles := filter P (t_user_roles db)\<rparr>)"
  by (rule ok_user_roles) (simp_all add: okD distinct_map_filter image_filter del: set_filter)

lemma ok_branches_insert:
  assumes "db_ok db" "\<not> (\<exists>x \<in> set (t_branches db). b_ID x = b_ID y)"
  shows "db_ok (db\<lparr>t_branches := t_branches db @ [y]\<rparr>)"
  by (rule ok_branches [OF assms(1) distinct_append_key [OF _ assms(2)]]) (simp_all add: okD [OF assms(1)] subset_insertI2)

lemma ok_branches_update:
  assumes "db_ok db" "\<And>r. b_ID (f r) = b_ID r"
  shows "db_ok (db\<lparr>t_branches := sql_update P f (t_branches db)\<rparr>)"
  by (rule ok_branches [OF assms(1)]) (simp_all add: assms(2-) okD [OF assms(1)])

lemma ok_assignments_insert:
  assumes "db_ok db" "\<not> (\<exists>x \<in> set (t_user_branch_assignments db). uba_ID x = uba_ID y)" "\<not> (\<exists>x \<in> set (t_user_branch_assignments db). uba_UserID x = uba_UserID y \<and> uba_BranchID x = uba_BranchID y)" "uba_UserID y \<in> u_ID ` set (t_users db)" "uba_BranchID y \<in> b_ID ` set (t_branches db)"
  shows "db_ok (db\<lparr>t_user_branch_assignments := t_user_branch_assignments db @ [y]\<rparr>)"
  by (rule ok_assignments [OF assms(1)]) (use assms in \<open>auto simp: okD [OF assms(1)]\<close>)

lemma ok_assignments_update:
  assumes "db_ok db" "\<And>r. uba_ID (f r) = uba_ID r" "\<And>r. uba_UserID (f r) = uba_UserID r" "\<And>r. uba_BranchID (f r) = uba_BranchID r"
  shows "db_ok (db\<lparr>t_user_branch_assignments := sql_update P f (t_user_branch_assignments db)\<rparr>)"
  by (rule ok_assignments [OF assms(1)]) (simp_all add: assms(2-) okD [OF assms(1)])

lemma ok_assignments_delete: "db_ok db \<Longrightarrow> db_ok (db\<lparr>t_user_branch_assignments := filter P (t_user_branch_assignments db)\<rparr>)"
  by (rule ok_assignments) (simp_all add: okD distinct_map_filter image_filter del: set_filter)

lemma ok_clients_insert:
  assumes "db_ok db" "\<not> (\<exists>x \<in> set (t_oauth2_clients db). cl_ID x = cl_ID y)"
  shows "db_ok (db\<lparr>t_oauth2_clients := t_oauth2_clients db @ [y]\<rparr>)"
  by (rule ok_clients [OF assms(1)]) (use assms in \<open>auto simp: okD [OF assms(1)]\<close>)

lemma ok_clients_update:
  assumes "db_ok db" "\<And>r. cl_ID (f r) = cl_ID r"
  shows "db_ok (db\<lparr>t_oauth2_clients := sql_update P f (t_oauth2_clients db)\<rparr>)"
  by (rule ok_clients [OF assms(1)]) (simp_all add: assms(2-) okD [OF assms(1)])

lemma ok_clients_delete: "db_ok db \<Longrightarrow> db_ok (db\<lparr>t_oauth2_clients := filter P (t_oauth2_clients db)\<rparr>)"
  by (rule ok_clients) (simp_all add: okD distinct_map_filter image_filter del: set_filter)

lemma ok_codes_insert:
  assumes "db_ok db" "\<not> (\<exists>x \<in> set (t_oauth2_authorization_codes db). ac_Code x = ac_Code y)" "ac_UserID y \<in> u_ID ` set (t_users db)"
  shows "db_ok (db\<lparr>t_oauth2_authorization_codes := t_oauth2_authorization_codes db @ [y]\<rparr>)"
  by (rule ok_codes [OF assms(1)]) (use assms in \<open>auto simp: okD [OF assms(1)]\<close>)

lemma ok_codes_update:
  assumes "db_ok db" "\<And>r. ac_Code (f r) = ac_Code r" "\<And>r. ac_UserID (f r) = ac_UserID r"
  shows "db_ok (db\<lparr>t_oauth2_authorization_codes := sql_update P f (t_oauth2_authorization_codes db)\<rparr>)"
  by (rule ok_codes [OF assms(1)]) (simp_all add: assms(2-) okD [OF assms(1)])

lemma ok_codes_delete: "db_ok db \<Longrightarrow> db_ok (db\<lparr>t_oauth2_authorization_codes := filter P (t_oauth2_authorization_codes db)\<rparr>)"
  by (rule ok_codes) (simp_all add: okD distinct_map_filter image_filter del: set_filter)

lemma image_delete:
  assumes "R \<subseteq> k ` set xs" "(\<exists>x \<in> set xs. k x = i \<and> Q x) \<longrightarrow> i \<notin> R"
  shows "R \<subseteq> k ` set (filter (\<lambda>x. \<not> (k x = i \<and> Q x)) xs)"
proof
  fix z assume z: "z \<in> R"
  then obtain x where "x \<in> set xs" "z = k x" using assms(1) by blast
  then show "z \<in> k ` set (filter (\<lambda>x. \<not> (k x = i \<and> Q x)) xs)" using z assms(2) by auto
qed

lemma ok_roles_delete:
  assumes "db_ok db" "(\<exists>r \<in> set (t_roles db). ro_ID r = i \<and> ro_OrgID r = g) \<longrightarrow> i \<notin> fst ` set (t_role_permissions db) \<and> i \<notin> urr_RoleID ` set (t_user_roles db)"
  shows "db_ok (db\<lparr>t_roles := filter (\<lambda>r. \<not> (ro_ID r = i \<and> ro_OrgID r = g)) (t_roles db)\<rparr>)"
  by (rule ok_roles [OF assms(1) _ image_delete image_delete]) (use assms(2) in \<open>simp_all add: okD [OF assms(1)] distinct_map_filter\<close>)

lemma ok_branches_delete:
  assumes "db_ok db" "(\<exists>r \<in> set (t_branches db). b_ID r = i \<and> b_OrgID r = g) \<longrightarrow> i \<notin> uba_BranchID ` set (t_user_branch_assignments db)"
  shows "db_ok (db\<lparr>t_branches := filter (\<lambda>r. \<not> (b_ID r = i \<and> b_OrgID r = g)) (t_branches db)\<rparr>)"
  by (rule ok_branches [OF assms(1) _ image_delete]) (use assms(2) in \<open>simp_all add: okD [OF assms(1)] distinct_map_filter\<close>)

text \<open>Every statement keeps the tables consistent.\<close>

named_theorems db_keep

lemma pg_Exec_ok: "pg_Exec op db eff = (db', r) \<Longrightarrow> db_ok db \<Longrightarrow> (\<And>d. eff = Inr d \<Longrightarrow> db_ok d) \<Longrightarrow> db_ok db'"
  by (cases eff) (auto simp: pg_Exec_def split: if_splits)

lemma raw_Exec_ok: "raw_Exec db eff = (db', r) \<Longrightarrow> db_ok db \<Longrightarrow> (\<And>d. eff = Inr d \<Longrightarrow> db_ok d) \<Longrightarrow> db_ok db'"
  by (cases eff) (auto simp: raw_Exec_def split: if_splits)

lemma Users_Create_keep [db_keep]: "Users_Create db user = (db', r) \<Longrightarrow> db_ok db \<Longrightarrow> db_ok db'"
proof -
  assume run: "Users_Create db user = (db', r)" and ok: "db_ok db"
  have wf: "db_wf db'" using Users_Create_wf [OF db_okD(1) [OF ok], of user] run by simp
  have "db' = db \<or> (\<exists>row. db' = db\<lparr>t_users := t_users db @ [row]\<rparr> \<and> u_OrgID row \<in> set (t_organizations db))"
    using run by (auto simp: Users_Create_def Let_def pg_Exec_def split: if_splits option.splits)
  then show ?thesis
  proof (elim disjE exE conjE)
    fix row assume db': "db' = db\<lparr>t_users := t_users db @ [row]\<rparr>" "u_OrgID row \<in> set (t_organizations db)"
    show ?thesis unfolding db'
      by (rule ok_users [OF ok]) (use wf in \<open>simp_all add: db' db_wf_def okD [OF ok] subset_insertI\<close>)
  qed (simp add: ok)
qed

lemma Users_Update_keep [db_keep]: "Users_Update inet db user = (db', r) \<Longrightarrow> db_ok db \<Longrightarrow> db_ok db'"
proof -
  assume run: "Users_Update inet db user = (db', r)" and ok: "db_ok db"
  have wf: "db_wf db'" using Users_Update_wf [OF db_okD(1) [OF ok], of inet user] run by simp
  have "db' = db \<or> (\<exists>P. db' = db\<lparr>t_users := sql_update P (users_set inet user) (t_users db)\<rparr>)"
    using run by (auto simp: Users_Update_def pg_Exec_def split: if_splits option.splits)
  then show ?thesis
  proof (elim disjE exE)
    fix P assume db': "db' = db\<lparr>t_users := sql_update P (users_set inet user) (t_users db)\<rparr>"
    have keep: "u_ID (users_set inet user r) = u_ID r" "u_OrgID (users_set inet user r) = u_OrgID r" for r by (simp_all add: users_set_def)
    show ?thesis unfolding db'
      by (rule ok_users [OF ok]) (use wf in \<open>simp_all add: db' db_wf_def keep okD [OF ok]\<close>)
  qed (simp add: ok)
qed

lemma Users_Delete_keep [db_keep]: "Users_Delete db now i = (db', r) \<Longrightarrow> db_ok db \<Longrightarrow> db_ok db'"
  unfolding Users_Delete_def by (erule pg_Exec_ok, assumption, drule Inr_inject, hypsubst, rule ok_users; simp add: okD)

lemma Credentials_Replace_keep [db_keep]: "Credentials_Replace db now u t h k = (db', r) \<Longrightarrow> db_ok db \<Longrightarrow> db_ok db'"
proof -
  have a: "replace_archive now u t d = Inr d1 \<Longrightarrow> db_ok d \<Longrightarrow> db_ok d1" for d d1 t
    unfolding replace_archive_def Let_def by (split if_split_asm, simp, drule Inr_inject, hypsubst, erule ok_history, simp only: not_not)
  have p: "replace_prune u t k d = Inr d1 \<Longrightarrow> db_ok d \<Longrightarrow> db_ok d1" for d d1 t
    by (auto simp: replace_prune_def Let_def okD distinct_map_filter split: if_splits intro!: ok_history)
  have q: "replace_update now u t h d = Inr d1 \<Longrightarrow> db_ok d \<Longrightarrow> db_ok d1" for d d1 t
    unfolding replace_update_def by (auto simp: ok_creds_update split: if_splits)
  show "Credentials_Replace db now u t h k = (db', r) \<Longrightarrow> db_ok db \<Longrightarrow> db_ok db'"
    by (auto simp: Credentials_Replace_def split: if_splits sum.splits dest: a p q)
qed

lemma OTP_Create_keep [db_keep]: "OTP_Create db e = (db', r) \<Longrightarrow> db_ok db \<Longrightarrow> db_ok db'"
  unfolding OTP_Create_def
  by (erule pg_Exec_ok, assumption, simp split: if_splits option.splits; (elim conjE)?; hypsubst; rule ok_otp_insert; (simp; (metis image_eqI)?)?)

lemma inserts_keep [db_keep]:
  "Credentials_Create db c = (db', r) \<Longrightarrow> db_ok db \<Longrightarrow> db_ok db'"
  "VTokens_Create db t2 = (db', r2) \<Longrightarrow> db_ok db \<Longrightarrow> db_ok db'"
  "MFA_Create db m3 = (db', r3) \<Longrightarrow> db_ok db \<Longrightarrow> db_ok db'"
  "Roles_Create db x4 = (db', r4) \<Longrightarrow> db_ok db \<Longrightarrow> db_ok db'"
  "Perms_Create db p5 = (db', r5) \<Longrightarrow> db_ok db \<Longrightarrow> db_ok db'"
  "UserRoles_Create U6 db ur = (db', r6) \<Longrightarrow> db_ok db \<Longrightarrow> db_ok db'"
  "Branches_Create db b7 = (db', r7) \<Longrightarrow> db_ok db \<Longrightarrow> db_ok db'"
  "Clients_CreateClient U8 db c8 = (db', r8) \<Longrightarrow> db_ok db \<Longrightarrow> db_ok db'"
  unfolding Credentials_Create_def VTokens_Create_def MFA_Create_def Roles_Create_def Perms_Create_def UserRoles_Create_def Branches_Create_def Clients_CreateClient_def
  by (erule pg_Exec_ok, assumption, simp split: if_splits option.splits; (elim conjE)?; hypsubst; (rule ok_creds_insert | rule ok_vtokens_insert | rule ok_mfa_insert | rule ok_roles_insert | rule ok_perms_insert | rule ok_user_roles_insert | rule ok_branches_insert | rule ok_clients_insert); (simp; blast?)?)+

lemma updates_keep [db_keep]:
  "VTokens_MarkUsed db now i = (db', r) \<Longrightarrow> db_ok db \<Longrightarrow> db_ok db'"
  "VTokens_DeleteByUserID db i2 = (db', r2) \<Longrightarrow> db_ok db \<Longrightarrow> db_ok db'"
  "MFA_Update db now m3 = (db', r3) \<Longrightarrow> db_ok db \<Longrightarrow> db_ok db'"
  "MFA_Delete db i4 = (db', r4) \<Longrightarrow> db_ok db \<Longrightarrow> db_ok db'"
  "OTP_MarkUsed db now i5 = (db', r5) \<Longrightarrow> db_ok db \<Longrightarrow> db_ok db'"
  "OTP_IncrementAttempts db i6 = (db', r6) \<Longrightarrow> db_ok db \<Longrightarrow> db_ok db'"
  "OTP_DeleteByUserID db i7 = (db', r7) \<Longrightarrow> db_ok db \<Longrightarrow> db_ok db'"
  "Roles_Update db x8 = (db', r8) \<Longrightarrow> db_ok db \<Longrightarrow> db_ok db'"
  "UserRoles_Revoke U9 db now i9 g9 b9 = (db', r9) \<Longrightarrow> db_ok db \<Longrightarrow> db_ok db'"
  "UserRoles_RevokeByUserAndRole U10 db now u10 i10 g10 b10 = (db', r10) \<Longrightarrow> db_ok db \<Longrightarrow> db_ok db'"
  "Branches_Update db b11 = (db', r11) \<Longrightarrow> db_ok db \<Longrightarrow> db_ok db'"
  "Assignments_Delete db i12 = (db', r12) \<Longrightarrow> db_ok db \<Longrightarrow> db_ok db'"
  "Assignments_Revoke db now i13 b13 = (db', r13) \<Longrightarrow> db_ok db \<Longrightarrow> db_ok db'"
  "Audit_Create op db e14 = (db', r14) \<Longrightarrow> db_ok db \<Longrightarrow> db_ok db'"
  "Clients_UpdateClient U15 db c15 = (db', r15) \<Longrightarrow> db_ok db \<Longrightarrow> db_ok db'"
  "Clients_DeleteClient db i16 = (db', r16) \<Longrightarrow> db_ok db \<Longrightarrow> db_ok db'"
  "Codes_MarkUsed db i17 = (db', r17) \<Longrightarrow> db_ok db \<Longrightarrow> db_ok db'"
  "Codes_Delete db i18 = (db', r18) \<Longrightarrow> db_ok db \<Longrightarrow> db_ok db'"
  unfolding VTokens_MarkUsed_def VTokens_DeleteByUserID_def MFA_Update_def MFA_Delete_def OTP_MarkUsed_def OTP_IncrementAttempts_def OTP_DeleteByUserID_def Roles_Update_def UserRoles_Revoke_def UserRoles_RevokeByUserAndRole_def Branches_Update_def Assignments_Delete_def Assignments_Revoke_def Audit_Create_def Clients_UpdateClient_def Clients_DeleteClient_def Codes_MarkUsed_def Codes_Delete_def
  by (erule pg_Exec_ok, assumption, auto split: if_splits option.splits intro!: ok_vtokens_update ok_vtokens_delete ok_mfa_update ok_mfa_delete ok_otp_update ok_otp_delete ok_roles_update ok_user_roles_update ok_branches_update ok_assignments_delete ok_assignments_update ok_clients ok_clients_update ok_clients_delete ok_codes_update ok_codes_delete)+

lemma Roles_Delete_keep [db_keep]: "Roles_Delete db i g = (db', r) \<Longrightarrow> db_ok db \<Longrightarrow> db_ok db'"
  unfolding Roles_Delete_def
  by (erule pg_Exec_ok, assumption, split if_split_asm, simp, drule Inr_inject, hypsubst, rule ok_roles_delete, assumption, blast)

lemma Branches_Delete_keep [db_keep]: "Branches_Delete U db i g = (db', r) \<Longrightarrow> db_ok db \<Longrightarrow> db_ok db'"
  unfolding Branches_Delete_def
  by (erule pg_Exec_ok, assumption, split if_split_asm, simp, drule Inr_inject, hypsubst, rule ok_branches_delete, assumption, blast)

lemma Codes_Create_keep [db_keep]: "Codes_Create U db c = (db', r) \<Longrightarrow> db_ok db \<Longrightarrow> db_ok db'"
  unfolding Codes_Create_def
  by (erule pg_Exec_ok, assumption, simp split: if_splits option.splits; (elim conjE)?; hypsubst; rule ok_codes_insert; (simp add: code_row_def; (metis image_eqI)?)?)

lemma Assignments_Create_keep [db_keep]: "Assignments_Create db a = (db', r) \<Longrightarrow> db_ok db \<Longrightarrow> db_ok db'"
  unfolding Assignments_Create_def
proof (erule pg_Exec_ok, assumption, split if_split_asm, goal_cases)
  case (2 d)
  then show ?case
    by (simp only: sum.inject sum.distinct split: if_split_asm) (erule subst, rule ok_assignments_insert; auto dest: image_eqI [where f = uba_ID, OF sym])
qed simp

lemma RolePerms_Assign_keep [db_keep]: "RolePerms_Assign db i j = (db', r) \<Longrightarrow> db_ok db \<Longrightarrow> db_ok db'"
proof -
  have *: "db_ok (db\<lparr>t_role_permissions := t_role_permissions db @ [(i, j)]\<rparr>)"
    if "db_ok db" "(i, j) \<notin> set (t_role_permissions db)" "i \<in> ro_ID ` set (t_roles db)" "j \<in> pe_ID ` set (t_permissions db)"
    by (rule ok_role_perms) (use that in \<open>simp_all add: okD\<close>)
  show "RolePerms_Assign db i j = (db', r) \<Longrightarrow> db_ok db \<Longrightarrow> db_ok db'"
    unfolding RolePerms_Assign_def
    by (erule pg_Exec_ok, assumption) (simp only: split: if_splits, simp_all, (elim conjE)?, hypsubst?, rule *; assumption)
qed

lemma ok_role_perms_delete: "db_ok db \<Longrightarrow> db_ok (db\<lparr>t_role_permissions := filter P (t_role_permissions db)\<rparr>)"
  by (rule ok_role_perms) (simp_all add: okD image_filter del: set_filter)

lemma RolePerms_Revoke_keep [db_keep]: "RolePerms_Revoke db i j = (db', r) \<Longrightarrow> db_ok db \<Longrightarrow> db_ok db'"
  unfolding RolePerms_Revoke_def by (erule pg_Exec_ok) (auto simp: ok_role_perms_delete)

lemma RolePerms_DeleteByRole_keep [db_keep]: "RolePerms_DeleteByRole db i = (db', r) \<Longrightarrow> db_ok db \<Longrightarrow> db_ok db'"
  unfolding RolePerms_DeleteByRole_def by (erule pg_Exec_ok) (auto simp: ok_role_perms_delete)

lemma db_empty_ok: "db_ok (db_empty\<lparr>db_archived := a, t_organizations := orgs\<rparr>)"
  by (simp add: db_ok_def db_wf_def keys_ok_def refs_ok_def db_empty_def)

lemma db_ok_outage [simp]: "db_ok (db\<lparr>db_down := d\<rparr>) = db_ok db" "db_ok (db\<lparr>db_scan := s\<rparr>) = db_ok db"
  by (simp_all add: db_ok_def db_wf_def keys_ok_def refs_ok_def)

end
