(* ===== verification/DbInv.thy ===== *)
theory DbInv
  imports DbRules WfCallback AuthRest OAuth2Rest BranchSync Mfa AdminRest
begin

text \<open>
  The tables stay consistent under every operation of the service that writes them: the services
  and endpoints of the components, composed into one step relation, starting from empty tables.
\<close>

section \<open>Services\<close>

lemmas db_splits = prod.splits sum.splits option.splits response.splits if_splits

lemmas db_keep_fst = Users_Update_keep [OF prod.collapse [symmetric]] updates_keep [OF prod.collapse [symmetric]]

lemma update_user_flags_keep: "db_ok db \<Longrightarrow> db_ok (update_user_flags h db u f)"
  by (simp add: update_user_flags_def db_keep_fst split: sum.splits)

lemma account_services_keep [db_keep]:
  "Register a db b c e = (db', r) \<Longrightarrow> db_ok db \<Longrightarrow> db_ok db'"
  "VerifyEmail a2 db b2 c2 = (db', r2) \<Longrightarrow> db_ok db \<Longrightarrow> db_ok db'"
  "RecoverPassword a3 db b3 c3 e3 = (db', r3) \<Longrightarrow> db_ok db \<Longrightarrow> db_ok db'"
  "ResetPassword a4 db b4 c4 e4 f4 = (db', r4) \<Longrightarrow> db_ok db \<Longrightarrow> db_ok db'"
  "ChangePassword a5 db b5 c5 e5 f5 g5 = (db', r5) \<Longrightarrow> db_ok db \<Longrightarrow> db_ok db'"
  unfolding Register_def VerifyEmail_def RecoverPassword_def ResetPassword_def ChangePassword_def Let_def
  by (auto split: db_splits dest!: db_keep)

lemma client_services_keep [db_keep]:
  "CreateWithSecretHash a db b c e f g = (db', r) \<Longrightarrow> db_ok db \<Longrightarrow> db_ok db'"
  "Client_Delete a2 db b2 = (db', r2) \<Longrightarrow> db_ok db \<Longrightarrow> db_ok db'"
  unfolding CreateWithSecretHash_def Client_Delete_def Let_def
  by (auto split: db_splits dest!: db_keep)

lemma Client_Create_keep [db_keep]: "Client_Create a db b c e f g nil = (db', r) \<Longrightarrow> db_ok db \<Longrightarrow> db_ok db'"
  unfolding Client_Create_def Let_def
  by (auto simp: pg_Exec_def split: db_splits dest!: db_keep split: if_splits)

lemma user_services_keep [db_keep]:
  "adminUserSvc_CreateUser a db b c e f = (db', r) \<Longrightarrow> db_ok db \<Longrightarrow> db_ok db'"
  "adminUserSvc_UpdateUser a2 db b2 c2 e2 f2 = (db', r2) \<Longrightarrow> db_ok db \<Longrightarrow> db_ok db'"
  "adminUserSvc_DeleteUser db a3 b3 c3 = (db', r3) \<Longrightarrow> db_ok db \<Longrightarrow> db_ok db'"
  "updateUserStatus a4 db b4 c4 e4 = (db', r4) \<Longrightarrow> db_ok db \<Longrightarrow> db_ok db'"
  unfolding adminUserSvc_CreateUser_def adminUserSvc_UpdateUser_def adminUserSvc_DeleteUser_def updateUserStatus_def Let_def
  by (auto split: db_splits dest!: db_keep)

lemma status_services_keep [db_keep]:
  "adminUserSvc_LockUser a db b c e = (db', r) \<Longrightarrow> db_ok db \<Longrightarrow> db_ok db'"
  "adminUserSvc_UnlockUser a2 db b2 c2 e2 = (db', r2) \<Longrightarrow> db_ok db \<Longrightarrow> db_ok db'"
  "adminUserSvc_SuspendUser a3 db b3 c3 e3 = (db', r3) \<Longrightarrow> db_ok db \<Longrightarrow> db_ok db'"
  unfolding adminUserSvc_LockUser_def adminUserSvc_UnlockUser_def adminUserSvc_SuspendUser_def Let_def
  by (auto split: db_splits dest!: db_keep)

lemma assign_each_keep [db_keep]: "assign_each db i js = (db', r) \<Longrightarrow> db_ok db \<Longrightarrow> db_ok db'"
  by (induction db i js rule: assign_each.induct) (auto split: prod.splits sum.splits dest: db_keep)

lemma AssignPermissions_keep [db_keep]: "AssignPermissions db a b = (db', r) \<Longrightarrow> db_ok db \<Longrightarrow> db_ok db'"
  unfolding AssignPermissions_def Let_def
  by (auto split: db_splits dest!: db_keep)

lemma role_services_keep [db_keep]:
  "adminRoleSvc_CreateRole db a b c e = (db', r) \<Longrightarrow> db_ok db \<Longrightarrow> db_ok db'"
  "adminRoleSvc_UpdateRole db a2 b2 c2 e2 = (db', r2) \<Longrightarrow> db_ok db \<Longrightarrow> db_ok db'"
  "adminRoleSvc_DeleteRole db a3 b3 = (db', r3) \<Longrightarrow> db_ok db \<Longrightarrow> db_ok db'"
  "adminUserRoleSvc_AssignRole a4 db b4 c4 e4 f4 g4 h4 i4 = (db', r4) \<Longrightarrow> db_ok db \<Longrightarrow> db_ok db'"
  "adminUserRoleSvc_RevokeRole a5 db b5 c5 e5 f5 g5 = (db', r5) \<Longrightarrow> db_ok db \<Longrightarrow> db_ok db'"
  unfolding adminRoleSvc_CreateRole_def adminRoleSvc_UpdateRole_def adminRoleSvc_DeleteRole_def adminUserRoleSvc_AssignRole_def adminUserRoleSvc_RevokeRole_def Let_def
  by (auto split: db_splits dest!: db_keep)

lemma adminOAuth2ClientSvc_CreateClient_keep [db_keep]: "adminOAuth2ClientSvc_CreateClient a db b c e f = (db', r) \<Longrightarrow> db_ok db \<Longrightarrow> db_ok db'"
  unfolding adminOAuth2ClientSvc_CreateClient_def Let_def
  by (auto split: db_splits dest!: db_keep)

lemma adminOAuth2ClientSvc_UpdateClient_keep [db_keep]: "adminOAuth2ClientSvc_UpdateClient db a i g b = (db', r) \<Longrightarrow> db_ok db \<Longrightarrow> db_ok db'"
  unfolding adminOAuth2ClientSvc_UpdateClient_def Let_def
  by (auto split: prod.splits sum.splits option.splits elim!: raw_Exec_ok intro!: ok_clients_update)

lemma adminOAuth2ClientSvc_DeleteClient_keep [db_keep]: "adminOAuth2ClientSvc_DeleteClient db i = (db', r) \<Longrightarrow> db_ok db \<Longrightarrow> db_ok db'"
  unfolding adminOAuth2ClientSvc_DeleteClient_def by (erule raw_Exec_ok) (auto intro!: ok_clients_delete)

lemma branch_services_keep [db_keep]:
  "adminBranchSvc_CreateBranch db a b c e = (db', r) \<Longrightarrow> db_ok db \<Longrightarrow> db_ok db'"
  "adminBranchSvc_UpdateBranch db a2 b2 c2 e2 = (db', r2) \<Longrightarrow> db_ok db \<Longrightarrow> db_ok db'"
  "adminBranchSvc_DeleteBranch a3 db b3 c3 = (db', r3) \<Longrightarrow> db_ok db \<Longrightarrow> db_ok db'"
  "adminBranchSvc_AssignUserToBranch db a4 b4 c4 e4 f4 g4 = (db', r4) \<Longrightarrow> db_ok db \<Longrightarrow> db_ok db'"
  "adminBranchSvc_RevokeUserBranch db a5 b5 c5 e5 = (db', r5) \<Longrightarrow> db_ok db \<Longrightarrow> db_ok db'"
  unfolding adminBranchSvc_CreateBranch_def adminBranchSvc_UpdateBranch_def adminBranchSvc_DeleteBranch_def adminBranchSvc_AssignUserToBranch_def adminBranchSvc_RevokeUserBranch_def Let_def
  by (auto split: db_splits dest!: db_keep)

lemma PGStore_Create_keep [db_keep]: "PGStore_Create db a = (db', r) \<Longrightarrow> db_ok db \<Longrightarrow> db_ok db'"
  unfolding PGStore_Create_def Let_def
  by (auto split: db_splits dest!: db_keep)

lemma Log_keep [db_keep]: "Log a b db c e f g = (db', r) \<Longrightarrow> db_ok db \<Longrightarrow> db_ok db'"
  unfolding Log_def Let_def
  by (auto split: db_splits dest!: db_keep)

lemma CreateAuthCode_keep [db_keep]: "CreateAuthCode (pg_codes U) db a b p = (db', r) \<Longrightarrow> db_ok db \<Longrightarrow> db_ok db'"
  unfolding CreateAuthCode_def Let_def pg_codes_def by (auto split: prod.splits sum.splits if_splits dest: db_keep)

lemma ExchangeAuthCode_keep [db_keep]: "ExchangeAuthCode L (pg_codes U) db a b p = (db', r) \<Longrightarrow> db_ok db \<Longrightarrow> db_ok db'"
  unfolding ExchangeAuthCode_def Let_def pg_codes_def
  by (auto simp: db_keep_fst split: prod.splits sum.splits if_splits option.splits dest: db_keep)

lemma ExchangeCodeForTokens_keep [db_keep]: "ExchangeCodeForTokens a b c (db, rs) e f g h i = ((db', rs'), r) \<Longrightarrow> db_ok db \<Longrightarrow> db_ok db'"
  unfolding ExchangeCodeForTokens_def Let_def
  by (auto split: db_splits dest!: db_keep)

section \<open>Endpoints\<close>

lemma oauth2_endpoints_keep [db_keep]:
  "handleAuthorize a db b c e = (db', r) \<Longrightarrow> db_ok db \<Longrightarrow> db_ok db'"
  "handleAuthorizeWithSession a2 (db, rs) b2 c2 e2 f2 = (db', r2) \<Longrightarrow> db_ok db \<Longrightarrow> db_ok db'"
  "handleTokenExchange a3 (db, rs) b3 c3 e3 = ((db', rs'), r3) \<Longrightarrow> db_ok db \<Longrightarrow> db_ok db'"
  "handleDCR a4 db b4 c4 e4 f4 g4 = (db', r4) \<Longrightarrow> db_ok db \<Longrightarrow> db_ok db'"
  unfolding handleAuthorize_def handleAuthorizeWithSession_def handleTokenExchange_def handleDCR_def Let_def
  by (auto split: db_splits dest!: db_keep)

lemma handleToken_keep [db_keep]: "handleToken a (db, rs) b c e = ((db', rs'), r) \<Longrightarrow> db_ok db \<Longrightarrow> db_ok db'"
  unfolding handleToken_def Let_def
  by (auto split: db_splits dest!: db_keep)

lemma login_endpoints_keep [db_keep]:
  "HandleRegister a db b c e = (db', r) \<Longrightarrow> db_ok db \<Longrightarrow> db_ok db'"
  "HandleUpdateProfile a2 (db, rs) b2 c2 e2 = (db', r2) \<Longrightarrow> db_ok db \<Longrightarrow> db_ok db'"
  "HandleMFAVerify a3 db b3 c3 = (db', r3) \<Longrightarrow> db_ok db \<Longrightarrow> db_ok db'"
  "HandleMFADisable a4 db b4 c4 = (db', r4) \<Longrightarrow> db_ok db \<Longrightarrow> db_ok db'"
  "HandleChangePassword a5 (db, rs) b5 c5 e5 f5 = (db', r5) \<Longrightarrow> db_ok db \<Longrightarrow> db_ok db'"
  "HandleInitialChangePassword a6 db b6 c6 e6 = (db', r6) \<Longrightarrow> db_ok db \<Longrightarrow> db_ok db'"
  "HandleForgotPassword a7 db b7 c7 e7 = (db', r7) \<Longrightarrow> db_ok db \<Longrightarrow> db_ok db'"
  "HandleResetPassword a8 db b8 c8 e8 = (db', r8) \<Longrightarrow> db_ok db \<Longrightarrow> db_ok db'"
  unfolding HandleRegister_def HandleUpdateProfile_def HandleMFAVerify_def HandleMFADisable_def HandleChangePassword_def HandleInitialChangePassword_def HandleForgotPassword_def HandleResetPassword_def Let_def
  by (auto simp: db_keep_fst update_user_flags_keep split: db_splits dest!: db_keep)

section \<open>Workflow callbacks\<close>

lemma assign_roles_keep [db_keep]: "assign_roles U db a ids u g b ms = (db', r) \<Longrightarrow> db_ok db \<Longrightarrow> db_ok db'"
  by (induction ms arbitrary: db ids) (auto split: prod.splits sum.splits option.splits dest!: db_keep)

lemma revoke_each_keep [db_keep]: "revoke_each U db a u g b is = (db', r) \<Longrightarrow> db_ok db \<Longrightarrow> db_ok db'"
  by (induction "is" arbitrary: db) (auto split: prod.splits sum.splits dest!: db_keep)

lemma grant_each_keep [db_keep]: "grant_each U db a ids u g b is = (db', r) \<Longrightarrow> db_ok db \<Longrightarrow> db_ok db'"
  by (induction "is" arbitrary: db ids) (auto split: prod.splits sum.splits dest!: db_keep)

lemma sb_steps_ok:
  "db_ok db \<Longrightarrow> db_ok (sb_clear u db)" "db_ok db \<Longrightarrow> db_ok (sb_revoke now u a i db)" "db_ok db \<Longrightarrow> db_ok (sb_primary u i db)"
  by (simp_all add: sb_clear_def sb_revoke_def sb_primary_def ok_assignments_update)

lemma sb_upsert_db_ok: "sb_upsert now n g u a i db = Inr db' \<Longrightarrow> db_ok db \<Longrightarrow> db_ok db'"
  unfolding sb_upsert_def
  by (split if_split_asm, simp, hypsubst, rule ok_assignments_update; simp?)
    (simp only: sum.inject sum.distinct split: if_split_asm, erule subst, rule ok_assignments_insert; force)

lemma sb_upserts_db_ok: "sb_upserts now ids g u a is db = Inr db' \<Longrightarrow> db_ok db \<Longrightarrow> db_ok db'"
  by (induction "is" arbitrary: db ids) (auto split: sum.splits dest: sb_upsert_db_ok)

lemma set_branches_tx_ok: "set_branches_tx db now ids g u a i bs = Inr db' \<Longrightarrow> db_ok db \<Longrightarrow> db_ok db'"
proof -
  have "db_ok (fold (sb_revoke now u a) is d)" if "db_ok d" for "is" d
    using that by (induction "is" arbitrary: d) (simp_all add: sb_steps_ok)
  then show "set_branches_tx db now ids g u a i bs = Inr db' \<Longrightarrow> db_ok db \<Longrightarrow> db_ok db'"
    by (auto simp: set_branches_tx_def Let_def sb_steps_ok split: if_splits sum.splits dest: sb_upserts_db_ok)
qed

lemma bdr_inserts_ok: "bdr_inserts U i is db = Inr db' \<Longrightarrow> db_ok db \<Longrightarrow> db_ok db'"
  by (induction "is" arbitrary: db) (auto simp: bdr_insert_def split: option.splits)

lemma bdr_clear_ok [simp]: "db_ok (bdr_clear i db) = db_ok db"
  by (simp add: bdr_clear_def)

lemma statusChange_ok:
  "statusChange h x fn db p b = (db', r) \<Longrightarrow> (\<And>db i g db' r. fn db i g = (db', r) \<Longrightarrow> db_ok db \<Longrightarrow> db_ok db') \<Longrightarrow> db_ok db \<Longrightarrow> db_ok db'"
  unfolding statusChange_def Let_def by (auto split: db_splits)

lemma handleWfLock_keep [db_keep]: "handleWfLock h db a p b = (db', r) \<Longrightarrow> db_ok db \<Longrightarrow> db_ok db'"
  unfolding handleWfLock_def by (erule statusChange_ok) (auto dest: db_keep)

lemma handleWfUnlock_keep [db_keep]: "handleWfUnlock h db a p b = (db', r) \<Longrightarrow> db_ok db \<Longrightarrow> db_ok db'"
  unfolding handleWfUnlock_def by (erule statusChange_ok) (auto dest: db_keep)

lemma wf_user_keep [db_keep]:
  "handleWfCreate a db b c e = (db', r) \<Longrightarrow> db_ok db \<Longrightarrow> db_ok db'"
  "handleWfUpdate a2 db b2 c2 e2 = (db', r2) \<Longrightarrow> db_ok db \<Longrightarrow> db_ok db'"
  "handleWfDelete a3 db b3 c3 e3 = (db', r3) \<Longrightarrow> db_ok db \<Longrightarrow> db_ok db'"
  "handleWfSetRoles a4 db b4 c4 e4 f4 = (db', r4) \<Longrightarrow> db_ok db \<Longrightarrow> db_ok db'"
  unfolding handleWfCreate_def handleWfUpdate_def handleWfDelete_def handleWfSetRoles_def Let_def
  by (auto split: db_splits dest!: db_keep)

lemma handleWfSetBranches_keep [db_keep]: "handleWfSetBranches a db b c e f = (db', r) \<Longrightarrow> db_ok db \<Longrightarrow> db_ok db'"
  unfolding handleWfSetBranches_def Let_def
  by (auto split: db_splits dest: set_branches_tx_ok)

lemma wf_role_client_keep [db_keep]:
  "role_handleWfCreate a db b c e = (db', r) \<Longrightarrow> db_ok db \<Longrightarrow> db_ok db'"
  "role_handleWfUpdate a2 db b2 c2 e2 = (db', r2) \<Longrightarrow> db_ok db \<Longrightarrow> db_ok db'"
  "role_handleWfDelete a3 db b3 c3 = (db', r3) \<Longrightarrow> db_ok db \<Longrightarrow> db_ok db'"
  "handleWfSetPermissions a4 db b4 c4 = (db', r4) \<Longrightarrow> db_ok db \<Longrightarrow> db_ok db'"
  "client_handleWfCreate a5 db b5 c5 e5 = (db', r5) \<Longrightarrow> db_ok db \<Longrightarrow> db_ok db'"
  "client_handleWfUpdate a6 db b6 c6 e6 = (db', r6) \<Longrightarrow> db_ok db \<Longrightarrow> db_ok db'"
  "client_handleWfDelete a7 db b7 c7 = (db', r7) \<Longrightarrow> db_ok db \<Longrightarrow> db_ok db'"
  unfolding role_handleWfCreate_def role_handleWfUpdate_def role_handleWfDelete_def handleWfSetPermissions_def client_handleWfCreate_def client_handleWfUpdate_def client_handleWfDelete_def Let_def
  by (auto split: db_splits dest!: db_keep)

lemma handleWfSetDefaultRoles_keep [db_keep]: "handleWfSetDefaultRoles a db b c = (db', r) \<Longrightarrow> db_ok db \<Longrightarrow> db_ok db'"
  unfolding handleWfSetDefaultRoles_def Let_def
  by (auto split: db_splits dest: bdr_inserts_ok)

lemma handlePutBranchDefaultRoles_keep [db_keep]: "handlePutBranchDefaultRoles a db b c = (db', r) \<Longrightarrow> db_ok db \<Longrightarrow> db_ok db'"
  unfolding handlePutBranchDefaultRoles_def Let_def
  by (auto split: db_splits dest: bdr_inserts_ok)

section \<open>Branch synchronisation\<close>

lemma upsert_branch_ok: "upsert_branch now g i c act db = Inr db' \<Longrightarrow> db_ok db \<Longrightarrow> db_ok db'"
  unfolding upsert_branch_def Let_def
  by (auto simp: find_None_iff split: if_splits option.splits intro!: ok_branches_insert ok_branches_update)

lemma upsert_items_ok: "upsert_items U now g items db seen n = (seen', Inr (db', k)) \<Longrightarrow> db_ok db \<Longrightarrow> db_ok db'"
  by (induction U now g items db seen n rule: upsert_items.induct) (auto split: option.splits sum.splits dest: upsert_branch_ok)

lemma upsertBatch_ok: "upsertBatch U p now items (db, seen) = ((db', seen'), r) \<Longrightarrow> db_ok db \<Longrightarrow> db_ok db'"
  by (auto simp: upsertBatch_def split: if_splits prod.splits sum.splits dest: upsert_items_ok)

lemma tick_pages_ok:
  assumes "tick_pages U p H clock k st n = Some ((db', seen'), r)" "db_ok (fst st)"
  shows "db_ok db'"
proof -
  have "db_ok (fst st) \<longrightarrow> db_ok (fst (fst y))" if "tick_pages U p H clock k st n = Some y" for y
    using that
  proof (induction rule: tick_pages.raw_induct [rotated 1, consumes 1, case_names step])
    case (step rec U p H clock k st n y)
    obtain db seen where st: "st = (db, seen)" by (cases st)
    consider "fst y = st" | items st1 m where "upsertBatch U p (clock k) items st = (st1, m)" "fst y = st1"
      | items st1 m n' where "upsertBatch U p (clock k) items st = (st1, m)" "rec U p H clock (Suc k) st1 n' = Some y"
      using step(2) by (auto split: sum.splits if_splits prod.splits)
    then show ?case
    proof cases
      case (2 items st1 m)
      then show ?thesis using upsertBatch_ok [of U p "clock k" items db seen "fst st1" "snd st1" m] st by simp
    next
      case (3 items st1 m n')
      then show ?thesis using step(1) [OF 3(2)] upsertBatch_ok [of U p "clock k" items db seen "fst st1" "snd st1" m] st by simp
    qed simp
  qed
  from this [OF assms(1)] show ?thesis using assms(2) by simp
qed

lemma tick_ok: "tick U p H clock fin db = Some (db', r) \<Longrightarrow> db_ok db \<Longrightarrow> db_ok db'"
  unfolding tick_def deactivateAbsent_def Let_def
  by (auto split: option.splits prod.splits sum.splits if_splits dest!: tick_pages_ok intro!: ok_branches_update)

section \<open>Second factor\<close>

lemma factor_services_keep [db_keep]:
  "Enroll a db b c e = (db', r) \<Longrightarrow> db_ok db \<Longrightarrow> db_ok db'"
  "totp_Enable a2 (db, rs) b2 c2 e2 = ((db', rs'), r2) \<Longrightarrow> db_ok db \<Longrightarrow> db_ok db'"
  "totp_Verify a3 (db, rs) b3 c3 e3 = ((db', rs'), r3) \<Longrightarrow> db_ok db \<Longrightarrow> db_ok db'"
  "otp_Generate a4 (db, rs) b4 c4 e4 f4 = ((db', rs'), r4) \<Longrightarrow> db_ok db \<Longrightarrow> db_ok db'"
  "otp_Verify a5 (db, rs) b5 c5 e5 f5 = ((db', rs'), r5) \<Longrightarrow> db_ok db \<Longrightarrow> db_ok db'"
  "CleanupExpired db a6 = (db', r6) \<Longrightarrow> db_ok db \<Longrightarrow> db_ok db'"
  "backup_Generate a7 db b7 c7 e7 = (db', r7) \<Longrightarrow> db_ok db \<Longrightarrow> db_ok db'"
  "backup_Verify a8 db b8 c8 e8 = (db', r8) \<Longrightarrow> db_ok db \<Longrightarrow> db_ok db'"
  unfolding Enroll_def totp_Enable_def totp_Verify_def otp_Generate_def otp_Verify_def CleanupExpired_def backup_Generate_def backup_Verify_def Let_def
  by (auto simp: db_keep_fst split: db_splits dest!: db_keep)

lemma mfa_services_keep [db_keep]:
  "EnrollTOTP a db b c e = (db', r) \<Longrightarrow> db_ok db \<Longrightarrow> db_ok db'"
  "EnableTOTP a2 (db, rs) b2 c2 e2 = ((db', rs'), r2) \<Longrightarrow> db_ok db \<Longrightarrow> db_ok db'"
  "VerifyTOTP a3 (db, rs) b3 c3 e3 = ((db', rs'), r3) \<Longrightarrow> db_ok db \<Longrightarrow> db_ok db'"
  "EnrollEmailOTP a4 (db, rs) b4 c4 e4 = ((db', rs'), r4) \<Longrightarrow> db_ok db \<Longrightarrow> db_ok db'"
  "VerifyEmailOTP a5 (db, rs) b5 c5 e5 f5 = ((db', rs'), r5) \<Longrightarrow> db_ok db \<Longrightarrow> db_ok db'"
  "GenerateBackupCodes a6 db b6 c6 e6 = (db', r6) \<Longrightarrow> db_ok db \<Longrightarrow> db_ok db'"
  "VerifyBackupCode a7 db b7 c7 e7 = (db', r7) \<Longrightarrow> db_ok db \<Longrightarrow> db_ok db'"
  "step_up_verify a8 (db, rs) b8 c8 e8 f8 = ((db', rs'), r8) \<Longrightarrow> db_ok db \<Longrightarrow> db_ok db'"
  "setup_method a9 (db, rs) b9 c9 e9 f9 g9 h9 = ((db', rs'), r9) \<Longrightarrow> db_ok db \<Longrightarrow> db_ok db'"
  unfolding EnrollTOTP_def EnableTOTP_def VerifyTOTP_def EnrollEmailOTP_def VerifyEmailOTP_def GenerateBackupCodes_def VerifyBackupCode_def step_up_verify_def setup_method_def Let_def
  by (auto split: db_splits dest!: db_keep)

lemma mfa_setup_keep [db_keep]:
  "StepUpAuth a (db, rs) b c e f = ((db', rs'), r) \<Longrightarrow> db_ok db \<Longrightarrow> db_ok db'"
  "SetupMFA a2 (db, rs) b2 c2 e2 f2 g2 h2 = ((db', rs'), r2) \<Longrightarrow> db_ok db \<Longrightarrow> db_ok db'"
  unfolding StepUpAuth_def SetupMFA_def Let_def
  by (auto simp: db_keep_fst split: db_splits dest!: db_keep)

lemma map_prod_id_iff: "map_prod id f p = (a, b) \<longleftrightarrow> (\<exists>c. p = (a, c) \<and> b = f c)"
  by (cases p) auto

lemma mfa_endpoints_keep [db_keep]:
  "MFAHandler_EnrollTOTP a db b c e = (db', r) \<Longrightarrow> db_ok db \<Longrightarrow> db_ok db'"
  "MFAHandler_VerifyTOTP a2 (db, rs) b2 c2 = ((db', rs'), r2) \<Longrightarrow> db_ok db \<Longrightarrow> db_ok db'"
  "MFAHandler_EnrollEmailOTP a3 (db, rs) b3 c3 e3 = ((db', rs'), r3) \<Longrightarrow> db_ok db \<Longrightarrow> db_ok db'"
  "MFAHandler_VerifyEmailOTP a4 (db, rs) b4 c4 = ((db', rs'), r4) \<Longrightarrow> db_ok db \<Longrightarrow> db_ok db'"
  "MFAHandler_GenerateBackupCodes a5 db b5 c5 e5 = (db', r5) \<Longrightarrow> db_ok db \<Longrightarrow> db_ok db'"
  "MFAHandler_VerifyBackupCode a6 db b6 c6 = (db', r6) \<Longrightarrow> db_ok db \<Longrightarrow> db_ok db'"
  "MFAHandler_StepUpAuth a7 (db, rs) b7 c7 = ((db', rs'), r7) \<Longrightarrow> db_ok db \<Longrightarrow> db_ok db'"
  "MFAHandler_SetupMFA a8 (db, rs) b8 c8 e8 f8 = ((db', rs'), r8) \<Longrightarrow> db_ok db \<Longrightarrow> db_ok db'"
  unfolding MFAHandler_EnrollTOTP_def MFAHandler_VerifyTOTP_def MFAHandler_EnrollEmailOTP_def MFAHandler_VerifyEmailOTP_def MFAHandler_GenerateBackupCodes_def MFAHandler_VerifyBackupCode_def MFAHandler_StepUpAuth_def MFAHandler_SetupMFA_def Let_def
  by (auto simp: map_prod_id_iff split: db_splits dest!: db_keep)

section \<open>Every sequence of calls\<close>

text \<open>
  One step of the service: a call of an operation that writes tables, with any arguments and
  whatever its result, a pass of the branch synchronisation, anything that concerns Redis only
  (logins, sessions, expiry), or a connection that breaks or comes back.
\<close>

inductive api_step :: "db \<times> 'r \<Rightarrow> db \<times> 'r \<Rightarrow> bool" where
  step_Register: "Register a db b c e = (db', r) \<Longrightarrow> api_step (db, rs) (db', rs)"
| step_VerifyEmail: "VerifyEmail a db b c = (db', r) \<Longrightarrow> api_step (db, rs) (db', rs)"
| step_RecoverPassword: "RecoverPassword a db b c e = (db', r) \<Longrightarrow> api_step (db, rs) (db', rs)"
| step_ResetPassword: "ResetPassword a db b c e f = (db', r) \<Longrightarrow> api_step (db, rs) (db', rs)"
| step_ChangePassword: "ChangePassword a db b c e f g = (db', r) \<Longrightarrow> api_step (db, rs) (db', rs)"
| step_HandleRegister: "HandleRegister (a :: 'r AuthHandler) db b c e = (db', r) \<Longrightarrow> api_step (db, rs) (db', rs)"
| step_HandleUpdateProfile: "HandleUpdateProfile (a :: 'r AuthHandler) (db, rs) b c e = (db', r) \<Longrightarrow> api_step (db, rs) (db', rs)"
| step_HandleMFAVerify: "HandleMFAVerify (a :: 'r AuthHandler) db b c = (db', r) \<Longrightarrow> api_step (db, rs) (db', rs)"
| step_HandleMFADisable: "HandleMFADisable (a :: 'r AuthHandler) db b c = (db', r) \<Longrightarrow> api_step (db, rs) (db', rs)"
| step_HandleChangePassword: "HandleChangePassword (a :: 'r AuthHandler) (db, rs) b c e f = (db', r) \<Longrightarrow> api_step (db, rs) (db', rs)"
| step_HandleInitialChangePassword: "HandleInitialChangePassword (a :: 'r AuthHandler) db b c e = (db', r) \<Longrightarrow> api_step (db, rs) (db', rs)"
| step_HandleForgotPassword: "HandleForgotPassword (a :: 'r AuthHandler) db b c e = (db', r) \<Longrightarrow> api_step (db, rs) (db', rs)"
| step_HandleResetPassword: "HandleResetPassword (a :: 'r AuthHandler) db b c e = (db', r) \<Longrightarrow> api_step (db, rs) (db', rs)"
| step_handleAuthorize: "handleAuthorize (a :: 'r server) db b c e = (db', r) \<Longrightarrow> api_step (db, rs) (db', rs)"
| step_handleAuthorizeWithSession: "handleAuthorizeWithSession (a :: 'r server) (db, rs) b c e f = (db', r) \<Longrightarrow> api_step (db, rs) (db', rs)"
| step_handleToken: "handleToken (a :: 'r server) (db, rs) b c e = ((db', rs'), r) \<Longrightarrow> api_step (db, rs) (db', rs')"
| step_handleDCR: "handleDCR (a :: 'r server) db b c e f g = (db', r) \<Longrightarrow> api_step (db, rs) (db', rs)"
| step_Client_Create: "Client_Create a db b c e f g nil = (db', r) \<Longrightarrow> api_step (db, rs) (db', rs)"
| step_Client_Delete: "Client_Delete a db b = (db', r) \<Longrightarrow> api_step (db, rs) (db', rs)"
| step_handleWfCreate: "handleWfCreate a db b c e = (db', r) \<Longrightarrow> api_step (db, rs) (db', rs)"
| step_handleWfUpdate: "handleWfUpdate a db b c e = (db', r) \<Longrightarrow> api_step (db, rs) (db', rs)"
| step_handleWfDelete: "handleWfDelete a db b c e = (db', r) \<Longrightarrow> api_step (db, rs) (db', rs)"
| step_handleWfLock: "handleWfLock a db b c e = (db', r) \<Longrightarrow> api_step (db, rs) (db', rs)"
| step_handleWfUnlock: "handleWfUnlock a db b c e = (db', r) \<Longrightarrow> api_step (db, rs) (db', rs)"
| step_handleWfSetRoles: "handleWfSetRoles a db b c e f = (db', r) \<Longrightarrow> api_step (db, rs) (db', rs)"
| step_handleWfSetBranches: "handleWfSetBranches a db b c e f = (db', r) \<Longrightarrow> api_step (db, rs) (db', rs)"
| step_role_handleWfCreate: "role_handleWfCreate a db b c e = (db', r) \<Longrightarrow> api_step (db, rs) (db', rs)"
| step_role_handleWfUpdate: "role_handleWfUpdate a db b c e = (db', r) \<Longrightarrow> api_step (db, rs) (db', rs)"
| step_role_handleWfDelete: "role_handleWfDelete a db b c = (db', r) \<Longrightarrow> api_step (db, rs) (db', rs)"
| step_handleWfSetPermissions: "handleWfSetPermissions a db b c = (db', r) \<Longrightarrow> api_step (db, rs) (db', rs)"
| step_client_handleWfCreate: "client_handleWfCreate a db b c e = (db', r) \<Longrightarrow> api_step (db, rs) (db', rs)"
| step_client_handleWfUpdate: "client_handleWfUpdate a db b c e = (db', r) \<Longrightarrow> api_step (db, rs) (db', rs)"
| step_client_handleWfDelete: "client_handleWfDelete a db b c = (db', r) \<Longrightarrow> api_step (db, rs) (db', rs)"
| step_handleWfSetDefaultRoles: "handleWfSetDefaultRoles a db b c = (db', r) \<Longrightarrow> api_step (db, rs) (db', rs)"
| step_handlePutBranchDefaultRoles: "handlePutBranchDefaultRoles a db b c = (db', r) \<Longrightarrow> api_step (db, rs) (db', rs)"
| step_adminUserSvc_SuspendUser: "adminUserSvc_SuspendUser a db b c e = (db', r) \<Longrightarrow> api_step (db, rs) (db', rs)"
| step_adminBranchSvc_CreateBranch: "adminBranchSvc_CreateBranch db a b c e = (db', r) \<Longrightarrow> api_step (db, rs) (db', rs)"
| step_adminBranchSvc_UpdateBranch: "adminBranchSvc_UpdateBranch db a b c e = (db', r) \<Longrightarrow> api_step (db, rs) (db', rs)"
| step_adminBranchSvc_DeleteBranch: "adminBranchSvc_DeleteBranch a db b c = (db', r) \<Longrightarrow> api_step (db, rs) (db', rs)"
| step_adminBranchSvc_AssignUserToBranch: "adminBranchSvc_AssignUserToBranch db a b c e f g = (db', r) \<Longrightarrow> api_step (db, rs) (db', rs)"
| step_adminBranchSvc_RevokeUserBranch: "adminBranchSvc_RevokeUserBranch db a b c e = (db', r) \<Longrightarrow> api_step (db, rs) (db', rs)"
| step_Log: "Log a b db c e f g = (db', r) \<Longrightarrow> api_step (db, rs) (db', rs)"
| step_MFAHandler_EnrollTOTP: "MFAHandler_EnrollTOTP (a :: 'r MFAService) db b c e = (db', r) \<Longrightarrow> api_step (db, rs) (db', rs)"
| step_MFAHandler_VerifyTOTP: "MFAHandler_VerifyTOTP (a :: 'r MFAService) (db, rs) b c = ((db', rs'), r) \<Longrightarrow> api_step (db, rs) (db', rs')"
| step_MFAHandler_EnrollEmailOTP: "MFAHandler_EnrollEmailOTP (a :: 'r MFAService) (db, rs) b c e = ((db', rs'), r) \<Longrightarrow> api_step (db, rs) (db', rs')"
| step_MFAHandler_VerifyEmailOTP: "MFAHandler_VerifyEmailOTP (a :: 'r MFAService) (db, rs) b c = ((db', rs'), r) \<Longrightarrow> api_step (db, rs) (db', rs')"
| step_MFAHandler_GenerateBackupCodes: "MFAHandler_GenerateBackupCodes (a :: 'r MFAService) db b c e = (db', r) \<Longrightarrow> api_step (db, rs) (db', rs)"
| step_MFAHandler_VerifyBackupCode: "MFAHandler_VerifyBackupCode (a :: 'r MFAService) db b c = (db', r) \<Longrightarrow> api_step (db, rs) (db', rs)"
| step_MFAHandler_StepUpAuth: "MFAHandler_StepUpAuth (a :: 'r MFAService) (db, rs) b c = ((db', rs'), r) \<Longrightarrow> api_step (db, rs) (db', rs')"
| step_MFAHandler_SetupMFA: "MFAHandler_SetupMFA (a :: 'r MFAService) (db, rs) b c e f = ((db', rs'), r) \<Longrightarrow> api_step (db, rs) (db', rs')"
| step_CleanupExpired: "CleanupExpired db a = (db', r) \<Longrightarrow> api_step (db, rs) (db', rs)"
| step_tick: "tick U p H clock fin db = Some (db', r) \<Longrightarrow> api_step (db, rs) (db', rs)"
| step_redis: "api_step (db, rs) (db, rs')"
| step_outage: "api_step (db, rs) (db\<lparr>db_down := d\<rparr>, rs)"
| step_scan: "api_step (db, rs) (db\<lparr>db_scan := s\<rparr>, rs)"

lemma api_step_ok: "api_step st st' \<Longrightarrow> db_ok (fst st) \<Longrightarrow> db_ok (fst st')"
  by (induction rule: api_step.induct) (auto dest: db_keep tick_ok)

text \<open>
  In every state that the service reaches from empty tables, whatever operations are called
  in whatever order and with whatever failures of the connection, identifiers, user names,
  addresses, tokens and codes are unique in their tables and every reference (of credentials,
  tokens, second factors, role and branch assignments, authorization codes to users, roles,
  permissions, branches) has its row.
\<close>

theorem reachable_tables_consistent:
  assumes "api_step\<^sup>*\<^sup>* (db_empty\<lparr>db_archived := a, t_organizations := orgs\<rparr>, rs0) (db, rs)"
  shows "db_wf db \<and> keys_ok db \<and> refs_ok db"
proof -
  have "db_ok (fst (db, rs))"
    using assms by (induction rule: rtranclp_induct) (auto simp: db_empty_ok dest: api_step_ok)
  then show ?thesis by (simp add: db_ok_def)
qed

theorem reachable_tables_consistent_witness:
  "refs_ok demo_recovered \<and> length (t_users demo_recovered) = 1 \<and> length (t_verification_tokens demo_recovered) = 2"
proof -
  have e: "db_empty\<lparr>db_archived := True\<rparr> = db_empty\<lparr>db_archived := True, t_organizations := [1]\<rparr>" by (simp add: db_empty_def)
  have "api_step (db_empty\<lparr>db_archived := True\<rparr>, ()) (demo_registered, ())" unfolding demo_registered_def by (rule step_Register [OF prod.collapse [symmetric]])
  moreover have "api_step (demo_registered, ()) (demo_recovered, ())" unfolding demo_recovered_def by (rule step_RecoverPassword [OF prod.collapse [symmetric]])
  ultimately have "api_step\<^sup>*\<^sup>* (db_empty\<lparr>db_archived := True, t_organizations := [1]\<rparr>, ()) (demo_recovered, ())" unfolding e [symmetric] by auto
  from reachable_tables_consistent [OF this] show ?thesis by (simp, code_simp)
qed

end
