(* ===== verification/Spec2Isabelle.thy ===== *)
theory Spec2Isabelle
  imports Identity Authz OAuth2Props AuthProps WfProps MiddlewareProps AdminProps MfaProps BranchSyncProps
    BranchProps PolicyEvents AuthzService Emergency Validation DbInv
begin

text \<open>
  \<^bold>\<open>auth7\<close>, an authentication and authorization service written in Go: accounts and
  passwords, sessions with access and refresh tokens, an OAuth2 and OpenID Connect
  provider, role-based and policy-based permission decisions, a second factor, an admin
  API, callbacks of a workflow engine, and a projection of the branches of the
  organization. The code is under src/internal; state lives in Postgres (users,
  credentials, roles, branches, clients, codes, audit log), in Redis (sessions, refresh
  tokens, blacklist, counters, one-time keys) and in memory (signing keys, caches, the
  burst limiter).

  \<^bold>\<open>Theories and the code they model.\<close> Each theory opens with the files it translates.

  \<^item> \<^verbatim>\<open>Prelude\<close>, \<^verbatim>\<open>GoStd\<close>, \<^verbatim>\<open>GoTime\<close>, \<^verbatim>\<open>GoFloat\<close>, \<^verbatim>\<open>Base64\<close>: what the code uses of Go and its
    standard library: errors with wrapping, results, time in nanoseconds, maps as
    association lists, strings, numbers, RFC 3339 texts, float64 rounding, base64.
  \<^item> \<^verbatim>\<open>Domain\<close> (internal/domain): the entities and their methods.
  \<^item> \<^verbatim>\<open>Postgres\<close>, \<^verbatim>\<open>PostgresAuthz\<close>, \<^verbatim>\<open>PostgresOAuth\<close> (internal/store/postgres and src/migrations):
    one record \<open>db\<close> of tables, one function per statement with the constraints of the
    migrations as error branches. The statements on \<^verbatim>\<open>verification_tokens\<close> and
    \<^verbatim>\<open>email_otp_codes\<close> name columns that only the migrations under migrations/.archive create;
    the field \<open>db_archived\<close> says which schema the database has, those statements fail without
    it, and the properties of registration, verification and recovery state both cases. The
    field \<open>db_scan\<close> is the order the server reads rows in, which decides ties of \<^verbatim>\<open>ORDER BY\<close>.
  \<^item> \<^verbatim>\<open>Redis\<close>: the commands of go-redis as a record of functions on a state, the locale
    \<open>redis_server\<close> with the documented laws of the server, and an in-memory server that
    interprets it.
  \<^item> \<^verbatim>\<open>Jwt\<close> (internal/service/jwt), \<^verbatim>\<open>Session\<close>, \<^verbatim>\<open>SessionLaws\<close>, \<^verbatim>\<open>SessionProps\<close>
    (internal/service/session): keys, tokens, sessions, refresh tokens, revocation.
  \<^item> \<^verbatim>\<open>Password\<close>, \<^verbatim>\<open>Identity\<close> (internal/service/password, internal/service/identity.go): hashing,
    registration, verification of addresses, change and reset of passwords.
  \<^item> \<^verbatim>\<open>TimeWindow\<close>, \<^verbatim>\<open>Authz\<close> (internal/service/authz, rest/internal\_authz.go, grpc/authcheck):
    operating hours, policy caches, decision points, the four-layer check.
  \<^item> \<^verbatim>\<open>OAuth2\<close>, \<^verbatim>\<open>OAuth2Rest\<close>, \<^verbatim>\<open>OAuth2Props\<close> (internal/service/oauth2, rest/oauth2.go): clients,
    authorization codes, token endpoint, introspection, discovery.
  \<^item> \<^verbatim>\<open>AuthRest\<close>, \<^verbatim>\<open>AuthProps\<close> (rest/auth.go): the login endpoints.
  \<^item> \<^verbatim>\<open>AuditService\<close> (internal/service/audit), \<^verbatim>\<open>Admin\<close> (adapters of rest/admin\_routes.go),
    \<^verbatim>\<open>WfCallback\<close>, \<^verbatim>\<open>WfProps\<close> (rest/wfcallback): audit log, admin services, workflow callbacks.
  \<^item> \<^verbatim>\<open>Middleware\<close>, \<^verbatim>\<open>MiddlewareProps\<close> (internal/api/middleware): limits, locks, permission checks.
  \<^item> \<^verbatim>\<open>AdminRest\<close>, \<^verbatim>\<open>AdminProps\<close> (rest/admin, admin\_routes.go, internal\_routes.go,
    users\_lookup.go, apps.go): the admin API, the lookup, the service endpoints.
  \<^item> \<^verbatim>\<open>Mfa\<close>, \<^verbatim>\<open>MfaProps\<close> (internal/service/mfa, rest/mfa.go): the second factor service.
  \<^item> \<^verbatim>\<open>BranchSync\<close>, \<^verbatim>\<open>BranchSyncProps\<close> (internal/service/branchsync): the branch synchronisation.
  \<^item> \<^verbatim>\<open>BranchRest\<close>, \<^verbatim>\<open>BranchProps\<close> (internal/service/branch, rest/branch.go): the branch service over its
    store interfaces, the branch endpoints, the switch of the branch of a session.
  \<^item> \<^verbatim>\<open>PolicyEvents\<close> (policy7client/fetcher.go, messaging/nats/policy\_handler.go, the wiring of
    the evaluator in cmd/server/start.go): operating hours asked from the policy service, and
    the change events that drop cached ones.
  \<^item> \<^verbatim>\<open>AuthzService\<close> (authz/service.go, casbin\_adapter.go, grpc/auth, grpc/server.go): the role
    service, the enforcer, the gRPC servers.
  \<^item> \<^verbatim>\<open>Emergency\<close> (security/emergency.go, rest/emergency.go, rest/server.go): emergency logout and
    rotation, the key set and discovery endpoints.
  \<^item> \<^verbatim>\<open>Validation\<close> (security/validation.go): input checks, with regular expressions matched by
    derivatives.
  \<^item> \<^verbatim>\<open>DbRules\<close>, \<^verbatim>\<open>DbInv\<close>: the consistency of the tables under every statement, and the step
    relation of all operations that write them.

  \<^bold>\<open>How code becomes definitions.\<close> A function that changes state takes the state and returns
  it updated beside its result; a Go error is a value of \<open>error\<close>, with the texts of the
  source; a handler answers \<open>OK\<close> or \<open>Refused\<close> with a status. One call sees one instant \<open>now\<close>
  (the Redis limiter reads the clock a second time after its round trips; the model takes
  the same instant) and one state of the database connection: that a statement fails after
  an earlier one of the same call succeeded is not expressed, except by its constraints.
  Case mapping of texts is that of ASCII.
  Random values (identifiers, salts, token bytes) are arguments. A request body is the
  record it binds to. Packages and services that are not in the repository (Redis, JWT
  signatures, argon2, bcrypt, TOTP, AES, the policy engine, the operating hours service, the
  HTTP client, \<^verbatim>\<open>time.Parse\<close>, casts of Postgres) are parameters; what the proofs rely on are
  locales (\<open>redis_server\<close>, \<open>jwt_library\<close>, \<open>uuid_format\<close> with its extension \<open>uuid_fixed\<close>, \<open>argon2\<close>, \<open>bcrypt_pkg\<close>, \<open>totp_pkg\<close>) that are
  hypotheses of the theorems and are interpreted on concrete instances, which the
  witnesses use. \<open>auth_code_store\<close> is the interface between the code service and the
  Postgres repository and is interpreted on the latter.

  \<^bold>\<open>What the lemmas show.\<close>

  \<^item> Sessions: an abstract view of Redis (sessions, tokens, blacklist) that every service call
    refines; an invariant of all reachable states; single use of refresh tokens; the effect
    of each kind of revocation; binding to the address; what a delegated token proves.
  \<^item> Tokens: a verified token gives back what it was issued with; what key rotation does.
  \<^item> Accounts: hash and verify; registration, verification of the address, reset, change; what
    is left of them under the current migrations.
  \<^item> Decisions: the decision point computes exactly the declarative grant relation; all four
    layers are required; opening hours are an interval of the circle of the day; the policy
    cache refines a map with expiry.
  \<^item> OAuth2: codes are single use, exchanges are sound, round trips of the code and the
    client credentials flow, what introspection ignores.
  \<^item> Endpoints: a login replaces the sessions of the user; a recovery token resets once; what
    the second factor does not check; tenant scope of the admin API; the gate of the
    service endpoints; paging of the lookup ends and is exact; paging of the audit log is exact
    when the times of the entries are distinct.
  \<^item> Workflow callbacks refine the replacement of the roles and of the branches of a user.
  \<^item> Limits: the burst limit is an exact sliding window; the Redis limit is bounded whatever
    the rounding; failures lock.
  \<^item> Second factor: backup codes refine a multiset; replay of time-based codes; step-up.
  \<^item> Branches: a pass makes the table a projection of the source, ends, and does no harm
    when it fails; it takes reported identifiers from other organizations.
  \<^item> Branch service and switch: a switch ends the old session and its tokens and gives one for
    a branch the user is assigned to.
  \<^item> Operating hours: which decisions a change event makes ask the policy service anew.
  \<^item> Emergency: what the forced logout of an organization ends, and what its endpoint does.
  \<^item> Input checks: the matcher decides the language of each pattern; what a valid address, a
    valid scope and a sanitized text look like.
  \<^item> Tables: identifiers stay unique and references stay valid over every sequence of calls of
    the endpoints, so the hypothesis \<open>db_wf\<close> of the properties holds in every reachable state.

  \<^bold>\<open>Bounds and loops.\<close> Loops over data are structural recursion. The loop of the branch
  synchronisation is a partial function, with \<open>None\<close> for a pass that never ends, and is proved
  to end for sources that bound their number of pages. Walking through the pages of the
  user lookup takes fuel; one more than the number of users is proved to be enough.
  Integers are unbounded except where the width matters (argon2 parameters and bytes are
  words, counters in Redis stay below \<open>2 ^ 63\<close>, floating point is rounded to 53 bits).

  \<^bold>\<open>Not modelled.\<close> The commands under src/cmd beyond the wiring of the operating hours
  evaluator and src/pkg/config beyond the settings of the policy service (flags, environment,
  migrations, seeds), connection pools, the mail transport and its templates, the NATS
  client with its publishers and subscriptions, the notification client, the codec of the
  gRPC transport, gin route tables, logging and metrics: they move data in and out and
  decide nothing. Interfaces of the stores have no code. Mails and events sent in the
  background are left out of the handlers, except where a handler returns them.
  Concurrency is modelled where the code is open to races (the exchange of a code, the
  asynchronous audit log); elsewhere a call is one step.
\<close>

end
